(* ===== verification/Prelude.thy ===== *)
theory Prelude
  imports Main "HOL-Library.Sublist" "HOL-Library.Multiset"
begin

text \<open>
  The vocabulary the component theories share: Go errors as values, the shape of an effectful
  Go method (explicit state passing), the collections that gather the facts a group of proofs
  uses, and the generic lemmas on lists and options the components need.
\<close>

named_theorems call_simps \<open>unfold one effectful call of the model\<close>
named_theorems row_simps \<open>how an SQL statement changes the rows of a table\<close>
named_theorems inv_intros \<open>an operation preserves the store invariant\<close>

section \<open>Errors as values\<close>

text \<open>
  A Go function that returns \<open>(T, error)\<close> returns a \<open>T res\<close>: \<open>Inl\<close> carries the error,
  \<open>Inr\<close> the value. The sentinels compared with \<open>errors.Is\<close> in the source are constructors of
  their own; every other error is its message, as \<open>fmt.Errorf\<close> builds it.
\<close>

datatype go_error =
    ErrDuplicateWebhook
  | ErrDuplicateOrder
  | ErrOrderNotFound
  | ErrDuplicateCancellation
  | ErrDuplicatePayment
  | ErrInfra
  | ErrUnauthorised
  | Errorf string

type_synonym 'a res = "go_error + 'a"

fun err_msg :: "go_error \<Rightarrow> string" where
  "err_msg ErrDuplicateWebhook = ''duplicate webhook''"
| "err_msg ErrDuplicateOrder = ''duplicate shopify order id''"
| "err_msg ErrOrderNotFound = ''order not found''"
| "err_msg ErrDuplicateCancellation = ''duplicate cancellation webhook''"
| "err_msg ErrDuplicatePayment = ''duplicate shopify transaction''"
| "err_msg ErrInfra = ''infrastructure error''"
| "err_msg ErrUnauthorised = ''graph: unauthorised''"
| "err_msg (Errorf s) = s"

text \<open>\<open>fmt.Errorf("prefix: %w", err)\<close>; the source never inspects a wrapped sentinel again.\<close>

definition wrap_err :: "string \<Rightarrow> go_error \<Rightarrow> go_error" where
  "wrap_err p e = Errorf (p @ '': '' @ err_msg e)"

fun map_res :: "('a \<Rightarrow> 'b) \<Rightarrow> 'a res \<Rightarrow> 'b res" where
  "map_res f (Inl e) = Inl e"
| "map_res f (Inr x) = Inr (f x)"

fun is_ok :: "'a res \<Rightarrow> bool" where
  "is_ok (Inl _) = False"
| "is_ok (Inr _) = True"

section \<open>Lists\<close>

lemma sorted_key_append_iff:
  "sorted (map f (xs @ ys)) \<longleftrightarrow>
     sorted (map f xs) \<and> sorted (map f ys) \<and> (\<forall>x\<in>set xs. \<forall>y\<in>set ys. f x \<le> f y)"
  by (auto simp: sorted_append)

lemma distinct_map_filterI: "distinct (map f xs) \<Longrightarrow> distinct (map f (filter P xs))"
  by (induction xs) auto

lemma distinct_map_inj_on: "distinct (map f xs) \<Longrightarrow> x \<in> set xs \<Longrightarrow> y \<in> set xs \<Longrightarrow> f x = f y \<Longrightarrow> x = y"
  by (simp add: distinct_map inj_on_def)

lemma find_filter: "find P xs = (case filter P xs of [] \<Rightarrow> None | x # _ \<Rightarrow> Some x)"
  by (induction xs) auto

lemma find_in_set: "find P xs = Some x \<Longrightarrow> x \<in> set xs \<and> P x"
  by (induction xs) (auto split: if_splits)

lemma find_None_all: "find P xs = None \<Longrightarrow> x \<in> set xs \<Longrightarrow> \<not> P x"
  by (induction xs) (auto split: if_splits)

lemma find_unique_key:
  "distinct (map f xs) \<Longrightarrow> x \<in> set xs \<Longrightarrow> find (\<lambda>y. f y = f x) xs = Some x"
  by (induction xs) auto

lemma sum_list_zero_iff_nat: "sum_list (xs::nat list) = 0 \<longleftrightarrow> (\<forall>x\<in>set xs. x = 0)"
  by (induction xs) auto

end
