(* ===== verification/GoStrings.thy ===== *)
theory GoStrings
  imports Prelude
begin

text \<open>
  What the service uses of Go's \<open>strings\<close> and \<open>strconv\<close>. A Go string is a byte sequence, an
  Isabelle \<open>string\<close> a list of 8-bit characters, so \<open>length\<close>, slicing and indexing agree.
\<close>

section \<open>Prefixes, search, split and join\<close>

definition HasPrefix :: "string \<Rightarrow> string \<Rightarrow> bool" where
  "HasPrefix s p \<longleftrightarrow> take (length p) s = p"

definition HasSuffix :: "string \<Rightarrow> string \<Rightarrow> bool" where
  "HasSuffix s p \<longleftrightarrow> HasPrefix (rev s) (rev p)"

fun Index :: "string \<Rightarrow> string \<Rightarrow> nat option" where
  "Index [] sub = (if sub = [] then Some 0 else None)"
| "Index (c # s) sub =
     (if HasPrefix (c # s) sub then Some 0 else map_option Suc (Index s sub))"

definition Contains :: "string \<Rightarrow> string \<Rightarrow> bool" where
  "Contains s sub \<longleftrightarrow> Index s sub \<noteq> None"

text \<open>\<open>strings.Split\<close> for a separator of one byte (the only use): never the empty list.\<close>

fun Split :: "char \<Rightarrow> string \<Rightarrow> string list" where
  "Split d [] = [[]]"
| "Split d (c # s) =
     (if c = d then [] # Split d s
      else (case Split d s of [] \<Rightarrow> [[c]] | p # ps \<Rightarrow> (c # p) # ps))"

text \<open>\<open>strings.SplitN(s, sep, 2)\<close> for a separator of one byte.\<close>

definition Split2 :: "char \<Rightarrow> string \<Rightarrow> string list" where
  "Split2 d s =
     (if d \<in> set s then [takeWhile (\<lambda>c. c \<noteq> d) s, tl (dropWhile (\<lambda>c. c \<noteq> d) s)] else [s])"

fun Join :: "string \<Rightarrow> string list \<Rightarrow> string" where
  "Join sep [] = []"
| "Join sep [x] = x"
| "Join sep (x # y # ys) = x @ sep @ Join sep (y # ys)"

text \<open>\<open>strings.TrimRight(s, "/")\<close>.\<close>

definition TrimRight :: "char \<Rightarrow> string \<Rightarrow> string" where
  "TrimRight c s = rev (dropWhile (\<lambda>x. x = c) (rev s))"

lemma Split_not_Nil [simp]: "Split d s \<noteq> []"
  by (induction s) (auto split: list.splits)

lemma Join_Split: "Join [d] (Split d s) = s"
proof (induction s)
  case (Cons c s)
  obtain p ps where ps: "Split d s = p # ps" by (cases "Split d s") auto
  show ?case
    using Cons.IH by (cases ps) (auto simp: ps)
qed simp

lemma Split_no_sep: "p \<in> set (Split d s) \<Longrightarrow> d \<notin> set p"
  by (induction s arbitrary: p) (auto split: if_splits list.splits)

lemma HasPrefix_iff_append: "HasPrefix s p \<longleftrightarrow> (\<exists>t. s = p @ t)"
  by (metis HasPrefix_def append_eq_conv_conj append_take_drop_id)

section \<open>White space and case\<close>

text \<open>
  The UTF-8 encodings of the code points \<open>unicode.IsSpace\<close> accepts; \<open>strings.TrimSpace\<close> removes
  them at both ends.
\<close>

definition space_runes :: "string list" where
  "space_runes =
     map (\<lambda>n. [char_of n]) [9, 10, 11, 12, 13, 32 :: nat] @
     [[char_of (0xC2::nat), char_of (0x85::nat)], [char_of (0xC2::nat), char_of (0xA0::nat)],
      [char_of (0xE1::nat), char_of (0x9A::nat), char_of (0x80::nat)]] @
     map (\<lambda>n. [char_of (0xE2::nat), char_of (0x80::nat), char_of n])
       [0x80, 0x81, 0x82, 0x83, 0x84, 0x85, 0x86, 0x87, 0x88, 0x89, 0x8A, 0xA8, 0xA9, 0xAF :: nat] @
     [[char_of (0xE2::nat), char_of (0x81::nat), char_of (0x9F::nat)],
      [char_of (0xE3::nat), char_of (0x80::nat), char_of (0x80::nat)]]"

lemma space_runes_code [code]: "space_runes =
   [[CHR 0x09], [CHR 0x0A], [CHR 0x0B], [CHR 0x0C], [CHR 0x0D], [CHR 0x20],
    [CHR 0xC2, CHR 0x85], [CHR 0xC2, CHR 0xA0], [CHR 0xE1, CHR 0x9A, CHR 0x80],
    [CHR 0xE2, CHR 0x80, CHR 0x80], [CHR 0xE2, CHR 0x80, CHR 0x81], [CHR 0xE2, CHR 0x80, CHR 0x82],
    [CHR 0xE2, CHR 0x80, CHR 0x83], [CHR 0xE2, CHR 0x80, CHR 0x84], [CHR 0xE2, CHR 0x80, CHR 0x85],
    [CHR 0xE2, CHR 0x80, CHR 0x86], [CHR 0xE2, CHR 0x80, CHR 0x87], [CHR 0xE2, CHR 0x80, CHR 0x88],
    [CHR 0xE2, CHR 0x80, CHR 0x89], [CHR 0xE2, CHR 0x80, CHR 0x8A], [CHR 0xE2, CHR 0x80, CHR 0xA8],
    [CHR 0xE2, CHR 0x80, CHR 0xA9], [CHR 0xE2, CHR 0x80, CHR 0xAF], [CHR 0xE2, CHR 0x81, CHR 0x9F],
    [CHR 0xE3, CHR 0x80, CHR 0x80]]"
  by code_simp

function trim_left :: "string list \<Rightarrow> string \<Rightarrow> string" where
  "trim_left ps s =
     (case find (\<lambda>p. p \<noteq> [] \<and> HasPrefix s p) ps of
        None \<Rightarrow> s
      | Some p \<Rightarrow> trim_left ps (drop (length p) s))"
  by pat_completeness auto
termination
proof (relation "measure (\<lambda>(ps, s). length s)", goal_cases)
  case (2 ps s p)
  then have "p \<noteq> []" "HasPrefix s p" by (auto dest: find_in_set)
  then show ?case by (cases s) (auto simp: HasPrefix_def)
qed simp

declare trim_left.simps [simp del]

definition TrimSpace :: "string \<Rightarrow> string" where
  "TrimSpace s = rev (trim_left (map rev space_runes) (rev (trim_left space_runes s)))"

lemma trim_left_Nil [simp]: "trim_left ps [] = []"
  by (subst trim_left.simps) (auto simp: HasPrefix_def split: option.splits dest: find_in_set)

lemma trim_left_suffix: "\<exists>p. s = p @ trim_left ps s"
proof (induction ps s rule: trim_left.induct)
  case (1 ps s)
  show ?case
  proof (cases "find (\<lambda>p. p \<noteq> [] \<and> HasPrefix s p) ps")
    case None
    then show ?thesis by (subst trim_left.simps) auto
  next
    case (Some p)
    then have "HasPrefix s p" by (auto dest: find_in_set)
    then have s: "s = p @ drop (length p) s"
      by (metis HasPrefix_def append_take_drop_id)
    from "1.IH" [OF Some] obtain q where q: "drop (length p) s = q @ trim_left ps (drop (length p) s)"
      by blast
    have "trim_left ps s = trim_left ps (drop (length p) s)"
      by (subst trim_left.simps) (simp add: Some)
    with s q have "s = (p @ q) @ trim_left ps s" by simp
    then show ?thesis by blast
  qed
qed

lemma trim_left_stops: "find (\<lambda>p. p \<noteq> [] \<and> HasPrefix (trim_left ps s) p) ps = None"
proof (induction ps s rule: trim_left.induct)
  case (1 ps s)
  show ?case
  proof (cases "find (\<lambda>p. p \<noteq> [] \<and> HasPrefix s p) ps")
    case None
    then have "trim_left ps s = s" by (subst trim_left.simps) simp
    with None show ?thesis by simp
  next
    case (Some p)
    then have "trim_left ps s = trim_left ps (drop (length p) s)"
      by (subst trim_left.simps) simp
    with "1.IH" [OF Some] show ?thesis by simp
  qed
qed

lemma trim_left_idem: "trim_left ps (trim_left ps s) = trim_left ps s"
  by (subst trim_left.simps) (simp add: trim_left_stops)

lemma TrimSpace_idem: "TrimSpace (TrimSpace s) = TrimSpace s"
proof -
  let ?l = "trim_left space_runes s"
  let ?t = "trim_left (map rev space_runes) (rev ?l)"
  obtain q where "rev ?l = q @ ?t" using trim_left_suffix by blast
  then have l: "?l = rev ?t @ rev q" by (metis rev_append rev_rev_ident)
  have "HasPrefix ?l p" if h: "HasPrefix (rev ?t) p" for p
  proof -
    have "length p \<le> length (rev ?t)"
      using arg_cong [OF h [unfolded HasPrefix_def], of length] by simp
    then show ?thesis by (subst l) (use h in \<open>simp add: HasPrefix_def\<close>)
  qed
  then have "find (\<lambda>p. p \<noteq> [] \<and> HasPrefix (rev ?t) p) space_runes = None"
    using trim_left_stops [of space_runes s] unfolding find_None_iff by blast
  then have "trim_left space_runes (rev ?t) = rev ?t"
    by (subst trim_left.simps) simp
  then show ?thesis
    by (simp add: TrimSpace_def trim_left_idem)
qed

lemma TrimSpace_Nil [simp]: "TrimSpace [] = []"
  by (simp add: TrimSpace_def)

text \<open>
  \<open>strings.ToLower\<close>, used only to compare with or search for ASCII words: ASCII letters, and the
  two other code points whose lower case is ASCII (U+0130 to \<open>i\<close>, U+212A to \<open>k\<close>). The case of
  other letters is left alone; no ASCII word can match them either way.
\<close>

definition lower_char :: "char \<Rightarrow> char" where
  "lower_char c =
     (let n = of_char c :: nat in if 65 \<le> n \<and> n \<le> 90 then char_of (n + 32) else c)"

fun ToLower :: "string \<Rightarrow> string" where
  "ToLower [] = []"
| "ToLower (c # s) =
     (if HasPrefix (c # s) [char_of (0xC4::nat), char_of (0xB0::nat)] then CHR ''i'' # ToLower (drop 1 s)
      else if HasPrefix (c # s) [char_of (0xE2::nat), char_of (0x84::nat), char_of (0xAA::nat)]
        then CHR ''k'' # ToLower (drop 2 s)
      else lower_char c # ToLower s)"

lemma ToLower_code [code]:
  "ToLower [] = []"
  "ToLower (c # s) =
     (if c = CHR 0xC4 \<and> take 1 s = [CHR 0xB0] then CHR ''i'' # ToLower (drop 1 s)
      else if c = CHR 0xE2 \<and> take 2 s = [CHR 0x84, CHR 0xAA] then CHR ''k'' # ToLower (drop 2 s)
      else lower_char c # ToLower s)"
proof -
  have r: "[char_of (0xC4::nat), char_of (0xB0::nat)] = [CHR 0xC4, CHR 0xB0]"
    "[char_of (0xE2::nat), char_of (0x84::nat), char_of (0xAA::nat)] = [CHR 0xE2, CHR 0x84, CHR 0xAA]"
    by code_simp+
  show "ToLower [] = []" by simp
  show "ToLower (c # s) =
     (if c = CHR 0xC4 \<and> take 1 s = [CHR 0xB0] then CHR ''i'' # ToLower (drop 1 s)
      else if c = CHR 0xE2 \<and> take 2 s = [CHR 0x84, CHR 0xAA] then CHR ''k'' # ToLower (drop 2 s)
      else lower_char c # ToLower s)"
    by (simp add: r HasPrefix_def take_Cons' numeral_2_eq_2)
qed
section \<open>Numbers in decimal\<close>

definition digit_char :: "int \<Rightarrow> char" where
  "digit_char n = ''0123456789'' ! nat n"

definition digit_val :: "char \<Rightarrow> int option" where
  "digit_val c = (let n = of_char c :: int in if 48 \<le> n \<and> n \<le> 57 then Some (n - 48) else None)"

definition is_digit :: "char \<Rightarrow> bool" where
  "is_digit c \<longleftrightarrow> digit_val c \<noteq> None"

text \<open>The decimal digits of a number that is not negative.\<close>

fun nat_str :: "int \<Rightarrow> string" where
  "nat_str n = (if n < 10 then [digit_char n] else nat_str (n div 10) @ [digit_char (n mod 10)])"

declare nat_str.simps [simp del]

definition Itoa :: "int \<Rightarrow> string" where
  "Itoa i = (if i < 0 then CHR ''-'' # nat_str (- i) else nat_str i)"

text \<open>\<open>%0wd\<close> for a non-negative number.\<close>

definition pad_nat :: "nat \<Rightarrow> int \<Rightarrow> string" where
  "pad_nat w n = (let s = nat_str n in replicate (w - length s) (CHR ''0'') @ s)"

definition base_val :: "int \<Rightarrow> (char \<Rightarrow> int option) \<Rightarrow> string \<Rightarrow> int" where
  "base_val b dv s = foldl (\<lambda>a c. b * a + (case dv c of None \<Rightarrow> 0 | Some d \<Rightarrow> d)) 0 s"

abbreviation digits_val :: "string \<Rightarrow> int" where
  "digits_val \<equiv> base_val 10 digit_val"

definition strip_sign :: "string \<Rightarrow> bool \<times> string" where
  "strip_sign s = (take 1 s = ''-'', if take 1 s = ''-'' \<or> take 1 s = ''+'' then drop 1 s else s)"

text \<open>\<open>strconv.ParseInt(s, 10, 64)\<close> and \<open>strconv.Atoi\<close> (64-bit \<open>int\<close>).\<close>

definition in_int64 :: "int \<Rightarrow> bool" where
  "in_int64 i \<longleftrightarrow> - (2 ^ 63) \<le> i \<and> i < 2 ^ 63"

definition ParseInt :: "string \<Rightarrow> int option" where
  "ParseInt s =
     (let (neg, ds) = strip_sign s; v = (if neg then - digits_val ds else digits_val ds)
      in if ds \<noteq> [] \<and> list_all is_digit ds \<and> in_int64 v then Some v else None)"

lemma digit_val_digit_char: "0 \<le> n \<Longrightarrow> n < 10 \<Longrightarrow> digit_val (digit_char n) = Some n"
proof -
  assume "0 \<le> n" "n < 10"
  then have "n \<in> {0,1,2,3,4,5,6,7,8,9}" by simp presburger
  then show ?thesis by (auto simp: digit_char_def digit_val_def)
qed

lemma nat_str_not_Nil [simp]: "nat_str n \<noteq> []"
  by (subst nat_str.simps) simp

lemma nat_str_digits: "0 \<le> n \<Longrightarrow> list_all is_digit (nat_str n)"
proof (induction n rule: nat_str.induct)
  case (1 n)
  have d: "is_digit (digit_char m)" if "0 \<le> m" "m < 10" for m
    using that by (simp add: is_digit_def digit_val_digit_char)
  from 1 show ?case
    by (subst nat_str.simps) (simp add: d)
qed

lemma digits_val_snoc:
  "digits_val (s @ [c]) = 10 * digits_val s + (case digit_val c of None \<Rightarrow> 0 | Some d \<Rightarrow> d)"
  by (simp add: base_val_def)

lemma digits_val_nat_str: "0 \<le> n \<Longrightarrow> digits_val (nat_str n) = n"
proof (induction n rule: nat_str.induct)
  case (1 n)
  show ?case
  proof (cases "n < 10")
    case True
    with 1 show ?thesis by (subst nat_str.simps) (simp add: base_val_def digit_val_digit_char)
  next
    case False
    with 1 show ?thesis by (subst nat_str.simps) (simp add: digits_val_snoc digit_val_digit_char)
  qed
qed

lemma nat_str_no_sign: "0 \<le> n \<Longrightarrow> take 1 (nat_str n) \<noteq> ''-'' \<and> take 1 (nat_str n) \<noteq> ''+''"
proof -
  assume n: "0 \<le> n"
  obtain c cs where c: "nat_str n = c # cs" by (cases "nat_str n") auto
  with nat_str_digits [OF n] have "is_digit c" by simp
  then have "c \<noteq> CHR ''-'' \<and> c \<noteq> CHR ''+''"
    by (auto simp: is_digit_def digit_val_def)
  then show ?thesis by (simp add: c)
qed

lemma ParseInt_Itoa: "in_int64 i \<Longrightarrow> ParseInt (Itoa i) = Some i"
  using nat_str_no_sign [of i]
  by (cases "i < 0")
    (auto simp: ParseInt_def Itoa_def strip_sign_def Let_def digits_val_nat_str nat_str_digits)

end
