(* ===== verification/GoTime.thy ===== *)
theory GoTime
  imports GoStrings
begin

text \<open>
  Go's \<open>time.Time\<close> as an instant (nanoseconds since 1970-01-01T00:00:00Z) with the zone offset it
  is displayed in (seconds east of UTC), the layouts the service formats with, and
  \<open>time.Parse(time.RFC3339, s)\<close>.
\<close>

record gtime =
  t_ns :: int
  t_off :: int

definition Second :: int where "Second = 1000000000"

definition UTC :: "gtime \<Rightarrow> gtime" where
  "UTC t = t\<lparr>t_off := 0\<rparr>"

definition Before :: "gtime \<Rightarrow> gtime \<Rightarrow> bool" where
  "Before t u \<longleftrightarrow> t_ns t < t_ns u"

definition TimeEqual :: "gtime \<Rightarrow> gtime \<Rightarrow> bool" where
  "TimeEqual t u \<longleftrightarrow> t_ns t = t_ns u"

definition AddTime :: "gtime \<Rightarrow> int \<Rightarrow> gtime" where
  "AddTime t d = t\<lparr>t_ns := t_ns t + d\<rparr>"

text \<open>The zero \<open>Time\<close> is 1 January of year 1, 00:00:00 UTC.\<close>

definition zero_time :: gtime where
  "zero_time = \<lparr>t_ns = - 62135596800 * 1000000000, t_off = 0\<rparr>"

definition IsZero :: "gtime \<Rightarrow> bool" where
  "IsZero t \<longleftrightarrow> t_ns t = t_ns zero_time"

definition Unix :: "gtime \<Rightarrow> int" where
  "Unix t = t_ns t div Second"

section \<open>The calendar\<close>

definition days_from_civil :: "int \<Rightarrow> int \<Rightarrow> int \<Rightarrow> int" where
  "days_from_civil y m d =
     (let y' = (if m \<le> 2 then y - 1 else y);
          era = y' div 400; yoe = y' mod 400;
          doy = (153 * (m + (if 2 < m then - 3 else 9)) + 2) div 5 + d - 1;
          doe = yoe * 365 + yoe div 4 - yoe div 100 + doy
      in era * 146097 + doe - 719468)"

definition civil_from_days :: "int \<Rightarrow> int \<times> int \<times> int" where
  "civil_from_days z0 =
     (let z = z0 + 719468; era = z div 146097; doe = z mod 146097;
          yoe = (doe - doe div 1460 + doe div 36524 - doe div 146096) div 365;
          doy = doe - (365 * yoe + yoe div 4 - yoe div 100);
          mp = (5 * doy + 2) div 153;
          m = mp + (if mp < 10 then 3 else - 9)
      in (yoe + era * 400 + (if m \<le> 2 then 1 else 0), m, doy - (153 * mp + 2) div 5 + 1))"

definition local_secs :: "gtime \<Rightarrow> int" where
  "local_secs t = t_ns t div Second + t_off t"

definition Date :: "gtime \<Rightarrow> int \<times> int \<times> int" where
  "Date t = civil_from_days (local_secs t div 86400)"

definition Hour :: "gtime \<Rightarrow> int" where
  "Hour t = (local_secs t mod 86400) div 3600"

text \<open>Day of the week, 0 for Sunday; 1 January 1970 was a Thursday.\<close>

definition Weekday :: "gtime \<Rightarrow> int" where
  "Weekday t = (local_secs t div 86400 + 4) mod 7"

definition leap :: "int \<Rightarrow> bool" where
  "leap y \<longleftrightarrow> y mod 4 = 0 \<and> (y mod 100 \<noteq> 0 \<or> y mod 400 = 0)"

definition days_in :: "int \<Rightarrow> int \<Rightarrow> int" where
  "days_in y m =
     (if m = 2 then (if leap y then 29 else 28) else if m \<in> {4, 6, 9, 11} then 30 else 31)"

section \<open>Layouts\<close>

text \<open>\<open>"2006-01-02"\<close>, \<open>"20060102"\<close>, \<open>"200601"\<close> and RFC 3339.\<close>

definition fmt_date :: "gtime \<Rightarrow> string" where
  "fmt_date t = (let (y, m, d) = Date t in pad_nat 4 y @ ''-'' @ pad_nat 2 m @ ''-'' @ pad_nat 2 d)"

definition fmt_compact :: "gtime \<Rightarrow> string" where
  "fmt_compact t = (let (y, m, d) = Date t in pad_nat 4 y @ pad_nat 2 m @ pad_nat 2 d)"

definition fmt_period :: "gtime \<Rightarrow> string" where
  "fmt_period t = (let (y, m, d) = Date t in pad_nat 4 y @ pad_nat 2 m)"

definition fmt_clock :: "gtime \<Rightarrow> string" where
  "fmt_clock t = (let s = local_secs t mod 86400 in
     pad_nat 2 (s div 3600) @ '':'' @ pad_nat 2 (s mod 3600 div 60) @ '':'' @ pad_nat 2 (s mod 60))"

definition fmt_zone :: "gtime \<Rightarrow> string" where
  "fmt_zone t =
     (if t_off t = 0 then ''Z''
      else (if t_off t < 0 then ''-'' else ''+'') @
           pad_nat 2 (\<bar>t_off t\<bar> div 3600) @ '':'' @ pad_nat 2 (\<bar>t_off t\<bar> mod 3600 div 60))"

definition fmt_rfc3339 :: "gtime \<Rightarrow> string" where
  "fmt_rfc3339 t = fmt_date t @ ''T'' @ fmt_clock t @ fmt_zone t"

section \<open>Parsing RFC 3339\<close>

definition num_field :: "nat \<Rightarrow> string \<Rightarrow> (int \<times> string) option" where
  "num_field n s =
     (if length (take n s) = n \<and> list_all is_digit (take n s)
      then Some (digits_val (take n s), drop n s) else None)"

definition lit_field :: "string \<Rightarrow> string \<Rightarrow> string option" where
  "lit_field p s = (if HasPrefix s p then Some (drop (length p) s) else None)"

text \<open>Fractional seconds, which \<open>Parse\<close> accepts after the seconds field; nine digits count.\<close>

definition frac_field :: "string \<Rightarrow> int \<times> string" where
  "frac_field s =
     (case s of
        c # r \<Rightarrow>
          (if (c = CHR ''.'' \<or> c = CHR '','') \<and> r \<noteq> [] \<and> is_digit (hd r)
           then (let ds = take 9 (takeWhile is_digit r)
                 in (digits_val ds * 10 ^ (9 - length ds), dropWhile is_digit r))
           else (0, s))
      | [] \<Rightarrow> (0, s))"

definition zone_field :: "string \<Rightarrow> int option" where
  "zone_field s =
     (if s = ''Z'' then Some 0
      else case (take 1 s, num_field 2 (drop 1 s)) of
        (sg, Some (h, r)) \<Rightarrow>
          (case lit_field '':'' r of
             None \<Rightarrow> None
           | Some r' \<Rightarrow>
               (case num_field 2 r' of
                  Some (m, []) \<Rightarrow>
                    if h \<le> 24 \<and> m \<le> 60 \<and> (sg = ''+'' \<or> sg = ''-'')
                    then Some ((if sg = ''-'' then - 1 else 1) * (h * 3600 + m * 60)) else None
                | _ \<Rightarrow> None))
      | _ \<Rightarrow> None)"

text \<open>The hour of the layout may have one digit.\<close>

definition hour_field :: "string \<Rightarrow> (int \<times> string) option" where
  "hour_field s = (case num_field 2 s of Some r \<Rightarrow> Some r | None \<Rightarrow> num_field 1 s)"

definition parse_hms :: "string \<Rightarrow> (int \<times> string) option" where
  "parse_hms s =
     Option.bind (hour_field s) (\<lambda>(hh, s).
     Option.bind (lit_field '':'' s) (\<lambda>s.
     Option.bind (num_field 2 s) (\<lambda>(mi, s).
     Option.bind (lit_field '':'' s) (\<lambda>s.
     Option.bind (num_field 2 s) (\<lambda>(ss, s).
       if hh < 24 \<and> mi < 60 \<and> ss < 60 then Some (hh * 3600 + mi * 60 + ss, s) else None)))))"

definition parse_ymd :: "string \<Rightarrow> (int \<times> string) option" where
  "parse_ymd s =
     Option.bind (num_field 4 s) (\<lambda>(y, s).
     Option.bind (lit_field ''-'' s) (\<lambda>s.
     Option.bind (num_field 2 s) (\<lambda>(m, s).
     Option.bind (lit_field ''-'' s) (\<lambda>s.
     Option.bind (num_field 2 s) (\<lambda>(d, s).
       if 1 \<le> m \<and> m \<le> 12 \<and> 1 \<le> d \<and> d \<le> days_in y m
       then Some (days_from_civil y m d, s) else None)))))"

definition ParseRFC3339 :: "string \<Rightarrow> gtime option" where
  "ParseRFC3339 s =
     Option.bind (parse_ymd s) (\<lambda>(days, s).
     Option.bind (lit_field ''T'' s) (\<lambda>s.
     Option.bind (parse_hms s) (\<lambda>(secs, s).
     let (frac, z) = frac_field s in
     Option.bind (zone_field z) (\<lambda>off.
       Some \<lparr>t_ns = (days * 86400 + secs - off) * Second + frac, t_off = off\<rparr>))))"

text \<open>\<open>time.Parse("2006-01-02", s)\<close>.\<close>

definition ParseDate :: "string \<Rightarrow> gtime option" where
  "ParseDate s =
     (case parse_ymd s of Some (days, []) \<Rightarrow> Some \<lparr>t_ns = days * 86400 * Second, t_off = 0\<rparr> | _ \<Rightarrow> None)"

text \<open>Midnight UTC of the UTC day of a time (\<open>time.Date(y, m, d, 0, 0, 0, 0, time.UTC)\<close>).\<close>

definition utc_midnight :: "gtime \<Rightarrow> gtime" where
  "utc_midnight t = (let (y, m, d) = Date t in \<lparr>t_ns = days_from_civil y m d * 86400 * Second, t_off = 0\<rparr>)"

definition AddDays :: "gtime \<Rightarrow> int \<Rightarrow> gtime" where
  "AddDays t n = t\<lparr>t_ns := t_ns t + n * 86400 * Second\<rparr>"

end
