(* ===== verification/GoFloat.thy ===== *)
theory GoFloat
  imports GoStrings Complex_Main
begin

text \<open>
  Go's \<open>float64\<close>: IEEE binary64 with round to nearest, ties to even. A finite value is the rational
  it stands for, so arithmetic is exact arithmetic followed by \<open>round64\<close>. Negative zero is
  identified with zero (it compares equal, and the amounts pass through NUMERIC columns, which have
  no signed zero). \<open>strconv.ParseFloat\<close>, the verb \<open>%.2f\<close>, \<open>math.Round\<close> and the conversion to
  \<open>int\<close> are here too.
\<close>

section \<open>Values and rounding\<close>

datatype float64 = Fin rat | Inf bool \<comment> \<open>True: negative\<close> | NaN

definition pow2 :: "int \<Rightarrow> rat" where
  "pow2 e = (if 0 \<le> e then 2 ^ nat e else 1 / 2 ^ nat (- e))"

definition round_even :: "rat \<Rightarrow> int" where
  "round_even q =
     (let f = \<lfloor>q\<rfloor>; r = q - of_int f
      in if r < 1 / 2 then f else if 1 / 2 < r then f + 1 else if even f then f else f + 1)"

fun bit_len :: "int \<Rightarrow> int" where
  "bit_len n = (if n \<le> 0 then 0 else 1 + bit_len (n div 2))"

declare bit_len.simps [simp del]

text \<open>The exponent of the leading binary digit of a positive rational.\<close>

definition flog2 :: "rat \<Rightarrow> int" where
  "flog2 q = (if 1 \<le> q then bit_len \<lfloor>q\<rfloor> - 1 else - bit_len (\<lceil>1 / q\<rceil> - 1))"

definition round_mag :: "rat \<Rightarrow> rat" where
  "round_mag q =
     (if q = 0 then 0
      else let e = max (flog2 q - 52) (- 1074) in of_int (round_even (q / pow2 e)) * pow2 e)"

definition round64 :: "rat \<Rightarrow> float64" where
  "round64 q =
     (let r = round_mag \<bar>q\<bar>
      in if 1024 \<le> flog2 r then Inf (q < 0) else Fin (if q < 0 then - r else r))"

section \<open>Arithmetic and comparison\<close>

fun fneg :: "float64 \<Rightarrow> float64" where
  "fneg (Fin a) = Fin (- a)"
| "fneg (Inf s) = Inf (\<not> s)"
| "fneg NaN = NaN"

fun fadd :: "float64 \<Rightarrow> float64 \<Rightarrow> float64" where
  "fadd (Fin a) (Fin b) = round64 (a + b)"
| "fadd NaN _ = NaN"
| "fadd _ NaN = NaN"
| "fadd (Inf s) (Inf t) = (if s = t then Inf s else NaN)"
| "fadd (Inf s) _ = Inf s"
| "fadd _ (Inf t) = Inf t"

definition fsub :: "float64 \<Rightarrow> float64 \<Rightarrow> float64" where
  "fsub x y = fadd x (fneg y)"

fun fdiv :: "float64 \<Rightarrow> float64 \<Rightarrow> float64" where
  "fdiv (Fin a) (Fin b) =
     (if b = 0 then (if a = 0 then NaN else Inf (a < 0)) else round64 (a / b))"
| "fdiv NaN _ = NaN"
| "fdiv _ NaN = NaN"
| "fdiv (Inf s) (Fin b) = Inf (s \<noteq> (b < 0))"
| "fdiv (Fin a) (Inf t) = Fin 0"
| "fdiv (Inf s) (Inf t) = NaN"

definition of_int64 :: "int \<Rightarrow> float64" where
  "of_int64 i = round64 (of_int i)"

fun flt :: "float64 \<Rightarrow> float64 \<Rightarrow> bool" where
  "flt (Fin a) (Fin b) \<longleftrightarrow> a < b"
| "flt (Inf s) (Fin b) \<longleftrightarrow> s"
| "flt (Fin a) (Inf t) \<longleftrightarrow> \<not> t"
| "flt (Inf s) (Inf t) \<longleftrightarrow> s \<and> \<not> t"
| "flt _ _ \<longleftrightarrow> False"

fun feq :: "float64 \<Rightarrow> float64 \<Rightarrow> bool" where
  "feq NaN _ \<longleftrightarrow> False"
| "feq _ NaN \<longleftrightarrow> False"
| "feq x y \<longleftrightarrow> x = y"

definition fle :: "float64 \<Rightarrow> float64 \<Rightarrow> bool" where
  "fle x y \<longleftrightarrow> flt x y \<or> feq x y"

definition fsum :: "float64 list \<Rightarrow> float64" where
  "fsum xs = foldl fadd (Fin 0) xs"

section \<open>Conversions\<close>

text \<open>\<open>math.Round\<close>: halves away from zero. The result of a finite value is representable.\<close>

definition round_away :: "rat \<Rightarrow> int" where
  "round_away q = (if q < 0 then - \<lfloor>- q + 1 / 2\<rfloor> else \<lfloor>q + 1 / 2\<rfloor>)"

text \<open>
  \<open>int(math.Round(x))\<close> with 64-bit \<open>int\<close>. Outside the range of the type the Go specification leaves
  the value to the implementation: \<open>oor\<close> is that choice.
\<close>

fun round_to_int :: "(float64 \<Rightarrow> int) \<Rightarrow> float64 \<Rightarrow> int" where
  "round_to_int oor (Fin q) = (let i = round_away q in if in_int64 i then i else oor (Fin q))"
| "round_to_int oor x = oor x"

definition wrap64 :: "int \<Rightarrow> int" where
  "wrap64 i = (i + 2 ^ 63) mod 2 ^ 64 - 2 ^ 63"

text \<open>\<open>fmt.Sprintf("%.2f", x)\<close>: the exact value rounded to hundredths, ties to even.\<close>

fun fmt2 :: "float64 \<Rightarrow> string" where
  "fmt2 (Fin q) =
     (let c = round_even (\<bar>q\<bar> * 100)
      in (if q < 0 then ''-'' else '''') @ nat_str (c div 100) @ ''.'' @ pad_nat 2 (c mod 100))"
| "fmt2 (Inf s) = (if s then ''-Inf'' else ''+Inf'')"
| "fmt2 NaN = ''NaN''"

text \<open>
  \<open>strconv.ParseFloat(s, 64)\<close>: \<open>None\<close> is a non-nil error (syntax or range). Decimal and hexadecimal
  literals, the underscore rule of Go literals, and the special values.
\<close>

definition hex_val :: "char \<Rightarrow> int option" where
  "hex_val c =
     (let n = of_char c :: int
      in if 48 \<le> n \<and> n \<le> 57 then Some (n - 48)
         else if 97 \<le> n \<and> n \<le> 102 then Some (n - 87)
         else if 65 \<le> n \<and> n \<le> 70 then Some (n - 55) else None)"

fun underscores :: "bool \<Rightarrow> char \<Rightarrow> string \<Rightarrow> bool" where
  "underscores hex i [] \<longleftrightarrow> i \<noteq> CHR ''_''"
| "underscores hex i (c # s) \<longleftrightarrow>
     (if is_digit c \<or> (hex \<and> hex_val c \<noteq> None) then underscores hex (CHR ''0'') s
      else if c = CHR ''_'' then i = CHR ''0'' \<and> underscores hex (CHR ''_'') s
      else i \<noteq> CHR ''_'' \<and> underscores hex (CHR ''!'') s)"

definition read_exp :: "char \<Rightarrow> string \<Rightarrow> int option" where
  "read_exp e s =
     (case s of
        [] \<Rightarrow> None
      | c # r \<Rightarrow>
          if lower_char c \<noteq> e then None
          else let (neg, ds) = strip_sign r
               in if ds = [] \<or> \<not> list_all is_digit ds then None
                  else Some (if neg then - digits_val ds else digits_val ds))"

definition read_mag :: "string \<Rightarrow> rat option" where
  "read_mag s =
     (let hex = (take 2 s = ''0x'' \<or> take 2 s = ''0X'');
          body = (if hex then drop 2 s else s);
          dv = (if hex then hex_val else digit_val);
          b = (if hex then 16 else 10) :: int;
          isd = (\<lambda>c. dv c \<noteq> None);
          ip = takeWhile isd body; r1 = dropWhile isd body;
          fp = (if take 1 r1 = ''.'' then takeWhile isd (drop 1 r1) else []);
          r2 = (if take 1 r1 = ''.'' then dropWhile isd (drop 1 r1) else r1);
          m = of_int (base_val b dv (ip @ fp)) / of_int (b ^ length fp)
      in if ip = [] \<and> fp = [] then None
         else if hex then map_option (\<lambda>e. m * pow2 e) (read_exp (CHR ''p'') r2)
         else if r2 = [] then Some m
         else map_option (\<lambda>e. m * (if 0 \<le> e then 10 ^ nat e else 1 / 10 ^ nat (- e)))
                (read_exp (CHR ''e'') r2))"

definition ParseFloat :: "string \<Rightarrow> float64 option" where
  "ParseFloat s =
     (let (neg, u) = strip_sign s; l = ToLower u;
          pre = take 2 (map lower_char u); hex = (pre = ''0x'');
          based = (pre = ''0x'' \<or> pre = ''0b'' \<or> pre = ''0o'')
      in if l = ''inf'' \<or> l = ''infinity'' then Some (Inf neg)
         else if u = s \<and> l = ''nan'' then Some NaN
         else if CHR ''_'' \<in> set u \<and>
              \<not> underscores hex (if based then CHR ''0'' else CHR ''^'') (if based then drop 2 u else u)
           then None
         else case read_mag (filter (\<lambda>c. c \<noteq> CHR ''_'') u) of
                None \<Rightarrow> None
              | Some q \<Rightarrow> (case round64 (if neg then - q else q) of Fin r \<Rightarrow> Some (Fin r) | _ \<Rightarrow> None))"

section \<open>Facts about rounding\<close>

lemma pow2_pos [simp]: "0 < pow2 e"
  by (simp add: pow2_def)

lemma pow2_nz [simp]: "pow2 e \<noteq> 0"
  by (simp add: pow2_def)

lemma round_even_nonneg: "0 \<le> q \<Longrightarrow> 0 \<le> round_even q"
  by (simp add: round_even_def Let_def)

lemma round_even_near: "\<bar>of_int (round_even q) - q\<bar> \<le> 1 / 2"
proof -
  have "of_int \<lfloor>q\<rfloor> \<le> q" "q < of_int \<lfloor>q\<rfloor> + 1"
    using floor_correct [of q] by simp_all
  then show ?thesis by (auto simp: round_even_def Let_def)
qed

lemma round_even_of_int [simp]: "round_even (of_int i) = i"
  by (simp add: round_even_def)

lemma round_mag_nonneg: "0 \<le> q \<Longrightarrow> 0 \<le> round_mag q"
  using less_imp_le [OF pow2_pos]
  by (simp add: round_mag_def Let_def round_even_nonneg)

lemma round64_Fin_nonneg: "round64 q = Fin r \<Longrightarrow> 0 \<le> q \<Longrightarrow> 0 \<le> r"
  using round_mag_nonneg [of q] by (auto simp: round64_def Let_def split: if_splits)

lemma round64_zero [simp]: "round64 0 = Fin 0"
  by (simp add: round64_def round_mag_def flog2_def bit_len.simps)

lemma round64_not_NaN [simp]: "round64 q \<noteq> NaN"
  by (simp add: round64_def Let_def)

text \<open>The error of one rounding is at most half a unit in the last place.\<close>

lemma round_mag_error:
  assumes "0 < q"
  shows "\<bar>round_mag q - q\<bar> \<le> pow2 (max (flog2 q - 52) (- 1074)) / 2"
proof -
  let ?u = "pow2 (max (flog2 q - 52) (- 1074))"
  have u: "0 < ?u" by simp
  have "round_mag q - q = (of_int (round_even (q / ?u)) - q / ?u) * ?u"
    using u assms by (simp add: round_mag_def Let_def field_simps)
  then have "\<bar>round_mag q - q\<bar> = \<bar>of_int (round_even (q / ?u)) - q / ?u\<bar> * ?u"
    by (simp add: abs_mult abs_of_pos [OF u])
  also have "\<dots> \<le> 1 / 2 * ?u"
    using round_even_near [of "q / ?u"] less_imp_le [OF u] by (rule mult_right_mono)
  finally show ?thesis by simp
qed

end
