(* ===== verification/Model.thy ===== *)
theory Model
  imports GoTime GoFloat
begin

text \<open>
  The domain types of \<open>internal/model/order.go\<close> and the row types of \<open>internal/store\<close>. A field keeps
  its Go name; where two structs share one, the row's initial is put in front (\<open>ord_ID\<close>, \<open>line_ID\<close>).
\<close>

section \<open>internal/model\<close>

datatype order_status =
    OrderStatusPending
  | OrderStatusProcessing
  | OrderStatusSubmitted
  | OrderStatusFailed
  | OrderStatusDeadLetter
  | OrderStatusFulfilled
  | OrderStatusCancelled

fun status_str :: "order_status \<Rightarrow> string" where
  "status_str OrderStatusPending = ''pending''"
| "status_str OrderStatusProcessing = ''processing''"
| "status_str OrderStatusSubmitted = ''submitted''"
| "status_str OrderStatusFailed = ''failed''"
| "status_str OrderStatusDeadLetter = ''dead_letter''"
| "status_str OrderStatusFulfilled = ''fulfilled''"
| "status_str OrderStatusCancelled = ''cancelled''"

lemma status_str_inj: "status_str a = status_str b \<longleftrightarrow> a = b"
  by (cases a; cases b) auto

record order =
  ord_ID :: int
  ShopifyOrderID :: int
  OrderNumber :: string
  Status :: order_status
  CustomerAccount :: string
  ShipFirstName :: string
  ShipLastName :: string
  ShipAddress1 :: string
  ShipAddress2 :: string
  ShipCity :: string
  ShipProvince :: string
  ShipPostcode :: string
  ShipCountry :: string
  ShipPhone :: string
  ShipEmail :: string
  PaymentReference :: string
  PaymentAmount :: float64
  ShippingAmount :: float64
  RawPayload :: string
  SysproOrderNumber :: string
  Attempts :: int
  LastError :: string
  OrderDate :: gtime
  CreatedAt :: gtime
  UpdatedAt :: gtime
  FulfilledAt :: "gtime option"
  ShopifyFulfilmentID :: string

text \<open>The value of a composite literal's fields that are not named.\<close>

definition zero_order :: order where
  "zero_order =
     \<lparr>ord_ID = 0, ShopifyOrderID = 0, OrderNumber = [], Status = OrderStatusPending,
      CustomerAccount = [], ShipFirstName = [], ShipLastName = [], ShipAddress1 = [],
      ShipAddress2 = [], ShipCity = [], ShipProvince = [], ShipPostcode = [], ShipCountry = [],
      ShipPhone = [], ShipEmail = [], PaymentReference = [], PaymentAmount = Fin 0,
      ShippingAmount = Fin 0, RawPayload = [], SysproOrderNumber = [], Attempts = 0,
      LastError = [], OrderDate = zero_time, CreatedAt = zero_time, UpdatedAt = zero_time,
      FulfilledAt = None, ShopifyFulfilmentID = []\<rparr>"

record order_line =
  line_ID :: int
  line_OrderID :: int
  SKU :: string
  Quantity :: int
  UnitPrice :: float64
  Discount :: float64
  Tax :: float64

record order_with_lines =
  ow_Order :: order
  ow_Lines :: "order_line list"

record webhook_event =
  ev_ID :: int
  WebhookID :: string
  Topic :: string
  ReceivedAt :: gtime

section \<open>internal/store rows\<close>

record order_cancellation =
  can_ID :: int
  can_OrderID :: "int option"
  can_ShopifyOrderID :: int
  can_ShopifyOrderNumber :: string
  can_SysproOrderNumber :: string
  can_ShopifyCancelReason :: string
  can_ShopifyCancelledAt :: "gtime option"
  can_SysproOrderStatus :: string
  can_Disposition :: string
  can_WebhookID :: string
  can_RawPayload :: string
  can_CreatedAt :: gtime

datatype payment_status = PayPending | PayPosted | PayFailed | PayDeadLetter

record payment_posting =
  pay_ID :: int
  pay_ShopifyOrderID :: int
  pay_ShopifyTransactionID :: int
  pay_OrderNumber :: string
  pay_CustomerEmail :: string
  pay_GrossAmount :: float64
  pay_FeeAmount :: float64
  pay_NetAmount :: float64
  pay_Currency :: string
  pay_PaymentGateway :: string
  pay_ProcessedAt :: gtime
  pay_Status :: payment_status
  pay_PostedAt :: "gtime option"
  pay_SysproReceiptRef :: string
  pay_LastError :: string
  pay_Attempts :: int
  pay_CreatedAt :: gtime
  pay_UpdatedAt :: gtime

end
