(* ===== verification/World.thy ===== *)
theory World
  imports Model
begin

text \<open>
  The state an effectful method of the service reads and writes: the PostgreSQL tables, and the
  environment. What the environment does is a script: how each database call and each HTTP request
  ends is the head of a list, so a statement about every script is a statement about every
  behaviour of PostgreSQL, SYSPRO and Shopify, lost connections and lost replies included. The
  HTTP requests that were sent are recorded in order.
\<close>

section \<open>The database\<close>

text \<open>Tables as lists of rows in insertion order; a sequence holds the last value it gave out.\<close>

record db =
  webhook_events :: "webhook_event list"
  orders :: "order list"
  order_lines :: "order_line list"
  order_cancellations :: "order_cancellation list"
  payment_postings :: "payment_posting list"
  seq_event :: int
  seq_order :: int
  seq_line :: int
  seq_cancel :: int
  seq_payment :: int

definition empty_db :: db where
  "empty_db =
     \<lparr>webhook_events = [], orders = [], order_lines = [], order_cancellations = [],
      payment_postings = [], seq_event = 0, seq_order = 0, seq_line = 0, seq_cancel = 0,
      seq_payment = 0\<rparr>"

text \<open>A rolled back transaction leaves the tables alone; sequences do not go back.\<close>

definition rollback :: "db \<Rightarrow> db \<Rightarrow> db" where
  "rollback d t =
     d\<lparr>seq_event := seq_event t, seq_order := seq_order t, seq_line := seq_line t,
       seq_cancel := seq_cancel t, seq_payment := seq_payment t\<rparr>"

section \<open>The environment\<close>

text \<open>
  How a database call ends: normally; with an error before it took effect; or with an error after
  it took effect (the reply was lost).
\<close>

datatype db_event = DbOk | DbFail string | DbLost string

record http_req =
  rq_method :: string
  rq_url :: string
  rq_query :: "(string \<times> string) list"
  rq_headers :: "(string \<times> string) list"
  rq_body :: string

text \<open>No response; a response whose body could not be read; status, \<open>Link\<close> header and body.\<close>

datatype http_outcome = TransportErr string | ReadErr string | Resp int string string

record world =
  w_db :: db
  w_clock :: int
  w_local :: int
  w_dbs :: "(db_event \<times> nat) list"
  w_http :: "(http_outcome \<times> nat) list"
  w_sent :: "http_req list"
  w_ctx :: "bool list"
  w_sessionMu :: bool

definition now :: "world \<Rightarrow> gtime" where
  "now w = \<lparr>t_ns = w_clock w, t_off = w_local w\<rparr>"

text \<open>
  One database call of a statement \<open>f\<close>, which sees the time and the tables. An exhausted script
  means that the remaining calls succeed at once.
\<close>

definition db_call :: "(gtime \<Rightarrow> db \<Rightarrow> 'a \<times> db) \<Rightarrow> world \<Rightarrow> 'a res \<times> world" where
  "db_call f w =
     (case w_dbs w of
        [] \<Rightarrow> (case f (UTC (now w)) (w_db w) of (x, d) \<Rightarrow> (Inr x, w\<lparr>w_db := d\<rparr>))
      | (ev, dt) # r \<Rightarrow>
          let w1 = w\<lparr>w_dbs := r, w_clock := w_clock w + int dt\<rparr>;
              (x, d) = f (UTC (now w1)) (w_db w1)
          in case ev of
               DbOk \<Rightarrow> (Inr x, w1\<lparr>w_db := d\<rparr>)
             | DbFail m \<Rightarrow> (Inl (Errorf m), w1)
             | DbLost m \<Rightarrow> (Inl (Errorf m), w1\<lparr>w_db := d\<rparr>))"

text \<open>
  A statement inside a transaction works on the transaction's own copy of the tables, which the
  world does not see before the commit.
\<close>

definition tx_call :: "(db \<Rightarrow> 'a \<times> db) \<Rightarrow> db \<Rightarrow> world \<Rightarrow> ('a res \<times> db) \<times> world" where
  "tx_call f t w =
     (case w_dbs w of
        [] \<Rightarrow> (case f t of (x, t') \<Rightarrow> ((Inr x, t'), w))
      | (ev, dt) # r \<Rightarrow>
          let w1 = w\<lparr>w_dbs := r, w_clock := w_clock w + int dt\<rparr>; (x, t') = f t
          in case ev of
               DbOk \<Rightarrow> ((Inr x, t'), w1)
             | DbFail m \<Rightarrow> ((Inl (Errorf m), t), w1)
             | DbLost m \<Rightarrow> ((Inl (Errorf m), t'), w1))"

text \<open>One HTTP request. An exhausted script means that nothing answers.\<close>

definition http_do :: "http_req \<Rightarrow> world \<Rightarrow> http_outcome \<times> world" where
  "http_do rq w =
     (let w1 = w\<lparr>w_sent := w_sent w @ [rq]\<rparr>
      in case w_http w of
           [] \<Rightarrow> (TransportErr ''no response'', w1)
         | (oc, dt) # r \<Rightarrow> (oc, w1\<lparr>w_http := r, w_clock := w_clock w + int dt\<rparr>))"

text \<open>\<open>ctx.Err() != nil\<close> at one of the points where the source asks.\<close>

definition ctx_err :: "world \<Rightarrow> bool \<times> world" where
  "ctx_err w = (case w_ctx w of [] \<Rightarrow> (False, w) | b # r \<Rightarrow> (b, w\<lparr>w_ctx := r\<rparr>))"

section \<open>What the primitives change\<close>

lemma db_call_frame:
  "w_sent (snd (db_call f w)) = w_sent w"
  "w_http (snd (db_call f w)) = w_http w"
  "w_sessionMu (snd (db_call f w)) = w_sessionMu w"
  "w_ctx (snd (db_call f w)) = w_ctx w"
  "w_local (snd (db_call f w)) = w_local w"
  by (auto simp: db_call_def Let_def split: list.splits prod.splits db_event.splits)

lemma db_call_clock: "w_clock w \<le> w_clock (snd (db_call f w))"
  by (auto simp: db_call_def Let_def split: list.splits prod.splits db_event.splits)

text \<open>
  The database after a call is the one before it, or the one the statement makes at some time not
  before the call; after a success it is the latter.
\<close>

lemma db_call_cases:
  obtains (kept) e where "fst (db_call f w) = Inl e" "w_db (snd (db_call f w)) = w_db w"
  | (lost) e t where "fst (db_call f w) = Inl e" "w_db (snd (db_call f w)) = snd (f t (w_db w))"
      "w_clock w \<le> t_ns t" "t_ns t = w_clock (snd (db_call f w))" "t_off t = 0"
  | (applied) t where "fst (db_call f w) = Inr (fst (f t (w_db w)))"
      "w_db (snd (db_call f w)) = snd (f t (w_db w))"
      "w_clock w \<le> t_ns t" "t_ns t = w_clock (snd (db_call f w))" "t_off t = 0"
proof (cases "w_dbs w")
  case Nil
  show ?thesis
    by (rule applied [of "UTC (now w)"])
      (simp_all add: db_call_def Nil now_def UTC_def split: prod.splits)
next
  case (Cons p r)
  obtain ev dt where p: "p = (ev, dt)" by (cases p)
  let ?w1 = "w\<lparr>w_dbs := r, w_clock := w_clock w + int dt\<rparr>"
  show ?thesis
  proof (cases ev)
    case DbOk
    show ?thesis
      by (rule applied [of "UTC (now ?w1)"])
        (simp_all add: db_call_def Cons p DbOk now_def UTC_def Let_def split: prod.splits)
  next
    case (DbFail m)
    show ?thesis
      by (rule kept [of "Errorf m"])
        (simp_all add: db_call_def Cons p DbFail Let_def split: prod.splits)
  next
    case (DbLost m)
    show ?thesis
      by (rule lost [of "Errorf m" "UTC (now ?w1)"])
        (simp_all add: db_call_def Cons p DbLost now_def UTC_def Let_def split: prod.splits)
  qed
qed

lemma db_read_value:
  assumes "db_call (\<lambda>_ d. (g d, d)) w = (r, w')"
  shows "w_db w' = w_db w \<and> (\<forall>x. r = Inr x \<longrightarrow> x = g (w_db w))"
proof -
  have "fst (db_call (\<lambda>_ d. (g d, d)) w) = r" "snd (db_call (\<lambda>_ d. (g d, d)) w) = w'"
    by (simp_all add: assms)
  then show ?thesis
    by (cases rule: db_call_cases [of "\<lambda>_ d. (g d, d)" w]) auto
qed

lemma db_call_ok [call_simps]:
  "w_dbs w = [] \<Longrightarrow>
     db_call f w = (Inr (fst (f (UTC (now w)) (w_db w))), w\<lparr>w_db := snd (f (UTC (now w)) (w_db w))\<rparr>)"
  by (simp add: db_call_def split: prod.splits)

lemma tx_call_frame:
  "w_sent (snd (tx_call f t w)) = w_sent w"
  "w_http (snd (tx_call f t w)) = w_http w"
  "w_sessionMu (snd (tx_call f t w)) = w_sessionMu w"
  "w_ctx (snd (tx_call f t w)) = w_ctx w"
  "w_local (snd (tx_call f t w)) = w_local w"
  "w_db (snd (tx_call f t w)) = w_db w"
  by (auto simp: tx_call_def Let_def split: list.splits prod.splits db_event.splits)

lemma tx_call_result:
  "fst (fst (tx_call f t w)) = Inr x \<Longrightarrow> x = fst (f t) \<and> snd (fst (tx_call f t w)) = snd (f t)"
  "snd (fst (tx_call f t w)) \<in> {t, snd (f t)}"
  by (auto simp: tx_call_def Let_def split: list.splits prod.splits db_event.splits)

lemma tx_call_ok [call_simps]: "w_dbs w = [] \<Longrightarrow> tx_call f t w = ((Inr (fst (f t)), snd (f t)), w)"
  by (simp add: tx_call_def split: prod.splits)

lemma http_do_frame:
  "w_db (snd (http_do rq w)) = w_db w"
  "w_dbs (snd (http_do rq w)) = w_dbs w"
  "w_sessionMu (snd (http_do rq w)) = w_sessionMu w"
  "w_ctx (snd (http_do rq w)) = w_ctx w"
  "w_local (snd (http_do rq w)) = w_local w"
  "w_sent (snd (http_do rq w)) = w_sent w @ [rq]"
  by (auto simp: http_do_def Let_def split: list.splits)

lemma http_do_script: "w_http (snd (http_do rq w)) = tl (w_http w)"
  by (auto simp: http_do_def Let_def split: list.splits)

lemma http_do_dry: "w_http w = [] \<Longrightarrow> fst (http_do rq w) = TransportErr ''no response''"
  by (simp add: http_do_def)

lemma ctx_err_frame:
  "w_db (snd (ctx_err w)) = w_db w"
  "w_sent (snd (ctx_err w)) = w_sent w"
  "w_http (snd (ctx_err w)) = w_http w"
  "w_dbs (snd (ctx_err w)) = w_dbs w"
  "w_sessionMu (snd (ctx_err w)) = w_sessionMu w"
  by (auto simp: ctx_err_def split: list.splits)

lemmas world_frames = db_call_frame tx_call_frame http_do_frame ctx_err_frame

end
