(* ===== verification/Json.thy ===== *)
theory Json
  imports GoFloat
begin

text \<open>
  What the service uses of \<open>encoding/json\<close>. Text becomes a tree in two passes, a lexer and a
  push-down machine over the tokens, both structurally recursive, so no fuel is needed. Decoding a
  tree into a struct is a decoder per struct tag: a key matches a field up to the case of ASCII
  letters, the last occurrence wins, \<open>null\<close> leaves a scalar as it is, and a value of the wrong
  kind is an error (\<open>None\<close>). Two refinements are left out: Go replaces invalid UTF-8 by U+FFFD,
  and rejects documents nested deeper than 10000.
\<close>

section \<open>Trees and tokens\<close>

datatype json =
    JNull
  | JBool bool
  | JNum string \<comment> \<open>the literal\<close>
  | JStr string
  | JArr "json list"
  | JObj "(string \<times> json) list"

datatype jtoken = TPunct char | TStr string | TAtom string

text \<open>A piece of a string literal: a byte, or a UTF-16 code unit from a \<open>\u\<close> escape.\<close>

datatype jpiece = PB char | PU int

definition byte :: "int \<Rightarrow> char" where
  "byte n = char_of n"

definition utf8 :: "int \<Rightarrow> string" where
  "utf8 u =
     (if u < 0x80 then [byte u]
      else if u < 0x800 then [byte (0xC0 + u div 64), byte (0x80 + u mod 64)]
      else if u < 0x10000 then
        [byte (0xE0 + u div 4096), byte (0x80 + u div 64 mod 64), byte (0x80 + u mod 64)]
      else [byte (0xF0 + u div 262144), byte (0x80 + u div 4096 mod 64),
            byte (0x80 + u div 64 mod 64), byte (0x80 + u mod 64)])"

fun pieces :: "jpiece list \<Rightarrow> string" where
  "pieces [] = []"
| "pieces (PB c # ps) = c # pieces ps"
| "pieces (PU u # PU v # ps) =
     (if 0xD800 \<le> u \<and> u < 0xDC00 \<and> 0xDC00 \<le> v \<and> v < 0xE000
      then utf8 (0x10000 + (u - 0xD800) * 1024 + (v - 0xDC00)) @ pieces ps
      else utf8 (if 0xD800 \<le> u \<and> u < 0xE000 then 0xFFFD else u) @ pieces (PU v # ps))"
| "pieces (PU u # ps) = utf8 (if 0xD800 \<le> u \<and> u < 0xE000 then 0xFFFD else u) @ pieces ps"

datatype lmode =
    LTop
  | LStr "jpiece list"
  | LEsc "jpiece list"
  | LHex "jpiece list" string
  | LAtom string

definition json_space :: "char \<Rightarrow> bool" where
  "json_space c \<longleftrightarrow> c \<in> set [CHR '' '', byte 9, byte 10, byte 13]"

definition json_punct :: "char \<Rightarrow> bool" where
  "json_punct c \<longleftrightarrow> c \<in> set ''{}[]:,''"

definition simple_esc :: "char \<Rightarrow> char option" where
  "simple_esc c =
     (if c = CHR 0x22 \<or> c = CHR 0x5C \<or> c = CHR ''/'' then Some c
      else if c = CHR ''b'' then Some (byte 8) else if c = CHR ''f'' then Some (byte 12)
      else if c = CHR ''n'' then Some (byte 10) else if c = CHR ''r'' then Some (byte 13)
      else if c = CHR ''t'' then Some (byte 9) else None)"

text \<open>Lexer modes hold what has been read of the current token in reverse.\<close>

fun jlex :: "string \<Rightarrow> lmode \<Rightarrow> jtoken list option" where
  "jlex [] LTop = Some []"
| "jlex [] (LAtom a) = Some [TAtom (rev a)]"
| "jlex [] _ = None"
| "jlex (c # s) LTop =
     (if json_space c then jlex s LTop
      else if json_punct c then map_option ((#) (TPunct c)) (jlex s LTop)
      else if c = CHR 0x22 then jlex s (LStr [])
      else jlex s (LAtom [c]))"
| "jlex (c # s) (LAtom a) =
     (if json_space c then map_option ((#) (TAtom (rev a))) (jlex s LTop)
      else if json_punct c then map_option (\<lambda>ts. TAtom (rev a) # TPunct c # ts) (jlex s LTop)
      else if c = CHR 0x22 then None
      else jlex s (LAtom (c # a)))"
| "jlex (c # s) (LStr a) =
     (if c = CHR 0x22 then map_option ((#) (TStr (pieces (rev a)))) (jlex s LTop)
      else if c = CHR 0x5C then jlex s (LEsc a)
      else if (of_char c :: int) < 32 then None
      else jlex s (LStr (PB c # a)))"
| "jlex (c # s) (LEsc a) =
     (if c = CHR ''u'' then jlex s (LHex a [])
      else case simple_esc c of None \<Rightarrow> None | Some d \<Rightarrow> jlex s (LStr (PB d # a)))"
| "jlex (c # s) (LHex a ds) =
     (if hex_val c = None then None
      else if length ds = 3 then jlex s (LStr (PU (base_val 16 hex_val (ds @ [c])) # a))
      else jlex s (LHex a (ds @ [c])))"

definition json_number :: "string \<Rightarrow> bool" where
  "json_number s =
     (let u = (if take 1 s = ''-'' then drop 1 s else s);
          ip = takeWhile is_digit u; r = dropWhile is_digit u;
          fp = (if take 1 r = ''.'' then takeWhile is_digit (drop 1 r) else ''0'');
          r2 = (if take 1 r = ''.'' then dropWhile is_digit (drop 1 r) else r)
      in ip \<noteq> [] \<and> (take 1 ip = ''0'' \<longrightarrow> ip = ''0'') \<and> fp \<noteq> [] \<and>
         (r2 = [] \<or> read_exp (CHR ''e'') r2 \<noteq> None))"

definition atom_val :: "string \<Rightarrow> json option" where
  "atom_val s =
     (if s = ''null'' then Some JNull
      else if s = ''true'' then Some (JBool True)
      else if s = ''false'' then Some (JBool False)
      else if json_number s then Some (JNum s) else None)"

section \<open>The parser: a machine with a stack of open containers\<close>

text \<open>An open object holds the members read so far (reversed) and the key being filled.\<close>

datatype jframe = FArr "json list" | FObj "(string \<times> json) list" string

datatype jmode =
    Want \<comment> \<open>a value\<close>
  | WantOrEnd \<comment> \<open>a value, or the end of an array just opened\<close>
  | WantKey
  | WantKeyOrEnd
  | WantColon string
  | Got json

definition start_val :: "jtoken \<Rightarrow> jframe list \<Rightarrow> (jmode \<times> jframe list) option" where
  "start_val t st =
     (case t of
        TStr s \<Rightarrow> Some (Got (JStr s), st)
      | TAtom a \<Rightarrow> map_option (\<lambda>v. (Got v, st)) (atom_val a)
      | TPunct c \<Rightarrow>
          (if c = CHR ''['' then Some (WantOrEnd, FArr [] # st)
           else if c = CHR ''{'' then Some (WantKeyOrEnd, FObj [] [] # st)
           else None))"

definition close_val :: "jtoken \<Rightarrow> json \<Rightarrow> jframe list \<Rightarrow> (jmode \<times> jframe list) option" where
  "close_val t v st =
     (case st of
        [] \<Rightarrow> None
      | FArr vs # r \<Rightarrow>
          (if t = TPunct (CHR '','') then Some (Want, FArr (v # vs) # r)
           else if t = TPunct (CHR '']'') then Some (Got (JArr (rev (v # vs))), r)
           else None)
      | FObj kvs k # r \<Rightarrow>
          (if t = TPunct (CHR '','') then Some (WantKey, FObj ((k, v) # kvs) [] # r)
           else if t = TPunct (CHR ''}'') then Some (Got (JObj (rev ((k, v) # kvs))), r)
           else None))"

definition want_key :: "jtoken \<Rightarrow> jframe list \<Rightarrow> (jmode \<times> jframe list) option" where
  "want_key t st = (case t of TStr k \<Rightarrow> Some (WantColon k, st) | _ \<Rightarrow> None)"

definition jstep :: "jtoken \<Rightarrow> jmode \<Rightarrow> jframe list \<Rightarrow> (jmode \<times> jframe list) option" where
  "jstep t m st =
     (case m of
        Got v \<Rightarrow> close_val t v st
      | Want \<Rightarrow> start_val t st
      | WantOrEnd \<Rightarrow>
          (if t = TPunct (CHR '']'')
           then (case st of FArr vs # r \<Rightarrow> Some (Got (JArr (rev vs)), r) | _ \<Rightarrow> None)
           else start_val t st)
      | WantKey \<Rightarrow> want_key t st
      | WantKeyOrEnd \<Rightarrow>
          (if t = TPunct (CHR ''}'')
           then (case st of FObj kvs _ # r \<Rightarrow> Some (Got (JObj (rev kvs)), r) | _ \<Rightarrow> None)
           else want_key t st)
      | WantColon k \<Rightarrow>
          (if t = TPunct (CHR '':'')
           then (case st of FObj kvs _ # r \<Rightarrow> Some (Want, FObj kvs k # r) | _ \<Rightarrow> None)
           else None))"

fun jrun :: "jtoken list \<Rightarrow> jmode \<Rightarrow> jframe list \<Rightarrow> json option" where
  "jrun [] m st = (case (m, st) of (Got v, []) \<Rightarrow> Some v | _ \<Rightarrow> None)"
| "jrun (t # ts) m st = (case jstep t m st of None \<Rightarrow> None | Some (m', st') \<Rightarrow> jrun ts m' st')"

definition json_parse :: "string \<Rightarrow> json option" where
  "json_parse s = (case jlex s LTop of None \<Rightarrow> None | Some ts \<Rightarrow> jrun ts Want [])"

section \<open>Decoding into Go values\<close>

definition fold_key :: "string \<Rightarrow> string" where
  "fold_key s = map lower_char s"

text \<open>
  One struct field: \<open>dec\<close> decodes a value, \<open>nul\<close> is what \<open>null\<close> stores (\<open>None\<close>: nothing).
\<close>

definition jfield ::
  "string \<Rightarrow> (json \<Rightarrow> 'a option) \<Rightarrow> 'a option \<Rightarrow> 'a \<Rightarrow> (string \<times> json) list \<Rightarrow> 'a option" where
  "jfield name dec nul zero kvs =
     foldl (\<lambda>acc (k, v).
        case acc of
          None \<Rightarrow> None
        | Some cur \<Rightarrow>
            if fold_key k \<noteq> fold_key name then acc
            else if v = JNull then Some (case nul of None \<Rightarrow> cur | Some z \<Rightarrow> z)
            else dec v)
       (Some zero) kvs"

definition jstruct :: "((string \<times> json) list \<Rightarrow> 'a option) \<Rightarrow> json \<Rightarrow> 'a option" where
  "jstruct f j = (case j of JObj kvs \<Rightarrow> f kvs | JNull \<Rightarrow> f [] | _ \<Rightarrow> None)"

fun jstring :: "json \<Rightarrow> string option" where
  "jstring (JStr s) = Some s"
| "jstring _ = None"

fun jint64 :: "json \<Rightarrow> int option" where
  "jint64 (JNum s) = ParseInt s"
| "jint64 _ = None"

fun jfloat :: "json \<Rightarrow> float64 option" where
  "jfloat (JNum s) = ParseFloat s"
| "jfloat _ = None"

fun jbool :: "json \<Rightarrow> bool option" where
  "jbool (JBool b) = Some b"
| "jbool _ = None"

fun those_map :: "('a \<Rightarrow> 'b option) \<Rightarrow> 'a list \<Rightarrow> 'b list option" where
  "those_map f [] = Some []"
| "those_map f (x # xs) =
     (case f x of None \<Rightarrow> None | Some y \<Rightarrow> map_option ((#) y) (those_map f xs))"

text \<open>A slice; \<open>zero\<close> is the element a \<open>null\<close> inside the array leaves.\<close>

definition jarray :: "(json \<Rightarrow> 'a option) \<Rightarrow> 'a \<Rightarrow> json \<Rightarrow> 'a list option" where
  "jarray dec zero j =
     (case j of
        JArr vs \<Rightarrow> those_map (\<lambda>v. if v = JNull then Some zero else dec v) vs
      | _ \<Rightarrow> None)"

definition fstring :: "string \<Rightarrow> (string \<times> json) list \<Rightarrow> string option" where
  "fstring name = jfield name jstring None []"

definition fint :: "string \<Rightarrow> (string \<times> json) list \<Rightarrow> int option" where
  "fint name = jfield name jint64 None 0"

definition ffloat :: "string \<Rightarrow> (string \<times> json) list \<Rightarrow> float64 option" where
  "ffloat name = jfield name jfloat None (Fin 0)"

definition fbool :: "string \<Rightarrow> (string \<times> json) list \<Rightarrow> bool option" where
  "fbool name = jfield name jbool None False"

definition farray :: "string \<Rightarrow> (json \<Rightarrow> 'a option) \<Rightarrow> 'a \<Rightarrow> (string \<times> json) list \<Rightarrow> 'a list option" where
  "farray name dec zero = jfield name (jarray dec zero) (Some []) []"

definition fptr :: "string \<Rightarrow> (json \<Rightarrow> 'a option) \<Rightarrow> (string \<times> json) list \<Rightarrow> 'a option option" where
  "fptr name dec = jfield name (\<lambda>v. map_option Some (dec v)) (Some None) None"

text \<open>A nested struct (not a pointer): absent and \<open>null\<close> leave the zero struct.\<close>

definition fstruct :: "string \<Rightarrow> ((string \<times> json) list \<Rightarrow> 'a option) \<Rightarrow> (string \<times> json) list \<Rightarrow> 'a option" where
  "fstruct name f kvs =
     (case f [] of None \<Rightarrow> None | Some z \<Rightarrow> jfield name (jstruct f) None z kvs)"

definition unmarshal :: "(json \<Rightarrow> 'a option) \<Rightarrow> string \<Rightarrow> 'a option" where
  "unmarshal dec s = Option.bind (json_parse s) dec"

section \<open>Encoding\<close>

definition hex_digit :: "int \<Rightarrow> char" where
  "hex_digit n = ''0123456789abcdef'' ! nat n"

definition u_esc :: "int \<Rightarrow> string" where
  "u_esc n = [CHR 0x5C, CHR ''u'', hex_digit (n div 4096), hex_digit (n div 256 mod 16),
              hex_digit (n div 16 mod 16), hex_digit (n mod 16)]"

definition esc_char :: "char \<Rightarrow> string" where
  "esc_char c =
     (let n = of_char c :: int
      in if c = CHR 0x22 \<or> c = CHR 0x5C then [CHR 0x5C, c]
         else if n = 8 then [CHR 0x5C, CHR ''b''] else if n = 12 then [CHR 0x5C, CHR ''f'']
         else if n = 10 then [CHR 0x5C, CHR ''n''] else if n = 13 then [CHR 0x5C, CHR ''r'']
         else if n = 9 then [CHR 0x5C, CHR ''t'']
         else if n < 32 \<or> c = CHR ''<'' \<or> c = CHR ''>'' \<or> c = CHR ''&'' then u_esc n
         else [c])"

fun json_quote_body :: "string \<Rightarrow> string" where
  "json_quote_body [] = []"
| "json_quote_body (c # s) =
     (if HasPrefix (c # s) [byte 0xE2, byte 0x80, byte 0xA8] then u_esc 0x2028 @ json_quote_body (drop 2 s)
      else if HasPrefix (c # s) [byte 0xE2, byte 0x80, byte 0xA9] then u_esc 0x2029 @ json_quote_body (drop 2 s)
      else esc_char c @ json_quote_body s)"

definition json_quote :: "string \<Rightarrow> string" where
  "json_quote s = [CHR 0x22] @ json_quote_body s @ [CHR 0x22]"

fun json_print :: "json \<Rightarrow> string" where
  "json_print JNull = ''null''"
| "json_print (JBool b) = (if b then ''true'' else ''false'')"
| "json_print (JNum s) = s"
| "json_print (JStr s) = json_quote s"
| "json_print (JArr vs) = ''['' @ Join '','' (map json_print vs) @ '']''"
| "json_print (JObj kvs) =
     ''{'' @ Join '','' (map (\<lambda>(k, v). json_quote k @ '':'' @ json_print v) kvs) @ ''}''"

text \<open>
  The shortest decimal that reads back as the same \<open>float64\<close>, as \<open>json.Marshal\<close> prints it
  (\<open>'f'\<close> form; the \<open>'e'\<close> form below 1e-6 and from 1e21).
\<close>

definition pow10 :: "int \<Rightarrow> rat" where
  "pow10 e = (if 0 \<le> e then 10 ^ nat e else 1 / 10 ^ nat (- e))"

text \<open>The decimal exponent of a positive rational: the least \<open>e\<close> with \<open>q < 10 ^ (e + 1)\<close>.\<close>

definition dec_exp :: "rat \<Rightarrow> int" where
  "dec_exp q =
     (if 1 \<le> q then int (length (nat_str \<lfloor>q\<rfloor>)) - 1
      else - int (length (nat_str (\<lceil>1 / q\<rceil> - 1))))"

definition shortest :: "rat \<Rightarrow> (int \<times> int) option" where
  \<comment> \<open>(digits, exponent of the last digit)\<close>
  "shortest q =
     (let e = dec_exp q
      in map_option (\<lambda>n. (round_even (q / pow10 (e - n + 1)), e - n + 1))
           (find (\<lambda>n. round64 (of_int (round_even (q / pow10 (e - n + 1))) * pow10 (e - n + 1)) = Fin q)
              [1, 2, 3, 4, 5, 6, 7, 8, 9, 10, 11, 12, 13, 14, 15, 16, 17]))"

definition place_point :: "string \<Rightarrow> int \<Rightarrow> string" where
  "place_point ds x =
     (if 0 \<le> x then ds @ replicate (nat x) (CHR ''0'')
      else let k = nat (- x); p = replicate (k + 1 - length ds) (CHR ''0'') @ ds;
               fr = rev (dropWhile (\<lambda>c. c = CHR ''0'') (rev (drop (length p - k) p)))
           in take (length p - k) p @ (if fr = [] then [] else ''.'' @ fr))"

definition float_lit :: "rat \<Rightarrow> string" where
  "float_lit q =
     (if q = 0 then ''0''
      else (if q < 0 then ''-'' else '''') @
        (case shortest \<bar>q\<bar> of
           None \<Rightarrow> ''0''
         | Some (d, x) \<Rightarrow>
             if \<bar>q\<bar> < pow10 (- 6) \<or> pow10 21 \<le> \<bar>q\<bar>
             then let ds = rev (dropWhile (\<lambda>c. c = CHR ''0'') (rev (nat_str d)));
                      e = x + int (length (nat_str d)) - 1
                  in take 1 ds @ (if length ds = 1 then [] else ''.'' @ drop 1 ds) @ ''e'' @
                     (if e < 0 then Itoa e else ''+'' @ Itoa e)
             else place_point (nat_str d) x))"

section \<open>Quoted text in messages\<close>

text \<open>\<open>%q\<close> of \<open>fmt\<close>, for text whose code points are printable or ASCII.\<close>

definition quote_char :: "char \<Rightarrow> string" where
  "quote_char ch =
     (let n = of_char ch :: int
      in if ch = CHR 0x22 \<or> ch = CHR 0x5C then [CHR 0x5C, ch]
         else if n = 7 then [CHR 0x5C, CHR ''a''] else if n = 8 then [CHR 0x5C, CHR ''b'']
         else if n = 9 then [CHR 0x5C, CHR ''t''] else if n = 10 then [CHR 0x5C, CHR ''n'']
         else if n = 11 then [CHR 0x5C, CHR ''v''] else if n = 12 then [CHR 0x5C, CHR ''f'']
         else if n = 13 then [CHR 0x5C, CHR ''r'']
         else if n < 32 \<or> n = 127 then [CHR 0x5C, CHR ''x'', hex_digit (n div 16), hex_digit (n mod 16)]
         else [ch])"

definition go_quote :: "string \<Rightarrow> string" where
  "go_quote s = [CHR 0x22] @ concat (map quote_char s) @ [CHR 0x22]"

end
