(* ===== verification/ShopifyGql.thy ===== *)
theory ShopifyGql
  imports World Json
begin

text \<open>
  The Shopify Admin API over GraphQL: the \<open>graphql\<close> method that \<open>inventory/shopify.go\<close> and
  \<open>fulfilment/shopify.go\<close> both have, and the calls of \<open>fulfilment/shopify.go\<close>. A JSON document the
  service builds is a \<open>json\<close> value printed with sorted keys, as \<open>json.Marshal\<close> does for a Go map.
\<close>

record gql_client =
  gq_accessToken :: string
  gq_baseURL :: string

definition gql_url :: "string \<Rightarrow> string" where
  "gql_url storeURL = ''https://'' @ TrimRight (CHR ''/'') storeURL @ ''/admin/api/2025-04/graphql.json''"

text \<open>\<open>NewFulfilmentClient\<close>, and the part of \<open>NewShopifyClient\<close> it shares; \<open>None\<close> is no base URL override.\<close>

definition NewFulfilmentClient :: "string \<Rightarrow> string \<Rightarrow> string option \<Rightarrow> gql_client" where
  "NewFulfilmentClient storeURL token override =
     \<lparr>gq_accessToken = token, gq_baseURL = (case override of None \<Rightarrow> gql_url storeURL | Some u \<Rightarrow> u)\<rparr>"

definition gql_body :: "string \<Rightarrow> json option \<Rightarrow> string" where
  "gql_body q vars = json_print (JObj ((''query'', JStr q) #
     (case vars of None \<Rightarrow> [] | Some v \<Rightarrow> [(''variables'', v)])))"

definition gql_req :: "gql_client \<Rightarrow> string \<Rightarrow> json option \<Rightarrow> http_req" where
  "gql_req c q vars =
     \<lparr>rq_method = ''POST'', rq_url = gq_baseURL c, rq_query = [],
      rq_headers = [(''Content-Type'', ''application/json''), (''X-Shopify-Access-Token'', gq_accessToken c)],
      rq_body = gql_body q vars\<rparr>"

definition json_error :: go_error where
  "json_error = Errorf ''invalid JSON or a value of the wrong type''"

text \<open>\<open>graphqlResponse\<close>: \<open>data\<close> is kept raw (\<open>None\<close> when absent), then the messages of \<open>errors\<close>.\<close>

definition dec_gql :: "(string \<times> json) list \<Rightarrow> (json option \<times> string list) option" where
  "dec_gql o1 =
     Option.bind (jfield ''data'' (\<lambda>v. Some (Some v)) (Some (Some JNull)) None o1) (\<lambda>d.
     Option.bind (farray ''errors'' (jstruct (fstring ''message'')) [] o1) (\<lambda>es. Some (d, es)))"

definition graphql :: "gql_client \<Rightarrow> string \<Rightarrow> json option \<Rightarrow> world \<Rightarrow> json option res \<times> world" where
  "graphql c q vars w =
     (case http_do (gql_req c q vars) w of
        (TransportErr m, w') \<Rightarrow> (Inl (wrap_err ''graphql request'' (Errorf m)), w')
      | (ReadErr m, w') \<Rightarrow> (Inl (wrap_err ''reading graphql response'' (Errorf m)), w')
      | (Resp st _ body, w') \<Rightarrow>
          (if st \<noteq> 200 then Inl (Errorf (''graphql HTTP '' @ Itoa st @ '': '' @ TrimSpace body))
           else case unmarshal (jstruct dec_gql) body of
                  None \<Rightarrow> Inl (wrap_err ''parsing graphql response'' json_error)
                | Some (d, []) \<Rightarrow> Inr d
                | Some (_, e # _) \<Rightarrow> Inl (Errorf (''graphql errors: '' @ e)), w'))"

text \<open>\<open>json.Unmarshal(data, &result)\<close>; no data at all is an error.\<close>

definition decode_data :: "((string \<times> json) list \<Rightarrow> 'a option) \<Rightarrow> json option \<Rightarrow> 'a option" where
  "decode_data dec d = Option.bind d (jstruct dec)"

section \<open>fulfilment/shopify.go\<close>

definition nl :: string where "nl = [byte 10]"

definition fulfillment_orders_query :: string where
  "fulfillment_orders_query =
     ''query($id: ID!) {'' @ nl @
     ''  order(id: $id) {'' @ nl @
     ''    fulfillmentOrders(first: 10) {'' @ nl @
     ''      edges { node { id status } }'' @ nl @
     ''    }'' @ nl @
     ''  }'' @ nl @
     ''}''"

text \<open>An edge's node: id and status.\<close>

definition dec_fo_node :: "(string \<times> json) list \<Rightarrow> (string \<times> string) option" where
  "dec_fo_node o1 =
     Option.bind (fstring ''id'' o1) (\<lambda>i. Option.bind (fstring ''status'' o1) (\<lambda>s. Some (i, s)))"

definition dec_fo :: "(string \<times> json) list \<Rightarrow> (string \<times> string) list option" where
  "dec_fo = fstruct ''order'' (fstruct ''fulfillmentOrders''
     (farray ''edges'' (jstruct (fstruct ''node'' dec_fo_node)) ([], [])))"

definition GetFulfillmentOrderID :: "gql_client \<Rightarrow> int \<Rightarrow> world \<Rightarrow> string res \<times> world" where
  "GetFulfillmentOrderID c sid w =
     (case graphql c fulfillment_orders_query (Some (JObj [(''id'', JStr (''gid://shopify/Order/'' @ Itoa sid))])) w of
        (Inl e, w') \<Rightarrow> (Inl (wrap_err ''querying fulfillment orders'' e), w')
      | (Inr d, w') \<Rightarrow>
          (case decode_data dec_fo d of
             None \<Rightarrow> Inl (wrap_err ''parsing fulfillment orders'' json_error)
           | Some edges \<Rightarrow>
               (case find (\<lambda>(i, st). \<not> (st = ''CLOSED'' \<or> st = ''CANCELLED'')) edges of
                  Some (i, _) \<Rightarrow> Inr i
                | None \<Rightarrow> Inl (Errorf (''no open fulfillment orders found for order '' @ Itoa sid))), w'))"

record fulfilment_input =
  FulfillmentOrderID :: string
  TrackingNumber :: string
  Carrier :: string

definition fulfillment_mutation :: string where
  "fulfillment_mutation =
     ''mutation fulfillmentCreate($fulfillment: FulfillmentInput!) {'' @ nl @
     ''  fulfillmentCreate(fulfillment: $fulfillment) {'' @ nl @
     ''    fulfillment { id status }'' @ nl @
     ''    userErrors { field message }'' @ nl @
     ''  }'' @ nl @
     ''}''"

definition fulfillment_vars :: "fulfilment_input \<Rightarrow> json" where
  "fulfillment_vars i =
     JObj [(''fulfillment'', JObj
       ([(''lineItemsByFulfillmentOrder'', JArr [JObj [(''fulfillmentOrderId'', JStr (FulfillmentOrderID i))]]),
         (''notifyCustomer'', JBool True)] @
        (if TrackingNumber i = [] then []
         else [(''trackingInfo'', JObj [(''company'', JStr (Carrier i)), (''number'', JStr (TrackingNumber i))])])))]"

text \<open>The created fulfilment's id (\<open>None\<close> for null), and the messages of the user errors.\<close>

definition dec_created :: "(string \<times> json) list \<Rightarrow> (string option \<times> string list) option" where
  "dec_created = fstruct ''fulfillmentCreate'' (\<lambda>o1.
     Option.bind (fptr ''fulfillment'' (jstruct dec_fo_node) o1) (\<lambda>f.
     Option.bind (farray ''userErrors''
         (jstruct (\<lambda>u. Option.bind (farray ''field'' jstring [] u) (\<lambda>_. fstring ''message'' u))) [] o1) (\<lambda>es.
       Some (map_option fst f, es))))"

definition already_fulfilled :: "string \<Rightarrow> bool" where
  "already_fulfilled m \<longleftrightarrow>
     Contains (ToLower m) ''already fulfilled'' \<or> Contains (ToLower m) ''already been fulfilled''"

definition CreateFulfillment :: "gql_client \<Rightarrow> fulfilment_input \<Rightarrow> world \<Rightarrow> string res \<times> world" where
  "CreateFulfillment c i w =
     (case graphql c fulfillment_mutation (Some (fulfillment_vars i)) w of
        (Inl e, w') \<Rightarrow> (Inl (wrap_err ''creating fulfillment'' e), w')
      | (Inr d, w') \<Rightarrow>
          (case decode_data dec_created d of
             None \<Rightarrow> Inl (wrap_err ''parsing fulfillment response'' json_error)
           | Some (f, es) \<Rightarrow>
               if \<exists>m\<in>set es. already_fulfilled m then Inr []
               else (case es of
                       m # _ \<Rightarrow> Inl (Errorf (''fulfillment user error: '' @ m))
                     | [] \<Rightarrow> Inr (case f of Some fid \<Rightarrow> fid | None \<Rightarrow> [])), w'))"

end
