(* ===== verification/Xml.thy ===== *)
theory Xml
  imports Json
begin

text \<open>
  What the service uses of \<open>encoding/xml\<close>: \<open>Marshal\<close> of nested string elements, and \<open>Unmarshal\<close>
  into structs of string fields addressed by a path of element names. Parsing stops at the end of
  the root element, as \<open>Unmarshal\<close> does. Name spaces are reduced to local names; the validity of
  entity references inside attribute values is not checked.
\<close>

section \<open>Trees and printing\<close>

datatype xml = XElem string "xml list" | XText string

text \<open>\<open>xml.EscapeText\<close>.\<close>

definition xml_esc :: "char \<Rightarrow> string" where
  "xml_esc c =
     (let n = of_char c :: int
      in if c = CHR 0x22 then ''&#34;'' else if c = CHR 0x27 then ''&#39;''
         else if c = CHR ''&'' then ''&amp;'' else if c = CHR ''<'' then ''&lt;''
         else if c = CHR ''>'' then ''&gt;'' else if n = 9 then ''&#x9;''
         else if n = 10 then ''&#xA;'' else if n = 13 then ''&#xD;''
         else if n < 32 then utf8 0xFFFD
         else [c])"

definition EscapeText :: "string \<Rightarrow> string" where
  "EscapeText s = concat (map xml_esc s)"

fun xml_print :: "xml \<Rightarrow> string" where
  "xml_print (XText s) = EscapeText s"
| "xml_print (XElem n cs) =
     ''<'' @ n @ ''>'' @ concat (map xml_print cs) @ ''</'' @ n @ ''>''"

text \<open>A string field of a struct; \<open>omitempty\<close> drops the element of an empty string.\<close>

definition xfield :: "string \<Rightarrow> string \<Rightarrow> xml" where
  "xfield n v = XElem n [XText v]"

definition xomit :: "string \<Rightarrow> string \<Rightarrow> xml list" where
  "xomit n v = (if v = [] then [] else [xfield n v])"

section \<open>Lexing and parsing\<close>

datatype xtoken = TText string | TMark string | TBad

datatype xmode = XT string | XM string

fun quotes_closed :: "char option \<Rightarrow> string \<Rightarrow> bool" where
  "quotes_closed q [] \<longleftrightarrow> q = None"
| "quotes_closed None (c # s) \<longleftrightarrow>
     quotes_closed (if c = CHR 0x22 \<or> c = CHR 0x27 then Some c else None) s"
| "quotes_closed (Some q) (c # s) \<longleftrightarrow> quotes_closed (if c = q then None else Some q) s"

definition mark_closed :: "string \<Rightarrow> bool" where
  "mark_closed m \<longleftrightarrow>
     (if HasPrefix m ''!--'' then 5 \<le> length m \<and> HasSuffix m ''--''
      else if HasPrefix m ''?'' then 2 \<le> length m \<and> HasSuffix m ''?''
      else if HasPrefix m ''![CDATA['' then 10 \<le> length m \<and> HasSuffix m '']]''
      else quotes_closed None m)"

fun xlex :: "string \<Rightarrow> xmode \<Rightarrow> xtoken list" where
  "xlex [] (XT a) = [TText (rev a)]"
| "xlex [] (XM a) = [TBad]"
| "xlex (c # s) (XT a) =
     (if c = CHR ''<'' then TText (rev a) # xlex s (XM []) else xlex s (XT (c # a)))"
| "xlex (c # s) (XM a) =
     (if c = CHR ''>'' \<and> mark_closed (rev a) then TMark (rev a) # xlex s (XT [])
      else xlex s (XM (c # a)))"

definition entity :: "string \<Rightarrow> string option" where
  "entity e =
     (if e = ''amp'' then Some ''&'' else if e = ''lt'' then Some ''<''
      else if e = ''gt'' then Some ''>'' else if e = ''quot'' then Some [CHR 0x22]
      else if e = ''apos'' then Some [CHR 0x27]
      else if HasPrefix e ''#x'' \<and> drop 2 e \<noteq> [] \<and> list_all (\<lambda>c. hex_val c \<noteq> None) (drop 2 e)
        then (let u = base_val 16 hex_val (drop 2 e) in if u \<le> 0x10FFFF then Some (utf8 u) else None)
      else if HasPrefix e ''#'' \<and> drop 1 e \<noteq> [] \<and> list_all is_digit (drop 1 e)
        then (let u = digits_val (drop 1 e) in if u \<le> 0x10FFFF then Some (utf8 u) else None)
      else None)"

fun unescape :: "string \<Rightarrow> string option \<Rightarrow> string option" where
  "unescape [] None = Some []"
| "unescape [] (Some e) = None"
| "unescape (c # s) None =
     (if c = CHR ''&'' then unescape s (Some []) else map_option ((#) c) (unescape s None))"
| "unescape (c # s) (Some e) =
     (if c = CHR '';''
      then (case entity (rev e) of None \<Rightarrow> None | Some t \<Rightarrow> map_option ((@) t) (unescape s None))
      else unescape s (Some (c # e)))"

definition xml_space :: "char \<Rightarrow> bool" where
  "xml_space c \<longleftrightarrow> json_space c"

definition name_char :: "char \<Rightarrow> bool" where
  "name_char c \<longleftrightarrow>
     (let n = of_char c :: int
      in is_digit c \<or> 97 \<le> n \<and> n \<le> 122 \<or> 65 \<le> n \<and> n \<le> 90 \<or> 128 \<le> n \<or> c \<in> set ''_:.-'')"

definition is_name :: "string \<Rightarrow> bool" where
  "is_name s \<longleftrightarrow> s \<noteq> [] \<and> \<not> is_digit (hd s) \<and> hd s \<notin> set ''.-'' \<and> list_all name_char s"

datatype amode = ABetween | AName string | AAfterName | AQuote | AVal char

fun attrs_ok :: "string \<Rightarrow> amode \<Rightarrow> bool" where
  "attrs_ok [] m \<longleftrightarrow> m = ABetween"
| "attrs_ok (c # s) ABetween \<longleftrightarrow>
     (if xml_space c then attrs_ok s ABetween else name_char c \<and> attrs_ok s (AName [c]))"
| "attrs_ok (c # s) (AName a) \<longleftrightarrow>
     (if name_char c then attrs_ok s (AName (c # a))
      else is_name (rev a) \<and>
        (if c = CHR ''='' then attrs_ok s AQuote else xml_space c \<and> attrs_ok s AAfterName))"
| "attrs_ok (c # s) AAfterName \<longleftrightarrow>
     (if xml_space c then attrs_ok s AAfterName else c = CHR ''='' \<and> attrs_ok s AQuote)"
| "attrs_ok (c # s) AQuote \<longleftrightarrow>
     (if xml_space c then attrs_ok s AQuote
      else (c = CHR 0x22 \<or> c = CHR 0x27) \<and> attrs_ok s (AVal c))"
| "attrs_ok (c # s) (AVal q) \<longleftrightarrow>
     (if c = q then attrs_ok s ABetween else c \<noteq> CHR ''<'' \<and> attrs_ok s (AVal q))"

text \<open>\<open>procInst\<close>: the value of a pseudo-attribute of a processing instruction.\<close>

definition proc_inst :: "string \<Rightarrow> string \<Rightarrow> string" where
  "proc_inst param s =
     (case Index s (param @ ''='') of
        None \<Rightarrow> []
      | Some i \<Rightarrow>
          (case drop (i + length param + 1) s of
             [] \<Rightarrow> []
           | q # v \<Rightarrow>
               if (q = CHR 0x22 \<or> q = CHR 0x27) \<and> q \<in> set v then takeWhile (\<lambda>c. c \<noteq> q) v else []))"

text \<open>
  A declaration is refused when it names a version other than 1.0 or an encoding other than UTF-8
  (no \<open>CharsetReader\<close> is installed).
\<close>

definition proc_ok :: "string \<Rightarrow> bool" where
  "proc_ok m \<longleftrightarrow>
     (let body = take (length m - 2) (drop 1 m)
      in takeWhile name_char body = ''xml'' \<longrightarrow>
         (proc_inst ''version'' body = [] \<or> proc_inst ''version'' body = ''1.0'') \<and>
         (proc_inst ''encoding'' body = [] \<or> map lower_char (proc_inst ''encoding'' body) = ''utf-8''))"

datatype mark = MOpen string bool | MClose string | MChars string | MSkip | MBad

definition parse_mark :: "string \<Rightarrow> mark" where
  "parse_mark m =
     (if HasPrefix m ''!--'' then MSkip
      else if HasPrefix m ''![CDATA['' then MChars (take (length m - 10) (drop 8 m))
      else if HasPrefix m ''!'' then MSkip
      else if HasPrefix m ''?'' then (if proc_ok m then MSkip else MBad)
      else if HasPrefix m ''/''
        then (let n = takeWhile name_char (drop 1 m)
              in if is_name n \<and> list_all xml_space (drop (1 + length n) m) then MClose n else MBad)
      else (let sc = HasSuffix m ''/''; b = (if sc then take (length m - 1) m else m);
                n = takeWhile name_char b
            in if is_name n \<and> attrs_ok (drop (length n) b) ABetween then MOpen n sc else MBad))"

definition local_name :: "string \<Rightarrow> string" where
  "local_name n = (if CHR '':'' \<in> set n then tl (dropWhile (\<lambda>c. c \<noteq> CHR '':'') n) else n)"

definition add_child :: "xml \<Rightarrow> (string \<times> xml list) list \<Rightarrow> (string \<times> xml list) list" where
  "add_child x st = (case st of [] \<Rightarrow> [] | (n, cs) # r \<Rightarrow> (n, x # cs) # r)"

text \<open>The stack holds the open elements with their children in reverse.\<close>

fun xrun :: "xtoken list \<Rightarrow> (string \<times> xml list) list \<Rightarrow> xml option" where
  "xrun [] st = None"
| "xrun (TBad # ts) st = None"
| "xrun (TText s # ts) st =
     (if Contains s '']]>'' then None
      else case unescape s None of
        None \<Rightarrow> None
      | Some t \<Rightarrow> xrun ts (if t = [] then st else add_child (XText t) st))"
| "xrun (TMark m # ts) st =
     (case parse_mark m of
        MBad \<Rightarrow> None
      | MSkip \<Rightarrow> xrun ts st
      | MChars s \<Rightarrow> xrun ts (add_child (XText s) st)
      | MOpen n True \<Rightarrow>
          (if st = [] then Some (XElem (local_name n) [])
           else xrun ts (add_child (XElem (local_name n) []) st))
      | MOpen n False \<Rightarrow> xrun ts ((n, []) # st)
      | MClose n \<Rightarrow>
          (case st of
             [] \<Rightarrow> None
           | (n', cs) # r \<Rightarrow>
               if n \<noteq> n' then None
               else if r = [] then Some (XElem (local_name n) (rev cs))
               else xrun ts (add_child (XElem (local_name n) (rev cs)) r)))"

definition xml_parse :: "string \<Rightarrow> xml option" where
  "xml_parse s = xrun (xlex s (XT [])) []"

section \<open>Decoding\<close>

fun chardata :: "xml list \<Rightarrow> string" where
  "chardata [] = []"
| "chardata (XText s # xs) = s @ chardata xs"
| "chardata (XElem _ _ # xs) = chardata xs"

fun elems_named :: "string \<Rightarrow> xml list \<Rightarrow> xml list list" where
  "elems_named n [] = []"
| "elems_named n (XElem m cs # xs) = (if m = n then cs # elems_named n xs else elems_named n xs)"
| "elems_named n (XText _ # xs) = elems_named n xs"

fun at_path :: "string list \<Rightarrow> xml list \<Rightarrow> xml list list" where
  "at_path [] cs = [cs]"
| "at_path (n # ns) cs = concat (map (at_path ns) (elems_named n cs))"

text \<open>A string field: the character data of the last element at the path.\<close>

definition xpath :: "string list \<Rightarrow> xml list \<Rightarrow> string" where
  "xpath p cs = (case rev (at_path p cs) of [] \<Rightarrow> [] | e # _ \<Rightarrow> chardata e)"

text \<open>\<open>xml.Unmarshal\<close> into a struct whose \<open>XMLName\<close> is \<open>tag\<close>: the children of the root element.\<close>

definition xml_unmarshal :: "string \<Rightarrow> string \<Rightarrow> xml list option" where
  "xml_unmarshal tag s =
     (case xml_parse s of
        Some (XElem n cs) \<Rightarrow> if n = tag then Some cs else None
      | _ \<Rightarrow> None)"

end
