(* ===== verification/Sortoi.thy ===== *)
theory Sortoi
  imports Xml Model
begin

text \<open>
  \<open>internal/syspro/xml.go\<close>: what is read out of the raw Shopify payload, the tax code of a line, and
  the two XML documents of a SORTOI call.
\<close>

section \<open>Reading the raw payload\<close>

text \<open>\<open>truncate(s, n)\<close>: at most \<open>n\<close> bytes.\<close>

definition truncate_bytes :: "string \<Rightarrow> nat \<Rightarrow> string" where
  "truncate_bytes s n = (if length s \<le> n then s else take n s)"

text \<open>The anonymous structs the payload is decoded into: a field the source does not list is not read.\<close>

definition dec_ship_instrs :: "json \<Rightarrow> (string \<times> string \<times> string) list option" where
  "dec_ship_instrs = jstruct (farray ''shipping_lines''
     (jstruct (\<lambda>kvs.
        case (fstring ''title'' kvs, fstring ''code'' kvs, fstring ''carrier_identifier'' kvs,
              fstring ''source'' kvs) of
          (Some t, Some c, Some ci, Some _) \<Rightarrow> Some (t, c, ci)
        | _ \<Rightarrow> None))
     ([], [], []))"

definition extractShippingInstrs :: "string \<Rightarrow> string \<times> string" where
  "extractShippingInstrs raw =
     (if raw = [] then ([], [])
      else case unmarshal dec_ship_instrs raw of
             None \<Rightarrow> ([], [])
           | Some [] \<Rightarrow> ([], [])
           | Some ((title, code, carrier) # _) \<Rightarrow> (title, if carrier = [] then code else carrier))"

definition dec_taxes_included :: "json \<Rightarrow> bool option" where
  "dec_taxes_included = jstruct (fbool ''taxes_included'')"

definition extractTaxesIncluded :: "string \<Rightarrow> bool" where
  "extractTaxesIncluded raw =
     (if raw = [] then False
      else case unmarshal dec_taxes_included raw of None \<Rightarrow> False | Some b \<Rightarrow> b)"

definition dec_ship_taxes :: "json \<Rightarrow> string list list option" where
  "dec_ship_taxes = jstruct (farray ''shipping_lines''
     (jstruct (farray ''tax_lines'' (jstruct (fstring ''price'')) [])) [])"

text \<open>\<open>total += v\<close> for every text that parses, in order.\<close>

definition add_parsed :: "float64 \<Rightarrow> string \<Rightarrow> float64" where
  "add_parsed tot s = (case ParseFloat s of None \<Rightarrow> tot | Some v \<Rightarrow> fadd tot v)"

definition extractShippingTax :: "string \<Rightarrow> float64" where
  "extractShippingTax raw =
     (if raw = [] then Fin 0
      else case unmarshal dec_ship_taxes raw of
             None \<Rightarrow> Fin 0
           | Some ls \<Rightarrow> foldl add_parsed (Fin 0) (concat ls))"

definition dec_line_rates :: "json \<Rightarrow> float64 list list option" where
  "dec_line_rates = jstruct (farray ''line_items''
     (jstruct (farray ''tax_lines'' (jstruct (ffloat ''rate'')) (Fin 0))) [])"

text \<open>The map from line index to rate; a key that is absent reads as 0.\<close>

definition extractLineRates :: "string \<Rightarrow> nat \<Rightarrow> float64 option" where
  "extractLineRates raw =
     (if raw = [] then (\<lambda>_. None)
      else case unmarshal dec_line_rates raw of
             None \<Rightarrow> (\<lambda>_. None)
           | Some ls \<Rightarrow>
               (\<lambda>i. if i < length ls then (case ls ! i of [] \<Rightarrow> None | r # _ \<Rightarrow> Some r) else None))"

definition line_rate :: "(nat \<Rightarrow> float64 option) \<Rightarrow> nat \<Rightarrow> float64" where
  "line_rate m i = (case m i of None \<Rightarrow> Fin 0 | Some r \<Rightarrow> r)"

section \<open>Tax codes\<close>

text \<open>A \<open>map[float64]string\<close> is a list of pairs with distinct keys; \<open>None\<close> is the nil map.\<close>

type_synonym tax_map = "(float64 \<times> string) list option"

definition fmap_get :: "float64 \<Rightarrow> (float64 \<times> 'v) list \<Rightarrow> 'v option" where
  "fmap_get k m = map_option snd (find (\<lambda>p. feq (fst p) k) m)"

definition fmap_put :: "float64 \<Rightarrow> 'v \<Rightarrow> (float64 \<times> 'v) list \<Rightarrow> (float64 \<times> 'v) list" where
  "fmap_put k v m = (k, v) # filter (\<lambda>p. \<not> feq (fst p) k) m"

text \<open>A floating-point literal of the source.\<close>

definition flit :: "rat \<Rightarrow> float64" where
  "flit q = round64 q"

definition default_tax_code :: "float64 \<Rightarrow> string" where
  "default_tax_code rate =
     (if fle (flit (195 / 1000)) rate \<and> fle rate (flit (205 / 1000)) then ''A''
      else if fle (flit (45 / 1000)) rate \<and> fle rate (flit (55 / 1000)) then ''B''
      else if flt rate (flit (5 / 1000)) then ''Z''
      else [])"

definition taxCodeFromRate :: "float64 \<Rightarrow> tax_map \<Rightarrow> string" where
  "taxCodeFromRate rate m =
     (case Option.bind m (fmap_get rate) of Some code \<Rightarrow> code | None \<Rightarrow> default_tax_code rate)"

definition tax_pair :: "string \<Rightarrow> (float64 \<times> string) list \<Rightarrow> (float64 \<times> string) list" where
  "tax_pair pr m =
     (case Split2 (CHR '':'') (TrimSpace pr) of
        [a, b] \<Rightarrow> (case ParseFloat (TrimSpace a) of None \<Rightarrow> m | Some r \<Rightarrow> fmap_put r (TrimSpace b) m)
      | _ \<Rightarrow> m)"

definition ParseTaxCodeMap :: "string \<Rightarrow> tax_map" where
  "ParseTaxCodeMap s =
     (if s = [] then None else Some (foldl (\<lambda>m pr. tax_pair pr m) [] (Split (CHR '','') s)))"

section \<open>The SORTOI documents\<close>

definition maxCustomerPoNumber :: nat where "maxCustomerPoNumber = 30"
definition maxAddressLine :: nat where "maxAddressLine = 40"
definition maxPostcode :: nat where "maxPostcode = 15"
definition maxEmail :: nat where "maxEmail = 80"
definition maxShippingInstrs :: nat where "maxShippingInstrs = 30"
definition maxShippingInstrsCod :: nat where "maxShippingInstrsCod = 10"

record sortoi_header =
  sh_CustomerPoNumber :: string
  sh_OrderActionType :: string
  sh_Customer :: string
  sh_OrderDate :: string
  sh_RequestedShipDate :: string
  sh_Email :: string
  sh_ShippingInstrs :: string
  sh_ShippingInstrsCod :: string
  sh_ShipAddress1 :: string
  sh_ShipAddress2 :: string
  sh_ShipAddress3 :: string
  sh_ShipAddress4 :: string
  sh_ShipAddress5 :: string
  sh_ShipPostalCode :: string

record sortoi_stock_line =
  sl_CustomerPoLine :: string
  sl_LineActionType :: string
  sl_StockCode :: string
  sl_Warehouse :: string
  sl_OrderQty :: int
  sl_OrderUom :: string
  sl_Price :: string
  sl_PriceUom :: string
  sl_TaxCode :: string

record sortoi_freight =
  fl_FreightValue :: string
  fl_FreightCost :: string

record sortoi_document =
  sd_Header :: sortoi_header
  sd_Lines :: "sortoi_stock_line list"
  sd_FreightLine :: "sortoi_freight option"

text \<open>The parameters document, in the order of the struct fields.\<close>

definition sortoi_params :: "string \<Rightarrow> xml" where
  "sortoi_params alloc =
     XElem ''SalesOrders'' [XElem ''Parameters''
       ([xfield ''Process'' ''Import'', xfield ''StatusInProcess'' ''N'',
         xfield ''ValidateOnly'' ''N'', xfield ''IgnoreWarnings'' ''W''] @
        xomit ''AllocationAction'' alloc @
        [xfield ''AcceptEarlierShipDate'' ''Y'', xfield ''ShipFromDefaultBin'' ''Y'',
         xfield ''AlwaysUsePriceEntered'' ''Y'', xfield ''AllowZeroPrice'' ''Y'',
         xfield ''AllowDuplicateOrderNumbers'' ''Y'', xfield ''OrderStatus'' ''1''])]"

definition header_xml :: "sortoi_header \<Rightarrow> xml" where
  "header_xml h =
     XElem ''OrderHeader''
       ([xfield ''CustomerPoNumber'' (sh_CustomerPoNumber h),
         xfield ''OrderActionType'' (sh_OrderActionType h), xfield ''Customer'' (sh_Customer h),
         xfield ''OrderDate'' (sh_OrderDate h),
         xfield ''RequestedShipDate'' (sh_RequestedShipDate h)] @
        xomit ''Email'' (sh_Email h) @ xomit ''ShippingInstrs'' (sh_ShippingInstrs h) @
        xomit ''ShippingInstrsCod'' (sh_ShippingInstrsCod h) @
        xomit ''ShipAddress1'' (sh_ShipAddress1 h) @ xomit ''ShipAddress2'' (sh_ShipAddress2 h) @
        xomit ''ShipAddress3'' (sh_ShipAddress3 h) @ xomit ''ShipAddress4'' (sh_ShipAddress4 h) @
        xomit ''ShipAddress5'' (sh_ShipAddress5 h) @ xomit ''ShipPostalCode'' (sh_ShipPostalCode h))"

definition line_xml :: "sortoi_stock_line \<Rightarrow> xml" where
  "line_xml l =
     XElem ''StockLine''
       ([xfield ''CustomerPoLine'' (sl_CustomerPoLine l),
         xfield ''LineActionType'' (sl_LineActionType l), xfield ''StockCode'' (sl_StockCode l)] @
        xomit ''Warehouse'' (sl_Warehouse l) @
        [xfield ''OrderQty'' (Itoa (sl_OrderQty l)), xfield ''OrderUom'' (sl_OrderUom l),
         xfield ''Price'' (sl_Price l), xfield ''PriceUom'' (sl_PriceUom l)] @
        xomit ''StockTaxCode'' (sl_TaxCode l))"

definition freight_xml :: "sortoi_freight \<Rightarrow> xml" where
  "freight_xml f =
     XElem ''FreightLine'' [xfield ''FreightValue'' (fl_FreightValue f), xfield ''FreightCost'' (fl_FreightCost f)]"

definition document_xml :: "sortoi_document \<Rightarrow> xml" where
  "document_xml d =
     XElem ''SalesOrders'' [XElem ''Orders''
       [header_xml (sd_Header d),
        XElem ''OrderDetails''
          (map line_xml (sd_Lines d) @
           (case sd_FreightLine d of None \<Rightarrow> [] | Some f \<Rightarrow> [freight_xml f]))]]"

text \<open>The unit price of a line: discount and, for tax-inclusive orders, tax are taken off per unit.\<close>

definition net_price :: "bool \<Rightarrow> order_line \<Rightarrow> float64" where
  "net_price incl l =
     (let n0 = UnitPrice l;
          n1 = (if flt (Fin 0) (Discount l) \<and> 0 < Quantity l
                then fsub n0 (fdiv (Discount l) (of_int64 (Quantity l))) else n0)
      in if incl \<and> flt (Fin 0) (Tax l) \<and> 0 < Quantity l
         then fsub n1 (fdiv (Tax l) (of_int64 (Quantity l))) else n1)"

definition stock_line :: "bool \<Rightarrow> (nat \<Rightarrow> float64 option) \<Rightarrow> string \<Rightarrow> tax_map \<Rightarrow> nat \<Rightarrow> order_line \<Rightarrow> sortoi_stock_line" where
  "stock_line incl rates wh tm i l =
     \<lparr>sl_CustomerPoLine = pad_nat 4 (int i + 1), sl_LineActionType = ''A'', sl_StockCode = SKU l,
      sl_Warehouse = wh, sl_OrderQty = Quantity l, sl_OrderUom = ''EA'',
      sl_Price = fmt2 (net_price incl l), sl_PriceUom = ''EA'',
      sl_TaxCode = taxCodeFromRate (line_rate rates i) tm\<rparr>"

definition sortoi_doc :: "order \<Rightarrow> order_line list \<Rightarrow> string \<Rightarrow> tax_map \<Rightarrow> sortoi_document" where
  "sortoi_doc ord ls wh tm =
     (let incl = extractTaxesIncluded (RawPayload ord);
          rates = extractLineRates (RawPayload ord);
          (title, code) = extractShippingInstrs (RawPayload ord);
          net = (if incl then fsub (ShippingAmount ord) (extractShippingTax (RawPayload ord))
                 else ShippingAmount ord)
      in \<lparr>sd_Header =
            \<lparr>sh_CustomerPoNumber = truncate_bytes (OrderNumber ord) maxCustomerPoNumber,
             sh_OrderActionType = ''A'', sh_Customer = CustomerAccount ord,
             sh_OrderDate = fmt_date (OrderDate ord),
             sh_RequestedShipDate = fmt_date (OrderDate ord),
             sh_Email = truncate_bytes (ShipEmail ord) maxEmail,
             sh_ShippingInstrs = truncate_bytes title maxShippingInstrs,
             sh_ShippingInstrsCod = truncate_bytes code maxShippingInstrsCod,
             sh_ShipAddress1 = truncate_bytes (ShipAddress1 ord) maxAddressLine,
             sh_ShipAddress2 = truncate_bytes (ShipAddress2 ord) maxAddressLine,
             sh_ShipAddress3 = truncate_bytes (ShipCity ord) maxAddressLine,
             sh_ShipAddress4 = truncate_bytes (ShipProvince ord) maxAddressLine,
             sh_ShipAddress5 = truncate_bytes (ShipCountry ord) maxAddressLine,
             sh_ShipPostalCode = truncate_bytes (ShipPostcode ord) maxPostcode\<rparr>,
          sd_Lines = map (\<lambda>(i, l). stock_line incl rates wh tm i l) (List.enumerate 0 ls),
          sd_FreightLine =
            (if flt (Fin 0) (ShippingAmount ord)
             then Some \<lparr>fl_FreightValue = fmt2 net, fl_FreightCost = fmt2 net\<rparr> else None)\<rparr>)"

text \<open>\<open>buildSORTOI\<close>; marshalling these structs of strings cannot fail.\<close>

definition buildSORTOI ::
  "order \<Rightarrow> order_line list \<Rightarrow> string \<Rightarrow> string \<Rightarrow> tax_map \<Rightarrow> string \<times> string" where
  "buildSORTOI ord ls wh alloc tm =
     (xml_print (sortoi_params alloc), xml_print (document_xml (sortoi_doc ord ls wh tm)))"

section \<open>The response\<close>

record sales_order_result =
  res_SysproOrderNumber :: string
  Success :: bool
  ErrorMessage :: string

definition strip_decl :: "string \<Rightarrow> string" where
  "strip_decl s = (case Index s ''?>'' of None \<Rightarrow> s | Some i \<Rightarrow> TrimSpace (drop (i + 2) s))"

text \<open>The text of a decoder error is \<open>encoding/xml\<close>'s own; one fixed text stands for it.\<close>

definition xml_error :: go_error where
  "xml_error = Errorf ''invalid XML''"

definition parseSORTOIResponse :: "string \<Rightarrow> sales_order_result res" where
  "parseSORTOIResponse s =
     (case xml_unmarshal ''SalesOrders'' (strip_decl s) of
        None \<Rightarrow> Inl (wrap_err ''parsing SORTOI response XML'' xml_error)
      | Some cs \<Rightarrow>
          let num = xpath [''Order'', ''SalesOrder''] cs;
              po = xpath [''Order'', ''CustomerPoNumber''] cs;
              processed = xpath [''StatusOfItems'', ''ItemsProcessed''] cs;
              invalid = xpath [''StatusOfItems'', ''ItemsRejectedWithWarnings''] cs
          in if num \<noteq> [] then Inr \<lparr>res_SysproOrderNumber = num, Success = True, ErrorMessage = []\<rparr>
             else if po \<noteq> [] then
               Inr \<lparr>res_SysproOrderNumber = [], Success = False,
                    ErrorMessage = ''SYSPRO import failed: order rejected (processed: '' @ processed @
                      '', invalid: '' @ invalid @ '')''\<rparr>
             else if processed \<noteq> [] \<and> processed \<noteq> ''000000'' then
               Inr \<lparr>res_SysproOrderNumber = [], Success = True, ErrorMessage = []\<rparr>
             else
               Inr \<lparr>res_SysproOrderNumber = [], Success = False,
                    ErrorMessage = ''SYSPRO import failed: no items processed (processed: '' @ processed @ '')''\<rparr>)"

end
