(* ===== verification/Enet.thy ===== *)
theory Enet
  imports Sortoi World
begin

text \<open>
  The SYSPRO e.net client: \<open>internal/syspro/client.go\<close>, \<open>session.go\<close>, \<open>sorqry.go\<close>, \<open>inventory.go\<close>
  and \<open>cash_receipt.go\<close>. \<open>w_sessionMu\<close> is the session mutex. Query parameters are recorded as a
  list; \<open>url.Values.Encode\<close> is a transport detail.
\<close>

record enet_client =
  ec_baseURL :: string
  ec_operator :: string
  ec_password :: string
  ec_companyID :: string
  ec_companyPassword :: string
  ec_warehouse :: string
  ec_allocationAction :: string
  ec_taxCodeMap :: tax_map

definition NewEnetClient ::
  "string \<Rightarrow> string \<Rightarrow> string \<Rightarrow> string \<Rightarrow> string \<Rightarrow> string \<Rightarrow> string \<Rightarrow> tax_map \<Rightarrow> enet_client" where
  "NewEnetClient url op pw cid cpw wh alloc tm =
     \<lparr>ec_baseURL = TrimRight (CHR ''/'') url, ec_operator = op, ec_password = pw, ec_companyID = cid,
      ec_companyPassword = cpw, ec_warehouse = wh, ec_allocationAction = alloc, ec_taxCodeMap = tm\<rparr>"

section \<open>Requests\<close>

definition enet_req :: "enet_client \<Rightarrow> string \<Rightarrow> (string \<times> string) list \<Rightarrow> http_req" where
  "enet_req c path params =
     \<lparr>rq_method = ''GET'', rq_url = ec_baseURL c @ path, rq_query = params, rq_headers = [], rq_body = []\<rparr>"

text \<open>\<open>get\<close>: the body (at most 10 MB of it) of a 2xx response.\<close>

definition enet_get :: "enet_client \<Rightarrow> string \<Rightarrow> (string \<times> string) list \<Rightarrow> world \<Rightarrow> string res \<times> world" where
  "enet_get c path params w =
     (case http_do (enet_req c path params) w of
        (TransportErr m, w') \<Rightarrow> (Inl (wrap_err (''GET '' @ path) (Errorf m)), w')
      | (ReadErr m, w') \<Rightarrow> (Inl (wrap_err (''reading response from '' @ path) (Errorf m)), w')
      | (Resp st _ body, w') \<Rightarrow>
          let b = take (10 * 1024 * 1024) body
          in (if st < 200 \<or> 300 \<le> st
              then Inl (Errorf (''GET '' @ path @ '' returned HTTP '' @ Itoa st @ '': '' @ TrimSpace b))
              else Inr b, w'))"

text \<open>\<open>json.Unmarshal(body, &s)\<close> into a string, falling back to the trimmed body.\<close>

definition json_or_raw :: "string \<Rightarrow> string" where
  "json_or_raw b =
     (case json_parse b of
        Some (JStr s) \<Rightarrow> s
      | Some JNull \<Rightarrow> []
      | _ \<Rightarrow> TrimSpace b)"

definition logon_params :: "enet_client \<Rightarrow> (string \<times> string) list" where
  "logon_params c =
     [(''Operator'', ec_operator c), (''OperatorPassword'', ec_password c),
      (''CompanyId'', ec_companyID c), (''CompanyPassword'', ec_companyPassword c)]"

definition logon :: "enet_client \<Rightarrow> world \<Rightarrow> string res \<times> world" where
  "logon c w =
     (case enet_get c ''/Logon'' (logon_params c) w of
        (Inl e, w') \<Rightarrow> (Inl e, w')
      | (Inr body, w') \<Rightarrow>
          let guid = json_or_raw body
          in (if guid = [] then Inl (Errorf ''logon returned empty session GUID'')
              else if HasPrefix guid ''ERROR'' then Inl (Errorf (''logon rejected by SYSPRO: '' @ guid))
              else Inr guid, w'))"

definition logoff :: "enet_client \<Rightarrow> string \<Rightarrow> world \<Rightarrow> unit res \<times> world" where
  "logoff c guid w =
     (case enet_get c ''/Logoff'' [(''UserId'', guid)] w of
        (Inl e, w') \<Rightarrow> (Inl e, w')
      | (Inr _, w') \<Rightarrow> (Inr (), w'))"

definition transaction_params :: "string \<Rightarrow> string \<Rightarrow> string \<Rightarrow> string \<Rightarrow> (string \<times> string) list" where
  "transaction_params guid bo ps ds =
     [(''UserId'', guid), (''BusinessObject'', bo), (''XmlParameters'', ps), (''XmlIn'', ds)]"

definition transaction :: "enet_client \<Rightarrow> string \<Rightarrow> string \<Rightarrow> string \<Rightarrow> string \<Rightarrow> world \<Rightarrow> string res \<times> world" where
  "transaction c guid bo ps ds w =
     (case enet_get c ''/Transaction/Post'' (transaction_params guid bo ps ds) w of
        (Inl e, w') \<Rightarrow> (Inl e, w')
      | (Inr body, w') \<Rightarrow>
          (if json_or_raw body = [] then Inl (Errorf ''transaction returned empty response'')
           else Inr (json_or_raw body), w'))"

definition query :: "enet_client \<Rightarrow> string \<Rightarrow> string \<Rightarrow> string \<Rightarrow> world \<Rightarrow> string res \<times> world" where
  "query c guid bo xml w =
     (case enet_get c ''/Query/Query'' [(''UserId'', guid), (''BusinessObject'', bo), (''XmlIn'', xml)] w of
        (Inl e, w') \<Rightarrow> (Inl e, w')
      | (Inr body, w') \<Rightarrow>
          (if json_or_raw body = [] then Inl (Errorf ''query returned empty response'')
           else Inr (json_or_raw body), w'))"

section \<open>Sessions\<close>

definition lock :: "world \<Rightarrow> world" where
  "lock w = w\<lparr>w_sessionMu := True\<rparr>"

definition unlock :: "world \<Rightarrow> world" where
  "unlock w = w\<lparr>w_sessionMu := False\<rparr>"

record enet_session =
  es_client :: enet_client
  es_guid :: string

definition OpenSession :: "enet_client \<Rightarrow> world \<Rightarrow> enet_session res \<times> world" where
  "OpenSession c w =
     (case logon c (lock w) of
        (Inl e, w') \<Rightarrow> (Inl (wrap_err ''syspro logon'' e), unlock w')
      | (Inr guid, w') \<Rightarrow> (Inr \<lparr>es_client = c, es_guid = guid\<rparr>, w'))"

text \<open>The SORTOI call both \<open>SubmitOrder\<close> and \<open>SubmitSalesOrder\<close> make on an open session.\<close>

definition submit_sortoi ::
  "enet_client \<Rightarrow> string \<Rightarrow> order \<Rightarrow> order_line list \<Rightarrow> world \<Rightarrow> sales_order_result res \<times> world" where
  "submit_sortoi c guid ord ls w =
     (let (ps, ds) = buildSORTOI ord ls (ec_warehouse c) (ec_allocationAction c) (ec_taxCodeMap c)
      in case transaction c guid ''SORTOI'' ps ds w of
           (Inl e, w') \<Rightarrow> (Inl (wrap_err ''syspro SORTOI transaction'' e), w')
         | (Inr resp, w') \<Rightarrow> (parseSORTOIResponse resp, w'))"

definition SubmitOrder ::
  "enet_session \<Rightarrow> order \<Rightarrow> order_line list \<Rightarrow> world \<Rightarrow> sales_order_result res \<times> world" where
  "SubmitOrder s ord ls w = submit_sortoi (es_client s) (es_guid s) ord ls w"

definition CloseSession :: "enet_session \<Rightarrow> world \<Rightarrow> unit res \<times> world" where
  "CloseSession s w =
     (case logoff (es_client s) (es_guid s) w of (r, w') \<Rightarrow> (r, unlock w'))"

text \<open>
  The shape of every one-shot method: lock, log on, run the body, log off (its error is only
  logged), unlock.
\<close>

definition with_session :: "enet_client \<Rightarrow> (string \<Rightarrow> world \<Rightarrow> 'a res \<times> world) \<Rightarrow> world \<Rightarrow> 'a res \<times> world" where
  "with_session c body w =
     (case logon c (lock w) of
        (Inl e, w') \<Rightarrow> (Inl (wrap_err ''syspro logon'' e), unlock w')
      | (Inr guid, w') \<Rightarrow>
          (case body guid w' of
             (r, w'') \<Rightarrow> (r, unlock (snd (logoff c guid w'')))))"

definition SubmitSalesOrder ::
  "enet_client \<Rightarrow> order \<Rightarrow> order_line list \<Rightarrow> world \<Rightarrow> sales_order_result res \<times> world" where
  "SubmitSalesOrder c ord ls = with_session c (\<lambda>guid. submit_sortoi c guid ord ls)"

section \<open>SORQRY: dispatch status\<close>

record sorqry_result =
  sq_SalesOrder :: string
  sq_OrderStatus :: string
  sq_TrackingNumber :: string
  sq_Carrier :: string
  sq_ShippedDate :: string

definition buildSORQRY :: "string \<Rightarrow> string" where
  "buildSORQRY num = xml_print
     (XElem ''Query''
       [XElem ''Key'' [xfield ''SalesOrder'' num],
        XElem ''Option''
          [xfield ''IncludeStockedLines'' ''N'', xfield ''IncludeNonStockedLines'' ''N'',
           xfield ''IncludeFreightLines'' ''N'', xfield ''IncludeMiscLines'' ''N'',
           xfield ''IncludeCommentLines'' ''N'']])"

definition parseSORQRY :: "string \<Rightarrow> sorqry_result res" where
  "parseSORQRY s =
     (case xml_unmarshal ''SorDetail'' (strip_decl s) of
        None \<Rightarrow> Inl (wrap_err ''parsing SORQRY response'' xml_error)
      | Some cs \<Rightarrow>
          if xpath [''SalesOrder''] cs = []
          then Inl (Errorf ''parsing SORQRY response: no SalesOrder in response'')
          else Inr \<lparr>sq_SalesOrder = TrimSpace (xpath [''SalesOrder''] cs),
                    sq_OrderStatus = TrimSpace (xpath [''OrderStatus''] cs),
                    sq_TrackingNumber = [],
                    sq_Carrier = TrimSpace (xpath [''ShippingInstrs''] cs),
                    sq_ShippedDate = []\<rparr>)"

text \<open>A Go map is a list of pairs with distinct keys; assignment replaces.\<close>

definition map_put :: "'k \<Rightarrow> 'v \<Rightarrow> ('k \<times> 'v) list \<Rightarrow> ('k \<times> 'v) list" where
  "map_put k v m = (k, v) # filter (\<lambda>p. fst p \<noteq> k) m"

fun sorqry_loop ::
  "enet_client \<Rightarrow> string \<Rightarrow> string list \<Rightarrow> (string \<times> sorqry_result) list \<Rightarrow> world
     \<Rightarrow> (string \<times> sorqry_result) list \<times> world" where
  "sorqry_loop c guid [] m w = (m, w)"
| "sorqry_loop c guid (n # ns) m w =
     (case query c guid ''SORQRY'' (buildSORQRY n) w of
        (Inl _, w') \<Rightarrow> sorqry_loop c guid ns m w'
      | (Inr resp, w') \<Rightarrow>
          (case parseSORQRY resp of
             Inl _ \<Rightarrow> sorqry_loop c guid ns m w'
           | Inr r \<Rightarrow> sorqry_loop c guid ns (map_put n r m) w'))"

definition QueryDispatchedOrders ::
  "enet_client \<Rightarrow> string list \<Rightarrow> world \<Rightarrow> (string \<times> sorqry_result) list res \<times> world" where
  "QueryDispatchedOrders c ns =
     with_session c (\<lambda>guid w. case sorqry_loop c guid ns [] w of (m, w') \<Rightarrow> (Inr m, w'))"

section \<open>INVQRY: stock levels\<close>

record invqry_warehouse =
  iw_Warehouse :: string
  iw_QtyOnHand :: string
  iw_AvailableQty :: string

definition buildINVQRY :: "string \<Rightarrow> string \<Rightarrow> string" where
  "buildINVQRY sku wh = xml_print
     (XElem ''Query''
       [XElem ''Key'' [xfield ''StockCode'' sku],
        XElem ''Option'' [xfield ''WarehouseFilterType'' ''S'', xfield ''WarehouseFilterValue'' wh]])"

definition parseINVQRY :: "string \<Rightarrow> invqry_warehouse list res" where
  "parseINVQRY s =
     (case xml_unmarshal ''InvQuery'' (strip_decl s) of
        None \<Rightarrow> Inl (wrap_err ''parsing INVQRY response'' xml_error)
      | Some cs \<Rightarrow>
          Inr (map (\<lambda>ws. \<lparr>iw_Warehouse = xpath [''Warehouse''] ws, iw_QtyOnHand = xpath [''QtyOnHand''] ws,
                          iw_AvailableQty = xpath [''AvailableQty''] ws\<rparr>)
                 (elems_named ''WarehouseItem'' cs)))"

text \<open>One SKU: \<open>Some q\<close> enters the result map, \<open>None\<close> leaves the SKU out.\<close>

definition stock_of :: "string \<Rightarrow> string \<Rightarrow> float64 option" where
  "stock_of wh resp =
     (case parseINVQRY resp of
        Inl _ \<Rightarrow> None
      | Inr items \<Rightarrow>
          (case find (\<lambda>i. TrimSpace (iw_Warehouse i) = wh) items of
             None \<Rightarrow> Some (Fin 0)
           | Some i \<Rightarrow> ParseFloat (TrimSpace (iw_AvailableQty i))))"

fun invqry_loop ::
  "enet_client \<Rightarrow> string \<Rightarrow> string \<Rightarrow> string list \<Rightarrow> (string \<times> float64) list \<Rightarrow> world
     \<Rightarrow> (string \<times> float64) list \<times> world" where
  "invqry_loop c guid wh [] m w = (m, w)"
| "invqry_loop c guid wh (s # ss) m w =
     (case query c guid ''INVQRY'' (buildINVQRY s wh) w of
        (Inl _, w') \<Rightarrow> invqry_loop c guid wh ss m w'
      | (Inr resp, w') \<Rightarrow>
          (case stock_of wh resp of
             None \<Rightarrow> invqry_loop c guid wh ss m w'
           | Some q \<Rightarrow> invqry_loop c guid wh ss (map_put s q m) w'))"

definition QueryStock ::
  "enet_client \<Rightarrow> string list \<Rightarrow> string \<Rightarrow> world \<Rightarrow> (string \<times> float64) list res \<times> world" where
  "QueryStock c skus wh =
     with_session c (\<lambda>guid w. case invqry_loop c guid wh skus [] w of (m, w') \<Rightarrow> (Inr m, w'))"

section \<open>ARSTPY: cash receipts\<close>

record cash_receipt =
  cr_CustomerCode :: string
  cr_Bank :: string
  cr_PaymentType :: string
  cr_InvoiceNumber :: string
  cr_Amount :: float64
  cr_BankCharges :: float64
  cr_Currency :: string
  cr_PaymentMethod :: string
  cr_PostedAt :: gtime

definition PostingPeriod :: "cash_receipt \<Rightarrow> string" where
  "PostingPeriod r = fmt_period (UTC (cr_PostedAt r))"

definition xml_header :: string where
  "xml_header = ''<?xml version='' @ [CHR 0x22] @ ''1.0'' @ [CHR 0x22] @ '' encoding='' @ [CHR 0x22] @
     ''UTF-8'' @ [CHR 0x22] @ ''?>'' @ [byte 10]"

definition BuildARSTPYParams :: "bool \<Rightarrow> string" where
  "BuildARSTPYParams validateOnly =
     xml_header @ xml_print
       (XElem ''PostArPayment'' [XElem ''Parameters''
          [xfield ''ValidateOnly'' (if validateOnly then ''Y'' else ''N''), xfield ''IgnoreWarnings'' ''Y'']])"

definition validate :: "cash_receipt \<Rightarrow> unit res" where
  "validate r =
     (if cr_CustomerCode r = [] then Inl (Errorf ''CustomerCode required'')
      else if cr_Bank r = [] then Inl (Errorf ''bank (cashbook code) required'')
      else if cr_PaymentType r = [] then Inl (Errorf ''PaymentType required'')
      else if cr_InvoiceNumber r = [] then Inl (Errorf ''InvoiceNumber required'')
      else if fle (cr_Amount r) (Fin 0)
        then Inl (Errorf (''amount must be positive, got '' @ fmt2 (cr_Amount r)))
      else if IsZero (cr_PostedAt r) then Inl (Errorf ''PostedAt required'')
      else Inr ())"

text \<open>The root element carries two attributes, so its tags are written out.\<close>

definition arstpy_open :: string where
  "arstpy_open = ''<PostArPayment xmlns:xsd='' @ [CHR 0x22] @ ''http://www.w3.org/2000/10/XMLSchema-instance'' @
     [CHR 0x22] @ '' xsd:noNamespaceSchemaLocation='' @ [CHR 0x22] @ ''ARSTPY.XSD'' @ [CHR 0x22] @ ''>''"

definition payment_xml :: "cash_receipt \<Rightarrow> xml" where
  "payment_xml r =
     XElem ''Item'' [XElem ''Payments''
       ([xfield ''Customer'' (cr_CustomerCode r), xfield ''Bank'' (cr_Bank r),
         xfield ''PaymentType'' (cr_PaymentType r), xfield ''CheckAmount'' (fmt2 (cr_Amount r))] @
        xomit ''BankCharges'' (fmt2 (cr_BankCharges r)) @
        xomit ''CheckNumber'' (truncate_bytes (cr_InvoiceNumber r) 30) @
        [xfield ''CheckDate'' (fmt_compact (UTC (cr_PostedAt r)))])]"

definition BuildARSTPYData :: "cash_receipt \<Rightarrow> string res" where
  "BuildARSTPYData r =
     (case validate r of
        Inl e \<Rightarrow> Inl e
      | Inr _ \<Rightarrow> Inr (xml_header @ arstpy_open @ xml_print (payment_xml r) @ ''</PostArPayment>''))"

definition ParseARSTPYResponse :: "string \<Rightarrow> string res" where
  "ParseARSTPYResponse s =
     (case xml_unmarshal ''PostArPayment'' s of
        None \<Rightarrow>
          let trimmed = TrimSpace s
          in if HasPrefix trimmed ''ERROR'' then Inl (Errorf (''ARSTPY rejected: '' @ trimmed))
             else Inl (Errorf (''parse ARSTPY response: '' @ err_msg xml_error @ '' (body: '' @ trimmed @ '')''))
      | Some cs \<Rightarrow>
          let status = xpath [''Status''] cs
          in if status \<noteq> [] \<and> status \<noteq> ''0'' then
               let msg = TrimSpace (xpath [''Message''] cs)
               in Inl (Errorf (''ARSTPY rejected: '' @
                    (if msg = [] then ''SYSPRO returned status '' @ status else msg)))
             else (case filter (\<lambda>c. c \<noteq> []) (map (\<lambda>f. TrimSpace (xpath [f] cs))
                          [''JournalNumber'', ''CashJournal'', ''Reference'']) of
                     [] \<Rightarrow> Inr []
                   | c # _ \<Rightarrow> Inr c))"

definition IsPeriodClosedError :: "go_error option \<Rightarrow> bool" where
  "IsPeriodClosedError err =
     (case err of
        None \<Rightarrow> False
      | Some e \<Rightarrow>
          let msg = ToLower (err_msg e)
          in if \<not> Contains msg ''period'' then False
             else Contains msg ''closed'' \<or> Contains msg ''not open'')"

definition PostCashReceipt :: "enet_client \<Rightarrow> cash_receipt \<Rightarrow> world \<Rightarrow> string res \<times> world" where
  "PostCashReceipt c r w =
     (case BuildARSTPYData r of
        Inl e \<Rightarrow> (Inl (wrap_err ''building ARSTPY data'' e), w)
      | Inr ds \<Rightarrow>
          with_session c (\<lambda>guid w.
            case transaction c guid ''ARSTPY'' (BuildARSTPYParams False) ds w of
              (Inl e, w') \<Rightarrow> (Inl (wrap_err ''syspro ARSTPY transaction'' e), w')
            | (Inr resp, w') \<Rightarrow> (ParseARSTPYResponse resp, w')) w)"

end
