(* ===== verification/Store.thy ===== *)
theory Store
  imports World
begin

text \<open>
  \<open>internal/store\<close>: the SQL statements of \<open>order.go\<close>, \<open>order_cancellations.go\<close> and
  \<open>payment_postings.go\<close> as functions on the tables (\<open>sql_...\<close>), and the methods of \<open>*store.DB\<close>
  around them, with the error each returns. The column conversions of PostgreSQL that change a value
  (NUMERIC(12,2) and JSONB) are the parameter \<open>pg\<close>; conversions that fail are failures of the
  script. Rows with equal keys keep their insertion order under ORDER BY.
\<close>

record pgconv =
  pg_numeric :: "float64 \<Rightarrow> float64"
  pg_jsonb :: "string \<Rightarrow> string"

definition pg_time :: "gtime \<Rightarrow> gtime" where
  "pg_time t = \<lparr>t_ns = t_ns t - t_ns t mod 1000, t_off = 0\<rparr>"

definition at_zone :: "int \<Rightarrow> gtime \<Rightarrow> gtime" where
  "at_zone z t = t\<lparr>t_off := z\<rparr>"

text \<open>\<open>rows.Scan\<close> of a full row: a timestamp is read in the zone of the process.\<close>

definition scan_order :: "int \<Rightarrow> order \<Rightarrow> order" where
  "scan_order z r =
     r\<lparr>OrderDate := at_zone z (OrderDate r), CreatedAt := at_zone z (CreatedAt r),
       UpdatedAt := at_zone z (UpdatedAt r), FulfilledAt := map_option (at_zone z) (FulfilledAt r)\<rparr>"

definition update_rows :: "('a \<Rightarrow> bool) \<Rightarrow> ('a \<Rightarrow> 'a) \<Rightarrow> 'a list \<Rightarrow> 'a list" where
  "update_rows P f rs = map (\<lambda>r. if P r then f r else r) rs"

text \<open>An UPDATE of \<open>orders\<close>, with the number of rows it affected.\<close>

definition upd_orders :: "(order \<Rightarrow> bool) \<Rightarrow> (order \<Rightarrow> order) \<Rightarrow> db \<Rightarrow> nat \<times> db" where
  "upd_orders P f d =
     (length (filter P (orders d)), d\<lparr>orders := update_rows P f (orders d)\<rparr>)"

section \<open>Webhook events and order creation\<close>

definition WebhookExists :: "string \<Rightarrow> world \<Rightarrow> bool res \<times> world" where
  "WebhookExists wid w =
     (case db_call (\<lambda>_ d. (\<exists>e\<in>set (webhook_events d). WebhookID e = wid, d)) w of
        (Inl e, w') \<Rightarrow> (Inl (wrap_err ''checking webhook existence'' e), w')
      | (Inr b, w') \<Rightarrow> (Inr b, w'))"

text \<open>\<open>INSERT INTO webhook_events\<close>; \<open>False\<close> is the unique violation 23505.\<close>

definition sql_insert_event :: "gtime \<Rightarrow> webhook_event \<Rightarrow> db \<Rightarrow> bool \<times> db" where
  "sql_insert_event t ev d =
     (let i = seq_event d + 1; d1 = d\<lparr>seq_event := i\<rparr>
      in if \<exists>e\<in>set (webhook_events d). WebhookID e = WebhookID ev then (False, d1)
         else (True, d1\<lparr>webhook_events :=
                 webhook_events d @ [\<lparr>ev_ID = i, WebhookID = WebhookID ev, Topic = Topic ev,
                                      ReceivedAt = pg_time t\<rparr>]\<rparr>))"

text \<open>The row \<open>INSERT INTO orders\<close> makes: the nineteen columns named, defaults for the others.\<close>

definition order_row :: "pgconv \<Rightarrow> gtime \<Rightarrow> int \<Rightarrow> order \<Rightarrow> order" where
  "order_row pg t i ord =
     ord\<lparr>ord_ID := i, PaymentAmount := pg_numeric pg (PaymentAmount ord),
         ShippingAmount := pg_numeric pg (ShippingAmount ord),
         RawPayload := pg_jsonb pg (RawPayload ord), SysproOrderNumber := [], Attempts := 0,
         LastError := [], OrderDate := pg_time (OrderDate ord), CreatedAt := pg_time t,
         UpdatedAt := pg_time t, FulfilledAt := None, ShopifyFulfilmentID := []\<rparr>"

definition sql_insert_order :: "pgconv \<Rightarrow> gtime \<Rightarrow> order \<Rightarrow> db \<Rightarrow> int option \<times> db" where
  "sql_insert_order pg t ord d =
     (let i = seq_order d + 1; d1 = d\<lparr>seq_order := i\<rparr>
      in if \<exists>r\<in>set (orders d). ShopifyOrderID r = ShopifyOrderID ord then (None, d1)
         else (Some i, d1\<lparr>orders := orders d @ [order_row pg t i ord]\<rparr>))"

definition sql_insert_line :: "pgconv \<Rightarrow> int \<Rightarrow> order_line \<Rightarrow> db \<Rightarrow> unit \<times> db" where
  "sql_insert_line pg oid l d =
     (let i = seq_line d + 1
      in ((), d\<lparr>seq_line := i,
               order_lines := order_lines d @
                 [\<lparr>line_ID = i, line_OrderID = oid, SKU = SKU l, Quantity = Quantity l,
                   UnitPrice = pg_numeric pg (UnitPrice l), Discount = pg_numeric pg (Discount l),
                   Tax = pg_numeric pg (Tax l)\<rparr>]\<rparr>))"

text \<open>The results of the batch of line inserts, read one by one; the first error stops.\<close>

fun insert_lines ::
  "pgconv \<Rightarrow> int \<Rightarrow> order_line list \<Rightarrow> db \<Rightarrow> world \<Rightarrow> (unit res \<times> db) \<times> world" where
  "insert_lines pg oid [] t w = ((Inr (), t), w)"
| "insert_lines pg oid (l # ls) t w =
     (case tx_call (sql_insert_line pg oid l) t w of
        ((Inl e, t'), w') \<Rightarrow> ((Inl (wrap_err ''inserting order line'' e), t'), w')
      | ((Inr _, t'), w') \<Rightarrow> insert_lines pg oid ls t' w')"

text \<open>Everything between \<open>Begin\<close> and \<open>Commit\<close>, on the transaction's copy of the tables.\<close>

definition create_tx ::
  "pgconv \<Rightarrow> gtime \<Rightarrow> webhook_event \<Rightarrow> order \<Rightarrow> order_line list \<Rightarrow> db \<Rightarrow> world
     \<Rightarrow> (unit res \<times> db) \<times> world" where
  "create_tx pg t ev ord ls d w =
     (case tx_call (sql_insert_event t ev) d w of
        ((Inl e, d1), w1) \<Rightarrow> ((Inl (wrap_err ''inserting webhook event'' e), d1), w1)
      | ((Inr False, d1), w1) \<Rightarrow> ((Inl ErrDuplicateWebhook, d1), w1)
      | ((Inr True, d1), w1) \<Rightarrow>
          (case tx_call (sql_insert_order pg t ord) d1 w1 of
             ((Inl e, d2), w2) \<Rightarrow> ((Inl (wrap_err ''inserting order'' e), d2), w2)
           | ((Inr None, d2), w2) \<Rightarrow> ((Inl ErrDuplicateOrder, d2), w2)
           | ((Inr (Some oid), d2), w2) \<Rightarrow>
               if ls = [] then ((Inr (), d2), w2)
               else (case insert_lines pg oid ls d2 w2 of
                       ((Inl e, d3), w3) \<Rightarrow> ((Inl e, d3), w3)
                     | ((Inr _, d3), w3) \<Rightarrow>
                         (case tx_call (\<lambda>d. ((), d)) d3 w3 of
                            ((Inl e, d4), w4) \<Rightarrow> ((Inl (wrap_err ''closing batch insert'' e), d4), w4)
                          | ((Inr _, d4), w4) \<Rightarrow> ((Inr (), d4), w4)))))"

definition CreateOrder ::
  "pgconv \<Rightarrow> webhook_event \<Rightarrow> order \<Rightarrow> order_line list \<Rightarrow> world \<Rightarrow> unit res \<times> world" where
  "CreateOrder pg ev ord ls w =
     (case db_call (\<lambda>t d. (t, d)) w of
        (Inl e, w0) \<Rightarrow> (Inl (wrap_err ''beginning transaction'' e), w0)
      | (Inr t, w0) \<Rightarrow>
          (case create_tx pg t ev ord ls (w_db w0) w0 of
             ((Inl e, d), w1) \<Rightarrow> (Inl e, w1\<lparr>w_db := rollback (w_db w1) d\<rparr>)
           | ((Inr _, d), w1) \<Rightarrow>
               (case db_call (\<lambda>_ _. ((), d)) w1 of
                  (Inl e, w2) \<Rightarrow> (Inl (wrap_err ''committing transaction'' e),
                                  w2\<lparr>w_db := rollback (w_db w2) d\<rparr>)
                | (Inr _, w2) \<Rightarrow> (Inr (), w2))))"

section \<open>Reading orders\<close>

text \<open>The columns the query selects; the others keep the zero value.\<close>

definition GetOrderByShopifyID :: "int \<Rightarrow> world \<Rightarrow> order res \<times> world" where
  "GetOrderByShopifyID sid w =
     (case db_call (\<lambda>_ d. (find (\<lambda>r. ShopifyOrderID r = sid) (orders d), d)) w of
        (Inl e, w') \<Rightarrow> (Inl (wrap_err ''fetching order by shopify_order_id'' e), w')
      | (Inr None, w') \<Rightarrow> (Inl ErrOrderNotFound, w')
      | (Inr (Some r), w') \<Rightarrow>
          (Inr ((scan_order (w_local w) r)\<lparr>ShippingAmount := Fin 0, RawPayload := [],
                  FulfilledAt := None, ShopifyFulfilmentID := []\<rparr>), w'))"

text \<open>A Go map from ids to \<open>true\<close> is the list of its keys.\<close>

definition ShopifyOrdersExist :: "int list \<Rightarrow> world \<Rightarrow> int list res \<times> world" where
  "ShopifyOrdersExist ids w =
     (if ids = [] then (Inr [], w)
      else case db_call (\<lambda>_ d. (filter (\<lambda>i. i \<in> set ids) (map ShopifyOrderID (orders d)), d)) w of
             (Inl e, w') \<Rightarrow> (Inl (wrap_err ''querying existing shopify order ids'' e), w')
           | (Inr r, w') \<Rightarrow> (Inr r, w'))"

definition fetchOrderLines :: "int \<Rightarrow> world \<Rightarrow> order_line list res \<times> world" where
  "fetchOrderLines oid w =
     (case db_call (\<lambda>_ d. (sort_key line_ID (filter (\<lambda>l. line_OrderID l = oid) (order_lines d)), d)) w of
        (Inl e, w') \<Rightarrow>
          (Inl (wrap_err (''querying order lines for order '' @ Itoa oid) e), w')
      | (Inr ls, w') \<Rightarrow> (Inr ls, w'))"

fun attach_lines :: "order list \<Rightarrow> world \<Rightarrow> order_with_lines list res \<times> world" where
  "attach_lines [] w = (Inr [], w)"
| "attach_lines (r # rs) w =
     (case fetchOrderLines (ord_ID r) w of
        (Inl e, w') \<Rightarrow> (Inl e, w')
      | (Inr ls, w') \<Rightarrow>
          (case attach_lines rs w' of
             (Inl e, w'') \<Rightarrow> (Inl e, w'')
           | (Inr ows, w'') \<Rightarrow> (Inr (\<lparr>ow_Order = r, ow_Lines = ls\<rparr> # ows), w'')))"

definition created_key :: "order \<Rightarrow> int" where
  "created_key r = t_ns (CreatedAt r)"

definition sql_pending :: "nat \<Rightarrow> db \<Rightarrow> order list" where
  "sql_pending limit d =
     take limit (sort_key created_key (filter (\<lambda>r. Status r = OrderStatusPending) (orders d)))"

definition FetchPendingOrders :: "nat \<Rightarrow> world \<Rightarrow> order_with_lines list res \<times> world" where
  "FetchPendingOrders limit w =
     (case db_call (\<lambda>_ d. (sql_pending limit d, d)) w of
        (Inl e, w') \<Rightarrow> (Inl (wrap_err ''querying pending orders'' e), w')
      | (Inr rs, w') \<Rightarrow> attach_lines (map (scan_order (w_local w)) rs) w')"

definition FetchOrdersByDateRange :: "gtime \<Rightarrow> gtime \<Rightarrow> world \<Rightarrow> order list res \<times> world" where
  "FetchOrdersByDateRange start stop w =
     (case db_call (\<lambda>_ d. (sort_key created_key
              (filter (\<lambda>r. t_ns start \<le> created_key r \<and> created_key r < t_ns stop) (orders d)), d)) w of
        (Inl e, w') \<Rightarrow> (Inl (wrap_err ''querying orders by date range'' e), w')
      | (Inr rs, w') \<Rightarrow> (Inr (map (scan_order (w_local w)) rs), w'))"

definition ListOrdersByStatus :: "order_status \<Rightarrow> world \<Rightarrow> order list res \<times> world" where
  "ListOrdersByStatus st w =
     (case db_call (\<lambda>_ d. (sort_key (\<lambda>r. - created_key r) (filter (\<lambda>r. Status r = st) (orders d)), d)) w of
        (Inl e, w') \<Rightarrow> (Inl (wrap_err ''querying orders by status'' e), w')
      | (Inr rs, w') \<Rightarrow> (Inr (map (scan_order (w_local w)) rs), w'))"

definition sql_submitted :: "db \<Rightarrow> order list" where
  "sql_submitted d =
     sort_key created_key
       (filter (\<lambda>r. Status r = OrderStatusSubmitted \<and> FulfilledAt r = None \<and> SysproOrderNumber r \<noteq> [])
          (orders d))"

definition FetchSubmittedOrders :: "world \<Rightarrow> order list res \<times> world" where
  "FetchSubmittedOrders w =
     (case db_call (\<lambda>_ d. (sql_submitted d, d)) w of
        (Inl e, w') \<Rightarrow> (Inl (wrap_err ''querying submitted orders'' e), w')
      | (Inr rs, w') \<Rightarrow> (Inr (map (scan_order (w_local w)) rs), w'))"

text \<open>
  \<open>SELECT sku, SUM(quantity) ... JOIN orders ... GROUP BY sku\<close>: one entry per SKU.
\<close>

definition reserving_ids :: "db \<Rightarrow> int list" where
  "reserving_ids d =
     map ord_ID (filter (\<lambda>r. Status r = OrderStatusPending \<or> Status r = OrderStatusProcessing) (orders d))"

definition reserved_lines :: "db \<Rightarrow> order_line list" where
  "reserved_lines d = filter (\<lambda>l. line_OrderID l \<in> set (reserving_ids d)) (order_lines d)"

definition sql_reserved :: "db \<Rightarrow> (string \<times> int) list" where
  "sql_reserved d =
     map (\<lambda>s. (s, sum_list (map Quantity (filter (\<lambda>l. SKU l = s) (reserved_lines d)))))
       (remdups (map SKU (reserved_lines d)))"

definition FetchReservedQuantities :: "world \<Rightarrow> (string \<times> int) list res \<times> world" where
  "FetchReservedQuantities w =
     (case db_call (\<lambda>_ d. (sql_reserved d, d)) w of
        (Inl e, w') \<Rightarrow> (Inl (wrap_err ''querying reserved quantities'' e), w')
      | (Inr m, w') \<Rightarrow> (Inr m, w'))"

section \<open>Updating orders\<close>

definition sql_reset_stale :: "int \<Rightarrow> gtime \<Rightarrow> db \<Rightarrow> nat \<times> db" where
  "sql_reset_stale secs t d =
     upd_orders (\<lambda>r. Status r = OrderStatusProcessing \<and> t_ns (UpdatedAt r) < t_ns t - secs * Second)
       (\<lambda>r. r\<lparr>Status := OrderStatusPending, Attempts := Attempts r + 1, UpdatedAt := pg_time t\<rparr>) d"

text \<open>The duration is whole seconds, as \<open>int(olderThan.Seconds())\<close>.\<close>

definition ResetStaleProcessing :: "int \<Rightarrow> world \<Rightarrow> nat res \<times> world" where
  "ResetStaleProcessing secs w =
     (case db_call (sql_reset_stale secs) w of
        (Inl e, w') \<Rightarrow> (Inl (wrap_err ''resetting stale processing orders'' e), w')
      | (Inr n, w') \<Rightarrow> (Inr n, w'))"

definition sql_mark_processing :: "int \<Rightarrow> gtime \<Rightarrow> db \<Rightarrow> nat \<times> db" where
  "sql_mark_processing oid t d =
     upd_orders (\<lambda>r. ord_ID r = oid \<and> Status r = OrderStatusPending)
       (\<lambda>r. r\<lparr>Status := OrderStatusProcessing, UpdatedAt := pg_time t\<rparr>) d"

definition MarkOrderProcessing :: "int \<Rightarrow> world \<Rightarrow> bool res \<times> world" where
  "MarkOrderProcessing oid w =
     (case db_call (sql_mark_processing oid) w of
        (Inl e, w') \<Rightarrow> (Inl (wrap_err (''marking order '' @ Itoa oid @ '' processing'') e), w')
      | (Inr n, w') \<Rightarrow> (Inr (n = 1), w'))"

definition not_found :: "int \<Rightarrow> go_error" where
  "not_found oid = Errorf (''order '' @ Itoa oid @ '' not found'')"

definition sql_submitted_update :: "int \<Rightarrow> string \<Rightarrow> int \<Rightarrow> gtime \<Rightarrow> db \<Rightarrow> nat \<times> db" where
  "sql_submitted_update oid num att t d =
     upd_orders (\<lambda>r. ord_ID r = oid)
       (\<lambda>r. r\<lparr>Status := OrderStatusSubmitted, SysproOrderNumber := num, Attempts := att,
              LastError := [], UpdatedAt := pg_time t\<rparr>) d"

definition UpdateOrderSubmitted :: "int \<Rightarrow> string \<Rightarrow> int \<Rightarrow> world \<Rightarrow> unit res \<times> world" where
  "UpdateOrderSubmitted oid num att w =
     (case db_call (sql_submitted_update oid num att) w of
        (Inl e, w') \<Rightarrow> (Inl (wrap_err (''updating order '' @ Itoa oid @ '' submitted'') e), w')
      | (Inr n, w') \<Rightarrow> (if n = 0 then Inl (not_found oid) else Inr (), w'))"

definition retryable :: "order_status \<Rightarrow> bool" where
  "retryable s \<longleftrightarrow> s = OrderStatusFailed \<or> s = OrderStatusDeadLetter"

definition sql_retry :: "int \<Rightarrow> gtime \<Rightarrow> db \<Rightarrow> nat \<times> db" where
  "sql_retry oid t d =
     upd_orders (\<lambda>r. ord_ID r = oid \<and> retryable (Status r))
       (\<lambda>r. r\<lparr>Status := OrderStatusPending, Attempts := 0, LastError := [], UpdatedAt := pg_time t\<rparr>) d"

definition RetryOrder :: "int \<Rightarrow> world \<Rightarrow> unit res \<times> world" where
  "RetryOrder oid w =
     (case db_call (sql_retry oid) w of
        (Inl e, w') \<Rightarrow> (Inl (wrap_err (''retrying order '' @ Itoa oid) e), w')
      | (Inr n, w') \<Rightarrow>
          (if n = 0 then Inl (Errorf (''order '' @ Itoa oid @ '' not found or not in retryable status''))
           else Inr (), w'))"

definition sql_status_update :: "int \<Rightarrow> order_status \<Rightarrow> int \<Rightarrow> string \<Rightarrow> gtime \<Rightarrow> db \<Rightarrow> nat \<times> db" where
  "sql_status_update oid st att err t d =
     upd_orders (\<lambda>r. ord_ID r = oid)
       (\<lambda>r. r\<lparr>Status := st, Attempts := att, LastError := err, UpdatedAt := pg_time t\<rparr>) d"

definition UpdateOrderStatus ::
  "int \<Rightarrow> order_status \<Rightarrow> int \<Rightarrow> string \<Rightarrow> world \<Rightarrow> unit res \<times> world" where
  "UpdateOrderStatus oid st att err w =
     (case db_call (sql_status_update oid st att err) w of
        (Inl e, w') \<Rightarrow> (Inl (wrap_err (''updating order '' @ Itoa oid @ '' status'') e), w')
      | (Inr n, w') \<Rightarrow> (if n = 0 then Inl (not_found oid) else Inr (), w'))"

definition sql_fulfilled_update :: "int \<Rightarrow> string \<Rightarrow> gtime \<Rightarrow> db \<Rightarrow> nat \<times> db" where
  "sql_fulfilled_update oid fid t d =
     upd_orders (\<lambda>r. ord_ID r = oid)
       (\<lambda>r. r\<lparr>Status := OrderStatusFulfilled, FulfilledAt := Some (pg_time t),
              ShopifyFulfilmentID := fid, UpdatedAt := pg_time t\<rparr>) d"

definition UpdateOrderFulfilled :: "int \<Rightarrow> string \<Rightarrow> world \<Rightarrow> unit res \<times> world" where
  "UpdateOrderFulfilled oid fid w =
     (case db_call (sql_fulfilled_update oid fid) w of
        (Inl e, w') \<Rightarrow> (Inl (wrap_err (''updating order '' @ Itoa oid @ '' fulfilled'') e), w')
      | (Inr n, w') \<Rightarrow> (if n = 0 then Inl (not_found oid) else Inr (), w'))"

section \<open>Cancellations\<close>

datatype insert_result = Inserted int | UniqueViolation | ForeignKeyViolation

definition sql_insert_cancellation ::
  "pgconv \<Rightarrow> order_cancellation \<Rightarrow> gtime \<Rightarrow> db \<Rightarrow> insert_result \<times> db" where
  "sql_insert_cancellation pg c t d =
     (let i = seq_cancel d + 1; d1 = d\<lparr>seq_cancel := i\<rparr>
      in if \<exists>r\<in>set (order_cancellations d). can_WebhookID r = can_WebhookID c then (UniqueViolation, d1)
         else if (case can_OrderID c of None \<Rightarrow> False | Some oid \<Rightarrow> oid \<notin> set (map ord_ID (orders d))) then (ForeignKeyViolation, d1)
         else (Inserted i, d1\<lparr>order_cancellations := order_cancellations d @
                 [c\<lparr>can_ID := i, can_ShopifyCancelledAt := map_option pg_time (can_ShopifyCancelledAt c),
                    can_RawPayload := pg_jsonb pg (can_RawPayload c), can_CreatedAt := pg_time t\<rparr>]\<rparr>))"

definition CreateCancellation :: "pgconv \<Rightarrow> order_cancellation \<Rightarrow> world \<Rightarrow> int res \<times> world" where
  "CreateCancellation pg c w =
     (case db_call (sql_insert_cancellation pg c) w of
        (Inl e, w') \<Rightarrow> (Inl (wrap_err ''inserting order cancellation'' e), w')
      | (Inr UniqueViolation, w') \<Rightarrow> (Inl ErrDuplicateCancellation, w')
      | (Inr ForeignKeyViolation, w') \<Rightarrow>
          (Inl (wrap_err ''inserting order cancellation'' (Errorf ''foreign key violation'')), w')
      | (Inr (Inserted i), w') \<Rightarrow> (Inr i, w'))"

definition CancellationExists :: "string \<Rightarrow> world \<Rightarrow> bool res \<times> world" where
  "CancellationExists wid w =
     (case db_call (\<lambda>_ d. (\<exists>c\<in>set (order_cancellations d). can_WebhookID c = wid, d)) w of
        (Inl e, w') \<Rightarrow> (Inl (wrap_err ''checking cancellation existence'' e), w')
      | (Inr b, w') \<Rightarrow> (Inr b, w'))"

section \<open>Payment postings\<close>

definition sql_insert_payment :: "pgconv \<Rightarrow> payment_posting \<Rightarrow> gtime \<Rightarrow> db \<Rightarrow> int option \<times> db" where
  "sql_insert_payment pg p t d =
     (let i = seq_payment d + 1; d1 = d\<lparr>seq_payment := i\<rparr>
      in if \<exists>r\<in>set (payment_postings d). pay_ShopifyTransactionID r = pay_ShopifyTransactionID p
         then (None, d1)
         else (Some i, d1\<lparr>payment_postings := payment_postings d @
                 [p\<lparr>pay_ID := i, pay_GrossAmount := pg_numeric pg (pay_GrossAmount p),
                    pay_FeeAmount := pg_numeric pg (pay_FeeAmount p),
                    pay_NetAmount := pg_numeric pg (pay_NetAmount p),
                    pay_ProcessedAt := pg_time (pay_ProcessedAt p), pay_Status := PayPending,
                    pay_PostedAt := None, pay_SysproReceiptRef := [], pay_LastError := [],
                    pay_Attempts := 0, pay_CreatedAt := pg_time t, pay_UpdatedAt := pg_time t\<rparr>]\<rparr>))"

definition CreatePayment :: "pgconv \<Rightarrow> payment_posting \<Rightarrow> world \<Rightarrow> int res \<times> world" where
  "CreatePayment pg p w =
     (case db_call (sql_insert_payment pg p) w of
        (Inl e, w') \<Rightarrow> (Inl (wrap_err ''inserting payment posting'' e), w')
      | (Inr None, w') \<Rightarrow> (Inl ErrDuplicatePayment, w')
      | (Inr (Some i), w') \<Rightarrow> (Inr i, w'))"

definition scan_payment :: "int \<Rightarrow> payment_posting \<Rightarrow> payment_posting" where
  "scan_payment z p =
     p\<lparr>pay_ProcessedAt := at_zone z (pay_ProcessedAt p),
       pay_PostedAt := map_option (at_zone z) (pay_PostedAt p),
       pay_CreatedAt := at_zone z (pay_CreatedAt p), pay_UpdatedAt := at_zone z (pay_UpdatedAt p)\<rparr>"

definition sql_unposted :: "nat \<Rightarrow> db \<Rightarrow> payment_posting list" where
  "sql_unposted limit d =
     take limit (sort_key (\<lambda>p. t_ns (pay_CreatedAt p))
       (filter (\<lambda>p. pay_Status p = PayPending) (payment_postings d)))"

definition FetchUnpostedPayments :: "nat \<Rightarrow> world \<Rightarrow> payment_posting list res \<times> world" where
  "FetchUnpostedPayments limit w =
     (case db_call (\<lambda>_ d. (sql_unposted limit d, d)) w of
        (Inl e, w') \<Rightarrow> (Inl (wrap_err ''querying unposted payments'' e), w')
      | (Inr ps, w') \<Rightarrow> (Inr (map (scan_payment (w_local w)) ps), w'))"

definition upd_payments ::
  "(payment_posting \<Rightarrow> bool) \<Rightarrow> (payment_posting \<Rightarrow> payment_posting) \<Rightarrow> db \<Rightarrow> nat \<times> db" where
  "upd_payments P f d =
     (length (filter P (payment_postings d)),
      d\<lparr>payment_postings := update_rows P f (payment_postings d)\<rparr>)"

definition sql_payment_posted :: "int \<Rightarrow> string \<Rightarrow> gtime \<Rightarrow> db \<Rightarrow> nat \<times> db" where
  "sql_payment_posted i ref t d =
     upd_payments (\<lambda>p. pay_ID p = i)
       (\<lambda>p. p\<lparr>pay_Status := PayPosted, pay_PostedAt := Some (pg_time t),
              pay_SysproReceiptRef := ref, pay_LastError := [], pay_UpdatedAt := pg_time t\<rparr>) d"

definition MarkPaymentPosted :: "int \<Rightarrow> string \<Rightarrow> world \<Rightarrow> unit res \<times> world" where
  "MarkPaymentPosted i ref w =
     (case db_call (sql_payment_posted i ref) w of
        (Inl e, w') \<Rightarrow> (Inl (wrap_err ''marking payment posted'' e), w')
      | (Inr n, w') \<Rightarrow>
          (if n = 0 then Inl (Errorf (''payment '' @ Itoa i @ '' not found'')) else Inr (), w'))"

definition maxPaymentAttempts :: int where "maxPaymentAttempts = 3"

definition sql_payment_failed :: "int \<Rightarrow> string \<Rightarrow> gtime \<Rightarrow> db \<Rightarrow> nat \<times> db" where
  "sql_payment_failed i err t d =
     upd_payments (\<lambda>p. pay_ID p = i)
       (\<lambda>p. p\<lparr>pay_Status := (if maxPaymentAttempts \<le> pay_Attempts p + 1 then PayDeadLetter else PayFailed),
              pay_Attempts := pay_Attempts p + 1, pay_LastError := err, pay_UpdatedAt := pg_time t\<rparr>) d"

definition MarkPaymentFailed :: "int \<Rightarrow> string \<Rightarrow> world \<Rightarrow> unit res \<times> world" where
  "MarkPaymentFailed i err w =
     (case db_call (sql_payment_failed i err) w of
        (Inl e, w') \<Rightarrow> (Inl (wrap_err ''marking payment failed'' e), w')
      | (Inr n, w') \<Rightarrow>
          (if n = 0 then Inl (Errorf (''payment '' @ Itoa i @ '' not found'')) else Inr (), w'))"

definition sql_requeue_payment :: "int \<Rightarrow> gtime \<Rightarrow> db \<Rightarrow> nat \<times> db" where
  "sql_requeue_payment i t d =
     upd_payments (\<lambda>p. pay_ID p = i \<and> (pay_Status p = PayFailed \<or> pay_Status p = PayDeadLetter))
       (\<lambda>p. p\<lparr>pay_Status := PayPending, pay_Attempts := 0, pay_LastError := [],
              pay_UpdatedAt := pg_time t\<rparr>) d"

definition RequeuePayment :: "int \<Rightarrow> world \<Rightarrow> unit res \<times> world" where
  "RequeuePayment i w =
     (case db_call (sql_requeue_payment i) w of
        (Inl e, w') \<Rightarrow> (Inl (wrap_err ''requeuing payment'' e), w')
      | (Inr n, w') \<Rightarrow>
          (if n = 0 then Inl (Errorf (''payment '' @ Itoa i @ '' not in failed state'')) else Inr (), w'))"

end
