(* ===== verification/Inventory.thy ===== *)
theory Inventory
  imports ShopifyGql Enet Store
begin

text \<open>
  \<open>internal/inventory\<close>: the one-way stock sync (\<open>syncer.go\<close>), the Shopify side of it (\<open>shopify.go\<close>) and
  the SQL Server lister (\<open>sqlserver_lister.go\<close>). A Go map is a list of pairs with distinct keys; the
  list's order is the order \<open>range\<close> visits it in, which Go leaves open, so nothing proved may depend on
  it.
\<close>

section \<open>sqlserver_lister.go\<close>

text \<open>
  What the driver gives: a failing query, or the rows (up to a failing scan or iteration). Stock codes
  are trimmed, empty ones and repetitions dropped.
\<close>

fun dedup_skus :: "string list \<Rightarrow> string list \<Rightarrow> string list" where
  "dedup_skus seen [] = []"
| "dedup_skus seen (r # rs) =
     (let s = TrimSpace r
      in if s = [] \<or> s \<in> set seen then dedup_skus seen rs else s # dedup_skus (s # seen) rs)"

definition sqlserver_ListAllSKUs :: "(string list \<times> go_error option) res \<Rightarrow> string list res" where
  "sqlserver_ListAllSKUs rows =
     (case rows of
        Inl e \<Rightarrow> Inl (wrap_err ''querying sqlserver'' e)
      | Inr (rs, Some e) \<Rightarrow> Inl (wrap_err ''iterating rows'' e)
      | Inr (rs, None) \<Rightarrow> Inr (dedup_skus [] rs))"

section \<open>shopify.go\<close>

record inv_client =
  ic_gql :: gql_client
  ic_configuredLocationID :: string
  ic_skus :: "string list"
  ic_locationID :: string
  ic_skuMap :: "(string \<times> string) list"

definition NewShopifyClient :: "string \<Rightarrow> string \<Rightarrow> string \<Rightarrow> string list \<Rightarrow> string option \<Rightarrow> inv_client" where
  "NewShopifyClient storeURL token loc skus override =
     \<lparr>ic_gql = NewFulfilmentClient storeURL token override, ic_configuredLocationID = loc, ic_skus = skus,
      ic_locationID = [], ic_skuMap = []\<rparr>"

definition dec_location_node :: "(string \<times> json) list \<Rightarrow> (string \<times> bool) option" where
  "dec_location_node o1 =
     Option.bind (fstring ''id'' o1) (\<lambda>i.
     Option.bind (fstring ''name'' o1) (\<lambda>_.
     Option.bind (fbool ''isActive'' o1) (\<lambda>a. Some (i, a))))"

definition dec_locations :: "(string \<times> json) list \<Rightarrow> (string \<times> bool) list option" where
  "dec_locations = fstruct ''locations''
     (farray ''edges'' (jstruct (fstruct ''node'' dec_location_node)) ([], False))"

definition locations_query :: string where
  "locations_query = ''{ locations(first: 50) { edges { node { id name isActive } } } }''"

definition resolveLocation :: "inv_client \<Rightarrow> world \<Rightarrow> (unit res \<times> inv_client) \<times> world" where
  "resolveLocation c w =
     (if ic_configuredLocationID c \<noteq> []
      then let l = ic_configuredLocationID c
           in ((Inr (), c\<lparr>ic_locationID :=
                 (if HasPrefix l ''gid://'' then l else ''gid://shopify/Location/'' @ l)\<rparr>), w)
      else (case graphql (ic_gql c) locations_query None w of
              (Inl e, w') \<Rightarrow> ((Inl (wrap_err ''querying locations'' e), c), w')
            | (Inr d, w') \<Rightarrow>
                (case decode_data dec_locations d of
                   None \<Rightarrow> (Inl (wrap_err ''parsing locations'' json_error), c)
                 | Some edges \<Rightarrow>
                     (case find snd edges of
                        Some (i, _) \<Rightarrow> (Inr (), c\<lparr>ic_locationID := i\<rparr>)
                      | None \<Rightarrow> (Inl (Errorf ''no active Shopify locations found''), c)), w')))"

definition variants_query :: "string \<Rightarrow> string" where
  "variants_query cursor =
     ''{'' @ nl @ [byte 9, byte 9] @
     ''  productVariants(first: 250'' @ (if cursor = [] then [] else '', after: '' @ go_quote cursor) @ '') {'' @ nl @
     [byte 9, byte 9] @ ''    edges { cursor node { sku } }'' @ nl @
     [byte 9, byte 9] @ ''    pageInfo { hasNextPage endCursor }'' @ nl @
     [byte 9, byte 9] @ ''  }'' @ nl @ [byte 9, byte 9] @ ''}''"

text \<open>A page: the SKUs of its edges, whether there is a next page, and its cursor.\<close>

definition dec_variants :: "(string \<times> json) list \<Rightarrow> (string list \<times> bool \<times> string) option" where
  "dec_variants = fstruct ''productVariants'' (\<lambda>o1.
     Option.bind (farray ''edges''
        (jstruct (\<lambda>e. Option.bind (fstring ''cursor'' e) (\<lambda>_. fstruct ''node'' (fstring ''sku'') e))) [] o1) (\<lambda>es.
     Option.bind (fstruct ''pageInfo'' (\<lambda>p.
        Option.bind (fbool ''hasNextPage'' p) (\<lambda>h. Option.bind (fstring ''endCursor'' p) (\<lambda>ec. Some (h, ec)))) o1)
     (\<lambda>pg. Some (es, pg))))"

lemma graphql_script: "w_http (snd (graphql c q vars w)) = tl (w_http w)"
  by (cases "http_do (gql_req c q vars) w")
    (use http_do_script [of "gql_req c q vars" w] in \<open>auto simp: graphql_def split: http_outcome.splits\<close>)

lemma graphql_dry: "graphql c q vars w = (Inr d, w') \<Longrightarrow> w_http w \<noteq> []"
  using http_do_dry [of w "gql_req c q vars"]
  by (cases "http_do (gql_req c q vars) w") (auto simp: graphql_def)

text \<open>The pagination loop; it ends because every page costs one answer of the script.\<close>

function list_skus_loop :: "gql_client \<Rightarrow> string \<Rightarrow> string list \<Rightarrow> world \<Rightarrow> string list res \<times> world" where
  "list_skus_loop c cursor seen w =
     (case graphql c (variants_query cursor) None w of
        (Inl e, w') \<Rightarrow> (Inl (wrap_err ''querying product variants'' e), w')
      | (Inr d, w') \<Rightarrow>
          (case decode_data dec_variants d of
             None \<Rightarrow> (Inl (wrap_err ''parsing product variants'' json_error), w')
           | Some (es, hn, ec) \<Rightarrow>
               let seen' = seen @ dedup_skus seen es
               in if hn then list_skus_loop c ec seen' w' else (Inr seen', w')))"
  by pat_completeness auto
termination
proof (relation "measure (\<lambda>(c, cur, s, w). length (w_http w))", goal_cases)
  case (2 c cursor seen w x w' d)
  then have g: "graphql c (variants_query cursor) None w = (Inr d, w')" by simp
  have "w_http w \<noteq> []" by (rule graphql_dry [OF g])
  moreover have "w_http w' = tl (w_http w)" using graphql_script [of c "variants_query cursor" None w] g by simp
  ultimately show ?case by (cases "w_http w") auto
qed simp

declare list_skus_loop.simps [simp del]

definition shopify_ListAllSKUs :: "gql_client \<Rightarrow> world \<Rightarrow> string list res \<times> world" where
  "shopify_ListAllSKUs c = list_skus_loop c [] []"

definition chunkSize :: nat where "chunkSize = 100"

function chunks_of :: "nat \<Rightarrow> 'a list \<Rightarrow> 'a list list" where
  "chunks_of k xs = (if xs = [] \<or> k = 0 then [] else take k xs # chunks_of k (drop k xs))"
  by pat_completeness auto
termination by (relation "measure (\<lambda>(k, xs). length xs)") auto

declare chunks_of.simps [simp del]

definition items_query :: "string list \<Rightarrow> string" where
  "items_query chunk =
     ''{ inventoryItems(first: 250, query: '' @
     go_quote (Join '' OR '' (map (\<lambda>s. ''sku:'' @ [CHR 0x27] @ s @ [CHR 0x27]) chunk)) @
     '') { edges { node { id sku } } } }''"

definition dec_items :: "(string \<times> json) list \<Rightarrow> (string \<times> string) list option" where
  "dec_items = fstruct ''inventoryItems'' (farray ''edges'' (jstruct (fstruct ''node'' (\<lambda>o1.
     Option.bind (fstring ''id'' o1) (\<lambda>i. Option.bind (fstring ''sku'' o1) (\<lambda>s. Some (s, i)))))) ([], []))"

fun resolve_chunks ::
  "gql_client \<Rightarrow> string list list \<Rightarrow> (string \<times> string) list \<Rightarrow> world
     \<Rightarrow> (unit res \<times> (string \<times> string) list) \<times> world" where
  "resolve_chunks c [] m w = ((Inr (), m), w)"
| "resolve_chunks c (ch # chs) m w =
     (case graphql c (items_query ch) None w of
        (Inl e, w') \<Rightarrow> ((Inl (wrap_err ''querying inventory items'' e), m), w')
      | (Inr d, w') \<Rightarrow>
          (case decode_data dec_items d of
             None \<Rightarrow> ((Inl (wrap_err ''parsing inventory items'' json_error), m), w')
           | Some es \<Rightarrow> resolve_chunks c chs (fold (\<lambda>(s, i) m. map_put s i m) es m) w'))"

definition resolveInventoryItems ::
  "inv_client \<Rightarrow> string list \<Rightarrow> world \<Rightarrow> (unit res \<times> inv_client) \<times> world" where
  "resolveInventoryItems c skus w =
     (let pending = filter (\<lambda>s. map_of (ic_skuMap c) s = None) skus
      in case resolve_chunks (ic_gql c) (chunks_of chunkSize pending) (ic_skuMap c) w of
           ((r, m), w') \<Rightarrow> ((r, c\<lparr>ic_skuMap := m\<rparr>), w'))"

definition set_mutation :: string where
  "set_mutation =
     ''mutation inventorySetQuantities($input: InventorySetQuantitiesInput!) {'' @ nl @
     ''  inventorySetQuantities(input: $input) {'' @ nl @
     ''    inventoryAdjustmentGroup {'' @ nl @
     ''      reason'' @ nl @
     ''      changes { name delta quantityAfterChange }'' @ nl @
     ''    }'' @ nl @
     ''    userErrors { code field message }'' @ nl @
     ''  }'' @ nl @
     ''}''"

text \<open>The quantities that are pushed: the SKUs with an inventory item id.\<close>

definition push_items :: "(string \<times> string) list \<Rightarrow> string \<Rightarrow> (string \<times> int) list \<Rightarrow> json list" where
  "push_items skuMap loc quantities =
     List.map_filter (\<lambda>(s, q). map_option (\<lambda>i.
        JObj [(''inventoryItemId'', JStr i), (''locationId'', JStr loc), (''quantity'', JNum (Itoa q))])
        (map_of skuMap s)) quantities"

definition set_vars :: "json list \<Rightarrow> json" where
  "set_vars items = JObj [(''input'', JObj
     [(''ignoreCompareQuantity'', JBool True), (''name'', JStr ''available''),
      (''quantities'', JArr items), (''reason'', JStr ''correction'')])]"

text \<open>The code and message of each user error.\<close>

definition dec_set_result :: "(string \<times> json) list \<Rightarrow> (string \<times> string) list option" where
  "dec_set_result = fstruct ''inventorySetQuantities'' (farray ''userErrors'' (jstruct (\<lambda>u.
     Option.bind (fstring ''code'' u) (\<lambda>c. Option.bind (farray ''field'' jstring [] u) (\<lambda>_.
     Option.bind (fstring ''message'' u) (\<lambda>m. Some (c, m)))))) ([], []))"

definition SetInventoryLevels ::
  "(string \<times> int) list \<Rightarrow> inv_client \<Rightarrow> world \<Rightarrow> (unit res \<times> inv_client) \<times> world" where
  "SetInventoryLevels quantities c w =
     (case (if ic_locationID c = [] then resolveLocation c w else ((Inr (), c), w)) of
        ((Inl e, c1), w1) \<Rightarrow> ((Inl (wrap_err ''resolving location'' e), c1), w1)
      | ((Inr _, c1), w1) \<Rightarrow>
          (case resolveInventoryItems c1 (ic_skus c1 @ map fst quantities) w1 of
             ((_, c2), w2) \<Rightarrow>
               let items = push_items (ic_skuMap c2) (ic_locationID c2) quantities
               in if items = [] then ((Inr (), c2), w2)
                  else (case graphql (ic_gql c2) set_mutation (Some (set_vars items)) w2 of
                          (Inl e, w3) \<Rightarrow> ((Inl (wrap_err ''inventory set quantities'' e), c2), w3)
                        | (Inr d, w3) \<Rightarrow>
                            ((case decode_data dec_set_result d of
                                None \<Rightarrow> Inl (wrap_err ''parsing set quantities response'' json_error)
                              | Some [] \<Rightarrow> Inr ()
                              | Some ((cd, m) # _) \<Rightarrow>
                                  Inl (Errorf (''inventory user error: ['' @ cd @ ''] '' @ m)), c2), w3))))"

section \<open>syncer.go\<close>

record 'w inv_deps =
  id_QueryStock :: "string list \<Rightarrow> string \<Rightarrow> 'w \<Rightarrow> (string \<times> float64) list res \<times> 'w"
  id_SetInventoryLevels :: "(string \<times> int) list \<Rightarrow> 'w \<Rightarrow> unit res \<times> 'w"
  id_FetchReservedQuantities :: "'w \<Rightarrow> (string \<times> int) list res \<times> 'w"
  id_ListAllSKUs :: "('w \<Rightarrow> string list res \<times> 'w) option"

record inv_syncer =
  is_warehouse :: string
  is_skus :: "string list"
  is_cachedStock :: "(string \<times> float64) list"
  is_consecutiveFailures :: int

definition resolveSKUs :: "'w inv_deps \<Rightarrow> inv_syncer \<Rightarrow> 'w \<Rightarrow> string list \<times> 'w" where
  "resolveSKUs d s w =
     (case id_ListAllSKUs d of
        None \<Rightarrow> (is_skus s, w)
      | Some l \<Rightarrow>
          (case l w of
             (Inl _, w') \<Rightarrow> (is_skus s, w')
           | (Inr skus, w') \<Rightarrow> (if skus = [] then is_skus s else skus, w')))"

text \<open>\<open>oor\<close> is the value of \<open>int(f)\<close> for a float that no int64 holds, which Go leaves to the machine.\<close>

definition effective_qty :: "(float64 \<Rightarrow> int) \<Rightarrow> float64 \<Rightarrow> int \<Rightarrow> int" where
  "effective_qty oor sysproQty reservedQty =
     (let e = wrap64 (round_to_int oor sysproQty - reservedQty) in if e < 0 then 0 else e)"

definition computeEffective ::
  "(float64 \<Rightarrow> int) \<Rightarrow> 'w inv_deps \<Rightarrow> (string \<times> float64) list \<Rightarrow> 'w \<Rightarrow> (string \<times> int) list \<times> 'w" where
  "computeEffective oor d stock w =
     (case id_FetchReservedQuantities d w of
        (r, w') \<Rightarrow>
          let reserved = (case r of Inl _ \<Rightarrow> [] | Inr m \<Rightarrow> m)
          in (map (\<lambda>(sku, q). (sku, effective_qty oor q
                 (case map_of reserved sku of None \<Rightarrow> 0 | Some n \<Rightarrow> n))) stock, w'))"

definition fullSync ::
  "(float64 \<Rightarrow> int) \<Rightarrow> 'w inv_deps \<Rightarrow> inv_syncer \<Rightarrow> 'w \<Rightarrow> inv_syncer \<times> 'w" where
  "fullSync oor d s w =
     (case resolveSKUs d s w of
        (skus, w1) \<Rightarrow>
          if skus = [] then (s, w1)
          else (case id_QueryStock d skus (is_warehouse s) w1 of
            (Inl _, w2) \<Rightarrow> (s\<lparr>is_consecutiveFailures := is_consecutiveFailures s + 1\<rparr>, w2)
          | (Inr stock, w2) \<Rightarrow>
              if stock = [] then (s, w2)
              else (case computeEffective oor d stock w2 of
                (quantities, w3) \<Rightarrow>
                  (s\<lparr>is_cachedStock := stock, is_consecutiveFailures := 0\<rparr>,
                   snd (id_SetInventoryLevels d quantities w3)))))"

definition triggeredSync ::
  "(float64 \<Rightarrow> int) \<Rightarrow> 'w inv_deps \<Rightarrow> inv_syncer \<Rightarrow> 'w \<Rightarrow> inv_syncer \<times> 'w" where
  "triggeredSync oor d s w =
     (if is_cachedStock s = [] then (s, w)
      else (case computeEffective oor d (is_cachedStock s) w of
              (quantities, w1) \<Rightarrow> (s, snd (id_SetInventoryLevels d quantities w1))))"

text \<open>
  The \<open>select\<close> loop of \<open>Run\<close>: the events it waits for, and whether the debounce timer is armed. A
  trigger (re)arms the timer; a firing ticker syncs in full; the debounce channel is nil unless armed.
  \<open>tick\<close> and \<open>triggeredTick\<close> run under \<open>syncMu\<close>, which is never held here since the loop is one
  goroutine.
\<close>

datatype inv_event = TickerFired | Triggered | DebounceFired

record 'w inv_loop =
  il_syncer :: inv_syncer
  il_armed :: bool
  il_world :: 'w

fun inv_step :: "(float64 \<Rightarrow> int) \<Rightarrow> 'w inv_deps \<Rightarrow> inv_event \<Rightarrow> 'w inv_loop \<Rightarrow> 'w inv_loop" where
  "inv_step oor d TickerFired l =
     (case fullSync oor d (il_syncer l) (il_world l) of
        (s, w) \<Rightarrow> l\<lparr>il_syncer := s, il_world := w\<rparr>)"
| "inv_step oor d Triggered l = l\<lparr>il_armed := True\<rparr>"
| "inv_step oor d DebounceFired l =
     (if il_armed l
      then (case triggeredSync oor d (il_syncer l) (il_world l) of
              (s, w) \<Rightarrow> l\<lparr>il_syncer := s, il_world := w, il_armed := False\<rparr>)
      else l)"

text \<open>\<open>Run\<close> over a sequence of events, after its first tick at once.\<close>

definition inv_run :: "(float64 \<Rightarrow> int) \<Rightarrow> 'w inv_deps \<Rightarrow> inv_event list \<Rightarrow> 'w inv_loop \<Rightarrow> 'w inv_loop" where
  "inv_run oor d evs l = fold (inv_step oor d) evs (inv_step oor d TickerFired l)"

text \<open>The service's collaborators: the state is the Shopify client's and the world.\<close>

definition lift_world :: "(world \<Rightarrow> 'a \<times> world) \<Rightarrow> inv_client \<times> world \<Rightarrow> 'a \<times> (inv_client \<times> world)" where
  "lift_world f cw = (case f (snd cw) of (r, w) \<Rightarrow> (r, (fst cw, w)))"

definition service_inv_deps :: "enet_client \<Rightarrow> bool \<Rightarrow> (inv_client \<times> world) inv_deps" where
  "service_inv_deps ec dynamic =
     \<lparr>id_QueryStock = (\<lambda>skus wh. lift_world (QueryStock ec skus wh)),
      id_SetInventoryLevels = (\<lambda>q (c, w). case SetInventoryLevels q c w of ((r, c'), w') \<Rightarrow> (r, (c', w'))),
      id_FetchReservedQuantities = lift_world FetchReservedQuantities,
      id_ListAllSKUs = (if dynamic then Some (\<lambda>(c, w). case shopify_ListAllSKUs (ic_gql c) w of (r, w') \<Rightarrow> (r, (c, w')))
                        else None)\<rparr>"

end
