(* ===== verification/Fulfilment.thy ===== *)
theory Fulfilment
  imports ShopifyGql Enet Store
begin

text \<open>
  \<open>internal/fulfilment/syncer.go\<close>: completed SYSPRO orders become Shopify fulfilments. The syncer's
  three interfaces are the record \<open>fulfil_deps\<close> of operations.
\<close>

record 'w fulfil_deps =
  fd_FetchSubmittedOrders :: "'w \<Rightarrow> order list res \<times> 'w"
  fd_UpdateOrderFulfilled :: "int \<Rightarrow> string \<Rightarrow> 'w \<Rightarrow> unit res \<times> 'w"
  fd_QueryDispatchedOrders :: "string list \<Rightarrow> 'w \<Rightarrow> (string \<times> sorqry_result) list res \<times> 'w"
  fd_GetFulfillmentOrderID :: "int \<Rightarrow> 'w \<Rightarrow> string res \<times> 'w"
  fd_CreateFulfillment :: "fulfilment_input \<Rightarrow> 'w \<Rightarrow> string res \<times> 'w"

text \<open>The body of the loop for one order; \<open>True\<close> when it was fulfilled (the counter).\<close>

definition fulfil_order ::
  "'w fulfil_deps \<Rightarrow> (string \<times> sorqry_result) list \<Rightarrow> order \<Rightarrow> 'w \<Rightarrow> bool \<times> 'w" where
  "fulfil_order fd dispatched ord w =
     (case map_of dispatched (SysproOrderNumber ord) of
        None \<Rightarrow> (False, w)
      | Some result \<Rightarrow>
          if sq_OrderStatus result \<noteq> ''9'' then (False, w)
          else (case fd_GetFulfillmentOrderID fd (ShopifyOrderID ord) w of
            (Inl _, w1) \<Rightarrow> (False, w1)
          | (Inr foID, w1) \<Rightarrow>
              (case fd_CreateFulfillment fd
                      \<lparr>FulfillmentOrderID = foID, TrackingNumber = sq_TrackingNumber result,
                       Carrier = sq_Carrier result\<rparr> w1 of
                 (Inl _, w2) \<Rightarrow> (False, w2)
               | (Inr fid, w2) \<Rightarrow>
                   (case fd_UpdateOrderFulfilled fd (ord_ID ord) fid w2 of
                      (Inl _, w3) \<Rightarrow> (False, w3)
                    | (Inr _, w3) \<Rightarrow> (True, w3)))))"

fun fulfil_loop ::
  "'w fulfil_deps \<Rightarrow> (string \<times> sorqry_result) list \<Rightarrow> order list \<Rightarrow> 'w \<Rightarrow> nat \<times> 'w" where
  "fulfil_loop fd dispatched [] w = (0, w)"
| "fulfil_loop fd dispatched (ord # ords) w =
     (case fulfil_order fd dispatched ord w of
        (b, w1) \<Rightarrow> (case fulfil_loop fd dispatched ords w1 of (n, w2) \<Rightarrow> ((if b then 1 else 0) + n, w2)))"

text \<open>\<open>processOrders\<close>, with the number of orders fulfilled that it logs.\<close>

definition processOrders :: "'w fulfil_deps \<Rightarrow> 'w \<Rightarrow> nat \<times> 'w" where
  "processOrders fd w =
     (case fd_FetchSubmittedOrders fd w of
        (Inl _, w1) \<Rightarrow> (0, w1)
      | (Inr ords, w1) \<Rightarrow>
          let nums = filter (\<lambda>n. n \<noteq> []) (map SysproOrderNumber ords)
          in if nums = [] then (0, w1)
             else (case fd_QueryDispatchedOrders fd nums w1 of
                     (Inl _, w2) \<Rightarrow> (0, w2)
                   | (Inr dispatched, w2) \<Rightarrow> fulfil_loop fd dispatched ords w2))"

definition fulfil_tick :: "bool \<Rightarrow> 'w fulfil_deps \<Rightarrow> 'w \<Rightarrow> 'w" where
  "fulfil_tick locked fd w = (if locked then w else snd (processOrders fd w))"

definition service_fulfil_deps :: "enet_client \<Rightarrow> gql_client \<Rightarrow> world fulfil_deps" where
  "service_fulfil_deps ec gc =
     \<lparr>fd_FetchSubmittedOrders = FetchSubmittedOrders, fd_UpdateOrderFulfilled = UpdateOrderFulfilled,
      fd_QueryDispatchedOrders = QueryDispatchedOrders ec,
      fd_GetFulfillmentOrderID = GetFulfillmentOrderID gc, fd_CreateFulfillment = CreateFulfillment gc\<rparr>"

definition run_fulfilment :: "enet_client \<Rightarrow> gql_client \<Rightarrow> world \<Rightarrow> world" where
  "run_fulfilment ec gc w = snd (processOrders (service_fulfil_deps ec gc) w)"

end
