(* ===== verification/Hmac.thy ===== *)
theory Hmac
  imports Prelude "HOL-Library.Word"
begin

text \<open>
  What \<open>internal/webhook/verify.go\<close> uses of the Go standard library: SHA-256, HMAC (RFC 2104) and
  standard base64, on byte strings (a \<open>char\<close> is a byte); and \<open>VerifyHMAC\<close> itself.
\<close>

section \<open>SHA-256\<close>

type_synonym w32 = "32 word"

text \<open>The round constants of FIPS 180-4, in decimal.\<close>

definition sha_k :: "w32 list" where
  "sha_k =
    [1116352408, 1899447441, 3049323471, 3921009573, 961987163, 1508970993, 2453635748, 2870763221,
     3624381080, 310598401, 607225278, 1426881987, 1925078388, 2162078206, 2614888103, 3248222580,
     3835390401, 4022224774, 264347078, 604807628, 770255983, 1249150122, 1555081692, 1996064986,
     2554220882, 2821834349, 2952996808, 3210313671, 3336571891, 3584528711, 113926993, 338241895,
     666307205, 773529912, 1294757372, 1396182291, 1695183700, 1986661051, 2177026350, 2456956037,
     2730485921, 2820302411, 3259730800, 3345764771, 3516065817, 3600352804, 4094571909, 275423344,
     430227734, 506948616, 659060556, 883997877, 958139571, 1322822218, 1537002063, 1747873779,
     1955562222, 2024104815, 2227730452, 2361852424, 2428436474, 2756734187, 3204031479, 3329325298]"

unbundle bit_operations_syntax

definition rotr :: "nat \<Rightarrow> w32 \<Rightarrow> w32" where
  "rotr n x = drop_bit n x OR push_bit (32 - n) x"

definition sha_ch :: "w32 \<Rightarrow> w32 \<Rightarrow> w32 \<Rightarrow> w32" where
  "sha_ch x y z = (x AND y) XOR ((NOT x) AND z)"

definition sha_maj :: "w32 \<Rightarrow> w32 \<Rightarrow> w32 \<Rightarrow> w32" where
  "sha_maj x y z = (x AND y) XOR (x AND z) XOR (y AND z)"

definition big_sigma0 :: "w32 \<Rightarrow> w32" where
  "big_sigma0 x = rotr 2 x XOR rotr 13 x XOR rotr 22 x"

definition big_sigma1 :: "w32 \<Rightarrow> w32" where
  "big_sigma1 x = rotr 6 x XOR rotr 11 x XOR rotr 25 x"

definition small_sigma0 :: "w32 \<Rightarrow> w32" where
  "small_sigma0 x = rotr 7 x XOR rotr 18 x XOR drop_bit 3 x"

definition small_sigma1 :: "w32 \<Rightarrow> w32" where
  "small_sigma1 x = rotr 17 x XOR rotr 19 x XOR drop_bit 10 x"

text \<open>The message schedule, latest word first.\<close>

fun sha_extend :: "nat \<Rightarrow> w32 list \<Rightarrow> w32 list" where
  "sha_extend 0 ws = ws"
| "sha_extend (Suc n) ws =
     sha_extend n ((small_sigma1 (ws ! 1) + ws ! 6 + small_sigma0 (ws ! 14) + ws ! 15) # ws)"

definition sha_round :: "w32 \<times> w32 \<Rightarrow> w32 list \<Rightarrow> w32 list" where
  "sha_round kw st =
     (case st of
        [a, b, c, d, e, f, g, h] \<Rightarrow>
          let t1 = h + big_sigma1 e + sha_ch e f g + fst kw + snd kw;
              t2 = big_sigma0 a + sha_maj a b c
          in [t1 + t2, a, b, c, d + t1, e, f, g]
      | _ \<Rightarrow> st)"

definition sha_block :: "w32 list \<Rightarrow> w32 list \<Rightarrow> w32 list" where
  "sha_block st ws =
     map2 (+) st (fold sha_round (zip sha_k (rev (sha_extend 48 (rev ws)))) st)"

definition sha_init :: "w32 list" where
  "sha_init = [0x6a09e667, 0xbb67ae85, 0x3c6ef372, 0xa54ff53a, 0x510e527f, 0x9b05688c, 0x1f83d9ab, 0x5be0cd19]"

text \<open>Bytes as integers from 0 to 255; big-endian words.\<close>

fun be_words :: "int list \<Rightarrow> w32 list" where
  "be_words (a # b # c # d # r) = word_of_int (((a * 256 + b) * 256 + c) * 256 + d) # be_words r"
| "be_words _ = []"

definition be_bytes :: "w32 \<Rightarrow> int list" where
  "be_bytes x = (let n = uint x in [n div 16777216, n div 65536 mod 256, n div 256 mod 256, n mod 256])"

definition sha_pad :: "int list \<Rightarrow> int list" where
  "sha_pad m =
     (let n = int (length m); z = nat ((55 - n) mod 64); bits = (n * 8) mod 2 ^ 64
      in m @ [128] @ replicate z 0 @ map (\<lambda>i. bits div 256 ^ i mod 256) [7, 6, 5, 4, 3, 2, 1, 0])"

fun sha_blocks :: "nat \<Rightarrow> w32 list \<Rightarrow> w32 list \<Rightarrow> w32 list" where
  "sha_blocks 0 st ws = st"
| "sha_blocks (Suc k) st ws = sha_blocks k (sha_block st (take 16 ws)) (drop 16 ws)"

definition sha256 :: "int list \<Rightarrow> int list" where
  "sha256 m =
     (let p = sha_pad m in concat (map be_bytes (sha_blocks (length p div 64) sha_init (be_words p))))"

section \<open>HMAC and base64\<close>

definition xor_pad :: "int \<Rightarrow> int list \<Rightarrow> int list" where
  "xor_pad b k = map (\<lambda>x. x XOR b) (k @ replicate (64 - length k) 0)"

definition hmac_sha256 :: "int list \<Rightarrow> int list \<Rightarrow> int list" where
  "hmac_sha256 key m =
     (let k = (if 64 < length key then sha256 key else key)
      in sha256 (xor_pad 0x5C k @ sha256 (xor_pad 0x36 k @ m)))"

definition b64_char :: "int \<Rightarrow> char" where
  "b64_char n = ''ABCDEFGHIJKLMNOPQRSTUVWXYZabcdefghijklmnopqrstuvwxyz0123456789+/'' ! nat n"

fun base64 :: "int list \<Rightarrow> string" where
  "base64 [] = []"
| "base64 [a] = [b64_char (a div 4), b64_char (a mod 4 * 16), CHR ''='', CHR ''='']"
| "base64 [a, b] = [b64_char (a div 4), b64_char (a mod 4 * 16 + b div 16), b64_char (b mod 16 * 4), CHR ''='']"
| "base64 (a # b # c # r) =
     [b64_char (a div 4), b64_char (a mod 4 * 16 + b div 16), b64_char (b mod 16 * 4 + c div 64),
      b64_char (c mod 64)] @ base64 r"

definition bytes_of :: "string \<Rightarrow> int list" where
  "bytes_of s = map of_char s"

section \<open>verify.go\<close>

definition VerifyHMAC :: "string \<Rightarrow> string \<Rightarrow> string \<Rightarrow> bool" where
  "VerifyHMAC body secret signature =
     (if signature = [] then False
      else base64 (hmac_sha256 (bytes_of secret) (bytes_of body)) = signature)"

section \<open>The digest and its text\<close>

definition bytes_ok :: "int list \<Rightarrow> bool" where
  "bytes_ok bs \<longleftrightarrow> (\<forall>b\<in>set bs. 0 \<le> b \<and> b < 256)"

lemma be_bytes_ok: "bytes_ok (be_bytes x)" "length (be_bytes x) = 4"
proof -
  have u: "0 \<le> uint x" "uint x < 4294967296"
    using uint_lt2p [of x] by auto
  show "bytes_ok (be_bytes x)"
    unfolding be_bytes_def bytes_ok_def Let_def
    using u by (auto simp: pos_imp_zdiv_nonneg_iff)
  show "length (be_bytes x) = 4" by (simp add: be_bytes_def Let_def)
qed

lemma sha_round_length: "length (sha_round kw st) = length st"
  by (auto simp: sha_round_def Let_def split: list.splits)

lemma sha_rounds_length: "length (fold sha_round ks st) = length st"
  by (induction ks arbitrary: st) (auto simp: sha_round_length)

lemma sha_blocks_length: "length (sha_blocks k st ws) = length st"
  by (induction k arbitrary: st ws) (auto simp: sha_block_def sha_rounds_length)

lemma sha256_bytes: "bytes_ok (sha256 m)" "length (sha256 m) = 32"
proof -
  show "bytes_ok (sha256 m)"
    using be_bytes_ok(1) by (auto simp: sha256_def Let_def bytes_ok_def)
  have "length (concat (map be_bytes ws)) = 4 * length ws" for ws
    by (induction ws) (auto simp: be_bytes_ok(2))
  then show "length (sha256 m) = 32"
    by (simp add: sha256_def Let_def sha_blocks_length sha_init_def)
qed

lemma hmac_bytes: "bytes_ok (hmac_sha256 k m)" "length (hmac_sha256 k m) = 32"
  by (simp_all add: hmac_sha256_def Let_def sha256_bytes)

lemma sha_pad_length: "length (sha_pad m) mod 64 = 0"
proof -
  let ?n = "int (length m)"
  have "(?n + 9 + (55 - ?n) mod 64) mod 64 = 0"
    using mod_add_right_eq [of "?n + 9" "55 - ?n" 64] by simp
  moreover have "int (length (sha_pad m)) = ?n + 9 + (55 - ?n) mod 64"
    by (simp add: sha_pad_def Let_def)
  ultimately have "int (length (sha_pad m)) mod 64 = 0" by simp
  then show ?thesis by (metis of_nat_0_eq_iff of_nat_numeral zmod_int)
qed

text \<open>Base64 text determines the bytes.\<close>

definition b64_val :: "char \<Rightarrow> int" where
  "b64_val c = (case find (\<lambda>n. b64_char n = c) [0..63] of Some n \<Rightarrow> n | None \<Rightarrow> 64)"

lemma b64_val_char_all: "\<forall>n\<in>set [0..63]. b64_val (b64_char n) = n \<and> b64_char n \<noteq> CHR ''=''"
  by code_simp

lemma b64_val_char: "0 \<le> n \<Longrightarrow> n < 64 \<Longrightarrow> b64_val (b64_char n) = n"
  "0 \<le> n \<Longrightarrow> n < 64 \<Longrightarrow> b64_char n \<noteq> CHR ''=''"
  using b64_val_char_all by auto

fun unbase64 :: "string \<Rightarrow> int list" where
  "unbase64 (a # b # c # d # r) =
     (let x = b64_val a; y = b64_val b; z = b64_val c; w = b64_val d
      in if c = CHR ''='' then [x * 4 + y div 16]
         else if d = CHR ''='' then [x * 4 + y div 16, y mod 16 * 16 + z div 4]
         else [x * 4 + y div 16, y mod 16 * 16 + z div 4, z mod 4 * 64 + w] @ unbase64 r)"
| "unbase64 _ = []"

lemma split_bits:
  assumes "0 \<le> (q :: int)" "q < k"
  shows "(m * k + q) div k = m" "(m * k + q) mod k = q"
  using assms by simp_all

lemma b64_range:
  assumes "0 \<le> (m :: int)" "m < 4" "0 \<le> q" "q < 16"
  shows "0 \<le> m * 16 + q" "m * 16 + q < 64" "0 \<le> q * 4 + m" "q * 4 + m < 64"
  using assms by auto

lemma byte_parts:
  assumes "0 \<le> (a :: int)" "a < 256"
  shows "0 \<le> a div 4" "a div 4 < 64" "0 \<le> a div 16" "a div 16 < 16" "0 \<le> a div 64" "a div 64 < 4"
  using assms by auto

lemma b64_join2:
  assumes "0 \<le> (a :: int)" "a < 256" "0 \<le> q" "q < 16"
  shows "b64_val (b64_char (a div 4)) * 4 + b64_val (b64_char (a mod 4 * 16 + q)) div 16 = a"
    "b64_val (b64_char (a mod 4 * 16 + q)) mod 16 = q"
  using assms b64_range [of "a mod 4" q] by (simp_all add: b64_val_char byte_parts split_bits)

lemma b64_join3:
  assumes "0 \<le> (b :: int)" "b < 256" "0 \<le> m" "m < 4"
  shows "b div 16 * 16 + b64_val (b64_char (b mod 16 * 4 + m)) div 4 = b"
    "b64_val (b64_char (b mod 16 * 4 + m)) mod 4 = m" "b64_char (b mod 16 * 4 + m) \<noteq> CHR ''=''"
  using assms b64_range [of m "b mod 16"] by (simp_all add: b64_val_char split_bits)

lemma unbase64_base64: "bytes_ok bs \<Longrightarrow> unbase64 (base64 bs) = bs"
proof (induction bs rule: base64.induct)
  case (2 a)
  then have "0 \<le> a" "a < 256" by (auto simp: bytes_ok_def)
  from b64_join2(1) [OF this, of 0] show ?case by (simp add: Let_def)
next
  case (3 a b)
  then have a: "0 \<le> a" "a < 256" and b: "0 \<le> b" "b < 256" by (auto simp: bytes_ok_def)
  show ?case
    by (simp only: base64.simps unbase64.simps Let_def if_False simp_thms if_True b64_join2 [OF a byte_parts(3,4) [OF b]]
        b64_join3 [OF b order_refl zero_less_numeral, unfolded add_0_right])
next
  case (4 a b c r)
  then have a: "0 \<le> a" "a < 256" and b: "0 \<le> b" "b < 256" and c: "0 \<le> c" "c < 256" and r: "bytes_ok r"
    by (auto simp: bytes_ok_def)
  have "b64_char (c mod 64) \<noteq> CHR ''=''" "b64_val (b64_char (c mod 64)) = c mod 64"
    by (simp_all add: b64_val_char)
  moreover have "c div 64 * 64 + c mod 64 = c" by simp
  ultimately show ?case
    by (simp only: base64.simps append.simps unbase64.simps Let_def if_False 4(1) [OF r]
        b64_join2 [OF a byte_parts(3,4) [OF b]] b64_join3 [OF b byte_parts(5,6) [OF c]])
qed simp

lemma base64_length: "length (base64 bs) = 4 * ((length bs + 2) div 3)"
proof (induction bs rule: base64.induct)
  case (4 a b c r)
  have "(5 + length r) div 3 = Suc ((length r + 2) div 3)"
    using div_add_self2 [of 3 "length r + 2"] by (simp add: add.commute)
  with 4 show ?case by simp
qed auto

text \<open>The signature check. An accepted signature has 44 characters and is the base64 text of the
  body's HMAC under the secret; it is the only one the body is accepted with; and a body accepted with the
  signature of another has the same digest.\<close>

theorem VerifyHMAC_sound:
  assumes "VerifyHMAC body secret sig"
  shows "length sig = 44 \<and> unbase64 sig = hmac_sha256 (bytes_of secret) (bytes_of body)
    \<and> (\<forall>sig'. VerifyHMAC body secret sig' \<longrightarrow> sig' = sig)
    \<and> (\<forall>body'. VerifyHMAC body' secret sig \<longleftrightarrow>
         hmac_sha256 (bytes_of secret) (bytes_of body') = hmac_sha256 (bytes_of secret) (bytes_of body))"
proof -
  let ?h = "\<lambda>b. hmac_sha256 (bytes_of secret) (bytes_of b)"
  have s: "sig = base64 (?h body)" "sig \<noteq> []" using assms by (auto simp: VerifyHMAC_def split: if_splits)
  have inj: "base64 (?h b) = base64 (?h b') \<longleftrightarrow> ?h b = ?h b'" for b b'
    using unbase64_base64 [OF hmac_bytes(1)] by metis
  show ?thesis
    using s inj by (auto simp: VerifyHMAC_def base64_length hmac_bytes unbase64_base64)
qed

theorem VerifyHMAC_sound_witness:
  "length (base64 (hmac_sha256 (bytes_of ''key'') (bytes_of ''{}''))) = 44"
proof -
  have "base64 (hmac_sha256 (bytes_of ''key'') (bytes_of ''{}'')) \<noteq> []"
    using base64_length [of "hmac_sha256 (bytes_of ''key'') (bytes_of ''{}'')"] by (auto simp: hmac_bytes)
  then have "VerifyHMAC ''{}'' ''key'' (base64 (hmac_sha256 (bytes_of ''key'') (bytes_of ''{}'')))"
    by (simp add: VerifyHMAC_def)
  from VerifyHMAC_sound [OF this] show ?thesis by blast
qed

end
