(* ===== verification/Webhook.thy ===== *)
theory Webhook
  imports Store Json Hmac
begin

text \<open>
  \<open>internal/webhook/handler.go\<close> and \<open>payload.go\<close>: the orders/create webhook. The handler's store is
  the record \<open>order_store\<close> of the operations of its \<open>OrderStore\<close> interface; a response is its status and
  its one key and value. The trigger channel (capacity one) is \<open>None\<close> for a nil channel, else whether a
  signal is pending.
\<close>

section \<open>payload.go\<close>

record shopify_tax =
  tax_Price :: string
  tax_Rate :: float64
  tax_Title :: string

record shopify_line_item =
  li_SKU :: string
  li_Quantity :: int
  li_Price :: string
  li_TotalDiscount :: string
  li_TaxLines :: "shopify_tax list"

record shopify_address =
  FirstName :: string
  LastName :: string
  Address1 :: string
  Address2 :: string
  City :: string
  Province :: string
  Zip :: string
  Country :: string
  Phone :: string

record shopify_shipping_line =
  sl_Title :: string
  sl_Price :: string

record shopify_order =
  p_ID :: int
  p_Name :: string
  p_Email :: string
  p_CreatedAt :: string
  p_TotalPrice :: string
  p_FinancialStatus :: string
  p_Gateway :: string
  p_PaymentGatewayNames :: "string list"
  p_ShippingAddress :: "shopify_address option"
  p_LineItems :: "shopify_line_item list"
  p_ShippingLines :: "shopify_shipping_line list"
  p_CancelledAt :: "string option"
  p_CancelReason :: string

text \<open>\<open>json.Unmarshal\<close> into the structs: each field is decoded by its tag.\<close>

definition dec_tax :: "(string \<times> json) list \<Rightarrow> shopify_tax option" where
  "dec_tax o1 =
     Option.bind (fstring ''price'' o1) (\<lambda>p.
     Option.bind (ffloat ''rate'' o1) (\<lambda>r.
     Option.bind (fstring ''title'' o1) (\<lambda>t.
       Some \<lparr>tax_Price = p, tax_Rate = r, tax_Title = t\<rparr>)))"

definition zero_tax :: shopify_tax where
  "zero_tax = \<lparr>tax_Price = [], tax_Rate = Fin 0, tax_Title = []\<rparr>"

definition dec_line_item :: "(string \<times> json) list \<Rightarrow> shopify_line_item option" where
  "dec_line_item o1 =
     Option.bind (fstring ''sku'' o1) (\<lambda>s.
     Option.bind (fint ''quantity'' o1) (\<lambda>q.
     Option.bind (fstring ''price'' o1) (\<lambda>p.
     Option.bind (fstring ''total_discount'' o1) (\<lambda>d.
     Option.bind (farray ''tax_lines'' (jstruct dec_tax) zero_tax o1) (\<lambda>t.
       Some \<lparr>li_SKU = s, li_Quantity = q, li_Price = p, li_TotalDiscount = d, li_TaxLines = t\<rparr>)))))"

definition zero_line_item :: shopify_line_item where
  "zero_line_item = \<lparr>li_SKU = [], li_Quantity = 0, li_Price = [], li_TotalDiscount = [], li_TaxLines = []\<rparr>"

definition dec_address :: "(string \<times> json) list \<Rightarrow> shopify_address option" where
  "dec_address o1 =
     Option.bind (fstring ''first_name'' o1) (\<lambda>f.
     Option.bind (fstring ''last_name'' o1) (\<lambda>l.
     Option.bind (fstring ''address1'' o1) (\<lambda>a1.
     Option.bind (fstring ''address2'' o1) (\<lambda>a2.
     Option.bind (fstring ''city'' o1) (\<lambda>c.
     Option.bind (fstring ''province'' o1) (\<lambda>p.
     Option.bind (fstring ''zip'' o1) (\<lambda>z.
     Option.bind (fstring ''country'' o1) (\<lambda>co.
     Option.bind (fstring ''phone'' o1) (\<lambda>ph.
       Some \<lparr>FirstName = f, LastName = l, Address1 = a1, Address2 = a2, City = c, Province = p,
             Zip = z, Country = co, Phone = ph\<rparr>)))))))))"

definition dec_shipping_line :: "(string \<times> json) list \<Rightarrow> shopify_shipping_line option" where
  "dec_shipping_line o1 =
     Option.bind (fstring ''title'' o1) (\<lambda>t.
     Option.bind (fstring ''price'' o1) (\<lambda>p.
       Some \<lparr>sl_Title = t, sl_Price = p\<rparr>))"

definition zero_shipping_line :: shopify_shipping_line where
  "zero_shipping_line = \<lparr>sl_Title = [], sl_Price = []\<rparr>"

definition dec_order :: "(string \<times> json) list \<Rightarrow> shopify_order option" where
  "dec_order o1 =
     Option.bind (fint ''id'' o1) (\<lambda>i.
     Option.bind (fstring ''name'' o1) (\<lambda>n.
     Option.bind (fstring ''email'' o1) (\<lambda>e.
     Option.bind (fstring ''created_at'' o1) (\<lambda>c.
     Option.bind (fstring ''total_price'' o1) (\<lambda>t.
     Option.bind (fstring ''financial_status'' o1) (\<lambda>f.
     Option.bind (fstring ''gateway'' o1) (\<lambda>g.
     Option.bind (farray ''payment_gateway_names'' jstring [] o1) (\<lambda>gs.
     Option.bind (fptr ''shipping_address'' (jstruct dec_address) o1) (\<lambda>a.
     Option.bind (farray ''line_items'' (jstruct dec_line_item) zero_line_item o1) (\<lambda>ls.
     Option.bind (farray ''shipping_lines'' (jstruct dec_shipping_line) zero_shipping_line o1) (\<lambda>ss.
     Option.bind (fptr ''cancelled_at'' jstring o1) (\<lambda>ca.
     Option.bind (fstring ''cancel_reason'' o1) (\<lambda>cr.
       Some \<lparr>p_ID = i, p_Name = n, p_Email = e, p_CreatedAt = c, p_TotalPrice = t,
             p_FinancialStatus = f, p_Gateway = g, p_PaymentGatewayNames = gs, p_ShippingAddress = a,
             p_LineItems = ls, p_ShippingLines = ss, p_CancelledAt = ca, p_CancelReason = cr\<rparr>)))))))))))))"

section \<open>handler.go\<close>

definition isPaidStatus :: "string \<Rightarrow> bool" where
  "isPaidStatus s \<longleftrightarrow> ToLower (TrimSpace s) \<in> {''paid'', ''partially_paid''}"

text \<open>\<open>if v, err := strconv.ParseFloat(s, 64); err == nil\<close>, else the zero value.\<close>

definition float_or_zero :: "string \<Rightarrow> float64" where
  "float_or_zero s = (case ParseFloat s of Some v \<Rightarrow> v | None \<Rightarrow> Fin 0)"

definition map_line :: "shopify_line_item \<Rightarrow> order_line" where
  "map_line li =
     \<lparr>line_ID = 0, line_OrderID = 0, SKU = li_SKU li, Quantity = li_Quantity li,
      UnitPrice = float_or_zero (li_Price li), Discount = float_or_zero (li_TotalDiscount li),
      Tax = fsum (List.map_filter (\<lambda>t. ParseFloat (tax_Price t)) (li_TaxLines li))\<rparr>"

definition set_address :: "shopify_address option \<Rightarrow> order \<Rightarrow> order" where
  "set_address a ord =
     (case a of
        None \<Rightarrow> ord
      | Some a \<Rightarrow>
          ord\<lparr>ShipFirstName := FirstName a, ShipLastName := LastName a, ShipAddress1 := Address1 a,
              ShipAddress2 := Address2 a, ShipCity := City a, ShipProvince := Province a,
              ShipPostcode := Zip a, ShipCountry := Country a, ShipPhone := Phone a\<rparr>)"

text \<open>\<open>nw\<close> is \<open>time.Now()\<close>, used when \<open>created_at\<close> does not parse.\<close>

definition mapOrder :: "gtime \<Rightarrow> shopify_order \<Rightarrow> string \<Rightarrow> order \<times> order_line list" where
  "mapOrder nw p raw =
     (set_address (p_ShippingAddress p)
        (zero_order\<lparr>
           ShopifyOrderID := p_ID p, OrderNumber := p_Name p, Status := OrderStatusPending,
           CustomerAccount := ''WEBS01'', ShipEmail := p_Email p, RawPayload := raw,
           PaymentReference :=
             (if p_Gateway p \<noteq> [] then p_Gateway p
              else if p_PaymentGatewayNames p \<noteq> [] then Join '', '' (p_PaymentGatewayNames p) else []),
           PaymentAmount := float_or_zero (p_TotalPrice p),
           OrderDate := (case ParseRFC3339 (p_CreatedAt p) of Some t \<Rightarrow> t | None \<Rightarrow> nw),
           ShippingAmount := fsum (List.map_filter (\<lambda>s. ParseFloat (sl_Price s)) (p_ShippingLines p))\<rparr>),
      map map_line (p_LineItems p))"

text \<open>The checks on the line items, in order; \<open>i\<close> is the line's number from 1.\<close>

fun line_error :: "int \<Rightarrow> shopify_line_item list \<Rightarrow> string option" where
  "line_error i [] = None"
| "line_error i (li # lis) =
     (if li_SKU li = [] then Some (''line item '' @ Itoa i @ '': missing SKU'')
      else if li_Quantity li \<le> 0 then Some (''line item '' @ Itoa i @ '': invalid quantity'')
      else if (case ParseFloat (li_Price li) of Some v \<Rightarrow> flt v (Fin 0) | None \<Rightarrow> False)
        then Some (''line item '' @ Itoa i @ '': negative price'')
      else line_error (i + 1) lis)"

record 'w order_store =
  os_WebhookExists :: "string \<Rightarrow> 'w \<Rightarrow> bool res \<times> 'w"
  os_CreateOrder :: "webhook_event \<Rightarrow> order \<Rightarrow> order_line list \<Rightarrow> 'w \<Rightarrow> unit res \<times> 'w"

text \<open>An inbound request: headers with canonical names, and the body, \<open>None\<close> when reading it fails.\<close>

record request =
  req_headers :: "(string \<times> string) list"
  req_body :: "string option"

definition header :: "string \<Rightarrow> request \<Rightarrow> string" where
  "header h r = (case map_of (req_headers r) h of None \<Rightarrow> [] | Some v \<Rightarrow> v)"

record response =
  rs_status :: int
  rs_key :: string
  rs_value :: string

definition respond :: "int \<Rightarrow> string \<Rightarrow> string \<Rightarrow> response" where
  "respond st k v = \<lparr>rs_status = st, rs_key = k, rs_value = v\<rparr>"

text \<open>The body the client receives.\<close>

definition response_body :: "response \<Rightarrow> string" where
  "response_body r = json_print (JObj [(rs_key r, JStr (rs_value r))]) @ [byte 10]"

definition maxBodySize :: nat where "maxBodySize = 1024 * 1024"

text \<open>
  \<open>handleOrderCreate\<close>: the response, whether the trigger is signalled, and the state. \<open>clk\<close> reads the
  clock of the state.
\<close>

definition handleOrderCreate ::
  "'w order_store \<Rightarrow> string \<Rightarrow> ('w \<Rightarrow> gtime) \<Rightarrow> request \<Rightarrow> bool option \<Rightarrow> 'w
     \<Rightarrow> (response \<times> bool option) \<times> 'w" where
  "handleOrderCreate st secret clk r trig w =
     (case req_body r of
        None \<Rightarrow> ((respond 400 ''error'' ''failed to read body'', trig), w)
      | Some full \<Rightarrow>
          let body = take maxBodySize full; wid = header ''X-Shopify-Webhook-Id'' r in
          if \<not> VerifyHMAC body secret (header ''X-Shopify-Hmac-Sha256'' r)
          then ((respond 401 ''error'' ''unauthorized'', trig), w)
          else if wid = [] then ((respond 400 ''error'' ''missing webhook ID'', trig), w)
          else (case os_WebhookExists st wid w of
            (Inl _, w1) \<Rightarrow> ((respond 500 ''error'' ''internal error'', trig), w1)
          | (Inr True, w1) \<Rightarrow> ((respond 200 ''status'' ''ok'', trig), w1)
          | (Inr False, w1) \<Rightarrow>
              (case unmarshal (jstruct dec_order) body of
                 None \<Rightarrow> ((respond 400 ''error'' ''malformed JSON'', trig), w1)
               | Some p \<Rightarrow>
                   if p_ID p = 0 then ((respond 422 ''error'' ''missing order ID'', trig), w1)
                   else if p_LineItems p = [] then ((respond 422 ''error'' ''no line items'', trig), w1)
                   else if \<not> isPaidStatus (p_FinancialStatus p)
                     then ((respond 200 ''status'' ''skipped_unpaid'', trig), w1)
                   else (case line_error 1 (p_LineItems p) of
                     Some m \<Rightarrow> ((respond 422 ''error'' m, trig), w1)
                   | None \<Rightarrow>
                       let (ord, ls) = mapOrder (clk w1) p body;
                           ev = \<lparr>ev_ID = 0, WebhookID = wid, Topic = ''orders/create'', ReceivedAt = zero_time\<rparr>
                       in (case os_CreateOrder st ev ord ls w1 of
                             (Inl e, w2) \<Rightarrow>
                               ((if e = ErrDuplicateWebhook then respond 200 ''status'' ''ok''
                                 else if e = ErrDuplicateOrder then respond 200 ''status'' ''duplicate_order''
                                 else respond 500 ''error'' ''internal error'', trig), w2)
                           | (Inr _, w2) \<Rightarrow>
                               ((respond 200 ''status'' ''ok'', map_option (\<lambda>_. True) trig), w2))))))"

definition db_order_store :: "pgconv \<Rightarrow> world order_store" where
  "db_order_store pg = \<lparr>os_WebhookExists = WebhookExists, os_CreateOrder = CreateOrder pg\<rparr>"

end
