(* ===== verification/CancelGate.thy ===== *)
theory CancelGate
  imports Webhook Enet
begin

text \<open>
  \<open>internal/cancellation/gate.go\<close> (the classifier) and \<open>internal/webhook/cancel_handler.go\<close> (the
  orders/cancelled webhook). The handler's two interfaces, \<open>CancelStore\<close> and \<open>SorqryQuerier\<close>, are the
  record \<open>cancel_deps\<close> of operations.
\<close>

section \<open>gate.go\<close>

datatype disposition =
    CancellablePreSYSPRO
  | CancellableInSYSPRO
  | ReviewAllocated
  | TooLatePicked
  | TooLateInvoiced
  | AlreadyCancelled

fun disposition_str :: "disposition \<Rightarrow> string" where
  "disposition_str CancellablePreSYSPRO = ''cancellable_pre_syspro''"
| "disposition_str CancellableInSYSPRO = ''cancellable_in_syspro''"
| "disposition_str ReviewAllocated = ''review_allocated''"
| "disposition_str TooLatePicked = ''too_late_picked''"
| "disposition_str TooLateInvoiced = ''too_late_invoiced''"
| "disposition_str AlreadyCancelled = ''already_cancelled''"

text \<open>\<open>Classify\<close>; the second argument is the order status of the SORQRY result, \<open>None\<close> for nil.\<close>

definition Classify :: "order \<Rightarrow> string option \<Rightarrow> disposition" where
  "Classify localOrder sorqry =
     (if SysproOrderNumber localOrder = [] then CancellablePreSYSPRO
      else case sorqry of
             None \<Rightarrow> ReviewAllocated
           | Some s \<Rightarrow>
               let status = TrimSpace s
               in if status \<in> {[CHR 0x5C], ''*''} then AlreadyCancelled
                  else if status \<in> {''0'', ''1'', ''2'', ''3''} then CancellableInSYSPRO
                  else if status = ''4'' then ReviewAllocated
                  else if status \<in> {''6'', ''7''} then TooLatePicked
                  else if status \<in> {''8'', ''9''} then TooLateInvoiced
                  else ReviewAllocated)"

section \<open>cancel_handler.go\<close>

record 'w cancel_deps =
  cd_CancellationExists :: "string \<Rightarrow> 'w \<Rightarrow> bool res \<times> 'w"
  cd_GetOrderByShopifyID :: "int \<Rightarrow> 'w \<Rightarrow> order res \<times> 'w"
  cd_CreateCancellation :: "order_cancellation \<Rightarrow> 'w \<Rightarrow> int res \<times> 'w"
  cd_QueryDispatchedOrders :: "string list \<Rightarrow> 'w \<Rightarrow> (string \<times> sorqry_result) list res \<times> 'w"

text \<open>
  The switch of the handler: the disposition, the SYSPRO order number and status, and the local order's
  id, from the result of the lookup (an error other than not-found was handled before).
\<close>

definition classify_order ::
  "'w cancel_deps \<Rightarrow> order option \<Rightarrow> 'w \<Rightarrow> (disposition \<times> string \<times> string \<times> int option) \<times> 'w" where
  "classify_order cd local w =
     (case local of
        None \<Rightarrow> ((CancellablePreSYSPRO, [], [], None), w)
      | Some ord \<Rightarrow>
          if SysproOrderNumber ord = [] then ((CancellablePreSYSPRO, [], [], Some (ord_ID ord)), w)
          else (case cd_QueryDispatchedOrders cd [SysproOrderNumber ord] w of
                  (Inl _, w1) \<Rightarrow> ((Classify ord None, SysproOrderNumber ord, [], Some (ord_ID ord)), w1)
                | (Inr results, w1) \<Rightarrow>
                    (case map_of results (SysproOrderNumber ord) of
                       None \<Rightarrow> ((Classify ord None, SysproOrderNumber ord, [], Some (ord_ID ord)), w1)
                     | Some r \<Rightarrow>
                         ((Classify ord (Some (sq_OrderStatus r)), SysproOrderNumber ord,
                           TrimSpace (sq_OrderStatus r), Some (ord_ID ord)), w1))))"

definition cancelled_at :: "shopify_order \<Rightarrow> gtime option" where
  "cancelled_at p =
     (case p_CancelledAt p of
        None \<Rightarrow> None
      | Some s \<Rightarrow> if s = [] then None else ParseRFC3339 s)"

definition cancel_record ::
  "shopify_order \<Rightarrow> string \<Rightarrow> string \<Rightarrow> disposition \<times> string \<times> string \<times> int option \<Rightarrow> order_cancellation" where
  "cancel_record p wid body c =
     (case c of (disp, num, status, oid) \<Rightarrow>
       \<lparr>can_ID = 0, can_OrderID = oid, can_ShopifyOrderID = p_ID p, can_ShopifyOrderNumber = p_Name p,
        can_SysproOrderNumber = num, can_ShopifyCancelReason = p_CancelReason p,
        can_ShopifyCancelledAt = cancelled_at p, can_SysproOrderStatus = status,
        can_Disposition = disposition_str disp, can_WebhookID = wid, can_RawPayload = body,
        can_CreatedAt = zero_time\<rparr>)"

definition cancel_handle :: "'w cancel_deps \<Rightarrow> string \<Rightarrow> request \<Rightarrow> 'w \<Rightarrow> response \<times> 'w" where
  "cancel_handle cd secret r w =
     (case req_body r of
        None \<Rightarrow> (respond 400 ''error'' ''failed to read body'', w)
      | Some full \<Rightarrow>
          let body = take maxBodySize full; wid = header ''X-Shopify-Webhook-Id'' r in
          if \<not> VerifyHMAC body secret (header ''X-Shopify-Hmac-Sha256'' r)
          then (respond 401 ''error'' ''unauthorized'', w)
          else if wid = [] then (respond 400 ''error'' ''missing webhook ID'', w)
          else (case cd_CancellationExists cd wid w of
            (Inl _, w1) \<Rightarrow> (respond 500 ''error'' ''internal error'', w1)
          | (Inr True, w1) \<Rightarrow> (respond 200 ''status'' ''duplicate'', w1)
          | (Inr False, w1) \<Rightarrow>
              (case unmarshal (jstruct dec_order) body of
                 None \<Rightarrow> (respond 400 ''error'' ''malformed JSON'', w1)
               | Some p \<Rightarrow>
                   if p_ID p = 0 then (respond 422 ''error'' ''missing order ID'', w1)
                   else (case cd_GetOrderByShopifyID cd (p_ID p) w1 of
                     (look, w2) \<Rightarrow>
                       if (case look of Inl e \<Rightarrow> e \<noteq> ErrOrderNotFound | Inr _ \<Rightarrow> False)
                       then (respond 500 ''error'' ''internal error'', w2)
                       else (case classify_order cd (case look of Inl _ \<Rightarrow> None | Inr ord \<Rightarrow> Some ord) w2 of
                         (c, w3) \<Rightarrow>
                           (case cd_CreateCancellation cd (cancel_record p wid body c) w3 of
                              (Inl e, w4) \<Rightarrow>
                                (if e = ErrDuplicateCancellation then respond 200 ''status'' ''duplicate''
                                 else respond 500 ''error'' ''internal error'', w4)
                            | (Inr _, w4) \<Rightarrow> (respond 200 ''status'' ''classified'', w4)))))))"

definition service_cancel_deps :: "pgconv \<Rightarrow> enet_client \<Rightarrow> world cancel_deps" where
  "service_cancel_deps pg c =
     \<lparr>cd_CancellationExists = CancellationExists, cd_GetOrderByShopifyID = GetOrderByShopifyID,
      cd_CreateCancellation = CreateCancellation pg, cd_QueryDispatchedOrders = QueryDispatchedOrders c\<rparr>"

end
