(* ===== verification/Batch.thy ===== *)
theory Batch
  imports Enet Store
begin

text \<open>
  \<open>internal/batch/processor.go\<close>: the queue processor that submits pending orders to SYSPRO. Its two
  Go interfaces, \<open>Store\<close> and \<open>syspro.Client\<close> with its \<open>Session\<close>, are records of operations over an
  arbitrary state, so the processor can be run over any implementation of them.
\<close>

record 'w batch_store =
  bs_FetchPendingOrders :: "nat \<Rightarrow> 'w \<Rightarrow> order_with_lines list res \<times> 'w"
  bs_MarkOrderProcessing :: "int \<Rightarrow> 'w \<Rightarrow> bool res \<times> 'w"
  bs_UpdateOrderStatus :: "int \<Rightarrow> order_status \<Rightarrow> int \<Rightarrow> string \<Rightarrow> 'w \<Rightarrow> unit res \<times> 'w"
  bs_UpdateOrderSubmitted :: "int \<Rightarrow> string \<Rightarrow> int \<Rightarrow> 'w \<Rightarrow> unit res \<times> 'w"

record ('w, 's) syspro_client =
  sc_OpenSession :: "'w \<Rightarrow> 's res \<times> 'w"
  sc_SubmitOrder :: "'s \<Rightarrow> order \<Rightarrow> order_line list \<Rightarrow> 'w \<Rightarrow> sales_order_result res \<times> 'w"
  sc_Close :: "'s \<Rightarrow> 'w \<Rightarrow> unit res \<times> 'w"

definition maxAttempts :: int where "maxAttempts = 3"

text \<open>
  \<open>submitOrder\<close>: \<open>True\<close> stands for the result \<open>errInfra\<close>, which stops the batch. Errors of the two
  final updates are only logged.
\<close>

definition submitOrder ::
  "'w batch_store \<Rightarrow> ('w, 's) syspro_client \<Rightarrow> 's \<Rightarrow> order_with_lines \<Rightarrow> 'w \<Rightarrow> bool \<times> 'w" where
  "submitOrder st cl ses ow w =
     (let ord = ow_Order ow in
      case bs_MarkOrderProcessing st (ord_ID ord) w of
        (Inl _, w1) \<Rightarrow> (True, w1)
      | (Inr False, w1) \<Rightarrow> (False, w1)
      | (Inr True, w1) \<Rightarrow>
          (case sc_SubmitOrder cl ses ord (ow_Lines ow) w1 of
             (Inl e, w2) \<Rightarrow>
               let newAttempts = Attempts ord + 1;
                   status = (if maxAttempts \<le> newAttempts then OrderStatusDeadLetter else OrderStatusPending)
               in (True, snd (bs_UpdateOrderStatus st (ord_ID ord) status newAttempts (err_msg e) w2))
           | (Inr r, w2) \<Rightarrow>
               if \<not> Success r
               then (False, snd (bs_UpdateOrderStatus st (ord_ID ord) OrderStatusFailed (Attempts ord)
                                   (ErrorMessage r) w2))
               else (False, snd (bs_UpdateOrderSubmitted st (ord_ID ord) (res_SysproOrderNumber r)
                                   (Attempts ord + 1) w2))))"

text \<open>The loop over the fetched orders; \<open>ctx\<close> is the check of \<open>ctx.Err()\<close> before each.\<close>

fun submit_loop ::
  "'w batch_store \<Rightarrow> ('w, 's) syspro_client \<Rightarrow> ('w \<Rightarrow> bool \<times> 'w) \<Rightarrow> 's
     \<Rightarrow> order_with_lines list \<Rightarrow> 'w \<Rightarrow> 'w" where
  "submit_loop st cl ctx ses [] w = w"
| "submit_loop st cl ctx ses (ow # ows) w =
     (case ctx w of
        (True, w1) \<Rightarrow> w1
      | (False, w1) \<Rightarrow>
          (case submitOrder st cl ses ow w1 of
             (True, w2) \<Rightarrow> w2
           | (False, w2) \<Rightarrow> submit_loop st cl ctx ses ows w2))"

definition ProcessBatch ::
  "'w batch_store \<Rightarrow> ('w, 's) syspro_client \<Rightarrow> ('w \<Rightarrow> bool \<times> 'w) \<Rightarrow> 'w \<Rightarrow> 'w" where
  "ProcessBatch st cl ctx w =
     (case bs_FetchPendingOrders st 100 w of
        (Inl _, w1) \<Rightarrow> w1
      | (Inr [], w1) \<Rightarrow> w1
      | (Inr (ow # ows), w1) \<Rightarrow>
          (case sc_OpenSession cl w1 of
             (Inl _, w2) \<Rightarrow> w2
           | (Inr ses, w2) \<Rightarrow> snd (sc_Close cl ses (submit_loop st cl ctx ses (ow # ows) w2))))"

text \<open>\<open>tick\<close>: a tick that finds the mutex taken does nothing.\<close>

definition batch_tick ::
  "bool \<Rightarrow> 'w batch_store \<Rightarrow> ('w, 's) syspro_client \<Rightarrow> ('w \<Rightarrow> bool \<times> 'w) \<Rightarrow> 'w \<Rightarrow> 'w" where
  "batch_tick locked st cl ctx w = (if locked then w else ProcessBatch st cl ctx w)"

section \<open>The service's implementations of the interfaces\<close>

definition db_batch_store :: "world batch_store" where
  "db_batch_store =
     \<lparr>bs_FetchPendingOrders = FetchPendingOrders, bs_MarkOrderProcessing = MarkOrderProcessing,
      bs_UpdateOrderStatus = UpdateOrderStatus, bs_UpdateOrderSubmitted = UpdateOrderSubmitted\<rparr>"

definition enet_syspro :: "enet_client \<Rightarrow> (world, enet_session) syspro_client" where
  "enet_syspro c =
     \<lparr>sc_OpenSession = OpenSession c, sc_SubmitOrder = SubmitOrder, sc_Close = CloseSession\<rparr>"

definition run_batch :: "enet_client \<Rightarrow> world \<Rightarrow> world" where
  "run_batch c = ProcessBatch db_batch_store (enet_syspro c) ctx_err"

end
