(* ===== verification/StoreInv.thy ===== *)
theory StoreInv
  imports Store
begin

text \<open>
  What holds of the tables whatever the service does. \<open>db_step\<close> is one statement (or one whole
  transaction) of \<open>internal/store\<close> taking effect; every method of \<open>*store.DB\<close> is a sequence of such
  steps under every script of the environment, so an invariant of the steps is an invariant of every
  interleaving of the service's components, lost connections included.
\<close>

section \<open>The invariant of the tables\<close>

definition ids_below :: "('a \<Rightarrow> int) \<Rightarrow> int \<Rightarrow> 'a list \<Rightarrow> bool" where
  "ids_below f n xs \<longleftrightarrow> sorted_wrt (<) (map f xs) \<and> (\<forall>x\<in>set xs. 0 < f x \<and> f x \<le> n)"

lemma ids_below_append1 [simp]:
  "ids_below f n xs \<Longrightarrow> 0 \<le> n \<Longrightarrow> f x = n + 1 \<Longrightarrow> ids_below f (n + 1) (xs @ [x])"
  by (fastforce simp: ids_below_def sorted_wrt_append)

lemma ids_below_mono: "ids_below f n xs \<Longrightarrow> n \<le> m \<Longrightarrow> ids_below f m xs"
  by (fastforce simp: ids_below_def)

lemma ids_below_Suc [simp]: "ids_below f n xs \<Longrightarrow> ids_below f (n + 1) xs"
  by (rule ids_below_mono) auto

lemma sorted_wrt_less_distinct: "sorted_wrt (<) (xs :: 'a::linorder list) \<Longrightarrow> distinct xs"
  by (simp add: strict_sorted_iff)

lemma ids_below_distinct: "ids_below f n xs \<Longrightarrow> distinct (map f xs)"
  by (simp add: ids_below_def sorted_wrt_less_distinct)

definition orders_inv :: "db \<Rightarrow> bool" where
  "orders_inv d \<longleftrightarrow> ids_below ord_ID (seq_order d) (orders d) \<and> distinct (map ShopifyOrderID (orders d))"

definition lines_inv :: "db \<Rightarrow> bool" where
  "lines_inv d \<longleftrightarrow> ids_below line_ID (seq_line d) (order_lines d) \<and>
     (\<forall>l\<in>set (order_lines d). line_OrderID l \<in> ord_ID ` set (orders d))"

definition events_inv :: "db \<Rightarrow> bool" where
  "events_inv d \<longleftrightarrow> ids_below ev_ID (seq_event d) (webhook_events d) \<and>
     distinct (map WebhookID (webhook_events d))"

definition cancels_inv :: "db \<Rightarrow> bool" where
  "cancels_inv d \<longleftrightarrow> ids_below can_ID (seq_cancel d) (order_cancellations d) \<and>
     distinct (map can_WebhookID (order_cancellations d)) \<and>
     (\<forall>c\<in>set (order_cancellations d). \<forall>i. can_OrderID c = Some i \<longrightarrow> i \<in> ord_ID ` set (orders d))"

definition payments_inv :: "db \<Rightarrow> bool" where
  "payments_inv d \<longleftrightarrow> ids_below pay_ID (seq_payment d) (payment_postings d) \<and>
     distinct (map pay_ShopifyTransactionID (payment_postings d))"

definition seqs_inv :: "db \<Rightarrow> bool" where
  "seqs_inv d \<longleftrightarrow> 0 \<le> seq_event d \<and> 0 \<le> seq_order d \<and> 0 \<le> seq_line d \<and> 0 \<le> seq_cancel d \<and> 0 \<le> seq_payment d"

text \<open>
  The five tables at once: generated ids are positive, increasing and not above their sequence, the
  UNIQUE columns are unique, and the REFERENCES columns point to orders that exist.
\<close>

definition db_inv :: "db \<Rightarrow> bool" where
  "db_inv d \<longleftrightarrow>
     orders_inv d \<and> lines_inv d \<and> events_inv d \<and> cancels_inv d \<and> payments_inv d \<and> seqs_inv d"

lemmas db_inv_defs = db_inv_def orders_inv_def lines_inv_def events_inv_def cancels_inv_def
  payments_inv_def seqs_inv_def

lemma db_inv_empty: "db_inv empty_db"
  by (simp add: db_inv_defs empty_db_def ids_below_def)

section \<open>Rows under an UPDATE\<close>

lemma map_update_rows:
  assumes "\<And>r. P r \<Longrightarrow> g (f r) = g r"
  shows "map g (update_rows P f rs) = map g rs"
  using assms by (induction rs) (auto simp: update_rows_def)

lemma image_update_rows:
  assumes "\<And>r. P r \<Longrightarrow> g (f r) = g r"
  shows "g ` set (update_rows P f rs) = g ` set rs"
  using arg_cong [OF map_update_rows [of P g f rs, OF assms], of set] by simp

lemma ids_below_cong: "map f xs = map f ys \<Longrightarrow> ids_below f n xs = ids_below f n ys"
proof -
  assume e: "map f xs = map f ys"
  have s: "f ` set xs = f ` set ys" using arg_cong [OF e, of set] by simp
  have "ids_below f n zs \<longleftrightarrow> sorted_wrt (<) (map f zs) \<and> (\<forall>i\<in>f ` set zs. 0 < i \<and> i \<le> n)" for zs
    by (simp add: ids_below_def)
  then show ?thesis by (simp add: e s del: ball_simps)
qed

lemma in_update_rows:
  "r' \<in> set (update_rows P f rs) \<longleftrightarrow> (\<exists>r\<in>set rs. r' = (if P r then f r else r))"
  by (auto simp: update_rows_def)

lemma length_update_rows [simp]: "length (update_rows P f rs) = length rs"
  by (simp add: update_rows_def)

lemma update_rows_none: "(\<And>r. r \<in> set rs \<Longrightarrow> \<not> P r) \<Longrightarrow> update_rows P f rs = rs"
  by (induction rs) (auto simp: update_rows_def)

text \<open>The columns an UPDATE of \<open>orders\<close> in this package never touches.\<close>

definition keeps_order :: "(order \<Rightarrow> order) \<Rightarrow> bool" where
  "keeps_order f \<longleftrightarrow> (\<forall>r. ord_ID (f r) = ord_ID r \<and> ShopifyOrderID (f r) = ShopifyOrderID r \<and>
     CreatedAt (f r) = CreatedAt r)"

lemma upd_orders_inv:
  assumes "keeps_order f" "db_inv d"
  shows "db_inv (snd (upd_orders P f d))"
proof -
  note k = assms(1) [unfolded keeps_order_def]
  let ?o = "update_rows P f (orders d)"
  have a: "map ord_ID ?o = map ord_ID (orders d)" "map ShopifyOrderID ?o = map ShopifyOrderID (orders d)"
    using k by (simp_all add: map_update_rows)
  moreover have "ord_ID ` set ?o = ord_ID ` set (orders d)"
    using k by (simp add: image_update_rows)
  moreover have "ids_below ord_ID n ?o = ids_below ord_ID n (orders d)" for n
    by (rule ids_below_cong) (rule a(1))
  ultimately show ?thesis
    using assms(2) by (simp add: upd_orders_def db_inv_defs)
qed

definition keeps_payment :: "(payment_posting \<Rightarrow> payment_posting) \<Rightarrow> bool" where
  "keeps_payment f \<longleftrightarrow> (\<forall>p. pay_ID (f p) = pay_ID p \<and>
     pay_ShopifyTransactionID (f p) = pay_ShopifyTransactionID p \<and>
     pay_GrossAmount (f p) = pay_GrossAmount p \<and> pay_CreatedAt (f p) = pay_CreatedAt p)"

lemma upd_payments_inv:
  assumes "keeps_payment f" "db_inv d"
  shows "db_inv (snd (upd_payments P f d))"
proof -
  note k = assms(1) [unfolded keeps_payment_def]
  let ?o = "update_rows P f (payment_postings d)"
  have a: "map pay_ID ?o = map pay_ID (payment_postings d)"
    "map pay_ShopifyTransactionID ?o = map pay_ShopifyTransactionID (payment_postings d)"
    using k by (simp_all add: map_update_rows)
  moreover have "ids_below pay_ID n ?o = ids_below pay_ID n (payment_postings d)" for n
    by (rule ids_below_cong) (rule a(1))
  ultimately show ?thesis
    using assms(2) by (simp add: upd_payments_def db_inv_defs)
qed

section \<open>The statements keep the invariant\<close>

lemma sql_updates_inv:
  assumes "db_inv d"
  shows "db_inv (snd (sql_reset_stale secs t d))"
    "db_inv (snd (sql_mark_processing i t d))"
    "db_inv (snd (sql_submitted_update i num att t d))"
    "db_inv (snd (sql_retry i t d))"
    "db_inv (snd (sql_status_update i s att err t d))"
    "db_inv (snd (sql_fulfilled_update i fid t d))"
    "db_inv (snd (sql_payment_posted i ref t d))"
    "db_inv (snd (sql_payment_failed i err t d))"
    "db_inv (snd (sql_requeue_payment i t d))"
  using assms
  by (simp_all add: sql_reset_stale_def sql_mark_processing_def sql_submitted_update_def sql_retry_def
      sql_status_update_def sql_fulfilled_update_def sql_payment_posted_def sql_payment_failed_def
      sql_requeue_payment_def upd_orders_inv upd_payments_inv keeps_order_def keeps_payment_def)

lemma sql_insert_event_inv: "db_inv d \<Longrightarrow> db_inv (snd (sql_insert_event t ev d))"
  by (auto simp: sql_insert_event_def db_inv_defs Let_def)

lemma sql_insert_order_inv: "db_inv d \<Longrightarrow> db_inv (snd (sql_insert_order pg t ord d))"
  by (auto simp: sql_insert_order_def db_inv_defs Let_def order_row_def)

lemma sql_insert_line_inv:
  "db_inv d \<Longrightarrow> i \<in> ord_ID ` set (orders d) \<Longrightarrow> db_inv (snd (sql_insert_line pg i l d))"
  by (auto simp: sql_insert_line_def db_inv_defs Let_def)

lemma sql_insert_cancellation_inv:
  "db_inv d \<Longrightarrow> db_inv (snd (sql_insert_cancellation pg c t d))"
  by (auto simp: sql_insert_cancellation_def db_inv_defs Let_def split: option.splits)

lemma sql_insert_payment_inv: "db_inv d \<Longrightarrow> db_inv (snd (sql_insert_payment pg p t d))"
  by (auto simp: sql_insert_payment_def db_inv_defs Let_def)

text \<open>A rolled back transaction only moved sequences up.\<close>

definition seqs_le :: "db \<Rightarrow> db \<Rightarrow> bool" where
  "seqs_le d t \<longleftrightarrow> seq_event d \<le> seq_event t \<and> seq_order d \<le> seq_order t \<and> seq_line d \<le> seq_line t \<and>
     seq_cancel d \<le> seq_cancel t \<and> seq_payment d \<le> seq_payment t"

lemma seqs_le_refl [simp]: "seqs_le d d"
  by (simp add: seqs_le_def)

lemma seqs_le_trans: "seqs_le a b \<Longrightarrow> seqs_le b c \<Longrightarrow> seqs_le a c"
  by (auto simp: seqs_le_def)

lemma rollback_inv: "db_inv d \<Longrightarrow> seqs_le d t \<Longrightarrow> db_inv (rollback d t)"
  by (auto simp: db_inv_defs rollback_def seqs_le_def elim: ids_below_mono)

section \<open>The transaction of CreateOrder\<close>

text \<open>The tables after a commit, and when there is one.\<close>

definition fresh_for :: "webhook_event \<Rightarrow> order \<Rightarrow> db \<Rightarrow> bool" where
  "fresh_for ev ord d \<longleftrightarrow> WebhookID ev \<notin> WebhookID ` set (webhook_events d) \<and>
     ShopifyOrderID ord \<notin> ShopifyOrderID ` set (orders d)"

definition lines_from :: "pgconv \<Rightarrow> int \<Rightarrow> order_line list \<Rightarrow> db \<Rightarrow> db" where
  "lines_from pg oid ls d = fold (\<lambda>l d. snd (sql_insert_line pg oid l d)) ls d"

definition created_db :: "pgconv \<Rightarrow> gtime \<Rightarrow> webhook_event \<Rightarrow> order \<Rightarrow> order_line list \<Rightarrow> db \<Rightarrow> db" where
  "created_db pg t ev ord ls d =
     lines_from pg (seq_order d + 1) ls
       (snd (sql_insert_order pg t ord (snd (sql_insert_event t ev d))))"

lemma lines_from_frame:
  "orders (lines_from pg i ls d) = orders d" "webhook_events (lines_from pg i ls d) = webhook_events d"
  "seq_order (lines_from pg i ls d) = seq_order d"
  by (induction ls arbitrary: d) (auto simp: lines_from_def sql_insert_line_def Let_def)

lemma lines_from_inv: "db_inv d \<Longrightarrow> i \<in> ord_ID ` set (orders d) \<Longrightarrow> db_inv (lines_from pg i ls d)"
proof (induction ls arbitrary: d)
  case Nil
  then show ?case by (simp add: lines_from_def)
next
  case (Cons l ls)
  have "orders (snd (sql_insert_line pg i l d)) = orders d"
    by (simp add: sql_insert_line_def Let_def)
  with Cons.IH [OF sql_insert_line_inv [OF Cons.prems, of pg l]] Cons.prems(2)
  show ?case by (simp add: lines_from_def)
qed

text \<open>The stored lines of an order: the given ones, in order, numbered from the sequence.\<close>

fun stored_lines :: "pgconv \<Rightarrow> int \<Rightarrow> int \<Rightarrow> order_line list \<Rightarrow> order_line list" where
  "stored_lines pg oid n [] = []"
| "stored_lines pg oid n (l # ls) =
     \<lparr>line_ID = n + 1, line_OrderID = oid, SKU = SKU l, Quantity = Quantity l,
      UnitPrice = pg_numeric pg (UnitPrice l), Discount = pg_numeric pg (Discount l),
      Tax = pg_numeric pg (Tax l)\<rparr> # stored_lines pg oid (n + 1) ls"

lemma stored_lines_ids:
  "l \<in> set (stored_lines pg oid n ls) \<Longrightarrow> line_OrderID l = oid \<and> n < line_ID l"
  by (induction ls arbitrary: n) force+

lemma stored_lines_sorted: "sorted (map line_ID (stored_lines pg oid n ls))"
  by (induction ls arbitrary: n) (auto dest: stored_lines_ids)

lemma stored_lines_cols:
  "map SKU (stored_lines pg oid n ls) = map SKU ls"
  "map Quantity (stored_lines pg oid n ls) = map Quantity ls"
  "length (stored_lines pg oid n ls) = length ls"
  by (induction ls arbitrary: n) auto

lemma lines_from_lines:
  "order_lines (lines_from pg i ls d) = order_lines d @ stored_lines pg i (seq_line d) ls"
  by (induction ls arbitrary: d) (auto simp: lines_from_def sql_insert_line_def Let_def)

lemma created_db_rows:
  assumes "fresh_for ev ord d"
  shows "orders (created_db pg t ev ord ls d) = orders d @ [order_row pg t (seq_order d + 1) ord]"
    "order_lines (created_db pg t ev ord ls d) =
       order_lines d @ stored_lines pg (seq_order d + 1) (seq_line d) ls"
    "webhook_events (created_db pg t ev ord ls d) = webhook_events d @
       [\<lparr>ev_ID = seq_event d + 1, WebhookID = WebhookID ev, Topic = Topic ev, ReceivedAt = pg_time t\<rparr>]"
  using assms
  by (auto simp: fresh_for_def created_db_def lines_from_frame lines_from_lines sql_insert_order_def
      sql_insert_event_def Let_def image_iff)

lemma created_db_inv:
  assumes "db_inv d" "fresh_for ev ord d"
  shows "db_inv (created_db pg t ev ord ls d)"
  unfolding created_db_def
proof (rule lines_from_inv)
  show "db_inv (snd (sql_insert_order pg t ord (snd (sql_insert_event t ev d))))"
    by (intro sql_insert_order_inv sql_insert_event_inv assms(1))
  show "seq_order d + 1 \<in> ord_ID ` set (orders (snd (sql_insert_order pg t ord (snd (sql_insert_event t ev d)))))"
    using assms(2) by (auto simp: fresh_for_def sql_insert_order_def sql_insert_event_def Let_def
        order_row_def image_iff)
qed

lemma tx_call_cases:
  obtains (failed) e where "fst (fst (tx_call f t w)) = Inl e" "snd (fst (tx_call f t w)) \<in> {t, snd (f t)}"
  | (ok) "fst (tx_call f t w) = (Inr (fst (f t)), snd (f t))"
  by (cases "fst (fst (tx_call f t w))")
    (use tx_call_result [of f t w] in \<open>auto intro!: that simp: prod_eq_iff\<close>)

lemma seqs_le_stmts:
  "seqs_le d (snd (sql_insert_event t ev d))" "seqs_le d (snd (sql_insert_order pg t ord d))"
  "seqs_le d (snd (sql_insert_line pg i l d))"
  by (simp_all add: seqs_le_def sql_insert_event_def sql_insert_order_def sql_insert_line_def Let_def)

lemma insert_lines_result:
  assumes "insert_lines pg i ls d w = ((r, t), w')"
  shows "seqs_le d t \<and> w_db w' = w_db w \<and> (is_ok r \<longrightarrow> t = lines_from pg i ls d)"
  using assms
proof (induction ls arbitrary: d w)
  case (Cons l ls)
  obtain r1 t1 w1 where c: "tx_call (sql_insert_line pg i l) d w = ((r1, t1), w1)"
    by (metis prod.exhaust)
  have "w_db w1 = w_db w" "t1 = d \<or> t1 = snd (sql_insert_line pg i l d)"
    "is_ok r1 \<Longrightarrow> t1 = snd (sql_insert_line pg i l d)"
    using tx_call_frame(6) [of "sql_insert_line pg i l" d w] tx_call_result [of "sql_insert_line pg i l" d w] c
    by (cases r1; simp)+
  moreover from this have "seqs_le d t1" by (auto simp: seqs_le_stmts)
  ultimately show ?case
    using Cons.IH [of t1 w1] Cons.prems
    by (auto simp: c lines_from_def split: sum.splits elim: seqs_le_trans)
qed (simp add: lines_from_def)

text \<open>
  The transaction body succeeds only on a fresh webhook and a fresh order, and then its copy of the
  tables is \<open>created_db\<close>; on every other end it only moved sequences.
\<close>

lemma create_tx_result:
  assumes c: "create_tx pg t ev ord ls d w = ((r, t'), w')"
  shows "seqs_le d t' \<and> w_db w' = w_db w \<and>
     (is_ok r \<longrightarrow> fresh_for ev ord d \<and> t' = created_db pg t ev ord ls d)"
proof -
  obtain r1 d1 w1 where s1: "tx_call (sql_insert_event t ev) d w = ((r1, d1), w1)"
    by (metis prod.exhaust)
  obtain r2 d2 w2 where s2: "tx_call (sql_insert_order pg t ord) d1 w1 = ((r2, d2), w2)"
    by (metis prod.exhaust)
  obtain r3 d3 w3 where s3: "insert_lines pg (seq_order d + 1) ls d2 w2 = ((r3, d3), w3)"
    by (metis prod.exhaust)
  obtain r4 d4 w4 where s4: "tx_call (\<lambda>d. ((), d)) d3 w3 = ((r4, d4), w4)"
    by (metis prod.exhaust)
  have w: "w_db w1 = w_db w" "w_db w2 = w_db w1" "w_db w3 = w_db w2" "w_db w4 = w_db w3" "d4 = d3"
    using tx_call_frame(6) [of "sql_insert_event t ev" d w] tx_call_frame(6) [of "sql_insert_order pg t ord" d1 w1]
      tx_call_frame(6) [of "\<lambda>d. ((), d)" d3 w3] tx_call_result(2) [of "\<lambda>d. ((), d)" d3 w3]
      insert_lines_result [OF s3] s1 s2 s4 by auto
  have d1: "d1 = d \<or> d1 = snd (sql_insert_event t ev d)"
    and d1ok: "\<And>x. r1 = Inr x \<Longrightarrow> d1 = snd (sql_insert_event t ev d) \<and> x = fst (sql_insert_event t ev d)"
    using tx_call_result [of "sql_insert_event t ev" d w] s1 by auto
  have d2: "d2 = d1 \<or> d2 = snd (sql_insert_order pg t ord d1)"
    and d2ok: "\<And>x. r2 = Inr x \<Longrightarrow> d2 = snd (sql_insert_order pg t ord d1) \<and> x = fst (sql_insert_order pg t ord d1)"
    using tx_call_result [of "sql_insert_order pg t ord" d1 w1] s2 by auto
  have le1: "seqs_le d d1" using d1 by (auto simp: seqs_le_stmts)
  have le2: "seqs_le d d2" using d2 le1 by (auto intro: seqs_le_trans seqs_le_stmts)
  have le3: "seqs_le d d3" using insert_lines_result [OF s3] le2 by (blast intro: seqs_le_trans)
  have ev: "fst (sql_insert_event t ev d) \<Longrightarrow> WebhookID ev \<notin> WebhookID ` set (webhook_events d)"
    by (force simp: sql_insert_event_def Let_def split: if_splits)
  have k: "seq_order (snd (sql_insert_event t ev d)) = seq_order d"
    "orders (snd (sql_insert_event t ev d)) = orders d"
    by (simp_all add: sql_insert_event_def Let_def)
  have ord: "fst (sql_insert_order pg t ord (snd (sql_insert_event t ev d))) = Some oid \<Longrightarrow>
      oid = seq_order d + 1 \<and> ShopifyOrderID ord \<notin> ShopifyOrderID ` set (orders d)" for oid
    by (force simp: sql_insert_order_def Let_def k split: if_splits)
  consider (e1) e where "r1 = Inl e" | (dup) "r1 = Inr False"
    | (e2) e where "r1 = Inr True" "r2 = Inl e" | (dupo) "r1 = Inr True" "r2 = Inr None"
    | (ins) oid where "r1 = Inr True" "r2 = Inr (Some oid)"
    by (metis (full_types) old.sum.exhaust option.exhaust)
  then show ?thesis
  proof cases
    case ins
    from d1ok [OF ins(1)] d2ok [OF ins(2)] ev ord [of oid]
    have f: "oid = seq_order d + 1" "fresh_for ev ord d"
      "d2 = snd (sql_insert_order pg t ord (snd (sql_insert_event t ev d)))"
      by (auto simp: fresh_for_def)
    have nil: "ls = [] \<Longrightarrow> d2 = created_db pg t ev ord ls d"
      by (simp add: created_db_def lines_from_def f(3))
    have l3: "is_ok r3 \<Longrightarrow> d3 = created_db pg t ev ord ls d"
      using insert_lines_result [OF s3] by (simp add: created_db_def f(3))
    have "create_tx pg t ev ord ls d w =
        (if ls = [] then ((Inr (), d2), w2)
         else case r3 of Inl e \<Rightarrow> ((Inl e, d3), w3)
            | Inr _ \<Rightarrow> (case r4 of Inl e \<Rightarrow> ((Inl (wrap_err ''closing batch insert'' e), d4), w4)
                        | Inr _ \<Rightarrow> ((Inr (), d4), w4)))"
      by (simp add: create_tx_def s1 s2 ins f(1) s3 s4 split: sum.splits)
    with c show ?thesis
      using f(2) w le2 le3 nil l3 by (simp split: if_splits sum.splits) force+
  qed (use c w le1 le2 in \<open>auto simp: create_tx_def s1 s2\<close>)
qed

lemma rollback_self [simp]: "rollback d d = d"
  by (simp add: rollback_def)

lemma CreateOrder_cases:
  obtains (committed) t where "fresh_for ev ord (w_db w)" "t_off t = 0"
      "w_db (snd (CreateOrder pg ev ord ls w)) = created_db pg t ev ord ls (w_db w)"
  | (rolled_back) t where "\<not> is_ok (fst (CreateOrder pg ev ord ls w))" "seqs_le (w_db w) t"
      "w_db (snd (CreateOrder pg ev ord ls w)) = rollback (w_db w) t"
proof -
  let ?b = "db_call (\<lambda>t d. (t, d)) w"
  have b: "w_db (snd ?b) = w_db w"
    by (rule db_call_cases [of "\<lambda>t d. (t, d)" w]) auto
  show thesis
  proof (cases "fst ?b")
    case (Inl e)
    then obtain w0 where "?b = (Inl e, w0)" "w_db w0 = w_db w"
      using b by (metis prod.collapse)
    then show thesis
      by (intro rolled_back [of "w_db w"]) (simp_all add: CreateOrder_def)
  next
    case (Inr t)
    have off: "t_off t = 0"
      by (rule db_call_cases [of "\<lambda>t d. (t, d)" w]) (use Inr in auto)
    obtain w0 where w0: "?b = (Inr t, w0)" "w_db w0 = w_db w"
      using Inr b by (metis prod.collapse)
    obtain r d w1 where c: "create_tx pg t ev ord ls (w_db w) w0 = ((r, d), w1)"
      by (metis prod.exhaust)
    note res = create_tx_result [OF c]
    show thesis
    proof (cases r)
      case (Inl e)
      then show thesis
        using res by (intro rolled_back [of d]) (simp_all add: CreateOrder_def w0 c)
    next
      case r: (Inr u)
      let ?k = "db_call (\<lambda>_ _. ((), d)) w1"
      have eq: "CreateOrder pg ev ord ls w =
          (case ?k of (Inl e, w2) \<Rightarrow> (Inl (wrap_err ''committing transaction'' e), w2\<lparr>w_db := rollback (w_db w2) d\<rparr>)
           | (Inr _, w2) \<Rightarrow> (Inr (), w2))"
        by (simp add: CreateOrder_def w0 c r split: sum.splits prod.splits)
      obtain kr w2 where k: "?k = (kr, w2)" by (metis prod.exhaust)
      have "w_db w2 = w_db w1 \<and> \<not> is_ok kr \<or> w_db w2 = d"
        by (rule db_call_cases [of "\<lambda>_ _. ((), d)" w1]) (use k in auto)
      then consider (kept) e where "kr = Inl e" "w_db w2 = w_db w" | (comm) "w_db w2 = d"
        using res w0(2) by (cases kr) auto
      then show thesis
      proof cases
        case kept
        show thesis
          by (rule rolled_back [of d]) (use res w0(2) kept k in \<open>simp_all add: eq\<close>)
      next
        case comm
        show thesis
          by (rule committed [of t]) (use res w0(2) comm k r off in \<open>auto simp: eq split: sum.splits\<close>)
      qed
    qed
  qed
qed

section \<open>The store as a transition system\<close>

inductive db_step :: "pgconv \<Rightarrow> db \<Rightarrow> db \<Rightarrow> bool" for pg where
  step_rollback: "seqs_le d t \<Longrightarrow> db_step pg d (rollback d t)"
| step_create: "fresh_for ev ord d \<Longrightarrow> db_step pg d (created_db pg t ev ord ls d)"
| step_reset: "db_step pg d (snd (sql_reset_stale secs t d))"
| step_mark: "db_step pg d (snd (sql_mark_processing i t d))"
| step_submitted: "db_step pg d (snd (sql_submitted_update i num att t d))"
| step_retry: "db_step pg d (snd (sql_retry i t d))"
| step_status: "db_step pg d (snd (sql_status_update i s att err t d))"
| step_fulfilled: "db_step pg d (snd (sql_fulfilled_update i fid t d))"
| step_cancellation: "db_step pg d (snd (sql_insert_cancellation pg c t d))"
| step_payment: "db_step pg d (snd (sql_insert_payment pg p t d))"
| step_posted: "db_step pg d (snd (sql_payment_posted i ref t d))"
| step_failed: "db_step pg d (snd (sql_payment_failed i err t d))"
| step_requeue: "db_step pg d (snd (sql_requeue_payment i t d))"

abbreviation db_steps :: "pgconv \<Rightarrow> db \<Rightarrow> db \<Rightarrow> bool" where
  "db_steps pg \<equiv> (db_step pg)\<^sup>*\<^sup>*"

lemma db_step_inv: "db_step pg d d' \<Longrightarrow> db_inv d \<Longrightarrow> db_inv d'"
  by (induction rule: db_step.induct)
    (auto intro: rollback_inv created_db_inv sql_updates_inv sql_insert_cancellation_inv
      sql_insert_payment_inv)

lemma db_steps_inv: "db_steps pg d d' \<Longrightarrow> db_inv d \<Longrightarrow> db_inv d'"
  by (induction rule: rtranclp_induct) (auto intro: db_step_inv)

text \<open>Orders are never deleted, and an order keeps its ids and its time of creation.\<close>

definition order_keys :: "db \<Rightarrow> (int \<times> int \<times> gtime) set" where
  "order_keys d = (\<lambda>r. (ord_ID r, ShopifyOrderID r, CreatedAt r)) ` set (orders d)"

lemma keys_upd_orders: "keeps_order f \<Longrightarrow> order_keys (snd (upd_orders P f d)) = order_keys d"
  by (simp add: order_keys_def upd_orders_def image_update_rows keeps_order_def)

lemma sql_order_updates_keys:
  "order_keys (snd (sql_reset_stale secs t d)) = order_keys d"
  "order_keys (snd (sql_mark_processing i t d)) = order_keys d"
  "order_keys (snd (sql_submitted_update i num att t d)) = order_keys d"
  "order_keys (snd (sql_retry i t d)) = order_keys d"
  "order_keys (snd (sql_status_update i s att err t d)) = order_keys d"
  "order_keys (snd (sql_fulfilled_update i fid t d)) = order_keys d"
  by (simp_all add: sql_reset_stale_def sql_mark_processing_def sql_submitted_update_def sql_retry_def
      sql_status_update_def sql_fulfilled_update_def keys_upd_orders keeps_order_def)

lemma orders_only:
  "orders (rollback d t) = orders d" "orders (snd (sql_insert_cancellation pg c t' d)) = orders d"
  "orders (snd (sql_insert_payment pg p t' d)) = orders d"
  "orders (snd (sql_payment_posted i ref t' d)) = orders d"
  "orders (snd (sql_payment_failed i err t' d)) = orders d"
  "orders (snd (sql_requeue_payment i t' d)) = orders d"
  by (auto simp: rollback_def sql_insert_cancellation_def sql_insert_payment_def sql_payment_posted_def
      sql_payment_failed_def sql_requeue_payment_def upd_payments_def Let_def)

lemma lines_only:
  "order_lines (rollback d t) = order_lines d" "order_lines (snd (sql_insert_cancellation pg c t' d)) = order_lines d"
  "order_lines (snd (sql_insert_payment pg p t' d)) = order_lines d"
  "order_lines (snd (upd_payments Q g d)) = order_lines d"
  "order_lines (snd (upd_orders P f d)) = order_lines d"
  by (auto simp: rollback_def sql_insert_cancellation_def sql_insert_payment_def upd_orders_def
      upd_payments_def Let_def)

lemma db_step_keys: "db_step pg d d' \<Longrightarrow> order_keys d \<subseteq> order_keys d'"
proof (induction rule: db_step.induct)
  case (step_create ev ord d t ls)
  then show ?case by (auto simp: order_keys_def created_db_rows)
qed (simp_all add: sql_order_updates_keys, simp_all add: order_keys_def orders_only)

lemma db_steps_keys: "db_steps pg d d' \<Longrightarrow> order_keys d \<subseteq> order_keys d'"
  by (induction rule: rtranclp_induct) (auto dest: db_step_keys)

section \<open>Every method is a sequence of statements\<close>

lemma db_call_steps:
  assumes "\<And>t. db_step pg (w_db w) (snd (f t (w_db w)))"
  shows "db_steps pg (w_db w) (w_db (snd (db_call f w)))"
  by (rule db_call_cases [of f w]) (use assms in \<open>auto simp del: split_paired_All\<close>)

lemma db_call_read: "(\<And>t d. snd (f t d) = d) \<Longrightarrow> w_db (snd (db_call f w)) = w_db w"
  by (rule db_call_cases [of f w]) auto

lemma method_snd:
  "snd (ResetStaleProcessing secs w) = snd (db_call (sql_reset_stale secs) w)"
  "snd (MarkOrderProcessing i w) = snd (db_call (sql_mark_processing i) w)"
  "snd (UpdateOrderSubmitted i num att w) = snd (db_call (sql_submitted_update i num att) w)"
  "snd (RetryOrder i w) = snd (db_call (sql_retry i) w)"
  "snd (UpdateOrderStatus i s att err w) = snd (db_call (sql_status_update i s att err) w)"
  "snd (UpdateOrderFulfilled i fid w) = snd (db_call (sql_fulfilled_update i fid) w)"
  "snd (CreateCancellation pg c w) = snd (db_call (sql_insert_cancellation pg c) w)"
  "snd (CreatePayment pg p w) = snd (db_call (sql_insert_payment pg p) w)"
  "snd (MarkPaymentPosted i ref w) = snd (db_call (sql_payment_posted i ref) w)"
  "snd (MarkPaymentFailed i err w) = snd (db_call (sql_payment_failed i err) w)"
  "snd (RequeuePayment i w) = snd (db_call (sql_requeue_payment i) w)"
  by (simp_all add: ResetStaleProcessing_def MarkOrderProcessing_def UpdateOrderSubmitted_def RetryOrder_def
      UpdateOrderStatus_def UpdateOrderFulfilled_def CreateCancellation_def CreatePayment_def
      MarkPaymentPosted_def MarkPaymentFailed_def RequeuePayment_def
      split: prod.splits sum.splits option.splits insert_result.splits)

lemma reader_snd:
  "snd (WebhookExists wid w) = snd (db_call (\<lambda>_ d. (\<exists>e\<in>set (webhook_events d). WebhookID e = wid, d)) w)"
  "snd (CancellationExists wid w) =
     snd (db_call (\<lambda>_ d. (\<exists>c\<in>set (order_cancellations d). can_WebhookID c = wid, d)) w)"
  "snd (GetOrderByShopifyID sid w) =
     snd (db_call (\<lambda>_ d. (find (\<lambda>r. ShopifyOrderID r = sid) (orders d), d)) w)"
  "snd (fetchOrderLines i w) =
     snd (db_call (\<lambda>_ d. (sort_key line_ID (filter (\<lambda>l. line_OrderID l = i) (order_lines d)), d)) w)"
  "snd (FetchSubmittedOrders w) = snd (db_call (\<lambda>_ d. (sql_submitted d, d)) w)"
  "snd (FetchReservedQuantities w) = snd (db_call (\<lambda>_ d. (sql_reserved d, d)) w)"
  "snd (FetchUnpostedPayments n w) = snd (db_call (\<lambda>_ d. (sql_unposted n d, d)) w)"
  by (simp_all add: WebhookExists_def CancellationExists_def GetOrderByShopifyID_def fetchOrderLines_def
      FetchSubmittedOrders_def FetchReservedQuantities_def FetchUnpostedPayments_def
      split: prod.splits sum.splits option.splits)

lemma snd_if_read: "snd (if b then (x, w) else y) = (if b then w else snd y)"
  by simp

lemma snd_case_call:
  "snd (case p of (Inl e, w') \<Rightarrow> (Inl (f e), w') | (Inr x, w') \<Rightarrow> (Inr (g x), w')) = snd p"
  by (simp split: prod.splits sum.splits)

lemma reader_db:
  "w_db (snd (WebhookExists wid w)) = w_db w"
  "w_db (snd (CancellationExists wid w)) = w_db w"
  "w_db (snd (GetOrderByShopifyID sid w)) = w_db w"
  "w_db (snd (fetchOrderLines i w)) = w_db w"
  "w_db (snd (FetchSubmittedOrders w)) = w_db w"
  "w_db (snd (FetchReservedQuantities w)) = w_db w"
  "w_db (snd (FetchUnpostedPayments n w)) = w_db w"
  "w_db (snd (ShopifyOrdersExist ids w)) = w_db w"
  "w_db (snd (FetchOrdersByDateRange a b w)) = w_db w"
  "w_db (snd (ListOrdersByStatus st w)) = w_db w"
  by (simp_all add: reader_snd db_call_read ShopifyOrdersExist_def FetchOrdersByDateRange_def
      ListOrdersByStatus_def snd_if_read snd_case_call cong: if_cong)

lemma attach_lines_db: "w_db (snd (attach_lines rs w)) = w_db w"
proof (induction rs arbitrary: w)
  case (Cons r rs)
  obtain x w' where f: "fetchOrderLines (ord_ID r) w = (x, w')" by (metis prod.exhaust)
  have "w_db w' = w_db w" using reader_db(4) [of "ord_ID r" w] by (simp add: f)
  with Cons.IH [of w'] show ?case
    by (cases "attach_lines rs w'") (auto simp: f split: sum.splits)
qed simp

lemma FetchPendingOrders_db: "w_db (snd (FetchPendingOrders n w)) = w_db w"
proof -
  obtain x w' where f: "db_call (\<lambda>_ d. (sql_pending n d, d)) w = (x, w')" by (metis prod.exhaust)
  have "w_db w' = w_db w" using db_call_read [of "\<lambda>_ d. (sql_pending n d, d)" w] by (simp add: f)
  then show ?thesis
    by (cases x) (simp_all add: FetchPendingOrders_def f attach_lines_db)
qed

lemma CreateOrder_steps: "db_steps pg (w_db w) (w_db (snd (CreateOrder pg ev ord ls w)))"
  by (rule CreateOrder_cases [of ev ord w pg ls]) (auto intro: db_step.intros)

lemma method_steps:
  "db_steps pg (w_db w) (w_db (snd (ResetStaleProcessing secs w)))"
  "db_steps pg (w_db w) (w_db (snd (MarkOrderProcessing i w)))"
  "db_steps pg (w_db w) (w_db (snd (UpdateOrderSubmitted i num att w)))"
  "db_steps pg (w_db w) (w_db (snd (RetryOrder i w)))"
  "db_steps pg (w_db w) (w_db (snd (UpdateOrderStatus i s att err w)))"
  "db_steps pg (w_db w) (w_db (snd (UpdateOrderFulfilled i fid w)))"
  "db_steps pg (w_db w) (w_db (snd (CreateCancellation pg c w)))"
  "db_steps pg (w_db w) (w_db (snd (CreatePayment pg p w)))"
  "db_steps pg (w_db w) (w_db (snd (MarkPaymentPosted pid ref w)))"
  "db_steps pg (w_db w) (w_db (snd (MarkPaymentFailed pid err w)))"
  "db_steps pg (w_db w) (w_db (snd (RequeuePayment pid w)))"
  by (simp_all add: method_snd db_call_steps db_step.intros)

text \<open>Reading what a script-free call gives back.\<close>

lemma method_frames:
  "w_sent (snd (MarkOrderProcessing i w)) = w_sent w"
  "w_sent (snd (UpdateOrderStatus i s att err w)) = w_sent w"
  "w_sent (snd (UpdateOrderSubmitted i num att w)) = w_sent w"
  "w_sessionMu (snd (MarkOrderProcessing i w)) = w_sessionMu w"
  "w_sessionMu (snd (UpdateOrderStatus i s att err w)) = w_sessionMu w"
  "w_sessionMu (snd (UpdateOrderSubmitted i num att w)) = w_sessionMu w"
  by (simp_all add: method_snd db_call_frame)

lemma attach_lines_frame:
  "w_sent (snd (attach_lines rs w)) = w_sent w \<and> w_sessionMu (snd (attach_lines rs w)) = w_sessionMu w"
proof (induction rs arbitrary: w)
  case (Cons r rs)
  obtain x w' where f: "fetchOrderLines (ord_ID r) w = (x, w')" by (metis prod.exhaust)
  have "w_sent w' = w_sent w" "w_sessionMu w' = w_sessionMu w"
    using arg_cong [OF reader_snd(4) [of "ord_ID r" w], of w_sent]
      arg_cong [OF reader_snd(4) [of "ord_ID r" w], of w_sessionMu] by (simp_all add: f db_call_frame)
  with Cons.IH [of w'] show ?case
    by (cases "attach_lines rs w'") (auto simp: f split: sum.splits)
qed simp

lemma FetchPendingOrders_frame:
  "w_sent (snd (FetchPendingOrders n w)) = w_sent w"
  "w_sessionMu (snd (FetchPendingOrders n w)) = w_sessionMu w"
proof -
  obtain x w' where f: "db_call (\<lambda>_ d. (sql_pending n d, d)) w = (x, w')" by (metis prod.exhaust)
  have "w_sent w' = w_sent w" "w_sessionMu w' = w_sessionMu w"
    using db_call_frame [of "\<lambda>_ d. (sql_pending n d, d)" w] by (simp_all add: f)
  then show "w_sent (snd (FetchPendingOrders n w)) = w_sent w"
    "w_sessionMu (snd (FetchPendingOrders n w)) = w_sessionMu w"
    by (cases x; simp add: FetchPendingOrders_def f attach_lines_frame)+
qed

end
