(* ===== verification/StoreView.thy ===== *)
theory StoreView
  imports StoreInv
begin

text \<open>
  The abstract view of the orders table (what a component that queues orders sees of it), the
  refinement of that view by the SQL statements, and the properties of \<open>internal/store\<close>.
\<close>

section \<open>The queue the orders table implements\<close>

type_synonym queue_row = "order_status \<times> int \<times> string \<times> string"
type_synonym queue_view = "int \<Rightarrow> queue_row option"

definition row_of :: "db \<Rightarrow> int \<Rightarrow> order option" where
  "row_of d i = find (\<lambda>r. ord_ID r = i) (orders d)"

definition queue_row :: "order \<Rightarrow> queue_row" where
  "queue_row r = (Status r, Attempts r, SysproOrderNumber r, LastError r)"

definition queue_of :: "db \<Rightarrow> queue_view" where
  "queue_of d i = map_option queue_row (row_of d i)"

text \<open>What the statements mean on the view.\<close>

fun v_pending :: "queue_row option \<Rightarrow> bool" where
  "v_pending (Some (s, _)) = (s = OrderStatusPending)"
| "v_pending None = False"

definition v_update :: "int \<Rightarrow> (queue_row \<Rightarrow> queue_row) \<Rightarrow> queue_view \<Rightarrow> queue_view" where
  "v_update i f v = v(i := map_option f (v i))"

fun q_mark :: "queue_row \<Rightarrow> queue_row" where
  "q_mark (s, a, n, e) = (if s = OrderStatusPending then OrderStatusProcessing else s, a, n, e)"

fun q_status :: "order_status \<Rightarrow> int \<Rightarrow> string \<Rightarrow> queue_row \<Rightarrow> queue_row" where
  "q_status s' a' e' (s, a, n, e) = (s', a', n, e')"

fun q_submitted :: "string \<Rightarrow> int \<Rightarrow> queue_row \<Rightarrow> queue_row" where
  "q_submitted n' a' (s, a, n, e) = (OrderStatusSubmitted, a', n', [])"

fun q_retry :: "queue_row \<Rightarrow> queue_row" where
  "q_retry (s, a, n, e) = (if retryable s then (OrderStatusPending, 0, n, []) else (s, a, n, e))"

lemma find_update_rows:
  "(\<And>r. P r \<Longrightarrow> g (f r) = g r) \<Longrightarrow>
     find (\<lambda>r. g r = i) (update_rows P f rs) = map_option (\<lambda>r. if P r then f r else r) (find (\<lambda>r. g r = i) rs)"
  by (induction rs) (auto simp: update_rows_def)

lemma row_of_upd [row_simps]:
  "keeps_order f \<Longrightarrow>
     row_of (snd (upd_orders P f d)) i = map_option (\<lambda>r. if P r then f r else r) (row_of d i)"
  by (simp add: row_of_def upd_orders_def find_update_rows keeps_order_def)

lemma queue_of_upd:
  assumes "keeps_order f" "\<And>r. P r \<Longrightarrow> ord_ID r = i"
    "\<And>r. ord_ID r = i \<Longrightarrow> queue_row (if P r then f r else r) = g (queue_row r)"
  shows "queue_of (snd (upd_orders P f d)) = v_update i g (queue_of d)"
proof
  fix j
  show "queue_of (snd (upd_orders P f d)) j = v_update i g (queue_of d) j"
  proof (cases "row_of d j")
    case None
    then show ?thesis by (auto simp: queue_of_def row_of_upd [OF assms(1)] v_update_def)
  next
    case (Some r)
    then have "ord_ID r = j" by (auto simp: row_of_def dest: find_in_set)
    then show ?thesis
      using assms(2) [of r] assms(3) [of r] Some
      by (cases "j = i") (simp_all add: queue_of_def row_of_upd [OF assms(1)] v_update_def, auto)
  qed
qed

text \<open>Each UPDATE of one order refines the operation of the view.\<close>

lemma mark_refines: "queue_of (snd (sql_mark_processing i t d)) = v_update i q_mark (queue_of d)"
  unfolding sql_mark_processing_def
  by (rule queue_of_upd) (auto simp: keeps_order_def queue_row_def)

lemma status_refines:
  "queue_of (snd (sql_status_update i s a e t d)) = v_update i (q_status s a e) (queue_of d)"
  unfolding sql_status_update_def
  by (rule queue_of_upd) (auto simp: keeps_order_def queue_row_def)

lemma submitted_refines:
  "queue_of (snd (sql_submitted_update i n a t d)) = v_update i (q_submitted n a) (queue_of d)"
  unfolding sql_submitted_update_def
  by (rule queue_of_upd) (auto simp: keeps_order_def queue_row_def)

lemma retry_refines: "queue_of (snd (sql_retry i t d)) = v_update i q_retry (queue_of d)"
  unfolding sql_retry_def
  by (rule queue_of_upd) (auto simp: keeps_order_def queue_row_def)

lemma v_update_other [simp]: "j \<noteq> i \<Longrightarrow> v_update i f v j = v j"
  by (simp add: v_update_def)

lemma v_update_same [simp]: "v_update i f v i = map_option f (v i)"
  by (simp add: v_update_def)

text \<open>How many rows an UPDATE of one id affects.\<close>

lemma count_id:
  assumes "distinct (map g rs)"
  shows "length (filter (\<lambda>r. g r = i \<and> Q r) rs) =
     (case find (\<lambda>r. g r = i) rs of None \<Rightarrow> 0 | Some r \<Rightarrow> if Q r then 1 else 0)"
  using assms
proof (induction rs)
  case (Cons r rs)
  have "filter (\<lambda>x. g x = i \<and> Q x) rs = []" if "g r = i"
  proof -
    have "g x \<noteq> i" if "x \<in> set rs" for x
      using Cons.prems that \<open>g r = i\<close> by (auto simp: image_iff)
    then show ?thesis by (simp add: filter_empty_conv)
  qed
  with Cons show ?case by auto
qed simp

lemma db_inv_distinct:
  assumes "db_inv d"
  shows "distinct (map ord_ID (orders d))" "distinct (map ShopifyOrderID (orders d))"
    "distinct (map line_ID (order_lines d))" "distinct (map WebhookID (webhook_events d))"
    "distinct (map can_WebhookID (order_cancellations d))" "distinct (map pay_ID (payment_postings d))"
    "distinct (map pay_ShopifyTransactionID (payment_postings d))"
  using assms by (auto simp: db_inv_defs dest: ids_below_distinct)

lemma upd_orders_count:
  assumes "db_inv d"
  shows "fst (upd_orders (\<lambda>r. ord_ID r = i \<and> Q r) f d) =
     (case row_of d i of None \<Rightarrow> 0 | Some r \<Rightarrow> if Q r then 1 else 0)"
  using db_inv_distinct(1) [OF assms] by (simp add: upd_orders_def row_of_def count_id)

lemma mark_count:
  "db_inv d \<Longrightarrow> fst (sql_mark_processing i t d) = (if v_pending (queue_of d i) then 1 else 0)"
  by (simp add: sql_mark_processing_def upd_orders_count queue_of_def queue_row_def split: option.splits)

lemma row_of_None: "row_of d i = None \<longleftrightarrow> i \<notin> ord_ID ` set (orders d)"
  by (auto simp: row_of_def find_None_iff)

lemma row_of_Some: "db_inv d \<Longrightarrow> row_of d i = Some r \<longleftrightarrow> r \<in> set (orders d) \<and> ord_ID r = i"
  unfolding row_of_def
  using db_inv_distinct(1) [of d]
  by (auto dest: find_in_set find_unique_key)

text \<open>
  The three updates the processor uses, under every script: the view after the call is the one the
  statement means, or, only if the call failed, the one before it.
\<close>

lemma MarkOrderProcessing_view:
  assumes "db_inv (w_db w)" "MarkOrderProcessing i w = (r, w')"
  shows "db_inv (w_db w') \<and>
    (case r of
       Inl _ \<Rightarrow> queue_of (w_db w') \<in> {queue_of (w_db w), v_update i q_mark (queue_of (w_db w))}
     | Inr b \<Rightarrow> b = v_pending (queue_of (w_db w) i) \<and> queue_of (w_db w') = v_update i q_mark (queue_of (w_db w)))"
proof -
  obtain c w1 where c: "db_call (sql_mark_processing i) w = (c, w1)" by (metis prod.exhaust)
  have "w' = w1" "r = (case c of Inl e \<Rightarrow> Inl (wrap_err (''marking order '' @ Itoa i @ '' processing'') e)
      | Inr n \<Rightarrow> Inr (n = 1))"
    using assms(2) c by (auto simp: MarkOrderProcessing_def split: sum.splits)
  then show ?thesis
    by (cases rule: db_call_cases [of "sql_mark_processing i" w])
      (auto simp: c assms(1) sql_updates_inv mark_refines mark_count)
qed

lemma UpdateOrderStatus_view:
  assumes "db_inv (w_db w)" "UpdateOrderStatus i s a e w = (r, w')"
  shows "db_inv (w_db w') \<and>
    (queue_of (w_db w') = v_update i (q_status s a e) (queue_of (w_db w)) \<or>
     \<not> is_ok r \<and> queue_of (w_db w') = queue_of (w_db w))"
proof -
  obtain c w1 where c: "db_call (sql_status_update i s a e) w = (c, w1)" by (metis prod.exhaust)
  have "w' = w1" "\<And>e. c = Inl e \<Longrightarrow> \<not> is_ok r"
    using assms(2) c by (auto simp: UpdateOrderStatus_def split: sum.splits if_splits)
  then show ?thesis
    by (cases rule: db_call_cases [of "sql_status_update i s a e" w])
      (auto simp: c assms(1) sql_updates_inv status_refines)
qed

lemma UpdateOrderSubmitted_view:
  assumes "db_inv (w_db w)" "UpdateOrderSubmitted i n a w = (r, w')"
  shows "db_inv (w_db w') \<and>
    (queue_of (w_db w') = v_update i (q_submitted n a) (queue_of (w_db w)) \<or>
     \<not> is_ok r \<and> queue_of (w_db w') = queue_of (w_db w))"
proof -
  obtain c w1 where c: "db_call (sql_submitted_update i n a) w = (c, w1)" by (metis prod.exhaust)
  have "w' = w1" "\<And>e. c = Inl e \<Longrightarrow> \<not> is_ok r"
    using assms(2) c by (auto simp: UpdateOrderSubmitted_def split: sum.splits if_splits)
  then show ?thesis
    by (cases rule: db_call_cases [of "sql_submitted_update i n a" w])
      (auto simp: c assms(1) sql_updates_inv submitted_refines)
qed

section \<open>What the queue query selects\<close>

lemma take_sort_key:
  fixes k :: "'a \<Rightarrow> 'b::linorder"
  shows "sorted (map k (take n (sort_key k ys)))" "set (take n (sort_key k ys)) \<subseteq> set ys"
    "x \<in> set (take n (sort_key k ys)) \<Longrightarrow> y \<in> set ys \<Longrightarrow> y \<notin> set (take n (sort_key k ys)) \<Longrightarrow> k x \<le> k y"
proof -
  let ?a = "take n (sort_key k ys)" and ?b = "drop n (sort_key k ys)"
  have "sorted (map k (?a @ ?b))"
    by (simp only: append_take_drop_id sorted_sort_key)
  then have s: "sorted (map k ?a)" "\<And>x y. x \<in> set ?a \<Longrightarrow> y \<in> set ?b \<Longrightarrow> k x \<le> k y"
    unfolding sorted_key_append_iff by blast+
  show "sorted (map k ?a)" by (rule s(1))
  show "set ?a \<subseteq> set ys" by (metis set_take_subset set_sort)
  assume "x \<in> set ?a" "y \<in> set ys" "y \<notin> set ?a"
  moreover have "set ys = set ?a \<union> set ?b"
    by (metis append_take_drop_id set_append set_sort)
  ultimately show "k x \<le> k y" using s(2) by blast
qed

lemma attach_lines_orders: "fst (attach_lines rs w) = Inr ows \<Longrightarrow> map ow_Order ows = rs"
proof (induction rs arbitrary: ows w)
  case (Cons r rs)
  obtain x w' where f: "fetchOrderLines (ord_ID r) w = (x, w')" by (metis prod.exhaust)
  obtain y w'' where g: "attach_lines rs w' = (y, w'')" by (metis prod.exhaust)
  from Cons.prems Cons.IH [of w'] show ?case
    by (auto simp: f g split: sum.splits)
qed simp

lemma FetchPendingOrders_orders:
  assumes "fst (FetchPendingOrders n w) = Inr ows"
  shows "map ow_Order ows = map (scan_order (w_local w)) (sql_pending n (w_db w))"
proof -
  obtain x w' where f: "db_call (\<lambda>_ d. (sql_pending n d, d)) w = (x, w')" by (metis prod.exhaust)
  then have "x = Inr rs \<Longrightarrow> rs = sql_pending n (w_db w)" for rs
    by (cases rule: db_call_cases [of "\<lambda>_ d. (sql_pending n d, d)" w]) auto
  with assms f show ?thesis
    by (auto simp: FetchPendingOrders_def dest!: attach_lines_orders split: sum.splits)
qed

section \<open>Concrete worlds\<close>

text \<open>
  A quiet environment over the empty database, and the world after one order was staged in it; the
  concrete instances of the properties use them.
\<close>

definition plain_pg :: pgconv where
  "plain_pg = \<lparr>pg_numeric = (\<lambda>x. x), pg_jsonb = (\<lambda>s. s)\<rparr>"

definition demo_event :: webhook_event where
  "demo_event = \<lparr>ev_ID = 0, WebhookID = ''wh-1'', Topic = ''orders/create'', ReceivedAt = zero_time\<rparr>"

definition demo_order :: order where
  "demo_order = zero_order\<lparr>ShopifyOrderID := 1001, OrderNumber := ''#BBQ1001'', CustomerAccount := ''WEBS01''\<rparr>"

definition demo_line :: order_line where
  "demo_line = \<lparr>line_ID = 0, line_OrderID = 0, SKU = ''CBBQ0001'', Quantity = 2, UnitPrice = Fin 10,
     Discount = Fin 0, Tax = Fin 0\<rparr>"

definition empty_world :: world where
  "empty_world = \<lparr>w_db = empty_db, w_clock = 0, w_local = 0, w_dbs = [], w_http = [], w_sent = [],
     w_ctx = [], w_sessionMu = False\<rparr>"

definition demo_db :: db where
  "demo_db = created_db plain_pg (UTC (now empty_world)) demo_event demo_order [demo_line] empty_db"

definition demo_world :: world where
  "demo_world = empty_world\<lparr>w_db := demo_db\<rparr>"

lemma demo_fresh: "fresh_for demo_event demo_order empty_db"
  by (simp add: fresh_for_def empty_db_def)

lemma demo_inv: "db_inv (w_db demo_world)"
  by (simp add: demo_world_def demo_db_def created_db_inv db_inv_empty demo_fresh)

lemma demo_pending: "Status demo_order = OrderStatusPending"
  by (simp add: demo_order_def zero_order_def)

lemma demo_queue: "queue_of (w_db demo_world) 1 = Some (OrderStatusPending, 0, [], [])"
  by (simp add: demo_world_def demo_db_def queue_of_def row_of_def created_db_rows demo_fresh, simp add: empty_db_def
      order_row_def queue_row_def demo_order_def zero_order_def)

end
