(* ===== verification/BatchProps.thy ===== *)
theory BatchProps
  imports Batch StoreView
begin

text \<open>
  The queue processor against its two interfaces. The locale \<open>order_queue\<close> is the contract of the
  \<open>Store\<close> interface over an abstract queue view, \<open>syspro_sessions\<close> the contract of \<open>syspro.Client\<close> and
  \<open>Session\<close> over the list of submissions that were sent; \<open>batch_processor\<close> puts them together and
  proves the processor once, for every implementation. The interpretations show that \<open>*store.DB\<close> and
  \<open>EnetClient\<close> are such implementations.
\<close>

section \<open>The interfaces\<close>

locale order_queue =
  fixes st :: "'w batch_store" and view :: "'w \<Rightarrow> queue_view" and good :: "'w \<Rightarrow> bool"
  assumes mark_law: "good w \<Longrightarrow> bs_MarkOrderProcessing st i w = (r, w') \<Longrightarrow> good w' \<and>
      (case r of
         Inl _ \<Rightarrow> view w' \<in> {view w, v_update i q_mark (view w)}
       | Inr b \<Rightarrow> b = v_pending (view w i) \<and> view w' = v_update i q_mark (view w))"
    and status_law: "good w \<Longrightarrow> bs_UpdateOrderStatus st i s a e w = (r', w') \<Longrightarrow> good w' \<and>
      (view w' = v_update i (q_status s a e) (view w) \<or> \<not> is_ok r' \<and> view w' = view w)"
    and submitted_law: "good w \<Longrightarrow> bs_UpdateOrderSubmitted st i n a w = (r', w') \<Longrightarrow> good w' \<and>
      (view w' = v_update i (q_submitted n a) (view w) \<or> \<not> is_ok r' \<and> view w' = view w)"
    and fetch_law: "good w \<Longrightarrow> bs_FetchPendingOrders st k w = (rf, w') \<Longrightarrow> good w' \<and> view w' = view w"
    and fetch_rows: "good w \<Longrightarrow> bs_FetchPendingOrders st k w = (Inr ows, w') \<Longrightarrow>
      distinct (map (ord_ID \<circ> ow_Order) ows) \<and>
      (\<forall>ow\<in>set ows. view w (ord_ID (ow_Order ow)) = Some (queue_row (ow_Order ow)) \<and>
         Status (ow_Order ow) = OrderStatusPending)"

locale syspro_sessions =
  fixes cl :: "('w, 's) syspro_client" and sent :: "'w \<Rightarrow> 'm list" and busy :: "'w \<Rightarrow> bool"
    and msg :: "'s \<Rightarrow> order \<Rightarrow> order_line list \<Rightarrow> 'm"
  assumes open_law: "sc_OpenSession cl w = (r, w') \<Longrightarrow> sent w' = sent w \<and> busy w' = is_ok r"
    and submit_law: "sc_SubmitOrder cl s ord ls w = (r', w') \<Longrightarrow>
      sent w' = sent w @ [msg s ord ls] \<and> busy w' = busy w"
    and close_law: "sc_Close cl s w = (r'', w') \<Longrightarrow> sent w' = sent w \<and> \<not> busy w'"

locale batch_processor = order_queue st view good + syspro_sessions cl sent busy msg
  for st :: "'w batch_store" and view good and cl :: "('w, 's) syspro_client"
    and sent :: "'w \<Rightarrow> 'm list" and busy msg +
  fixes ctx :: "'w \<Rightarrow> bool \<times> 'w"
  assumes store_apart:
      "bs_MarkOrderProcessing st i w = (r, w') \<Longrightarrow> sent w' = sent w \<and> busy w' = busy w"
      "bs_UpdateOrderStatus st i s a e w = (r', w') \<Longrightarrow> sent w' = sent w \<and> busy w' = busy w"
      "bs_UpdateOrderSubmitted st i n a w = (r', w') \<Longrightarrow> sent w' = sent w \<and> busy w' = busy w"
      "bs_FetchPendingOrders st k w = (rf, w') \<Longrightarrow> sent w' = sent w \<and> busy w' = busy w"
    and client_apart:
      "sc_OpenSession cl w = (ro, w') \<Longrightarrow> view w' = view w \<and> good w' = good w"
      "sc_SubmitOrder cl ses ord ls w = (rs, w') \<Longrightarrow> view w' = view w \<and> good w' = good w"
      "sc_Close cl ses w = (rc, w') \<Longrightarrow> view w' = view w \<and> good w' = good w"
    and ctx_apart: "ctx w = (b, w') \<Longrightarrow> sent w' = sent w \<and> busy w' = busy w \<and> view w' = view w \<and> good w' = good w"

section \<open>One order\<close>

text \<open>
  The entries an order may end with once its SORTOI was sent: still processing (the final update
  failed), submitted under the number SYSPRO returned, rejected, or put back (dead-lettered at the third
  attempt) after an infrastructure error.
\<close>

inductive outcome :: "order \<Rightarrow> bool \<Rightarrow> queue_row \<Rightarrow> bool" for ord where
  out_lost: "outcome ord stop (OrderStatusProcessing, Attempts ord, SysproOrderNumber ord, LastError ord)"
| out_submitted: "outcome ord False (OrderStatusSubmitted, Attempts ord + 1, num, [])"
| out_rejected: "outcome ord False (OrderStatusFailed, Attempts ord, SysproOrderNumber ord, err)"
| out_retry: "Attempts ord + 1 < maxAttempts \<Longrightarrow>
    outcome ord True (OrderStatusPending, Attempts ord + 1, SysproOrderNumber ord, err)"
| out_dead: "maxAttempts \<le> Attempts ord + 1 \<Longrightarrow>
    outcome ord True (OrderStatusDeadLetter, Attempts ord + 1, SysproOrderNumber ord, err)"

inductive_cases outcome_pendingE: "outcome ord stop (OrderStatusPending, a, n, e)"

text \<open>
  The effect of a run over the orders \<open>ows\<close>: a first part of them is sent, in order, one SORTOI each,
  and each of these ends in an outcome, only the last of them in one that stops the batch; of the rest,
  at most the first may have been claimed; nothing else changes.
\<close>

definition batch_effect ::
  "('w \<Rightarrow> queue_view) \<Rightarrow> ('w \<Rightarrow> 'm list) \<Rightarrow> (order \<Rightarrow> order_line list \<Rightarrow> 'm)
     \<Rightarrow> order_with_lines list \<Rightarrow> 'w \<Rightarrow> 'w \<Rightarrow> bool" where
  "batch_effect view sent msg ows w w' \<longleftrightarrow>
     (\<exists>picked rest. ows = picked @ rest \<and>
        sent w' = sent w @ map (\<lambda>ow. msg (ow_Order ow) (ow_Lines ow)) picked \<and>
        (\<forall>ow\<in>set picked. \<exists>stop q. view w' (ord_ID (ow_Order ow)) = Some q \<and> outcome (ow_Order ow) stop q) \<and>
        (\<forall>ow\<in>set (butlast picked). \<exists>q. view w' (ord_ID (ow_Order ow)) = Some q \<and> outcome (ow_Order ow) False q) \<and>
        (\<forall>ow\<in>set rest. view w' (ord_ID (ow_Order ow)) \<in>
           {view w (ord_ID (ow_Order ow)), map_option q_mark (view w (ord_ID (ow_Order ow)))}) \<and>
        (\<forall>ow\<in>set (tl rest). view w' (ord_ID (ow_Order ow)) = view w (ord_ID (ow_Order ow)))) \<and>
     (\<forall>j. j \<notin> (ord_ID \<circ> ow_Order) ` set ows \<longrightarrow> view w' j = view w j)"

lemma batch_effectI:
  assumes "ows = picked @ rest"
    "sent w' = sent w @ map (\<lambda>ow. msg (ow_Order ow) (ow_Lines ow)) picked"
    "\<And>ow. ow \<in> set picked \<Longrightarrow> \<exists>stop q. view w' (ord_ID (ow_Order ow)) = Some q \<and> outcome (ow_Order ow) stop q"
    "\<And>ow. ow \<in> set (butlast picked) \<Longrightarrow> \<exists>q. view w' (ord_ID (ow_Order ow)) = Some q \<and> outcome (ow_Order ow) False q"
    "\<And>ow. ow \<in> set rest \<Longrightarrow> view w' (ord_ID (ow_Order ow)) \<in>
       {view w (ord_ID (ow_Order ow)), map_option q_mark (view w (ord_ID (ow_Order ow)))}"
    "\<And>ow. ow \<in> set (tl rest) \<Longrightarrow> view w' (ord_ID (ow_Order ow)) = view w (ord_ID (ow_Order ow))"
    "\<And>j. j \<notin> (ord_ID \<circ> ow_Order) ` set ows \<Longrightarrow> view w' j = view w j"
  shows "batch_effect view sent msg ows w w'"
  unfolding batch_effect_def using assms by blast

lemma in_set_tlD: "x \<in> set (tl xs) \<Longrightarrow> x \<in> set xs"
  by (cases xs) auto

context batch_processor
begin

lemma claimed_steps:
  assumes "good w1" "bs_MarkOrderProcessing st (ord_ID (ow_Order ow)) w = (Inr True, w1)"
    and s: "submitOrder st cl ses ow w = (stop, w')"
    and row: "view w1 (ord_ID (ow_Order ow)) =
      Some (OrderStatusProcessing, Attempts (ow_Order ow), SysproOrderNumber (ow_Order ow), LastError (ow_Order ow))"
  shows "good w' \<and> busy w' = busy w1 \<and> (\<forall>j. j \<noteq> ord_ID (ow_Order ow) \<longrightarrow> view w' j = view w1 j) \<and>
    sent w' = sent w1 @ [msg ses (ow_Order ow) (ow_Lines ow)] \<and>
    (\<exists>q. view w' (ord_ID (ow_Order ow)) = Some q \<and> outcome (ow_Order ow) stop q)"
proof -
  let ?o = "ow_Order ow"
  let ?i = "ord_ID ?o"
  obtain r2 w2 where t: "sc_SubmitOrder cl ses ?o (ow_Lines ow) w1 = (r2, w2)" by (metis prod.exhaust)
  note tl = submit_law [OF t] client_apart(2) [OF t]
  have good2: "good w2" using tl assms(1) by simp
  consider (lost) e where "r2 = Inl e" | (won) res where "r2 = Inr res" "Success res"
    | (refused) res where "r2 = Inr res" "\<not> Success res" by (cases r2) auto
  then show ?thesis
  proof cases
    case lost
    let ?s = "if maxAttempts \<le> Attempts ?o + 1 then OrderStatusDeadLetter else OrderStatusPending"
    obtain r3 w3 where u: "bs_UpdateOrderStatus st ?i ?s (Attempts ?o + 1) (err_msg e) w2 = (r3, w3)"
      by (metis prod.exhaust)
    have "stop" "w' = w3" using s assms(2) t u lost by (auto simp: submitOrder_def Let_def)
    with status_law [OF good2 u] store_apart(2) [OF u] tl row show ?thesis
      by (auto simp: v_update_def not_le intro: out_lost out_retry out_dead split: if_splits)
  next
    case won
    obtain r3 w3 where u: "bs_UpdateOrderSubmitted st ?i (res_SysproOrderNumber res) (Attempts ?o + 1) w2 = (r3, w3)"
      by (metis prod.exhaust)
    have "\<not> stop" "w' = w3" using s assms(2) t u won by (auto simp: submitOrder_def Let_def)
    with submitted_law [OF good2 u] store_apart(3) [OF u] tl row show ?thesis
      by (auto simp: v_update_def intro: out_lost out_submitted out_rejected)
  next
    case refused
    obtain r3 w3 where u: "bs_UpdateOrderStatus st ?i OrderStatusFailed (Attempts ?o) (ErrorMessage res) w2 = (r3, w3)"
      by (metis prod.exhaust)
    have "\<not> stop" "w' = w3" using s assms(2) t u refused by (auto simp: submitOrder_def Let_def)
    with status_law [OF good2 u] store_apart(2) [OF u] tl row show ?thesis
      by (auto simp: v_update_def intro: out_lost out_submitted out_rejected)
  qed
qed

lemma submitOrder_steps:
  assumes good: "good w" and s: "submitOrder st cl ses ow w = (stop, w')"
    and row: "view w (ord_ID (ow_Order ow)) = Some (queue_row (ow_Order ow))"
    and pend: "Status (ow_Order ow) = OrderStatusPending"
  shows "good w' \<and> busy w' = busy w \<and> (\<forall>j. j \<noteq> ord_ID (ow_Order ow) \<longrightarrow> view w' j = view w j) \<and>
    ((sent w' = sent w @ [msg ses (ow_Order ow) (ow_Lines ow)] \<and>
       (\<exists>q. view w' (ord_ID (ow_Order ow)) = Some q \<and> outcome (ow_Order ow) stop q)) \<or>
     (stop \<and> sent w' = sent w \<and>
       view w' (ord_ID (ow_Order ow)) \<in> {view w (ord_ID (ow_Order ow)),
         map_option q_mark (view w (ord_ID (ow_Order ow)))}))"
proof -
  let ?i = "ord_ID (ow_Order ow)"
  obtain r1 w1 where m: "bs_MarkOrderProcessing st ?i w = (r1, w1)" by (metis prod.exhaust)
  note ml = mark_law [OF good m] store_apart(1) [OF m]
  show ?thesis
  proof (cases r1)
    case (Inl e)
    with s m have "stop" "w' = w1" by (auto simp: submitOrder_def)
    with ml Inl show ?thesis by (auto simp: v_update_def)
  next
    case (Inr b)
    with ml row pend have b: "b" "good w1" "view w1 = v_update ?i q_mark (view w)"
      by (auto simp: queue_row_def)
    have row1: "view w1 ?i =
        Some (OrderStatusProcessing, Attempts (ow_Order ow), SysproOrderNumber (ow_Order ow), LastError (ow_Order ow))"
      using b(3) row pend by (simp add: queue_row_def)
    have "bs_MarkOrderProcessing st ?i w = (Inr True, w1)" using m Inr b(1) by simp
    from claimed_steps [OF b(2) this s row1] ml b(3) show ?thesis by (auto simp: v_update_def)
  qed
qed

lemma batch_effect_none: "sent w' = sent w \<Longrightarrow> view w' = view w \<Longrightarrow> batch_effect view sent (msg ses) ows w w'"
  by (rule batch_effectI [of _ "[]" ows]) auto

lemma batch_effect_stuck:
  assumes "sent w' = sent w" "\<forall>j. j \<noteq> ord_ID (ow_Order ow) \<longrightarrow> view w' j = view w j"
    "view w' (ord_ID (ow_Order ow)) \<in> {view w (ord_ID (ow_Order ow)), map_option q_mark (view w (ord_ID (ow_Order ow)))}"
    "distinct (map (ord_ID \<circ> ow_Order) (ow # ows))"
  shows "batch_effect view sent (msg ses) (ow # ows) w w'"
  by (rule batch_effectI [of _ "[]" "ow # ows"]) (use assms in \<open>auto simp: image_iff\<close>)

lemma batch_effect_last:
  assumes "sent w' = sent w @ [msg ses (ow_Order ow) (ow_Lines ow)]"
    "\<forall>j. j \<noteq> ord_ID (ow_Order ow) \<longrightarrow> view w' j = view w j"
    "view w' (ord_ID (ow_Order ow)) = Some q" "outcome (ow_Order ow) stop q"
    "distinct (map (ord_ID \<circ> ow_Order) (ow # ows))"
  shows "batch_effect view sent (msg ses) (ow # ows) w w'"
  by (rule batch_effectI [of _ "[ow]" ows])
    (use assms in \<open>auto simp: image_iff dest!: in_set_tlD\<close>)

lemma batch_effect_Cons:
  assumes "sent w1 = sent w @ [msg ses (ow_Order ow) (ow_Lines ow)]"
    "\<forall>j. j \<noteq> ord_ID (ow_Order ow) \<longrightarrow> view w1 j = view w j"
    "view w1 (ord_ID (ow_Order ow)) = Some q" "outcome (ow_Order ow) False q"
    "distinct (map (ord_ID \<circ> ow_Order) (ow # ows))" "batch_effect view sent (msg ses) ows w1 w'"
  shows "batch_effect view sent (msg ses) (ow # ows) w w'"
proof -
  let ?i = "\<lambda>ow. ord_ID (ow_Order ow)"
  from assms(6) obtain picked rest where e: "ows = picked @ rest"
      "sent w' = sent w1 @ map (\<lambda>ow. msg ses (ow_Order ow) (ow_Lines ow)) picked"
      "\<forall>ow\<in>set picked. \<exists>stop q. view w' (?i ow) = Some q \<and> outcome (ow_Order ow) stop q"
      "\<forall>ow\<in>set (butlast picked). \<exists>q. view w' (?i ow) = Some q \<and> outcome (ow_Order ow) False q"
      "\<forall>ow\<in>set rest. view w' (?i ow) \<in> {view w1 (?i ow), map_option q_mark (view w1 (?i ow))}"
      "\<forall>ow\<in>set (tl rest). view w' (?i ow) = view w1 (?i ow)"
    and others: "\<And>j. j \<notin> (ord_ID \<circ> ow_Order) ` set ows \<Longrightarrow> view w' j = view w1 j"
    unfolding batch_effect_def by blast
  have ow: "view w' (?i ow) = Some q"
    using others [of "?i ow"] assms(3,5) by auto
  have ne: "?i x \<noteq> ?i ow" if "x \<in> set rest" for x
    using assms(5) that by (auto simp: e(1) image_iff)
  show ?thesis
  proof (rule batch_effectI [of _ "ow # picked" rest])
    show "view w' (?i x) \<in> {view w (?i x), map_option q_mark (view w (?i x))}" if "x \<in> set rest" for x
      using e(5) ne [OF that] assms(2) that by auto
    show "view w' (?i x) = view w (?i x)" if "x \<in> set (tl rest)" for x
      using e(6) ne [OF in_set_tlD [OF that]] assms(2) that by auto
    show "\<exists>stop q. view w' (?i x) = Some q \<and> outcome (ow_Order x) stop q" if "x \<in> set (ow # picked)" for x
      using e(3) ow assms(4) that by (metis set_ConsD)
    show "\<exists>q. view w' (?i x) = Some q \<and> outcome (ow_Order x) False q" if "x \<in> set (butlast (ow # picked))" for x
      using e(4) ow assms(4) that by (auto split: if_splits simp del: split_paired_Ex)
    show "view w' j = view w j" if "j \<notin> (ord_ID \<circ> ow_Order) ` set (ow # ows)" for j
      using others [of j] assms(2) that by auto
  qed (simp_all add: e(1,2) assms(1))
qed

lemma submit_loop_effect:
  assumes "good w" "distinct (map (ord_ID \<circ> ow_Order) ows)"
    "\<forall>ow\<in>set ows. view w (ord_ID (ow_Order ow)) = Some (queue_row (ow_Order ow)) \<and>
       Status (ow_Order ow) = OrderStatusPending"
  shows "batch_effect view sent (msg ses) ows w (submit_loop st cl ctx ses ows w) \<and>
    good (submit_loop st cl ctx ses ows w) \<and> busy (submit_loop st cl ctx ses ows w) = busy w"
  using assms
proof (induction ows arbitrary: w)
  case Nil
  then show ?case by (simp add: batch_effect_none)
next
  case (Cons ow ows)
  obtain b w1 where c: "ctx w = (b, w1)" by (metis prod.exhaust)
  note ca = ctx_apart [OF c]
  show ?case
  proof (cases b)
    case True
    with c ca Cons.prems(1) show ?thesis by (simp add: batch_effect_none)
  next
    case False
    obtain stop w2 where s: "submitOrder st cl ses ow w1 = (stop, w2)" by (metis prod.exhaust)
    have so: "good w2 \<and> busy w2 = busy w \<and> (\<forall>j. j \<noteq> ord_ID (ow_Order ow) \<longrightarrow> view w2 j = view w j) \<and>
        ((sent w2 = sent w @ [msg ses (ow_Order ow) (ow_Lines ow)] \<and>
          (\<exists>q. view w2 (ord_ID (ow_Order ow)) = Some q \<and> outcome (ow_Order ow) stop q)) \<or>
         (stop \<and> sent w2 = sent w \<and> view w2 (ord_ID (ow_Order ow)) \<in>
           {view w (ord_ID (ow_Order ow)), map_option q_mark (view w (ord_ID (ow_Order ow)))}))"
      using submitOrder_steps [OF _ s] ca Cons.prems(1,3) by simp
    show ?thesis
    proof (cases stop)
      case True
      then have r: "submit_loop st cl ctx ses (ow # ows) w = w2" using c False s by simp
      from so Cons.prems(2) have "batch_effect view sent (msg ses) (ow # ows) w w2"
        by (elim conjE disjE exE) (rule batch_effect_last batch_effect_stuck; assumption)+
      with so r show ?thesis by simp
    next
      case go: False
      then have r: "submit_loop st cl ctx ses (ow # ows) w = submit_loop st cl ctx ses ows w2"
        using c False s by simp
      have "\<forall>x\<in>set ows. view w2 (ord_ID (ow_Order x)) = Some (queue_row (ow_Order x)) \<and>
          Status (ow_Order x) = OrderStatusPending"
        using so Cons.prems(2,3) by (auto simp: image_iff)
      with Cons.IH [of w2] so Cons.prems(2)
      have ih: "batch_effect view sent (msg ses) ows w2 (submit_loop st cl ctx ses ows w2)"
        "good (submit_loop st cl ctx ses ows w2)" "busy (submit_loop st cl ctx ses ows w2) = busy w"
        by auto
      from so go obtain q where q: "sent w2 = sent w @ [msg ses (ow_Order ow) (ow_Lines ow)]"
        "view w2 (ord_ID (ow_Order ow)) = Some q" "outcome (ow_Order ow) False q" by auto
      show ?thesis
        using batch_effect_Cons [OF q(1) _ q(2,3) Cons.prems(2) ih(1)] so ih r by simp
    qed
  qed
qed

lemma ProcessBatch_effect:
  assumes good: "good w"
  shows "good (ProcessBatch st cl ctx w) \<and> (\<not> busy w \<longrightarrow> \<not> busy (ProcessBatch st cl ctx w)) \<and>
    (\<exists>ses ows w1. bs_FetchPendingOrders st 100 w = (Inr ows, w1) \<and>
        batch_effect view sent (msg ses) ows w (ProcessBatch st cl ctx w) \<or>
      sent (ProcessBatch st cl ctx w) = sent w \<and> view (ProcessBatch st cl ctx w) = view w)"
proof -
  obtain rf w1 where f: "bs_FetchPendingOrders st 100 w = (rf, w1)" by (metis prod.exhaust)
  note fl = fetch_law [OF good f] store_apart(4) [OF f]
  show ?thesis
  proof (cases "\<exists>e. rf = Inl e \<or> rf = Inr []")
    case True
    then show ?thesis using f fl by (auto simp: ProcessBatch_def)
  next
    case False
    then obtain ow ows where rf: "rf = Inr (ow # ows)"
      by (cases rf) (metis, metis list.exhaust)
    note fr = fetch_rows [OF good f [unfolded rf]]
    obtain ro w2 where op: "sc_OpenSession cl w1 = (ro, w2)" by (metis prod.exhaust)
    note ol = open_law [OF op] client_apart(1) [OF op]
    show ?thesis
    proof (cases ro)
      case (Inl e)
      then have "ProcessBatch st cl ctx w = w2" using f rf op by (simp add: ProcessBatch_def)
      with ol fl Inl show ?thesis by auto
    next
      case (Inr ses)
      let ?w3 = "submit_loop st cl ctx ses (ow # ows) w2"
      obtain rc w4 where cs: "sc_Close cl ses ?w3 = (rc, w4)" by (metis prod.exhaust)
      note cl = close_law [OF cs] client_apart(3) [OF cs]
      have r: "ProcessBatch st cl ctx w = w4" using f rf op Inr cs by (simp add: ProcessBatch_def)
      have "batch_effect view sent (msg ses) (ow # ows) w2 ?w3 \<and> good ?w3"
        using submit_loop_effect [of w2 "ow # ows" ses] ol fl fr by simp
      then have "batch_effect view sent (msg ses) (ow # ows) w w4 \<and> good w4"
        using ol fl cl by (simp add: batch_effect_def)
      with r cl f rf show ?thesis by auto
    qed
  qed
qed

end

section \<open>The service's store and client\<close>

lemma enet_get_frame:
  "w_db (snd (enet_get c path ps w)) = w_db w"
  "w_dbs (snd (enet_get c path ps w)) = w_dbs w"
  "w_sessionMu (snd (enet_get c path ps w)) = w_sessionMu w"
  "w_local (snd (enet_get c path ps w)) = w_local w"
  "w_sent (snd (enet_get c path ps w)) = w_sent w @ [enet_req c path ps]"
  using http_do_frame [of "enet_req c path ps" w]
  by (auto simp: enet_get_def Let_def split: prod.splits http_outcome.splits)

lemma enet_call_snd:
  "snd (logon c w) = snd (enet_get c ''/Logon'' (logon_params c) w)"
  "snd (logoff c guid w) = snd (enet_get c ''/Logoff'' [(''UserId'', guid)] w)"
  "snd (transaction c guid bo ps ds w) = snd (enet_get c ''/Transaction/Post'' (transaction_params guid bo ps ds) w)"
  "snd (query c guid bo xml w) =
     snd (enet_get c ''/Query/Query'' [(''UserId'', guid), (''BusinessObject'', bo), (''XmlIn'', xml)] w)"
  by (simp_all add: logon_def logoff_def transaction_def query_def Let_def split: prod.splits sum.splits)

lemma lock_frame [simp]:
  "w_db (lock w) = w_db w" "w_sent (lock w) = w_sent w" "w_sessionMu (lock w)" "w_dbs (lock w) = w_dbs w"
  "w_db (unlock w) = w_db w" "w_sent (unlock w) = w_sent w" "\<not> w_sessionMu (unlock w)" "w_dbs (unlock w) = w_dbs w"
  by (simp_all add: lock_def unlock_def)

text \<open>The posting of an order as it goes over the wire, and the postings among the requests sent.\<close>

definition sortoi_msg :: "enet_session \<Rightarrow> order \<Rightarrow> order_line list \<Rightarrow> http_req" where
  "sortoi_msg s ord ls =
     (let (ps, ds) = buildSORTOI ord ls (ec_warehouse (es_client s)) (ec_allocationAction (es_client s))
                       (ec_taxCodeMap (es_client s))
      in enet_req (es_client s) ''/Transaction/Post'' (transaction_params (es_guid s) ''SORTOI'' ps ds))"

definition is_sortoi :: "http_req \<Rightarrow> bool" where
  "is_sortoi rq \<longleftrightarrow> (''BusinessObject'', ''SORTOI'') \<in> set (rq_query rq)"

definition sortois :: "world \<Rightarrow> http_req list" where
  "sortois w = filter is_sortoi (w_sent w)"

lemma is_sortoi_simps [simp]:
  "\<not> is_sortoi (enet_req c path (logon_params c'))"
  "\<not> is_sortoi (enet_req c path [(''UserId'', guid)])"
  "is_sortoi (sortoi_msg s ord ls)"
  by (auto simp: is_sortoi_def enet_req_def logon_params_def sortoi_msg_def transaction_params_def
      split: prod.splits)

lemma OpenSession_frame:
  assumes "OpenSession c w = (r, w')"
  shows "sortois w' = sortois w \<and> w_sessionMu w' = is_ok r \<and> w_db w' = w_db w"
proof -
  obtain x w1 where l: "logon c (lock w) = (x, w1)" by (metis prod.exhaust)
  have "w_sent w1 = w_sent w @ [enet_req c ''/Logon'' (logon_params c)]" "w_sessionMu w1" "w_db w1 = w_db w"
    using arg_cong [OF enet_call_snd(1) [of c "lock w"], of w_sent]
      arg_cong [OF enet_call_snd(1) [of c "lock w"], of w_sessionMu]
      arg_cong [OF enet_call_snd(1) [of c "lock w"], of w_db] by (simp_all add: l enet_get_frame)
  with assms show ?thesis
    by (cases x) (auto simp: OpenSession_def l sortois_def)
qed

lemma SubmitOrder_frame:
  assumes "SubmitOrder s ord ls w = (r, w')"
  shows "w_sent w' = w_sent w @ [sortoi_msg s ord ls] \<and> w_sessionMu w' = w_sessionMu w \<and> w_db w' = w_db w"
proof -
  let ?c = "es_client s"
  obtain ps ds where b: "buildSORTOI ord ls (ec_warehouse ?c) (ec_allocationAction ?c) (ec_taxCodeMap ?c) = (ps, ds)"
    by (metis prod.exhaust)
  obtain x w1 where t: "transaction ?c (es_guid s) ''SORTOI'' ps ds w = (x, w1)" by (metis prod.exhaust)
  have "w' = w1" using assms by (cases x) (auto simp: SubmitOrder_def submit_sortoi_def b t)
  moreover have "w1 = snd (enet_get ?c ''/Transaction/Post'' (transaction_params (es_guid s) ''SORTOI'' ps ds) w)"
    using enet_call_snd(3) [of ?c "es_guid s" "''SORTOI''" ps ds w] by (simp add: t)
  ultimately show ?thesis by (simp add: enet_get_frame sortoi_msg_def b)
qed

lemma CloseSession_frame:
  assumes "CloseSession s w = (r, w')"
  shows "sortois w' = sortois w \<and> \<not> w_sessionMu w' \<and> w_db w' = w_db w"
proof -
  obtain x w1 where l: "logoff (es_client s) (es_guid s) w = (x, w1)" by (metis prod.exhaust)
  have "w1 = snd (enet_get (es_client s) ''/Logoff'' [(''UserId'', es_guid s)] w)"
    using enet_call_snd(2) [of "es_client s" "es_guid s" w] by (simp add: l)
  with assms show ?thesis
    by (auto simp: CloseSession_def l sortois_def enet_get_frame)
qed

lemma session_snd:
  "w_db (snd (OpenSession c w)) = w_db w"
  "w_db (snd (SubmitOrder s ord ls w)) = w_db w"
  "w_db (snd (CloseSession s w)) = w_db w"
  using OpenSession_frame [OF surjective_pairing] SubmitOrder_frame [OF surjective_pairing]
    CloseSession_frame [OF surjective_pairing] by auto

lemma call_frames:
  "MarkOrderProcessing i w = (r, w') \<Longrightarrow> w_sent w' = w_sent w \<and> w_sessionMu w' = w_sessionMu w"
  "UpdateOrderStatus i s a e w = (r', w') \<Longrightarrow> w_sent w' = w_sent w \<and> w_sessionMu w' = w_sessionMu w"
  "UpdateOrderSubmitted i n a w = (r', w') \<Longrightarrow> w_sent w' = w_sent w \<and> w_sessionMu w' = w_sessionMu w"
  "FetchPendingOrders k w = (rf, w') \<Longrightarrow> w_sent w' = w_sent w \<and> w_sessionMu w' = w_sessionMu w"
  "OpenSession c w = (ro, w') \<Longrightarrow> w_db w' = w_db w"
  "SubmitOrder ses ord ls w = (rs, w') \<Longrightarrow> w_db w' = w_db w"
  "CloseSession ses w = (rc, w') \<Longrightarrow> w_db w' = w_db w"
  using method_frames FetchPendingOrders_frame session_snd by (metis snd_conv)+

lemma fetched_rows:
  assumes "db_inv (w_db w)" "FetchPendingOrders k w = (Inr ows, w')"
  shows "distinct (map (ord_ID \<circ> ow_Order) ows) \<and>
    (\<forall>ow\<in>set ows. queue_of (w_db w) (ord_ID (ow_Order ow)) = Some (queue_row (ow_Order ow)) \<and>
       Status (ow_Order ow) = OrderStatusPending)"
proof -
  let ?q = "sql_pending k (w_db w)"
  have m: "map ow_Order ows = map (scan_order (w_local w)) ?q"
    using FetchPendingOrders_orders [of k w ows] assms(2) by simp
  have sub: "set ?q \<subseteq> {r \<in> set (orders (w_db w)). Status r = OrderStatusPending}"
    by (auto simp: sql_pending_def dest: in_set_takeD)
  have "distinct (map ord_ID ?q)"
    using db_inv_distinct(1) [OF assms(1)]
    by (simp add: sql_pending_def take_map [symmetric] distinct_map distinct_take inj_on_def set_take_subset)
  moreover have "map (ord_ID \<circ> ow_Order) ows = map ord_ID ?q"
    using arg_cong [OF m, of "map ord_ID"] by (simp add: comp_def scan_order_def)
  moreover have "queue_of (w_db w) (ord_ID (ow_Order ow)) = Some (queue_row (ow_Order ow)) \<and>
      Status (ow_Order ow) = OrderStatusPending" if "ow \<in> set ows" for ow
  proof -
    have "ow_Order ow \<in> scan_order (w_local w) ` set ?q"
      using arg_cong [OF m, of set] that by auto
    then obtain r where r: "r \<in> set ?q" "ow_Order ow = scan_order (w_local w) r" by auto
    have "row_of (w_db w) (ord_ID r) = Some r"
      using r(1) sub row_of_Some [OF assms(1)] by auto
    then show ?thesis
      using r sub by (auto simp: queue_of_def queue_row_def scan_order_def)
  qed
  ultimately show ?thesis by simp
qed

interpretation bq: order_queue db_batch_store "\<lambda>w. queue_of (w_db w)" "\<lambda>w. db_inv (w_db w)"
proof unfold_locales
  fix w w' :: world and i r
  assume "db_inv (w_db w)" "bs_MarkOrderProcessing db_batch_store i w = (r, w')"
  then show "db_inv (w_db w') \<and> (case r of
      Inl _ \<Rightarrow> queue_of (w_db w') \<in> {queue_of (w_db w), v_update i q_mark (queue_of (w_db w))}
    | Inr b \<Rightarrow> b = v_pending (queue_of (w_db w) i) \<and> queue_of (w_db w') = v_update i q_mark (queue_of (w_db w)))"
    using MarkOrderProcessing_view [of w i r w'] by (simp add: db_batch_store_def)
next
  fix w w' :: world and k rf
  assume "db_inv (w_db w)" "bs_FetchPendingOrders db_batch_store k w = (rf, w')"
  then show "db_inv (w_db w') \<and> queue_of (w_db w') = queue_of (w_db w)"
    using FetchPendingOrders_db [of k w] by (simp add: db_batch_store_def)
qed (auto simp: db_batch_store_def dest: UpdateOrderStatus_view UpdateOrderSubmitted_view fetched_rows)

interpretation es: syspro_sessions "enet_syspro c" sortois w_sessionMu sortoi_msg for c
  by unfold_locales
    (auto simp: enet_syspro_def sortois_def dest: OpenSession_frame [unfolded sortois_def]
      SubmitOrder_frame CloseSession_frame [unfolded sortois_def])

interpretation bp: batch_processor db_batch_store "\<lambda>w. queue_of (w_db w)" "\<lambda>w. db_inv (w_db w)"
  "enet_syspro c" sortois w_sessionMu sortoi_msg ctx_err for c
proof unfold_locales
  fix w w' :: world and b
  assume "ctx_err w = (b, w')"
  then show "sortois w' = sortois w \<and> w_sessionMu w' = w_sessionMu w \<and>
      queue_of (w_db w') = queue_of (w_db w) \<and> db_inv (w_db w') = db_inv (w_db w)"
    using ctx_err_frame [of w] by (simp add: sortois_def)
qed (auto simp: db_batch_store_def enet_syspro_def sortois_def session_snd
    dest!: call_frames)

section \<open>Properties of the processor\<close>

text \<open>A concrete client, used by the concrete instances below.\<close>

definition demo_enet :: enet_client where
  "demo_enet = NewEnetClient ''http://syspro:31002/'' ''op'' ''pw'' ''RIL'' [] ''WEBS'' ''F'' None"



text \<open>C2: what a run leaves behind. An order whose SORTOI was sent ends, in the table, in one of the
  outcomes of \<open>outcome\<close> (still processing when its final update failed, submitted, failed, put back with
  one more attempt, or dead-lettered at the third), and only the last one posted in an infrastructure
  outcome; of the orders not posted at most the first was claimed; all others are as they were. The
  invariant of the tables holds afterwards.\<close>

theorem run_batch_outcomes:
  assumes "db_inv (w_db w)"
  shows "db_inv (w_db (run_batch c w)) \<and>
    ((\<exists>ses ows w1. FetchPendingOrders 100 w = (Inr ows, w1) \<and>
        batch_effect (\<lambda>w. queue_of (w_db w)) sortois (sortoi_msg ses) ows w (run_batch c w)) \<or>
      sortois (run_batch c w) = sortois w \<and> queue_of (w_db (run_batch c w)) = queue_of (w_db w))"
  using bp.ProcessBatch_effect [OF assms, of c, folded run_batch_def]
  by (auto simp: db_batch_store_def)

theorem run_batch_outcomes_witness: "db_inv (w_db (run_batch demo_enet demo_world))"
  using run_batch_outcomes [OF demo_inv, of demo_enet] by blast

text \<open>However a run ends, the SYSPRO session mutex is free afterwards if it was before.\<close>

theorem run_batch_releases_session:
  assumes "db_inv (w_db w)" "\<not> w_sessionMu w"
  shows "\<not> w_sessionMu (run_batch c w)"
  using bp.ProcessBatch_effect [OF assms(1), of c, folded run_batch_def] assms(2) by blast

theorem run_batch_releases_session_witness: "\<not> w_sessionMu (run_batch demo_enet demo_world)"
  by (rule run_batch_releases_session [OF demo_inv]) (simp add: demo_world_def empty_world_def)

end
