(* ===== verification/StoreProps.thy ===== *)
theory StoreProps
  imports StoreView
begin

text \<open>
  The properties of \<open>internal/store\<close>: atomic and idempotent creation of orders, the round trip
  through the tables, the compare-and-set of \<open>MarkOrderProcessing\<close>, what the queue queries select,
  reservations, and the invariant of every sequence of calls.
\<close>

section \<open>Lemmas\<close>

lemma db_step_events:
  "db_step pg d d' \<Longrightarrow> WebhookID ` set (webhook_events d) \<subseteq> WebhookID ` set (webhook_events d')"
proof (induction rule: db_step.induct)
  case (step_create ev ord d t ls)
  then show ?case by (auto simp: created_db_rows)
qed (auto simp: rollback_def sql_reset_stale_def sql_mark_processing_def sql_submitted_update_def
    sql_retry_def sql_status_update_def sql_fulfilled_update_def sql_insert_cancellation_def
    sql_insert_payment_def sql_payment_posted_def sql_payment_failed_def sql_requeue_payment_def
    upd_orders_def upd_payments_def Let_def)

lemma db_steps_events:
  "db_steps pg d d' \<Longrightarrow> WebhookID ` set (webhook_events d) \<subseteq> WebhookID ` set (webhook_events d')"
proof (induction rule: rtranclp_induct)
  case (step y z)
  from step.IH db_step_events [OF step.hyps(2)] show ?case by (rule subset_trans)
qed simp

lemma shopify_ids_keys: "ShopifyOrderID ` set (orders d) = (\<lambda>(_, s, _). s) ` order_keys d"
  by (force simp: order_keys_def)

lemma db_steps_shopify_ids:
  "db_steps pg d d' \<Longrightarrow> ShopifyOrderID ` set (orders d) \<subseteq> ShopifyOrderID ` set (orders d')"
  unfolding shopify_ids_keys by (intro image_mono db_steps_keys)

definition same_tables :: "db \<Rightarrow> db \<Rightarrow> bool" where
  "same_tables d d' \<longleftrightarrow> webhook_events d' = webhook_events d \<and> orders d' = orders d \<and>
     order_lines d' = order_lines d \<and> order_cancellations d' = order_cancellations d \<and>
     payment_postings d' = payment_postings d"

lemma same_tables_rollback: "same_tables d (rollback d t)"
  by (simp add: same_tables_def rollback_def)

lemma CreateOrder_stale:
  assumes "\<not> fresh_for ev ord (w_db w)"
  shows "\<not> is_ok (fst (CreateOrder pg ev ord ls w)) \<and>
    same_tables (w_db w) (w_db (snd (CreateOrder pg ev ord ls w)))"
  by (rule CreateOrder_cases [of ev ord w pg ls]) (use assms same_tables_rollback in auto)

lemma created_db_fresh_no_more: "\<not> fresh_for ev ord (created_db pg t ev ord ls d) " if "fresh_for ev ord d"
  using that by (auto simp: fresh_for_def created_db_rows)

lemma CreateOrder_ok_rows:
  assumes "CreateOrder pg ev ord ls w = (Inr (), w1)"
  shows "WebhookID ev \<in> WebhookID ` set (webhook_events (w_db w1))"
    "ShopifyOrderID ord \<in> ShopifyOrderID ` set (orders (w_db w1))"
  by (rule CreateOrder_cases [of ev ord w pg ls]; use assms in \<open>auto simp: created_db_rows order_row_def\<close>)+

section \<open>Creation\<close>

text \<open>C4: CreateOrder is atomic under every script of the database, a lost commit included: either the
  event, the order with its generated id and all its lines are in the tables, or no table changed and
  the call returned an error.\<close>

theorem CreateOrder_atomic:
  "(\<exists>t. webhook_events (w_db (snd (CreateOrder pg ev ord ls w))) = webhook_events (w_db w) @
           [\<lparr>ev_ID = seq_event (w_db w) + 1, WebhookID = WebhookID ev, Topic = Topic ev, ReceivedAt = pg_time t\<rparr>]
       \<and> orders (w_db (snd (CreateOrder pg ev ord ls w))) =
           orders (w_db w) @ [order_row pg t (seq_order (w_db w) + 1) ord]
       \<and> order_lines (w_db (snd (CreateOrder pg ev ord ls w))) =
           order_lines (w_db w) @ stored_lines pg (seq_order (w_db w) + 1) (seq_line (w_db w)) ls)
   \<or> \<not> is_ok (fst (CreateOrder pg ev ord ls w)) \<and>
       same_tables (w_db w) (w_db (snd (CreateOrder pg ev ord ls w)))"
  by (rule CreateOrder_cases [of ev ord w pg ls])
    (auto simp: created_db_rows same_tables_rollback)

text \<open>C5: once an order was created, no later call creates anything under the same webhook id or the
  same Shopify order id, whatever the service and the database did in between.\<close>

theorem CreateOrder_idempotent:
  assumes "CreateOrder pg ev ord ls w = (Inr (), w1)" "db_steps pg (w_db w1) (w_db w2)"
    "WebhookID ev' = WebhookID ev \<or> ShopifyOrderID ord' = ShopifyOrderID ord"
  shows "\<not> is_ok (fst (CreateOrder pg ev' ord' ls' w2)) \<and>
    same_tables (w_db w2) (w_db (snd (CreateOrder pg ev' ord' ls' w2)))"
proof (rule CreateOrder_stale)
  show "\<not> fresh_for ev' ord' (w_db w2)"
    using CreateOrder_ok_rows [OF assms(1)] db_steps_events [OF assms(2)]
      db_steps_shopify_ids [OF assms(2)] assms(3)
    by (auto simp: fresh_for_def)
qed

section \<open>Reading back\<close>

lemma insert_event_fresh:
  "fresh_for ev ord d \<Longrightarrow> fst (sql_insert_event t ev d) \<and> seq_order (snd (sql_insert_event t ev d)) = seq_order d \<and>
     orders (snd (sql_insert_event t ev d)) = orders d"
  by (auto simp: fresh_for_def sql_insert_event_def Let_def image_iff)

lemma insert_order_fresh:
  "fresh_for ev ord d \<Longrightarrow>
     fst (sql_insert_order pg t ord (snd (sql_insert_event t ev d))) = Some (seq_order d + 1)"
  by (auto simp: fresh_for_def sql_insert_event_def sql_insert_order_def Let_def image_iff)

lemma insert_lines_ok:
  "w_dbs w = [] \<Longrightarrow> insert_lines pg i ls t w = ((Inr (), lines_from pg i ls t), w)"
  by (induction ls arbitrary: t) (simp_all add: lines_from_def call_simps)

lemma CreateOrder_ok [call_simps]:
  assumes "w_dbs w = []" "fresh_for ev ord (w_db w)"
  shows "CreateOrder pg ev ord ls w =
    (Inr (), w\<lparr>w_db := created_db pg (UTC (now w)) ev ord ls (w_db w)\<rparr>)"
proof -
  let ?t = "UTC (now w)"
  let ?d = "created_db pg ?t ev ord ls (w_db w)"
  have "create_tx pg ?t ev ord ls (w_db w) w = ((Inr (), ?d), w)"
    using insert_event_fresh [OF assms(2)] insert_order_fresh [OF assms(2)]
    by (simp add: create_tx_def call_simps assms(1) insert_lines_ok created_db_def lines_from_def)
  then show ?thesis
    by (simp add: CreateOrder_def call_simps assms(1))
qed

lemma attach_lines_ok:
  "w_dbs w = [] \<Longrightarrow> attach_lines rs w =
     (Inr (map (\<lambda>r. \<lparr>ow_Order = r, ow_Lines = sort_key line_ID
        (filter (\<lambda>l. line_OrderID l = ord_ID r) (order_lines (w_db w)))\<rparr>) rs), w)"
  by (induction rs) (simp_all add: fetchOrderLines_def call_simps)

lemma FetchPendingOrders_ok [call_simps]:
  "w_dbs w = [] \<Longrightarrow> FetchPendingOrders n w =
     (Inr (map (\<lambda>r. \<lparr>ow_Order = scan_order (w_local w) r, ow_Lines = sort_key line_ID
        (filter (\<lambda>l. line_OrderID l = ord_ID r) (order_lines (w_db w)))\<rparr>) (sql_pending n (w_db w))), w)"
  by (simp add: FetchPendingOrders_def call_simps attach_lines_ok scan_order_def comp_def)

lemma created_lines:
  assumes "db_inv d" "fresh_for ev ord d"
  shows "sort_key line_ID (filter (\<lambda>l. line_OrderID l = seq_order d + 1) (order_lines (created_db pg t ev ord ls d)))
    = stored_lines pg (seq_order d + 1) (seq_line d) ls"
proof -
  have "filter (\<lambda>l. line_OrderID l = seq_order d + 1) (order_lines d) = []"
    using assms(1) by (fastforce simp: db_inv_defs ids_below_def filter_empty_conv)
  moreover have "filter (\<lambda>l. line_OrderID l = seq_order d + 1) (stored_lines pg (seq_order d + 1) (seq_line d) ls)
      = stored_lines pg (seq_order d + 1) (seq_line d) ls"
    by (auto simp: filter_id_conv dest: stored_lines_ids)
  ultimately show ?thesis
    by (simp add: created_db_rows [OF assms(2)] sort_key_id_if_sorted stored_lines_sorted)
qed

text \<open>C19: round trip. An order staged as pending, with fewer than \<open>n\<close> others waiting, is among the
  orders the next fetch returns: the row that was built from the given one, with its lines in their
  order.\<close>

theorem create_fetch_roundtrip:
  assumes "db_inv (w_db w)" "w_dbs w = []" "fresh_for ev ord (w_db w)" "Status ord = OrderStatusPending"
    "length (filter (\<lambda>r. Status r = OrderStatusPending) (orders (w_db w))) < n"
  shows "\<exists>w1 ows. CreateOrder pg ev ord ls w = (Inr (), w1) \<and> FetchPendingOrders n w1 = (Inr ows, w1) \<and>
    \<lparr>ow_Order = scan_order (w_local w) (order_row pg (UTC (now w)) (seq_order (w_db w) + 1) ord),
     ow_Lines = stored_lines pg (seq_order (w_db w) + 1) (seq_line (w_db w)) ls\<rparr> \<in> set ows"
proof -
  let ?d = "created_db pg (UTC (now w)) ev ord ls (w_db w)"
  let ?r = "order_row pg (UTC (now w)) (seq_order (w_db w) + 1) ord"
  let ?w1 = "w\<lparr>w_db := ?d\<rparr>"
  have "sql_pending n ?d = sort_key created_key (filter (\<lambda>r. Status r = OrderStatusPending) (orders ?d))"
    using assms(3,4,5) by (simp add: sql_pending_def created_db_rows order_row_def)
  then have "?r \<in> set (sql_pending n ?d)"
    using assms(3,4) by (simp add: created_db_rows order_row_def)
  moreover have "ord_ID ?r = seq_order (w_db w) + 1" by (simp add: order_row_def)
  ultimately show ?thesis
    by (intro exI [of _ ?w1] exI)
      (auto simp: call_simps assms created_lines intro!: image_eqI [where x = ?r])
qed

text \<open>What the batch reads. Under any script, a successful fetch returns at most the limit, only
  pending orders of the table, oldest first, each with its own lines by id; and it leaves out an order
  only when the limit was reached by orders that are not younger.\<close>

theorem FetchPendingOrders_selects:
  assumes "fst (FetchPendingOrders n w) = Inr ows"
  shows "length ows \<le> n \<and> sorted (map (created_key \<circ> ow_Order) ows)
    \<and> (\<forall>ow\<in>set ows. Status (ow_Order ow) = OrderStatusPending \<and> ord_ID (ow_Order ow) \<in> ord_ID ` set (orders (w_db w)))
    \<and> (\<forall>r\<in>set (orders (w_db w)). Status r = OrderStatusPending \<longrightarrow>
         scan_order (w_local w) r \<in> ow_Order ` set ows \<or>
         length ows = n \<and> (\<forall>ow\<in>set ows. created_key (ow_Order ow) \<le> created_key r))"
proof -
  let ?p = "filter (\<lambda>r. Status r = OrderStatusPending) (orders (w_db w))"
  let ?q = "sql_pending n (w_db w)"
  note m = FetchPendingOrders_orders [OF assms]
  note t = take_sort_key [where k = created_key and n = n and ys = ?p, folded sql_pending_def]
  have k: "created_key (scan_order z r) = created_key r" "Status (scan_order z r) = Status r"
    "ord_ID (scan_order z r) = ord_ID r" for z r
    by (simp_all add: scan_order_def created_key_def at_zone_def)
  have len: "length ows = length ?q" by (metis m length_map)
  have srt: "map (created_key \<circ> ow_Order) ows = map created_key ?q"
    using arg_cong [OF m, of "map created_key"] by (simp add: k comp_def)
  have set: "ow_Order ` set ows = scan_order (w_local w) ` set ?q"
    using arg_cong [OF m, of set] by simp
  have ex: "\<exists>r\<in>set ?q. ow_Order ow = scan_order (w_local w) r" if "ow \<in> set ows" for ow
    using set that by (metis imageE imageI)
  have "length ?q \<le> n" by (simp add: sql_pending_def)
  moreover have "sorted (map (created_key \<circ> ow_Order) ows)" using srt t(1) by simp
  moreover have "Status (ow_Order ow) = OrderStatusPending \<and> ord_ID (ow_Order ow) \<in> ord_ID ` set (orders (w_db w))"
    if "ow \<in> set ows" for ow
    using ex [OF that] t(2) by (auto simp: k)
  moreover have "scan_order (w_local w) r \<in> ow_Order ` set ows \<or>
      length ows = n \<and> (\<forall>ow\<in>set ows. created_key (ow_Order ow) \<le> created_key r)"
    if r: "r \<in> set (orders (w_db w))" "Status r = OrderStatusPending" for r
  proof (cases "r \<in> set ?q")
    case True
    then show ?thesis by (simp add: set)
  next
    case False
    with r have "length ?q = n" by (auto simp: sql_pending_def not_le min_def split: if_splits)
    moreover have "created_key (ow_Order ow) \<le> created_key r" if "ow \<in> set ows" for ow
      using ex [OF that] t(3) [of _ r] False r by (auto simp: k)
    ultimately show ?thesis by (simp add: len)
  qed
  ultimately show ?thesis by (simp add: len)
qed

section \<open>Claiming an order\<close>

text \<open>MarkOrderProcessing is a compare-and-set. It reports \<open>true\<close> exactly when the order was
  pending, and then the order is processing; \<open>false\<close> changes nothing; an error leaves the order as it
  was or claimed; no other order's queue entry changes; and a second claim straight after a
  successful one never reports \<open>true\<close>.\<close>

theorem MarkOrderProcessing_cas:
  assumes "db_inv (w_db w)" "MarkOrderProcessing i w = (r, w')"
  shows "(r = Inr True \<longrightarrow> v_pending (queue_of (w_db w) i) \<and>
            (\<exists>a n e. queue_of (w_db w') i = Some (OrderStatusProcessing, a, n, e)) \<and>
            fst (MarkOrderProcessing i w') \<noteq> Inr True)
    \<and> (r = Inr False \<longrightarrow> \<not> v_pending (queue_of (w_db w) i) \<and> queue_of (w_db w') = queue_of (w_db w))
    \<and> (\<not> is_ok r \<longrightarrow> queue_of (w_db w') i \<in> {queue_of (w_db w) i, map_option q_mark (queue_of (w_db w) i)})
    \<and> (\<forall>j. j \<noteq> i \<longrightarrow> queue_of (w_db w') j = queue_of (w_db w) j)"
proof -
  note v = MarkOrderProcessing_view [OF assms]
  have again: "\<not> v_pending (queue_of (w_db w') i) \<Longrightarrow> fst (MarkOrderProcessing i w') \<noteq> Inr True"
    using MarkOrderProcessing_view [of w' i "fst (MarkOrderProcessing i w')" "snd (MarkOrderProcessing i w')"] v
    by auto
  have nop: "\<not> v_pending (queue_of (w_db w) i) \<Longrightarrow> v_update i q_mark (queue_of (w_db w)) = queue_of (w_db w)"
    by (cases "queue_of (w_db w) i") (auto simp: v_update_def fun_eq_iff)
  show ?thesis
  proof (cases r)
    case (Inl e)
    with v show ?thesis by (auto simp: v_update_def)
  next
    case (Inr b)
    with v nop again show ?thesis
      by (cases "queue_of (w_db w) i") (auto simp: v_update_def fun_eq_iff)
  qed
qed

section \<open>Reservations\<close>

text \<open>What \<open>reserved[sku]\<close> reads in the Go map.\<close>

definition reserved_qty :: "db \<Rightarrow> string \<Rightarrow> int" where
  "reserved_qty d s = (case map_of (sql_reserved d) s of None \<Rightarrow> 0 | Some q \<Rightarrow> q)"

definition sku_total :: "string \<Rightarrow> order_line list \<Rightarrow> int" where
  "sku_total s ls = sum_list (map Quantity (filter (\<lambda>l. SKU l = s) ls))"

lemma sku_total_simps [simp]:
  "sku_total s [] = 0" "sku_total s (l # ls) = (if SKU l = s then Quantity l else 0) + sku_total s ls"
  "sku_total s (xs @ ys) = sku_total s xs + sku_total s ys"
  by (simp_all add: sku_total_def)

lemma sku_total_none: "s \<notin> SKU ` set ls \<Longrightarrow> sku_total s ls = 0"
  by (induction ls) auto

lemma sku_total_split:
  "sku_total s (filter P ls) = sku_total s (filter (\<lambda>l. P l \<and> Q l) ls) + sku_total s (filter (\<lambda>l. P l \<and> \<not> Q l) ls)"
  by (induction ls) auto

lemma sku_total_stored: "sku_total s (stored_lines pg i n ls) = sku_total s ls"
  by (induction ls arbitrary: n) auto

lemma reserved_qty_total: "reserved_qty d s = sku_total s (reserved_lines d)"
proof -
  have "map_of (sql_reserved d) s =
      (if s \<in> SKU ` set (reserved_lines d) then Some (sku_total s (reserved_lines d)) else None)"
    unfolding sql_reserved_def sku_total_def by (simp add: map_of_map_restrict restrict_map_def)
  then show ?thesis by (simp add: reserved_qty_def sku_total_none)
qed

definition v_reserving :: "queue_row option \<Rightarrow> bool" where
  "v_reserving q \<longleftrightarrow> (case q of None \<Rightarrow> False | Some (s, _) \<Rightarrow> s = OrderStatusPending \<or> s = OrderStatusProcessing)"

lemma reserving_ids_view: "db_inv d \<Longrightarrow> i \<in> set (reserving_ids d) \<longleftrightarrow> v_reserving (queue_of d i)"
proof -
  assume "db_inv d"
  then have "i \<in> set (reserving_ids d) \<longleftrightarrow>
      (\<exists>r. row_of d i = Some r \<and> (Status r = OrderStatusPending \<or> Status r = OrderStatusProcessing))"
    by (auto simp: reserving_ids_def row_of_Some)
  then show ?thesis
    by (cases "row_of d i") (auto simp: queue_of_def v_reserving_def queue_row_def)
qed

lemma reserved_lines_view:
  "db_inv d \<Longrightarrow> reserved_lines d = filter (\<lambda>l. v_reserving (queue_of d (line_OrderID l))) (order_lines d)"
  by (simp add: reserved_lines_def reserving_ids_view)

lemma reserved_after:
  assumes "db_inv d" "db_inv d'" "order_lines d' = order_lines d"
    "\<And>j. j \<noteq> i \<Longrightarrow> queue_of d' j = queue_of d j" "v_reserving (queue_of d i)"
  shows "reserved_qty d' s = reserved_qty d s -
    (if v_reserving (queue_of d' i) then 0 else sku_total s (filter (\<lambda>l. line_OrderID l = i) (order_lines d)))"
proof -
  let ?P = "\<lambda>l. v_reserving (queue_of d (line_OrderID l))"
  let ?P' = "\<lambda>l. v_reserving (queue_of d' (line_OrderID l))"
  have a: "filter (\<lambda>l. ?P l \<and> line_OrderID l = i) ls = filter (\<lambda>l. line_OrderID l = i) ls"
    "filter (\<lambda>l. ?P' l \<and> line_OrderID l \<noteq> i) ls = filter (\<lambda>l. ?P l \<and> line_OrderID l \<noteq> i) ls"
    "filter (\<lambda>l. ?P' l \<and> line_OrderID l = i) ls =
       (if v_reserving (queue_of d' i) then filter (\<lambda>l. line_OrderID l = i) ls else [])" for ls
    using assms(4,5) by (auto intro: filter_cong simp: filter_empty_conv)
  show ?thesis
    unfolding reserved_qty_total reserved_lines_view [OF assms(1)] reserved_lines_view [OF assms(2)] assms(3)
      sku_total_split [of s ?P _ "\<lambda>l. line_OrderID l = i"] sku_total_split [of s ?P' _ "\<lambda>l. line_OrderID l = i"] a
    by simp
qed

lemma reserved_created:
  assumes "db_inv d" "fresh_for ev ord d" "Status ord = OrderStatusPending"
  shows "reserved_qty (created_db pg t ev ord ls d) s = reserved_qty d s + sku_total s ls"
proof -
  let ?d = "created_db pg t ev ord ls d" and ?n = "seq_order d + 1"
  have n: "\<forall>l\<in>set (order_lines d). line_OrderID l \<noteq> ?n"
    using assms(1) by (fastforce simp: db_inv_defs ids_below_def)
  have ids: "set (reserving_ids ?d) = insert ?n (set (reserving_ids d))"
    using assms(3) by (simp add: reserving_ids_def created_db_rows [OF assms(2)] order_row_def)
  have "filter (\<lambda>l. line_OrderID l \<in> set (reserving_ids ?d)) (order_lines d) = reserved_lines d"
    using n by (auto simp: reserved_lines_def ids intro: filter_cong)
  moreover have "filter (\<lambda>l. line_OrderID l \<in> set (reserving_ids ?d)) (stored_lines pg ?n (seq_line d) ls)
      = stored_lines pg ?n (seq_line d) ls"
    by (auto simp: filter_id_conv ids dest: stored_lines_ids)
  ultimately show ?thesis
    by (simp add: reserved_qty_total reserved_lines_def created_db_rows [OF assms(2)] sku_total_stored)
qed

text \<open>Staging a pending order reserves exactly its quantities, SKU by SKU.\<close>

theorem staging_reserves:
  assumes "db_inv (w_db w)" "CreateOrder pg ev ord ls w = (Inr (), w')" "Status ord = OrderStatusPending"
  shows "reserved_qty (w_db w') s = reserved_qty (w_db w) s + sku_total s ls"
  by (rule CreateOrder_cases [of ev ord w pg ls])
    (use assms in \<open>auto simp: reserved_created\<close>)

text \<open>Claiming a waiting order keeps its reservation; recording its submission releases exactly the
  quantities of its lines.\<close>

theorem submission_releases:
  assumes "db_inv (w_db w)" "MarkOrderProcessing i w = (Inr True, w1)"
    "UpdateOrderSubmitted i num att w1 = (Inr (), w2)"
  shows "reserved_qty (w_db w1) s = reserved_qty (w_db w) s \<and>
    reserved_qty (w_db w2) s =
      reserved_qty (w_db w) s - sku_total s (filter (\<lambda>l. line_OrderID l = i) (order_lines (w_db w)))"
proof -
  note m = MarkOrderProcessing_view [OF assms(1,2), simplified]
  have inv1: "db_inv (w_db w1)" using m by simp
  note u = UpdateOrderSubmitted_view [OF inv1 assms(3), simplified]
  obtain a n e where p: "queue_of (w_db w) i = Some (OrderStatusPending, a, n, e)"
    using m by (cases "queue_of (w_db w) i") auto
  have keep: "order_lines (w_db (snd (db_call f w'))) = order_lines (w_db w')"
    if "\<And>t d. order_lines (snd (f t d)) = order_lines d" for f :: "gtime \<Rightarrow> db \<Rightarrow> nat \<times> db" and w'
    by (rule db_call_cases [of f w']) (use that in auto)
  have "order_lines (w_db w1) = order_lines (w_db w)"
    using arg_cong [OF method_snd(2) [of i w], of "\<lambda>w. order_lines (w_db w)"] assms(2)
    by (simp add: keep sql_mark_processing_def lines_only)
  moreover have "order_lines (w_db w2) = order_lines (w_db w1)"
    using arg_cong [OF method_snd(3) [of i num att w1], of "\<lambda>w. order_lines (w_db w)"] assms(3)
    by (simp add: keep sql_submitted_update_def lines_only)
  ultimately show ?thesis
    using reserved_after [of "w_db w" "w_db w1" i s] reserved_after [of "w_db w1" "w_db w2" i s] m u p assms(1) inv1
    by (simp add: v_reserving_def)
qed

section \<open>Every sequence of calls\<close>

text \<open>C16: the invariant of the five tables. Whatever statements take effect, from the empty database, in
  whatever order: generated ids are distinct and increasing, no two orders share a Shopify id, no two
  events a webhook id, no two cancellations a webhook id, no two postings a transaction, and every line
  and every cancellation points to an order that exists.\<close>

theorem store_invariant: "(db_step pg)\<^sup>*\<^sup>* empty_db d \<Longrightarrow> db_inv d"
  by (rule db_steps_inv [OF _ db_inv_empty])

text \<open>Nothing the store does deletes an order, or changes its ids or its time of creation.\<close>

theorem orders_persist:
  assumes "(db_step pg)\<^sup>*\<^sup>* d d'" "r \<in> set (orders d)"
  shows "\<exists>r'\<in>set (orders d'). ord_ID r' = ord_ID r \<and> ShopifyOrderID r' = ShopifyOrderID r \<and> CreatedAt r' = CreatedAt r"
  using db_steps_keys [OF assms(1)] assms(2) by (force simp: order_keys_def)

section \<open>Concrete instances\<close>

lemma demo_create: "CreateOrder plain_pg demo_event demo_order [demo_line] empty_world = (Inr (), demo_world)"
  by (simp add: CreateOrder_ok demo_fresh empty_world_def demo_world_def demo_db_def now_def)

lemma demo_mark: "\<exists>w1. MarkOrderProcessing 1 demo_world = (Inr True, w1) \<and> w_dbs w1 = []"
proof -
  have "w_dbs demo_world = []" by (simp add: demo_world_def empty_world_def)
  moreover have "fst (sql_mark_processing 1 t (w_db demo_world)) = 1" for t
    by (simp add: mark_count demo_inv demo_queue)
  ultimately show ?thesis by (simp add: MarkOrderProcessing_def db_call_ok)
qed

theorem CreateOrder_idempotent_witness:
  "\<exists>e w'. CreateOrder plain_pg demo_event demo_order [] demo_world = (Inl e, w') \<and>
     same_tables (w_db demo_world) (w_db w')"
  using CreateOrder_idempotent [OF demo_create rtranclp.rtrancl_refl, of demo_event demo_order "[]"]
  by (cases "CreateOrder plain_pg demo_event demo_order [] demo_world";
      cases "fst (CreateOrder plain_pg demo_event demo_order [] demo_world)") auto

theorem create_fetch_roundtrip_witness:
  "\<exists>w1 ows. CreateOrder plain_pg demo_event demo_order [demo_line] empty_world = (Inr (), w1) \<and>
     FetchPendingOrders 10 w1 = (Inr ows, w1) \<and>
     \<lparr>ow_Order = scan_order 0 (order_row plain_pg (UTC (now empty_world)) 1 demo_order),
      ow_Lines = stored_lines plain_pg 1 0 [demo_line]\<rparr> \<in> set ows"
  using create_fetch_roundtrip [of empty_world demo_event demo_order 10 plain_pg "[demo_line]"]
  by (simp add: demo_fresh demo_pending db_inv_empty empty_world_def) (simp add: empty_db_def)

theorem FetchPendingOrders_selects_witness:
  "\<exists>ows. fst (FetchPendingOrders 10 demo_world) = Inr ows \<and> length ows \<le> 10 \<and> sorted (map (created_key \<circ> ow_Order) ows)"
proof -
  have "\<exists>ows. fst (FetchPendingOrders 10 demo_world) = Inr ows"
    by (simp add: FetchPendingOrders_ok demo_world_def empty_world_def)
  with FetchPendingOrders_selects [of 10 demo_world] show ?thesis by blast
qed

theorem MarkOrderProcessing_cas_witness:
  "\<exists>w1. MarkOrderProcessing 1 demo_world = (Inr True, w1) \<and> fst (MarkOrderProcessing 1 w1) \<noteq> Inr True"
  using demo_mark MarkOrderProcessing_cas [OF demo_inv] by blast

theorem staging_reserves_witness:
  "reserved_qty (w_db demo_world) ''CBBQ0001'' = reserved_qty empty_db ''CBBQ0001'' + 2"
  using staging_reserves [OF _ demo_create demo_pending, of "''CBBQ0001''"]
  by (simp add: db_inv_empty empty_world_def demo_line_def)

theorem submission_releases_witness:
  "\<exists>w2 :: world. w_db w2 \<noteq> w_db demo_world \<and> reserved_qty (w_db w2) ''CBBQ0001'' =
     reserved_qty (w_db demo_world) ''CBBQ0001'' - sku_total ''CBBQ0001'' (filter (\<lambda>l. line_OrderID l = 1) (order_lines (w_db demo_world)))"
proof -
  from demo_mark obtain w1 where m: "MarkOrderProcessing 1 demo_world = (Inr True, w1)" "w_dbs w1 = []" by blast
  have q1: "queue_of (w_db w1) = v_update 1 q_mark (queue_of (w_db demo_world))"
    and i1: "db_inv (w_db w1)"
    using MarkOrderProcessing_view [OF demo_inv m(1)] by simp_all
  have "row_of (w_db w1) 1 \<noteq> None"
    using fun_cong [OF q1, of 1] demo_queue by (cases "row_of (w_db w1) 1") (simp_all add: queue_of_def)
  then have "fst (sql_submitted_update 1 ''000123'' 1 t (w_db w1)) \<noteq> 0" for t
    using upd_orders_count [OF i1, of 1 "\<lambda>_. True"] by (auto simp: sql_submitted_update_def upd_orders_def)
  then obtain w2 where u: "UpdateOrderSubmitted 1 ''000123'' 1 w1 = (Inr (), w2)"
    using m(2) by (simp add: UpdateOrderSubmitted_def db_call_ok)
  have "queue_of (w_db w2) = v_update 1 (q_submitted ''000123'' 1) (queue_of (w_db w1))"
    using UpdateOrderSubmitted_view [OF i1 u] by simp
  then have "queue_of (w_db w2) 1 \<noteq> queue_of (w_db demo_world) 1"
    by (simp add: q1 demo_queue)
  then have "w_db w2 \<noteq> w_db demo_world" by metis
  with submission_releases [OF demo_inv m(1) u, of "''CBBQ0001''"] show ?thesis by blast
qed

lemma demo_steps: "db_steps plain_pg empty_db demo_db"
  using CreateOrder_steps [of plain_pg empty_world demo_event demo_order "[demo_line]"] demo_create
  by (simp add: empty_world_def demo_world_def)

theorem store_invariant_witness: "db_inv demo_db"
  by (rule store_invariant [OF demo_steps])

theorem orders_persist_witness:
  "\<exists>r'\<in>set (orders demo_db). ord_ID r' = 1 \<and> ShopifyOrderID r' = 1001"
proof -
  have "order_row plain_pg (UTC (now empty_world)) 1 demo_order \<in> set (orders demo_db)"
    unfolding demo_db_def created_db_rows [OF demo_fresh] by (simp add: empty_db_def)
  from orders_persist [OF rtranclp.rtrancl_refl this] show ?thesis
    by (auto simp: order_row_def demo_order_def)
qed

end
