(* ===== verification/WebhookProps.thy ===== *)
theory WebhookProps
  imports Webhook BatchProps StoreProps
begin

text \<open>
  The orders/create webhook against the contract of its store. The locale \<open>order_intake\<close> says what the
  handler relies on: which webhook ids and which Shopify orders the store knows, and that a failing call
  adds neither. Its interpretation on \<open>*store.DB\<close> follows from the lemmas on \<open>CreateOrder\<close>.
\<close>

section \<open>The contract of OrderStore\<close>

locale order_intake =
  fixes st :: "'w order_store" and known :: "'w \<Rightarrow> string set" and staged :: "'w \<Rightarrow> int set"
  assumes exists_law: "os_WebhookExists st wid w = (r, w') \<Longrightarrow> known w' = known w \<and> staged w' = staged w \<and>
      (\<forall>b. r = Inr b \<longrightarrow> b = (wid \<in> known w))"
    and create_law: "os_CreateOrder st ev ord ls w = (r', w') \<Longrightarrow>
      WebhookID ev \<notin> known w \<and> ShopifyOrderID ord \<notin> staged w \<and>
        known w' = insert (WebhookID ev) (known w) \<and> staged w' = insert (ShopifyOrderID ord) (staged w) \<or>
      \<not> is_ok r' \<and> known w' = known w \<and> staged w' = staged w"
    and create_dup: "os_CreateOrder st ev ord ls w = (Inl e, w') \<Longrightarrow>
      (e = ErrDuplicateWebhook \<longrightarrow> WebhookID ev \<in> known w) \<and>
      (e = ErrDuplicateOrder \<longrightarrow> ShopifyOrderID ord \<in> staged w)"

text \<open>The checks a request has to pass before the handler creates anything.\<close>

definition authentic :: "string \<Rightarrow> request \<Rightarrow> bool" where
  "authentic secret r \<longleftrightarrow> (\<exists>b. req_body r = Some b \<and>
     VerifyHMAC (take maxBodySize b) secret (header ''X-Shopify-Hmac-Sha256'' r))"

definition payload_of :: "request \<Rightarrow> shopify_order option" where
  "payload_of r = Option.bind (req_body r) (\<lambda>b. unmarshal (jstruct dec_order) (take maxBodySize b))"

definition acceptable :: "shopify_order \<Rightarrow> bool" where
  "acceptable p \<longleftrightarrow> p_ID p \<noteq> 0 \<and> p_LineItems p \<noteq> [] \<and> isPaidStatus (p_FinancialStatus p) \<and>
     line_error 1 (p_LineItems p) = None"

definition webhook_id :: "request \<Rightarrow> string" where
  "webhook_id r = header ''X-Shopify-Webhook-Id'' r"

lemma mapOrder_id [simp]: "ShopifyOrderID (fst (mapOrder nw p raw)) = p_ID p"
  by (simp add: mapOrder_def set_address_def split: option.splits)

context order_intake
begin

lemma handle_unauthentic:
  assumes "\<not> authentic secret r"
  shows "handleOrderCreate st secret clk r trig w =
    ((if req_body r = None then respond 400 ''error'' ''failed to read body''
      else respond 401 ''error'' ''unauthorized'', trig), w)"
  using assms by (cases "req_body r") (auto simp: handleOrderCreate_def authentic_def Let_def)

text \<open>
  Every way a delivery can end: it changed neither set, with one of the responses that are not an
  acknowledgement of storage or with the id or order known already; or it staged the order of an
  acceptable payload.
\<close>

lemma handle_cases:
  assumes h: "handleOrderCreate st secret clk r trig w = ((rs, trig'), w')"
  shows "(known w' = known w \<and> staged w' = staged w \<and> trig' = trig \<and>
      (rs = respond 200 ''status'' ''ok'' \<longrightarrow> webhook_id r \<in> known w) \<and>
      (rs = respond 200 ''status'' ''duplicate_order'' \<longrightarrow> (\<exists>p. payload_of r = Some p \<and> p_ID p \<in> staged w)))
    \<or> (\<exists>p. authentic secret r \<and> payload_of r = Some p \<and> acceptable p \<and> webhook_id r \<noteq> [] \<and>
        webhook_id r \<notin> known w \<and> p_ID p \<notin> staged w \<and>
        known w' = insert (webhook_id r) (known w) \<and> staged w' = insert (p_ID p) (staged w) \<and>
        (rs = respond 200 ''status'' ''ok'' \<and> trig' = map_option (\<lambda>_. True) trig \<or>
         rs = respond 500 ''error'' ''internal error'' \<and> trig' = trig))"
proof (cases "authentic secret r \<and> webhook_id r \<noteq> []")
  case False
  then show ?thesis
    using h by (cases "req_body r")
      (auto simp: handleOrderCreate_def authentic_def webhook_id_def Let_def respond_def split: if_splits)
next
  case True
  then obtain b where b: "req_body r = Some b"
      "VerifyHMAC (take maxBodySize b) secret (header ''X-Shopify-Hmac-Sha256'' r)"
    and wid: "header ''X-Shopify-Webhook-Id'' r \<noteq> []"
    by (auto simp: authentic_def webhook_id_def)
  let ?wid = "header ''X-Shopify-Webhook-Id'' r"
  let ?body = "take maxBodySize b"
  obtain r1 w1 where e: "os_WebhookExists st ?wid w = (r1, w1)" by (metis prod.exhaust)
  note el = exists_law [OF e]
  show ?thesis
  proof (cases "r1 = Inr False \<and> (\<exists>p. unmarshal (jstruct dec_order) ?body = Some p \<and> acceptable p)")
    case False
    with h b wid e el show ?thesis
      by (auto simp: handleOrderCreate_def webhook_id_def acceptable_def Let_def respond_def
          split: sum.splits bool.splits option.splits if_splits)
  next
    case ok: True
    then obtain p where p: "r1 = Inr False" "unmarshal (jstruct dec_order) ?body = Some p" "acceptable p"
      by blast
    let ?ev = "\<lparr>ev_ID = 0, WebhookID = ?wid, Topic = ''orders/create'', ReceivedAt = zero_time\<rparr>"
    obtain ord ls where m: "mapOrder (clk w1) p ?body = (ord, ls)" by (metis prod.exhaust)
    have oid: "ShopifyOrderID ord = p_ID p" using mapOrder_id [of "clk w1" p ?body] by (simp add: m)
    obtain r2 w2 where c: "os_CreateOrder st ?ev ord ls w1 = (r2, w2)" by (metis prod.exhaust)
    have eq: "((rs, trig'), w') =
        (case r2 of Inl e \<Rightarrow>
             ((if e = ErrDuplicateWebhook then respond 200 ''status'' ''ok''
               else if e = ErrDuplicateOrder then respond 200 ''status'' ''duplicate_order''
               else respond 500 ''error'' ''internal error'', trig), w2)
         | Inr _ \<Rightarrow> ((respond 200 ''status'' ''ok'', map_option (\<lambda>_. True) trig), w2))"
      using h b wid e p m c by (simp add: handleOrderCreate_def acceptable_def Let_def split: sum.splits)
    have pl: "payload_of r = Some p" using b p by (simp add: payload_of_def)
    have cl: "?wid \<notin> known w \<and> p_ID p \<notin> staged w \<and> known w2 = insert ?wid (known w) \<and>
          staged w2 = insert (p_ID p) (staged w) \<or>
        \<not> is_ok r2 \<and> known w2 = known w \<and> staged w2 = staged w"
      using create_law [OF c] el oid by simp
    show ?thesis
    proof (cases r2)
      case (Inr u)
      with cl eq pl p True show ?thesis by (auto simp: webhook_id_def)
    next
      case (Inl err)
      have "err = ErrDuplicateWebhook \<Longrightarrow> ?wid \<in> known w" "err = ErrDuplicateOrder \<Longrightarrow> p_ID p \<in> staged w"
        using create_dup [OF c [unfolded Inl]] el oid by auto
      with cl eq pl p True Inl show ?thesis
        by (auto simp: webhook_id_def respond_def split: if_splits)
    qed
  qed
qed

text \<open>A delivery of an id that is known is acknowledged, or fails inside, and changes nothing.\<close>

lemma handle_known:
  assumes "webhook_id r \<in> known w" "authentic secret r" "webhook_id r \<noteq> []"
    "handleOrderCreate st secret clk r trig w = ((rs, trig'), w')"
  shows "known w' = known w \<and> staged w' = staged w \<and> trig' = trig \<and>
    (rs = respond 200 ''status'' ''ok'' \<or> rs = respond 500 ''error'' ''internal error'')"
proof -
  obtain b where b: "req_body r = Some b"
      "VerifyHMAC (take maxBodySize b) secret (header ''X-Shopify-Hmac-Sha256'' r)"
    using assms(2) by (auto simp: authentic_def)
  obtain r1 w1 where e: "os_WebhookExists st (webhook_id r) w = (r1, w1)" by (metis prod.exhaust)
  note el = exists_law [OF e]
  have "r1 = Inr True \<or> (\<exists>e. r1 = Inl e)"
    using el assms(1) by (cases r1) simp_all
  then show ?thesis
  proof (elim disjE exE)
    assume "r1 = Inr True"
    with assms(3,4) b e el show ?thesis
      by (simp add: handleOrderCreate_def webhook_id_def Let_def)
  next
    fix x assume "r1 = Inl x"
    with assms(3,4) b e el show ?thesis
      by (simp add: handleOrderCreate_def webhook_id_def Let_def)
  qed
qed

end

section \<open>The service's store\<close>

definition known_ids :: "world \<Rightarrow> string set" where
  "known_ids w = WebhookID ` set (webhook_events (w_db w))"

definition staged_ids :: "world \<Rightarrow> int set" where
  "staged_ids w = ShopifyOrderID ` set (orders (w_db w))"

lemma WebhookExists_result:
  assumes "WebhookExists wid w = (Inr b, w')"
  shows "b = (wid \<in> known_ids w)"
proof -
  obtain c w1 where c: "db_call (\<lambda>_ d. (\<exists>e\<in>set (webhook_events d). WebhookID e = wid, d)) w = (c, w1)"
    by (rule prod.exhaust)
  with assms have "c = Inr b" by (auto simp: WebhookExists_def split: sum.splits)
  with db_read_value [OF c] have "b = (\<exists>e\<in>set (webhook_events (w_db w)). WebhookID e = wid)" by simp
  then show ?thesis unfolding known_ids_def by auto
qed

lemma create_tx_dup:
  assumes "create_tx pg t ev ord ls d w = ((Inl e, t'), w')"
  shows "(e = ErrDuplicateWebhook \<longrightarrow> WebhookID ev \<in> WebhookID ` set (webhook_events d)) \<and>
    (e = ErrDuplicateOrder \<longrightarrow> ShopifyOrderID ord \<in> ShopifyOrderID ` set (orders d))"
proof -
  obtain r1 d1 w1 where s1: "tx_call (sql_insert_event t ev) d w = ((r1, d1), w1)"
    by (metis prod.exhaust)
  obtain r2 d2 w2 where s2: "tx_call (sql_insert_order pg t ord) d1 w1 = ((r2, d2), w2)"
    by (metis prod.exhaust)
  have i: "insert_lines pg i ls t0 w0 = ((Inl e0, t1), w1') \<Longrightarrow> \<exists>m. e0 = Errorf m" for i ls t0 w0 e0 t1 w1'
    by (induction ls arbitrary: t0 w0) (auto simp: wrap_err_def split: prod.splits sum.splits)
  have d1: "r1 = Inr b \<Longrightarrow> b = fst (sql_insert_event t ev d) \<and> d1 = snd (sql_insert_event t ev d)" for b
    using tx_call_result(1) [of "sql_insert_event t ev" d w b] by (simp add: s1)
  have d2: "r2 = Inr x \<Longrightarrow> x = fst (sql_insert_order pg t ord d1)" for x
    using tx_call_result(1) [of "sql_insert_order pg t ord" d1 w1 x] by (simp add: s2)
  have f1: "\<not> fst (sql_insert_event t ev d) \<Longrightarrow> WebhookID ev \<in> WebhookID ` set (webhook_events d)"
    by (auto simp: sql_insert_event_def Let_def split: if_splits) (metis image_eqI)
  have f2: "fst (sql_insert_order pg t ord d1) = None \<Longrightarrow> ShopifyOrderID ord \<in> ShopifyOrderID ` set (orders d1)"
    by (auto simp: sql_insert_order_def Let_def split: if_splits) (metis image_eqI)
  have o1: "orders (snd (sql_insert_event t ev d)) = orders d"
    by (simp add: sql_insert_event_def Let_def)
  consider (e1) e1 where "r1 = Inl e1" | (dup) "r1 = Inr False"
    | (e2) e2 where "r1 = Inr True" "r2 = Inl e2" | (dupo) "r1 = Inr True" "r2 = Inr None"
    | (ins) oid where "r1 = Inr True" "r2 = Inr (Some oid)"
    by (metis (full_types) old.sum.exhaust option.exhaust)
  then show ?thesis
  proof cases
    case ins
    then have "\<exists>m. e = Errorf m"
      using assms by (auto simp: create_tx_def s1 s2 wrap_err_def dest: i split: if_splits prod.splits sum.splits)
    then show ?thesis by auto
  next
    case dupo
    then have "e = ErrDuplicateOrder" using assms by (simp add: create_tx_def s1 s2)
    moreover have "ShopifyOrderID ord \<in> ShopifyOrderID ` set (orders d)"
      using d1 [OF dupo(1)] d2 [OF dupo(2)] f2 o1 by simp
    ultimately show ?thesis by simp
  next
    case (e1 e1)
    then have "e = wrap_err ''inserting webhook event'' e1" using assms by (simp add: create_tx_def s1)
    then show ?thesis by (simp add: wrap_err_def)
  next
    case dup
    then have "e = ErrDuplicateWebhook" using assms by (simp add: create_tx_def s1)
    with d1 [OF dup] f1 show ?thesis by simp
  next
    case (e2 e2)
    then have "e = wrap_err ''inserting order'' e2" using assms by (simp add: create_tx_def s1 s2)
    then show ?thesis by (simp add: wrap_err_def)
  qed
qed

lemma CreateOrder_dup:
  assumes "CreateOrder pg ev ord ls w = (Inl e, w')"
  shows "(e = ErrDuplicateWebhook \<longrightarrow> WebhookID ev \<in> known_ids w) \<and>
    (e = ErrDuplicateOrder \<longrightarrow> ShopifyOrderID ord \<in> staged_ids w)"
proof -
  obtain b w0 where b: "db_call (\<lambda>t d. (t, d)) w = (b, w0)" by (metis prod.exhaust)
  have w0: "w_db w0 = w_db w" using db_call_read [of "\<lambda>t d. (t, d)" w] by (simp add: b)
  show ?thesis
  proof (cases b)
    case (Inl e')
    with assms b show ?thesis by (auto simp: CreateOrder_def wrap_err_def)
  next
    case (Inr t)
    obtain r d w1 where c: "create_tx pg t ev ord ls (w_db w0) w0 = ((r, d), w1)" by (metis prod.exhaust)
    show ?thesis
    proof (cases r)
      case (Inl e')
      with assms b Inr c create_tx_dup [of pg t ev ord ls "w_db w0" w0 e' d w1] w0 show ?thesis
        by (auto simp: CreateOrder_def known_ids_def staged_ids_def)
    next
      case r: (Inr u)
      with assms b Inr c show ?thesis
        by (auto simp: CreateOrder_def wrap_err_def split: prod.splits sum.splits)
    qed
  qed
qed

interpretation oi: order_intake "db_order_store pg" known_ids staged_ids for pg
proof unfold_locales
  fix wid w r and w' :: world
  assume "os_WebhookExists (db_order_store pg) wid w = (r, w')"
  then show "known_ids w' = known_ids w \<and> staged_ids w' = staged_ids w \<and> (\<forall>b. r = Inr b \<longrightarrow> b = (wid \<in> known_ids w))"
    using reader_db(1) [of wid w] WebhookExists_result [of wid w _ w']
    by (auto simp: db_order_store_def known_ids_def staged_ids_def)
next
  fix ev ord ls w r' and w' :: world
  assume "os_CreateOrder (db_order_store pg) ev ord ls w = (r', w')"
  then have c: "CreateOrder pg ev ord ls w = (r', w')" by (simp add: db_order_store_def)
  show "WebhookID ev \<notin> known_ids w \<and> ShopifyOrderID ord \<notin> staged_ids w \<and>
      known_ids w' = insert (WebhookID ev) (known_ids w) \<and>
      staged_ids w' = insert (ShopifyOrderID ord) (staged_ids w) \<or>
    \<not> is_ok r' \<and> known_ids w' = known_ids w \<and> staged_ids w' = staged_ids w"
    by (rule CreateOrder_cases [of ev ord w pg ls])
      (auto simp: c known_ids_def staged_ids_def created_db_rows fresh_for_def order_row_def rollback_def)
qed (use CreateOrder_dup in \<open>simp add: db_order_store_def\<close>)

lemma order_handler_steps:
  assumes "handleOrderCreate (db_order_store pg) secret clk r trig w = (res, w')"
  shows "db_steps pg (w_db w) (w_db w')"
proof -
  have e: "db_steps pg (w_db w) (w_db (snd (WebhookExists wid w)))" for wid
    by (simp add: reader_db)
  have c: "db_steps pg (w_db w) (w_db (snd (CreateOrder pg ev ord ls (snd (WebhookExists wid w)))))" for wid ev ord ls
    using CreateOrder_steps [of pg "snd (WebhookExists wid w)" ev ord ls] by (simp add: reader_db)
  show ?thesis
    using assms e [of "header ''X-Shopify-Webhook-Id'' r"] c [of _ _ _ "header ''X-Shopify-Webhook-Id'' r"]
    by (auto simp: handleOrderCreate_def db_order_store_def Let_def
        split: option.splits if_splits sum.splits prod.splits bool.splits dest!: arg_cong [where f = snd])
qed

section \<open>A delivery\<close>

definition demo_body :: string where
  \<open>demo_body = ''{"id":7,"financial_status":" Paid","line_items":[{"sku":"A1","quantity":2}]}''\<close>

definition demo_payload :: shopify_order where
  "demo_payload =
     \<lparr>p_ID = 7, p_Name = [], p_Email = [], p_CreatedAt = [], p_TotalPrice = [], p_FinancialStatus = '' Paid'',
      p_Gateway = [], p_PaymentGatewayNames = [], p_ShippingAddress = None,
      p_LineItems = [\<lparr>li_SKU = ''A1'', li_Quantity = 2, li_Price = [], li_TotalDiscount = [], li_TaxLines = []\<rparr>],
      p_ShippingLines = [], p_CancelledAt = None, p_CancelReason = []\<rparr>"

definition demo_request :: request where
  "demo_request = \<lparr>req_headers = [(''X-Shopify-Webhook-Id'', ''wh-7''),
      (''X-Shopify-Hmac-Sha256'', base64 (hmac_sha256 (bytes_of ''secret'') (bytes_of demo_body)))],
    req_body = Some demo_body\<rparr>"

lemma demo_parse: "json_parse demo_body = Some (JObj
    [(''id'', JNum ''7''), (''financial_status'', JStr '' Paid''),
     (''line_items'', JArr [JObj [(''sku'', JStr ''A1''), (''quantity'', JNum ''2'')]])])"
  by code_simp

lemma demo_unmarshal: "unmarshal (jstruct dec_order) demo_body = Some demo_payload"
  unfolding unmarshal_def demo_parse by code_simp

lemma demo_acceptable: "acceptable demo_payload"
  by code_simp

lemma demo_short: "take maxBodySize demo_body = demo_body"
  by (simp add: maxBodySize_def demo_body_def)

lemma demo_signed: "VerifyHMAC demo_body ''secret'' (header ''X-Shopify-Hmac-Sha256'' demo_request)"
proof -
  have "base64 (hmac_sha256 (bytes_of ''secret'') (bytes_of demo_body)) \<noteq> []"
    using base64_length [of "hmac_sha256 (bytes_of ''secret'') (bytes_of demo_body)"] by (auto simp: hmac_bytes)
  then show ?thesis by (simp add: VerifyHMAC_def demo_request_def header_def)
qed

lemma demo_authentic: "authentic ''secret'' demo_request"
  unfolding authentic_def
  by (rule exI [of _ demo_body]) (simp add: demo_short demo_signed, simp add: demo_request_def)

lemma demo_webhook_id: "webhook_id demo_request = ''wh-7''"
  by (simp add: webhook_id_def demo_request_def header_def)

text \<open>The signed delivery is answered 200 ok, and the tables then hold its order.\<close>

lemma demo_delivery:
  "\<exists>w'. handleOrderCreate (db_order_store plain_pg) ''secret'' now demo_request (Some False) empty_world =
    ((respond 200 ''status'' ''ok'', Some True), w')"
proof -
  have b: "req_body demo_request = Some demo_body" by (simp add: demo_request_def)
  have wid: "header ''X-Shopify-Webhook-Id'' demo_request = ''wh-7''"
    using demo_webhook_id by (simp add: webhook_id_def)
  have db: "w_dbs empty_world = []" "w_db empty_world = empty_db" by (simp_all add: empty_world_def demo_world_def)
  obtain ord ls where m: "mapOrder (now empty_world) demo_payload demo_body = (ord, ls)"
    by (metis prod.exhaust)
  have "os_WebhookExists (db_order_store plain_pg) ''wh-7'' empty_world = (Inr False, empty_world)"
    by (simp add: db_order_store_def WebhookExists_def call_simps db empty_db_def)
  then show ?thesis
    using demo_acceptable
    by (simp add: handleOrderCreate_def b demo_short demo_signed wid demo_unmarshal acceptable_def m
        db_order_store_def CreateOrder_ok db fresh_for_def empty_db_def Let_def)
qed

section \<open>Properties\<close>

text \<open>A request without a valid signature is answered 401 (400 when its body cannot be read) and
  reads and writes nothing.\<close>

theorem webhook_rejects_unsigned:
  assumes "\<not> authentic secret r"
  shows "handleOrderCreate (db_order_store pg) secret clk r trig w =
    ((if req_body r = None then respond 400 ''error'' ''failed to read body''
      else respond 401 ''error'' ''unauthorized'', trig), w)"
  by (rule oi.handle_unauthentic [OF assms])

theorem webhook_rejects_unsigned_witness:
  "fst (fst (handleOrderCreate (db_order_store plain_pg) ''secret'' now
      \<lparr>req_headers = [], req_body = Some ''{}''\<rparr> None demo_world)) = respond 401 ''error'' ''unauthorized''"
proof -
  have "\<not> authentic ''secret'' \<lparr>req_headers = [], req_body = Some ''{}''\<rparr>"
    by (simp add: authentic_def header_def VerifyHMAC_def)
  from webhook_rejects_unsigned [OF this, of plain_pg now None demo_world] show ?thesis by simp
qed



text \<open>C13: what a delivery may change. Either no webhook id and no order is added, or exactly one of each,
  and then the signature was valid, the payload decoded, the order has an id, at least one line item, a
  paid status and only valid lines, and neither the webhook nor the order was known; the stock trigger is
  signalled only with the answer 200 ok.\<close>

theorem webhook_stages_only_acceptable:
  assumes "handleOrderCreate (db_order_store pg) secret clk r trig w = ((rs, trig'), w')"
  shows "known_ids w' = known_ids w \<and> staged_ids w' = staged_ids w \<and> trig' = trig \<or>
    (\<exists>p. authentic secret r \<and> payload_of r = Some p \<and> acceptable p \<and>
       webhook_id r \<notin> known_ids w \<and> p_ID p \<notin> staged_ids w \<and>
       known_ids w' = insert (webhook_id r) (known_ids w) \<and> staged_ids w' = insert (p_ID p) (staged_ids w) \<and>
       (trig' \<noteq> trig \<longrightarrow> rs = respond 200 ''status'' ''ok''))"
  using oi.handle_cases [OF assms] by blast

theorem webhook_stages_only_acceptable_witness:
  "\<exists>w' trig'. fst (handleOrderCreate (db_order_store plain_pg) ''secret'' now demo_request (Some False) empty_world)
      = (respond 200 ''status'' ''ok'', trig') \<and> trig' \<noteq> Some False \<and>
    (\<exists>p. payload_of demo_request = Some p \<and> acceptable p \<and> p_ID p \<in> staged_ids w')"
proof -
  from demo_delivery obtain w' where d: "handleOrderCreate (db_order_store plain_pg) ''secret'' now demo_request
      (Some False) empty_world = ((respond 200 ''status'' ''ok'', Some True), w')" by blast
  from webhook_stages_only_acceptable [OF d] obtain p where
    "payload_of demo_request = Some p" "acceptable p" "p_ID p \<in> staged_ids w'" by auto
  with d show ?thesis by auto
qed

text \<open>Redelivery. After a delivery that was acknowledged with 200 ok, delivering the same webhook id
  again, whatever happened in between, adds nothing and is acknowledged (or fails with 500 when the
  existence check fails).\<close>

theorem webhook_redelivery:
  assumes "handleOrderCreate (db_order_store pg) secret clk r trig w = ((respond 200 ''status'' ''ok'', trig'), w')"
    "(db_step pg)\<^sup>*\<^sup>* (w_db w') (w_db v)" "webhook_id r' = webhook_id r" "webhook_id r \<noteq> []"
    "authentic secret r'"
    "handleOrderCreate (db_order_store pg) secret clk r' trig'' v = ((rs, trig3), v')"
  shows "known_ids v' = known_ids v \<and> staged_ids v' = staged_ids v \<and> trig3 = trig'' \<and>
    (rs = respond 200 ''status'' ''ok'' \<or> rs = respond 500 ''error'' ''internal error'')"
proof -
  have "webhook_id r \<in> known_ids w'"
    using oi.handle_cases [OF assms(1)] by (auto simp: respond_def)
  then have "webhook_id r' \<in> known_ids v"
    using db_steps_events [OF assms(2)] assms(3) by (auto simp: known_ids_def)
  from oi.handle_known [OF this assms(5) _ assms(6)] assms(3,4) show ?thesis by simp
qed

theorem webhook_redelivery_witness:
  "\<exists>w' v'. \<exists>rs :: response. \<exists>trig3. handleOrderCreate (db_order_store plain_pg) ''secret'' now demo_request (Some True) w' =
      ((rs, trig3), v') \<and> webhook_id demo_request \<in> known_ids v' \<and> staged_ids v' = staged_ids w'"
proof -
  from demo_delivery obtain w' where d: "handleOrderCreate (db_order_store plain_pg) ''secret'' now demo_request
      (Some False) empty_world = ((respond 200 ''status'' ''ok'', Some True), w')" by blast
  obtain rs trig3 v' where e: "handleOrderCreate (db_order_store plain_pg) ''secret'' now demo_request
      (Some True) w' = ((rs, trig3), v')" by (metis prod.exhaust)
  have "webhook_id demo_request \<in> known_ids w'"
    using oi.handle_cases [OF d] by (auto simp: respond_def)
  with webhook_redelivery [OF d rtranclp.rtrancl_refl refl _ demo_authentic e] e show ?thesis
    by (intro exI [of _ w'] exI [of _ v'] exI [of _ rs] exI [of _ trig3]) (simp add: demo_webhook_id)
qed

end
