(* ===== verification/CancelProps.thy ===== *)
theory CancelProps
  imports CancelGate WebhookProps
begin

text \<open>
  The cancellation gate: the classifier's table, the contract of the handler's store as the locale
  \<open>cancel_log\<close>, and its interpretation on \<open>*store.DB\<close> and \<open>EnetClient\<close>.
\<close>

section \<open>Queries never post\<close>

definition is_post :: "http_req \<Rightarrow> bool" where
  "is_post rq \<longleftrightarrow> ''XmlParameters'' \<in> fst ` set (rq_query rq)"

text \<open>The requests that post a transaction (SORTOI, ARSTPY), in order.\<close>

definition posts :: "world \<Rightarrow> http_req list" where
  "posts w = filter is_post (w_sent w)"

text \<open>
  A call that leaves the tables alone and sends only requests without a body that post no transaction.
\<close>

definition reads_only :: "world \<Rightarrow> world \<Rightarrow> bool" where
  "reads_only w w' \<longleftrightarrow> w_db w' = w_db w \<and>
     (\<exists>rqs. w_sent w' = w_sent w @ rqs \<and> (\<forall>rq\<in>set rqs. \<not> is_post rq \<and> rq_body rq = []))"

lemma reads_only_silent: "w_db w' = w_db w \<Longrightarrow> w_sent w' = w_sent w \<Longrightarrow> reads_only w w'"
  by (simp add: reads_only_def)

lemma reads_only_refl [simp]: "reads_only w w"
  by (simp add: reads_only_silent)

lemma reads_only_trans: "reads_only a b \<Longrightarrow> reads_only b c \<Longrightarrow> reads_only a c"
  unfolding reads_only_def by (elim conjE exE) (auto intro: exI [of _ "_ @ _"])

lemma reads_only_db: "reads_only w w' \<Longrightarrow> w_db w' = w_db w"
  by (simp add: reads_only_def)

lemma reads_only_posts: "reads_only w w' \<Longrightarrow> posts w' = posts w"
  by (auto simp: reads_only_def posts_def filter_empty_conv)

lemma enet_get_reads:
  "''XmlParameters'' \<notin> fst ` set ps \<Longrightarrow> reads_only w (snd (enet_get c path ps w))"
  by (simp add: reads_only_def enet_get_frame is_post_def enet_req_def)

lemma session_calls_read:
  "reads_only w (snd (logon c w))" "reads_only w (snd (logoff c guid w))"
  "reads_only w (snd (query c guid bo xml w))"
  by (simp_all add: enet_call_snd enet_get_reads logon_params_def)

lemma lock_reads: "reads_only w (lock w)" "reads_only w (unlock w)"
  by (simp_all add: reads_only_silent)

lemma with_session_reads:
  assumes "\<And>guid w. reads_only w (snd (body guid w))"
  shows "reads_only w (snd (with_session c body w))"
proof -
  obtain l w1 where l: "logon c (lock w) = (l, w1)" by (rule prod.exhaust)
  have w1: "reads_only w w1"
    using session_calls_read(1) [of "lock w" c] lock_reads(1) [of w] by (auto simp: l intro: reads_only_trans)
  show ?thesis
  proof (cases l)
    case (Inl e)
    with w1 lock_reads(2) show ?thesis by (auto simp: with_session_def l intro: reads_only_trans)
  next
    case (Inr guid)
    obtain b w2 where b: "body guid w1 = (b, w2)" by (rule prod.exhaust)
    have "reads_only w1 w2" using assms [of w1 guid] by (simp add: b)
    moreover have "reads_only w2 (unlock (snd (logoff c guid w2)))"
      using session_calls_read(2) lock_reads(2) by (rule reads_only_trans)
    ultimately show ?thesis
      using w1 by (auto simp: with_session_def l Inr b intro: reads_only_trans)
  qed
qed

lemma sorqry_loop_reads: "reads_only w (snd (sorqry_loop c guid ns m w))"
proof (induction ns arbitrary: m w)
  case (Cons n ns)
  obtain q w1 where q: "query c guid ''SORQRY'' (buildSORQRY n) w = (q, w1)" by (rule prod.exhaust)
  have "reads_only w w1" using session_calls_read(3) [of w c guid] by (metis q snd_conv)
  with Cons.IH show ?case
    by (auto simp: q intro: reads_only_trans split: sum.splits)
qed simp

lemma QueryDispatchedOrders_reads: "reads_only w (snd (QueryDispatchedOrders c ns w))"
  unfolding QueryDispatchedOrders_def
proof (rule with_session_reads)
  fix guid and w :: world
  obtain m w' where "sorqry_loop c guid ns [] w = (m, w')" by (rule prod.exhaust)
  then show "reads_only w (snd (case sorqry_loop c guid ns [] w of (m, w') \<Rightarrow> (Inr m, w')))"
    using sorqry_loop_reads [of w c guid ns "[]"] by simp
qed

section \<open>The contract of the handler\<close>

text \<open>What an entry says follows from the SYSPRO order number and status it records.\<close>

definition consistent :: "order_cancellation \<Rightarrow> bool" where
  "consistent c \<longleftrightarrow> can_Disposition c = disposition_str
     (Classify (zero_order\<lparr>SysproOrderNumber := can_SysproOrderNumber c\<rparr>) (Some (can_SysproOrderStatus c)))"

locale cancel_log =
  fixes cd :: "'w cancel_deps" and entries :: "'w \<Rightarrow> order_cancellation list"
    and quiet :: "'w \<Rightarrow> 'w \<Rightarrow> bool" and safe :: "'w \<Rightarrow> 'w \<Rightarrow> bool"
  assumes exists_law: "cd_CancellationExists cd wid w = (r, w') \<Longrightarrow> quiet w w' \<and>
      (\<forall>b. r = Inr b \<longrightarrow> b = (wid \<in> can_WebhookID ` set (entries w)))"
    and look_law: "cd_GetOrderByShopifyID cd i w = (r1, w') \<Longrightarrow> quiet w w'"
    and query_law: "cd_QueryDispatchedOrders cd ns w = (r2, w') \<Longrightarrow> quiet w w'"
    and create_law: "cd_CreateCancellation cd c w = (r3, w') \<Longrightarrow>
      can_WebhookID c \<notin> can_WebhookID ` set (entries w) \<and>
        (\<exists>c'. entries w' = entries w @ [c'] \<and> can_WebhookID c' = can_WebhookID c \<and>
          can_ShopifyOrderID c' = can_ShopifyOrderID c \<and> can_Disposition c' = can_Disposition c \<and>
          can_SysproOrderNumber c' = can_SysproOrderNumber c \<and>
          can_SysproOrderStatus c' = can_SysproOrderStatus c) \<or>
      \<not> is_ok r3 \<and> entries w' = entries w"
    and create_dup: "cd_CreateCancellation cd c w = (Inl ErrDuplicateCancellation, w') \<Longrightarrow>
      can_WebhookID c \<in> can_WebhookID ` set (entries w)"
    and quiet_entries: "quiet w w' \<Longrightarrow> entries w' = entries w"
    and quiet_trans: "quiet w w1 \<Longrightarrow> quiet w1 w2 \<Longrightarrow> quiet w w2"
    and quiet_refl: "quiet w w"
    and quiet_safe: "quiet w w' \<Longrightarrow> safe w w'"
    and create_safe: "cd_CreateCancellation cd c w = (r4, w') \<Longrightarrow> safe w w'"
    and safe_trans: "safe w w1 \<Longrightarrow> safe w1 w2 \<Longrightarrow> safe w w2"
begin

lemma classify_order_result:
  assumes "classify_order cd local w = ((disp, num, status, oid), w')"
  shows "quiet w w' \<and> consistent (cancel_record p wid body (disp, num, status, oid))"
proof -
  have none: "consistent (cancel_record p wid body (Classify ord None, SysproOrderNumber ord, [], i))" for ord i
    by (simp add: consistent_def cancel_record_def Classify_def)
  have some: "consistent (cancel_record p wid body (Classify ord (Some s), SysproOrderNumber ord, TrimSpace s, i))" for ord i s
    by (simp add: consistent_def cancel_record_def Classify_def TrimSpace_idem)
  have pre: "consistent (cancel_record p wid body (CancellablePreSYSPRO, [], [], i))" for i
    by (simp add: consistent_def cancel_record_def Classify_def)
  show ?thesis
    using assms none some pre quiet_refl query_law
    by (auto simp: classify_order_def split: option.splits if_splits prod.splits sum.splits)
qed

text \<open>The ways a delivery can end.\<close>

text \<open>The handler once the delivery is authentic, not known and readable: the lookup, the verdict, the entry.\<close>

lemma cancel_accepted_cases:
  assumes h: "cancel_handle cd secret r w = (rs, w')" and a: "authentic secret r" "webhook_id r \<noteq> []"
    and b: "req_body r = Some b" and p: "unmarshal (jstruct dec_order) (take maxBodySize b) = Some p" "p_ID p \<noteq> 0"
    and e: "cd_CancellationExists cd (webhook_id r) w = (Inr False, w1)"
  shows "entries w' = entries w \<and> rs \<noteq> respond 200 ''status'' ''classified'' \<and>
      (rs = respond 200 ''status'' ''duplicate'' \<longrightarrow> webhook_id r \<in> can_WebhookID ` set (entries w))
    \<or> (\<exists>c. webhook_id r \<notin> can_WebhookID ` set (entries w) \<and> entries w' = entries w @ [c] \<and>
        can_WebhookID c = webhook_id r \<and> can_ShopifyOrderID c = p_ID p \<and> consistent c \<and>
        (rs = respond 200 ''status'' ''classified'' \<or> rs = respond 500 ''error'' ''internal error''))"
proof -
  let ?wid = "webhook_id r"
  let ?body = "take maxBodySize b"
  have v: "VerifyHMAC ?body secret (header ''X-Shopify-Hmac-Sha256'' r)" using a(1) b by (simp add: authentic_def)
  have wid: "header ''X-Shopify-Webhook-Id'' r = ?wid" by (simp add: webhook_id_def)
  have en1: "entries w1 = entries w" using exists_law [OF e] quiet_entries by blast
  obtain look w2 where l: "cd_GetOrderByShopifyID cd (p_ID p) w1 = (look, w2)" by (rule prod.exhaust)
  have en2: "entries w2 = entries w" using look_law [OF l] quiet_entries en1 by metis
  let ?local = "case look of Inl _ \<Rightarrow> None | Inr ord \<Rightarrow> Some ord"
  obtain disp num status oid w3 where k: "classify_order cd ?local w2 = ((disp, num, status, oid), w3)"
    by (metis prod.exhaust)
  note kl = classify_order_result [OF k, of p ?wid ?body]
  have en3: "entries w3 = entries w" using kl quiet_entries en2 by metis
  let ?c = "cancel_record p ?wid ?body (disp, num, status, oid)"
  obtain r4 w4 where c: "cd_CreateCancellation cd ?c w3 = (r4, w4)" by (rule prod.exhaust)
  have rec: "can_WebhookID ?c = ?wid" "can_ShopifyOrderID ?c = p_ID p" by (simp_all add: cancel_record_def)
  have eq: "(rs, w') =
      (if (case look of Inl e \<Rightarrow> e \<noteq> ErrOrderNotFound | Inr _ \<Rightarrow> False)
       then (respond 500 ''error'' ''internal error'', w2)
       else case r4 of Inl e \<Rightarrow>
           (if e = ErrDuplicateCancellation then respond 200 ''status'' ''duplicate''
            else respond 500 ''error'' ''internal error'', w4)
       | Inr _ \<Rightarrow> (respond 200 ''status'' ''classified'', w4))"
    unfolding h [symmetric]
    using a(2) b v e p l k c by (cases look; cases r4) (auto simp: cancel_handle_def wid Let_def)
  note cl = create_law [OF c] and dup = create_dup [of ?c w3 w4]
  have app: "consistent c'" if "can_Disposition c' = can_Disposition ?c"
      "can_SysproOrderNumber c' = can_SysproOrderNumber ?c" "can_SysproOrderStatus c' = can_SysproOrderStatus ?c" for c'
    using kl that by (simp add: consistent_def)
  show ?thesis
    using cl dup c eq rec en2 en3 app by (cases r4) (auto simp: respond_def split: if_splits)
qed

lemma cancel_handle_cases:
  assumes "cancel_handle cd secret r w = (rs, w')"
  shows "entries w' = entries w \<and> rs \<noteq> respond 200 ''status'' ''classified'' \<and>
      (rs = respond 200 ''status'' ''duplicate'' \<longrightarrow> webhook_id r \<in> can_WebhookID ` set (entries w))
    \<or> (\<exists>p c. authentic secret r \<and> payload_of r = Some p \<and> p_ID p \<noteq> 0 \<and>
        webhook_id r \<notin> can_WebhookID ` set (entries w) \<and> entries w' = entries w @ [c] \<and>
        can_WebhookID c = webhook_id r \<and> can_ShopifyOrderID c = p_ID p \<and> consistent c \<and>
        (rs = respond 200 ''status'' ''classified'' \<or> rs = respond 500 ''error'' ''internal error''))"
proof (cases "authentic secret r \<and> webhook_id r \<noteq> []")
  case False
  then show ?thesis
    using assms by (cases "req_body r")
      (auto simp: cancel_handle_def authentic_def webhook_id_def Let_def respond_def split: if_splits)
next
  case True
  then obtain b where b: "req_body r = Some b"
      "VerifyHMAC (take maxBodySize b) secret (header ''X-Shopify-Hmac-Sha256'' r)"
    by (auto simp: authentic_def)
  obtain r1 w1 where e: "cd_CancellationExists cd (webhook_id r) w = (r1, w1)" by (rule prod.exhaust)
  have en1: "entries w1 = entries w" using exists_law [OF e] quiet_entries by blast
  show ?thesis
  proof (cases "r1 = Inr False \<and> (\<exists>p. unmarshal (jstruct dec_order) (take maxBodySize b) = Some p \<and> p_ID p \<noteq> 0)")
    case False
    with assms b True e exists_law [OF e] en1 show ?thesis
      by (auto simp: cancel_handle_def webhook_id_def Let_def respond_def
          split: sum.splits bool.splits option.splits if_splits)
  next
    case ok: True
    then obtain p where p: "r1 = Inr False" "unmarshal (jstruct dec_order) (take maxBodySize b) = Some p" "p_ID p \<noteq> 0"
      by blast
    have "payload_of r = Some p" using b p by (simp add: payload_of_def)
    with cancel_accepted_cases [OF assms _ _ b(1) p(2,3) e [unfolded p(1)]] True p(3) show ?thesis by blast
  qed
qed

lemma cancel_handle_safe: "safe w (snd (cancel_handle cd secret r w))"
proof -
  have refl: "safe w w" by (rule quiet_safe [OF quiet_refl])
  let ?wid = "header ''X-Shopify-Webhook-Id'' r"
  obtain r1 w1 where e: "cd_CancellationExists cd ?wid w = (r1, w1)" by (rule prod.exhaust)
  have s1: "safe w w1" using exists_law [OF e] quiet_safe by blast
  show ?thesis
  proof (cases "\<exists>p. payload_of r = Some p")
    case False
    then show ?thesis
      using refl s1 e by (auto simp: cancel_handle_def payload_of_def Let_def split: option.splits sum.splits bool.splits)
  next
    case True
    then obtain full p where p: "req_body r = Some full" "unmarshal (jstruct dec_order) (take maxBodySize full) = Some p"
      by (auto simp: payload_of_def bind_eq_Some_conv)
    obtain look w2 where l: "cd_GetOrderByShopifyID cd (p_ID p) w1 = (look, w2)" by (rule prod.exhaust)
    let ?local = "case look of Inl _ \<Rightarrow> None | Inr ord \<Rightarrow> Some ord"
    obtain disp num status oid w3 where k: "classify_order cd ?local w2 = ((disp, num, status, oid), w3)"
      by (metis prod.exhaust)
    let ?c = "cancel_record p ?wid (take maxBodySize full) (disp, num, status, oid)"
    obtain r4 w4 where c: "cd_CreateCancellation cd ?c w3 = (r4, w4)" by (rule prod.exhaust)
    have s2: "safe w w2" using s1 quiet_safe [OF look_law [OF l]] by (rule safe_trans)
    have "safe w2 w3" using classify_order_result [OF k] quiet_safe by blast
    then have s4: "safe w w4" using s2 create_safe [OF c] safe_trans by blast
    show ?thesis
      using refl s1 s2 s4 e p l k c
      by (cases look; cases r4; cases r1) (auto simp: cancel_handle_def Let_def split: bool.splits)
  qed
qed

end

section \<open>The service's implementation\<close>

text \<open>Everything but the cancellations is as it was, and nothing was posted.\<close>

definition cancel_safe :: "world \<Rightarrow> world \<Rightarrow> bool" where
  "cancel_safe w w' \<longleftrightarrow> posts w' = posts w \<and> orders (w_db w') = orders (w_db w) \<and>
     order_lines (w_db w') = order_lines (w_db w) \<and> payment_postings (w_db w') = payment_postings (w_db w)"

definition cancel_entries :: "world \<Rightarrow> order_cancellation list" where
  "cancel_entries w = order_cancellations (w_db w)"

lemma CancellationExists_result:
  assumes "CancellationExists wid w = (r, w')"
  shows "reads_only w w' \<and> (\<forall>b. r = Inr b \<longrightarrow> b = (wid \<in> can_WebhookID ` set (cancel_entries w)))"
proof -
  let ?g = "\<lambda>d. \<exists>x\<in>set (order_cancellations d). can_WebhookID x = wid"
  obtain c w1 where c: "db_call (\<lambda>_ d. (?g d, d)) w = (c, w1)"
    by (rule prod.exhaust)
  have "w_sent w1 = w_sent w" using db_call_frame(1) [of "\<lambda>_ d. (?g d, d)" w] by (simp add: c)
  then have "reads_only w w1" using db_read_value [OF c] by (simp add: reads_only_silent)
  moreover have "w' = w1" using reader_snd(2) [of wid w] assms c by simp
  moreover have "b = (wid \<in> can_WebhookID ` set (cancel_entries w))" if "r = Inr b" for b
  proof -
    have "c = Inr b" using assms c that by (cases c) (simp_all add: CancellationExists_def)
    then have "b = ?g (w_db w)" using db_read_value [OF c] by simp
    then show ?thesis unfolding cancel_entries_def by (auto intro: image_eqI [OF sym])
  qed
  ultimately show ?thesis by simp
qed

lemma GetOrder_reads: "reads_only w (snd (GetOrderByShopifyID i w))"
  by (rule reads_only_silent) (simp_all add: reader_snd db_call_frame db_call_read)

lemma CreateCancellation_cases:
  assumes "CreateCancellation pg c w = (r, w')"
  shows "posts w' = posts w \<and> orders (w_db w') = orders (w_db w) \<and> order_lines (w_db w') = order_lines (w_db w) \<and>
    payment_postings (w_db w') = payment_postings (w_db w) \<and>
    (can_WebhookID c \<notin> can_WebhookID ` set (cancel_entries w) \<and>
      (\<exists>i t. cancel_entries w' = cancel_entries w @ [c\<lparr>can_ID := i,
          can_ShopifyCancelledAt := map_option pg_time (can_ShopifyCancelledAt c),
          can_RawPayload := pg_jsonb pg (can_RawPayload c), can_CreatedAt := pg_time t\<rparr>]) \<or>
     \<not> is_ok r \<and> cancel_entries w' = cancel_entries w) \<and>
    (r = Inl ErrDuplicateCancellation \<longrightarrow> can_WebhookID c \<in> can_WebhookID ` set (cancel_entries w))"
proof -
  let ?f = "sql_insert_cancellation pg c"
  obtain x w1 where x: "db_call ?f w = (x, w1)" by (rule prod.exhaust)
  have w': "w' = w1" using assms method_snd(7) [of pg c w] by (simp add: x)
  have sent: "posts w1 = posts w" using db_call_frame(1) [of ?f w] by (simp add: posts_def x)
  have f: "orders (snd (?f t d)) = orders d \<and> order_lines (snd (?f t d)) = order_lines d \<and>
      payment_postings (snd (?f t d)) = payment_postings d \<and>
      (\<exists>i. fst (?f t d) = Inserted i \<and> can_WebhookID c \<notin> can_WebhookID ` set (order_cancellations d) \<and>
         order_cancellations (snd (?f t d)) = order_cancellations d @ [c\<lparr>can_ID := i,
          can_ShopifyCancelledAt := map_option pg_time (can_ShopifyCancelledAt c),
          can_RawPayload := pg_jsonb pg (can_RawPayload c), can_CreatedAt := pg_time t\<rparr>] \<or>
       order_cancellations (snd (?f t d)) = order_cancellations d \<and>
       (fst (?f t d) = UniqueViolation \<and> can_WebhookID c \<in> can_WebhookID ` set (order_cancellations d) \<or>
        fst (?f t d) = ForeignKeyViolation))" for t d
  proof -
    have e: "(\<exists>r\<in>set (order_cancellations d). can_WebhookID r = can_WebhookID c) \<longleftrightarrow>
        can_WebhookID c \<in> can_WebhookID ` set (order_cancellations d)"
      by (auto intro: image_eqI [OF sym])
    show ?thesis
      unfolding sql_insert_cancellation_def Let_def e by (simp split: option.splits)
  qed
  have r: "r = (case x of Inl e \<Rightarrow> Inl (wrap_err ''inserting order cancellation'' e)
      | Inr UniqueViolation \<Rightarrow> Inl ErrDuplicateCancellation
      | Inr ForeignKeyViolation \<Rightarrow> Inl (wrap_err ''inserting order cancellation'' (Errorf ''foreign key violation''))
      | Inr (Inserted i) \<Rightarrow> Inr i)"
    using assms x by (auto simp: CreateCancellation_def split: sum.splits insert_result.splits)
  show ?thesis
  proof (rule db_call_cases [of ?f w])
    fix e assume "fst (db_call ?f w) = Inl e" "w_db (snd (db_call ?f w)) = w_db w"
    with x w' r sent show ?thesis by (auto simp: cancel_entries_def wrap_err_def)
  next
    fix e t assume "fst (db_call ?f w) = Inl e" "w_db (snd (db_call ?f w)) = snd (?f t (w_db w))"
    with x w' r sent f [of t "w_db w"] show ?thesis by (auto simp: cancel_entries_def wrap_err_def)
  next
    fix t assume "fst (db_call ?f w) = Inr (fst (?f t (w_db w)))" "w_db (snd (db_call ?f w)) = snd (?f t (w_db w))"
    with x w' r sent f [of t "w_db w"] show ?thesis by (auto simp: cancel_entries_def wrap_err_def)
  qed
qed

interpretation cl: cancel_log "service_cancel_deps pg c" cancel_entries reads_only cancel_safe for pg c
proof unfold_locales
  fix ca w r3 and w' :: world
  assume "cd_CreateCancellation (service_cancel_deps pg c) ca w = (r3, w')"
  then have "CreateCancellation pg ca w = (r3, w')" by (simp add: service_cancel_deps_def)
  from CreateCancellation_cases [OF this]
  show "can_WebhookID ca \<notin> can_WebhookID ` set (cancel_entries w) \<and>
      (\<exists>c'. cancel_entries w' = cancel_entries w @ [c'] \<and> can_WebhookID c' = can_WebhookID ca \<and>
        can_ShopifyOrderID c' = can_ShopifyOrderID ca \<and> can_Disposition c' = can_Disposition ca \<and>
        can_SysproOrderNumber c' = can_SysproOrderNumber ca \<and>
        can_SysproOrderStatus c' = can_SysproOrderStatus ca) \<or>
    \<not> is_ok r3 \<and> cancel_entries w' = cancel_entries w" by auto
next
  fix ca w and w' :: world
  assume "cd_CreateCancellation (service_cancel_deps pg c) ca w = (Inl ErrDuplicateCancellation, w')"
  then have "CreateCancellation pg ca w = (Inl ErrDuplicateCancellation, w')" by (simp add: service_cancel_deps_def)
  from CreateCancellation_cases [OF this]
  show "can_WebhookID ca \<in> can_WebhookID ` set (cancel_entries w)" by auto
next
  fix i w r1 and w' :: world
  assume "cd_GetOrderByShopifyID (service_cancel_deps pg c) i w = (r1, w')"
  then show "reads_only w w'" using GetOrder_reads [of w i] by (simp add: service_cancel_deps_def)
next
  fix ns w r2 and w' :: world
  assume "cd_QueryDispatchedOrders (service_cancel_deps pg c) ns w = (r2, w')"
  then show "reads_only w w'" using QueryDispatchedOrders_reads [of w c ns] by (simp add: service_cancel_deps_def)
next
  fix ca w r4 and w' :: world
  assume "cd_CreateCancellation (service_cancel_deps pg c) ca w = (r4, w')"
  then have "CreateCancellation pg ca w = (r4, w')" by (simp add: service_cancel_deps_def)
  from CreateCancellation_cases [OF this] show "cancel_safe w w'" by (simp add: cancel_safe_def)
next
  fix w w' :: world
  assume "reads_only w w'"
  then show "cancel_entries w' = cancel_entries w" "cancel_safe w w'"
    by (simp_all add: cancel_entries_def cancel_safe_def reads_only_db reads_only_posts)
qed (auto simp: service_cancel_deps_def cancel_safe_def intro: reads_only_trans dest: CancellationExists_result)

section \<open>Properties\<close>

text \<open>The classifier, on every order and every status. An order without a SYSPRO number is cancellable
  before SYSPRO; cancellable in SYSPRO exactly on the statuses 0 to 3 (with surrounding blanks); too late
  exactly on 6, 7 and 8, 9; already cancelled exactly on the two cancelled codes; and everything else,
  no answer included, is for review: no unknown state counts as safe.\<close>

theorem Classify_table:
  "(Classify ord s = CancellablePreSYSPRO \<longleftrightarrow> SysproOrderNumber ord = [])
   \<and> (Classify ord s = CancellableInSYSPRO \<longleftrightarrow> SysproOrderNumber ord \<noteq> [] \<and>
        (\<exists>t. s = Some t \<and> TrimSpace t \<in> {''0'', ''1'', ''2'', ''3''}))
   \<and> (Classify ord s = TooLatePicked \<longleftrightarrow> SysproOrderNumber ord \<noteq> [] \<and>
        (\<exists>t. s = Some t \<and> TrimSpace t \<in> {''6'', ''7''}))
   \<and> (Classify ord s = TooLateInvoiced \<longleftrightarrow> SysproOrderNumber ord \<noteq> [] \<and>
        (\<exists>t. s = Some t \<and> TrimSpace t \<in> {''8'', ''9''}))
   \<and> (Classify ord s = AlreadyCancelled \<longleftrightarrow> SysproOrderNumber ord \<noteq> [] \<and>
        (\<exists>t. s = Some t \<and> TrimSpace t \<in> {[CHR 0x5C], ''*''}))
   \<and> (Classify ord s = ReviewAllocated \<longleftrightarrow> SysproOrderNumber ord \<noteq> [] \<and>
        (\<forall>t. s = Some t \<longrightarrow> TrimSpace t \<notin>
           {''0'', ''1'', ''2'', ''3'', ''6'', ''7'', ''8'', ''9'', [CHR 0x5C], ''*''}))"
  by (cases s) (auto simp: Classify_def Let_def)

theorem Classify_table_witness:
  "Classify (zero_order\<lparr>SysproOrderNumber := ''016020''\<rparr>) (Some ''F'') = ReviewAllocated"
proof -
  have "TrimSpace ''F'' = ''F''" by code_simp
  then show ?thesis
    using Classify_table [of "zero_order\<lparr>SysproOrderNumber := ''016020''\<rparr>" "Some ''F''"] by simp
qed

text \<open>C15: classify only. Whatever the database, SYSPRO and the request do, handling a cancellation posts no
  transaction to SYSPRO and changes no order, no line and no payment.\<close>

theorem cancel_is_classify_only:
  "posts (snd (cancel_handle (service_cancel_deps pg c) secret r w)) = posts w \<and>
   orders (w_db (snd (cancel_handle (service_cancel_deps pg c) secret r w))) = orders (w_db w) \<and>
   order_lines (w_db (snd (cancel_handle (service_cancel_deps pg c) secret r w))) = order_lines (w_db w) \<and>
   payment_postings (w_db (snd (cancel_handle (service_cancel_deps pg c) secret r w))) = payment_postings (w_db w)"
  using cl.cancel_handle_safe [of w pg c secret r] by (simp add: cancel_safe_def)

lemma demo_cancel:
  "\<exists>w'. cancel_handle (service_cancel_deps plain_pg c) ''secret'' demo_request empty_world =
    (respond 200 ''status'' ''classified'', w')"
proof -
  have b: "req_body demo_request = Some demo_body" by (simp add: demo_request_def)
  have wid: "header ''X-Shopify-Webhook-Id'' demo_request = ''wh-7''"
    using demo_webhook_id by (simp add: webhook_id_def)
  have db: "w_dbs empty_world = []" "w_db empty_world = empty_db" "order_cancellations empty_db = []"
    "orders empty_db = []"
    by (simp_all add: empty_world_def demo_world_def empty_db_def)
  have i: "p_ID demo_payload \<noteq> 0" by (simp add: demo_payload_def)
  have e: "CancellationExists wid empty_world = (Inr False, empty_world)" for wid
    by (simp add: CancellationExists_def call_simps db)
  have g: "GetOrderByShopifyID j empty_world = (Inl ErrOrderNotFound, empty_world)" for j
    by (simp add: GetOrderByShopifyID_def call_simps db)
  have c: "\<exists>i w'. CreateCancellation plain_pg (cancel_record p wid body (d, n, st, None)) empty_world = (Inr i, w')"
    for p wid body d n st
    by (simp add: CreateCancellation_def call_simps db sql_insert_cancellation_def cancel_record_def Let_def)
  show ?thesis
    using i c [of demo_payload "''wh-7''" demo_body CancellablePreSYSPRO "[]" "[]"]
    by (auto simp: cancel_handle_def b demo_short demo_signed wid demo_unmarshal service_cancel_deps_def e g
        classify_order_def)
qed

text \<open>What a delivery records. Either no entry is added, and then the answer is not 200 classified, and
  it is 200 duplicate only for a webhook id that has an entry; or exactly one entry is added, for a signed
  request with an order id and a webhook id without an entry, and its disposition is the classifier's
  verdict on the SYSPRO order number and status it records.\<close>

theorem cancel_records_verdict:
  assumes "cancel_handle (service_cancel_deps pg c) secret r w = (rs, w')"
  shows "cancel_entries w' = cancel_entries w \<and> rs \<noteq> respond 200 ''status'' ''classified'' \<and>
      (rs = respond 200 ''status'' ''duplicate'' \<longrightarrow> webhook_id r \<in> can_WebhookID ` set (cancel_entries w))
    \<or> (\<exists>p e. authentic secret r \<and> payload_of r = Some p \<and> p_ID p \<noteq> 0 \<and>
        webhook_id r \<notin> can_WebhookID ` set (cancel_entries w) \<and> cancel_entries w' = cancel_entries w @ [e] \<and>
        can_WebhookID e = webhook_id r \<and> can_ShopifyOrderID e = p_ID p \<and>
        can_Disposition e = disposition_str
          (Classify (zero_order\<lparr>SysproOrderNumber := can_SysproOrderNumber e\<rparr>) (Some (can_SysproOrderStatus e))) \<and>
        (rs = respond 200 ''status'' ''classified'' \<or> rs = respond 500 ''error'' ''internal error''))"
  using cl.cancel_handle_cases [OF assms] unfolding consistent_def .

theorem cancel_records_verdict_witness:
  "\<exists>w' e. cancel_handle (service_cancel_deps plain_pg demo_enet) ''secret'' demo_request empty_world =
      (respond 200 ''status'' ''classified'', w') \<and> cancel_entries w' = [e] \<and> can_WebhookID e = ''wh-7''"
proof -
  from demo_cancel obtain w' where d: "cancel_handle (service_cancel_deps plain_pg demo_enet) ''secret'' demo_request
      empty_world = (respond 200 ''status'' ''classified'', w')" by blast
  have "cancel_entries empty_world = []" by (simp add: cancel_entries_def empty_world_def empty_db_def)
  with cancel_records_verdict [OF d] d show ?thesis by (auto simp: demo_webhook_id)
qed

end
