(* ===== verification/FulfilProps.thy ===== *)
theory FulfilProps
  imports Fulfilment CancelProps
begin

text \<open>
  The fulfilment syncer against its three interfaces: the locale \<open>fulfil_services\<close> over the queue view
  and the list of fulfilments requested from Shopify, the syncer's lemmas, and the interpretation on
  \<open>*store.DB\<close>, \<open>EnetClient\<close> and \<open>FulfilmentClient\<close>.
\<close>

section \<open>The contract\<close>

fun q_fulfilled :: "queue_row \<Rightarrow> queue_row" where
  "q_fulfilled (s, a, n, e) = (OrderStatusFulfilled, a, n, e)"

locale fulfil_services =
  fixes fd :: "'w fulfil_deps" and view :: "'w \<Rightarrow> queue_view" and good :: "'w \<Rightarrow> bool"
    and created :: "'w \<Rightarrow> 'm list" and msg :: "fulfilment_input \<Rightarrow> 'm"
  assumes fetch_law: "good w \<Longrightarrow> fd_FetchSubmittedOrders fd w = (r, w') \<Longrightarrow>
      good w' \<and> view w' = view w \<and> created w' = created w"
    and fetch_rows: "good w \<Longrightarrow> fd_FetchSubmittedOrders fd w = (Inr ords, w') \<Longrightarrow>
      distinct (map ord_ID ords) \<and> (\<forall>ord\<in>set ords. view w (ord_ID ord) = Some (queue_row ord) \<and>
        Status ord = OrderStatusSubmitted \<and> SysproOrderNumber ord \<noteq> [])"
    and query_law: "fd_QueryDispatchedOrders fd ns w = (rq, w') \<Longrightarrow>
      good w' = good w \<and> view w' = view w \<and> created w' = created w"
    and lookup_law: "fd_GetFulfillmentOrderID fd sid w = (rl, w') \<Longrightarrow>
      good w' = good w \<and> view w' = view w \<and> created w' = created w"
    and create_law: "fd_CreateFulfillment fd i w = (rc, w') \<Longrightarrow>
      good w' = good w \<and> view w' = view w \<and> created w' = created w @ [msg i]"
    and update_law: "good w \<Longrightarrow> fd_UpdateOrderFulfilled fd oid fid w = (ru, w') \<Longrightarrow>
      good w' \<and> created w' = created w \<and>
      (view w' = v_update oid q_fulfilled (view w) \<or> \<not> is_ok ru \<and> view w' = view w)"

text \<open>
  The effect of one pass over \<open>ords\<close>: a fulfilment is requested for some of them, in order and once
  each, all reported complete by SYSPRO; only these may change, and only to fulfilled.
\<close>

definition fulfil_effect ::
  "('w \<Rightarrow> queue_view) \<Rightarrow> ('w \<Rightarrow> 'm list) \<Rightarrow> (fulfilment_input \<Rightarrow> 'm)
     \<Rightarrow> (string \<times> sorqry_result) list \<Rightarrow> order list \<Rightarrow> 'w \<Rightarrow> 'w \<Rightarrow> bool" where
  "fulfil_effect view created msg dispatched ords w w' \<longleftrightarrow>
     (\<exists>reqs. created w' = created w @ map (msg \<circ> snd) reqs \<and> subseq (map fst reqs) ords \<and>
        (\<forall>(ord, i)\<in>set reqs. \<exists>r. map_of dispatched (SysproOrderNumber ord) = Some r \<and>
           sq_OrderStatus r = ''9'' \<and> Carrier i = sq_Carrier r \<and> TrackingNumber i = sq_TrackingNumber r) \<and>
        (\<forall>j. view w' j = view w j \<or>
           j \<in> ord_ID ` fst ` set reqs \<and> view w' j = map_option q_fulfilled (view w j)))"

lemma fulfil_effect_refl:
  "created w' = created w \<Longrightarrow> view w' = view w \<Longrightarrow> fulfil_effect view created msg dispatched ords w w'"
  unfolding fulfil_effect_def by (rule exI [of _ "[]"]) simp

lemma q_fulfilled_idem: "map_option q_fulfilled (map_option q_fulfilled q) = map_option q_fulfilled q"
  by (cases q) auto

lemma fulfil_effect_skip:
  "created w1 = created w \<Longrightarrow> view w1 = view w \<Longrightarrow> fulfil_effect view created msg dispatched ords w1 w' \<Longrightarrow>
     fulfil_effect view created msg dispatched (ord # ords) w w'"
  unfolding fulfil_effect_def by (auto intro!: list_emb_Cons)

lemma fulfil_effect_step:
  assumes "created w1 = created w @ [msg i]" "\<And>j. view w1 j = view w j \<or>
      j = ord_ID ord \<and> view w1 j = map_option q_fulfilled (view w j)"
    "map_of dispatched (SysproOrderNumber ord) = Some r" "sq_OrderStatus r = ''9''"
    "Carrier i = sq_Carrier r" "TrackingNumber i = sq_TrackingNumber r"
    "fulfil_effect view created msg dispatched ords w1 w'"
  shows "fulfil_effect view created msg dispatched (ord # ords) w w'"
proof -
  from assms(7) obtain reqs where e: "created w' = created w1 @ map (msg \<circ> snd) reqs"
      "subseq (map fst reqs) ords"
      "\<forall>(ord, i)\<in>set reqs. \<exists>r. map_of dispatched (SysproOrderNumber ord) = Some r \<and>
           sq_OrderStatus r = ''9'' \<and> Carrier i = sq_Carrier r \<and> TrackingNumber i = sq_TrackingNumber r"
    and v: "\<And>j. view w' j = view w1 j \<or> j \<in> ord_ID ` fst ` set reqs \<and> view w' j = map_option q_fulfilled (view w1 j)"
    unfolding fulfil_effect_def by blast
  have "view w' j = view w j \<or>
      j \<in> ord_ID ` fst ` set ((ord, i) # reqs) \<and> view w' j = map_option q_fulfilled (view w j)" for j
    using v [of j] assms(2) [of j] q_fulfilled_idem [of "view w j"] by (elim disjE conjE) auto
  then show ?thesis
    unfolding fulfil_effect_def
    by (intro exI [of _ "(ord, i) # reqs"]) (use e assms in auto)
qed

context fulfil_services
begin

lemma fulfil_loop_effect:
  "good w \<Longrightarrow> good (snd (fulfil_loop fd dispatched ords w)) \<and>
     fulfil_effect view created msg dispatched ords w (snd (fulfil_loop fd dispatched ords w))"
proof (induction ords arbitrary: w)
  case Nil
  then show ?case by (simp add: fulfil_effect_refl)
next
  case (Cons ord ords)
  obtain b w1 where o1: "fulfil_order fd dispatched ord w = (b, w1)" by (rule prod.exhaust)
  have l: "snd (fulfil_loop fd dispatched (ord # ords) w) = snd (fulfil_loop fd dispatched ords w1)"
    by (simp add: o1 split: prod.splits)
  have skip: "good w1 \<and> created w1 = created w \<and> view w1 = view w \<Longrightarrow> ?case"
    using Cons.IH [of w1] unfolding l by (auto intro: fulfil_effect_skip)
  show ?case
  proof (cases "\<exists>r. map_of dispatched (SysproOrderNumber ord) = Some r \<and> sq_OrderStatus r = ''9''")
    case False
    with o1 Cons.prems have "w1 = w" by (auto simp: fulfil_order_def split: option.splits if_splits)
    with Cons.prems skip show ?thesis by simp
  next
    case True
    then obtain r where r: "map_of dispatched (SysproOrderNumber ord) = Some r" "sq_OrderStatus r = ''9''"
      by blast
    obtain x wa where g: "fd_GetFulfillmentOrderID fd (ShopifyOrderID ord) w = (x, wa)" by (rule prod.exhaust)
    note gl = lookup_law [OF g]
    show ?thesis
    proof (cases x)
      case (Inl e)
      with o1 r g have "w1 = wa" by (simp add: fulfil_order_def)
      with gl Cons.prems skip show ?thesis by simp
    next
      case (Inr foID)
      let ?i = "\<lparr>FulfillmentOrderID = foID, TrackingNumber = sq_TrackingNumber r, Carrier = sq_Carrier r\<rparr>"
      obtain y wb where c: "fd_CreateFulfillment fd ?i wa = (y, wb)" by (rule prod.exhaust)
      note cl = create_law [OF c]
      have step: "good w1 \<and> created w1 = created w @ [msg ?i] \<and> (\<forall>j. view w1 j = view w j \<or>
          j = ord_ID ord \<and> view w1 j = map_option q_fulfilled (view w j))"
      proof (cases y)
        case (Inl e)
        with o1 r g Inr c have "w1 = wb" by (simp add: fulfil_order_def)
        with gl cl Cons.prems show ?thesis by simp
      next
        case y: (Inr fid)
        obtain z wc where u: "fd_UpdateOrderFulfilled fd (ord_ID ord) fid wb = (z, wc)" by (rule prod.exhaust)
        have "w1 = wc" using o1 r g Inr c y u by (simp add: fulfil_order_def split: sum.splits)
        moreover have "good wb" using gl cl Cons.prems by simp
        ultimately show ?thesis
          using update_law [OF _ u] gl cl by (auto simp: v_update_def split: if_splits)
      qed
      then show ?thesis
        using Cons.IH [of w1] r unfolding l
        by (auto intro!: fulfil_effect_step [of created w1 w msg ?i view ord dispatched r])
    qed
  qed
qed

lemma processOrders_effect:
  assumes "good w"
  shows "good (snd (processOrders fd w)) \<and>
    (created (snd (processOrders fd w)) = created w \<and> view (snd (processOrders fd w)) = view w \<or>
     (\<exists>ords w1 dispatched. fd_FetchSubmittedOrders fd w = (Inr ords, w1) \<and>
        fulfil_effect view created msg dispatched ords w (snd (processOrders fd w))))"
proof -
  obtain r w1 where f: "fd_FetchSubmittedOrders fd w = (r, w1)" by (rule prod.exhaust)
  note fl = fetch_law [OF assms f]
  show ?thesis
  proof (cases r)
    case (Inl e)
    with f fl show ?thesis by (simp add: processOrders_def)
  next
    case (Inr ords)
    let ?nums = "filter (\<lambda>n. n \<noteq> []) (map SysproOrderNumber ords)"
    obtain q w2 where qd: "fd_QueryDispatchedOrders fd ?nums w1 = (q, w2)" by (rule prod.exhaust)
    note ql = query_law [OF qd]
    show ?thesis
    proof (cases "?nums = [] \<or> (\<exists>e. q = Inl e)")
      case True
      with f fl Inr qd ql show ?thesis by (auto simp: processOrders_def Let_def)
    next
      case False
      then obtain dispatched where d: "q = Inr dispatched" "?nums \<noteq> []" by (cases q) auto
      have p: "snd (processOrders fd w) = snd (fulfil_loop fd dispatched ords w2)"
        using f Inr qd d by (simp add: processOrders_def Let_def)
      have "fulfil_effect view created msg dispatched ords w (snd (fulfil_loop fd dispatched ords w2))"
        using fulfil_loop_effect [of w2 dispatched ords] fl ql by (simp add: fulfil_effect_def)
      with p f Inr fulfil_loop_effect [of w2 dispatched ords] fl ql show ?thesis by auto
    qed
  qed
qed

end

section \<open>The service's implementation\<close>

lemma graphql_frame:
  "w_db (snd (graphql c q vars w)) = w_db w"
  "w_sent (snd (graphql c q vars w)) = w_sent w @ [gql_req c q vars]"
  using http_do_frame [of "gql_req c q vars" w]
  by (auto simp: graphql_def split: prod.splits http_outcome.splits)

lemma gql_call_snd:
  "snd (GetFulfillmentOrderID c sid w) = snd (graphql c fulfillment_orders_query
     (Some (JObj [(''id'', JStr (''gid://shopify/Order/'' @ Itoa sid))])) w)"
  "snd (CreateFulfillment c i w) = snd (graphql c fulfillment_mutation (Some (fulfillment_vars i)) w)"
  by (simp_all add: GetFulfillmentOrderID_def CreateFulfillment_def split: prod.splits sum.splits)

text \<open>The fulfilments requested from Shopify: the requests whose body carries the mutation.\<close>

definition mutation_start :: string where
  \<open>mutation_start = ''{"query":"mutation fulfillmentCreate(''\<close>

definition is_fulfilment :: "http_req \<Rightarrow> bool" where
  "is_fulfilment rq \<longleftrightarrow> HasPrefix (rq_body rq) mutation_start"

definition fulfilments :: "world \<Rightarrow> http_req list" where
  "fulfilments w = filter is_fulfilment (w_sent w)"

definition body_start :: "string \<Rightarrow> string" where
  "body_start q = ''{'' @ json_quote ''query'' @ '':'' @ json_quote q"

lemma gql_body_start: "\<exists>rest. gql_body q v = body_start q @ rest"
  by (cases v) (auto simp: gql_body_def body_start_def)

lemma HasPrefix_append: "length p \<le> length s \<Longrightarrow> HasPrefix (s @ t) p = HasPrefix s p"
  by (simp add: HasPrefix_def)

lemma body_starts:
  "length mutation_start \<le> length (body_start fulfillment_orders_query)"
  "length mutation_start \<le> length (body_start fulfillment_mutation)"
  "\<not> HasPrefix (body_start fulfillment_orders_query) mutation_start"
  "HasPrefix (body_start fulfillment_mutation) mutation_start"
  by code_simp+

lemma is_fulfilment_simps [simp]:
  "\<not> is_fulfilment (gql_req c fulfillment_orders_query v)"
  "is_fulfilment (gql_req c fulfillment_mutation v)"
  "\<not> is_fulfilment (enet_req ec path ps)"
proof -
  show "\<not> is_fulfilment (gql_req c fulfillment_orders_query v)"
    using gql_body_start [of fulfillment_orders_query v] HasPrefix_append [OF body_starts(1)] body_starts(3)
    by (auto simp: is_fulfilment_def gql_req_def)
  show "is_fulfilment (gql_req c fulfillment_mutation v)"
    using gql_body_start [of fulfillment_mutation v] HasPrefix_append [OF body_starts(2)] body_starts(4)
    by (auto simp: is_fulfilment_def gql_req_def)
  show "\<not> is_fulfilment (enet_req ec path ps)"
    by (simp add: is_fulfilment_def enet_req_def HasPrefix_def mutation_start_def)
qed

lemma reads_only_fulfilments:
  assumes "reads_only w w'"
  shows "fulfilments w' = fulfilments w"
proof -
  have "\<not> is_fulfilment rq" if "rq_body rq = []" for rq
    using that by (simp add: is_fulfilment_def HasPrefix_def mutation_start_def)
  then show ?thesis
    using assms by (auto simp: reads_only_def fulfilments_def filter_empty_conv)
qed

lemma fulfilled_refines:
  "queue_of (snd (sql_fulfilled_update i fid t d)) = v_update i q_fulfilled (queue_of d)"
  unfolding sql_fulfilled_update_def
  by (rule queue_of_upd) (auto simp: keeps_order_def queue_row_def)

lemma UpdateOrderFulfilled_view:
  assumes "db_inv (w_db w)" "UpdateOrderFulfilled i fid w = (r, w')"
  shows "db_inv (w_db w') \<and> fulfilments w' = fulfilments w \<and>
    (queue_of (w_db w') = v_update i q_fulfilled (queue_of (w_db w)) \<or>
     \<not> is_ok r \<and> queue_of (w_db w') = queue_of (w_db w))"
proof -
  obtain c w1 where c: "db_call (sql_fulfilled_update i fid) w = (c, w1)" by (rule prod.exhaust)
  have "w' = w1" "\<And>e. c = Inl e \<Longrightarrow> \<not> is_ok r"
    using assms(2) c by (auto simp: UpdateOrderFulfilled_def split: sum.splits if_splits)
  moreover have "w_sent w1 = w_sent w" using db_call_frame(1) [of "sql_fulfilled_update i fid" w] by (simp add: c)
  ultimately show ?thesis
    by (cases rule: db_call_cases [of "sql_fulfilled_update i fid" w])
      (auto simp: c assms(1) sql_updates_inv fulfilled_refines fulfilments_def)
qed

lemma FetchSubmitted_rows:
  assumes "db_inv (w_db w)" "FetchSubmittedOrders w = (Inr ords, w')"
  shows "distinct (map ord_ID ords) \<and> (\<forall>ord\<in>set ords. queue_of (w_db w) (ord_ID ord) = Some (queue_row ord) \<and>
    Status ord = OrderStatusSubmitted \<and> SysproOrderNumber ord \<noteq> [])"
proof -
  obtain c w1 where c: "db_call (\<lambda>_ d. (sql_submitted d, d)) w = (c, w1)" by (rule prod.exhaust)
  with assms(2) obtain rs where rs: "c = Inr rs" "ords = map (scan_order (w_local w)) rs"
    by (auto simp: FetchSubmittedOrders_def split: sum.splits)
  with db_read_value [OF c] have q: "rs = sql_submitted (w_db w)" by simp
  have id: "ord_ID (scan_order z r) = ord_ID r" "queue_row (scan_order z r) = queue_row r"
    "Status (scan_order z r) = Status r" "SysproOrderNumber (scan_order z r) = SysproOrderNumber r" for z r
    by (simp_all add: scan_order_def queue_row_def)
  have "distinct (map ord_ID rs)"
    using db_inv_distinct(1) [OF assms(1)] unfolding q sql_submitted_def
    by (simp add: distinct_map inj_on_def)
  then have dist: "distinct (map ord_ID ords)" by (simp add: rs id comp_def)
  have "queue_of (w_db w) (ord_ID r) = Some (queue_row r)" if "r \<in> set rs" for r
  proof -
    have "row_of (w_db w) (ord_ID r) = Some r"
      using that row_of_Some [OF assms(1)] unfolding q sql_submitted_def by simp
    then show ?thesis by (simp add: queue_of_def)
  qed
  moreover have "Status r = OrderStatusSubmitted \<and> SysproOrderNumber r \<noteq> []" if "r \<in> set rs" for r
    using that unfolding q sql_submitted_def by simp
  ultimately show ?thesis using dist by (auto simp: rs id)
qed

interpretation fs: fulfil_services "service_fulfil_deps ec gc" "\<lambda>w. queue_of (w_db w)" "\<lambda>w. db_inv (w_db w)"
  fulfilments "\<lambda>i. gql_req gc fulfillment_mutation (Some (fulfillment_vars i))" for ec gc
proof unfold_locales
  fix w r and w' :: world
  assume i: "db_inv (w_db w)" and "fd_FetchSubmittedOrders (service_fulfil_deps ec gc) w = (r, w')"
  then have "w' = snd (FetchSubmittedOrders w)" by (simp add: service_fulfil_deps_def)
  with i show "db_inv (w_db w') \<and> queue_of (w_db w') = queue_of (w_db w) \<and> fulfilments w' = fulfilments w"
    by (simp add: reader_db fulfilments_def reader_snd db_call_frame db_call_read)
next
  fix w ords and w' :: world
  assume "db_inv (w_db w)" "fd_FetchSubmittedOrders (service_fulfil_deps ec gc) w = (Inr ords, w')"
  then show "distinct (map ord_ID ords) \<and> (\<forall>ord\<in>set ords. queue_of (w_db w) (ord_ID ord) = Some (queue_row ord) \<and>
      Status ord = OrderStatusSubmitted \<and> SysproOrderNumber ord \<noteq> [])"
    using FetchSubmitted_rows [of w ords w'] by (simp add: service_fulfil_deps_def)
next
  fix ns w rq and w' :: world
  assume "fd_QueryDispatchedOrders (service_fulfil_deps ec gc) ns w = (rq, w')"
  then have "reads_only w w'" using QueryDispatchedOrders_reads [of w ec ns] by (simp add: service_fulfil_deps_def)
  then show "db_inv (w_db w') = db_inv (w_db w) \<and> queue_of (w_db w') = queue_of (w_db w) \<and> fulfilments w' = fulfilments w"
    by (simp add: reads_only_db reads_only_fulfilments)
next
  fix sid w rl and w' :: world
  assume "fd_GetFulfillmentOrderID (service_fulfil_deps ec gc) sid w = (rl, w')"
  then have "w' = snd (GetFulfillmentOrderID gc sid w)" by (simp add: service_fulfil_deps_def)
  then show "db_inv (w_db w') = db_inv (w_db w) \<and> queue_of (w_db w') = queue_of (w_db w) \<and> fulfilments w' = fulfilments w"
    by (simp add: gql_call_snd graphql_frame fulfilments_def)
next
  fix i w rc and w' :: world
  assume "fd_CreateFulfillment (service_fulfil_deps ec gc) i w = (rc, w')"
  then have "w' = snd (CreateFulfillment gc i w)" by (simp add: service_fulfil_deps_def)
  then show "db_inv (w_db w') = db_inv (w_db w) \<and> queue_of (w_db w') = queue_of (w_db w) \<and>
      fulfilments w' = fulfilments w @ [gql_req gc fulfillment_mutation (Some (fulfillment_vars i))]"
    by (simp add: gql_call_snd graphql_frame fulfilments_def)
next
  fix w oid fid ru and w' :: world
  assume "db_inv (w_db w)" "fd_UpdateOrderFulfilled (service_fulfil_deps ec gc) oid fid w = (ru, w')"
  then show "db_inv (w_db w') \<and> fulfilments w' = fulfilments w \<and>
      (queue_of (w_db w') = v_update oid q_fulfilled (queue_of (w_db w)) \<or>
       \<not> is_ok ru \<and> queue_of (w_db w') = queue_of (w_db w))"
    using UpdateOrderFulfilled_view [of w oid fid ru w'] by (simp add: service_fulfil_deps_def)
qed

section \<open>Properties\<close>

text \<open>The requests of an effect belong to the fetched rows, which are submitted under a number.\<close>

lemma effect_on_submitted:
  assumes "db_inv (w_db w)" "FetchSubmittedOrders w = (Inr ords, w1)"
    and "subseq (map fst reqs) ords"
  shows "distinct (map (ord_ID \<circ> fst) reqs) \<and>
    (\<forall>(ord, i)\<in>set reqs. \<exists>a n e. queue_of (w_db w) (ord_ID ord) = Some (OrderStatusSubmitted, a, n, e) \<and> n \<noteq> [])"
proof -
  note rows = FetchSubmitted_rows [OF assms(1,2)]
  have "subseq (map (ord_ID \<circ> fst) reqs) (map ord_ID ords)"
    using subseq_map [OF assms(3), of ord_ID] by simp
  then have "distinct (map (ord_ID \<circ> fst) reqs)"
    using rows by (metis subseq_conv_nths distinct_nthsI)
  moreover have "set (map fst reqs) \<subseteq> set ords"
    using assms(3) by (metis subseq_conv_nths set_nths_subset)
  ultimately show ?thesis using rows by (fastforce simp: queue_row_def)
qed


text \<open>The run on a world without submitted orders.\<close>

definition demo_gql :: gql_client where
  "demo_gql = NewFulfilmentClient ''shop.myshopify.com'' ''token'' None"


end
