(* ===== verification/InvProps.thy ===== *)
theory InvProps
  imports Inventory FulfilProps StoreProps
begin

text \<open>
  The stock syncer against its four interfaces: the locale \<open>stock_services\<close> over the reservations and the
  quantities pushed to Shopify, the syncer's lemmas up to the event loop, the interpretation on
  \<open>EnetClient\<close>, \<open>ShopifyClient\<close> and \<open>*store.DB\<close>, and the lists of SKUs.
\<close>

section \<open>Effective quantities\<close>

lemma wrap64_id: "in_int64 i \<Longrightarrow> wrap64 i = i"
  by (simp add: wrap64_def in_int64_def)

lemma effective_nonneg: "0 \<le> effective_qty oor f r"
  by (simp add: effective_qty_def Let_def)

lemma effective_exact:
  "in_int64 (round_away q) \<Longrightarrow> in_int64 (round_away q - r) \<Longrightarrow>
     effective_qty oor (Fin q) r = max 0 (round_away q - r)"
  by (simp add: effective_qty_def wrap64_id Let_def)

definition effective_list :: "(float64 \<Rightarrow> int) \<Rightarrow> (string \<Rightarrow> int) \<Rightarrow> (string \<times> float64) list \<Rightarrow> (string \<times> int) list" where
  "effective_list oor rsv stock = map (\<lambda>(s, f). (s, effective_qty oor f (rsv s))) stock"

section \<open>The contract\<close>

definition map_qty :: "(string \<times> int) list \<Rightarrow> string \<Rightarrow> int" where
  "map_qty m s = (case map_of m s of None \<Rightarrow> 0 | Some n \<Rightarrow> n)"

locale stock_services =
  fixes sd :: "'w inv_deps" and reserved :: "'w \<Rightarrow> string \<Rightarrow> int" and pushed :: "'w \<Rightarrow> 'm list"
    and quiet :: "'w \<Rightarrow> 'w \<Rightarrow> bool" and carries :: "'m \<Rightarrow> (string \<times> int) list \<Rightarrow> bool"
    and sound :: "(string \<times> float64) list \<Rightarrow> bool"
  assumes quiet_refl: "quiet w w"
    and quiet_trans: "quiet w w' \<Longrightarrow> quiet w' w'' \<Longrightarrow> quiet w w''"
    and quiet_keeps: "quiet w w' \<Longrightarrow> reserved w' = reserved w \<and> pushed w' = pushed w"
    and list_law: "id_ListAllSKUs sd = Some l \<Longrightarrow> l w = (rl, w') \<Longrightarrow> quiet w w'"
    and query_law: "id_QueryStock sd skus wh w = (rq, w') \<Longrightarrow> quiet w w' \<and> (\<forall>m. rq = Inr m \<longrightarrow> sound m)"
    and fetch_law: "id_FetchReservedQuantities sd w = (rf, w') \<Longrightarrow>
      quiet w w' \<and> (\<forall>m. rf = Inr m \<longrightarrow> map_qty m = reserved w)"
    and set_law: "id_SetInventoryLevels sd q w = (rs, w') \<Longrightarrow> reserved w' = reserved w \<and>
      (pushed w' = pushed w \<or> (\<exists>x. pushed w' = pushed w @ [x] \<and> carries x q))"

text \<open>
  What a sync may subtract: the reservations of the store, or nothing when a read of them failed.
\<close>

definition subtracted :: "'w inv_deps \<Rightarrow> (string \<Rightarrow> int) \<Rightarrow> (string \<Rightarrow> int) \<Rightarrow> bool" where
  "subtracted sd rsv f \<longleftrightarrow> f = rsv \<or>
     f = (\<lambda>_. 0) \<and> (\<exists>w. \<not> is_ok (fst (id_FetchReservedQuantities sd w)))"

definition push_effect ::
  "(float64 \<Rightarrow> int) \<Rightarrow> 'w inv_deps \<Rightarrow> ('w \<Rightarrow> string \<Rightarrow> int) \<Rightarrow> ('w \<Rightarrow> 'm list)
     \<Rightarrow> ('m \<Rightarrow> (string \<times> int) list \<Rightarrow> bool) \<Rightarrow> (string \<times> float64) list \<Rightarrow> 'w \<Rightarrow> 'w \<Rightarrow> bool" where
  "push_effect oor sd reserved pushed carries stock w w' \<longleftrightarrow>
     (\<exists>x f. pushed w' = pushed w @ [x] \<and> stock \<noteq> [] \<and> subtracted sd (reserved w) f \<and>
        carries x (effective_list oor f stock))"

context stock_services
begin

lemma computeEffective_result:
  assumes "computeEffective oor sd stock w = (q, w')"
  shows "quiet w w' \<and> (\<exists>f. subtracted sd (reserved w) f \<and> q = effective_list oor f stock) \<and>
    (is_ok (fst (id_FetchReservedQuantities sd w)) \<longrightarrow> q = effective_list oor (reserved w) stock)"
proof -
  obtain r w1 where f: "id_FetchReservedQuantities sd w = (r, w1)" by (rule prod.exhaust)
  note fl = fetch_law [OF f]
  have q: "w' = w1" "q = effective_list oor (map_qty (case r of Inl _ \<Rightarrow> [] | Inr m \<Rightarrow> m)) stock"
    using assms f by (auto simp: computeEffective_def effective_list_def map_qty_def Let_def)
  show ?thesis
  proof (cases r)
    case (Inl e)
    then have "subtracted sd (reserved w) (map_qty (case r of Inl _ \<Rightarrow> [] | Inr m \<Rightarrow> m))"
      using f by (auto simp: subtracted_def map_qty_def intro!: exI [of _ w])
    with q fl Inl f show ?thesis by auto
  next
    case (Inr m)
    with q fl show ?thesis by (auto simp: subtracted_def)
  qed
qed

lemma push_after_compute:
  assumes "computeEffective oor sd stock w = (q, w1)" "stock \<noteq> []" "quiet w0 w"
    "w' = snd (id_SetInventoryLevels sd q w1)"
  shows "reserved w' = reserved w0 \<and>
    (pushed w' = pushed w0 \<or> push_effect oor sd reserved pushed carries stock w0 w')"
proof -
  obtain r where s: "id_SetInventoryLevels sd q w1 = (r, w')" using assms(4) by (metis surjective_pairing)
  from computeEffective_result [OF assms(1)] obtain f where c: "quiet w w1" "subtracted sd (reserved w) f"
      "q = effective_list oor f stock" by blast
  note k = quiet_keeps [OF c(1)] quiet_keeps [OF assms(3)]
  show ?thesis using set_law [OF s] c k assms(2) by (auto simp: push_effect_def)
qed

lemma resolveSKUs_quiet: "resolveSKUs sd s w = (skus, w') \<Longrightarrow> quiet w w'"
  by (auto simp: resolveSKUs_def quiet_refl dest: list_law split: option.splits prod.splits sum.splits if_splits)

lemma fullSync_effect:
  assumes "fullSync oor sd s w = (s', w')" "is_cachedStock s = [] \<or> sound (is_cachedStock s)"
  shows "(is_cachedStock s' = [] \<or> sound (is_cachedStock s')) \<and> reserved w' = reserved w \<and>
    (pushed w' = pushed w \<or> push_effect oor sd reserved pushed carries (is_cachedStock s') w w')"
proof -
  obtain skus w1 where r: "resolveSKUs sd s w = (skus, w1)" by (rule prod.exhaust)
  note rq = resolveSKUs_quiet [OF r]
  obtain qr w2 where q: "id_QueryStock sd skus (is_warehouse s) w1 = (qr, w2)" by (rule prod.exhaust)
  note ql = query_law [OF q]
  then have qq: "quiet w w2" using quiet_trans [OF rq] by blast
  show ?thesis
  proof (cases "skus = [] \<or> (\<exists>e. qr = Inl e) \<or> qr = Inr []")
    case True
    then have "(w' = w1 \<or> w' = w2) \<and> is_cachedStock s' = is_cachedStock s"
      using assms(1) r q by (auto simp: fullSync_def split: if_splits sum.splits)
    with quiet_keeps [OF rq] quiet_keeps [OF qq] assms(2) show ?thesis by auto
  next
    case False
    then obtain stock where st: "qr = Inr stock" "stock \<noteq> []" "skus \<noteq> []" by (cases qr) auto
    obtain qs w3 where c: "computeEffective oor sd stock w2 = (qs, w3)" by (rule prod.exhaust)
    have "is_cachedStock s' = stock" "w' = snd (id_SetInventoryLevels sd qs w3)"
      using assms r q st c by (auto simp: fullSync_def)
    with push_after_compute [OF c st(2) qq] ql st(1) show ?thesis by simp
  qed
qed

lemma triggeredSync_effect:
  assumes "triggeredSync oor sd s w = (s', w')"
  shows "s' = s \<and> reserved w' = reserved w \<and>
    (pushed w' = pushed w \<or> push_effect oor sd reserved pushed carries (is_cachedStock s) w w')"
proof (cases "is_cachedStock s = []")
  case True
  with assms show ?thesis by (simp add: triggeredSync_def)
next
  case False
  obtain qs w1 where c: "computeEffective oor sd (is_cachedStock s) w = (qs, w1)" by (rule prod.exhaust)
  have "s' = s" "w' = snd (id_SetInventoryLevels sd qs w1)"
    using assms c False by (auto simp: triggeredSync_def)
  with push_after_compute [OF c False quiet_refl] show ?thesis by simp
qed

lemma inv_step_effect:
  fixes oor ev
  assumes "is_cachedStock (il_syncer l) = [] \<or> sound (is_cachedStock (il_syncer l))"
  defines "l' \<equiv> inv_step oor sd ev l"
  shows "(is_cachedStock (il_syncer l') = [] \<or> sound (is_cachedStock (il_syncer l'))) \<and>
    reserved (il_world l') = reserved (il_world l) \<and>
    (pushed (il_world l') = pushed (il_world l) \<or>
     push_effect oor sd reserved pushed carries (is_cachedStock (il_syncer l')) (il_world l) (il_world l'))"
proof (cases ev)
  case TickerFired
  obtain s' w' where f: "fullSync oor sd (il_syncer l) (il_world l) = (s', w')" by (rule prod.exhaust)
  from fullSync_effect [OF f assms(1)] TickerFired f show ?thesis by (auto simp: l'_def)
next
  case Triggered
  with assms(1) show ?thesis by (simp add: l'_def)
next
  case DebounceFired
  obtain s' w' where f: "triggeredSync oor sd (il_syncer l) (il_world l) = (s', w')" by (rule prod.exhaust)
  from triggeredSync_effect [OF f] DebounceFired f assms(1) show ?thesis by (auto simp: l'_def)
qed

lemma inv_steps_effect:
  "is_cachedStock (il_syncer l) = [] \<or> sound (is_cachedStock (il_syncer l)) \<Longrightarrow>
   reserved (il_world (fold (inv_step oor sd) evs l)) = reserved (il_world l) \<and>
   (\<exists>new. pushed (il_world (fold (inv_step oor sd) evs l)) = pushed (il_world l) @ new \<and>
     length new \<le> length (filter (\<lambda>ev. ev \<noteq> Triggered) evs) \<and>
     (\<forall>x\<in>set new. \<exists>stock f. sound stock \<and> stock \<noteq> [] \<and> subtracted sd (reserved (il_world l)) f \<and>
        carries x (effective_list oor f stock)))"
proof (induction evs arbitrary: l)
  case (Cons ev evs)
  let ?l = "inv_step oor sd ev l"
  note e = inv_step_effect [OF Cons.prems, of oor ev]
  from Cons.IH [of ?l] e obtain new where
    n: "pushed (il_world (fold (inv_step oor sd) evs ?l)) = pushed (il_world ?l) @ new"
      "length new \<le> length (filter (\<lambda>ev. ev \<noteq> Triggered) evs)"
      "\<forall>x\<in>set new. \<exists>stock f. sound stock \<and> stock \<noteq> [] \<and> subtracted sd (reserved (il_world ?l)) f \<and>
        carries x (effective_list oor f stock)"
    and rsv: "reserved (il_world (fold (inv_step oor sd) evs ?l)) = reserved (il_world ?l)" by blast
  show ?case
  proof (cases "pushed (il_world ?l) = pushed (il_world l)")
    case True
    with e n rsv show ?thesis by (auto intro!: exI [of _ new])
  next
    case False
    with e obtain x f where x: "pushed (il_world ?l) = pushed (il_world l) @ [x]"
        "is_cachedStock (il_syncer ?l) \<noteq> []" "sound (is_cachedStock (il_syncer ?l))"
        "subtracted sd (reserved (il_world l)) f"
        "carries x (effective_list oor f (is_cachedStock (il_syncer ?l)))"
      by (auto simp: push_effect_def)
    have "ev \<noteq> Triggered" using False by auto
    with e n rsv x show ?thesis by (auto intro!: exI [of _ "x # new"])
  qed
qed simp

end

section \<open>The service's implementation\<close>

text \<open>The quantities pushed to Shopify: the requests whose body carries the mutation.\<close>

definition push_start :: string where
  \<open>push_start = ''{"query":"mutation inventorySetQuantities(''\<close>

definition is_push :: "http_req \<Rightarrow> bool" where
  "is_push rq \<longleftrightarrow> HasPrefix (rq_body rq) push_start"

definition stock_pushes :: "world \<Rightarrow> http_req list" where
  "stock_pushes w = filter is_push (w_sent w)"

lemma push_starts:
  "length push_start \<le> length (body_start set_mutation)"
  "HasPrefix (body_start set_mutation) push_start"
  by code_simp+

lemma brace_query: "\<not> HasPrefix (gql_body (CHR 0x7B # q) v) push_start"
proof -
  have "\<exists>rest. gql_body (CHR 0x7B # q) v = body_start (CHR 0x7B # q) @ rest" by (rule gql_body_start)
  moreover have "json_quote (CHR 0x7B # q) = CHR 0x22 # CHR 0x7B # json_quote_body q @ [CHR 0x22]"
  proof -
    have "\<not> HasPrefix (CHR 0x7B # q) [byte 0xE2, byte 0x80, byte 0xA8]"
      "\<not> HasPrefix (CHR 0x7B # q) [byte 0xE2, byte 0x80, byte 0xA9]" "esc_char (CHR 0x7B) = [CHR 0x7B]"
      by (simp_all add: HasPrefix_def esc_char_def, code_simp+)
    then show ?thesis by (simp add: json_quote_def)
  qed
  moreover have "json_quote ''query'' = CHR 0x22 # ''query'' @ [CHR 0x22]" by code_simp
  ultimately show ?thesis by (auto simp: body_start_def HasPrefix_def push_start_def)
qed

lemma is_push_simps [simp]:
  "\<not> is_push (gql_req c locations_query v)" "\<not> is_push (gql_req c (variants_query cursor) v)"
  "\<not> is_push (gql_req c (items_query ch) v)" "is_push (gql_req c set_mutation v)"
  "rq_body rq = [] \<Longrightarrow> \<not> is_push rq"
proof -
  show "\<not> is_push (gql_req c locations_query v)" "\<not> is_push (gql_req c (variants_query cursor) v)"
    "\<not> is_push (gql_req c (items_query ch) v)"
    using brace_query by (simp_all add: is_push_def gql_req_def locations_query_def variants_query_def items_query_def)
  show "is_push (gql_req c set_mutation v)"
    using gql_body_start [of set_mutation v] HasPrefix_append [OF push_starts(1)] push_starts(2)
    by (auto simp: is_push_def gql_req_def)
  show "rq_body rq = [] \<Longrightarrow> \<not> is_push rq" by (simp add: is_push_def HasPrefix_def push_start_def)
qed

text \<open>A call that touches no table and pushes no quantities.\<close>

definition no_push :: "world \<Rightarrow> world \<Rightarrow> bool" where
  "no_push w w' \<longleftrightarrow> w_db w' = w_db w \<and> stock_pushes w' = stock_pushes w"

lemma no_push_refl [simp]: "no_push w w"
  by (simp add: no_push_def)

lemma no_push_trans: "no_push a b \<Longrightarrow> no_push b c \<Longrightarrow> no_push a c"
  by (simp add: no_push_def)

lemma no_push_graphql: "graphql c q vars w = (r, w') \<Longrightarrow> \<not> is_push (gql_req c q vars) \<Longrightarrow> no_push w w'"
  using graphql_frame [of c q vars w] by (simp add: no_push_def stock_pushes_def)

lemma reads_only_no_push: "reads_only w w' \<Longrightarrow> no_push w w'"
  by (auto simp: reads_only_def no_push_def stock_pushes_def filter_empty_conv)

lemma invqry_loop_reads: "reads_only w (snd (invqry_loop c guid wh skus m w))"
proof (induction skus arbitrary: m w)
  case (Cons s skus)
  obtain r w1 where q: "query c guid ''INVQRY'' (buildINVQRY s wh) w = (r, w1)" by (rule prod.exhaust)
  have "reads_only w w1" using session_calls_read(3) [of w c guid "''INVQRY''" "buildINVQRY s wh"] q by simp
  with Cons.IH show ?case
    by (auto simp: q intro: reads_only_trans split: sum.splits option.splits)
qed simp

lemma QueryStock_reads: "reads_only w (snd (QueryStock c skus wh w))"
  unfolding QueryStock_def
proof (rule with_session_reads)
  fix guid and w :: world
  obtain m w' where "invqry_loop c guid wh skus [] w = (m, w')" by (rule prod.exhaust)
  then show "reads_only w (snd (case invqry_loop c guid wh skus [] w of (m, w') \<Rightarrow> (Inr m, w')))"
    using invqry_loop_reads [of w c guid wh skus "[]"] by simp
qed

lemma list_skus_quiet: "no_push w (snd (list_skus_loop c cursor seen w))"
proof (induction c cursor seen w rule: list_skus_loop.induct)
  case (1 c cursor seen w)
  obtain r w1 where g: "graphql c (variants_query cursor) None w = (r, w1)" by (rule prod.exhaust)
  have q: "no_push w w1" by (rule no_push_graphql [OF g]) simp
  show ?case
  proof (cases r)
    case (Inl e)
    with q g show ?thesis by (subst list_skus_loop.simps) simp
  next
    case r: (Inr d)
    show ?thesis
    proof (cases "decode_data dec_variants d")
      case None
      with q g r show ?thesis by (subst list_skus_loop.simps) simp
    next
      case (Some p)
      obtain es hn ec where p: "p = (es, hn, ec)" by (cases p) auto
      have "hn \<Longrightarrow> no_push w1 (snd (list_skus_loop c ec (seen @ dedup_skus seen es) w1))"
        using 1 [OF g [symmetric] r Some p [symmetric] refl refl] by simp
      with q g r Some p show ?thesis
        by (subst list_skus_loop.simps) (auto simp: Let_def intro: no_push_trans)
    qed
  qed
qed

lemma resolve_chunks_quiet: "resolve_chunks c chs m w = (r, w') \<Longrightarrow> no_push w w'"
proof (induction chs arbitrary: m w)
  case (Cons ch chs)
  obtain g w1 where g: "graphql c (items_query ch) None w = (g, w1)" by (rule prod.exhaust)
  have "no_push w w1" by (rule no_push_graphql [OF g]) simp
  with Cons g show ?case
    by (auto intro: no_push_trans split: sum.splits option.splits)
qed simp

lemma resolveLocation_quiet: "resolveLocation c w = (r, w') \<Longrightarrow> no_push w w'"
proof -
  assume r: "resolveLocation c w = (r, w')"
  obtain g w1 where g: "graphql (ic_gql c) locations_query None w = (g, w1)" by (rule prod.exhaust)
  have "no_push w w1" by (rule no_push_graphql [OF g]) simp
  with r g show ?thesis
    by (auto simp: resolveLocation_def Let_def split: if_splits sum.splits)
qed

lemma map_put_distinct: "distinct (map fst m) \<Longrightarrow> distinct (map fst (map_put k v m))"
  by (auto simp: map_put_def distinct_map_filter)

lemma invqry_loop_distinct:
  "distinct (map fst m) \<Longrightarrow> invqry_loop c guid wh skus m w = (m', w') \<Longrightarrow> distinct (map fst m')"
proof (induction skus arbitrary: m w)
  case (Cons s skus)
  obtain r w1 where q: "query c guid ''INVQRY'' (buildINVQRY s wh) w = (r, w1)" by (rule prod.exhaust)
  show ?case
    using Cons.prems Cons.IH [of m w1] Cons.IH [of "map_put s _ m" w1] map_put_distinct [OF Cons.prems(1), of s]
    by (auto simp: q split: sum.splits option.splits)
qed simp

lemma with_session_value:
  assumes "with_session c body w = (Inr m, w')"
  shows "\<exists>guid w1 w2. body guid w1 = (Inr m, w2)"
proof -
  obtain l w1 where l: "logon c (lock w) = (l, w1)" by (rule prod.exhaust)
  with assms obtain guid where g: "l = Inr guid" by (cases l) (auto simp: with_session_def)
  obtain r w2 where b: "body guid w1 = (r, w2)" by (rule prod.exhaust)
  with assms l g have "r = Inr m" by (simp add: with_session_def split: prod.splits)
  with b show ?thesis by blast
qed

lemma QueryStock_distinct: "QueryStock c skus wh w = (Inr m, w') \<Longrightarrow> distinct (map fst m)"
proof -
  assume "QueryStock c skus wh w = (Inr m, w')"
  then obtain guid w1 w2 where "(case invqry_loop c guid wh skus [] w1 of (m, w') \<Rightarrow> (Inr m, w')) = (Inr m :: (string \<times> float64) list res, w2)"
    unfolding QueryStock_def by (blast dest: with_session_value)
  then have "invqry_loop c guid wh skus [] w1 = (m, w2)" by (auto split: prod.splits)
  from invqry_loop_distinct [OF _ this] show ?thesis by simp
qed

definition carries :: "http_req \<Rightarrow> (string \<times> int) list \<Rightarrow> bool" where
  "carries rq q \<longleftrightarrow> (\<exists>gc m loc. push_items m loc q \<noteq> [] \<and>
     rq = gql_req gc set_mutation (Some (set_vars (push_items m loc q))))"

lemma SetInventoryLevels_effect:
  assumes "SetInventoryLevels q c w = ((r, c'), w')"
  shows "w_db w' = w_db w \<and>
    (stock_pushes w' = stock_pushes w \<or> (\<exists>x. stock_pushes w' = stock_pushes w @ [x] \<and> carries x q))"
proof -
  obtain l c1 w1 where l: "(if ic_locationID c = [] then resolveLocation c w else ((Inr (), c), w)) = ((l, c1), w1)"
    by (metis surj_pair)
  have q1: "no_push w w1" using l by (auto dest: resolveLocation_quiet split: if_splits)
  show ?thesis
  proof (cases l)
    case (Inl e)
    with assms l q1 show ?thesis by (auto simp: SetInventoryLevels_def no_push_def)
  next
    case (Inr u)
    obtain r2 c2 w2 where i: "resolveInventoryItems c1 (ic_skus c1 @ map fst q) w1 = ((r2, c2), w2)"
      by (metis surj_pair)
    have q2: "no_push w w2"
      using q1 i by (auto simp: resolveInventoryItems_def Let_def dest: resolve_chunks_quiet
          intro: no_push_trans split: prod.splits)
    let ?items = "push_items (ic_skuMap c2) (ic_locationID c2) q"
    show ?thesis
    proof (cases "?items = []")
      case True
      with assms l Inr i q2 show ?thesis by (simp add: SetInventoryLevels_def Let_def no_push_def)
    next
      case False
      obtain g w3 where g: "graphql (ic_gql c2) set_mutation (Some (set_vars ?items)) w2 = (g, w3)"
        by (rule prod.exhaust)
      have "w' = w3" using assms l Inr i False g by (auto simp: SetInventoryLevels_def Let_def split: sum.splits)
      moreover have "w_db w3 = w_db w2"
        "stock_pushes w3 = stock_pushes w2 @ [gql_req (ic_gql c2) set_mutation (Some (set_vars ?items))]"
        using graphql_frame [of "ic_gql c2" set_mutation "Some (set_vars ?items)" w2] g
        by (simp_all add: stock_pushes_def)
      ultimately show ?thesis using q2 False by (auto simp: no_push_def carries_def)
    qed
  qed
qed

lemma FetchReserved_result:
  assumes "FetchReservedQuantities w = (r, w')"
  shows "no_push w w' \<and> (\<forall>m. r = Inr m \<longrightarrow> map_qty m = reserved_qty (w_db w))"
proof -
  obtain c w1 where c: "db_call (\<lambda>_ d. (sql_reserved d, d)) w = (c, w1)" by (rule prod.exhaust)
  have "w' = w1" "\<And>m. r = Inr m \<Longrightarrow> c = Inr m"
    using assms c by (auto simp: FetchReservedQuantities_def split: sum.splits)
  moreover have "w_sent w1 = w_sent w"
    using db_call_frame(1) [of "\<lambda>_ d. (sql_reserved d, d)" w] by (simp add: c)
  ultimately show ?thesis
    using db_read_value [OF c] by (auto simp: no_push_def stock_pushes_def map_qty_def reserved_qty_def)
qed

interpretation ss: stock_services "service_inv_deps ec dynamic" "\<lambda>cw. reserved_qty (w_db (snd cw))"
  "\<lambda>cw. stock_pushes (snd cw)" "\<lambda>cw cw'. no_push (snd cw) (snd cw')" carries "\<lambda>m. distinct (map fst m)" for ec dynamic
proof unfold_locales
  fix l :: "inv_client \<times> world \<Rightarrow> string list res \<times> inv_client \<times> world" and w rl w'
  assume "id_ListAllSKUs (service_inv_deps ec dynamic) = Some l" "l w = (rl, w')"
  then show "no_push (snd w) (snd w')"
    using list_skus_quiet [of "snd w" "ic_gql (fst w)" "[]" "[]"]
    by (auto simp: service_inv_deps_def shopify_ListAllSKUs_def split: if_splits prod.splits)
next
  fix skus wh and w :: "inv_client \<times> world" and rq w'
  assume "id_QueryStock (service_inv_deps ec dynamic) skus wh w = (rq, w')"
  then show "no_push (snd w) (snd w') \<and> (\<forall>m. rq = Inr m \<longrightarrow> distinct (map fst m))"
    using reads_only_no_push [OF QueryStock_reads [of "snd w" ec skus wh]] QueryStock_distinct [of ec skus wh "snd w"]
    by (auto simp: service_inv_deps_def lift_world_def split: prod.splits)
next
  fix w :: "inv_client \<times> world" and rf w'
  assume "id_FetchReservedQuantities (service_inv_deps ec dynamic) w = (rf, w')"
  then show "no_push (snd w) (snd w') \<and> (\<forall>m. rf = Inr m \<longrightarrow> map_qty m = reserved_qty (w_db (snd w)))"
    using FetchReserved_result [of "snd w"]
    by (auto simp: service_inv_deps_def lift_world_def split: prod.splits)
next
  fix q and w :: "inv_client \<times> world" and rs w'
  assume "id_SetInventoryLevels (service_inv_deps ec dynamic) q w = (rs, w')"
  then obtain c' where "SetInventoryLevels q (fst w) (snd w) = ((rs, c'), snd w')"
    by (auto simp: service_inv_deps_def split: prod.splits)
  from SetInventoryLevels_effect [OF this] show "reserved_qty (w_db (snd w')) = reserved_qty (w_db (snd w)) \<and>
      (stock_pushes (snd w') = stock_pushes (snd w) \<or>
       (\<exists>x. stock_pushes (snd w') = stock_pushes (snd w) @ [x] \<and> carries x q))" by auto
qed (auto simp: no_push_def)

section \<open>Properties of the sync\<close>


text \<open>C20: an order that was staged lowers what the next sync pushes: when the reservations can be read,
  every SKU's quantity is the rounded SYSPRO quantity less what was reserved before and less what the new
  order holds of it, and never below zero.\<close>

theorem staged_order_lowers_stock:
  assumes "db_inv (w_db w)" "CreateOrder pg ev ord ls w = (Inr (), w1)" "Status ord = OrderStatusPending"
    "is_ok (fst (FetchReservedQuantities w1))" "(sku, Fin q) \<in> set stock" "in_int64 (round_away q)"
    "in_int64 (round_away q - reserved_qty (w_db w) sku - sku_total sku ls)"
  shows "(sku, max 0 (round_away q - reserved_qty (w_db w) sku - sku_total sku ls))
    \<in> set (fst (computeEffective oor (service_inv_deps ec dynamic) stock (c, w1)))"
proof -
  have r: "reserved_qty (w_db w1) sku = reserved_qty (w_db w) sku + sku_total sku ls"
    by (rule CreateOrder_cases [of ev ord w pg ls]) (use assms in \<open>auto simp: reserved_created\<close>)
  obtain qs cw where c: "computeEffective oor (service_inv_deps ec dynamic) stock (c, w1) = (qs, cw)"
    by (rule prod.exhaust)
  have "is_ok (fst (id_FetchReservedQuantities (service_inv_deps ec dynamic) (c, w1)))"
    using assms(4) by (cases "FetchReservedQuantities w1") (simp add: service_inv_deps_def lift_world_def)
  then have "qs = effective_list oor (reserved_qty (w_db w1)) stock"
    using ss.computeEffective_result [OF c] by simp
  moreover have "effective_qty oor (Fin q) (reserved_qty (w_db w1) sku) =
      max 0 (round_away q - reserved_qty (w_db w) sku - sku_total sku ls)"
    using assms(6,7) by (subst effective_exact) (simp_all add: r algebra_simps)
  ultimately show ?thesis
    using assms(5) by (auto simp: c effective_list_def intro!: image_eqI [where x = "(sku, Fin q)"])
qed

text \<open>Triggers coalesce. Any number of triggers before the debounce timer expires cause exactly one
  triggered sync, and an expiry without a trigger causes none.\<close>

theorem debounce_coalesces:
  "fold (inv_step oor d) (replicate (Suc k) Triggered @ [DebounceFired, DebounceFired]) l =
     (case triggeredSync oor d (il_syncer l) (il_world l) of
        (s, w) \<Rightarrow> l\<lparr>il_syncer := s, il_armed := False, il_world := w\<rparr>)"
proof -
  have "fold (inv_step oor d) (replicate (Suc n) Triggered) l = l\<lparr>il_armed := True\<rparr>" for n
    by (induction n arbitrary: l) simp_all
  then show ?thesis by (simp del: replicate_Suc split: prod.splits)
qed

section \<open>Lists of SKUs\<close>

lemma dedup_skus_clean:
  "distinct (dedup_skus seen rs) \<and> set (dedup_skus seen rs) = TrimSpace ` set rs - {[]} - set seen"
proof (induction rs arbitrary: seen)
  case (Cons r rs)
  show ?case
    using Cons.IH [of seen] Cons.IH [of "TrimSpace r # seen"] by (auto simp: Let_def)
qed simp

text \<open>The SQL Server lister returns every stock code of the table once, trimmed, without the empty
  ones, and nothing else; a failing scan returns no list.\<close>

theorem sqlserver_list_exact:
  "(\<exists>out. sqlserver_ListAllSKUs (Inr (rows, None)) = Inr out \<and> distinct out \<and>
      set out = TrimSpace ` set rows - {[]})
   \<and> \<not> is_ok (sqlserver_ListAllSKUs (Inr (rows, Some e))) \<and> \<not> is_ok (sqlserver_ListAllSKUs (Inl e))"
  using dedup_skus_clean [of "[]" rows] by (simp add: sqlserver_ListAllSKUs_def)

section \<open>Looking up inventory items\<close>

lemma chunks_of_concat: "0 < k \<Longrightarrow> concat (chunks_of k xs) = xs"
  by (induction k xs rule: chunks_of.induct) (subst chunks_of.simps, auto)

lemma chunks_of_sizes: "ch \<in> set (chunks_of k xs) \<Longrightarrow> ch \<noteq> [] \<and> length ch \<le> k"
proof (induction k xs rule: chunks_of.induct)
  case (1 k xs)
  then show ?case by (subst (asm) chunks_of.simps) (auto split: if_splits)
qed

lemma resolve_chunks_sent:
  "\<exists>n. w_sent (snd (resolve_chunks c chs m w)) = w_sent w @ map (\<lambda>ch. gql_req c (items_query ch) None) (take n chs) \<and>
     (is_ok (fst (fst (resolve_chunks c chs m w))) \<longrightarrow> length chs \<le> n)"
proof (induction chs arbitrary: m w)
  case (Cons ch chs)
  obtain g w1 where g: "graphql c (items_query ch) None w = (g, w1)" by (rule prod.exhaust)
  have s: "w_sent w1 = w_sent w @ [gql_req c (items_query ch) None]"
    using graphql_frame [of c "items_query ch" None w] g by simp
  show ?case
  proof (cases "\<exists>d es. g = Inr d \<and> decode_data dec_items d = Some es")
    case True
    then obtain d es where d: "g = Inr d" "decode_data dec_items d = Some es" by blast
    obtain n where n: "w_sent (snd (resolve_chunks c chs (fold (\<lambda>(s, i) m. map_put s i m) es m) w1)) =
        w_sent w1 @ map (\<lambda>ch. gql_req c (items_query ch) None) (take n chs)"
      "is_ok (fst (fst (resolve_chunks c chs (fold (\<lambda>(s, i) m. map_put s i m) es m) w1))) \<longrightarrow> length chs \<le> n"
      using Cons.IH by blast
    show ?thesis by (rule exI [of _ "Suc n"]) (use g d n s in simp)
  next
    case False
    then show ?thesis
      by (intro exI [of _ 1]) (use g s in \<open>auto split: sum.splits option.splits\<close>)
  qed
qed simp

text \<open>The lookup of inventory items. The SKUs that are not known yet are asked for in order, at most
  100 in a query, each in exactly one query; after a failing query no further one is sent; and nothing
  else is sent.\<close>

theorem item_lookup_chunks:
  assumes "pending = filter (\<lambda>s. map_of (ic_skuMap c) s = None) skus"
  shows "\<exists>chs n. concat chs = pending \<and> (\<forall>ch\<in>set chs. ch \<noteq> [] \<and> length ch \<le> 100) \<and>
    w_sent (snd (resolveInventoryItems c skus w)) =
      w_sent w @ map (\<lambda>ch. gql_req (ic_gql c) (items_query ch) None) (take n chs) \<and>
    (is_ok (fst (fst (resolveInventoryItems c skus w))) \<longrightarrow> length chs \<le> n)"
proof -
  let ?chs = "chunks_of chunkSize pending"
  obtain n where n: "w_sent (snd (resolve_chunks (ic_gql c) ?chs (ic_skuMap c) w)) =
      w_sent w @ map (\<lambda>ch. gql_req (ic_gql c) (items_query ch) None) (take n ?chs)"
    "is_ok (fst (fst (resolve_chunks (ic_gql c) ?chs (ic_skuMap c) w))) \<longrightarrow> length ?chs \<le> n"
    using resolve_chunks_sent by blast
  have r: "snd (resolveInventoryItems c skus w) = snd (resolve_chunks (ic_gql c) ?chs (ic_skuMap c) w)"
    "fst (fst (resolveInventoryItems c skus w)) = fst (fst (resolve_chunks (ic_gql c) ?chs (ic_skuMap c) w))"
    by (simp_all add: resolveInventoryItems_def assms split: prod.splits)
  have "concat ?chs = pending" by (simp add: chunks_of_concat chunkSize_def)
  moreover have "\<forall>ch\<in>set ?chs. ch \<noteq> [] \<and> length ch \<le> 100"
    using chunks_of_sizes [of _ chunkSize pending] by (simp add: chunkSize_def)
  ultimately show ?thesis using n unfolding r by blast
qed

section \<open>Concrete instances\<close>

definition demo_inv_client :: inv_client where
  "demo_inv_client = NewShopifyClient ''shop.myshopify.com'' ''token'' ''77'' [] None"

definition demo_loop :: "(inv_client \<times> world) inv_loop" where
  "demo_loop = \<lparr>il_syncer = \<lparr>is_warehouse = ''WEBS'', is_skus = [''CBBQ0001''], is_cachedStock = [],
     is_consecutiveFailures = 0\<rparr>, il_armed = False, il_world = (demo_inv_client, demo_world)\<rparr>"


theorem staged_order_lowers_stock_witness:
  "(''CBBQ0001'', 3) \<in> set (fst (computeEffective (\<lambda>_. 0) (service_inv_deps demo_enet True)
     [(''CBBQ0001'', Fin (9/2))] (demo_inv_client, demo_world)))"
proof -
  have r: "reserved_qty empty_db ''CBBQ0001'' = 0" by code_simp
  have t: "SKU demo_line = ''CBBQ0001''" "Quantity demo_line = 2" by (simp_all add: demo_line_def)
  have a: "round_away (9/2) = 5" by code_simp
  have f: "is_ok (fst (FetchReservedQuantities demo_world))"
    by (simp add: FetchReservedQuantities_def demo_world_def empty_world_def call_simps)
  show ?thesis
    using staged_order_lowers_stock [OF _ demo_create demo_pending f,
        of "''CBBQ0001''" "9/2" "[(''CBBQ0001'', Fin (9/2))]" "\<lambda>_. 0" demo_enet True demo_inv_client]
    by (simp add: r t a in_int64_def db_inv_empty empty_world_def)
qed

theorem item_lookup_chunks_witness:
  "\<exists>chs :: string list list. concat chs = replicate 101 ''A'' \<and> (\<forall>ch\<in>set chs. length ch \<le> 100)"
  using item_lookup_chunks [OF refl, of demo_inv_client "replicate 101 ''A''" demo_world]
  by (simp add: demo_inv_client_def NewShopifyClient_def filter_replicate) blast

end
