(* ===== verification/PaySync.thy ===== *)
theory PaySync
  imports Enet Store
begin

text \<open>
  \<open>internal/payments/syncer.go\<close>: the poller that turns pending payment postings into SYSPRO cash
  receipts. Its two Go interfaces, \<open>PaymentStore\<close> and \<open>CashReceiptPoster\<close>, are a record of operations.
\<close>

record 'w pay_deps =
  pd_FetchUnpostedPayments :: "nat \<Rightarrow> 'w \<Rightarrow> payment_posting list res \<times> 'w"
  pd_MarkPaymentPosted :: "int \<Rightarrow> string \<Rightarrow> 'w \<Rightarrow> unit res \<times> 'w"
  pd_MarkPaymentFailed :: "int \<Rightarrow> string \<Rightarrow> 'w \<Rightarrow> unit res \<times> 'w"
  pd_PostCashReceipt :: "cash_receipt \<Rightarrow> 'w \<Rightarrow> string res \<times> 'w"

record pay_syncer =
  ps_batchSize :: nat
  ps_customer :: string
  ps_bank :: string
  ps_paymentType :: string

definition NewPaySyncer :: "string \<Rightarrow> string \<Rightarrow> string \<Rightarrow> pay_syncer" where
  "NewPaySyncer customer bank paymentType =
     \<lparr>ps_batchSize = 50, ps_customer = customer, ps_bank = bank, ps_paymentType = paymentType\<rparr>"

definition receipt_of :: "pay_syncer \<Rightarrow> payment_posting \<Rightarrow> cash_receipt" where
  "receipt_of s p =
     \<lparr>cr_CustomerCode = ps_customer s, cr_Bank = ps_bank s, cr_PaymentType = ps_paymentType s,
      cr_InvoiceNumber = pay_OrderNumber p, cr_Amount = pay_GrossAmount p,
      cr_BankCharges = pay_FeeAmount p, cr_Currency = pay_Currency p,
      cr_PaymentMethod = pay_PaymentGateway p, cr_PostedAt = pay_ProcessedAt p\<rparr>"

text \<open>The body of the loop. Errors of the two updates are only logged and counted.\<close>

definition pay_one :: "'w pay_deps \<Rightarrow> pay_syncer \<Rightarrow> payment_posting \<Rightarrow> 'w \<Rightarrow> 'w" where
  "pay_one d s p w =
     (case pd_PostCashReceipt d (receipt_of s p) w of
        (Inr ref, w1) \<Rightarrow> snd (pd_MarkPaymentPosted d (pay_ID p) ref w1)
      | (Inl e, w1) \<Rightarrow> snd (pd_MarkPaymentFailed d (pay_ID p) (err_msg e) w1))"

fun pay_loop ::
  "'w pay_deps \<Rightarrow> ('w \<Rightarrow> bool \<times> 'w) \<Rightarrow> pay_syncer \<Rightarrow> payment_posting list \<Rightarrow> 'w \<Rightarrow> 'w" where
  "pay_loop d ctx s [] w = w"
| "pay_loop d ctx s (p # ps) w =
     (case ctx w of
        (True, w1) \<Rightarrow> w1
      | (False, w1) \<Rightarrow> pay_loop d ctx s ps (pay_one d s p w1))"

definition pay_cycle :: "'w pay_deps \<Rightarrow> ('w \<Rightarrow> bool \<times> 'w) \<Rightarrow> pay_syncer \<Rightarrow> 'w \<Rightarrow> 'w" where
  "pay_cycle d ctx s w =
     (case pd_FetchUnpostedPayments d (ps_batchSize s) w of
        (Inl _, w1) \<Rightarrow> w1
      | (Inr rows, w1) \<Rightarrow> pay_loop d ctx s rows w1)"

text \<open>\<open>tick\<close>: a tick that finds the mutex taken does nothing.\<close>

definition pay_tick ::
  "bool \<Rightarrow> 'w pay_deps \<Rightarrow> ('w \<Rightarrow> bool \<times> 'w) \<Rightarrow> pay_syncer \<Rightarrow> 'w \<Rightarrow> 'w" where
  "pay_tick locked d ctx s w = (if locked then w else pay_cycle d ctx s w)"

definition service_pay_deps :: "enet_client \<Rightarrow> world pay_deps" where
  "service_pay_deps c =
     \<lparr>pd_FetchUnpostedPayments = FetchUnpostedPayments, pd_MarkPaymentPosted = MarkPaymentPosted,
      pd_MarkPaymentFailed = MarkPaymentFailed, pd_PostCashReceipt = PostCashReceipt c\<rparr>"

definition run_payments :: "enet_client \<Rightarrow> pay_syncer \<Rightarrow> world \<Rightarrow> world" where
  "run_payments c s = pay_cycle (service_pay_deps c) ctx_err s"

end
