(* ===== verification/PayProps.thy ===== *)
theory PayProps
  imports PaySync CancelProps
begin

text \<open>
  The payments syncer against its two interfaces: the locale \<open>payment_book\<close> over the state of every
  payment and the receipts posted, the syncer's lemmas, the interpretation on \<open>*store.DB\<close> and
  \<open>EnetClient\<close>, and the system of payments as a step relation.
\<close>

section \<open>The view of the payments\<close>

type_synonym pay_row = "payment_status \<times> int \<times> string"
type_synonym pay_view = "int \<Rightarrow> pay_row option"

definition pay_row :: "payment_posting \<Rightarrow> pay_row" where
  "pay_row p = (pay_Status p, pay_Attempts p, pay_SysproReceiptRef p)"

definition payments_of :: "db \<Rightarrow> pay_view" where
  "payments_of d i = map_option pay_row (find (\<lambda>p. pay_ID p = i) (payment_postings d))"

fun y_posted :: "string \<Rightarrow> pay_row \<Rightarrow> pay_row" where
  "y_posted ref (s, a, r) = (PayPosted, a, ref)"

fun y_failed :: "pay_row \<Rightarrow> pay_row" where
  "y_failed (s, a, r) = (if maxPaymentAttempts \<le> a + 1 then PayDeadLetter else PayFailed, a + 1, r)"

fun y_requeue :: "pay_row \<Rightarrow> pay_row" where
  "y_requeue (s, a, r) = (if s = PayFailed \<or> s = PayDeadLetter then (PayPending, 0, r) else (s, a, r))"

definition y_update :: "int \<Rightarrow> (pay_row \<Rightarrow> pay_row) \<Rightarrow> pay_view \<Rightarrow> pay_view" where
  "y_update i f v = v(i := map_option f (v i))"

section \<open>The contract\<close>

locale payment_book =
  fixes pd :: "'w pay_deps" and ctx :: "'w \<Rightarrow> bool \<times> 'w" and view :: "'w \<Rightarrow> pay_view"
    and good :: "'w \<Rightarrow> bool" and posted :: "'w \<Rightarrow> 'm list" and carries :: "'m \<Rightarrow> cash_receipt \<Rightarrow> bool"
  assumes fetch_law: "good w \<Longrightarrow> pd_FetchUnpostedPayments pd n w = (rf, w') \<Longrightarrow>
      good w' \<and> view w' = view w \<and> posted w' = posted w \<and>
      (\<forall>ps. rf = Inr ps \<longrightarrow> length ps \<le> n \<and> distinct (map pay_ID ps) \<and>
        (\<forall>p\<in>set ps. pay_Status p = PayPending \<and> view w (pay_ID p) = Some (pay_row p)))"
    and post_law: "pd_PostCashReceipt pd cr w = (rp, w') \<Longrightarrow> good w' = good w \<and> view w' = view w \<and>
      (\<not> is_ok rp \<and> posted w' = posted w \<or> (\<exists>x. posted w' = posted w @ [x] \<and> carries x cr))"
    and posted_law: "good w \<Longrightarrow> pd_MarkPaymentPosted pd i ref w = (rm, w') \<Longrightarrow> good w' \<and> posted w' = posted w \<and>
      (view w' = y_update i (y_posted ref) (view w) \<or> \<not> is_ok rm \<and> view w' = view w)"
    and failed_law: "good w \<Longrightarrow> pd_MarkPaymentFailed pd i msg w = (rm, w') \<Longrightarrow> good w' \<and> posted w' = posted w \<and>
      (view w' = y_update i y_failed (view w) \<or> \<not> is_ok rm \<and> view w' = view w)"
    and ctx_law: "ctx w = (b, w') \<Longrightarrow> good w' = good w \<and> view w' = view w \<and> posted w' = posted w"

text \<open>
  The effect of a pass over \<open>ps\<close>: a receipt is posted for some of them, in order and once each; a payment
  becomes posted only if its receipt was among these; the others stay or count one more failure.
\<close>

definition pay_effect ::
  "('w \<Rightarrow> pay_view) \<Rightarrow> ('w \<Rightarrow> 'm list) \<Rightarrow> ('m \<Rightarrow> cash_receipt \<Rightarrow> bool) \<Rightarrow> pay_syncer
     \<Rightarrow> payment_posting list \<Rightarrow> 'w \<Rightarrow> 'w \<Rightarrow> bool" where
  "pay_effect view posted carries s ps w w' \<longleftrightarrow>
     (\<exists>sent. posted w' = posted w @ map fst sent \<and> subseq (map snd sent) ps \<and>
        (\<forall>(x, p)\<in>set sent. carries x (receipt_of s p)) \<and>
        (\<forall>j. view w' j = view w j \<or> j \<in> pay_ID ` set ps \<and>
           (view w' j = map_option y_failed (view w j) \<or>
            (\<exists>ref. view w' j = map_option (y_posted ref) (view w j) \<and> j \<in> pay_ID ` snd ` set sent))))"

lemma pay_effect_refl: "posted w' = posted w \<Longrightarrow> view w' = view w \<Longrightarrow> pay_effect view posted carries s ps w w'"
  unfolding pay_effect_def by (rule exI [of _ "[]"]) simp

text \<open>One payment, then the rest, which does not touch it again.\<close>

lemma pay_effect_step:
  assumes "pay_ID p \<notin> pay_ID ` set ps"
    "posted w1 = posted w @ map fst s1" "s1 = [] \<or> (\<exists>x. s1 = [(x, p)] \<and> carries x (receipt_of s p))"
    "\<And>j. j \<noteq> pay_ID p \<Longrightarrow> view w1 j = view w j"
    "view w1 (pay_ID p) = view w (pay_ID p) \<or> view w1 (pay_ID p) = map_option y_failed (view w (pay_ID p)) \<or>
       s1 \<noteq> [] \<and> (\<exists>ref. view w1 (pay_ID p) = map_option (y_posted ref) (view w (pay_ID p)))"
    "pay_effect view posted carries s ps w1 w'"
  shows "pay_effect view posted carries s (p # ps) w w'"
proof -
  from assms(6) obtain sent where e: "posted w' = posted w1 @ map fst sent" "subseq (map snd sent) ps"
      "\<forall>(x, p)\<in>set sent. carries x (receipt_of s p)"
    and v: "\<And>j. view w' j = view w1 j \<or> j \<in> pay_ID ` set ps \<and>
           (view w' j = map_option y_failed (view w1 j) \<or>
            (\<exists>ref. view w' j = map_option (y_posted ref) (view w1 j) \<and> j \<in> pay_ID ` snd ` set sent))"
    unfolding pay_effect_def by blast
  have sub: "subseq (map snd (s1 @ sent)) (p # ps)"
    using assms(3) e(2) by (auto intro: list_emb_Cons)
  have "view w' j = view w j \<or> j \<in> pay_ID ` set (p # ps) \<and>
           (view w' j = map_option y_failed (view w j) \<or>
            (\<exists>ref. view w' j = map_option (y_posted ref) (view w j) \<and> j \<in> pay_ID ` snd ` set (s1 @ sent)))" for j
  proof (cases "j = pay_ID p")
    case True
    then have "j \<notin> pay_ID ` set ps" using assms(1) by simp
    with v [of j] have "view w' j = view w1 j" by blast
    with True assms(3,5) show ?thesis by auto
  next
    case False
    with v [of j] assms(4) [OF False] show ?thesis by auto
  qed
  then show ?thesis
    unfolding pay_effect_def
    by (intro exI [of _ "s1 @ sent"]) (use e assms(2,3) sub in auto)
qed

context payment_book
begin

lemma pay_one_effect:
  assumes "good w" "w1 = pay_one pd s p w"
  shows "good w1 \<and> (\<exists>s1. posted w1 = posted w @ map fst s1 \<and>
      (s1 = [] \<or> (\<exists>x. s1 = [(x, p)] \<and> carries x (receipt_of s p))) \<and>
      (\<forall>j. j \<noteq> pay_ID p \<longrightarrow> view w1 j = view w j) \<and>
      (view w1 (pay_ID p) = view w (pay_ID p) \<or> view w1 (pay_ID p) = map_option y_failed (view w (pay_ID p)) \<or>
       s1 \<noteq> [] \<and> (\<exists>ref. view w1 (pay_ID p) = map_option (y_posted ref) (view w (pay_ID p)))))"
proof -
  obtain r wa where p: "pd_PostCashReceipt pd (receipt_of s p) w = (r, wa)" by (rule prod.exhaust)
  note pl = post_law [OF p]
  then obtain s1 where s1: "posted wa = posted w @ map fst s1" "is_ok r \<longrightarrow> s1 \<noteq> []"
      "s1 = [] \<or> (\<exists>x. s1 = [(x, p)] \<and> carries x (receipt_of s p))"
    by (elim conjE disjE exE) (force intro: that [of "[]"], force intro: that [of "[(_, p)]"])
  have ga: "good wa" using pl assms(1) by simp
  show ?thesis
  proof (cases r)
    case (Inl e)
    obtain u wb where m: "pd_MarkPaymentFailed pd (pay_ID p) (err_msg e) wa = (u, wb)" by (rule prod.exhaust)
    have "w1 = wb" using assms(2) p Inl m by (simp add: pay_one_def)
    with failed_law [OF ga m] pl s1 show ?thesis
      by (intro conjI exI [of _ s1]) (auto simp: y_update_def)
  next
    case (Inr ref)
    obtain u wb where m: "pd_MarkPaymentPosted pd (pay_ID p) ref wa = (u, wb)" by (rule prod.exhaust)
    have "w1 = wb" using assms(2) p Inr m by (simp add: pay_one_def)
    with posted_law [OF ga m] pl s1 Inr show ?thesis
      by (intro conjI exI [of _ s1]) (auto simp: y_update_def)
  qed
qed

lemma pay_loop_effect:
  "good w \<Longrightarrow> distinct (map pay_ID ps) \<Longrightarrow> good (pay_loop pd ctx s ps w) \<and>
     pay_effect view posted carries s ps w (pay_loop pd ctx s ps w)"
proof (induction ps arbitrary: w)
  case Nil
  then show ?case by (simp add: pay_effect_refl)
next
  case (Cons p ps)
  obtain b w0 where c: "ctx w = (b, w0)" by (rule prod.exhaust)
  note cl = ctx_law [OF c]
  show ?case
  proof (cases b)
    case True
    with c cl Cons.prems show ?thesis by (simp add: pay_effect_refl)
  next
    case False
    let ?w1 = "pay_one pd s p w0"
    have "good w0" using cl Cons.prems by simp
    from pay_one_effect [OF this refl, of s p] obtain s1 where g: "good ?w1" and e:
      "posted ?w1 = posted w0 @ map fst s1" "s1 = [] \<or> (\<exists>x. s1 = [(x, p)] \<and> carries x (receipt_of s p))"
      "\<And>j. j \<noteq> pay_ID p \<Longrightarrow> view ?w1 j = view w0 j"
      "view ?w1 (pay_ID p) = view w0 (pay_ID p) \<or> view ?w1 (pay_ID p) = map_option y_failed (view w0 (pay_ID p)) \<or>
       s1 \<noteq> [] \<and> (\<exists>ref. view ?w1 (pay_ID p) = map_option (y_posted ref) (view w0 (pay_ID p)))"
      by blast
    have "pay_ID p \<notin> pay_ID ` set ps" "distinct (map pay_ID ps)" using Cons.prems(2) by auto
    with Cons.IH [OF g] e cl c False show ?thesis
      by (auto intro!: pay_effect_step [of p ps posted ?w1 w s1 carries s view])
  qed
qed

lemma pay_cycle_effect:
  assumes "good w" "w' = pay_cycle pd ctx s w"
  shows "good w' \<and> (\<exists>ps. length ps \<le> ps_batchSize s \<and> distinct (map pay_ID ps) \<and>
    (\<forall>p\<in>set ps. pay_Status p = PayPending \<and> view w (pay_ID p) = Some (pay_row p)) \<and>
    pay_effect view posted carries s ps w w')"
proof -
  obtain r w1 where f: "pd_FetchUnpostedPayments pd (ps_batchSize s) w = (r, w1)" by (rule prod.exhaust)
  note fl = fetch_law [OF assms(1) f]
  show ?thesis
  proof (cases r)
    case (Inl e)
    with assms(2) f fl show ?thesis
      by (auto simp: pay_cycle_def intro!: exI [of _ "[]"] pay_effect_refl)
  next
    case (Inr ps)
    have w': "w' = pay_loop pd ctx s ps w1" using assms(2) f Inr by (simp add: pay_cycle_def)
    have "pay_effect view posted carries s ps w w' = pay_effect view posted carries s ps w1 w'"
      using fl by (simp add: pay_effect_def)
    with pay_loop_effect [of w1 ps s] fl Inr show ?thesis
      unfolding w' by blast
  qed
qed

end

section \<open>The service's implementation\<close>

lemma payments_of_upd:
  assumes "\<And>p. pay_ID (f p) = pay_ID p"
    "\<And>p. P p \<Longrightarrow> pay_ID p = i" "\<And>p. pay_ID p = i \<Longrightarrow> pay_row (if P p then f p else p) = g (pay_row p)"
  shows "payments_of (snd (upd_payments P f d)) = y_update i g (payments_of d)"
proof
  fix j
  have u: "find (\<lambda>p. pay_ID p = j) (update_rows P f (payment_postings d)) =
      map_option (\<lambda>p. if P p then f p else p) (find (\<lambda>p. pay_ID p = j) (payment_postings d))"
    by (rule find_update_rows) (rule assms(1))
  show "payments_of (snd (upd_payments P f d)) j = y_update i g (payments_of d) j"
  proof (cases "find (\<lambda>p. pay_ID p = j) (payment_postings d)")
    case None
    then show ?thesis by (auto simp: payments_of_def upd_payments_def u y_update_def)
  next
    case (Some p)
    then have "pay_ID p = j" by (auto dest: find_in_set)
    then show ?thesis
      using assms(2) [of p] assms(3) [of p] Some by (auto simp: payments_of_def upd_payments_def u y_update_def)
  qed
qed

lemma posted_refines: "payments_of (snd (sql_payment_posted i ref t d)) = y_update i (y_posted ref) (payments_of d)"
  unfolding sql_payment_posted_def by (rule payments_of_upd) (auto simp: pay_row_def)

lemma failed_refines: "payments_of (snd (sql_payment_failed i e t d)) = y_update i y_failed (payments_of d)"
  unfolding sql_payment_failed_def by (rule payments_of_upd) (auto simp: pay_row_def)

lemma requeue_refines: "payments_of (snd (sql_requeue_payment i t d)) = y_update i y_requeue (payments_of d)"
  unfolding sql_requeue_payment_def by (rule payments_of_upd) (auto simp: pay_row_def)

lemma insert_payment_view:
  assumes "db_inv d"
  shows "payments_of (snd (sql_insert_payment pg p t d)) = payments_of d \<or>
    payments_of d (seq_payment d + 1) = None \<and>
    payments_of (snd (sql_insert_payment pg p t d)) = (payments_of d)(seq_payment d + 1 := Some (PayPending, 0, []))"
proof -
  have n: "find (\<lambda>q. pay_ID q = seq_payment d + 1) (payment_postings d) = None"
    using assms by (fastforce simp: db_inv_defs ids_below_def find_None_iff)
  have f: "find P (xs @ [x]) = (case find P xs of None \<Rightarrow> if P x then Some x else None | Some y \<Rightarrow> Some y)"
    for P and xs :: "payment_posting list" and x
    by (induction xs) auto
  show ?thesis
    using n by (auto simp: sql_insert_payment_def Let_def payments_of_def f pay_row_def fun_eq_iff split: option.splits)
qed

lemma FetchUnposted_result:
  assumes "db_inv (w_db w)" "FetchUnpostedPayments n w = (r, w')"
  shows "w_db w' = w_db w \<and> w_sent w' = w_sent w \<and> (\<forall>ps. r = Inr ps \<longrightarrow> length ps \<le> n \<and> distinct (map pay_ID ps) \<and>
    (\<forall>p\<in>set ps. pay_Status p = PayPending \<and> payments_of (w_db w) (pay_ID p) = Some (pay_row p)))"
proof -
  obtain c w1 where c: "db_call (\<lambda>_ d. (sql_unposted n d, d)) w = (c, w1)" by (rule prod.exhaust)
  note v = db_read_value [OF c]
  have w1: "w' = w1" "\<And>ps. r = Inr ps \<Longrightarrow> c = Inr (sql_unposted n (w_db w)) \<and>
      ps = map (scan_payment (w_local w)) (sql_unposted n (w_db w))"
    using assms(2) c v by (auto simp: FetchUnpostedPayments_def split: sum.splits)
  have s: "w_sent w1 = w_sent w" using db_call_frame(1) [of "\<lambda>_ d. (sql_unposted n d, d)" w] by (simp add: c)
  have id: "pay_ID (scan_payment z p) = pay_ID p" "pay_row (scan_payment z p) = pay_row p"
    "pay_Status (scan_payment z p) = pay_Status p" for z p
    by (simp_all add: scan_payment_def pay_row_def)
  let ?q = "sql_unposted n (w_db w)"
  have d: "distinct (map pay_ID (payment_postings (w_db w)))" by (rule db_inv_distinct(6) [OF assms(1)])
  have "distinct (map pay_ID (sort_key (\<lambda>p. t_ns (pay_CreatedAt p))
      (filter (\<lambda>p. pay_Status p = PayPending) (payment_postings (w_db w)))))"
    using d by (simp add: distinct_map inj_on_def)
  then have dq: "distinct (map pay_ID ?q)" by (simp add: sql_unposted_def take_map [symmetric])
  have sub: "set ?q \<subseteq> {p \<in> set (payment_postings (w_db w)). pay_Status p = PayPending}"
    using set_take_subset [of n "sort_key (\<lambda>p. t_ns (pay_CreatedAt p))
      (filter (\<lambda>p. pay_Status p = PayPending) (payment_postings (w_db w)))"] by (auto simp: sql_unposted_def)
  have look: "payments_of (w_db w) (pay_ID p) = Some (pay_row p)" if "p \<in> set ?q" for p
    using find_unique_key [OF d, of p] sub that by (auto simp: payments_of_def)
  have len: "length ?q \<le> n" by (simp add: sql_unposted_def)
  show ?thesis
  proof (intro conjI allI impI)
    show "w_db w' = w_db w" "w_sent w' = w_sent w" using w1(1) v s by simp_all
    fix ps assume "r = Inr ps"
    then have ps: "ps = map (scan_payment (w_local w)) ?q" using w1(2) by blast
    show "length ps \<le> n" by (simp add: ps len)
    show "distinct (map pay_ID ps)" using dq by (simp add: ps id comp_def)
    show "\<forall>p\<in>set ps. pay_Status p = PayPending \<and> payments_of (w_db w) (pay_ID p) = Some (pay_row p)"
      unfolding ps using look sub by (auto simp: id)
  qed
qed

lemma MarkPaymentPosted_view:
  assumes "db_inv (w_db w)" "MarkPaymentPosted i ref w = (r, w')"
  shows "db_inv (w_db w') \<and> w_sent w' = w_sent w \<and>
    (payments_of (w_db w') = y_update i (y_posted ref) (payments_of (w_db w)) \<or>
     \<not> is_ok r \<and> payments_of (w_db w') = payments_of (w_db w))"
proof -
  obtain c w1 where c: "db_call (sql_payment_posted i ref) w = (c, w1)" by (rule prod.exhaust)
  have "w' = w1" "\<And>e. c = Inl e \<Longrightarrow> \<not> is_ok r"
    using assms(2) c by (auto simp: MarkPaymentPosted_def split: sum.splits if_splits)
  moreover have "w_sent w1 = w_sent w" using db_call_frame(1) [of "sql_payment_posted i ref" w] by (simp add: c)
  ultimately show ?thesis
    by (cases rule: db_call_cases [of "sql_payment_posted i ref" w])
      (auto simp: c assms(1) sql_updates_inv posted_refines)
qed

lemma MarkPaymentFailed_view:
  assumes "db_inv (w_db w)" "MarkPaymentFailed i msg w = (r, w')"
  shows "db_inv (w_db w') \<and> w_sent w' = w_sent w \<and>
    (payments_of (w_db w') = y_update i y_failed (payments_of (w_db w)) \<or>
     \<not> is_ok r \<and> payments_of (w_db w') = payments_of (w_db w))"
proof -
  obtain c w1 where c: "db_call (sql_payment_failed i msg) w = (c, w1)" by (rule prod.exhaust)
  have "w' = w1" "\<And>e. c = Inl e \<Longrightarrow> \<not> is_ok r"
    using assms(2) c by (auto simp: MarkPaymentFailed_def split: sum.splits if_splits)
  moreover have "w_sent w1 = w_sent w" using db_call_frame(1) [of "sql_payment_failed i msg" w] by (simp add: c)
  ultimately show ?thesis
    by (cases rule: db_call_cases [of "sql_payment_failed i msg" w])
      (auto simp: c assms(1) sql_updates_inv failed_refines)
qed

text \<open>The ARSTPY posting of a receipt as it goes over the wire.\<close>

definition is_receipt :: "http_req \<Rightarrow> cash_receipt \<Rightarrow> bool" where
  "is_receipt rq r \<longleftrightarrow> (\<exists>c guid ds. BuildARSTPYData r = Inr ds \<and>
     rq = enet_req c ''/Transaction/Post'' (transaction_params guid ''ARSTPY'' (BuildARSTPYParams False) ds))"

lemma transaction_post:
  "w_db (snd (transaction c guid bo ps ds w)) = w_db w"
  "posts (snd (transaction c guid bo ps ds w)) =
     posts w @ [enet_req c ''/Transaction/Post'' (transaction_params guid bo ps ds)]"
  by (simp_all add: enet_call_snd enet_get_frame posts_def is_post_def enet_req_def transaction_params_def)

lemma PostCashReceipt_frame:
  assumes "PostCashReceipt c r w = (rp, w')"
  shows "w_db w' = w_db w \<and>
    (\<not> is_ok rp \<and> posts w' = posts w \<or> (\<exists>x. posts w' = posts w @ [x] \<and> is_receipt x r))"
proof (cases "BuildARSTPYData r")
  case (Inl e)
  with assms show ?thesis by (auto simp: PostCashReceipt_def)
next
  case (Inr ds)
  obtain l w1 where l: "logon c (lock w) = (l, w1)" by (rule prod.exhaust)
  have "reads_only w w1"
    using session_calls_read(1) [of "lock w" c] lock_reads(1) [of w] by (auto simp: l intro: reads_only_trans)
  note w1 = reads_only_db [OF this] reads_only_posts [OF this]
  show ?thesis
  proof (cases l)
    case l2: (Inl e)
    have "reads_only w1 (unlock w1)" by (rule lock_reads)
    note u = reads_only_db [OF this] reads_only_posts [OF this]
    from assms Inr l l2 have "w' = unlock w1" "\<not> is_ok rp"
      by (auto simp: PostCashReceipt_def with_session_def)
    with u w1 show ?thesis by simp
  next
    case l2: (Inr guid)
    obtain x w2 where t: "transaction c guid ''ARSTPY'' (BuildARSTPYParams False) ds w1 = (x, w2)" by (rule prod.exhaust)
    have "reads_only w2 (unlock (snd (logoff c guid w2)))"
      using session_calls_read(2) lock_reads(2) by (rule reads_only_trans)
    note u = reads_only_db [OF this] reads_only_posts [OF this]
    from assms Inr l l2 t have "w' = unlock (snd (logoff c guid w2))"
      by (auto simp: PostCashReceipt_def with_session_def split: sum.splits)
    with u w1 transaction_post [of c guid "''ARSTPY''" "BuildARSTPYParams False" ds w1] Inr show ?thesis
      by (auto simp: t is_receipt_def)
  qed
qed

interpretation pb: payment_book "service_pay_deps c" ctx_err "\<lambda>w. payments_of (w_db w)" "\<lambda>w. db_inv (w_db w)"
  posts is_receipt for c
proof unfold_locales
  fix n w rf and w' :: world
  assume "db_inv (w_db w)" "pd_FetchUnpostedPayments (service_pay_deps c) n w = (rf, w')"
  then show "db_inv (w_db w') \<and> payments_of (w_db w') = payments_of (w_db w) \<and> posts w' = posts w \<and>
      (\<forall>ps. rf = Inr ps \<longrightarrow> length ps \<le> n \<and> distinct (map pay_ID ps) \<and>
        (\<forall>p\<in>set ps. pay_Status p = PayPending \<and> payments_of (w_db w) (pay_ID p) = Some (pay_row p)))"
    using FetchUnposted_result [of w n rf w'] by (simp add: service_pay_deps_def posts_def)
next
  fix cr w rp and w' :: world
  assume "pd_PostCashReceipt (service_pay_deps c) cr w = (rp, w')"
  then show "db_inv (w_db w') = db_inv (w_db w) \<and> payments_of (w_db w') = payments_of (w_db w) \<and>
      (\<not> is_ok rp \<and> posts w' = posts w \<or> (\<exists>x. posts w' = posts w @ [x] \<and> is_receipt x cr))"
    using PostCashReceipt_frame [of c cr w rp w'] by (simp add: service_pay_deps_def)
next
  fix i ref w rm and w' :: world
  assume "db_inv (w_db w)" "pd_MarkPaymentPosted (service_pay_deps c) i ref w = (rm, w')"
  then show "db_inv (w_db w') \<and> posts w' = posts w \<and>
      (payments_of (w_db w') = y_update i (y_posted ref) (payments_of (w_db w)) \<or>
       \<not> is_ok rm \<and> payments_of (w_db w') = payments_of (w_db w))"
    using MarkPaymentPosted_view [of w i ref rm w'] by (simp add: service_pay_deps_def posts_def)
next
  fix i msg w rm and w' :: world
  assume "db_inv (w_db w)" "pd_MarkPaymentFailed (service_pay_deps c) i msg w = (rm, w')"
  then show "db_inv (w_db w') \<and> posts w' = posts w \<and>
      (payments_of (w_db w') = y_update i y_failed (payments_of (w_db w)) \<or>
       \<not> is_ok rm \<and> payments_of (w_db w') = payments_of (w_db w))"
    using MarkPaymentFailed_view [of w i msg rm w'] by (simp add: service_pay_deps_def posts_def)
next
  fix w b and w' :: world
  assume "ctx_err w = (b, w')"
  then have "w' = snd (ctx_err w)" by simp
  then show "db_inv (w_db w') = db_inv (w_db w) \<and> payments_of (w_db w') = payments_of (w_db w) \<and> posts w' = posts w"
    by (simp add: ctx_err_frame posts_def)
qed

section \<open>The system of payments\<close>

text \<open>
  What can happen to the payments: a cycle of the syncer, a payment staged or requeued, and anything
  that leaves \<open>payment_postings\<close> alone (the other components, and time passing).
\<close>

inductive pay_step :: "pgconv \<Rightarrow> enet_client \<Rightarrow> pay_syncer \<Rightarrow> world \<Rightarrow> world \<Rightarrow> bool" for pg c s where
  cycle: "pay_step pg c s w (run_payments c s w)"
| create: "pay_step pg c s w (snd (CreatePayment pg p w))"
| requeue: "pay_step pg c s w (snd (RequeuePayment i w))"
| other: "payment_postings (w_db w') = payment_postings (w_db w) \<Longrightarrow> db_inv (w_db w') \<Longrightarrow> pay_step pg c s w w'"

lemma CreatePayment_view:
  assumes "db_inv (w_db w)" "w' = snd (CreatePayment pg p w)"
  shows "db_inv (w_db w') \<and> (payments_of (w_db w') = payments_of (w_db w) \<or>
    (\<exists>i. payments_of (w_db w) i = None \<and> payments_of (w_db w') = (payments_of (w_db w))(i := Some (PayPending, 0, []))))"
proof -
  have "w' = snd (db_call (sql_insert_payment pg p) w)"
    by (simp add: assms(2) CreatePayment_def split: prod.splits sum.splits option.splits)
  then show ?thesis
    using insert_payment_view [OF assms(1)]
    by (cases rule: db_call_cases [of "sql_insert_payment pg p" w]) (auto simp: assms(1) sql_insert_payment_inv)
qed

lemma RequeuePayment_view:
  assumes "db_inv (w_db w)" "w' = snd (RequeuePayment i w)"
  shows "db_inv (w_db w') \<and> (payments_of (w_db w') = payments_of (w_db w) \<or>
    payments_of (w_db w') = y_update i y_requeue (payments_of (w_db w)))"
proof -
  have "w' = snd (db_call (sql_requeue_payment i) w)"
    by (simp add: assms(2) RequeuePayment_def split: prod.splits sum.splits)
  then show ?thesis
    by (cases rule: db_call_cases [of "sql_requeue_payment i" w])
      (auto simp: assms(1) sql_updates_inv requeue_refines)
qed

definition pay_state_ok :: "pay_row option \<Rightarrow> bool" where
  "pay_state_ok y \<longleftrightarrow> (\<forall>st a r. y = Some (st, a, r) \<longrightarrow>
     st = PayPending \<and> a = 0 \<or> st = PayPosted \<and> a = 0 \<or> st = PayFailed \<and> a = 1)"

text \<open>How a step changes one payment.\<close>

inductive pay_change :: "pay_row option \<Rightarrow> pay_row option \<Rightarrow> bool" where
  "pay_change y y"
| "pay_change None (Some (PayPending, 0, []))"
| "pay_change (Some (PayPending, a, r)) (Some (PayPosted, a, ref))"
| "pay_change (Some (PayPending, a, r)) (Some (y_failed (PayPending, a, r)))"
| "pay_change (Some (st, a, r)) (Some (y_requeue (st, a, r)))"

inductive_cases pay_change_elims: "pay_change y y'"

lemma pay_effect_change:
  assumes "pay_effect view posted carries s ps w w'"
    "\<forall>p\<in>set ps. pay_Status p = PayPending \<and> view w (pay_ID p) = Some (pay_row p)"
  shows "pay_change (view w j) (view w' j)"
proof -
  from assms(1) have e: "view w' j = view w j \<or> j \<in> pay_ID ` set ps \<and>
      (view w' j = map_option y_failed (view w j) \<or> (\<exists>ref. view w' j = map_option (y_posted ref) (view w j)))"
    unfolding pay_effect_def by blast
  have "\<exists>a r. view w j = Some (PayPending, a, r)" if "j \<in> pay_ID ` set ps"
    using that assms(2) by (auto simp: pay_row_def)
  with e obtain a r where "view w' j = view w j \<or> view w j = Some (PayPending, a, r) \<and>
      (view w' j = Some (y_failed (PayPending, a, r)) \<or> (\<exists>ref. view w' j = Some (PayPosted, a, ref)))"
    by fastforce
  then show ?thesis by (elim disjE conjE exE) (simp_all only: pay_change.intros)
qed

lemma pay_step_change:
  assumes "pay_step pg c s w w'" "db_inv (w_db w)"
  shows "db_inv (w_db w') \<and> (\<forall>j. pay_change (payments_of (w_db w) j) (payments_of (w_db w') j))"
  using assms
proof cases
  case cycle
  from pb.pay_cycle_effect [OF assms(2) cycle [unfolded run_payments_def]] show ?thesis
    by (blast intro: pay_effect_change [where view = "\<lambda>w. payments_of (w_db w)"])
next
  case (create p)
  from CreatePayment_view [OF assms(2) create] show ?thesis by (auto intro: pay_change.intros)
next
  case (requeue i)
  from RequeuePayment_view [OF assms(2) requeue] have d: "db_inv (w_db w')"
    "payments_of (w_db w') = payments_of (w_db w) \<or> payments_of (w_db w') = y_update i y_requeue (payments_of (w_db w))"
    by auto
  have "pay_change y (map_option y_requeue y)" for y
    by (cases y) (auto intro: pay_change.intros simp del: y_requeue.simps)
  with d show ?thesis by (auto simp: y_update_def intro: pay_change.intros)
next
  case other
  then show ?thesis by (simp add: payments_of_def pay_change.intros)
qed

lemma pay_steps_inv:
  assumes "(pay_step pg c s)\<^sup>*\<^sup>* w w'" "db_inv (w_db w)" "\<forall>j. pay_state_ok (payments_of (w_db w) j)"
  shows "db_inv (w_db w') \<and> (\<forall>j. pay_state_ok (payments_of (w_db w') j))"
  using assms(1)
proof (induction rule: rtranclp_induct)
  case base
  from assms(2,3) show ?case by blast
next
  case (step u v)
  have k: "pay_state_ok y \<Longrightarrow> pay_change y y' \<Longrightarrow> pay_state_ok y'" for y y'
    by (auto simp: pay_state_ok_def maxPaymentAttempts_def elim!: pay_change_elims split: if_splits)
  from pay_step_change [OF step.hyps(2)] step.IH k show ?case by blast
qed

lemma pay_steps_posted:
  assumes "(pay_step pg c s)\<^sup>*\<^sup>* w w'" "db_inv (w_db w)" "payments_of (w_db w) j = Some (PayPosted, a, ref)"
  shows "db_inv (w_db w') \<and> payments_of (w_db w') j = Some (PayPosted, a, ref)"
  using assms(1)
proof (induction rule: rtranclp_induct)
  case (step u v)
  from pay_step_change [OF step.hyps(2)] step.IH have "db_inv (w_db v)"
    "pay_change (Some (PayPosted, a, ref)) (payments_of (w_db v) j)" by metis+
  then show ?case by (auto elim!: pay_change_elims)
qed (use assms in simp)

section \<open>Properties of payments\<close>


text \<open>C27: a payment that was recorded as posted stays posted with its SYSPRO reference, whatever sequence of
  cycles, staged payments and requeueing follows. (A cycle posts only pending payments, so its receipt is
  not sent again.)\<close>

theorem posted_is_final:
  assumes "(pay_step pg c s)\<^sup>*\<^sup>* w w'" "db_inv (w_db w)" "payments_of (w_db w) j = Some (PayPosted, a, ref)"
  shows "payments_of (w_db w') j = Some (PayPosted, a, ref)"
  using pay_steps_posted [OF assms] by blast

text \<open>The states a payment reaches. From the empty database a payment is pending or posted with no
  failed attempt counted, or failed with exactly one: the dead-letter state that \<open>MarkPaymentFailed\<close>
  promises after three attempts is never reached, because only pending payments are tried and requeueing
  sets the count back to zero.\<close>

theorem payments_never_dead_letter:
  assumes "w_db w0 = empty_db" "(pay_step pg c s)\<^sup>*\<^sup>* w0 w" "payments_of (w_db w) j = Some (st, a, ref)"
  shows "st = PayPending \<and> a = 0 \<or> st = PayPosted \<and> a = 0 \<or> st = PayFailed \<and> a = 1"
proof -
  have "\<forall>j. pay_state_ok (payments_of (w_db w0) j)"
    by (simp add: assms(1) pay_state_ok_def payments_of_def empty_db_def)
  from pay_steps_inv [OF assms(2) _ this] assms(1,3) show ?thesis
    by (auto simp: pay_state_ok_def db_inv_empty)
qed

section \<open>Concrete instances\<close>

definition demo_payment :: payment_posting where
  "demo_payment = \<lparr>pay_ID = 0, pay_ShopifyOrderID = 1001, pay_ShopifyTransactionID = 9001,
     pay_OrderNumber = ''#BBQ1001'', pay_CustomerEmail = [], pay_GrossAmount = Fin 20, pay_FeeAmount = Fin 1,
     pay_NetAmount = Fin 19, pay_Currency = ''GBP'', pay_PaymentGateway = ''paypal'', pay_ProcessedAt = now empty_world,
     pay_Status = PayPending, pay_PostedAt = None, pay_SysproReceiptRef = [], pay_LastError = [], pay_Attempts = 0,
     pay_CreatedAt = zero_time, pay_UpdatedAt = zero_time\<rparr>"

definition demo_syncer :: pay_syncer where
  "demo_syncer = NewPaySyncer ''WEBS01'' ''BANK1'' ''01''"

definition pay_world :: world where
  "pay_world = snd (CreatePayment plain_pg demo_payment empty_world)"

definition posted_world :: world where
  "posted_world = snd (MarkPaymentPosted 1 ''J1'' pay_world)"

lemma pay_world_db: "w_db pay_world = snd (sql_insert_payment plain_pg demo_payment (UTC (now empty_world)) empty_db)"
  "w_dbs pay_world = []"
  by (simp_all add: pay_world_def CreatePayment_def empty_world_def db_call_ok split: option.splits)

lemma pay_world_inv: "db_inv (w_db pay_world)"
  by (simp add: pay_world_db sql_insert_payment_inv db_inv_empty)

lemma pay_world_row: "payments_of (w_db pay_world) 1 = Some (PayPending, 0, [])"
  by (simp add: pay_world_db sql_insert_payment_def empty_db_def payments_of_def pay_row_def)

lemma posted_world_row: "db_inv (w_db posted_world)" "payments_of (w_db posted_world) 1 = Some (PayPosted, 0, ''J1'')"
proof -
  have "w_db posted_world = snd (sql_payment_posted 1 ''J1'' (UTC (now pay_world)) (w_db pay_world))"
    by (simp add: posted_world_def MarkPaymentPosted_def db_call_ok pay_world_db(2) split: sum.splits)
  then show "db_inv (w_db posted_world)" "payments_of (w_db posted_world) 1 = Some (PayPosted, 0, ''J1'')"
    by (simp_all add: pay_world_inv sql_updates_inv posted_refines y_update_def pay_world_row)
qed


theorem posted_is_final_witness:
  "payments_of (w_db (run_payments demo_enet demo_syncer posted_world)) 1 = Some (PayPosted, 0, ''J1'')"
proof -
  have "(pay_step plain_pg demo_enet demo_syncer)\<^sup>*\<^sup>* posted_world (run_payments demo_enet demo_syncer posted_world)"
    by (rule r_into_rtranclp) (rule pay_step.cycle)
  from posted_is_final [OF this posted_world_row] show ?thesis .
qed

theorem payments_never_dead_letter_witness:
  "\<exists>st a ref. payments_of (w_db (run_payments demo_enet demo_syncer pay_world)) 1 = Some (st, a, ref) \<and> a \<le> 1"
proof -
  let ?w = "run_payments demo_enet demo_syncer pay_world"
  have c: "pay_step plain_pg demo_enet demo_syncer empty_world pay_world"
    "pay_step plain_pg demo_enet demo_syncer pay_world ?w"
    unfolding pay_world_def by (rule pay_step.intros)+
  then have s: "(pay_step plain_pg demo_enet demo_syncer)\<^sup>*\<^sup>* empty_world ?w" by simp
  have "pay_change (payments_of (w_db pay_world) 1) (payments_of (w_db ?w) 1)"
    using pay_step_change [OF c(2) pay_world_inv] by blast
  then obtain st a ref where p: "payments_of (w_db ?w) 1 = Some (st, a, ref)"
    by (auto simp: pay_world_row elim!: pay_change_elims)
  from payments_never_dead_letter [OF _ s p] p show ?thesis by (auto simp: empty_world_def)
qed

end
