(* ===== verification/Reconcile.thy ===== *)
theory Reconcile
  imports Webhook
begin

text \<open>
  \<open>internal/reconcile/sweeper.go\<close>: the sweep that lists Shopify's recent orders and stages the paid ones
  the database does not have. A Go slice that is encoded again is \<open>None\<close> when nil.
\<close>

section \<open>Shopify's orders\<close>

text \<open>\<open>shopifyAddress\<close> and \<open>shopifyTax\<close> have the fields of the types of the same name in the webhook.\<close>

record sweep_shipping_line =
  ws_Title :: string
  ws_Price :: string
  ws_TaxLines :: "shopify_tax list option"

record sweep_line_item =
  wl_SKU :: string
  wl_Quantity :: int
  wl_Price :: string
  wl_TotalDiscount :: string
  wl_TaxLines :: "shopify_tax list option"

record sweep_order =
  so_ID :: int
  so_Name :: string
  so_Email :: string
  so_CreatedAt :: string
  so_TotalPrice :: string
  so_FinancialStatus :: string
  so_TaxesIncluded :: bool
  so_Gateway :: string
  so_PaymentGatewayNames :: "string list option"
  so_ShippingAddress :: "shopify_address option"
  so_LineItems :: "sweep_line_item list option"
  so_ShippingLines :: "sweep_shipping_line list option"

definition slice :: "'a list option \<Rightarrow> 'a list" where
  "slice s = (case s of None \<Rightarrow> [] | Some xs \<Rightarrow> xs)"

definition fslice :: "string \<Rightarrow> (json \<Rightarrow> 'a option) \<Rightarrow> 'a \<Rightarrow> (string \<times> json) list \<Rightarrow> 'a list option option" where
  "fslice name dec zero = jfield name (\<lambda>v. map_option Some (jarray dec zero v)) (Some None) None"

definition dec_sweep_line :: "(string \<times> json) list \<Rightarrow> sweep_line_item option" where
  "dec_sweep_line o1 =
     Option.bind (fstring ''sku'' o1) (\<lambda>s.
     Option.bind (fint ''quantity'' o1) (\<lambda>q.
     Option.bind (fstring ''price'' o1) (\<lambda>p.
     Option.bind (fstring ''total_discount'' o1) (\<lambda>d.
     Option.bind (fslice ''tax_lines'' (jstruct dec_tax) zero_tax o1) (\<lambda>t.
       Some \<lparr>wl_SKU = s, wl_Quantity = q, wl_Price = p, wl_TotalDiscount = d, wl_TaxLines = t\<rparr>)))))"

definition zero_sweep_line :: sweep_line_item where
  "zero_sweep_line = \<lparr>wl_SKU = [], wl_Quantity = 0, wl_Price = [], wl_TotalDiscount = [], wl_TaxLines = None\<rparr>"

definition dec_sweep_shipping :: "(string \<times> json) list \<Rightarrow> sweep_shipping_line option" where
  "dec_sweep_shipping o1 =
     Option.bind (fstring ''title'' o1) (\<lambda>t.
     Option.bind (fstring ''price'' o1) (\<lambda>p.
     Option.bind (fslice ''tax_lines'' (jstruct dec_tax) zero_tax o1) (\<lambda>tl.
       Some \<lparr>ws_Title = t, ws_Price = p, ws_TaxLines = tl\<rparr>)))"

definition zero_sweep_shipping :: sweep_shipping_line where
  "zero_sweep_shipping = \<lparr>ws_Title = [], ws_Price = [], ws_TaxLines = None\<rparr>"

definition dec_sweep_order :: "(string \<times> json) list \<Rightarrow> sweep_order option" where
  "dec_sweep_order o1 =
     Option.bind (fint ''id'' o1) (\<lambda>i.
     Option.bind (fstring ''name'' o1) (\<lambda>n.
     Option.bind (fstring ''email'' o1) (\<lambda>e.
     Option.bind (fstring ''created_at'' o1) (\<lambda>c.
     Option.bind (fstring ''total_price'' o1) (\<lambda>t.
     Option.bind (fstring ''financial_status'' o1) (\<lambda>f.
     Option.bind (fbool ''taxes_included'' o1) (\<lambda>ti.
     Option.bind (fstring ''gateway'' o1) (\<lambda>g.
     Option.bind (fslice ''payment_gateway_names'' jstring [] o1) (\<lambda>gs.
     Option.bind (fptr ''shipping_address'' (jstruct dec_address) o1) (\<lambda>a.
     Option.bind (fslice ''line_items'' (jstruct dec_sweep_line) zero_sweep_line o1) (\<lambda>ls.
     Option.bind (fslice ''shipping_lines'' (jstruct dec_sweep_shipping) zero_sweep_shipping o1) (\<lambda>ss.
       Some \<lparr>so_ID = i, so_Name = n, so_Email = e, so_CreatedAt = c, so_TotalPrice = t,
             so_FinancialStatus = f, so_TaxesIncluded = ti, so_Gateway = g, so_PaymentGatewayNames = gs,
             so_ShippingAddress = a, so_LineItems = ls, so_ShippingLines = ss\<rparr>))))))))))))"

definition zero_sweep_order :: sweep_order where
  "zero_sweep_order =
     \<lparr>so_ID = 0, so_Name = [], so_Email = [], so_CreatedAt = [], so_TotalPrice = [], so_FinancialStatus = [],
      so_TaxesIncluded = False, so_Gateway = [], so_PaymentGatewayNames = None, so_ShippingAddress = None,
      so_LineItems = None, so_ShippingLines = None\<rparr>"

definition dec_list_orders :: "(string \<times> json) list \<Rightarrow> sweep_order list option" where
  "dec_list_orders = farray ''orders'' (jstruct dec_sweep_order) zero_sweep_order"

section \<open>Encoding an order again\<close>

definition json_float :: "float64 \<Rightarrow> json" where
  "json_float f = JNum (case f of Fin q \<Rightarrow> float_lit q | _ \<Rightarrow> ''0'')"

definition json_slice :: "('a \<Rightarrow> json) \<Rightarrow> 'a list option \<Rightarrow> json" where
  "json_slice enc s = (case s of None \<Rightarrow> JNull | Some xs \<Rightarrow> JArr (map enc xs))"

definition enc_tax :: "shopify_tax \<Rightarrow> json" where
  "enc_tax t = JObj [(''price'', JStr (tax_Price t)), (''rate'', json_float (tax_Rate t)), (''title'', JStr (tax_Title t))]"

definition enc_address :: "shopify_address \<Rightarrow> json" where
  "enc_address a = JObj
     [(''first_name'', JStr (FirstName a)), (''last_name'', JStr (LastName a)), (''address1'', JStr (Address1 a)),
      (''address2'', JStr (Address2 a)), (''city'', JStr (City a)), (''province'', JStr (Province a)),
      (''zip'', JStr (Zip a)), (''country'', JStr (Country a)), (''phone'', JStr (Phone a))]"

definition enc_sweep_line :: "sweep_line_item \<Rightarrow> json" where
  "enc_sweep_line l = JObj
     [(''sku'', JStr (wl_SKU l)), (''quantity'', JNum (Itoa (wl_Quantity l))), (''price'', JStr (wl_Price l)),
      (''total_discount'', JStr (wl_TotalDiscount l)), (''tax_lines'', json_slice enc_tax (wl_TaxLines l))]"

definition enc_sweep_shipping :: "sweep_shipping_line \<Rightarrow> json" where
  "enc_sweep_shipping s = JObj
     [(''title'', JStr (ws_Title s)), (''price'', JStr (ws_Price s)), (''tax_lines'', json_slice enc_tax (ws_TaxLines s))]"

definition enc_sweep_order :: "sweep_order \<Rightarrow> json" where
  "enc_sweep_order s = JObj
     [(''id'', JNum (Itoa (so_ID s))), (''name'', JStr (so_Name s)), (''email'', JStr (so_Email s)),
      (''created_at'', JStr (so_CreatedAt s)), (''total_price'', JStr (so_TotalPrice s)),
      (''financial_status'', JStr (so_FinancialStatus s)), (''taxes_included'', JBool (so_TaxesIncluded s)),
      (''gateway'', JStr (so_Gateway s)), (''payment_gateway_names'', json_slice JStr (so_PaymentGatewayNames s)),
      (''shipping_address'', (case so_ShippingAddress s of None \<Rightarrow> JNull | Some a \<Rightarrow> enc_address a)),
      (''line_items'', json_slice enc_sweep_line (so_LineItems s)),
      (''shipping_lines'', json_slice enc_sweep_shipping (so_ShippingLines s))]"

section \<open>Mapping to the domain types\<close>

definition sweep_line_to_domain :: "sweep_line_item \<Rightarrow> order_line" where
  "sweep_line_to_domain li =
     \<lparr>line_ID = 0, line_OrderID = 0, SKU = wl_SKU li, Quantity = wl_Quantity li,
      UnitPrice = float_or_zero (wl_Price li), Discount = float_or_zero (wl_TotalDiscount li),
      Tax = fsum (List.map_filter (\<lambda>t. ParseFloat (tax_Price t)) (slice (wl_TaxLines li)))\<rparr>"

text \<open>\<open>nw\<close> is \<open>time.Now()\<close>.\<close>

definition toDomain :: "gtime \<Rightarrow> sweep_order \<Rightarrow> order \<times> order_line list" where
  "toDomain nw s =
     (let ord = zero_order\<lparr>
            ShopifyOrderID := so_ID s, OrderNumber := so_Name s, Status := OrderStatusPending,
            CustomerAccount := ''WEBS01'', ShipEmail := so_Email s,
            RawPayload := json_print (enc_sweep_order s),
            PaymentReference :=
              (if so_Gateway s \<noteq> [] then so_Gateway s
               else if slice (so_PaymentGatewayNames s) \<noteq> [] then Join '', '' (slice (so_PaymentGatewayNames s))
               else []),
            PaymentAmount := float_or_zero (so_TotalPrice s),
            OrderDate := (case ParseRFC3339 (so_CreatedAt s) of Some t \<Rightarrow> t | None \<Rightarrow> nw)\<rparr>;
          ord' = (case so_ShippingAddress s of
              None \<Rightarrow> ord
            | Some a \<Rightarrow> ord\<lparr>ShipFirstName := FirstName a, ShipLastName := LastName a, ShipAddress1 := Address1 a,
                ShipAddress2 := Address2 a, ShipCity := City a, ShipProvince := Province a,
                ShipPostcode := Zip a, ShipCountry := Country a, ShipPhone := Phone a\<rparr>)
      in (ord'\<lparr>ShippingAmount := fsum (List.map_filter (\<lambda>l. ParseFloat (ws_Price l)) (slice (so_ShippingLines s)))\<rparr>,
          map sweep_line_to_domain (slice (so_LineItems s))))"

section \<open>Listing\<close>

record sweeper =
  sw_storeURL :: string
  sw_accessToken :: string
  sw_lookback :: int
  sw_baseURLOverride :: string

definition resolveBaseURL :: "sweeper \<Rightarrow> string" where
  "resolveBaseURL s =
     (if sw_baseURLOverride s \<noteq> [] then TrimRight (CHR ''/'') (sw_baseURLOverride s)
      else ''https://'' @ sw_storeURL s @ ''/admin/api/2025-04'')"

text \<open>\<open>New\<close>: no sweeper without an access token; 48 hours of lookback.\<close>

definition NewSweeper :: "string \<Rightarrow> string \<Rightarrow> sweeper option" where
  "NewSweeper storeURL token =
     (if token = [] then None
      else Some \<lparr>sw_storeURL = storeURL, sw_accessToken = token, sw_lookback = 48 * 3600 * Second,
                 sw_baseURLOverride = []\<rparr>)"

definition sweep_fields :: string where
  "sweep_fields = ''id,name,email,created_at,total_price,financial_status,taxes_included,shipping_address,line_items,shipping_lines,gateway,payment_gateway_names''"

definition list_req :: "sweeper \<Rightarrow> gtime \<Rightarrow> http_req" where
  "list_req s since =
     \<lparr>rq_method = ''GET'', rq_url = resolveBaseURL s @ ''/orders.json'',
      rq_query = [(''created_at_min'', fmt_rfc3339 since), (''fields'', sweep_fields), (''limit'', ''250''),
        (''status'', ''any'')],
      rq_headers = [(''X-Shopify-Access-Token'', sw_accessToken s), (''Accept'', ''application/json'')],
      rq_body = []\<rparr>"

definition listOrders :: "sweeper \<Rightarrow> gtime \<Rightarrow> world \<Rightarrow> sweep_order list res \<times> world" where
  "listOrders s since w =
     (case http_do (list_req s since) w of
        (TransportErr m, w') \<Rightarrow> (Inl (wrap_err ''GET orders.json'' (Errorf m)), w')
      | (ReadErr m, w') \<Rightarrow> (Inl (wrap_err ''reading response'' (Errorf m)), w')
      | (Resp st _ full, w') \<Rightarrow>
          (let body = take (10 * 1024 * 1024) full
           in if st < 200 \<or> 300 \<le> st
              then Inl (Errorf (''shopify returned HTTP '' @ Itoa st @ '': '' @ TrimSpace body))
              else case unmarshal (jstruct dec_list_orders) body of
                     None \<Rightarrow> Inl (wrap_err ''parsing response'' (Errorf ''invalid JSON or a value of the wrong type''))
                   | Some os \<Rightarrow> Inr os, w'))"

section \<open>The sweep\<close>

record 'w sweep_deps =
  wd_listOrders :: "gtime \<Rightarrow> 'w \<Rightarrow> sweep_order list res \<times> 'w"
  wd_ShopifyOrdersExist :: "int list \<Rightarrow> 'w \<Rightarrow> int list res \<times> 'w"
  wd_CreateOrder :: "webhook_event \<Rightarrow> order \<Rightarrow> order_line list \<Rightarrow> 'w \<Rightarrow> unit res \<times> 'w"

definition reconcile_id :: "int \<Rightarrow> gtime \<Rightarrow> string" where
  "reconcile_id i t = ''reconcile-'' @ Itoa i @ ''-'' @ Itoa (Unix t)"

definition stageOrder :: "'w sweep_deps \<Rightarrow> ('w \<Rightarrow> gtime) \<Rightarrow> sweep_order \<Rightarrow> 'w \<Rightarrow> unit res \<times> 'w" where
  "stageOrder d clk s w =
     (let (ord, ls) = toDomain (clk w) s;
          ev = \<lparr>ev_ID = 0, WebhookID = reconcile_id (so_ID s) (clk w), Topic = ''orders/reconcile'',
                ReceivedAt = zero_time\<rparr>
      in wd_CreateOrder d ev ord ls w)"

text \<open>\<open>isPaidStatus\<close> of this package.\<close>

definition sweep_paid :: "string \<Rightarrow> bool" where
  "sweep_paid s \<longleftrightarrow> ToLower (TrimSpace s) = ''paid'' \<or> ToLower (TrimSpace s) = ''partially_paid''"

fun sweep_loop :: "'w sweep_deps \<Rightarrow> ('w \<Rightarrow> gtime) \<Rightarrow> int list \<Rightarrow> sweep_order list \<Rightarrow> 'w \<Rightarrow> 'w" where
  "sweep_loop d clk existing [] w = w"
| "sweep_loop d clk existing (s # ss) w =
     (if so_ID s \<in> set existing then sweep_loop d clk existing ss w
      else if \<not> sweep_paid (so_FinancialStatus s) then sweep_loop d clk existing ss w
      else sweep_loop d clk existing ss (snd (stageOrder d clk s w)))"

definition Sweep :: "'w sweep_deps \<Rightarrow> ('w \<Rightarrow> gtime) \<Rightarrow> sweeper \<Rightarrow> 'w \<Rightarrow> unit res \<times> 'w" where
  "Sweep d clk s w =
     (case wd_listOrders d (UTC (AddTime (clk w) (- sw_lookback s))) w of
        (Inl e, w1) \<Rightarrow> (Inl (wrap_err ''listing shopify orders'' e), w1)
      | (Inr os, w1) \<Rightarrow>
          if os = [] then (Inr (), w1)
          else (case wd_ShopifyOrdersExist d (map so_ID os) w1 of
                  (Inl e, w2) \<Rightarrow> (Inl (wrap_err ''checking existing orders'' e), w2)
                | (Inr existing, w2) \<Rightarrow> (Inr (), sweep_loop d clk existing os w2)))"

definition service_sweep_deps :: "pgconv \<Rightarrow> sweeper \<Rightarrow> world sweep_deps" where
  "service_sweep_deps pg s =
     \<lparr>wd_listOrders = listOrders s, wd_ShopifyOrdersExist = ShopifyOrdersExist,
      wd_CreateOrder = CreateOrder pg\<rparr>"

definition run_sweep :: "pgconv \<Rightarrow> sweeper \<Rightarrow> world \<Rightarrow> unit res \<times> world" where
  "run_sweep pg s = Sweep (service_sweep_deps pg s) now s"

end
