(* ===== verification/ReconcileProps.thy ===== *)
theory ReconcileProps
  imports Reconcile WebhookProps
begin

text \<open>
  The sweep against the contract of the store: the locale \<open>sweep_services\<close> extends \<open>order_intake\<close> by the
  listing and the existence query, and is interpreted on \<open>*store.DB\<close>. An order the sweep stages is the
  one the webhook would have staged.
\<close>

section \<open>The same order by both ways\<close>

lemma jfield_map:
  assumes "\<And>v y. dec2 v = Some y \<Longrightarrow> dec1 v = Some (h y)" "nul1 = map_option h nul2"
  shows "jfield n dec2 nul2 z o1 = Some y \<Longrightarrow> jfield n dec1 nul1 (h z) o1 = Some (h y)"
proof -
  have none: "jfield n dec nul' z' (kv # kvs) =
      (case kv of (k, v) \<Rightarrow> if fold_key k \<noteq> fold_key n then jfield n dec nul' z' kvs
         else if v = JNull then jfield n dec nul' (case nul' of None \<Rightarrow> z' | Some x \<Rightarrow> x) kvs
         else (case dec v of None \<Rightarrow> None | Some x \<Rightarrow> jfield n dec nul' x kvs))"
    for dec :: "json \<Rightarrow> 'c option" and nul' z' kv kvs
  proof -
    have "foldl (\<lambda>acc (k, v). case acc of None \<Rightarrow> None | Some cur \<Rightarrow>
        if fold_key k \<noteq> fold_key n then acc
        else if v = JNull then Some (case nul' of None \<Rightarrow> cur | Some z \<Rightarrow> z) else dec v) None kvs = None" for kvs
      by (induction kvs) auto
    then show ?thesis by (auto simp: jfield_def split: prod.split option.split)
  qed
  show "jfield n dec2 nul2 z o1 = Some y \<Longrightarrow> jfield n dec1 nul1 (h z) o1 = Some (h y)"
  proof (induction o1 arbitrary: z)
    case Nil
    then show ?case by (simp add: jfield_def)
  next
    case (Cons kv o1)
    obtain k v where kv: "kv = (k, v)" by (cases kv)
    show ?case
    proof (cases "fold_key k \<noteq> fold_key n \<or> v = JNull")
      case True
      with Cons kv assms(2) show ?thesis by (cases nul2) (auto simp: none split: if_splits)
    next
      case False
      then obtain x where "dec2 v = Some x" using Cons.prems kv by (cases "dec2 v") (auto simp: none)
      with False Cons kv assms(1) [of v x] show ?thesis by (simp add: none)
    qed
  qed
qed

lemma those_map_map:
  "(\<And>v y. f v = Some y \<Longrightarrow> g v = Some (h y)) \<Longrightarrow> those_map f xs = Some ys \<Longrightarrow> those_map g xs = Some (map h ys)"
proof (induction xs arbitrary: ys)
  case (Cons x xs)
  then obtain y ys' where "f x = Some y" "those_map f xs = Some ys'" "ys = y # ys'"
    by (auto split: option.splits)
  with Cons show ?case by simp
qed simp

lemma fslice_farray:
  assumes "\<And>v y. dec2 v = Some y \<Longrightarrow> dec1 v = Some (h y)" "z1 = h z2"
    "fslice n dec2 z2 o1 = Some s"
  shows "farray n dec1 z1 o1 = Some (map h (slice s))"
proof -
  have a: "jarray dec1 z1 v = Some (map h ys)" if y: "jarray dec2 z2 v = Some ys" for v ys
  proof -
    obtain vs where vs: "v = JArr vs" using y by (cases v) (auto simp: jarray_def)
    have "those_map (\<lambda>v. if v = JNull then Some z1 else dec1 v) vs = Some (map h ys)"
      by (rule those_map_map [where f = "\<lambda>v. if v = JNull then Some z2 else dec2 v"])
        (use y vs assms(1,2) in \<open>auto simp: jarray_def split: if_splits\<close>)
    then show ?thesis by (simp add: vs jarray_def)
  qed
  have "jfield n (jarray dec1 z1) (Some []) ((map h \<circ> slice) None) o1 = Some ((map h \<circ> slice) s)"
    by (rule jfield_map [OF _ _ assms(3) [unfolded fslice_def]])
      (auto simp: slice_def dest: a)
  then show ?thesis by (simp add: farray_def slice_def)
qed

lemma fslice_same: "fslice n dec z o1 = Some s \<Longrightarrow> farray n dec z o1 = Some (slice s)"
  using fslice_farray [of dec dec "\<lambda>x. x" z z n o1 s] by simp

definition as_line :: "sweep_line_item \<Rightarrow> shopify_line_item" where
  "as_line l = \<lparr>li_SKU = wl_SKU l, li_Quantity = wl_Quantity l, li_Price = wl_Price l,
     li_TotalDiscount = wl_TotalDiscount l, li_TaxLines = slice (wl_TaxLines l)\<rparr>"

definition as_shipping :: "sweep_shipping_line \<Rightarrow> shopify_shipping_line" where
  "as_shipping s = \<lparr>sl_Title = ws_Title s, sl_Price = ws_Price s\<rparr>"

lemma dec_line_same: "dec_sweep_line o1 = Some l \<Longrightarrow> dec_line_item o1 = Some (as_line l)"
  by (auto simp: dec_sweep_line_def dec_line_item_def as_line_def bind_eq_Some_conv dest: fslice_same)

lemma dec_shipping_same: "dec_sweep_shipping o1 = Some l \<Longrightarrow> dec_shipping_line o1 = Some (as_shipping l)"
  by (auto simp: dec_sweep_shipping_def dec_shipping_line_def as_shipping_def bind_eq_Some_conv)

lemma jstruct_map: "(\<And>o1 y. f o1 = Some y \<Longrightarrow> g o1 = Some (h y)) \<Longrightarrow> jstruct f v = Some y \<Longrightarrow> jstruct g v = Some (h y)"
  by (auto simp: jstruct_def split: json.splits)

lemma line_items_same:
  assumes "fslice n (jstruct dec_sweep_line) zero_sweep_line o1 = Some x"
  shows "farray n (jstruct dec_line_item) zero_line_item o1 = Some (map as_line (slice x))"
proof (rule fslice_farray [OF _ _ assms])
  show "jstruct dec_line_item v = Some (as_line y)" if "jstruct dec_sweep_line v = Some y" for v y
    using dec_line_same that by (rule jstruct_map)
qed (simp add: as_line_def zero_line_item_def zero_sweep_line_def slice_def)

lemma shipping_lines_same:
  assumes "fslice n (jstruct dec_sweep_shipping) zero_sweep_shipping o1 = Some x"
  shows "farray n (jstruct dec_shipping_line) zero_shipping_line o1 = Some (map as_shipping (slice x))"
proof (rule fslice_farray [OF _ _ assms])
  show "jstruct dec_shipping_line v = Some (as_shipping y)" if "jstruct dec_sweep_shipping v = Some y" for v y
    using dec_shipping_same that by (rule jstruct_map)
qed (simp add: as_shipping_def zero_shipping_line_def zero_sweep_shipping_def)

text \<open>What the sweeper's decoder says of the webhook's.\<close>

lemma dec_order_same:
  assumes "dec_sweep_order o1 = Some s" "dec_order o1 = Some p"
  shows "p_ID p = so_ID s \<and> p_Name p = so_Name s \<and> p_Email p = so_Email s \<and> p_CreatedAt p = so_CreatedAt s \<and>
    p_TotalPrice p = so_TotalPrice s \<and> p_FinancialStatus p = so_FinancialStatus s \<and> p_Gateway p = so_Gateway s \<and>
    p_PaymentGatewayNames p = slice (so_PaymentGatewayNames s) \<and> p_ShippingAddress p = so_ShippingAddress s \<and>
    p_LineItems p = map as_line (slice (so_LineItems s)) \<and>
    p_ShippingLines p = map as_shipping (slice (so_ShippingLines s))"
proof -
  show ?thesis
    using assms by (auto simp: dec_sweep_order_def dec_order_def bind_eq_Some_conv dest: fslice_same line_items_same shipping_lines_same)
qed

lemma map_filter_map: "List.map_filter f (map g xs) = List.map_filter (f \<circ> g) xs"
  by (simp add: List.map_filter_def comp_def filter_map)

text \<open>C28: the sweep stages what the webhook would have staged: if one JSON order is read by both, the order
  and lines the sweeper's mapping gives are those of the webhook's mapping, except for the raw payload,
  which is the sweeper's own encoding.\<close>

theorem sweep_maps_like_webhook:
  assumes "dec_sweep_order o1 = Some s" "dec_order o1 = Some p" "mapOrder nw p raw = (ord, ls)"
  shows "toDomain nw s = (ord\<lparr>RawPayload := json_print (enc_sweep_order s)\<rparr>, ls) \<and>
    sweep_paid (so_FinancialStatus s) = isPaidStatus (p_FinancialStatus p)"
proof -
  note e = dec_order_same [OF assms(1,2)]
  have "map_line \<circ> as_line = sweep_line_to_domain"
    by (simp add: map_line_def as_line_def sweep_line_to_domain_def fun_eq_iff)
  then have lines: "map map_line (p_LineItems p) = map sweep_line_to_domain (slice (so_LineItems s))"
    using e by simp
  have ship: "List.map_filter (\<lambda>l. ParseFloat (shopify_shipping_line.sl_Price l)) (p_ShippingLines p) =
      List.map_filter (\<lambda>l. ParseFloat (ws_Price l)) (slice (so_ShippingLines s))"
    using e by (simp add: map_filter_map comp_def as_shipping_def)
  from assms(3) e lines ship show ?thesis
    by (cases "so_ShippingAddress s")
      (auto simp: mapOrder_def toDomain_def set_address_def Let_def isPaidStatus_def sweep_paid_def)
qed

section \<open>The contract of OrderStore\<close>

text \<open>
  \<open>up\<close> holds of the states in which the database answers every call; then a sweep misses nothing.
\<close>

locale sweep_services = order_intake st known staged
  for st :: "'w order_store" and known :: "'w \<Rightarrow> string set" and staged :: "'w \<Rightarrow> int set" +
  fixes d :: "'w sweep_deps" and clk :: "'w \<Rightarrow> gtime" and up :: "'w \<Rightarrow> bool"
  assumes create_same: "wd_CreateOrder d = os_CreateOrder st"
    and list_law: "wd_listOrders d since w = (r, w') \<Longrightarrow>
      known w' = known w \<and> staged w' = staged w \<and> (up w \<longrightarrow> up w')"
    and exist_law: "wd_ShopifyOrdersExist d ids w = (r', w') \<Longrightarrow>
      known w' = known w \<and> staged w' = staged w \<and> (\<forall>xs. r' = Inr xs \<longrightarrow> set xs = set ids \<inter> staged w) \<and>
      (up w \<longrightarrow> up w' \<and> clk w' = clk w \<and> is_ok r')"
    and create_up: "os_CreateOrder st ev ord ls w = (r'', w') \<Longrightarrow> up w \<Longrightarrow>
      up w' \<and> clk w' = clk w \<and> (WebhookID ev \<notin> known w \<longrightarrow> ShopifyOrderID ord \<notin> staged w \<longrightarrow> is_ok r'')"

lemma nat_str_inj: "nat_str a = nat_str b \<Longrightarrow> 0 \<le> a \<Longrightarrow> 0 \<le> b \<Longrightarrow> a = b"
  by (metis digits_val_nat_str)

lemma Itoa_inj: "Itoa a = Itoa b \<Longrightarrow> a = b"
proof -
  assume e: "Itoa a = Itoa b"
  have s: "Itoa a \<noteq> Itoa b" if "a < 0" "\<not> b < 0" for a b
    using that nat_str_no_sign [of b] by (cases "nat_str b") (auto simp: Itoa_def)
  show "a = b"
    using e s [of a b] s [of b a] nat_str_inj [of a b] nat_str_inj [of "- a" "- b"]
    by (cases "a < 0"; cases "b < 0") (auto simp: Itoa_def)
qed

lemma reconcile_id_inj: "reconcile_id i t = reconcile_id j t \<Longrightarrow> i = j"
  by (simp add: reconcile_id_def Itoa_inj)

lemma toDomain_id [simp]: "ShopifyOrderID (fst (toDomain nw s)) = so_ID s"
  by (simp add: toDomain_def Let_def split: option.splits)

text \<open>What a sweep may stage, given the listing.\<close>

definition sweep_wanted :: "sweep_order list \<Rightarrow> int set" where
  "sweep_wanted os = {so_ID s | s. s \<in> set os \<and> sweep_paid (so_FinancialStatus s)}"

lemma sweep_wanted_simps [simp]:
  "sweep_wanted [] = {}"
  "sweep_wanted (s # ss) =
     (if sweep_paid (so_FinancialStatus s) then insert (so_ID s) (sweep_wanted ss) else sweep_wanted ss)"
  by (auto simp: sweep_wanted_def)

context sweep_services
begin

lemma stage_cases:
  assumes "stageOrder d clk s w = (r, w')"
  shows "staged w' \<in> {staged w, insert (so_ID s) (staged w)} \<and>
    known w' \<in> {known w, insert (reconcile_id (so_ID s) (clk w)) (known w)}"
proof -
  obtain ord ls where m: "toDomain (clk w) s = (ord, ls)" by (metis prod.exhaust)
  have o1: "ShopifyOrderID ord = so_ID s" using toDomain_id [of "clk w" s] by (simp add: m)
  from assms m have "os_CreateOrder st \<lparr>ev_ID = 0, WebhookID = reconcile_id (so_ID s) (clk w),
      Topic = ''orders/reconcile'', ReceivedAt = zero_time\<rparr> ord ls w = (r, w')"
    by (simp add: stageOrder_def create_same)
  from create_law [OF this] show ?thesis by (auto simp: o1)
qed

lemma loop_bounds:
  "staged w \<subseteq> staged (sweep_loop d clk ex os w) \<and>
   staged (sweep_loop d clk ex os w) \<subseteq> staged w \<union> (sweep_wanted os - set ex)"
proof (induction os arbitrary: w)
  case (Cons s ss)
  obtain r w1 where e: "stageOrder d clk s w = (r, w1)" by (metis prod.exhaust)
  show ?case
    using Cons.IH [of w] Cons.IH [of w1] stage_cases [OF e] by (auto simp: e)
qed simp

lemma stage_up:
  assumes e: "stageOrder d clk s w = (r, w1)" and up: "up w"
    and fresh: "\<forall>i. reconcile_id i (clk w) \<in> known w \<longrightarrow> i \<in> staged w"
  shows "up w1 \<and> clk w1 = clk w \<and> staged w1 = insert (so_ID s) (staged w) \<and>
    (\<forall>i. reconcile_id i (clk w1) \<in> known w1 \<longrightarrow> i \<in> staged w1)"
proof -
  obtain ord ls where m: "toDomain (clk w) s = (ord, ls)" by (metis prod.exhaust)
  have o1: "ShopifyOrderID ord = so_ID s" using toDomain_id [of "clk w" s] by (simp add: m)
  from e m have c: "os_CreateOrder st \<lparr>ev_ID = 0, WebhookID = reconcile_id (so_ID s) (clk w),
      Topic = ''orders/reconcile'', ReceivedAt = zero_time\<rparr> ord ls w = (r, w1)"
    by (simp add: stageOrder_def create_same)
  note u = create_up [OF c up]
  show ?thesis
    using create_law [OF c] u fresh by (auto simp: o1 dest: reconcile_id_inj)
qed

lemma loop_up:
  assumes "up w" "\<forall>i. reconcile_id i (clk w) \<in> known w \<longrightarrow> i \<in> staged w"
  shows "staged (sweep_loop d clk ex os w) = staged w \<union> (sweep_wanted os - set ex)"
  using assms
proof (induction os arbitrary: w)
  case (Cons s ss)
  obtain r w1 where e: "stageOrder d clk s w = (r, w1)" by (metis prod.exhaust)
  note u = stage_up [OF e Cons.prems]
  show ?case
    using Cons.IH [OF Cons.prems] Cons.IH [of w1] u by (auto simp: e)
qed simp

lemma sweep_bounds:
  assumes "Sweep d clk s w = (r, w')"
    and "wd_listOrders d (UTC (AddTime (clk w) (- sw_lookback s))) w = (l, w1)"
  shows "staged w \<subseteq> staged w' \<and> staged w' \<subseteq> staged w \<union> (case l of Inl _ \<Rightarrow> {} | Inr os \<Rightarrow> sweep_wanted os)"
proof (cases l)
  case (Inl e)
  with assms list_law [OF assms(2)] show ?thesis by (auto simp: Sweep_def)
next
  case (Inr os)
  obtain x w2 where x: "wd_ShopifyOrdersExist d (map so_ID os) w1 = (x, w2)" by (metis prod.exhaust)
  note laws = list_law [OF assms(2)] exist_law [OF x]
  show ?thesis
    using assms Inr x laws loop_bounds [of w2 _ os]
    by (cases x; cases "os = []") (auto simp: Sweep_def)
qed

lemma sweep_up:
  assumes "Sweep d clk s w = (r, w')"
    and "wd_listOrders d (UTC (AddTime (clk w) (- sw_lookback s))) w = (Inr os, w1)"
    and "up w" "\<forall>i. reconcile_id i (clk w1) \<in> known w \<longrightarrow> i \<in> staged w"
  shows "r = Inr () \<and> staged w' = staged w \<union> sweep_wanted os"
proof -
  obtain x w2 where x: "wd_ShopifyOrdersExist d (map so_ID os) w1 = (x, w2)" by (metis prod.exhaust)
  note laws = list_law [OF assms(2)] exist_law [OF x]
  then obtain ex where ex: "x = Inr ex" using assms(3) by (cases x) auto
  have "sweep_wanted os \<subseteq> so_ID ` set os" by (auto simp: sweep_wanted_def)
  moreover have "staged (sweep_loop d clk ex os w2) = staged w2 \<union> (sweep_wanted os - set ex)"
    by (rule loop_up) (use laws assms(3,4) in auto)
  ultimately show ?thesis
    using assms(1,2) ex x laws by (cases "os = []") (auto simp: Sweep_def)
qed

end

section \<open>The sweep over PostgreSQL\<close>

lemma create_tx_quiet: "w_dbs w = [] \<Longrightarrow> snd (create_tx pg t ev ord ls d w) = w"
  by (auto simp: create_tx_def call_simps insert_lines_ok split: option.splits bool.splits)

lemma now_db [simp]: "now (w\<lparr>w_db := d\<rparr>) = now w"
  by (simp add: now_def)

lemma CreateOrder_quiet:
  assumes "w_dbs w = []" "CreateOrder pg ev ord ls w = (r, w')"
  shows "w_dbs w' = [] \<and> now w' = now w"
proof -
  obtain x t w1 where c: "create_tx pg (UTC (now w)) ev ord ls (w_db w) w = ((x, t), w1)" by (metis prod.exhaust)
  have w1: "w1 = w" using create_tx_quiet [OF assms(1), of pg "UTC (now w)" ev ord ls "w_db w"] by (simp add: c)
  show ?thesis
    using assms by (cases x) (auto simp: CreateOrder_def call_simps c w1)
qed

lemma ShopifyOrdersExist_spec:
  assumes "ShopifyOrdersExist ids w = (r, w')"
  shows "w_db w' = w_db w \<and> (\<forall>xs. r = Inr xs \<longrightarrow> set xs = set ids \<inter> ShopifyOrderID ` set (orders (w_db w))) \<and>
    (w_dbs w = [] \<longrightarrow> w_dbs w' = [] \<and> now w' = now w \<and> is_ok r)"
proof -
  let ?g = "\<lambda>d. filter (\<lambda>i. i \<in> set ids) (map ShopifyOrderID (orders d))"
  obtain x w1 where c: "db_call (\<lambda>_ d. (?g d, d)) w = (x, w1)" by (rule prod.exhaust)
  have rd: "w_db w1 = w_db w" "x = Inr xs \<Longrightarrow> xs = ?g (w_db w)" for xs
    using db_read_value [where g = ?g, OF c] by blast+
  have up: "x = Inr (?g (w_db w)) \<and> w1 = w" if "w_dbs w = []"
    using c db_call_ok [OF that, of "\<lambda>_ d. (?g d, d)"] by auto
  have eq: "(r, w') = (if ids = [] then (Inr [], w)
      else case (x, w1) of (Inl e, w') \<Rightarrow> (Inl (wrap_err ''querying existing shopify order ids'' e), w')
        | (Inr r, w') \<Rightarrow> (Inr r, w'))"
    using assms [symmetric] unfolding ShopifyOrdersExist_def c .
  show ?thesis
  proof (cases "ids = []")
    case True
    with eq show ?thesis by simp
  next
    case False
    with eq rd up show ?thesis by (cases x) auto
  qed
qed

lemma listOrders_frame:
  "listOrders s since w = (r, w') \<Longrightarrow> w_db w' = w_db w \<and> w_dbs w' = w_dbs w"
  using http_do_frame(1,2) [of "list_req s since" w]
  by (auto simp: listOrders_def Let_def split: prod.splits http_outcome.splits)

interpretation sws: sweep_services "db_order_store pg" known_ids staged_ids
  "service_sweep_deps pg s" now "\<lambda>w. w_dbs w = []" for pg s
proof (intro sweep_services.intro sweep_services_axioms.intro oi.order_intake_axioms)
  show "wd_CreateOrder (service_sweep_deps pg s) = os_CreateOrder (db_order_store pg)"
    by (simp add: service_sweep_deps_def db_order_store_def)
next
  fix since r and w w' :: world
  assume "wd_listOrders (service_sweep_deps pg s) since w = (r, w')"
  then have "listOrders s since w = (r, w')" by (simp add: service_sweep_deps_def)
  from listOrders_frame [OF this]
  show "known_ids w' = known_ids w \<and> staged_ids w' = staged_ids w \<and> (w_dbs w = [] \<longrightarrow> w_dbs w' = [])"
    by (simp add: known_ids_def staged_ids_def)
next
  fix ids r' and w w' :: world
  assume "wd_ShopifyOrdersExist (service_sweep_deps pg s) ids w = (r', w')"
  then have "ShopifyOrdersExist ids w = (r', w')" by (simp add: service_sweep_deps_def)
  from ShopifyOrdersExist_spec [OF this]
  show "known_ids w' = known_ids w \<and> staged_ids w' = staged_ids w \<and>
      (\<forall>xs. r' = Inr xs \<longrightarrow> set xs = set ids \<inter> staged_ids w) \<and>
      (w_dbs w = [] \<longrightarrow> w_dbs w' = [] \<and> now w' = now w \<and> is_ok r')"
    by (simp add: known_ids_def staged_ids_def)
next
  fix ev ord ls r'' and w w' :: world
  assume c: "os_CreateOrder (db_order_store pg) ev ord ls w = (r'', w')" and up: "w_dbs w = []"
  then have c': "CreateOrder pg ev ord ls w = (r'', w')" by (simp add: db_order_store_def)
  have "is_ok r''" if "WebhookID ev \<notin> known_ids w" "ShopifyOrderID ord \<notin> staged_ids w"
    using CreateOrder_ok [OF up, of ev ord pg ls] c' that
    by (auto simp: fresh_for_def known_ids_def staged_ids_def)
  then show "w_dbs w' = [] \<and> now w' = now w \<and>
      (WebhookID ev \<notin> known_ids w \<longrightarrow> ShopifyOrderID ord \<notin> staged_ids w \<longrightarrow> is_ok r'')"
    using CreateOrder_quiet [OF up c'] by blast
qed

lemma sweep_loop_steps: "db_steps pg (w_db w) (w_db (sweep_loop (service_sweep_deps pg s) now ex os w))"
proof (induction os arbitrary: w)
  case (Cons x xs)
  let ?w1 = "snd (stageOrder (service_sweep_deps pg s) now x w)"
  have "db_steps pg (w_db w) (w_db ?w1)"
    by (simp add: stageOrder_def service_sweep_deps_def CreateOrder_steps split: prod.splits)
  then show ?case
    using Cons.IH [of w] Cons.IH [of ?w1] by (auto intro: rtranclp_trans)
qed simp

lemma run_sweep_steps:
  assumes "run_sweep pg s w = (r, w')"
  shows "db_steps pg (w_db w) (w_db w')"
proof -
  obtain l w1 where l: "listOrders s (UTC (AddTime (now w) (- sw_lookback s))) w = (l, w1)" by (rule prod.exhaust)
  note w1 = listOrders_frame [OF l]
  have "db_steps pg (w_db w1) (w_db w')"
  proof (cases l)
    case (Inl e)
    with assms l show ?thesis by (simp add: run_sweep_def Sweep_def service_sweep_deps_def)
  next
    case (Inr os)
    obtain x w2 where x: "ShopifyOrdersExist (map so_ID os) w1 = (x, w2)" by (rule prod.exhaust)
    have "w_db w2 = w_db w1" using ShopifyOrdersExist_spec [OF x] by blast
    then show ?thesis
      using assms l Inr x sweep_loop_steps [of pg w2 s _ os]
      by (cases x; cases "os = []") (auto simp: run_sweep_def Sweep_def service_sweep_deps_def)
  qed
  then show ?thesis using w1 by simp
qed

text \<open>C29: whatever the database, Shopify and the script of failures do, a sweep removes nothing and stages only
  orders that Shopify listed as paid, by steps of the store.\<close>

theorem sweep_stages_only:
  assumes "run_sweep pg s w = (r, w')" "listOrders s (UTC (AddTime (now w) (- sw_lookback s))) w = (l, w1)"
  shows "staged_ids w \<subseteq> staged_ids w' \<and>
    staged_ids w' \<subseteq> staged_ids w \<union> (case l of Inl _ \<Rightarrow> {} | Inr os \<Rightarrow> sweep_wanted os) \<and>
    db_steps pg (w_db w) (w_db w')"
  using sws.sweep_bounds [of pg s s w r w' l w1] assms run_sweep_steps [OF assms(1)]
  by (simp add: run_sweep_def service_sweep_deps_def)

text \<open>C30: when the database answers, a sweep stages every listed paid order that is missing, and nothing else.\<close>

theorem sweep_stages_missing:
  assumes "run_sweep pg s w = (r, w')"
    and "listOrders s (UTC (AddTime (now w) (- sw_lookback s))) w = (Inr os, w1)"
    and "w_dbs w = []" "\<forall>i. reconcile_id i (now w1) \<in> known_ids w \<longrightarrow> i \<in> staged_ids w"
  shows "r = Inr () \<and> staged_ids w' = staged_ids w \<union> sweep_wanted os"
  using sws.sweep_up [of pg s s w r w' os w1] assms
  by (simp add: run_sweep_def service_sweep_deps_def)

section \<open>A sweep\<close>

definition demo_members :: "(string \<times> json) list" where
  "demo_members = [(''id'', JNum ''7''), (''financial_status'', JStr '' Paid''),
     (''line_items'', JArr [JObj [(''sku'', JStr ''A1''), (''quantity'', JNum ''2'')]])]"

definition demo_listed :: sweep_order where
  "demo_listed = zero_sweep_order\<lparr>so_ID := 7, so_FinancialStatus := '' Paid'',
     so_LineItems := Some [zero_sweep_line\<lparr>wl_SKU := ''A1'', wl_Quantity := 2\<rparr>]\<rparr>"

lemma demo_decoded: "dec_sweep_order demo_members = Some demo_listed" "dec_order demo_members = Some demo_payload"
  by code_simp+

theorem sweep_maps_like_webhook_witness:
  "toDomain zero_time demo_listed =
     ((fst (mapOrder zero_time demo_payload demo_body))\<lparr>RawPayload := json_print (enc_sweep_order demo_listed)\<rparr>,
      snd (mapOrder zero_time demo_payload demo_body))"
  using sweep_maps_like_webhook [OF demo_decoded prod.collapse [symmetric]] by blast

definition demo_sweeper :: sweeper where
  "demo_sweeper = \<lparr>sw_storeURL = ''shop.example'', sw_accessToken = ''token'', sw_lookback = 48 * 3600 * Second,
     sw_baseURLOverride = []\<rparr>"

definition demo_listing :: string where
  \<open>demo_listing = ''{"orders":[{"id":7,"financial_status":" Paid","line_items":[{"sku":"A1","quantity":2}]},{"id":8,"financial_status":"pending"}]}''\<close>

definition demo_shop :: world where
  "demo_shop = empty_world\<lparr>w_http := [(Resp 200 [] demo_listing, 0)]\<rparr>"

lemma demo_listing_decoded: "unmarshal (jstruct dec_list_orders) demo_listing =
    Some [demo_listed, zero_sweep_order\<lparr>so_ID := 8, so_FinancialStatus := ''pending''\<rparr>]"
  by code_simp

lemma demo_listing_short: "take 10485760 demo_listing = demo_listing"
  by (simp add: demo_listing_def)

lemma demo_list: "\<exists>w1. listOrders demo_sweeper t demo_shop =
    (Inr [demo_listed, zero_sweep_order\<lparr>so_ID := 8, so_FinancialStatus := ''pending''\<rparr>], w1)"
  by (simp add: listOrders_def http_do_def demo_shop_def demo_listing_decoded demo_listing_short)

lemma demo_wanted: "sweep_wanted [demo_listed, zero_sweep_order\<lparr>so_ID := 8, so_FinancialStatus := ''pending''\<rparr>] = {7}"
proof -
  have t: "TrimSpace ''pending'' = ''pending''" "ToLower ''pending'' = ''pending''"
    "TrimSpace '' Paid'' = ''Paid''" "ToLower ''Paid'' = ''paid''" by code_simp+
  have p: "sweep_paid ''pending'' = False" by (simp add: sweep_paid_def t)
  have p': "sweep_paid '' Paid''" by (simp only: sweep_paid_def t simp_thms)
  have "so_FinancialStatus demo_listed = '' Paid''" "so_ID demo_listed = 7" by (simp_all add: demo_listed_def)
  then show ?thesis using p p' by simp
qed

lemma demo_shop_ids: "known_ids demo_shop = {}" "staged_ids demo_shop = {}" "w_dbs demo_shop = []"
  by (simp_all add: demo_shop_def known_ids_def staged_ids_def empty_world_def empty_db_def)

theorem sweep_stages_missing_witness:
  "staged_ids (snd (run_sweep plain_pg demo_sweeper demo_shop)) = {7}"
proof -
  obtain w1 where l: "listOrders demo_sweeper (UTC (AddTime (now demo_shop) (- sw_lookback demo_sweeper))) demo_shop =
      (Inr [demo_listed, zero_sweep_order\<lparr>so_ID := 8, so_FinancialStatus := ''pending''\<rparr>], w1)"
    using demo_list by blast
  show ?thesis
    using sweep_stages_missing [OF prod.collapse [symmetric] l, of plain_pg]
    by (simp add: demo_shop_ids demo_wanted del: sweep_wanted_simps)
qed

theorem sweep_stages_only_witness:
  "staged_ids (snd (run_sweep plain_pg demo_sweeper demo_shop)) \<subseteq> {7}"
proof -
  obtain w1 where l: "listOrders demo_sweeper (UTC (AddTime (now demo_shop) (- sw_lookback demo_sweeper))) demo_shop =
      (Inr [demo_listed, zero_sweep_order\<lparr>so_ID := 8, so_FinancialStatus := ''pending''\<rparr>], w1)"
    using demo_list by blast
  show ?thesis
    using sweep_stages_only [OF prod.collapse [symmetric] l, of plain_pg]
    by (simp add: demo_shop_ids demo_wanted del: sweep_wanted_simps)
qed

end
