(* ===== verification/Transactions.thy ===== *)
theory Transactions
  imports ShopifyGql
begin

text \<open>
  \<open>internal/payments/shopify_transactions.go\<close>: the settled transactions of the orders of a window. Orders
  are listed over REST, page by page along the \<open>Link\<close> header; each order's transactions are one GraphQL
  call. Log lines are not modelled, except that a zero fee on a card gateway is a warning.
\<close>

record shopify_transaction =
  tx_ID :: int
  tx_OrderID :: int
  tx_OrderNumber :: string
  tx_CustomerEmail :: string
  tx_Gross :: float64
  tx_Fee :: float64
  tx_Net :: float64
  tx_Currency :: string
  tx_PaymentGateway :: string
  tx_ProcessedAt :: gtime

record transactions_fetcher =
  tf_baseURL :: string
  tf_accessToken :: string

definition NewTransactionsFetcher :: "string \<Rightarrow> string \<Rightarrow> transactions_fetcher" where
  "NewTransactionsFetcher storeURL token =
     \<lparr>tf_baseURL = ''https://'' @ TrimRight (CHR ''/'') storeURL @ ''/admin/api/2025-04'', tf_accessToken = token\<rparr>"

definition WithBaseURL :: "string \<Rightarrow> transactions_fetcher \<Rightarrow> transactions_fetcher" where
  "WithBaseURL base f = f\<lparr>tf_baseURL := TrimRight (CHR ''/'') base\<rparr>"

section \<open>Listing the orders\<close>

record order_summary =
  os_ID :: int
  os_Name :: string
  os_Email :: string
  os_Test :: bool

definition zero_summary :: order_summary where
  "zero_summary = \<lparr>os_ID = 0, os_Name = [], os_Email = [], os_Test = False\<rparr>"

definition dec_summary :: "(string \<times> json) list \<Rightarrow> order_summary option" where
  "dec_summary o1 =
     Option.bind (fint ''id'' o1) (\<lambda>i.
     Option.bind (fstring ''name'' o1) (\<lambda>n.
     Option.bind (fstring ''email'' o1) (\<lambda>e.
     Option.bind (fbool ''test'' o1) (\<lambda>t.
       Some \<lparr>os_ID = i, os_Name = n, os_Email = e, os_Test = t\<rparr>))))"

definition dec_orders_response :: "(string \<times> json) list \<Rightarrow> order_summary list option" where
  "dec_orders_response = farray ''orders'' (jstruct dec_summary) zero_summary"

text \<open>The first part of the header that says \<open>rel="next"\<close> and has a URL in angle brackets.\<close>

definition rel_next :: string where
  "rel_next = ''rel='' @ [CHR 0x22] @ ''next'' @ [CHR 0x22]"

definition angle_url :: "string \<Rightarrow> string option" where
  "angle_url part =
     (case Index part ''<'' of
        None \<Rightarrow> None
      | Some i \<Rightarrow> map_option (\<lambda>j. take j (drop (i + 1) part)) (Index (drop (i + 1) part) ''>''))"

fun next_part :: "string list \<Rightarrow> string" where
  "next_part [] = []"
| "next_part (part # ps) =
     (let p = TrimSpace part
      in if \<not> Contains p rel_next then next_part ps
         else case angle_url p of None \<Rightarrow> next_part ps | Some u \<Rightarrow> u)"

definition nextLink :: "string \<Rightarrow> string" where
  "nextLink h = next_part (Split (CHR '','') h)"

definition window_query :: "gtime \<Rightarrow> gtime \<Rightarrow> (string \<times> string) list" where
  "window_query since until =
     [(''fields'', ''id,name,email,processed_at,test''), (''financial_status'', ''paid''), (''limit'', ''250''),
      (''processed_at_max'', fmt_rfc3339 (UTC until)), (''processed_at_min'', fmt_rfc3339 (UTC since)),
      (''status'', ''any'')]"

definition orders_req :: "transactions_fetcher \<Rightarrow> string \<Rightarrow> (string \<times> string) list \<Rightarrow> http_req" where
  "orders_req f url q =
     \<lparr>rq_method = ''GET'', rq_url = url, rq_query = q,
      rq_headers = [(''X-Shopify-Access-Token'', tf_accessToken f)], rq_body = []\<rparr>"

text \<open>One page: the orders of a response, or the error the loop returns.\<close>

definition orders_page :: "http_outcome \<Rightarrow> (order_summary list \<times> string) res" where
  "orders_page oc =
     (case oc of
        TransportErr m \<Rightarrow> Inl (wrap_err ''orders.json'' (Errorf m))
      | ReadErr m \<Rightarrow> Inl (Errorf m)
      | Resp st link body \<Rightarrow>
          if st \<noteq> 200 then Inl (Errorf (''orders.json HTTP '' @ Itoa st @ '': '' @ TrimSpace body))
          else (case unmarshal (jstruct dec_orders_response) body of
                  None \<Rightarrow> Inl (wrap_err ''parsing orders.json'' json_error)
                | Some os \<Rightarrow> Inr (os, nextLink link)))"

lemma orders_page_dry: "orders_page (fst (http_do rq w)) = Inr x \<Longrightarrow> w_http w \<noteq> []"
  using http_do_dry [of w rq] by (auto simp: orders_page_def)

text \<open>The loop from its second test on; the script of responses bounds the number of pages.\<close>

function orders_loop ::
  "transactions_fetcher \<Rightarrow> http_req \<Rightarrow> order_summary list \<Rightarrow> world \<Rightarrow> order_summary list res \<times> world" where
  "orders_loop f rq seen w =
     (case http_do rq w of (oc, w') \<Rightarrow>
        (case orders_page oc of
           Inl e \<Rightarrow> (Inl e, w')
         | Inr (os, next) \<Rightarrow>
             if next = [] then (Inr (seen @ os), w')
             else orders_loop f (orders_req f next []) (seen @ os) w'))"
  by pat_completeness auto

termination
proof (relation "measure (\<lambda>(f, rq, seen, w). length (w_http w))", goal_cases)
  case (2 f rq seen w oc w' q os nxt)
  then have h: "http_do rq w = (oc, w')" "orders_page oc = Inr (os, nxt)" by simp_all
  have "w_http w \<noteq> []" by (rule orders_page_dry [of rq w "(os, nxt)"]) (simp add: h)
  moreover have "w_http w' = tl (w_http w)" using http_do_script [of rq w] by (simp add: h)
  ultimately show ?case by (cases "w_http w") auto
qed simp

declare orders_loop.simps [simp del]

definition listOrdersInWindow ::
  "transactions_fetcher \<Rightarrow> gtime \<Rightarrow> gtime \<Rightarrow> world \<Rightarrow> order_summary list res \<times> world" where
  "listOrdersInWindow f since until =
     orders_loop f (orders_req f (tf_baseURL f @ ''/orders.json'') (window_query since until)) []"

section \<open>An order's transactions\<close>

definition transactions_query :: string where
  "transactions_query =
     ''query($id: ID!) {'' @ nl @
     ''  order(id: $id) {'' @ nl @
     ''    transactions {'' @ nl @
     ''      id'' @ nl @
     ''      kind'' @ nl @
     ''      status'' @ nl @
     ''      gateway'' @ nl @
     ''      processedAt'' @ nl @
     ''      amountSet { shopMoney { amount currencyCode } }'' @ nl @
     ''      fees {'' @ nl @
     ''        amount { amount currencyCode }'' @ nl @
     ''        type'' @ nl @
     ''        taxAmount { amount currencyCode }'' @ nl @
     ''      }'' @ nl @
     ''      receiptJson'' @ nl @
     ''    }'' @ nl @
     ''  }'' @ nl @
     ''}''"

record graphql_money =
  gm_Amount :: string
  gm_CurrencyCode :: string

record graphql_transaction =
  gt_ID :: string
  gt_Kind :: string
  gt_Status :: string
  gt_Gateway :: string
  gt_ProcessedAt :: gtime
  gt_ShopMoney :: graphql_money
  gt_Fees :: "graphql_money list" \<comment> \<open>the \<open>amount\<close> of each fee\<close>
  gt_ReceiptJSON :: string

definition dec_money :: "(string \<times> json) list \<Rightarrow> graphql_money option" where
  "dec_money o1 =
     Option.bind (fstring ''amount'' o1) (\<lambda>a.
     Option.bind (fstring ''currencyCode'' o1) (\<lambda>c. Some \<lparr>gm_Amount = a, gm_CurrencyCode = c\<rparr>))"

definition zero_money :: graphql_money where
  "zero_money = \<lparr>gm_Amount = [], gm_CurrencyCode = []\<rparr>"

text \<open>A fee: its type and tax are decoded (and may make the document invalid) but not used.\<close>

definition dec_fee :: "(string \<times> json) list \<Rightarrow> graphql_money option" where
  "dec_fee o1 =
     Option.bind (fstruct ''amount'' dec_money o1) (\<lambda>a.
     Option.bind (fstring ''type'' o1) (\<lambda>_.
     Option.bind (fstruct ''taxAmount'' dec_money o1) (\<lambda>_. Some a)))"

text \<open>\<open>time.Time\<close> reads an RFC 3339 string.\<close>

fun jtime :: "json \<Rightarrow> gtime option" where
  "jtime (JStr s) = ParseRFC3339 s"
| "jtime _ = None"

definition ftime :: "string \<Rightarrow> (string \<times> json) list \<Rightarrow> gtime option" where
  "ftime name = jfield name jtime None zero_time"

definition dec_transaction :: "(string \<times> json) list \<Rightarrow> graphql_transaction option" where
  "dec_transaction o1 =
     Option.bind (fstring ''id'' o1) (\<lambda>i.
     Option.bind (fstring ''kind'' o1) (\<lambda>k.
     Option.bind (fstring ''status'' o1) (\<lambda>s.
     Option.bind (fstring ''gateway'' o1) (\<lambda>g.
     Option.bind (ftime ''processedAt'' o1) (\<lambda>t.
     Option.bind (fstruct ''amountSet'' (fstruct ''shopMoney'' dec_money) o1) (\<lambda>m.
     Option.bind (farray ''fees'' (jstruct dec_fee) zero_money o1) (\<lambda>fs.
     Option.bind (fstring ''receiptJson'' o1) (\<lambda>r.
       Some \<lparr>gt_ID = i, gt_Kind = k, gt_Status = s, gt_Gateway = g, gt_ProcessedAt = t, gt_ShopMoney = m,
             gt_Fees = fs, gt_ReceiptJSON = r\<rparr>))))))))"

definition zero_transaction :: graphql_transaction where
  "zero_transaction =
     \<lparr>gt_ID = [], gt_Kind = [], gt_Status = [], gt_Gateway = [], gt_ProcessedAt = zero_time,
      gt_ShopMoney = zero_money, gt_Fees = [], gt_ReceiptJSON = []\<rparr>"

text \<open>\<open>graphqlResponse\<close>: the transactions of \<open>data.order\<close>, and the messages of \<open>errors\<close>.\<close>

definition dec_transactions ::
  "(string \<times> json) list \<Rightarrow> (graphql_transaction list \<times> string list) option" where
  "dec_transactions o1 =
     Option.bind (fstruct ''data'' (fstruct ''order''
       (farray ''transactions'' (jstruct dec_transaction) zero_transaction)) o1) (\<lambda>ts.
     Option.bind (farray ''errors'' (jstruct (fstring ''message'')) [] o1) (\<lambda>es. Some (ts, es)))"

definition isKnownCardGateway :: "string \<Rightarrow> bool" where
  "isKnownCardGateway gw \<longleftrightarrow>
     gw \<in> {''shopify_payments'', ''paypal'', ''stripe'', ''amazon_payments'', ''klarna''}"

text \<open>\<open>parseTxnID\<close>: what follows the last slash, as a number, or 0.\<close>

definition parseTxnID :: "string \<Rightarrow> int" where
  "parseTxnID gid =
     (let tail = rev (takeWhile (\<lambda>c. c \<noteq> CHR ''/'') (rev gid))
      in if CHR ''/'' \<in> set gid \<and> tail \<noteq> []
         then (case ParseInt tail of Some i \<Rightarrow> i | None \<Rightarrow> 0) else 0)"

definition receipt_fee :: "string \<Rightarrow> float64 option" where
  "receipt_fee r =
     (if r = [] then None
      else case unmarshal (jstruct (fstring ''fee_amount'')) r of
             None \<Rightarrow> None
           | Some f \<Rightarrow> if f = [] then None else ParseFloat f)"

text \<open>\<open>extractFee\<close>, and whether it logs the warning about a missing fee.\<close>

definition extractFee :: "graphql_transaction \<Rightarrow> float64 \<times> bool" where
  "extractFee t =
     (if gt_Fees t \<noteq> [] then (fsum (List.map_filter (\<lambda>m. ParseFloat (gm_Amount m)) (gt_Fees t)), False)
      else case receipt_fee (gt_ReceiptJSON t) of
             Some f \<Rightarrow> (f, False)
           | None \<Rightarrow> (Fin 0, isKnownCardGateway (gt_Gateway t)))"

definition settled :: "graphql_transaction \<Rightarrow> bool" where
  "settled t \<longleftrightarrow> gt_Status t = ''SUCCESS'' \<and> (gt_Kind t = ''SALE'' \<or> gt_Kind t = ''CAPTURE'')"

definition to_transaction :: "int \<Rightarrow> string \<Rightarrow> string \<Rightarrow> graphql_transaction \<Rightarrow> float64 \<Rightarrow> shopify_transaction" where
  "to_transaction oid num email t gross =
     (let fee = fst (extractFee t)
      in \<lparr>tx_ID = parseTxnID (gt_ID t), tx_OrderID = oid, tx_OrderNumber = num, tx_CustomerEmail = email,
          tx_Gross = gross, tx_Fee = fee, tx_Net = fsub gross fee,
          tx_Currency = gm_CurrencyCode (gt_ShopMoney t), tx_PaymentGateway = gt_Gateway t,
          tx_ProcessedAt = gt_ProcessedAt t\<rparr>)"

fun collect_transactions ::
  "int \<Rightarrow> string \<Rightarrow> string \<Rightarrow> graphql_transaction list \<Rightarrow> shopify_transaction list res" where
  "collect_transactions oid num email [] = Inr []"
| "collect_transactions oid num email (t # ts) =
     (if \<not> settled t then collect_transactions oid num email ts
      else case ParseFloat (gm_Amount (gt_ShopMoney t)) of
             None \<Rightarrow> Inl (wrap_err (''parsing amount '' @ go_quote (gm_Amount (gt_ShopMoney t))) (Errorf ''invalid number''))
           | Some g \<Rightarrow> map_res ((#) (to_transaction oid num email t g)) (collect_transactions oid num email ts))"

definition transactions_req :: "transactions_fetcher \<Rightarrow> int \<Rightarrow> http_req" where
  "transactions_req f oid =
     \<lparr>rq_method = ''POST'', rq_url = tf_baseURL f @ ''/graphql.json'', rq_query = [],
      rq_headers = [(''X-Shopify-Access-Token'', tf_accessToken f), (''Content-Type'', ''application/json'')],
      rq_body = gql_body transactions_query
        (Some (JObj [(''id'', JStr (''gid://shopify/Order/'' @ Itoa oid))]))\<rparr>"

definition fetchGraphQL ::
  "transactions_fetcher \<Rightarrow> int \<Rightarrow> string \<Rightarrow> string \<Rightarrow> world \<Rightarrow> shopify_transaction list res \<times> world" where
  "fetchGraphQL f oid num email w =
     (case http_do (transactions_req f oid) w of
        (TransportErr m, w') \<Rightarrow> (Inl (wrap_err ''graphql call'' (Errorf m)), w')
      | (ReadErr m, w') \<Rightarrow> (Inl (wrap_err ''reading graphql response'' (Errorf m)), w')
      | (Resp st _ body, w') \<Rightarrow>
          (if st \<noteq> 200 then Inl (Errorf (''graphql HTTP '' @ Itoa st @ '': '' @ TrimSpace body))
           else case unmarshal (jstruct dec_transactions) body of
                  None \<Rightarrow> Inl (wrap_err ''parsing graphql response'' json_error)
                | Some (ts, es) \<Rightarrow>
                    if es \<noteq> [] then Inl (Errorf (''graphql errors: '' @ Join ''; '' es))
                    else collect_transactions oid num email ts, w'))"

definition FetchForOrder ::
  "transactions_fetcher \<Rightarrow> int \<Rightarrow> string \<Rightarrow> string \<Rightarrow> world \<Rightarrow> shopify_transaction list res \<times> world" where
  "FetchForOrder = fetchGraphQL"

section \<open>The window\<close>

definition in_window :: "gtime \<Rightarrow> gtime \<Rightarrow> shopify_transaction \<Rightarrow> bool" where
  "in_window since until t \<longleftrightarrow>
     \<not> (Before (tx_ProcessedAt t) since \<or> \<not> Before (tx_ProcessedAt t) until) \<and>
     tx_PaymentGateway t \<noteq> ''manual''"

text \<open>Test orders are skipped; an order whose transactions cannot be fetched is skipped too.\<close>

fun window_loop ::
  "transactions_fetcher \<Rightarrow> gtime \<Rightarrow> gtime \<Rightarrow> order_summary list \<Rightarrow> world \<Rightarrow> shopify_transaction list \<times> world" where
  "window_loop f since until [] w = ([], w)"
| "window_loop f since until (s # ss) w =
     (if os_Test s then window_loop f since until ss w
      else case FetchForOrder f (os_ID s) (os_Name s) (os_Email s) w of
             (Inl _, w1) \<Rightarrow> window_loop f since until ss w1
           | (Inr ts, w1) \<Rightarrow>
               (case window_loop f since until ss w1 of
                  (r, w2) \<Rightarrow> (filter (in_window since until) ts @ r, w2)))"

definition FetchOrdersInWindow ::
  "transactions_fetcher \<Rightarrow> gtime \<Rightarrow> gtime \<Rightarrow> world \<Rightarrow> shopify_transaction list res \<times> world" where
  "FetchOrdersInWindow f since until w =
     (case listOrdersInWindow f since until w of
        (Inl e, w1) \<Rightarrow> (Inl e, w1)
      | (Inr os, w1) \<Rightarrow> (case window_loop f since until os w1 of (ts, w2) \<Rightarrow> (Inr ts, w2)))"

end
