(* ===== verification/TransactionProps.thy ===== *)
theory TransactionProps
  imports Transactions StoreView
begin

text \<open>
  What the transaction fetcher returns: the listing is the pages along the links and nothing else, and the
  transactions of a window are settled, inside it, and of orders that are not test orders.
\<close>

section \<open>The listing\<close>

text \<open>An exchange is a request and how it ended; a chain follows the link of each page to the last one.\<close>

fun page_chain :: "transactions_fetcher \<Rightarrow> http_req \<Rightarrow> (http_req \<times> http_outcome) list \<Rightarrow> bool" where
  "page_chain f rq [] = False"
| "page_chain f rq ((q, oc) # xs) \<longleftrightarrow>
     q = rq \<and> (case orders_page oc of Inl _ \<Rightarrow> False
       | Inr (_, next) \<Rightarrow> if next = [] then xs = [] else page_chain f (orders_req f next []) xs)"

definition page_orders :: "http_outcome \<Rightarrow> order_summary list" where
  "page_orders oc = (case orders_page oc of Inl _ \<Rightarrow> [] | Inr (os, _) \<Rightarrow> os)"

lemma http_do_cons:
  "w_http w = (oc, dt) # r \<Longrightarrow> http_do rq w =
     (oc, w\<lparr>w_sent := w_sent w @ [rq], w_http := r, w_clock := w_clock w + int dt\<rparr>)"
  by (simp add: http_do_def)

lemma orders_loop_chain:
  "orders_loop f rq seen w = (Inr os, w') \<Longrightarrow>
     \<exists>xs. page_chain f rq xs \<and> os = seen @ concat (map (page_orders \<circ> snd) xs) \<and>
       map snd xs = map fst (take (length xs) (w_http w)) \<and> w_http w' = drop (length xs) (w_http w) \<and>
       w_sent w' = w_sent w @ map fst xs \<and> w_db w' = w_db w"
proof (induction f rq seen w rule: orders_loop.induct)
  case (1 f rq seen w)
  obtain oc w1 where h: "http_do rq w = (oc, w1)" by (rule prod.exhaust)
  from "1.prems" h obtain ps nxt where p: "orders_page oc = Inr (ps, nxt)"
    by (subst (asm) orders_loop.simps) (auto split: sum.splits)
  have ne: "w_http w \<noteq> []" by (rule orders_page_dry [of rq w "(ps, nxt)"]) (simp add: h p)
  then obtain dt r where w: "w_http w = (oc, dt) # r"
    using h http_do_cons [of w _ _ _ rq] by (cases "w_http w") auto
  have w1: "w_http w1 = r" "w_sent w1 = w_sent w @ [rq]" "w_db w1 = w_db w"
    using http_do_cons [OF w, of rq] h by auto
  have po: "page_orders oc = ps" by (simp add: page_orders_def p)
  show ?case
  proof (cases "nxt = []")
    case True
    with "1.prems" h p have "os = seen @ ps" "w' = w1" by (subst (asm) orders_loop.simps, simp)+
    with True p po w w1 show ?thesis by (intro exI [of _ "[(rq, oc)]"]) simp
  next
    case False
    with "1.prems" h p have "orders_loop f (orders_req f nxt []) (seen @ ps) w1 = (Inr os, w')"
      by (subst (asm) orders_loop.simps) simp
    from "1.IH" [OF h [symmetric] p refl False this] obtain xs where
      "page_chain f (orders_req f nxt []) xs" "os = (seen @ ps) @ concat (map (page_orders \<circ> snd) xs)"
      "map snd xs = map fst (take (length xs) r)" "w_http w' = drop (length xs) r"
      "w_sent w' = (w_sent w @ [rq]) @ map fst xs" "w_db w' = w_db w"
      unfolding w1 by blast
    with False p po w show ?thesis by (intro exI [of _ "(rq, oc) # xs"]) (simp add: comp_def)
  qed
qed

lemma orders_loop_requests:
  "length (w_sent (snd (orders_loop f rq seen w))) \<le> length (w_sent w) + length (w_http w) + 1"
proof (induction f rq seen w rule: orders_loop.induct)
  case (1 f rq seen w)
  obtain oc w1 where h: "http_do rq w = (oc, w1)" by (rule prod.exhaust)
  have s: "w_sent w1 = w_sent w @ [rq]" "w_http w1 = tl (w_http w)"
    using http_do_frame(6) [of rq w] http_do_script [of rq w] by (simp_all add: h)
  show ?case
  proof (cases "\<exists>ps nxt. orders_page oc = Inr (ps, nxt) \<and> nxt \<noteq> []")
    case True
    then obtain ps nxt where p: "orders_page oc = Inr (ps, nxt)" "nxt \<noteq> []" by blast
    have "w_http w \<noteq> []" by (rule orders_page_dry [of rq w "(ps, nxt)"]) (simp add: h p)
    then have n: "Suc (length (w_http w1)) \<le> length (w_http w)" using s(2) by (cases "w_http w") auto
    have "orders_loop f rq seen w = orders_loop f (orders_req f nxt []) (seen @ ps) w1"
      by (subst orders_loop.simps) (simp add: h p)
    moreover have "length (w_sent w1) = length (w_sent w) + 1" by (simp add: s(1))
    ultimately show ?thesis
      using "1.IH" [OF h [symmetric] p(1) refl p(2)] n by simp
  next
    case False
    with h s show ?thesis by (subst orders_loop.simps) (auto split: sum.splits)
  qed
qed


section \<open>The transactions\<close>

lemma collect_transactions_spec:
  "collect_transactions oid num email gs = Inr ts \<Longrightarrow> t \<in> set ts \<Longrightarrow>
     \<exists>g\<in>set gs. settled g \<and> ParseFloat (gm_Amount (gt_ShopMoney g)) = Some (tx_Gross t) \<and>
       t = to_transaction oid num email g (tx_Gross t)"
proof (induction gs arbitrary: ts)
  case (Cons g gs)
  show ?case
  proof (cases "settled g")
    case False
    with Cons show ?thesis by auto
  next
    case True
    then obtain x us where x: "ParseFloat (gm_Amount (gt_ShopMoney g)) = Some x"
      "collect_transactions oid num email gs = Inr us" "ts = to_transaction oid num email g x # us"
      using Cons.prems(1) by (cases "collect_transactions oid num email gs") (auto split: option.splits)
    show ?thesis
    proof (cases "t \<in> set us")
      case True
      with Cons.IH [OF x(2)] show ?thesis by auto
    next
      case False
      with Cons.prems(2) x(3) have "t = to_transaction oid num email g x" by simp
      with x(1) \<open>settled g\<close> show ?thesis by (simp add: to_transaction_def Let_def)
    qed
  qed
qed simp

definition genuine :: "order_summary \<Rightarrow> shopify_transaction \<Rightarrow> bool" where
  "genuine s t \<longleftrightarrow> tx_OrderID t = os_ID s \<and> tx_OrderNumber t = os_Name s \<and>
     tx_Net t = fsub (tx_Gross t) (tx_Fee t) \<and>
     (\<exists>g. settled g \<and> tx_Fee t = fst (extractFee g) \<and> tx_ProcessedAt t = gt_ProcessedAt g)"

lemma FetchForOrder_spec:
  assumes "FetchForOrder f (os_ID s) (os_Name s) (os_Email s) w = (Inr ts, w')" "t \<in> set ts"
  shows "genuine s t"
proof -
  obtain gs where c: "collect_transactions (os_ID s) (os_Name s) (os_Email s) gs = Inr ts"
    using assms(1) by (auto simp: FetchForOrder_def fetchGraphQL_def
        split: prod.splits http_outcome.splits if_splits option.splits)
  from collect_transactions_spec [OF c assms(2)] obtain g where
    "settled g" "t = to_transaction (os_ID s) (os_Name s) (os_Email s) g (tx_Gross t)" by blast
  then show ?thesis
    unfolding genuine_def by (metis (no_types, lifting) to_transaction_def shopify_transaction.select_convs)
qed

lemma window_loop_spec:
  "t \<in> set (fst (window_loop f since until os w)) \<Longrightarrow>
     in_window since until t \<and> (\<exists>s\<in>set os. \<not> os_Test s \<and> genuine s t)"
proof (induction os arbitrary: w)
  case (Cons s ss)
  show ?case
  proof (cases "os_Test s")
    case True
    with Cons show ?thesis by auto
  next
    case False
    obtain r w1 where f: "FetchForOrder f (os_ID s) (os_Name s) (os_Email s) w = (r, w1)" by (rule prod.exhaust)
    show ?thesis
    proof (cases r)
      case (Inl e)
      with Cons False f show ?thesis by auto
    next
      case (Inr ts)
      then have "t \<in> set ts \<and> in_window since until t \<or> t \<in> set (fst (window_loop f since until ss w1))"
        using Cons.prems False f by (auto split: prod.splits)
      with Cons.IH [of w1] FetchForOrder_spec [of f s w ts w1 t] False f Inr show ?thesis by auto
    qed
  qed
qed simp

text \<open>C32: every transaction of a window was settled at a time inside the half-open window, is not a manual
  payment, belongs to a listed order that is not a test order, and its net is the gross less the fee.\<close>

theorem window_transactions:
  assumes "FetchOrdersInWindow f since until w = (Inr ts, w')" "t \<in> set ts"
  shows "t_ns since \<le> t_ns (tx_ProcessedAt t) \<and> t_ns (tx_ProcessedAt t) < t_ns until \<and>
    tx_PaymentGateway t \<noteq> ''manual'' \<and>
    (\<exists>os w1 s. listOrdersInWindow f since until w = (Inr os, w1) \<and> s \<in> set os \<and> \<not> os_Test s \<and> genuine s t)"
proof -
  obtain l w1 where l: "listOrdersInWindow f since until w = (l, w1)" by (rule prod.exhaust)
  with assms(1) obtain os where os: "l = Inr os" "ts = fst (window_loop f since until os w1)"
    by (cases l) (auto simp: FetchOrdersInWindow_def split: prod.splits)
  from window_loop_spec [of t f since until os w1] assms(2) os l show ?thesis
    by (auto simp: in_window_def Before_def)
qed

section \<open>A window\<close>

definition demo_fetcher :: transactions_fetcher where
  "demo_fetcher = \<lparr>tf_baseURL = ''https://shop'', tf_accessToken = ''token''\<rparr>"

definition page_one :: string where
  \<open>page_one = ''{"orders":[{"id":1,"name":"#1"},{"id":2,"test":true}]}''\<close>

definition link_one :: string where
  \<open>link_one = ''<https://shop/p2>; rel="next"''\<close>

definition order_one :: string where
  \<open>order_one = ''{"data":{"order":{"transactions":[{"kind":"SALE","status":"SUCCESS","amountSet":{"shopMoney":{"amount":"8"}}}]}}}''\<close>

definition demo_orders :: world where
  "demo_orders = empty_world\<lparr>w_http := [(Resp 200 link_one page_one, 0), (Resp 200 [] ''{}'', 0), (Resp 200 [] order_one, 0)]\<rparr>"

definition summary_one :: order_summary where
  "summary_one = zero_summary\<lparr>os_ID := 1, os_Name := ''#1''\<rparr>"

lemma demo_link: "nextLink link_one = ''https://shop/p2''" "nextLink [] = []"
  by code_simp+

lemma demo_pages:
  "unmarshal (jstruct dec_orders_response) page_one = Some [summary_one, zero_summary\<lparr>os_ID := 2, os_Test := True\<rparr>]"
  "unmarshal (jstruct dec_orders_response) ''{}'' = Some []"
  by code_simp+

lemma demo_orders_page:
  "orders_page (Resp 200 link_one page_one) =
     Inr ([summary_one, zero_summary\<lparr>os_ID := 2, os_Test := True\<rparr>], ''https://shop/p2'')"
  "orders_page (Resp 200 [] ''{}'') = Inr ([], [])"
  by (simp_all add: orders_page_def demo_link demo_pages)

lemma demo_listing: "\<exists>w1. listOrdersInWindow demo_fetcher since until demo_orders =
    (Inr [summary_one, zero_summary\<lparr>os_ID := 2, os_Test := True\<rparr>], w1) \<and> w_http w1 = [(Resp 200 [] order_one, 0)] \<and>
    length (w_sent w1) = 2"
  by (simp add: listOrdersInWindow_def orders_loop.simps http_do_def demo_orders_def demo_orders_page empty_world_def)


definition demo_settled :: shopify_transaction where
  "demo_settled = \<lparr>tx_ID = 0, tx_OrderID = 1, tx_OrderNumber = ''#1'', tx_CustomerEmail = [], tx_Gross = Fin 8,
     tx_Fee = Fin 0, tx_Net = Fin 8, tx_Currency = [], tx_PaymentGateway = [], tx_ProcessedAt = zero_time\<rparr>"

definition demo_graph :: graphql_transaction where
  "demo_graph = zero_transaction\<lparr>gt_Kind := ''SALE'', gt_Status := ''SUCCESS'', gt_ShopMoney := zero_money\<lparr>gm_Amount := ''8''\<rparr>\<rparr>"

lemma demo_graph_decoded: "unmarshal (jstruct dec_transactions) order_one = Some ([demo_graph], [])"
  by code_simp

lemma demo_collected: "collect_transactions 1 ''#1'' [] [demo_graph] = Inr [demo_settled]"
  by code_simp

lemma demo_fetched: "\<exists>w2. FetchForOrder demo_fetcher 1 ''#1'' [] (w\<lparr>w_http := [(Resp 200 [] order_one, 0)]\<rparr>) = (Inr [demo_settled], w2)"
  using demo_collected by (simp add: FetchForOrder_def fetchGraphQL_def http_do_def demo_graph_decoded)

theorem window_transactions_witness:
  "\<exists>ts w'. FetchOrdersInWindow demo_fetcher zero_time (AddTime zero_time 1) demo_orders = (Inr ts, w') \<and>
     ts = [demo_settled] \<and> tx_PaymentGateway demo_settled \<noteq> ''manual''"
proof -
  obtain w1 where l: "listOrdersInWindow demo_fetcher zero_time (AddTime zero_time 1) demo_orders =
      (Inr [summary_one, zero_summary\<lparr>os_ID := 2, os_Test := True\<rparr>], w1)" "w_http w1 = [(Resp 200 [] order_one, 0)]"
    using demo_listing by blast
  have w1: "w1\<lparr>w_http := [(Resp 200 [] order_one, 0)]\<rparr> = w1" using l(2) by simp
  obtain w2 where f: "FetchForOrder demo_fetcher 1 ''#1'' [] w1 = (Inr [demo_settled], w2)"
    using demo_fetched [of w1] unfolding w1 by blast
  have "in_window zero_time (AddTime zero_time 1) demo_settled"
    by (simp add: in_window_def demo_settled_def Before_def AddTime_def zero_time_def)
  then have w: "FetchOrdersInWindow demo_fetcher zero_time (AddTime zero_time 1) demo_orders = (Inr [demo_settled], w2)"
    by (simp add: FetchOrdersInWindow_def l f summary_one_def zero_summary_def)
  from w window_transactions [OF w, of demo_settled] show ?thesis by auto
qed

end
