(* ===== verification/Csv.thy ===== *)
theory Csv
  imports GoStrings
begin

text \<open>
  Go's \<open>csv.Writer\<close> with its default settings (comma, LF), and a reader of RFC 4180 as the reference: what
  the writer prints, any reader of the format takes apart again.
\<close>

section \<open>The writer\<close>

definition csv_special :: "char \<Rightarrow> bool" where
  "csv_special c \<longleftrightarrow> c = CHR '','' \<or> c = CHR 0x22 \<or> c = CHR 0x0A \<or> c = CHR 0x0D"

text \<open>\<open>fieldNeedsQuotes\<close>.\<close>

definition needs_quotes :: "string \<Rightarrow> bool" where
  "needs_quotes f \<longleftrightarrow>
     f \<noteq> [] \<and> (f = [CHR 0x5C, CHR ''.''] \<or> list_ex csv_special f \<or> list_ex (HasPrefix f) space_runes)"

definition csv_escape :: "string \<Rightarrow> string" where
  "csv_escape f = concat (map (\<lambda>c. if c = CHR 0x22 then [c, c] else [c]) f)"

definition csv_field :: "string \<Rightarrow> string" where
  "csv_field f = (if needs_quotes f then [CHR 0x22] @ csv_escape f @ [CHR 0x22] else f)"

definition csv_row :: "string list \<Rightarrow> string" where
  "csv_row fs = Join '','' (map csv_field fs) @ [CHR 0x0A]"

definition csv_rows :: "string list list \<Rightarrow> string" where
  "csv_rows rows = concat (map csv_row rows)"

section \<open>A reader\<close>

text \<open>
  At the start of a field; inside an unquoted or a quoted one; after a quote inside a quoted one. The
  field read so far is reversed, the record so far is in order.
\<close>

datatype csv_mode = CStart | CPlain string | CQuoted string | CQuote string

fun csv_read :: "csv_mode \<Rightarrow> string list \<Rightarrow> string \<Rightarrow> string list list option" where
  "csv_read CStart fs [] = (if fs = [] then Some [] else None)"
| "csv_read m fs [] = None"
| "csv_read CStart fs (c # s) =
     (if c = CHR 0x22 then csv_read (CQuoted []) fs s
      else if c = CHR '','' then csv_read CStart (fs @ [[]]) s
      else if c = CHR 0x0A then map_option ((#) (fs @ [[]])) (csv_read CStart [] s)
      else csv_read (CPlain [c]) fs s)"
| "csv_read (CPlain a) fs (c # s) =
     (if c = CHR 0x22 then None
      else if c = CHR '','' then csv_read CStart (fs @ [rev a]) s
      else if c = CHR 0x0A then map_option ((#) (fs @ [rev a])) (csv_read CStart [] s)
      else csv_read (CPlain (c # a)) fs s)"
| "csv_read (CQuoted a) fs (c # s) =
     (if c = CHR 0x22 then csv_read (CQuote a) fs s else csv_read (CQuoted (c # a)) fs s)"
| "csv_read (CQuote a) fs (c # s) =
     (if c = CHR 0x22 then csv_read (CQuoted (c # a)) fs s
      else if c = CHR '','' then csv_read CStart (fs @ [rev a]) s
      else if c = CHR 0x0A then map_option ((#) (fs @ [rev a])) (csv_read CStart [] s)
      else None)"

definition csv_parse :: "string \<Rightarrow> string list list option" where
  "csv_parse = csv_read CStart []"

section \<open>What is written is read back\<close>

lemma read_escaped: "csv_read (CQuoted a) fs (csv_escape f @ CHR 0x22 # s) = csv_read (CQuote (rev f @ a)) fs s"
  by (induction f arbitrary: a) (auto simp: csv_escape_def)

lemma read_plain: "\<not> list_ex csv_special f \<Longrightarrow> csv_read (CPlain a) fs (f @ s) = csv_read (CPlain (rev f @ a)) fs s"
  by (induction f arbitrary: a) (auto simp: csv_special_def)

text \<open>A written field, followed by a comma or the end of the line.\<close>

lemma read_field:
  "csv_read CStart fs (csv_field f @ CHR '','' # s) = csv_read CStart (fs @ [f]) s"
  "csv_read CStart fs (csv_field f @ CHR 0x0A # s) = map_option ((#) (fs @ [f])) (csv_read CStart [] s)"
proof -
  have "csv_read CStart fs (csv_field f @ CHR '','' # s) = csv_read CStart (fs @ [f]) s \<and>
      csv_read CStart fs (csv_field f @ CHR 0x0A # s) = map_option ((#) (fs @ [f])) (csv_read CStart [] s)"
  proof (cases "needs_quotes f")
    case True
    then show ?thesis by (simp add: csv_field_def read_escaped)
  next
    case False
    show ?thesis
    proof (cases f)
      case Nil
      then show ?thesis by (simp add: csv_field_def needs_quotes_def)
    next
      case (Cons c r)
      with False have "\<not> csv_special c" "\<not> list_ex csv_special r" by (auto simp: needs_quotes_def)
      then show ?thesis
        using Cons False by (simp add: csv_field_def read_plain csv_special_def)
    qed
  qed
  then show "csv_read CStart fs (csv_field f @ CHR '','' # s) = csv_read CStart (fs @ [f]) s"
    "csv_read CStart fs (csv_field f @ CHR 0x0A # s) = map_option ((#) (fs @ [f])) (csv_read CStart [] s)"
    by blast+
qed

lemma read_row: "row \<noteq> [] \<Longrightarrow>
  csv_read CStart fs (csv_row row @ s) = map_option ((#) (fs @ row)) (csv_read CStart [] s)"
proof (induction row arbitrary: fs)
  case (Cons f row)
  show ?case
  proof (cases row)
    case Nil
    then show ?thesis by (simp add: csv_row_def read_field)
  next
    case (Cons g r)
    then have "csv_row (f # row) @ s = csv_field f @ CHR '','' # (csv_row row @ s)" by (simp add: csv_row_def)
    then show ?thesis
      using Cons.IH [of "fs @ [f]"] Cons by (simp add: read_field)
  qed
qed simp

lemma csv_parse_rows: "[] \<notin> set rows \<Longrightarrow> csv_parse (csv_rows rows) = Some rows"
  by (induction rows) (auto simp: csv_parse_def csv_rows_def read_row)

end
