(* ===== verification/Report.thy ===== *)
theory Report
  imports Csv Transactions "HOL-Library.Product_Lexorder"
begin

text \<open>
  \<open>internal/payments/report.go\<close>, and the parts of \<open>intake.go\<close> that compute a report: the CSV documents, the
  totals, the sanity checks and the HTML body. Writing to a \<open>bytes.Buffer\<close> cannot fail, so the errors the
  builders could return do not exist.
\<close>

definition pound :: string where "pound = [CHR 0xC2, CHR 0xA3]"

definition em_dash :: string where "em_dash = [CHR 0xE2, CHR 0x80, CHR 0x94]"

definition right_arrow :: string where "right_arrow = [CHR 0xE2, CHR 0x86, CHR 0x92]"

definition warning_sign :: string where "warning_sign = [CHR 0xE2, CHR 0x9A, CHR 0xA0]"

text \<open>The byte order mark the documents start with.\<close>

definition bom :: string where "bom = [CHR 0xEF, CHR 0xBB, CHR 0xBF]"

section \<open>The cash receipts\<close>

text \<open>Stable, by time and then by transaction id.\<close>

definition sort_transactions :: "shopify_transaction list \<Rightarrow> shopify_transaction list" where
  "sort_transactions = sort_key (\<lambda>t. (t_ns (tx_ProcessedAt t), tx_ID t))"

definition cash_header :: "string list" where
  "cash_header = [''Customer (SYSPRO)'', ''Shopify Reference'', ''Order Value'', ''Charges'', ''Receipt Value'']"

definition cash_row :: "shopify_transaction \<Rightarrow> string list" where
  "cash_row t =
     [''WEBS01'', tx_OrderNumber t, pound @ fmt2 (tx_Gross t), pound @ fmt2 (tx_Fee t), pound @ fmt2 (tx_Net t)]"

definition BuildCSV :: "gtime \<Rightarrow> shopify_transaction list \<Rightarrow> string" where
  "BuildCSV date ts = bom @ csv_rows (cash_header # map cash_row (sort_transactions ts))"

definition range_row :: "shopify_transaction \<Rightarrow> string list" where
  "range_row t = fmt_date (UTC (tx_ProcessedAt t)) # cash_row t"

definition BuildRangeCSV :: "gtime \<Rightarrow> gtime \<Rightarrow> shopify_transaction list \<Rightarrow> string" where
  "BuildRangeCSV start stop ts = bom @ csv_rows ((''Date'' # cash_header) # map range_row (sort_transactions ts))"

definition ValidateCashReceiptCSV :: "shopify_transaction list \<Rightarrow> string" where
  "ValidateCashReceiptCSV ts =
     (if ts = [] then []
      else if feq (fsum (map tx_Fee ts)) (Fin 0)
        then Itoa (int (length ts)) @ '' transactions but zero processor fees in total '' @ em_dash @
          '' likely a fee-extraction bug. Cross-check Shopify admin '' @ right_arrow @ '' Finances '' @
          right_arrow @ '' Payouts.''
      else if feq (fsum (map tx_Gross ts)) (Fin 0)
        then Itoa (int (length ts)) @ '' transactions but zero gross total '' @ em_dash @
          '' listing or amount parse broken.''
      else [])"

definition SummariseTotals :: "shopify_transaction list \<Rightarrow> float64 \<times> float64 \<times> float64 \<times> int" where
  "SummariseTotals ts =
     (fsum (map tx_Gross ts), fsum (map tx_Fee ts), fsum (map tx_Net ts), int (length ts))"

section \<open>The order intake\<close>

record intake_summary =
  is_Count :: int
  is_GrossTotal :: float64
  is_Pending :: int
  is_Submitted :: int
  is_Fulfilled :: int
  is_Failed :: int
  is_DeadLetter :: int
  is_Cancelled :: int
  is_Stuck :: int

text \<open>Submitted without a SYSPRO number: the fulfilment syncer never sees such an order.\<close>

definition stuck_order :: "order \<Rightarrow> bool" where
  "stuck_order r \<longleftrightarrow> Status r = OrderStatusSubmitted \<and> SysproOrderNumber r = []"

definition tally :: "intake_summary \<Rightarrow> order \<Rightarrow> intake_summary" where
  "tally s r =
     (let s = s\<lparr>is_GrossTotal := fadd (is_GrossTotal s) (PaymentAmount r)\<rparr>
      in case Status r of
           OrderStatusPending \<Rightarrow> s\<lparr>is_Pending := is_Pending s + 1\<rparr>
         | OrderStatusProcessing \<Rightarrow> s\<lparr>is_Pending := is_Pending s + 1\<rparr>
         | OrderStatusSubmitted \<Rightarrow>
             s\<lparr>is_Submitted := is_Submitted s + 1, is_Stuck := is_Stuck s + (if SysproOrderNumber r = [] then 1 else 0)\<rparr>
         | OrderStatusFulfilled \<Rightarrow> s\<lparr>is_Fulfilled := is_Fulfilled s + 1\<rparr>
         | OrderStatusFailed \<Rightarrow> s\<lparr>is_Failed := is_Failed s + 1\<rparr>
         | OrderStatusDeadLetter \<Rightarrow> s\<lparr>is_DeadLetter := is_DeadLetter s + 1\<rparr>
         | OrderStatusCancelled \<Rightarrow> s\<lparr>is_Cancelled := is_Cancelled s + 1\<rparr>)"

definition summariseIntake :: "order list \<Rightarrow> intake_summary" where
  "summariseIntake rs =
     foldl tally \<lparr>is_Count = int (length rs), is_GrossTotal = Fin 0, is_Pending = 0, is_Submitted = 0,
       is_Fulfilled = 0, is_Failed = 0, is_DeadLetter = 0, is_Cancelled = 0, is_Stuck = 0\<rparr> rs"

definition weekday_name :: "int \<Rightarrow> string" where
  "weekday_name n = [''Sunday'', ''Monday'', ''Tuesday'', ''Wednesday'', ''Thursday'', ''Friday'', ''Saturday''] ! nat n"

definition ValidateIntakeAnomalies :: "order list \<Rightarrow> gtime \<Rightarrow> string list" where
  "ValidateIntakeAnomalies rs day =
     (let wd = Weekday (UTC day) in
      if rs = []
      then (if 1 \<le> wd \<and> wd \<le> 5
            then [''Zero orders on a business day ('' @ weekday_name wd @ '') '' @ em_dash @
                  '' likely the orders listing query is broken or Shopify webhooks are not arriving.'']
            else [])
      else
        (if list_ex (\<lambda>r. flt (Fin 0) (PaymentAmount r)) rs then []
         else [Itoa (int (length rs)) @ '' orders but every payment_amount is zero '' @ em_dash @
               '' likely the payment field is being lost.'']) @
        (if list_all stuck_order rs
         then [''All '' @ Itoa (int (length rs)) @ '' orders are in '' @ [CHR 0x27] @ ''submitted'' @ [CHR 0x27] @
               '' state with no SYSPRO sales-order number '' @ em_dash @
               '' BBQ1026 fingerprint, batch processor writeback may be broken.'']
         else []))"

text \<open>\<open>html.EscapeString\<close>.\<close>

definition html_escape :: "string \<Rightarrow> string" where
  "html_escape s = concat (map (\<lambda>c.
     if c = CHR ''&'' then ''&amp;'' else if c = CHR 0x27 then ''&#39;'' else if c = CHR ''<'' then ''&lt;''
     else if c = CHR ''>'' then ''&gt;'' else if c = CHR 0x22 then ''&#34;'' else [c]) s)"

definition anomaly_html :: "string list \<Rightarrow> string" where
  \<open>anomaly_html as =
     (if as = [] then []
      else ''<div style="background:#fee;border:2px solid #b33;padding:12px;margin-bottom:16px">'' @ nl @
        ''<p style="margin:0 0 8px 0"><strong style="color:#b33">'' @ warning_sign @
        '' DATA ANOMALY DETECTED</strong></p>'' @ nl @
        ''<ul style="margin:0 0 0 16px;padding:0">'' @ nl @
        concat (map (\<lambda>a. ''<li>'' @ html_escape a @ ''</li>'' @ nl) as) @
        ''</ul>'' @ nl @
        ''<p style="margin:8px 0 0 0">Cross-check the figures below against Shopify admin before acting on them.</p>'' @ nl @
        ''</div>'' @ nl)\<close>

definition count_html :: "string \<Rightarrow> int \<Rightarrow> string" where
  "count_html label n = ''<li>'' @ label @ '': '' @ Itoa n @ ''</li>'' @ nl"

definition buildIntakeHTML :: "gtime \<Rightarrow> string \<Rightarrow> intake_summary \<Rightarrow> string list \<Rightarrow> string" where
  \<open>buildIntakeHTML date storeTag s as =
     anomaly_html as @
     ''<p>Order intake for <strong>'' @ html_escape storeTag @ ''</strong> on <strong>'' @ fmt_date date @
     ''</strong>.</p>'' @ nl @ ''<ul>'' @ nl @
     ''<li>Orders received: <strong>'' @ Itoa (is_Count s) @ ''</strong></li>'' @ nl @
     ''<li>Gross total: <strong>'' @ pound @ fmt2 (is_GrossTotal s) @ ''</strong></li>'' @ nl @
     ''</ul>'' @ nl @ ''<p><strong>Pipeline status breakdown:</strong></p>'' @ nl @ ''<ul>'' @ nl @
     count_html ''Pending in queue'' (is_Pending s) @
     count_html ''Submitted to SYSPRO'' (is_Submitted s) @
     count_html ''Fulfilled'' (is_Fulfilled s) @
     count_html ''Failed'' (is_Failed s) @
     count_html ''Dead-lettered'' (is_DeadLetter s) @
     count_html ''Cancelled'' (is_Cancelled s) @
     (if 0 < is_Stuck s
      then ''<li><strong style="color:#b33">Stuck (submitted but no SYSPRO number): '' @ Itoa (is_Stuck s) @ '' '' @
        em_dash @ '' needs manual review</strong></li>'' @ nl
      else []) @
     ''</ul>'' @ nl @ ''<p>Full per-order breakdown attached as CSV.</p>'' @ nl\<close>

definition intake_header :: "string list" where
  "intake_header = [''Order Number'', ''Shopify Order ID'', ''Status'', ''SYSPRO SO'', ''Payment Ref'', ''Total'',
     ''Attempts'', ''Last Error'', ''Customer'', ''Created (UTC)'']"

definition intake_customer :: "order \<Rightarrow> string" where
  "intake_customer r =
     (let c = TrimSpace (ShipFirstName r @ '' '' @ ShipLastName r) in if c = [] then ShipEmail r else c)"

definition intake_row :: "order \<Rightarrow> string list" where
  "intake_row r =
     [OrderNumber r, Itoa (ShopifyOrderID r), status_str (Status r), SysproOrderNumber r, PaymentReference r,
      pound @ fmt2 (PaymentAmount r), Itoa (Attempts r), LastError r, intake_customer r,
      fmt_rfc3339 (UTC (CreatedAt r))]"

definition buildIntakeCSV :: "order list \<Rightarrow> string" where
  "buildIntakeCSV rs = bom @ csv_rows (intake_header # map intake_row rs)"

end
