(* ===== verification/ReportProps.thy ===== *)
theory ReportProps
  imports Report StoreView
begin

text \<open>
  The documents of the daily reports: what a CSV reader finds in them, and what the figures of the order
  intake count.
\<close>

section \<open>The CSV documents\<close>

lemma sort_transactions_perm: "mset (sort_transactions ts) = mset ts"
  by (simp add: sort_transactions_def)

lemma sort_transactions_sorted:
  "sorted_wrt (\<lambda>a b. t_ns (tx_ProcessedAt a) < t_ns (tx_ProcessedAt b) \<or>
     t_ns (tx_ProcessedAt a) = t_ns (tx_ProcessedAt b) \<and> tx_ID a \<le> tx_ID b) (sort_transactions ts)"
proof -
  have "sorted (map (\<lambda>t. (t_ns (tx_ProcessedAt t), tx_ID t)) (sort_transactions ts))"
    by (simp add: sort_transactions_def)
  then show ?thesis
    unfolding sorted_map by (rule sorted_wrt_mono_rel [rotated]) (auto simp: less_eq_prod_simp)
qed

lemma csv_parse_document:
  assumes "h \<noteq> []" "\<And>x. f x \<noteq> []"
  shows "csv_parse (csv_rows (h # map f xs)) = Some (h # map f xs)"
  by (rule csv_parse_rows) (use assms in \<open>auto simp: eq_commute [of "[]"]\<close>)

lemma bom_take: "take 3 (bom @ s) = bom" "drop 3 (bom @ s) = s"
  by (simp_all add: bom_def)

lemma row_shapes: "cash_header \<noteq> []" "cash_row t \<noteq> []" "range_row t \<noteq> []" "intake_header \<noteq> []" "intake_row r \<noteq> []"
  by (simp_all add: cash_header_def cash_row_def range_row_def intake_header_def intake_row_def)

text \<open>C33: a reader of the format finds in the cash-receipt document, after the byte order mark, the header and
  one row for each transaction, whatever characters the fields hold; the rows are the transactions in
  order of settlement, then of id.\<close>

theorem cash_csv_roundtrip:
  "\<exists>sorted. mset sorted = mset ts \<and>
     sorted_wrt (\<lambda>a b. t_ns (tx_ProcessedAt a) < t_ns (tx_ProcessedAt b) \<or>
       t_ns (tx_ProcessedAt a) = t_ns (tx_ProcessedAt b) \<and> tx_ID a \<le> tx_ID b) sorted \<and>
     take 3 (BuildCSV date ts) = bom \<and>
     csv_parse (drop 3 (BuildCSV date ts)) = Some (cash_header # map cash_row sorted) \<and>
     csv_parse (drop 3 (BuildRangeCSV start stop ts)) = Some ((''Date'' # cash_header) # map range_row sorted)"
  by (rule exI [of _ "sort_transactions ts"])
    (simp add: sort_transactions_perm sort_transactions_sorted BuildCSV_def BuildRangeCSV_def csv_parse_document
      row_shapes bom_take del: take_append drop_append)

lemma intake_csv_parse: "csv_parse (drop 3 (buildIntakeCSV rs)) = Some (intake_header # map intake_row rs)"
  by (simp add: buildIntakeCSV_def csv_parse_document row_shapes bom_take del: take_append drop_append)

section \<open>The figures of the intake\<close>

definition count_of :: "order_status list \<Rightarrow> order list \<Rightarrow> int" where
  "count_of sts rs = int (length (filter (\<lambda>r. Status r \<in> set sts) rs))"

lemma tally_one:
  "is_Count (tally s r) = is_Count s \<and> is_GrossTotal (tally s r) = fadd (is_GrossTotal s) (PaymentAmount r) \<and>
   is_Pending (tally s r) = is_Pending s + count_of [OrderStatusPending, OrderStatusProcessing] [r] \<and>
   is_Submitted (tally s r) = is_Submitted s + count_of [OrderStatusSubmitted] [r] \<and>
   is_Fulfilled (tally s r) = is_Fulfilled s + count_of [OrderStatusFulfilled] [r] \<and>
   is_Failed (tally s r) = is_Failed s + count_of [OrderStatusFailed] [r] \<and>
   is_DeadLetter (tally s r) = is_DeadLetter s + count_of [OrderStatusDeadLetter] [r] \<and>
   is_Cancelled (tally s r) = is_Cancelled s + count_of [OrderStatusCancelled] [r] \<and>
   is_Stuck (tally s r) = is_Stuck s + (if stuck_order r then 1 else 0)"
  by (cases "Status r") (simp_all add: tally_def count_of_def stuck_order_def)

lemma tally_fold:
  "is_Count (foldl tally s rs) = is_Count s \<and>
   is_GrossTotal (foldl tally s rs) = foldl fadd (is_GrossTotal s) (map PaymentAmount rs) \<and>
   is_Pending (foldl tally s rs) = is_Pending s + count_of [OrderStatusPending, OrderStatusProcessing] rs \<and>
   is_Submitted (foldl tally s rs) = is_Submitted s + count_of [OrderStatusSubmitted] rs \<and>
   is_Fulfilled (foldl tally s rs) = is_Fulfilled s + count_of [OrderStatusFulfilled] rs \<and>
   is_Failed (foldl tally s rs) = is_Failed s + count_of [OrderStatusFailed] rs \<and>
   is_DeadLetter (foldl tally s rs) = is_DeadLetter s + count_of [OrderStatusDeadLetter] rs \<and>
   is_Cancelled (foldl tally s rs) = is_Cancelled s + count_of [OrderStatusCancelled] rs \<and>
   is_Stuck (foldl tally s rs) = is_Stuck s + int (length (filter stuck_order rs))"
proof (induction rs arbitrary: s)
  case (Cons r rs)
  show ?case
    using tally_one [of s r]
    by (cases "Status r") (simp_all add: Cons.IH count_of_def stuck_order_def)
qed (simp add: count_of_def)

lemma status_partition:
  "count_of [OrderStatusPending, OrderStatusProcessing] rs + count_of [OrderStatusSubmitted] rs +
   count_of [OrderStatusFulfilled] rs + count_of [OrderStatusFailed] rs + count_of [OrderStatusDeadLetter] rs +
   count_of [OrderStatusCancelled] rs = int (length rs)"
proof (induction rs)
  case (Cons r rs)
  then show ?case by (cases "Status r") (simp_all add: count_of_def)
qed (simp add: count_of_def)

text \<open>The figures of the order-intake report partition the orders of the day: each order is in exactly one
  status figure, the stuck figure counts the submitted orders without a SYSPRO number, and the total is
  the sum of the payments.\<close>

theorem intake_figures_partition:
  "is_Count (summariseIntake rs) = int (length rs) \<and>
   is_Pending (summariseIntake rs) + is_Submitted (summariseIntake rs) + is_Fulfilled (summariseIntake rs) +
     is_Failed (summariseIntake rs) + is_DeadLetter (summariseIntake rs) + is_Cancelled (summariseIntake rs) =
     is_Count (summariseIntake rs) \<and>
   is_Stuck (summariseIntake rs) = int (length (filter stuck_order rs)) \<and>
   is_Stuck (summariseIntake rs) \<le> is_Submitted (summariseIntake rs) \<and>
   is_GrossTotal (summariseIntake rs) = fsum (map PaymentAmount rs)"
proof -
  let ?s = "\<lparr>is_Count = int (length rs), is_GrossTotal = Fin 0, is_Pending = 0, is_Submitted = 0,
       is_Fulfilled = 0, is_Failed = 0, is_DeadLetter = 0, is_Cancelled = 0, is_Stuck = 0\<rparr>"
  have "length (filter stuck_order rs) \<le> length (filter (\<lambda>r. Status r \<in> set [OrderStatusSubmitted]) rs)"
    by (induction rs) (auto simp: stuck_order_def)
  then show ?thesis
    using tally_fold [of ?s rs] status_partition [of rs]
    by (simp add: summariseIntake_def fsum_def count_of_def)
qed

end
