(* ===== verification/Mailer.thy ===== *)
theory Mailer
  imports ShopifyGql Hmac
begin

text \<open>
  \<open>internal/payments/mailer.go\<close>: mail through Microsoft Graph. The state is the world, the cached token of
  the mailer, and (for the reporters that use it) the files below the report directories, with a script of
  how each file operation ends. A body of which only a part could be read is the part (the mailer ignores
  that error).
\<close>

section \<open>The state\<close>

datatype fs_event = FsOk | FsFail string | FsTorn nat string \<comment> \<open>so many bytes written, then an error\<close>

record office =
  of_world :: world
  of_token :: string
  of_tokenExp :: gtime
  of_files :: "string \<rightharpoonup> string"
  of_fs :: "fs_event list"

definition in_world :: "(world \<Rightarrow> 'a \<times> world) \<Rightarrow> office \<Rightarrow> 'a \<times> office" where
  "in_world f s = (case f (of_world s) of (x, w) \<Rightarrow> (x, s\<lparr>of_world := w\<rparr>))"

definition office_now :: "office \<Rightarrow> gtime" where
  "office_now s = now (of_world s)"

section \<open>Escaping\<close>

definition unreserved :: "char \<Rightarrow> bool" where
  "unreserved c \<longleftrightarrow>
     (let n = of_char c :: int in 97 \<le> n \<and> n \<le> 122 \<or> 65 \<le> n \<and> n \<le> 90 \<or> 48 \<le> n \<and> n \<le> 57) \<or>
     c \<in> set ''-_.~''"

definition percent :: "char \<Rightarrow> string" where
  "percent c = (let n = of_char c :: int in
     [CHR ''%'', ''0123456789ABCDEF'' ! nat (n div 16), ''0123456789ABCDEF'' ! nat (n mod 16)])"

text \<open>\<open>url.PathEscape\<close> and \<open>url.QueryEscape\<close>.\<close>

definition PathEscape :: "string \<Rightarrow> string" where
  "PathEscape s = concat (map (\<lambda>c. if unreserved c \<or> c \<in> set ''$&+:=@'' then [c] else percent c) s)"

definition QueryEscape :: "string \<Rightarrow> string" where
  "QueryEscape s =
     concat (map (\<lambda>c. if unreserved c then [c] else if c = CHR '' '' then ''+'' else percent c) s)"

text \<open>\<open>url.Values.Encode\<close> for members in order of their keys.\<close>

definition form_encode :: "(string \<times> string) list \<Rightarrow> string" where
  "form_encode kvs = Join ''&'' (map (\<lambda>(k, v). QueryEscape k @ ''='' @ QueryEscape v) kvs)"

section \<open>The mailer\<close>

record mailer_config =
  mc_TenantID :: string
  mc_ClientID :: string
  mc_ClientSecret :: string
  mc_SenderMailbox :: string
  mc_GraphBaseURL :: string
  mc_TokenBaseURL :: string

record attachment =
  att_Filename :: string
  att_ContentType :: string
  att_Body :: string

definition incomplete :: "mailer_config \<Rightarrow> bool" where
  "incomplete c \<longleftrightarrow> mc_TenantID c = [] \<or> mc_ClientID c = [] \<or> mc_ClientSecret c = [] \<or> mc_SenderMailbox c = []"

definition token_url :: "mailer_config \<Rightarrow> string" where
  "token_url c =
     (if mc_TokenBaseURL c = [] then ''https://login.microsoftonline.com'' else mc_TokenBaseURL c) @
     ''/'' @ PathEscape (mc_TenantID c) @ ''/oauth2/v2.0/token''"

definition token_req :: "mailer_config \<Rightarrow> http_req" where
  "token_req c =
     \<lparr>rq_method = ''POST'', rq_url = token_url c, rq_query = [],
      rq_headers = [(''Content-Type'', ''application/x-www-form-urlencoded'')],
      rq_body = form_encode
        [(''client_id'', mc_ClientID c), (''client_secret'', mc_ClientSecret c),
         (''grant_type'', ''client_credentials''), (''scope'', ''https://graph.microsoft.com/.default'')]\<rparr>"

definition limit_64k :: "string \<Rightarrow> string" where
  "limit_64k body = take (64 * 1024) body"

text \<open>The token response: \<open>access_token\<close>, \<open>expires_in\<close>; \<open>token_type\<close> is decoded only.\<close>

definition dec_token :: "(string \<times> json) list \<Rightarrow> (string \<times> int) option" where
  "dec_token o1 =
     Option.bind (fstring ''access_token'' o1) (\<lambda>t.
     Option.bind (fint ''expires_in'' o1) (\<lambda>e.
     Option.bind (fstring ''token_type'' o1) (\<lambda>_. Some (t, e))))"

definition Minute :: int where "Minute = 60 * Second"

text \<open>The time to live in nanoseconds; the product wraps like \<open>time.Duration\<close>.\<close>

definition token_ttl :: "int \<Rightarrow> int" where
  "token_ttl expires = (let ttl = wrap64 (expires * Second) in if ttl < 2 * Minute then 2 * Minute else ttl)"

definition fetch_token :: "mailer_config \<Rightarrow> office \<Rightarrow> string res \<times> office" where
  "fetch_token c s =
     (case in_world (http_do (token_req c)) s of
        (TransportErr m, s1) \<Rightarrow> (Inl (wrap_err ''POST token'' (Errorf m)), s1)
      | (ReadErr m, s1) \<Rightarrow> (Inl (wrap_err ''POST token'' (Errorf m)), s1)
      | (Resp st _ full, s1) \<Rightarrow>
          (let body = limit_64k full in
           if st < 200 \<or> 300 \<le> st
           then (Inl (Errorf (''token endpoint returned HTTP '' @ Itoa st @ '': '' @ TrimSpace body)), s1)
           else case unmarshal (jstruct dec_token) body of
                  None \<Rightarrow> (Inl (wrap_err ''parsing token response'' json_error), s1)
                | Some (t, e) \<Rightarrow>
                    if t = [] then (Inl (Errorf ''token response had empty access_token''), s1)
                    else (Inr t, s1\<lparr>of_token := t, of_tokenExp := AddTime (office_now s1) (token_ttl e - 60 * Second)\<rparr>)))"

definition getToken :: "mailer_config \<Rightarrow> bool \<Rightarrow> office \<Rightarrow> string res \<times> office" where
  "getToken c force s =
     (if \<not> force \<and> of_token s \<noteq> [] \<and> Before (office_now s) (of_tokenExp s) then (Inr (of_token s), s)
      else fetch_token c s)"

text \<open>The message; the members in the order of the Go structs, those of the body map sorted.\<close>

definition buildGraphPayload :: "string list \<Rightarrow> string \<Rightarrow> string \<Rightarrow> attachment option \<Rightarrow> string" where
  "buildGraphPayload to subject body att =
     json_print (JObj
       [(''message'', JObj
          ([(''subject'', JStr subject),
            (''body'', JObj [(''content'', JStr body),
               (''contentType'', JStr (if Contains body ''<'' then ''HTML'' else ''Text''))]),
            (''toRecipients'', JArr (map (\<lambda>a. JObj [(''emailAddress'', JObj [(''address'', JStr a)])]) to))] @
           (case att of
              None \<Rightarrow> []
            | Some a \<Rightarrow>
                if att_Body a = [] then []
                else [(''attachments'', JArr [JObj
                  [(''@odata.type'', JStr ''#microsoft.graph.fileAttachment''), (''name'', JStr (att_Filename a)),
                   (''contentType'', JStr (if att_ContentType a = [] then ''application/octet-stream''
                                           else att_ContentType a)),
                   (''contentBytes'', JStr (base64 (bytes_of (att_Body a))))]])]))),
        (''saveToSentItems'', JBool True)])"

definition mail_url :: "mailer_config \<Rightarrow> string" where
  "mail_url c =
     (if mc_GraphBaseURL c = [] then ''https://graph.microsoft.com/v1.0'' else mc_GraphBaseURL c) @
     ''/users/'' @ PathEscape (mc_SenderMailbox c) @ ''/sendMail''"

definition mail_req :: "mailer_config \<Rightarrow> string \<Rightarrow> string \<Rightarrow> http_req" where
  "mail_req c token payload =
     \<lparr>rq_method = ''POST'', rq_url = mail_url c, rq_query = [],
      rq_headers = [(''Authorization'', ''Bearer '' @ token), (''Content-Type'', ''application/json'')],
      rq_body = payload\<rparr>"

definition mail_result :: "http_outcome \<Rightarrow> unit res" where
  "mail_result oc =
     (case oc of
        TransportErr m \<Rightarrow> Inl (wrap_err ''POST sendMail'' (Errorf m))
      | ReadErr m \<Rightarrow> Inl (wrap_err ''POST sendMail'' (Errorf m))
      | Resp st _ full \<Rightarrow>
          if 200 \<le> st \<and> st < 300 then Inr ()
          else if st = 401 then Inl ErrUnauthorised
          else Inl (Errorf (''graph sendMail returned HTTP '' @ Itoa st @ '': '' @ TrimSpace (limit_64k full))))"

definition postSendMail :: "mailer_config \<Rightarrow> string \<Rightarrow> bool \<Rightarrow> office \<Rightarrow> unit res \<times> office" where
  "postSendMail c payload force s =
     (case getToken c force s of
        (Inl e, s1) \<Rightarrow> (Inl (wrap_err ''acquiring token'' e), s1)
      | (Inr token, s1) \<Rightarrow>
          (case in_world (http_do (mail_req c token payload)) s1 of (oc, s2) \<Rightarrow> (mail_result oc, s2)))"

definition Send ::
  "mailer_config \<Rightarrow> string list \<Rightarrow> string \<Rightarrow> string \<Rightarrow> attachment option \<Rightarrow> office \<Rightarrow> unit res \<times> office" where
  "Send c to subject body att s =
     (if to = [] then (Inl (Errorf ''mailer: no recipients''), s)
      else if incomplete c then (Inl (Errorf ''mailer: incomplete Graph config''), s)
      else let payload = buildGraphPayload to subject body att in
           case postSendMail c payload False s of
             (Inl e, s1) \<Rightarrow> if e = ErrUnauthorised then postSendMail c payload True s1 else (Inl e, s1)
           | (Inr _, s1) \<Rightarrow> (Inr (), s1))"

definition Verify :: "mailer_config \<Rightarrow> office \<Rightarrow> unit res \<times> office" where
  "Verify c s =
     (if incomplete c then (Inl (Errorf ''mailer: incomplete Graph config''), s)
      else case getToken c True s of
             (Inl e, s1) \<Rightarrow> (Inl (wrap_err ''acquiring token'' e), s1)
           | (Inr _, s1) \<Rightarrow> (Inr (), s1))"

end
