(* ===== verification/MailerProps.thy ===== *)
theory MailerProps
  imports Mailer StoreView
begin

text \<open>
  How often the mailer asks for a token and posts a message, whatever Graph answers.
\<close>

section \<open>Exchanges\<close>

text \<open>The next answers of the script; a request beyond its end gets none.\<close>

fun script_answers :: "nat \<Rightarrow> (http_outcome \<times> nat) list \<Rightarrow> http_outcome list" where
  "script_answers 0 l = []"
| "script_answers (Suc n) [] = TransportErr ''no response'' # script_answers n []"
| "script_answers (Suc n) ((oc, dt) # r) = oc # script_answers n r"

definition answers :: "nat \<Rightarrow> world \<Rightarrow> http_outcome list" where
  "answers n w = script_answers n (w_http w)"

lemma script_answers_length [simp]: "length (script_answers n l) = n"
  by (induction n l rule: script_answers.induct) simp_all

lemma answers_length [simp]: "length (answers n w) = n"
  by (simp add: answers_def)

lemma answers_0 [simp]: "answers 0 w = []"
  by (simp add: answers_def)

lemma answers_Suc: "answers (Suc n) w = fst (http_do rq w) # answers n (snd (http_do rq w))"
  by (cases "w_http w") (auto simp: answers_def http_do_def Let_def)

text \<open>Requests with their answers, and nothing else but the clock and the token changed.\<close>

definition exchanged :: "office \<Rightarrow> http_req list \<Rightarrow> office \<Rightarrow> bool" where
  "exchanged s rqs s' \<longleftrightarrow>
     w_sent (of_world s') = w_sent (of_world s) @ rqs \<and>
     (\<forall>n. answers (length rqs + n) (of_world s) = answers (length rqs) (of_world s) @ answers n (of_world s')) \<and>
     w_db (of_world s') = w_db (of_world s) \<and> w_dbs (of_world s') = w_dbs (of_world s) \<and>
     of_files s' = of_files s \<and> of_fs s' = of_fs s"

lemma exchanged_refl: "exchanged s [] s"
  by (simp add: exchanged_def)

lemma exchanged_trans: "exchanged s a s1 \<Longrightarrow> exchanged s1 b s2 \<Longrightarrow> exchanged s (a @ b) s2"
  unfolding exchanged_def by (auto simp: add.assoc)

lemma exchanged_answers:
  "exchanged s a s1 \<Longrightarrow> exchanged s1 b s2 \<Longrightarrow>
     answers (length (a @ b)) (of_world s) = answers (length a) (of_world s) @ answers (length b) (of_world s1)"
  by (simp add: exchanged_def)

lemma exchange_one:
  assumes "in_world (http_do rq) s = (oc, s')"
  shows "exchanged s [rq] s' \<and> answers 1 (of_world s) = [oc] \<and> of_token s' = of_token s \<and> of_tokenExp s' = of_tokenExp s"
proof -
  obtain w' where h: "http_do rq (of_world s) = (oc, w')"
    using assms by (cases "http_do rq (of_world s)") (simp add: in_world_def)
  have s': "s' = s\<lparr>of_world := w'\<rparr>" using assms by (simp add: in_world_def h)
  show ?thesis
    using http_do_frame [of rq "of_world s"] answers_Suc [of _ "of_world s" rq]
    by (simp add: exchanged_def s' h)
qed

lemma exchanged_token: "exchanged s rqs s' \<Longrightarrow> exchanged s rqs (s'\<lparr>of_token := t, of_tokenExp := e\<rparr>)"
  by (simp add: exchanged_def)

section \<open>Tokens and messages\<close>

lemma getToken_exchange:
  assumes "getToken c force s = (r, s')"
  shows "exchanged s [] s' \<and> \<not> force \<and> r = Inr (of_token s) \<or> exchanged s [token_req c] s'"
proof -
  obtain oc s1 where h: "in_world (http_do (token_req c)) s = (oc, s1)" by (rule prod.exhaust)
  note x = exchange_one [OF h]
  have "exchanged s [token_req c] s'" if "fetch_token c s = (r, s')"
    using that x by (auto simp: fetch_token_def h Let_def exchanged_token
        split: http_outcome.splits if_splits option.splits prod.splits)
  then show ?thesis
    using assms exchanged_refl [of s] by (auto simp: getToken_def split: if_splits)
qed

definition mail_posts :: "mailer_config \<Rightarrow> string \<Rightarrow> http_req list \<Rightarrow> nat \<Rightarrow> bool" where
  "mail_posts c payload rqs n \<longleftrightarrow>
     length (filter (\<lambda>q. \<exists>t. q = mail_req c t payload) rqs) = n \<and>
     (\<forall>q\<in>set rqs. q = token_req c \<or> (\<exists>t. q = mail_req c t payload))"

lemma token_not_mail: "token_req c \<noteq> mail_req c t payload"
  by (simp add: token_req_def mail_req_def)

lemma postSendMail_exchange:
  assumes "postSendMail c payload force s = (r, s')"
  shows "\<exists>rqs. exchanged s rqs s' \<and> length rqs \<le> 2 \<and>
    (mail_posts c payload rqs 0 \<and> \<not> is_ok r \<and> r \<noteq> Inl ErrUnauthorised \<or>
     mail_posts c payload rqs 1 \<and> r = mail_result (last (answers (length rqs) (of_world s))))"
proof -
  obtain t s1 where g: "getToken c force s = (t, s1)" by (rule prod.exhaust)
  obtain a where a: "exchanged s a s1" "a = [] \<or> a = [token_req c]"
    using getToken_exchange [OF g] by blast
  show ?thesis
  proof (cases t)
    case (Inl e)
    with assms g have "r = Inl (wrap_err ''acquiring token'' e)" "s' = s1" by (simp_all add: postSendMail_def)
    then show ?thesis
      using a by (intro exI [of _ a]) (auto simp: mail_posts_def token_not_mail wrap_err_def)
  next
    case (Inr tok)
    obtain oc s2 where h: "in_world (http_do (mail_req c tok payload)) s1 = (oc, s2)" by (rule prod.exhaust)
    note x = exchange_one [OF h]
    have r: "r = mail_result oc" "s' = s2" using assms g Inr h by (simp_all add: postSendMail_def)
    have e: "exchanged s (a @ [mail_req c tok payload]) s'" using a(1) x r by (auto intro: exchanged_trans)
    have "last (answers (length (a @ [mail_req c tok payload])) (of_world s)) = oc"
      using exchanged_answers [OF a(1), of "[mail_req c tok payload]" s2] x by simp
    then show ?thesis
      using e a(2) r by (intro exI [of _ "a @ [mail_req c tok payload]"])
        (auto simp: mail_posts_def token_not_mail)
  qed
qed

lemma mail_result_ok: "is_ok (mail_result oc) \<longleftrightarrow> (\<exists>st l b. oc = Resp st l b \<and> 200 \<le> st \<and> st < 300)"
  by (cases oc) (auto simp: mail_result_def)

lemma mail_result_401: "mail_result oc = Inl ErrUnauthorised \<longleftrightarrow> (\<exists>l b. oc = Resp 401 l b)"
  by (cases oc) (auto simp: mail_result_def wrap_err_def)

lemma mail_posts_append:
  "mail_posts c p a n \<Longrightarrow> mail_posts c p b m \<Longrightarrow> mail_posts c p (a @ b) (n + m)"
  by (auto simp: mail_posts_def)

text \<open>What the two attempts of a send do together.\<close>

definition send_effect :: "mailer_config \<Rightarrow> string \<Rightarrow> office \<Rightarrow> unit res \<Rightarrow> office \<Rightarrow> bool" where
  "send_effect c p s r s' \<longleftrightarrow> (\<exists>rqs n. exchanged s rqs s' \<and> length rqs \<le> 4 \<and> n \<le> 2 \<and> mail_posts c p rqs n \<and>
     (n = 2 \<longrightarrow> (\<exists>k<length rqs. \<exists>l b. answers (length rqs) (of_world s) ! k = Resp 401 l b)) \<and>
     (is_ok r \<longrightarrow> rqs \<noteq> [] \<and> (\<exists>st l b. last (answers (length rqs) (of_world s)) = Resp st l b \<and> 200 \<le> st \<and> st < 300)))"

lemma single_send:
  assumes "postSendMail c p False s = (r, s')" "r \<noteq> Inl ErrUnauthorised"
  shows "send_effect c p s r s'"
proof -
  from postSendMail_exchange [OF assms(1)] assms(2) obtain a where "exchanged s a s'" "length a \<le> 2"
    "mail_posts c p a 0 \<and> \<not> is_ok r \<or> mail_posts c p a 1 \<and> r = mail_result (last (answers (length a) (of_world s)))"
    by blast
  then show ?thesis
    unfolding send_effect_def
    by (intro exI [of _ a] exI [of _ "if mail_posts c p a 1 then 1 else 0"]) (auto simp: mail_result_ok mail_posts_def)
qed

lemma repeated_send:
  assumes "postSendMail c p False s = (Inl ErrUnauthorised, s1)" "postSendMail c p True s1 = (r, s')"
  shows "send_effect c p s r s'"
proof -
  from postSendMail_exchange [OF assms(1)] obtain a where a: "exchanged s a s1" "length a \<le> 2"
    "mail_posts c p a 1" "mail_result (last (answers (length a) (of_world s))) = Inl ErrUnauthorised" by auto
  from postSendMail_exchange [OF assms(2)] obtain b where b: "exchanged s1 b s'" "length b \<le> 2"
    "mail_posts c p b 0 \<and> \<not> is_ok r \<or> mail_posts c p b 1 \<and> r = mail_result (last (answers (length b) (of_world s1)))"
    by blast
  have ne: "a \<noteq> []" using a(3) by (auto simp: mail_posts_def)
  have ans: "answers (length (a @ b)) (of_world s) = answers (length a) (of_world s) @ answers (length b) (of_world s1)"
    by (rule exchanged_answers [OF a(1) b(1)])
  have nonempty: "answers (length x) w \<noteq> []" if "x \<noteq> []" for x :: "'z list" and w
    using that by (metis answers_length length_0_conv)
  obtain l bd where "last (answers (length a) (of_world s)) = Resp 401 l bd" using a(4) by (auto simp: mail_result_401)
  then have "answers (length (a @ b)) (of_world s) ! (length a - 1) = Resp 401 l bd"
    using ne nonempty [OF ne, of "of_world s"] unfolding ans by (simp add: nth_append last_conv_nth)
  moreover have "length a - 1 < length (a @ b)" using ne by (cases a) auto
  moreover have "b \<noteq> [] \<and> (\<exists>st l b'. last (answers (length (a @ b)) (of_world s)) = Resp st l b' \<and> 200 \<le> st \<and> st < 300)"
    if "is_ok r"
  proof -
    from b(3) that have m: "mail_posts c p b 1" "is_ok (mail_result (last (answers (length b) (of_world s1))))" by auto
    then have "b \<noteq> []" by (auto simp: mail_posts_def)
    with m(2) show ?thesis unfolding ans last_appendR [OF nonempty [OF \<open>b \<noteq> []\<close>]] by (simp only: mail_result_ok) blast
  qed
  moreover obtain n where n: "n \<le> 2" "mail_posts c p (a @ b) n"
    using b(3) mail_posts_append [OF a(3), of b 0] mail_posts_append [OF a(3), of b 1]
    by (metis add_0_right one_add_one one_le_numeral order_refl)
  ultimately show ?thesis
    using exchanged_trans [OF a(1) b(1)] a(2) b(2) unfolding send_effect_def
    by (intro exI [of _ "a @ b"] exI [of _ n]) auto
qed

text \<open>C34: sending a mail makes at most four requests, of which at most two post the message, and always the same
  message; it is posted a second time only after Graph answered 401 to the first; the send succeeds only
  if the last answer accepted the message, and it changes neither the tables nor the files.\<close>

theorem mailer_posts_at_most_twice:
  assumes "Send c to subject body att s = (r, s')"
  shows "\<exists>rqs n. exchanged s rqs s' \<and> length rqs \<le> 4 \<and> n \<le> 2 \<and>
    mail_posts c (buildGraphPayload to subject body att) rqs n \<and>
    (n = 2 \<longrightarrow> (\<exists>k<length rqs. \<exists>l b. answers (length rqs) (of_world s) ! k = Resp 401 l b)) \<and>
    (is_ok r \<longrightarrow> rqs \<noteq> [] \<and> (\<exists>st l b. last (answers (length rqs) (of_world s)) = Resp st l b \<and> 200 \<le> st \<and> st < 300))"
proof (cases "to = [] \<or> incomplete c")
  case True
  then have "\<not> is_ok r" "s' = s" using assms by (auto simp: Send_def split: if_splits)
  then show ?thesis
    using exchanged_refl [of s] by (intro exI [of _ "[]"] exI [of _ 0]) (simp add: mail_posts_def)
next
  case False
  let ?p = "buildGraphPayload to subject body att"
  obtain r1 s1 where p1: "postSendMail c ?p False s = (r1, s1)" by (rule prod.exhaust)
  have "send_effect c ?p s r s'"
  proof (cases "r1 = Inl ErrUnauthorised")
    case True
    with assms p1 False show ?thesis by (intro repeated_send) (auto simp: Send_def Let_def)
  next
    case ok: False
    then have "is_ok r = is_ok r1" "s' = s1"
      using assms p1 False by (cases r1; simp add: Send_def Let_def)+
    with single_send [OF p1 ok] show ?thesis by (simp add: send_effect_def)
  qed
  then show ?thesis by (simp add: send_effect_def)
qed

section \<open>A send\<close>

definition demo_mail_config :: mailer_config where
  "demo_mail_config = \<lparr>mc_TenantID = ''t'', mc_ClientID = ''c'', mc_ClientSecret = ''s'', mc_SenderMailbox = ''m@x'',
     mc_GraphBaseURL = [], mc_TokenBaseURL = []\<rparr>"

definition demo_token :: string where
  \<open>demo_token = ''{"access_token":"t2","expires_in":3600}''\<close>

definition demo_office :: office where
  "demo_office = \<lparr>of_world = empty_world\<lparr>w_http := [(Resp 401 [] [], 0), (Resp 200 [] demo_token, 0), (Resp 202 [] [], 0)]\<rparr>,
     of_token = ''t1'', of_tokenExp = \<lparr>t_ns = 1, t_off = 0\<rparr>, of_files = Map.empty, of_fs = []\<rparr>"

lemma demo_token_decoded: "unmarshal (jstruct dec_token) demo_token = Some (''t2'', 3600)"
  by code_simp

lemma demo_token_short: "limit_64k demo_token = demo_token"
  by (simp add: limit_64k_def demo_token_def)

lemma demo_send: "\<exists>s'. Send demo_mail_config [''a@x''] subject body None demo_office = (Inr (), s') \<and>
    length (w_sent (of_world s')) = 3"
  by (simp add: Send_def incomplete_def postSendMail_def getToken_def fetch_token_def in_world_def http_do_def
      mail_result_def office_now_def now_def Before_def demo_token_decoded demo_token_short demo_office_def
      demo_mail_config_def empty_world_def Let_def)

theorem mailer_posts_at_most_twice_witness:
  "\<exists>s' rqs n. Send demo_mail_config [''a@x''] ''s'' ''b'' None demo_office = (Inr (), s') \<and> length rqs = 3 \<and>
     w_sent (of_world s') = rqs \<and> mail_posts demo_mail_config (buildGraphPayload [''a@x''] ''s'' ''b'' None) rqs n \<and> n \<le> 2"
proof -
  obtain s' where s: "Send demo_mail_config [''a@x''] ''s'' ''b'' None demo_office = (Inr (), s')"
      "length (w_sent (of_world s')) = 3"
    using demo_send by blast
  have "w_sent (of_world demo_office) = []" by (simp add: demo_office_def empty_world_def)
  with mailer_posts_at_most_twice [OF s(1)] s show ?thesis by (auto simp: exchanged_def)
qed

end
