(* ===== verification/DeadLetter.thy ===== *)
theory DeadLetter
  imports Mailer
begin

text \<open>
  \<open>internal/payments/deadletter.go\<close>: the files the reporters leave behind, and their pings. Directories are
  not represented: a file is its path. Paths are those \<open>filepath.Join\<close> builds (Unix).
\<close>

section \<open>Files\<close>

definition fs_next :: "office \<Rightarrow> fs_event \<times> office" where
  "fs_next s = (case of_fs s of [] \<Rightarrow> (FsOk, s) | e # r \<Rightarrow> (e, s\<lparr>of_fs := r\<rparr>))"

definition MkdirAll :: "string \<Rightarrow> office \<Rightarrow> unit res \<times> office" where
  "MkdirAll dir s =
     (case fs_next s of
        (FsOk, s1) \<Rightarrow> (Inr (), s1)
      | (FsFail m, s1) \<Rightarrow> (Inl (Errorf m), s1)
      | (FsTorn _ m, s1) \<Rightarrow> (Inl (Errorf m), s1))"

text \<open>\<open>os.Stat(path)\<close> without an error.\<close>

definition StatOk :: "string \<Rightarrow> office \<Rightarrow> bool \<times> office" where
  "StatOk p s = (case fs_next s of (e, s1) \<Rightarrow> (e = FsOk \<and> of_files s p \<noteq> None, s1))"

text \<open>\<open>os.WriteFile\<close> replaces the content; an error may come before it or after a part was written.\<close>

definition WriteFile :: "string \<Rightarrow> string \<Rightarrow> office \<Rightarrow> unit res \<times> office" where
  "WriteFile p content s =
     (case fs_next s of
        (FsOk, s1) \<Rightarrow> (Inr (), s1\<lparr>of_files := (of_files s1)(p \<mapsto> content)\<rparr>)
      | (FsFail m, s1) \<Rightarrow> (Inl (Errorf m), s1)
      | (FsTorn n m, s1) \<Rightarrow> (Inl (Errorf m), s1\<lparr>of_files := (of_files s1)(p \<mapsto> take n content)\<rparr>))"

definition ReadFile :: "string \<Rightarrow> office \<Rightarrow> string option \<times> office" where
  "ReadFile p s = (case fs_next s of (e, s1) \<Rightarrow> (if e = FsOk then of_files s p else None, s1))"

text \<open>\<open>filepath.Clean\<close>: drops empty and \<open>.\<close> elements and resolves \<open>..\<close>; the stack is reversed.\<close>

fun clean_elems :: "bool \<Rightarrow> string list \<Rightarrow> string list \<Rightarrow> string list" where
  "clean_elems rooted st [] = rev st"
| "clean_elems rooted st (e # es) =
     (if e = [] \<or> e = ''.'' then clean_elems rooted st es
      else if e = ''..'' then
        (if st \<noteq> [] \<and> hd st \<noteq> ''..'' then clean_elems rooted (tl st) es
         else if rooted then clean_elems rooted st es
         else clean_elems rooted (e # st) es)
      else clean_elems rooted (e # st) es)"

definition Clean :: "string \<Rightarrow> string" where
  "Clean p =
     (let rooted = (take 1 p = ''/''); es = clean_elems rooted [] (Split (CHR ''/'') p)
      in if rooted then ''/'' @ Join ''/'' es else if es = [] then ''.'' else Join ''/'' es)"

text \<open>\<open>filepath.Join\<close> of two elements that are not empty.\<close>

definition PathJoin :: "string \<Rightarrow> string \<Rightarrow> string" where
  "PathJoin dir name = Clean (dir @ ''/'' @ name)"

section \<open>Dead letters and archives\<close>

definition DefaultDeadLetterDir :: string where
  "DefaultDeadLetterDir = ''/home/bast/backups/rectella/missed-reports''"

definition fmt_hms :: "gtime \<Rightarrow> string" where
  "fmt_hms t = (let s = local_secs t mod 86400 in
     pad_nat 2 (s div 3600) @ pad_nat 2 (s mod 3600 div 60) @ pad_nat 2 (s mod 60))"

definition writeDeadLetter :: "string \<Rightarrow> string \<Rightarrow> gtime \<Rightarrow> string \<Rightarrow> office \<Rightarrow> string res \<times> office" where
  "writeDeadLetter dir0 kind date csv s =
     (let dir = (if dir0 = [] then DefaultDeadLetterDir else dir0) in
      case MkdirAll dir s of
        (Inl e, s1) \<Rightarrow> (Inl (wrap_err ''mkdir dead-letter dir'' e), s1)
      | (Inr _, s1) \<Rightarrow>
          (let slot = PathJoin dir (fmt_date date @ ''-'' @ kind @ ''.csv'') in
           case StatOk slot s1 of (taken, s2) \<Rightarrow>
             (let path = (if taken
                 then PathJoin dir (fmt_date date @ ''-'' @ kind @ ''-'' @ fmt_hms (office_now s2) @ ''.csv'')
                 else slot) in
              case WriteFile path csv s2 of
                (Inl e, s3) \<Rightarrow> (Inl (wrap_err ''writing dead-letter'' e), s3)
              | (Inr _, s3) \<Rightarrow> (Inr path, s3))))"

text \<open>The pings ignore every error; a URL that does not parse sends nothing, like an empty one.\<close>

definition ntfy_req :: "string \<Rightarrow> string \<Rightarrow> gtime \<Rightarrow> string \<Rightarrow> go_error \<Rightarrow> http_req" where
  "ntfy_req topic kind date path e =
     \<lparr>rq_method = ''POST'', rq_url = ''https://ntfy.sh/'' @ topic, rq_query = [],
      rq_headers = [(''Title'', ''Rectella daily report failed''), (''Priority'', ''high''), (''Tags'', ''warning,rectella'')],
      rq_body = ''Daily '' @ kind @ '' report send failed for '' @ fmt_date date @ ''.'' @ nl @
        ''CSV preserved at: '' @ path @ nl @ ''Reason: '' @ err_msg e @ nl @ nl @
        ''Resend with:'' @ nl @ ''  go run ./cmd/send-report --type='' @ kind @ '' --date='' @ fmt_date date\<rparr>"

definition pingNtfyDeadLetter :: "string \<Rightarrow> string \<Rightarrow> gtime \<Rightarrow> string \<Rightarrow> go_error \<Rightarrow> office \<Rightarrow> office" where
  "pingNtfyDeadLetter topic kind date path e s =
     (if topic = [] then s else snd (in_world (http_do (ntfy_req topic kind date path e)) s))"

definition health_req :: "string \<Rightarrow> http_req" where
  "health_req url = \<lparr>rq_method = ''GET'', rq_url = url, rq_query = [], rq_headers = [], rq_body = []\<rparr>"

definition pingHealthcheck :: "string \<Rightarrow> office \<Rightarrow> office" where
  "pingHealthcheck url s = (if url = [] then s else snd (in_world (http_do (health_req url)) s))"

definition write_archive :: "string \<Rightarrow> string \<Rightarrow> string \<Rightarrow> office \<Rightarrow> string res \<times> office" where
  "write_archive dir name csv s =
     (if dir = [] then (Inr [], s)
      else case MkdirAll dir s of
             (Inl e, s1) \<Rightarrow> (Inl (wrap_err ''mkdir archive dir'' e), s1)
           | (Inr _, s1) \<Rightarrow>
               (case WriteFile (PathJoin dir name) csv s1 of
                  (Inl e, s2) \<Rightarrow> (Inl (wrap_err ''writing archive'' e), s2)
                | (Inr _, s2) \<Rightarrow> (Inr (PathJoin dir name), s2)))"

definition archiveSentCSV :: "string \<Rightarrow> string \<Rightarrow> gtime \<Rightarrow> string \<Rightarrow> office \<Rightarrow> string res \<times> office" where
  "archiveSentCSV dir kind date csv = write_archive dir (fmt_date date @ ''-'' @ kind @ ''.csv'') csv"

definition archiveSentCSVRange ::
  "string \<Rightarrow> string \<Rightarrow> gtime \<Rightarrow> gtime \<Rightarrow> string \<Rightarrow> office \<Rightarrow> string res \<times> office" where
  "archiveSentCSVRange dir kind start stop csv =
     write_archive dir (fmt_date start @ ''-to-'' @ fmt_date (AddDays stop (- 1)) @ ''-'' @ kind @ ''.csv'') csv"

section \<open>The date of the last report\<close>

definition last_send_path :: "string \<Rightarrow> string \<Rightarrow> string" where
  "last_send_path dir kind = PathJoin dir (''last-send-'' @ kind @ ''.date'')"

definition readLastSent :: "string \<Rightarrow> string \<Rightarrow> office \<Rightarrow> gtime \<times> office" where
  "readLastSent dir kind s =
     (if dir = [] then (zero_time, s)
      else case ReadFile (last_send_path dir kind) s of
             (None, s1) \<Rightarrow> (zero_time, s1)
           | (Some b, s1) \<Rightarrow> (case ParseDate (TrimSpace b) of None \<Rightarrow> zero_time | Some t \<Rightarrow> t, s1))"

definition writeLastSent :: "string \<Rightarrow> string \<Rightarrow> gtime \<Rightarrow> office \<Rightarrow> unit res \<times> office" where
  "writeLastSent dir kind date s =
     (if dir = [] then (Inr (), s)
      else case MkdirAll dir s of
             (Inl e, s1) \<Rightarrow> (Inl (wrap_err ''mkdir state dir'' e), s1)
           | (Inr _, s1) \<Rightarrow> WriteFile (last_send_path dir kind) (fmt_date (UTC date) @ nl) s1)"

end
