(* ===== verification/DailyReport.thy ===== *)
theory DailyReport
  imports DeadLetter Report Store
begin

text \<open>
  \<open>internal/payments/daily_report.go\<close> and the rest of \<open>intake.go\<close>: the two daily reports and their schedulers.
  The Go interfaces \<open>TransactionSource\<close>, \<open>IntakeSource\<close> and \<open>EmailSender\<close> are operations on the office;
  the mutex that serialises the sends, and the timeouts, are not modelled.
\<close>

type_synonym 'a source_op = "gtime \<Rightarrow> gtime \<Rightarrow> office \<Rightarrow> 'a list res \<times> office"
type_synonym mail_op =
  "string list \<Rightarrow> string \<Rightarrow> string \<Rightarrow> attachment option \<Rightarrow> office \<Rightarrow> unit res \<times> office"

record reporter =
  rp_recipients :: "string list"
  rp_storeName :: string
  rp_hour :: int
  rp_healthcheckURL :: string
  rp_deadLetterDir :: string
  rp_archiveDir :: string
  rp_stateDir :: string
  rp_ntfyTopic :: string
  rp_coverNote :: string

text \<open>The checks of both constructors; a missing source or mailer (\<open>nil\<close>) is a wiring error.\<close>

definition new_reporter :: "string \<Rightarrow> reporter \<Rightarrow> reporter res" where
  "new_reporter what cfg =
     (if rp_recipients cfg = [] then Inl (Errorf (what @ '' reporter: no recipients''))
      else if rp_hour cfg < 0 \<or> 23 < rp_hour cfg then Inl (Errorf (what @ '' reporter: hour out of range''))
      else Inr (cfg\<lparr>rp_coverNote := []\<rparr>))"

definition NewDailyReporter :: "reporter \<Rightarrow> reporter res" where
  "NewDailyReporter = new_reporter ''daily''"

definition NewIntakeReporter :: "reporter \<Rightarrow> reporter res" where
  "NewIntakeReporter = new_reporter ''intake''"

definition SetCoverNote :: "string \<Rightarrow> reporter \<Rightarrow> reporter" where
  "SetCoverNote note r = r\<lparr>rp_coverNote := (if note = [] then [] else note @ nl @ nl)\<rparr>"

definition store_tag :: "reporter \<Rightarrow> string" where
  "store_tag r = (if rp_storeName r = [] then ''Shopify'' else rp_storeName r)"

definition day_start :: "gtime \<Rightarrow> gtime" where
  "day_start date = utc_midnight date"

section \<open>Sending a report\<close>

text \<open>
  The second half of every send: mail the document; if that fails keep it as a dead letter and alert, else
  archive it and ping. Only the error of the mail is returned.
\<close>

definition deliver ::
  "mail_op \<Rightarrow> reporter \<Rightarrow> string \<Rightarrow> gtime \<Rightarrow> string \<Rightarrow> string \<Rightarrow> string \<Rightarrow> string
     \<Rightarrow> (office \<Rightarrow> string res \<times> office) \<Rightarrow> office \<Rightarrow> unit res \<times> office" where
  "deliver mail r kind date subject body filename csv archive s =
     (case mail (rp_recipients r) subject body
          (Some \<lparr>att_Filename = filename, att_ContentType = ''text/csv; charset=utf-8'', att_Body = csv\<rparr>) s of
        (Inl e, s1) \<Rightarrow>
          (case writeDeadLetter (rp_deadLetterDir r) kind date csv s1 of
             (p, s2) \<Rightarrow>
               (Inl (wrap_err ''sending email'' e),
                pingNtfyDeadLetter (rp_ntfyTopic r) kind date (case p of Inl _ \<Rightarrow> [] | Inr x \<Rightarrow> x) e s2))
      | (Inr _, s1) \<Rightarrow>
          (case archive s1 of (_, s2) \<Rightarrow> (Inr (), pingHealthcheck (rp_healthcheckURL r) s2)))"

definition flag_subject :: "bool \<Rightarrow> string \<Rightarrow> string" where
  "flag_subject anomaly subject = (if anomaly then ''['' @ warning_sign @ '' ANOMALY] '' @ subject else subject)"

definition flag_body :: "string \<Rightarrow> string \<Rightarrow> string" where
  "flag_body anomaly body =
     (if anomaly = [] then body
      else ''*** DATA ANOMALY DETECTED ***'' @ nl @ anomaly @ nl @
        ''*** Treat the figures below with caution and cross-check against Shopify admin. ***'' @ nl @ nl @ body)"

definition cash_body :: "reporter \<Rightarrow> gtime \<Rightarrow> shopify_transaction list \<Rightarrow> string" where
  "cash_body r start ts =
     (let (gross, fee, net, count) = SummariseTotals ts in
      rp_coverNote r @
      ''Daily cash-receipt report for '' @ fmt_date start @ ''.'' @ nl @ ''Post against SYSPRO customer: WEBS01.'' @ nl @ nl @
      (if count = 0
       then ''No paid Shopify transactions for this date '' @ em_dash @
         '' this email confirms the daily process ran successfully.'' @ nl @ nl
       else []) @
      ''Transactions: '' @ Itoa count @ nl @ ''Gross:        '' @ pound @ fmt2 gross @ nl @
      ''Fees:         '' @ pound @ fmt2 fee @ nl @ ''Net:          '' @ pound @ fmt2 net @ nl @ nl @
      ''Full breakdown attached.'' @ nl)"

text \<open>\<open>DailyReporter.SendForDate\<close>.\<close>

definition SendForDate ::
  "shopify_transaction source_op \<Rightarrow> mail_op \<Rightarrow> reporter \<Rightarrow> gtime \<Rightarrow> office \<Rightarrow> unit res \<times> office" where
  "SendForDate fetch mail r date s =
     (let start = day_start date; stop = AddDays start 1 in
      case fetch start stop s of
        (Inl e, s1) \<Rightarrow> (Inl (wrap_err ''fetching transactions'' e), s1)
      | (Inr ts, s1) \<Rightarrow>
          (let csv = BuildCSV start ts; anomaly = ValidateCashReceiptCSV ts in
           deliver mail r ''cash'' start
             (flag_subject (anomaly \<noteq> [])
               (''['' @ store_tag r @ ''] Daily cash receipts '' @ em_dash @ '' '' @ fmt_date start @ '' ('' @
                Itoa (int (length ts)) @ '')''))
             (flag_body anomaly (cash_body r start ts))
             (''cash-receipts-'' @ fmt_date start @ ''.csv'') csv
             (archiveSentCSV (rp_archiveDir r) ''cash'' start csv) s1))"

definition range_body :: "reporter \<Rightarrow> gtime \<Rightarrow> string \<Rightarrow> shopify_transaction list \<Rightarrow> string" where
  "range_body r start label ts =
     (let (gross, fee, net, count) = SummariseTotals ts in
      rp_coverNote r @ ''Cash-receipt backfill report.'' @ nl @ ''Post against SYSPRO customer: WEBS01.'' @ nl @ nl @
      ''Window:        '' @ fmt_date start @ '' to '' @ label @ '' (UTC)'' @ nl @
      ''Transactions:  '' @ Itoa count @ nl @ ''Gross:         '' @ pound @ fmt2 gross @ nl @
      ''Fees:          '' @ pound @ fmt2 fee @ nl @ ''Net:           '' @ pound @ fmt2 net @ nl @ nl @
      ''Per-day breakdown attached.'' @ nl)"

text \<open>\<open>DailyReporter.SendForRange\<close>.\<close>

definition SendForRange ::
  "shopify_transaction source_op \<Rightarrow> mail_op \<Rightarrow> reporter \<Rightarrow> gtime \<Rightarrow> gtime \<Rightarrow> office \<Rightarrow> unit res \<times> office" where
  "SendForRange fetch mail r start stop s =
     (if \<not> Before start stop
      then (Inl (Errorf (''invalid range: start '' @ fmt_date start @ '' not before end '' @ fmt_date stop)), s)
      else case fetch start stop s of
        (Inl e, s1) \<Rightarrow> (Inl (wrap_err ''fetching transactions'' e), s1)
      | (Inr ts, s1) \<Rightarrow>
          (let csv = BuildRangeCSV start stop ts; anomaly = ValidateCashReceiptCSV ts;
               label = fmt_date (AddDays stop (- 1)) in
           deliver mail r ''cash-range'' start
             (flag_subject (anomaly \<noteq> [])
               (''['' @ store_tag r @ ''] Cash receipts '' @ em_dash @ '' '' @ fmt_date start @ '' to '' @ label @
                '' ('' @ Itoa (int (length ts)) @ '' transactions)''))
             (flag_body anomaly (range_body r start label ts))
             (''cash-receipts-'' @ fmt_date start @ ''-to-'' @ label @ ''.csv'') csv
             (archiveSentCSVRange (rp_archiveDir r) ''cash'' start stop csv) s1))"

text \<open>\<open>IntakeReporter.SendForDate\<close>.\<close>

definition IntakeSendForDate ::
  "order source_op \<Rightarrow> mail_op \<Rightarrow> reporter \<Rightarrow> gtime \<Rightarrow> office \<Rightarrow> unit res \<times> office" where
  "IntakeSendForDate fetch mail r date s =
     (let start = day_start date; stop = AddDays start 1 in
      case fetch start stop s of
        (Inl e, s1) \<Rightarrow> (Inl (wrap_err ''fetching orders'' e), s1)
      | (Inr rs, s1) \<Rightarrow>
          (let summary = summariseIntake rs; anomalies = ValidateIntakeAnomalies rs start; csv = buildIntakeCSV rs in
           deliver mail r ''intake'' start
             (flag_subject (anomalies \<noteq> [])
               (''['' @ store_tag r @ ''] Order intake '' @ em_dash @ '' '' @ fmt_date start @ '' ('' @
                Itoa (is_Count summary) @ '' orders, '' @ pound @ fmt2 (is_GrossTotal summary) @ '')''))
             (buildIntakeHTML start (store_tag r) summary anomalies)
             (''order-intake-'' @ fmt_date start @ ''.csv'') csv
             (archiveSentCSV (rp_archiveDir r) ''intake'' start csv) s1))"

section \<open>The scheduler\<close>

text \<open>
  \<open>check\<close> in \<open>Run\<close> of both reporters: the last day sent is kept in memory and in the state file. \<open>send\<close> is
  the reporter's \<open>SendForDate\<close>.
\<close>

definition report_due :: "reporter \<Rightarrow> gtime \<Rightarrow> office \<Rightarrow> bool" where
  "report_due r prev s \<longleftrightarrow>
     Hour (UTC (office_now s)) = rp_hour r \<and> Before prev (utc_midnight (UTC (office_now s)))"

definition check_report ::
  "(gtime \<Rightarrow> office \<Rightarrow> unit res \<times> office) \<Rightarrow> reporter \<Rightarrow> string \<Rightarrow> gtime \<times> office \<Rightarrow> gtime \<times> office" where
  "check_report send r kind st =
     (case st of (prev, s) \<Rightarrow>
        if \<not> report_due r prev s then (prev, s)
        else let today = utc_midnight (UTC (office_now s)) in
             case send (AddDays today (- 1)) s of
               (Inl _, s1) \<Rightarrow> (prev, s1)
             | (Inr _, s1) \<Rightarrow> (today, snd (writeLastSent (rp_stateDir r) kind today s1)))"

text \<open>
  The loop: a check at once, then one after each tick. Between two checks the rest of the service and the
  environment run: \<open>envs\<close> is what each wait did to the state, the clock included.
\<close>

fun report_loop ::
  "(gtime \<Rightarrow> office \<Rightarrow> unit res \<times> office) \<Rightarrow> reporter \<Rightarrow> string \<Rightarrow> (office \<Rightarrow> office) list \<Rightarrow> gtime \<times> office
     \<Rightarrow> gtime \<times> office" where
  "report_loop send r kind [] st = check_report send r kind st"
| "report_loop send r kind (env # envs) st =
     report_loop send r kind envs (map_prod (\<lambda>d. d) env (check_report send r kind st))"

definition run_reporter ::
  "(gtime \<Rightarrow> office \<Rightarrow> unit res \<times> office) \<Rightarrow> reporter \<Rightarrow> string \<Rightarrow> (office \<Rightarrow> office) list \<Rightarrow> office
     \<Rightarrow> gtime \<times> office" where
  "run_reporter send r kind envs s = report_loop send r kind envs (readLastSent (rp_stateDir r) kind s)"

section \<open>The two reporters of the service\<close>

definition service_cash_send ::
  "transactions_fetcher \<Rightarrow> mailer_config \<Rightarrow> reporter \<Rightarrow> gtime \<Rightarrow> office \<Rightarrow> unit res \<times> office" where
  "service_cash_send f c r = SendForDate (\<lambda>a b. in_world (FetchOrdersInWindow f a b)) (Send c) r"

definition service_intake_send :: "mailer_config \<Rightarrow> reporter \<Rightarrow> gtime \<Rightarrow> office \<Rightarrow> unit res \<times> office" where
  "service_intake_send c r = IntakeSendForDate (\<lambda>a b. in_world (FetchOrdersByDateRange a b)) (Send c) r"

end
