(* ===== verification/GoTimeProps.thy ===== *)
theory GoTimeProps
  imports GoTime
begin

text \<open>
  The calendar of \<open>time.Time\<close>: the conversion of a day number into year, month and day and back, and
  reading a printed date again.
\<close>

section \<open>Days and dates\<close>

text \<open>The first day of a year of the 400-year era (years start in March), and of the era after the last.\<close>

definition year_start :: "int \<Rightarrow> int" where
  "year_start y = (if y = 400 then 146097 else 365 * y + y div 4 - y div 100)"

definition year_guess :: "int \<Rightarrow> int" where
  "year_guess doe = doe - doe div 1460 + doe div 36524 - doe div 146096"

lemma div_bounds: "0 < k \<Longrightarrow> k * (x div k) \<le> x \<and> x < k * (x div k) + k" for x k :: int
  using mult_div_mod_eq [of k x] pos_mod_bound [of k x] pos_mod_sign [of k x] by linarith

lemma year_guess_mono: "a \<le> b \<Longrightarrow> year_guess a \<le> year_guess b"
proof -
  assume ab: "a \<le> b"
  have "b div 1460 - a div 1460 \<le> b - a"
  proof (cases "b div 1460 \<le> a div 1460")
    case True
    with ab show ?thesis by linarith
  next
    case False
    moreover have "1460 * (b div 1460) \<le> b" "a < 1460 * (a div 1460) + 1460"
      using div_bounds [of 1460 b] div_bounds [of 1460 a] by simp_all
    ultimately show ?thesis by linarith
  qed
  moreover have "a div 36524 - a div 36524 div 4 \<le> b div 36524 - b div 36524 div 4"
  proof -
    have "x - x div 4 \<le> y - y div 4" if "x \<le> y" for x y :: int using that by presburger
    moreover have "a div 36524 \<le> b div 36524" using ab by (simp add: zdiv_mono1)
    ultimately show ?thesis by blast
  qed
  moreover have "a div 36524 div 4 = a div 146096" "b div 36524 div 4 = b div 146096"
    by (simp_all flip: zdiv_zmult2_eq)
  moreover have "a - a1 + a2 - a3 \<le> b - b1 + b2 - b3"
    if "b1 - a1 \<le> b - a" "a2 - a3 \<le> b2 - b3" for a1 a2 a3 b1 b2 b3 :: int
    using that by linarith
  ultimately show ?thesis unfolding year_guess_def by metis
qed

definition year_ok :: "int \<Rightarrow> bool" where
  "year_ok y \<longleftrightarrow> year_guess (year_start y) div 365 = y \<and> year_guess (year_start (y + 1) - 1) div 365 = y \<and>
     year_start (y + 1) = year_start y + (if leap (y + 1) then 366 else 365)"

lemma years_ok: "list_all year_ok [0..399]"
  by code_simp

lemma year_of_day:
  assumes "0 \<le> doe" "doe < 146097"
  shows "\<exists>y. 0 \<le> y \<and> y \<le> 399 \<and> year_start y \<le> doe \<and> doe < year_start (y + 1)"
proof -
  have "n \<le> 400 \<Longrightarrow> doe < year_start (int n) \<Longrightarrow>
      \<exists>y. 0 \<le> y \<and> y < int n \<and> year_start y \<le> doe \<and> doe < year_start (y + 1)" for n
  proof (induction n)
    case 0
    with assms show ?case by (simp add: year_start_def)
  next
    case (Suc n)
    show ?case
    proof (cases "doe < year_start (int n)")
      case True
      with Suc obtain y where "0 \<le> y" "y < int n" "year_start y \<le> doe" "doe < year_start (y + 1)" by auto
      then show ?thesis by (intro exI [of _ y]) auto
    next
      case False
      with Suc.prems show ?thesis by (intro exI [of _ "int n"]) (auto simp: add.commute)
    qed
  qed
  from this [of 400] assms obtain y where
    "0 \<le> y" "y < 400" "year_start y \<le> doe" "doe < year_start (y + 1)" by (auto simp: year_start_def)
  then show ?thesis by (intro exI [of _ y]) auto
qed

lemma day_of_year:
  assumes "0 \<le> doe" "doe < 146097"
  defines "y \<equiv> year_guess doe div 365"
  shows "0 \<le> y \<and> y \<le> 399 \<and> 0 \<le> doe - year_start y \<and> doe - year_start y \<le> (if leap (y + 1) then 365 else 364)"
proof -
  from year_of_day [OF assms(1,2)] obtain z where
    z: "0 \<le> z" "z \<le> 399" "year_start z \<le> doe" "doe < year_start (z + 1)" by blast
  have "year_ok z" using years_ok z(1,2) by (simp add: list_all_iff)
  then have ok: "year_guess (year_start z) div 365 = z" "year_guess (year_start (z + 1) - 1) div 365 = z"
    "year_start (z + 1) = year_start z + (if leap (z + 1) then 366 else 365)"
    unfolding year_ok_def by blast+
  have "year_guess (year_start z) \<le> year_guess doe" "year_guess doe \<le> year_guess (year_start (z + 1) - 1)"
    using z by (simp_all add: year_guess_mono)
  then have "z \<le> y" "y \<le> z"
    unfolding y_def using ok zdiv_mono1 [of _ _ 365] by (metis zero_less_numeral)+
  then have "y = z" by simp
  with z ok(3) show ?thesis by (auto split: if_splits)
qed

text \<open>March is month 0 of the year here; the months' lengths.\<close>

lemma month_of_day:
  fixes doy :: int
  assumes "0 \<le> doy" "doy \<le> 365"
  defines "mp \<equiv> (5 * doy + 2) div 153"
  defines "m \<equiv> mp + (if mp < 10 then 3 else - 9)"
  defines "d \<equiv> doy - (153 * mp + 2) div 5 + 1"
  shows "0 \<le> mp \<and> mp \<le> 11 \<and> 1 \<le> m \<and> m \<le> 12 \<and> (m \<le> 2 \<longleftrightarrow> 10 \<le> mp) \<and> 1 \<le> d \<and>
    (m = 2 \<longrightarrow> d \<le> (if doy = 365 then 29 else 28)) \<and> (m \<in> {4, 6, 9, 11} \<longrightarrow> d \<le> 30) \<and> d \<le> 31 \<and> (doy = 365 \<longrightarrow> m = 2)"
proof -
  have b: "153 * mp \<le> 5 * doy + 2" "5 * doy + 2 < 153 * mp + 153"
    unfolding mp_def using div_bounds [of 153 "5 * doy + 2"] by simp_all
  have "x \<in> {0, 1, 2, 3, 4, 5, 6, 7, 8, 9, 10, 11}" if "0 \<le> x" "x \<le> 11" for x :: int
    using that by simp presburger
  moreover have "0 \<le> mp" "mp \<le> 11" using b assms(1,2) by linarith+
  ultimately have "mp \<in> {0, 1, 2, 3, 4, 5, 6, 7, 8, 9, 10, 11}" by blast
  then show ?thesis
    using b assms(1,2) unfolding m_def d_def by (elim insertE emptyE) auto
qed

lemma leap_era: "leap (y + 400 * e) = leap y"
proof -
  have "(y + 400 * e) mod 4 = y mod 4" "(y + 400 * e) mod 100 = y mod 100" "(y + 400 * e) mod 400 = y mod 400"
    using mod_mult_self1 [of y "100 * e" 4] mod_mult_self1 [of y "4 * e" 100] mod_mult_self1 [of y e 400]
    by (simp_all add: algebra_simps)
  then show ?thesis by (simp add: leap_def)
qed

lemma year_start_below: "y \<le> 399 \<Longrightarrow> year_start y = 365 * y + y div 4 - y div 100"
  by (simp add: year_start_def)

theorem civil_roundtrip:
  assumes "civil_from_days z = (y, m, d)"
  shows "1 \<le> m \<and> m \<le> 12 \<and> 1 \<le> d \<and> d \<le> days_in y m \<and> days_from_civil y m d = z"
proof -
  define era doe where "era = (z + 719468) div 146097" and "doe = (z + 719468) mod 146097"
  have doe: "0 \<le> doe" "doe < 146097" by (simp_all add: doe_def)
  have z: "era * 146097 + doe = z + 719468" by (simp add: era_def doe_def)
  define yoe where "yoe = year_guess doe div 365"
  define doy where "doy = doe - year_start yoe"
  note dy = day_of_year [OF doe, folded yoe_def, folded doy_def]
  define mp where "mp = (5 * doy + 2) div 153"
  have "doy \<le> 365" using dy by (auto split: if_splits)
  with dy have "0 \<le> doy" "doy \<le> 365" by auto
  note md = month_of_day [OF this, folded mp_def]
  have ys: "year_start yoe = 365 * yoe + yoe div 4 - yoe div 100" using dy by (simp add: year_start_below)
  have "(yoe + era * 400 + (if mp + (if mp < 10 then 3 else - 9) \<le> 2 then 1 else 0),
      mp + (if mp < 10 then 3 else - 9), doy - (153 * mp + 2) div 5 + 1) = (y, m, d)"
    using assms unfolding civil_from_days_def Let_def
    by (simp only: era_def [symmetric] doe_def [symmetric] year_guess_def [symmetric] yoe_def [symmetric]
        ys [symmetric] doy_def [symmetric] mp_def [symmetric])
  then have eqs: "y = yoe + era * 400 + (if m \<le> 2 then 1 else 0)" "m = mp + (if mp < 10 then 3 else - 9)"
      "d = doy - (153 * mp + 2) div 5 + 1"
    unfolding prod.inject by blast+
  note md' = md [folded eqs(2,3)]
  have leap: "m = 2 \<Longrightarrow> leap y = leap (yoe + 1)"
    using leap_era [of "yoe + 1" era] by (simp add: eqs(1) algebra_simps)
  have d: "d \<le> days_in y m"
    using md' dy leap by (auto simp: days_in_def split: if_splits)
  have y': "(if m \<le> 2 then y - 1 else y) = yoe + era * 400" by (simp add: eqs(1))
  have mp: "m + (if 2 < m then - 3 else 9) = mp" using md' by (auto simp: eqs(2))
  have "days_from_civil y m d = era * 146097 + (yoe * 365 + yoe div 4 - yoe div 100 + doy) - 719468"
    unfolding days_from_civil_def y' mp Let_def using dy by (simp add: eqs(3))
  also have "\<dots> = z" using z ys by (simp add: doy_def)
  finally show ?thesis using md' d by blast
qed

section \<open>Printed dates\<close>

lemma nat_str_length: "0 \<le> n \<Longrightarrow> n < 10 ^ w \<Longrightarrow> 0 < w \<Longrightarrow> length (nat_str n) \<le> w"
proof (induction w arbitrary: n)
  case (Suc w)
  show ?case
  proof (cases "n < 10")
    case True
    then show ?thesis by (subst nat_str.simps) simp
  next
    case False
    with Suc.prems have "0 < w" by (cases w) auto
    moreover have "n div 10 < 10 ^ w" using Suc.prems(2) by simp
    ultimately have "length (nat_str (n div 10)) \<le> w" using Suc.IH [of "n div 10"] Suc.prems(1) by simp
    with False show ?thesis by (subst nat_str.simps) simp
  qed
qed simp

lemma digits_val_zeros: "digits_val (replicate k (CHR ''0'') @ s) = digits_val s"
proof -
  have "foldl (\<lambda>a c. 10 * a + (case digit_val c of None \<Rightarrow> 0 | Some d \<Rightarrow> d)) 0 (replicate k (CHR ''0'')) = 0"
    by (induction k) (simp_all add: digit_val_def)
  then show ?thesis by (simp add: base_val_def)
qed

lemma num_field_pad:
  assumes "0 \<le> n" "n < 10 ^ w" "0 < w"
  shows "num_field w (pad_nat w n @ s) = Some (n, s)"
proof -
  have l: "length (pad_nat w n) = w" using nat_str_length [OF assms] by (simp add: pad_nat_def Let_def)
  have "list_all is_digit (replicate (w - length (nat_str n)) (CHR ''0''))"
    by (simp add: list_all_iff is_digit_def digit_val_def)
  then have "list_all is_digit (pad_nat w n)"
    using nat_str_digits [OF assms(1)] by (simp add: pad_nat_def Let_def)
  moreover have "digits_val (pad_nat w n) = n"
    by (simp add: pad_nat_def Let_def digits_val_zeros digits_val_nat_str [OF assms(1)])
  ultimately show ?thesis using l by (simp add: num_field_def)
qed

lemma lit_field_append: "lit_field p (p @ s) = Some s"
  by (simp add: lit_field_def HasPrefix_def)

theorem parse_ymd_fmt_date:
  assumes "Date t = (y, m, d)" "0 \<le> y" "y \<le> 9999"
  shows "parse_ymd (fmt_date t @ s) = Some (local_secs t div 86400, s)"
proof -
  note c = civil_roundtrip [OF assms(1) [unfolded Date_def]]
  have "days_in y m \<le> 31" by (simp add: days_in_def)
  with c have small: "d \<le> 31" by linarith
  have "num_field 4 (pad_nat 4 y @ r) = Some (y, r)" "num_field 2 (pad_nat 2 m @ r) = Some (m, r)"
    "num_field 2 (pad_nat 2 d @ r) = Some (d, r)" for r
    using assms(2,3) c small by (auto intro!: num_field_pad)
  then show ?thesis
    using assms(1) c lit_field_append [of "''-''"] by (simp add: fmt_date_def parse_ymd_def)
qed

theorem ParseDate_fmt_date:
  assumes "Date t = (y, m, d)" "0 \<le> y" "y \<le> 9999"
  shows "ParseDate (fmt_date t) = Some (utc_midnight t)"
proof -
  have "days_from_civil y m d = local_secs t div 86400"
    using civil_roundtrip [OF assms(1) [unfolded Date_def]] by blast
  then show ?thesis
    using parse_ymd_fmt_date [OF assms, of "[]"] assms(1) by (simp add: ParseDate_def utc_midnight_def)
qed

lemma utc_midnight_day: "utc_midnight t = \<lparr>t_ns = local_secs t div 86400 * 86400 * Second, t_off = 0\<rparr>"
proof -
  obtain y m d where e: "Date t = (y, m, d)" by (metis prod.exhaust)
  show ?thesis
    using civil_roundtrip [OF e [unfolded Date_def]] e by (simp add: utc_midnight_def)
qed

section \<open>A printed date survives trimming\<close>

lemma trim_left_keep:
  assumes "\<And>p. p \<in> set ps \<Longrightarrow> p \<noteq> [] \<Longrightarrow> hd p \<noteq> c"
  shows "trim_left ps (c # s) = c # s"
proof -
  have "find (\<lambda>p. p \<noteq> [] \<and> HasPrefix (c # s) p) ps = None"
    using assms by (auto simp: find_None_iff HasPrefix_def) (metis list.sel(1) take_Suc_Cons length_Suc_conv neq_Nil_conv)
  then show ?thesis by (subst trim_left.simps) simp
qed

lemma space_runes_no_digit:
  "is_digit c \<Longrightarrow> p \<in> set space_runes \<Longrightarrow> p \<noteq> [] \<Longrightarrow> hd p \<noteq> c"
  "is_digit c \<Longrightarrow> p \<in> set (map rev space_runes) \<Longrightarrow> p \<noteq> [] \<Longrightarrow> hd p \<noteq> c"
proof -
  have "list_all (\<lambda>p. p \<noteq> [] \<longrightarrow> \<not> is_digit (hd p)) space_runes"
    "list_all (\<lambda>p. p \<noteq> [] \<longrightarrow> \<not> is_digit (hd p)) (map rev space_runes)" by code_simp+
  then show "is_digit c \<Longrightarrow> p \<in> set space_runes \<Longrightarrow> p \<noteq> [] \<Longrightarrow> hd p \<noteq> c"
    "is_digit c \<Longrightarrow> p \<in> set (map rev space_runes) \<Longrightarrow> p \<noteq> [] \<Longrightarrow> hd p \<noteq> c"
    by (auto simp: list_all_iff)
qed

lemma TrimSpace_line:
  assumes "s \<noteq> []" "is_digit (hd s)" "is_digit (last s)"
  shows "TrimSpace (s @ [CHR 0x0A]) = s"
proof -
  obtain c r where s: "s = c # r" using assms(1) by (cases s) auto
  have a: "trim_left space_runes (s @ [CHR 0x0A]) = s @ [CHR 0x0A]"
    unfolding s append_Cons by (rule trim_left_keep) (use space_runes_no_digit(1) assms(2) s in auto)
  obtain e q where e: "rev s = e # q" "is_digit e"
    using assms(1,3) by (cases s rule: rev_cases) auto
  have k: "trim_left (map rev space_runes) (e # q) = e # q"
    by (rule trim_left_keep) (use space_runes_no_digit(2) e in auto)
  have "find (\<lambda>p. p \<noteq> [] \<and> HasPrefix (CHR 0x0A # e # q) p) (map rev space_runes) = Some [CHR 0x0A]"
    by (simp add: space_runes_code HasPrefix_def)
  then have "trim_left (map rev space_runes) (CHR 0x0A # e # q) = e # q"
    using k by (subst trim_left.simps) simp
  with a e have "TrimSpace (s @ [CHR 0x0A]) = rev (e # q)" by (simp add: TrimSpace_def)
  then show ?thesis using e(1) by (metis rev_rev_ident)
qed

end
