(* ===== verification/DailyReportProps.thy ===== *)
theory DailyReportProps
  imports DailyReport GoTimeProps MailerProps TransactionProps
begin

text \<open>
  The daily reports against the contracts of their source and their mailer (locale \<open>report_office\<close>): where
  the document of a report ends up, that a day is reported at most once, and that a restart remembers it.
\<close>

section \<open>Paths\<close>

definition plain_name :: "string \<Rightarrow> bool" where
  "plain_name n \<longleftrightarrow> n \<noteq> [] \<and> n \<noteq> ''.'' \<and> n \<noteq> ''..'' \<and> CHR ''/'' \<notin> set n"

lemma Split_append_sep: "CHR ''/'' \<notin> set n \<Longrightarrow> Split (CHR ''/'') (d @ ''/'' @ n) = Split (CHR ''/'') d @ [n]"
proof (induction d)
  case Nil
  have "CHR ''/'' \<notin> set n \<Longrightarrow> Split (CHR ''/'') n = [n]" for n
    by (induction n) auto
  with Nil show ?case by simp
next
  case (Cons c d)
  then show ?case by (auto split: list.splits)
qed

lemma clean_elems_name: "plain_name n \<Longrightarrow> clean_elems rt st (es @ [n]) = clean_elems rt st es @ [n]"
  by (induction rt st es rule: clean_elems.induct) (auto simp: plain_name_def)

lemma Join_snoc: "Join sep (xs @ [x]) = (if xs = [] then x else Join sep xs @ sep @ x)"
proof (induction xs)
  case (Cons y ys)
  then show ?case by (cases ys) auto
qed simp

lemma PathJoin_name:
  assumes "plain_name n"
  shows "\<exists>p. \<forall>m. plain_name m \<longrightarrow> PathJoin dir m = p @ m"
proof -
  let ?rt = "take 1 (dir @ ''/'') = ''/''"
  let ?es = "clean_elems ?rt [] (Split (CHR ''/'') dir)"
  let ?p = "(if ?rt then ''/'' else []) @ (if ?es = [] then [] else Join ''/'' ?es @ ''/'')"
  have "PathJoin dir m = ?p @ m" if m: "plain_name m" for m
  proof -
    have "take 1 (dir @ ''/'' @ m) = take 1 (dir @ ''/'')" by (cases dir) auto
    then show ?thesis
      using m Split_append_sep [of m dir] clean_elems_name [OF m]
      by (auto simp: PathJoin_def Clean_def Let_def Join_snoc plain_name_def)
  qed
  then show ?thesis by blast
qed

lemma PathJoin_inj: "plain_name a \<Longrightarrow> plain_name b \<Longrightarrow> PathJoin dir a = PathJoin dir b \<Longrightarrow> a = b"
  using PathJoin_name [of a dir] by auto

lemma nat_str_is_digit: "c \<in> set (nat_str n) \<Longrightarrow> is_digit c"
proof (induction n rule: nat_str.induct)
  case (1 n)
  have d: "is_digit (digit_char m)" if "m < 10" for m
  proof (cases "0 \<le> m")
    case True
    with that show ?thesis by (simp add: is_digit_def digit_val_digit_char)
  next
    case False
    then show ?thesis by (simp add: digit_char_def is_digit_def digit_val_def)
  qed
  from 1 show ?case
    by (subst (asm) nat_str.simps) (auto simp: d split: if_splits)
qed

lemma pad_nat_is_digit: "c \<in> set (pad_nat w n) \<Longrightarrow> is_digit c"
proof -
  have "is_digit (CHR ''0'')" by (simp add: is_digit_def digit_val_def)
  then show "c \<in> set (pad_nat w n) \<Longrightarrow> is_digit c" by (auto simp: pad_nat_def Let_def nat_str_is_digit)
qed

lemma pad_nat_not_Nil [simp]: "pad_nat w n \<noteq> []"
  by (simp add: pad_nat_def Let_def)

lemma fmt_date_shape:
  "fmt_date t \<noteq> []" "is_digit (hd (fmt_date t))" "is_digit (last (fmt_date t))" "CHR ''/'' \<notin> set (fmt_date t)"
proof -
  obtain y m d where e: "Date t = (y, m, d)" by (metis prod.exhaust)
  have slash: "CHR ''/'' \<notin> set (pad_nat w n)" for w n
    using pad_nat_is_digit [of "CHR ''/''" w n] by (auto simp: is_digit_def digit_val_def)
  show "fmt_date t \<noteq> []" "CHR ''/'' \<notin> set (fmt_date t)"
    by (simp_all add: fmt_date_def e slash)
  show "is_digit (hd (fmt_date t))"
    using pad_nat_is_digit [of "hd (pad_nat 4 y)" 4 y] by (simp add: fmt_date_def e)
  show "is_digit (last (fmt_date t))"
    using pad_nat_is_digit [of "last (pad_nat 2 d)" 2 d] by (simp add: fmt_date_def e)
qed

section \<open>Where a document is kept\<close>

definition letter_dir :: "string \<Rightarrow> string" where
  "letter_dir d = (if d = [] then DefaultDeadLetterDir else d)"

definition letter_slot :: "string \<Rightarrow> string \<Rightarrow> gtime \<Rightarrow> string" where
  "letter_slot dir kind date = PathJoin (letter_dir dir) (fmt_date date @ ''-'' @ kind @ ''.csv'')"

lemma fmt_hms_slash: "CHR ''/'' \<notin> set (fmt_hms t)"
  using pad_nat_is_digit [of "CHR ''/''"] by (auto simp: fmt_hms_def Let_def is_digit_def digit_val_def)

lemma writeDeadLetter_keeps:
  assumes "of_fs s = []" "CHR ''/'' \<notin> set kind"
  shows "\<exists>p. writeDeadLetter dir kind date csv s = (Inr p, s\<lparr>of_files := (of_files s)(p \<mapsto> csv)\<rparr>) \<and>
    (of_files s (letter_slot dir kind date) = None \<longrightarrow> p = letter_slot dir kind date) \<and>
    (of_files s (letter_slot dir kind date) \<noteq> None \<longrightarrow> p \<noteq> letter_slot dir kind date)"
proof (cases "of_files s (letter_slot dir kind date)")
  case None
  with assms(1) show ?thesis
    by (auto simp: writeDeadLetter_def MkdirAll_def StatOk_def WriteFile_def fs_next_def Let_def letter_slot_def letter_dir_def)
next
  case (Some old)
  let ?n1 = "fmt_date date @ ''-'' @ kind @ ''.csv''"
  let ?n2 = "fmt_date date @ ''-'' @ kind @ ''-'' @ fmt_hms (office_now s) @ ''.csv''"
  have big: "plain_name n" if "length n > 2" "CHR ''/'' \<notin> set n" for n
    using that by (auto simp: plain_name_def)
  have "plain_name ?n1" "plain_name ?n2"
    by (rule big; use fmt_date_shape assms(2) fmt_hms_slash in auto)+
  then have ne: "PathJoin (letter_dir dir) ?n2 \<noteq> letter_slot dir kind date"
    using PathJoin_inj [of ?n2 ?n1 "letter_dir dir"] by (auto simp: letter_slot_def)
  with Some assms(1) show ?thesis
    by (auto simp: writeDeadLetter_def MkdirAll_def StatOk_def WriteFile_def fs_next_def Let_def letter_slot_def letter_dir_def)
qed

lemma ping_files:
  "of_files (pingNtfyDeadLetter topic kind date path e s) = of_files s"
  "of_files (pingHealthcheck url s) = of_files s"
  by (simp_all add: pingNtfyDeadLetter_def pingHealthcheck_def in_world_def split: prod.splits)

text \<open>Where a successful send leaves a copy.\<close>

definition archived :: "string \<Rightarrow> string \<Rightarrow> string \<Rightarrow> (string \<rightharpoonup> string) \<Rightarrow> (string \<rightharpoonup> string)" where
  "archived dir name csv fs = (if dir = [] then fs else fs(PathJoin dir name \<mapsto> csv))"

lemma write_archive_keeps:
  "of_fs s = [] \<Longrightarrow> of_files (snd (write_archive dir name csv s)) = archived dir name csv (of_files s)"
  by (simp add: write_archive_def MkdirAll_def WriteFile_def fs_next_def archived_def)

section \<open>The contracts of the source and the mailer\<close>

locale report_office =
  fixes fetch :: "'a source_op" and mail :: mail_op
  assumes fetch_law: "fetch a b s = (r, s') \<Longrightarrow> of_files s' = of_files s \<and> of_fs s' = of_fs s"
    and mail_law: "mail to subject body att s = (r', s') \<Longrightarrow> of_files s' = of_files s \<and> of_fs s' = of_fs s"
begin

lemma deliver_files:
  assumes "deliver mail r kind date subject body filename csv (write_archive dir name csv) s = (res, s')"
    and "of_fs s = []" "CHR ''/'' \<notin> set kind"
  shows "if is_ok res then of_files s' = archived dir name csv (of_files s)
    else \<exists>p. of_files s' = (of_files s)(p \<mapsto> csv) \<and>
      (of_files s (letter_slot (rp_deadLetterDir r) kind date) \<noteq> None \<longrightarrow> p \<noteq> letter_slot (rp_deadLetterDir r) kind date)"
proof -
  let ?att = "Some \<lparr>att_Filename = filename, att_ContentType = ''text/csv; charset=utf-8'', att_Body = csv\<rparr>"
  obtain m s1 where m: "mail (rp_recipients r) subject body ?att s = (m, s1)" by (rule prod.exhaust)
  note ml = mail_law [OF m]
  show ?thesis
  proof (cases m)
    case (Inl e)
    obtain p where p: "writeDeadLetter (rp_deadLetterDir r) kind date csv s1 =
        (Inr p, s1\<lparr>of_files := (of_files s1)(p \<mapsto> csv)\<rparr>)"
      "of_files s1 (letter_slot (rp_deadLetterDir r) kind date) \<noteq> None \<longrightarrow> p \<noteq> letter_slot (rp_deadLetterDir r) kind date"
      using writeDeadLetter_keeps [of s1 kind "rp_deadLetterDir r" date csv] assms(2,3) ml by auto
    have "res = Inl (wrap_err ''sending email'' e)" "of_files s' = (of_files s1)(p \<mapsto> csv)"
      using assms(1) m Inl p(1) ping_files(1) by (auto simp: deliver_def)
    with p(2) ml show ?thesis by auto
  next
    case (Inr u)
    obtain a s2 where a: "write_archive dir name csv s1 = (a, s2)" by (rule prod.exhaust)
    have "res = Inr ()" "of_files s' = of_files s2"
      using assms(1) m Inr a ping_files(2) by (auto simp: deliver_def)
    with write_archive_keeps [of s1 dir name csv] a ml assms(2) show ?thesis by simp
  qed
qed

end

lemma in_world_frame: "in_world f s = (r, s') \<Longrightarrow> of_files s' = of_files s \<and> of_fs s' = of_fs s"
  by (auto simp: in_world_def split: prod.splits)

lemma getToken_frame:
  assumes "getToken c force s = (r, s')"
  shows "of_files s' = of_files s \<and> of_fs s' = of_fs s"
  using getToken_exchange [OF assms] by (auto simp: exchanged_def)

lemma postSendMail_frame:
  assumes "postSendMail c payload force s = (r, s')"
  shows "of_files s' = of_files s \<and> of_fs s' = of_fs s"
  using postSendMail_exchange [OF assms] by (auto simp: exchanged_def)

lemma Send_frame:
  assumes "Send c to subject body att s = (r, s')"
  shows "of_files s' = of_files s \<and> of_fs s' = of_fs s"
proof -
  let ?p = "buildGraphPayload to subject body att"
  obtain r1 s1 where p1: "postSendMail c ?p False s = (r1, s1)" by (rule prod.exhaust)
  obtain r2 s2 where p2: "postSendMail c ?p True s1 = (r2, s2)" by (rule prod.exhaust)
  show ?thesis
    using assms postSendMail_frame [OF p1] postSendMail_frame [OF p2]
    by (cases r1) (auto simp: Send_def Let_def p1 p2 split: if_splits)
qed

interpretation cash: report_office "\<lambda>a b. in_world (FetchOrdersInWindow f a b)" "Send c" for f c
  by unfold_locales (rule in_world_frame Send_frame; assumption)+

interpretation intake: report_office "\<lambda>a b. in_world (FetchOrdersByDateRange a b)" "Send c" for c
  by unfold_locales (rule in_world_frame Send_frame; assumption)+


section \<open>One report a day\<close>

definition sent_now ::
  "(gtime \<Rightarrow> office \<Rightarrow> unit res \<times> office) \<Rightarrow> reporter \<Rightarrow> gtime \<times> office \<Rightarrow> gtime list" where
  "sent_now send r st =
     (let today = utc_midnight (UTC (office_now (snd st))) in
      if report_due r (fst st) (snd st) \<and> is_ok (fst (send (AddDays today (- 1)) (snd st))) then [today] else [])"

text \<open>The days on which a run of the scheduler sent a report, in order.\<close>

fun sent_days ::
  "(gtime \<Rightarrow> office \<Rightarrow> unit res \<times> office) \<Rightarrow> reporter \<Rightarrow> string \<Rightarrow> (office \<Rightarrow> office) list \<Rightarrow> gtime \<times> office
     \<Rightarrow> gtime list" where
  "sent_days send r kind [] st = sent_now send r st"
| "sent_days send r kind (env # envs) st =
     sent_now send r st @ sent_days send r kind envs (map_prod (\<lambda>d. d) env (check_report send r kind st))"

lemma check_report_day:
  "(sent_now send r st = [] \<and> fst (check_report send r kind st) = fst st) \<or>
   (\<exists>today. sent_now send r st = [today] \<and> fst (check_report send r kind st) = today \<and> Before (fst st) today \<and>
      today = utc_midnight (UTC (office_now (snd st))) \<and> Hour (UTC (office_now (snd st))) = rp_hour r)"
proof -
  obtain prev s where st: "st = (prev, s)" by (cases st)
  let ?today = "utc_midnight (UTC (office_now s))"
  obtain x s1 where x: "send (AddDays ?today (- 1)) s = (x, s1)" by (rule prod.exhaust)
  show ?thesis
    by (cases x; cases "report_due r prev s")
      (simp_all add: st x sent_now_def check_report_def report_due_def Let_def)
qed

lemma sent_days_after:
  "sorted_wrt (\<lambda>a b. t_ns a < t_ns b) (sent_days send r kind envs st) \<and>
   (\<forall>d\<in>set (sent_days send r kind envs st). t_ns (fst st) < t_ns d \<and> (\<exists>t. d = utc_midnight t \<and> Hour t = rp_hour r))"
proof (induction envs arbitrary: st)
  case Nil
  from check_report_day [of send r st kind] show ?case by (auto simp: Before_def)
next
  case (Cons env envs)
  let ?st = "map_prod (\<lambda>d. d) env (check_report send r kind st)"
  have f: "fst ?st = fst (check_report send r kind st)" by (simp add: map_prod_def split: prod.split)
  from check_report_day [of send r st kind] Cons.IH [of ?st] show ?case
    unfolding f by (elim disjE conjE exE) (auto simp: Before_def intro: less_trans)
qed

text \<open>C36: whatever happens between two checks of a scheduler, clock changes and failed sends included, the days on
  which it sends a report increase strictly, so no day is reported twice; it sends only in the hour
  configured.\<close>

theorem one_report_per_day:
  "sorted_wrt (\<lambda>a b. t_ns a < t_ns b) (sent_days send r kind envs st) \<and> distinct (sent_days send r kind envs st) \<and>
   (\<forall>d\<in>set (sent_days send r kind envs st). \<exists>t. d = utc_midnight t \<and> Hour t = rp_hour r)"
proof -
  have "sorted_wrt (\<lambda>a b. t_ns a < t_ns b) ds \<Longrightarrow> distinct ds" for ds :: "gtime list"
    by (induction ds) auto
  with sent_days_after [of send r kind envs st] show ?thesis by blast
qed

section \<open>Restarts\<close>

lemma office_now_world: "of_world s' = of_world s \<Longrightarrow> office_now s' = office_now s"
  by (simp add: office_now_def)

lemma utc_midnight_idem: "utc_midnight (utc_midnight t) = utc_midnight t"
  by (simp add: utc_midnight_day local_secs_def Second_def)

lemma UTC_midnight: "UTC (utc_midnight t) = utc_midnight t"
  by (simp add: utc_midnight_day UTC_def)

text \<open>After a report was sent and its date recorded, a restarted scheduler reads that date back and sends
  nothing more on that day, as long as the state file is readable and was not changed.\<close>

theorem restart_does_not_resend:
  assumes "report_due r prev s" "today = utc_midnight (UTC (office_now s))"
    and "send (AddDays today (- 1)) s = (Inr (), s0)" "of_fs s0 = []" "rp_stateDir r \<noteq> []"
    and "Date today = (y, m, d)" "0 \<le> y" "y \<le> 9999"
    and "of_files s2 (last_send_path (rp_stateDir r) kind) =
      of_files (snd (check_report send r kind (prev, s))) (last_send_path (rp_stateDir r) kind)"
    and "of_fs s2 = []" "utc_midnight (UTC (office_now s2)) = today"
  shows "check_report send r kind (readLastSent (rp_stateDir r) kind s2) = (today, s2)"
proof -
  have "snd (check_report send r kind (prev, s)) =
      s0\<lparr>of_files := (of_files s0)(last_send_path (rp_stateDir r) kind \<mapsto> fmt_date (UTC today) @ nl)\<rparr>"
    using assms(1-5) by (simp add: check_report_def writeLastSent_def MkdirAll_def WriteFile_def fs_next_def Let_def)
  with assms(9) have content: "of_files s2 (last_send_path (rp_stateDir r) kind) = Some (fmt_date (UTC today) @ nl)" by simp
  have u: "UTC today = today" by (simp add: assms(2) UTC_midnight)
  have line: "TrimSpace (fmt_date today @ nl) = fmt_date today"
  proof -
    have "nl = [CHR 0x0A]" by code_simp
    with TrimSpace_line [OF fmt_date_shape(1-3) [of today]] show ?thesis by (simp only:)
  qed
  have "ParseDate (fmt_date today) = Some today"
    using ParseDate_fmt_date [OF assms(6-8)] by (simp add: assms(2) utc_midnight_idem)
  then have "readLastSent (rp_stateDir r) kind s2 = (today, s2)"
    using assms(5,10) content by (simp add: readLastSent_def ReadFile_def fs_next_def u line)
  then show ?thesis
    using assms(11) by (simp add: check_report_def report_due_def Before_def)
qed

section \<open>An empty day, and a restart\<close>

definition empty_office :: office where
  "empty_office = \<lparr>of_world = empty_world\<lparr>w_http := [(Resp 200 [] ''{}'', 0)]\<rparr>, of_token = [],
     of_tokenExp = zero_time, of_files = Map.empty, of_fs = []\<rparr>"

definition demo_reporter :: reporter where
  "demo_reporter = \<lparr>rp_recipients = [''a@x''], rp_storeName = ''shop'', rp_hour = 0, rp_healthcheckURL = [],
     rp_deadLetterDir = ''/dl'', rp_archiveDir = [], rp_stateDir = ''/st'', rp_ntfyTopic = [], rp_coverNote = []\<rparr>"

definition no_mail :: mailer_config where
  "no_mail = \<lparr>mc_TenantID = [], mc_ClientID = [], mc_ClientSecret = [], mc_SenderMailbox = [],
     mc_GraphBaseURL = [], mc_TokenBaseURL = []\<rparr>"

lemma demo_no_orders: "\<exists>w1. FetchOrdersInWindow demo_fetcher a b (of_world empty_office) = (Inr [], w1)"
  by (simp add: FetchOrdersInWindow_def listOrdersInWindow_def orders_loop.simps http_do_def demo_orders_page empty_office_def)

lemma demo_mail_fails: "\<not> is_ok (fst (service_cash_send demo_fetcher no_mail demo_reporter zero_time empty_office))"
proof -
  obtain w1 where w1: "FetchOrdersInWindow demo_fetcher (day_start zero_time) (AddDays (day_start zero_time) 1)
      (of_world empty_office) = (Inr [], w1)"
    using demo_no_orders by blast
  show ?thesis
    by (simp add: service_cash_send_def SendForDate_def in_world_def w1 deliver_def Send_def incomplete_def no_mail_def
        demo_reporter_def Let_def split: prod.splits)
qed


lemma demo_today: "utc_midnight (UTC (office_now empty_office)) = \<lparr>t_ns = 0, t_off = 0\<rparr>"
  by code_simp

text \<open>Two checks within one hour: only the first sends.\<close>

lemma demo_sent_days:
  "sent_days (\<lambda>d s. (Inr (), s)) demo_reporter ''cash'' [\<lambda>s. s] (zero_time, empty_office) = [\<lparr>t_ns = 0, t_off = 0\<rparr>]"
proof -
  let ?send = "\<lambda>(d :: gtime) s :: office. (Inr () :: unit res, s)"
  let ?t = "\<lparr>t_ns = 0, t_off = 0\<rparr> :: gtime"
  have due: "report_due demo_reporter zero_time empty_office"
    by (simp add: report_due_def demo_today) code_simp
  obtain s1 where s1: "check_report ?send demo_reporter ''cash'' (zero_time, empty_office) = (?t, s1)"
    "office_now s1 = office_now empty_office"
  proof
    have "of_fs empty_office = []" "rp_stateDir demo_reporter \<noteq> []" by (simp_all add: empty_office_def demo_reporter_def)
    moreover have "utc_midnight (UTC (now (of_world empty_office))) = ?t" using demo_today by (simp add: office_now_def)
    ultimately show "check_report ?send demo_reporter ''cash'' (zero_time, empty_office) =
        (?t, snd (writeLastSent (rp_stateDir demo_reporter) ''cash'' ?t empty_office))"
      "office_now (snd (writeLastSent (rp_stateDir demo_reporter) ''cash'' ?t empty_office)) = office_now empty_office"
      using due by (simp_all add: check_report_def demo_today Let_def writeLastSent_def MkdirAll_def WriteFile_def fs_next_def
          office_now_def)
  qed
  have "\<not> report_due demo_reporter ?t s1" by (simp add: report_due_def s1(2) demo_today Before_def)
  then show ?thesis using due by (simp add: sent_now_def s1 demo_today)
qed

theorem one_report_per_day_witness: "\<exists>t. \<lparr>t_ns = 0, t_off = 0\<rparr> = utc_midnight t \<and> Hour t = 0"
  using one_report_per_day [of "\<lambda>d s. (Inr (), s)" demo_reporter "''cash''" "[\<lambda>s. s]" "(zero_time, empty_office)"]
  unfolding demo_sent_days by (simp add: demo_reporter_def)

theorem restart_does_not_resend_witness:
  "\<exists>s2. check_report (\<lambda>d s. (Inr (), s)) demo_reporter ''cash'' (readLastSent ''/st'' ''cash'' s2) =
     (\<lparr>t_ns = 0, t_off = 0\<rparr>, s2)"
proof -
  let ?send = "\<lambda>(d :: gtime) s :: office. (Inr () :: unit res, s)"
  let ?t = "\<lparr>t_ns = 0, t_off = 0\<rparr> :: gtime"
  let ?s2 = "snd (check_report ?send demo_reporter ''cash'' (zero_time, empty_office))"
  have due: "report_due demo_reporter zero_time empty_office"
    by (simp add: report_due_def demo_today) code_simp
  have s2: "of_fs ?s2 = []" "office_now ?s2 = office_now empty_office"
    using due by (simp_all add: check_report_def demo_reporter_def writeLastSent_def MkdirAll_def WriteFile_def fs_next_def
        Let_def office_now_def empty_office_def)
  have d: "Date ?t = (1970, 1, 1)" by code_simp
  have dir: "rp_stateDir demo_reporter = ''/st''" by (simp add: demo_reporter_def)
  have "check_report ?send demo_reporter ''cash'' (readLastSent (rp_stateDir demo_reporter) ''cash'' ?s2) = (?t, ?s2)"
    by (rule restart_does_not_resend [OF due demo_today [symmetric] refl _ _ d _ _ refl])
      (simp_all add: s2 demo_today dir, simp_all add: empty_office_def)
  then show ?thesis unfolding dir by blast
qed

end
