(* ===== verification/GoDuration.thy ===== *)
theory GoDuration
  imports GoFloat
begin

text \<open>
  Go's \<open>time.ParseDuration\<close>, as the configuration uses it. The accumulators are \<open>uint64\<close>; their
  wrap-around is written out, the tests against \<open>1 << 63\<close> are the library's own. Fractions go through
  \<open>float64\<close>. \<open>None\<close> stands for any of the errors.
\<close>

fun fmul :: "float64 \<Rightarrow> float64 \<Rightarrow> float64" where
  "fmul (Fin a) (Fin b) = round64 (a * b)"
| "fmul NaN _ = NaN"
| "fmul _ NaN = NaN"
| "fmul (Inf s) (Fin b) = (if b = 0 then NaN else Inf (s \<noteq> (b < 0)))"
| "fmul (Fin a) (Inf t) = (if a = 0 then NaN else Inf ((a < 0) \<noteq> t))"
| "fmul (Inf s) (Inf t) = Inf (s \<noteq> t)"

text \<open>\<open>uint64(x)\<close>; the values converted here are not negative and far below the bound.\<close>

fun trunc_uint64 :: "float64 \<Rightarrow> int" where
  "trunc_uint64 (Fin q) = \<lfloor>q\<rfloor> mod 2 ^ 64"
| "trunc_uint64 _ = 0"

text \<open>\<open>leadingInt\<close>: \<open>[0-9]*\<close>, an error on overflow.\<close>

fun leadingInt :: "int \<Rightarrow> string \<Rightarrow> (int \<times> string) option" where
  "leadingInt x [] = Some (x, [])"
| "leadingInt x (c # s) =
     (case digit_val c of
        None \<Rightarrow> Some (x, c # s)
      | Some d \<Rightarrow>
          if 2 ^ 63 div 10 < x then None
          else let y = x * 10 + d in if 2 ^ 63 < y then None else leadingInt y s)"

text \<open>\<open>leadingFraction\<close>: \<open>[0-9]*\<close>; digits beyond the precision are skipped.\<close>

fun leadingFraction :: "int \<Rightarrow> float64 \<Rightarrow> bool \<Rightarrow> string \<Rightarrow> int \<times> float64 \<times> string" where
  "leadingFraction x scale overflow [] = (x, scale, [])"
| "leadingFraction x scale overflow (c # s) =
     (case digit_val c of
        None \<Rightarrow> (x, scale, c # s)
      | Some d \<Rightarrow>
          if overflow \<or> (2 ^ 63 - 1) div 10 < x then leadingFraction x scale True s
          else let y = x * 10 + d
               in if 2 ^ 63 < y then leadingFraction x scale True s
                  else leadingFraction y (fmul scale (Fin 10)) False s)"

definition unit_map :: "(string \<times> int) list" where
  "unit_map =
     [(''ns'', 1), (''us'', 10 ^ 3), ([CHR 0xC2, CHR 0xB5, CHR ''s''], 10 ^ 3),
      ([CHR 0xCE, CHR 0xBC, CHR ''s''], 10 ^ 3), (''ms'', 10 ^ 6), (''s'', 10 ^ 9), (''m'', 60 * 10 ^ 9),
      (''h'', 3600 * 10 ^ 9)]"

definition unit_char :: "char \<Rightarrow> bool" where
  "unit_char c \<longleftrightarrow> c \<noteq> CHR ''.'' \<and> \<not> is_digit c"

text \<open>One number with its unit: the nanoseconds it adds, and the rest of the text.\<close>

definition duration_part :: "string \<Rightarrow> (int \<times> string) option" where
  "duration_part s =
     (if s = [] \<or> \<not> (hd s = CHR ''.'' \<or> is_digit (hd s)) then None
      else case leadingInt 0 s of
        None \<Rightarrow> None
      | Some (v, s1) \<Rightarrow>
          (let pre = (length s1 \<noteq> length s);
               dot = (take 1 s1 = ''.'');
               (f, scale, s2) = (if dot then leadingFraction 0 (Fin 1) False (drop 1 s1) else (0, Fin 1, s1));
               post = (dot \<and> length s2 \<noteq> length (drop 1 s1));
               u = takeWhile unit_char s2
           in if \<not> pre \<and> \<not> post then None
              else case map_of unit_map u of
                None \<Rightarrow> None
              | Some n \<Rightarrow>
                  if 2 ^ 63 div n < v then None
                  else let w = v * n;
                           w' = (if 0 < f
                                 then (w + trunc_uint64 (fmul (round64 (of_int f)) (fdiv (Fin (of_int n)) scale))) mod 2 ^ 64
                                 else w)
                       in if 0 < f \<and> 2 ^ 63 < w' then None else Some (w', dropWhile unit_char s2)))"

lemma leadingInt_length: "leadingInt x s = Some (y, r) \<Longrightarrow> length r \<le> length s"
  by (induction s arbitrary: x) (auto simp: Let_def intro: le_SucI split: option.splits if_splits)

lemma leadingFraction_length: "leadingFraction x sc ov s = (y, sc', r) \<Longrightarrow> length r \<le> length s"
  by (induction s arbitrary: x sc ov) (auto simp: Let_def intro: le_SucI split: option.splits if_splits)

lemma dropWhile_length_le: "length (dropWhile P xs) \<le> length xs"
  by (induction xs) auto

lemma duration_part_length: "duration_part s = Some (v, r) \<Longrightarrow> length r < length s"
proof -
  assume h: "duration_part s = Some (v, r)"
  then obtain v1 s1 where l: "leadingInt 0 s = Some (v1, s1)"
    by (auto simp: duration_part_def split: if_splits option.splits)
  obtain f sc s2 where f: "(if take 1 s1 = ''.'' then leadingFraction 0 (Fin 1) False (drop 1 s1) else (0, Fin 1, s1))
      = (f, sc, s2)" by (rule prod_cases3)
  have s2: "length s2 \<le> length s1" "take 1 s1 = ''.'' \<Longrightarrow> length s2 < length s1"
    using f leadingFraction_length [of 0 "Fin 1" False "drop 1 s1" f sc s2]
    by (cases s1; auto split: if_splits)+
  have s1: "length s1 \<le> length s" by (rule leadingInt_length [OF l])
  have r: "r = dropWhile unit_char s2" and c: "length s1 \<noteq> length s \<or> take 1 s1 = ''.''"
    using h l f by (auto simp: duration_part_def Let_def split: if_splits option.splits)
  have "length s2 < length s" using c s1 s2 by fastforce
  with dropWhile_length_le [of unit_char s2] show ?thesis by (simp add: r)
qed

function duration_loop :: "int \<Rightarrow> string \<Rightarrow> int option" where
  "duration_loop d s =
     (if s = [] then Some d
      else case duration_part s of
             None \<Rightarrow> None
           | Some (v, r) \<Rightarrow>
               let d' = (d + v) mod 2 ^ 64 in if 2 ^ 63 < d' then None else duration_loop d' r)"
  by pat_completeness auto

termination
  by (relation "measure (\<lambda>(d, s). length s)") (auto dest: duration_part_length)

declare duration_loop.simps [simp del]

definition ParseDuration :: "string \<Rightarrow> int option" where
  "ParseDuration s =
     (let neg = (take 1 s = ''-''); t = (if neg \<or> take 1 s = ''+'' then drop 1 s else s)
      in if t = ''0'' then Some 0
         else if t = [] then None
         else case duration_loop 0 t of
                None \<Rightarrow> None
              | Some d \<Rightarrow> if neg then Some (- d) else if 2 ^ 63 - 1 < d then None else Some d)"

section \<open>Facts\<close>

lemma leadingInt_digits:
  assumes "list_all is_digit ds" "0 \<le> x" "foldl (\<lambda>a c. 10 * a + the (digit_val c)) x ds \<le> 2 ^ 63"
    and "r = [] \<or> \<not> is_digit (hd r)"
  shows "leadingInt x (ds @ r) = Some (foldl (\<lambda>a c. 10 * a + the (digit_val c)) x ds, r)"
  using assms
proof (induction ds arbitrary: x)
  case Nil
  then show ?case by (cases r) (auto simp: is_digit_def)
next
  case (Cons c ds)
  obtain d where d: "digit_val c = Some d" using Cons.prems(1) by (auto simp: is_digit_def)
  then have d0: "0 \<le> d" by (auto simp: digit_val_def Let_def split: if_splits)
  have mono: "y \<le> foldl (\<lambda>a c. 10 * a + the (digit_val c)) y ds" if "0 \<le> y" "list_all is_digit ds" for y :: int and ds
    using that
  proof (induction ds arbitrary: y)
    case (Cons e es)
    from Cons.prems(2) have "0 \<le> the (digit_val e)" by (auto simp: digit_val_def is_digit_def Let_def split: if_splits)
    then have "y \<le> 10 * y + the (digit_val e)" using Cons.prems(1) by linarith
    moreover from this have "0 \<le> 10 * y + the (digit_val e)" using Cons.prems(1) by linarith
    ultimately show ?case using Cons.IH [of "10 * y + the (digit_val e)"] Cons.prems(2) by fastforce
  qed simp
  have y: "10 * x + d \<le> 2 ^ 63"
    using mono [of "10 * x + d" ds] Cons.prems d d0 by fastforce
  then have "x \<le> 2 ^ 63 div 10" using d0 by simp
  with Cons y d d0 show ?case by (simp add: mult.commute)
qed

lemma base_val_digits: "list_all is_digit ds \<Longrightarrow> foldl (\<lambda>a c. 10 * a + the (digit_val c)) x ds =
    foldl (\<lambda>a c. 10 * a + (case digit_val c of None \<Rightarrow> 0 | Some d \<Rightarrow> d)) x ds"
  by (induction ds arbitrary: x) (auto simp: is_digit_def)

lemma leadingInt_nat_str:
  assumes "0 \<le> n" "n \<le> 2 ^ 63" "r = [] \<or> \<not> is_digit (hd r)"
  shows "leadingInt 0 (nat_str n @ r) = Some (n, r)"
proof -
  have "foldl (\<lambda>a c. 10 * a + the (digit_val c)) 0 (nat_str n) = n"
    using base_val_digits [OF nat_str_digits [OF assms(1)], of 0] digits_val_nat_str [OF assms(1)]
    by (simp add: base_val_def)
  with leadingInt_digits [OF nat_str_digits [OF assms(1)], of 0 r] assms(2,3) show ?thesis by simp
qed

lemma unit_map_chars: "map_of unit_map u = Some n \<Longrightarrow> u \<noteq> [] \<and> list_all unit_char u \<and> 0 < n"
  by (auto simp: unit_map_def unit_char_def is_digit_def digit_val_def split: if_splits)

text \<open>A whole number with a unit.\<close>

lemma duration_part_number:
  assumes "map_of unit_map u = Some n" "0 \<le> v" "v * n \<le> 2 ^ 63"
  shows "duration_part (nat_str v @ u) = Some (v * n, [])"
proof -
  note u = unit_map_chars [OF assms(1)]
  have "v * 1 \<le> v * n" by (rule mult_left_mono) (use u assms(2) in auto)
  with assms(3) have v: "v \<le> 2 ^ 63" by simp
  obtain c cs where c: "u = c # cs" "\<not> is_digit c" "c \<noteq> CHR ''.''" using u by (cases u) (auto simp: unit_char_def)
  have hd: "is_digit (hd (nat_str v @ u))"
    using nat_str_digits [OF assms(2)] by (cases "nat_str v") auto
  have "v * n div n \<le> 2 ^ 63 div n" by (rule zdiv_mono1) (use assms(3) u in auto)
  then have "v \<le> 2 ^ 63 div n" using u by simp
  moreover have "leadingInt 0 (nat_str v @ u) = Some (v, u)"
    using leadingInt_nat_str [OF assms(2) v, of u] c by simp
  moreover have tw: "takeWhile unit_char u = u" "dropWhile unit_char u = []"
    using u by (auto simp: list_all_iff takeWhile_eq_all_conv dropWhile_eq_Nil_conv)
  moreover have "take 1 u \<noteq> ''.''" using c by simp
  ultimately show ?thesis
    using hd u assms(1) by (simp add: duration_part_def Let_def not_less tw)
qed

theorem ParseDuration_number:
  assumes "map_of unit_map u = Some n" "in_int64 (i * n)"
  shows "ParseDuration (Itoa i @ u) = Some (i * n)"
proof -
  note u = unit_map_chars [OF assms(1)]
  have b: "- (2 ^ 63) \<le> i * n" "i * n < 2 ^ 63" using assms(2) by (simp_all add: in_int64_def)
  let ?v = "\<bar>i\<bar>"
  have v: "0 \<le> ?v" "?v * n \<le> 2 ^ 63" "?v * n = \<bar>i * n\<bar>" using b u by (auto simp: abs_mult)
  have loop: "duration_loop 0 (nat_str ?v @ u) = Some (?v * n)"
    using duration_part_number [OF assms(1) v(1,2)] v u
    by (subst duration_loop.simps) (simp add: duration_loop.simps [of _ "[]"] zmod_trivial_iff)
  have shape: "nat_str ?v @ u \<noteq> ''0''" "nat_str ?v @ u \<noteq> []" "take 1 (nat_str ?v @ u) \<noteq> ''-''" "take 1 (nat_str ?v @ u) \<noteq> ''+''"
    using u nat_str_no_sign [OF v(1)] by (cases "nat_str ?v"; cases u; auto)+
  show ?thesis
  proof (cases "i < 0")
    case True
    then have "Itoa i @ u = CHR ''-'' # nat_str ?v @ u" "- (?v * n) = i * n" by (simp_all add: Itoa_def)
    with loop shape(1,2) show ?thesis by (simp only: ParseDuration_def) simp
  next
    case False
    then have i: "Itoa i @ u = nat_str ?v @ u" "?v * n = i * n" by (simp_all add: Itoa_def)
    with b(2) have "\<not> 2 ^ 63 - 1 < ?v * n" by linarith
    with loop shape i show ?thesis by (simp only: ParseDuration_def Let_def) simp
  qed
qed

lemma leadingInt_ge: "leadingInt x s = Some (y, r) \<Longrightarrow> 0 \<le> x \<Longrightarrow> 0 \<le> y"
proof (induction s arbitrary: x)
  case (Cons c s)
  then show ?case
    by (auto simp: Let_def digit_val_def split: if_splits)
qed simp

lemma duration_part_bounds: "duration_part s = Some (v, r) \<Longrightarrow> 0 \<le> v"
proof -
  assume h: "duration_part s = Some (v, r)"
  then obtain v1 s1 where l: "leadingInt 0 s = Some (v1, s1)"
    by (auto simp: duration_part_def split: if_splits option.splits)
  have v1: "0 \<le> v1" by (rule leadingInt_ge [OF l]) simp
  show ?thesis
    using h l v1 unit_map_chars
    by (fastforce simp: duration_part_def Let_def split: if_splits option.splits prod.splits)
qed

lemma duration_loop_bounds: "duration_loop d s = Some e \<Longrightarrow> 0 \<le> d \<Longrightarrow> d \<le> 2 ^ 63 \<Longrightarrow> 0 \<le> e \<and> e \<le> 2 ^ 63"
proof (induction d s rule: duration_loop.induct)
  case (1 d s)
  from "1.prems"(1) consider "s = []" "e = d"
    | v r where "s \<noteq> []" "duration_part s = Some (v, r)" "\<not> 2 ^ 63 < (d + v) mod 2 ^ 64"
        "duration_loop ((d + v) mod 2 ^ 64) r = Some e"
    by (subst (asm) duration_loop.simps) (auto simp: Let_def split: if_splits option.splits)
  then show ?case
  proof cases
    case 2
    from "1.IH" [OF 2(1,2) refl refl 2(3)] 2(3,4) show ?thesis by simp
  qed (use "1.prems" in simp)
qed

theorem ParseDuration_bounds: "ParseDuration s = Some d \<Longrightarrow> in_int64 d"
  using duration_loop_bounds [of 0 s] duration_loop_bounds [of 0 "drop 1 s"]
  by (auto simp: ParseDuration_def in_int64_def Let_def split: if_splits option.splits)

end
