(* ===== verification/Config.thy ===== *)
theory Config
  imports GoDuration Json
begin

text \<open>
  \<open>config/config.go\<close>: the configuration the service starts with, from the environment. An environment is a
  function; a variable that is unset reads as the empty string. \<open>slog\<close>'s levels are their numbers. The texts
  of the library's parse errors are not represented.
\<close>

type_synonym env = "string \<Rightarrow> string"

record config =
  cf_ShopifyWebhookSecret :: string
  cf_ShopifyAPIKey :: string
  cf_ShopifyAPISecret :: string
  cf_ShopifyStoreURL :: string
  cf_SysproEnetURL :: string
  cf_SysproOperator :: string
  cf_SysproPassword :: string
  cf_SysproCompanyID :: string
  cf_SysproCompanyPassword :: string
  cf_SysproAllocationAction :: string
  cf_SysproTaxCodeMap :: string
  cf_DatabaseURL :: string
  cf_Port :: string
  cf_AdminToken :: string
  cf_StockSyncInterval :: int
  cf_BatchInterval :: int
  cf_FulfilmentSyncInterval :: int
  cf_ReconciliationInterval :: int
  cf_PaymentsSyncInterval :: int
  cf_ArspayCashBook :: string
  cf_ArspayPaymentType :: string
  cf_LogLevel :: int
  cf_ShopifyAccessToken :: string
  cf_ShopifyLocationID :: string
  cf_ShopifyBaseURL :: string
  cf_SysproWarehouse :: string
  cf_SysproSKUs :: "string list"
  cf_SQLServerDSN :: string
  cf_GraphTenantID :: string
  cf_GraphClientID :: string
  cf_GraphClientSecret :: string
  cf_GraphSenderMailbox :: string
  cf_CreditControlTo :: "string list"
  cf_OrderIntakeTo :: "string list"
  cf_DailyReportHour :: int
  cf_OrderIntakeHour :: int
  cf_HealthchecksCashURL :: string
  cf_HealthchecksIntakeURL :: string
  cf_DeadLetterDir :: string
  cf_SentReportArchiveDir :: string
  cf_ReportStateDir :: string
  cf_NtfyTopic :: string

section \<open>Missing and placeholder values\<close>

text \<open>The two slices that the closures \<open>get\<close> and \<open>checkPlaceholder\<close> append to.\<close>

record env_flags =
  ef_missing :: "string list"
  ef_placeholder :: "string list"

definition is_placeholder :: "string \<Rightarrow> bool" where
  "is_placeholder v \<longleftrightarrow> HasPrefix v ''PLACEHOLDER''"

definition get_env :: "env \<Rightarrow> string \<Rightarrow> env_flags \<Rightarrow> env_flags" where
  "get_env env key fl =
     (if env key = [] then fl\<lparr>ef_missing := ef_missing fl @ [key]\<rparr>
      else if is_placeholder (env key) then fl\<lparr>ef_placeholder := ef_placeholder fl @ [key]\<rparr>
      else fl)"

definition checkPlaceholder :: "env \<Rightarrow> string \<Rightarrow> env_flags \<Rightarrow> env_flags" where
  "checkPlaceholder env key fl =
     (if is_placeholder (env key) then fl\<lparr>ef_placeholder := ef_placeholder fl @ [key]\<rparr> else fl)"

text \<open>The calls before the two tests of \<open>Load\<close>, in the order of the source.\<close>

definition load_flags :: "env \<Rightarrow> env_flags" where
  "load_flags env =
     (let f1 = get_env env ''SHOPIFY_WEBHOOK_SECRET'' \<lparr>ef_missing = [], ef_placeholder = []\<rparr>;
          f2 = get_env env ''SHOPIFY_STORE_URL'' f1;
          f3 = get_env env ''SYSPRO_ENET_URL'' f2;
          f4 = get_env env ''SYSPRO_OPERATOR'' f3;
          f5 = checkPlaceholder env ''SYSPRO_PASSWORD'' f4;
          f6 = get_env env ''SYSPRO_COMPANY_ID'' f5;
          f7 = checkPlaceholder env ''SYSPRO_COMPANY_PASSWORD'' f6;
          f8 = get_env env ''DATABASE_URL'' f7
      in checkPlaceholder env ''SQLSERVER_DSN'' f8)"

text \<open>\<open>fmt\<close>'s \<open>%v\<close> of a slice of strings.\<close>

definition fmt_slice :: "string list \<Rightarrow> string" where
  "fmt_slice xs = ''['' @ Join '' '' xs @ '']''"

section \<open>Single values\<close>

definition or_default :: "string \<Rightarrow> string \<Rightarrow> string" where
  "or_default v d = (if v = [] then d else v)"

text \<open>A comma-separated list: trimmed, empty parts dropped.\<close>

definition comma_list :: "string \<Rightarrow> string list" where
  "comma_list raw = (if raw = [] then [] else filter (\<lambda>s. s \<noteq> []) (map TrimSpace (Split (CHR '','') raw)))"

definition duration_error :: go_error where
  "duration_error = Errorf ''time: invalid duration''"

definition parse_interval :: "string \<Rightarrow> string \<Rightarrow> int res" where
  "parse_interval key v =
     (case ParseDuration v of
        None \<Rightarrow> Inl (wrap_err (''invalid duration for '' @ key) duration_error)
      | Some d \<Rightarrow> Inr d)"

definition parseDuration :: "env \<Rightarrow> string \<Rightarrow> string \<Rightarrow> int res" where
  "parseDuration env key defaultVal = parse_interval key (or_default (env key) defaultVal)"

text \<open>An interval whose default is off.\<close>

definition optional_interval :: "env \<Rightarrow> string \<Rightarrow> int res" where
  "optional_interval env key = (if env key = [] then Inr 0 else parse_interval key (env key))"

definition report_hour :: "env \<Rightarrow> string \<Rightarrow> int \<Rightarrow> int res" where
  "report_hour env key d =
     (if env key = [] then Inr d
      else case ParseInt (env key) of
             None \<Rightarrow> Inl (Errorf (''invalid '' @ key @ '': '' @ go_quote (env key)))
           | Some n \<Rightarrow>
               if n < 0 \<or> 23 < n then Inl (Errorf (''invalid '' @ key @ '': '' @ go_quote (env key))) else Inr n)"

definition parseLogLevel :: "string \<Rightarrow> int res" where
  "parseLogLevel s =
     (if s = [] \<or> s = ''info'' then Inr 0
      else if s = ''debug'' then Inr (- 4)
      else if s = ''warn'' then Inr 4
      else if s = ''error'' then Inr 8
      else Inl (Errorf (''invalid LOG_LEVEL: '' @ go_quote s @ '' (must be debug, info, warn, or error)'')))"

section \<open>Load\<close>

fun and_then :: "'a res \<Rightarrow> ('a \<Rightarrow> 'b res) \<Rightarrow> 'b res" where
  "and_then (Inl e) k = Inl e"
| "and_then (Inr x) k = k x"

definition report_root :: "env \<Rightarrow> string" where
  "report_root env = env ''HOME'' @ ''/backups/rectella''"

text \<open>The configuration, given the values that had to be parsed.\<close>

definition config_of :: "env \<Rightarrow> int \<Rightarrow> int \<Rightarrow> int \<Rightarrow> int \<Rightarrow> int \<Rightarrow> int \<Rightarrow> int \<Rightarrow> int \<Rightarrow> config" where
  "config_of env stock batch fulfil recon pay daily intake level =
     \<lparr>cf_ShopifyWebhookSecret = env ''SHOPIFY_WEBHOOK_SECRET'', cf_ShopifyAPIKey = env ''SHOPIFY_API_KEY'',
      cf_ShopifyAPISecret = env ''SHOPIFY_API_SECRET'', cf_ShopifyStoreURL = env ''SHOPIFY_STORE_URL'',
      cf_SysproEnetURL = env ''SYSPRO_ENET_URL'', cf_SysproOperator = env ''SYSPRO_OPERATOR'',
      cf_SysproPassword = env ''SYSPRO_PASSWORD'', cf_SysproCompanyID = env ''SYSPRO_COMPANY_ID'',
      cf_SysproCompanyPassword = env ''SYSPRO_COMPANY_PASSWORD'',
      cf_SysproAllocationAction = or_default (env ''SYSPRO_ALLOCATION_ACTION'') ''A'',
      cf_SysproTaxCodeMap = or_default (env ''SYSPRO_TAX_CODE_MAP'') ''0.20:A,0.05:B,0.00:Z'',
      cf_DatabaseURL = env ''DATABASE_URL'', cf_Port = or_default (env ''PORT'') ''8080'',
      cf_AdminToken = env ''ADMIN_TOKEN'',
      cf_StockSyncInterval = stock, cf_BatchInterval = batch, cf_FulfilmentSyncInterval = fulfil,
      cf_ReconciliationInterval = recon, cf_PaymentsSyncInterval = pay,
      cf_ArspayCashBook = env ''ARSPAY_CASH_BOOK'', cf_ArspayPaymentType = env ''ARSPAY_PAYMENT_TYPE'',
      cf_LogLevel = level,
      cf_ShopifyAccessToken = env ''SHOPIFY_ACCESS_TOKEN'', cf_ShopifyLocationID = env ''SHOPIFY_LOCATION_ID'',
      cf_ShopifyBaseURL = env ''SHOPIFY_BASE_URL'', cf_SysproWarehouse = env ''SYSPRO_WAREHOUSE'',
      cf_SysproSKUs = comma_list (env ''SYSPRO_SKUS''), cf_SQLServerDSN = env ''SQLSERVER_DSN'',
      cf_GraphTenantID = env ''GRAPH_TENANT_ID'', cf_GraphClientID = env ''GRAPH_CLIENT_ID'',
      cf_GraphClientSecret = env ''GRAPH_CLIENT_SECRET'', cf_GraphSenderMailbox = env ''GRAPH_SENDER_MAILBOX'',
      cf_CreditControlTo = comma_list (env ''CREDIT_CONTROL_TO''),
      cf_OrderIntakeTo = comma_list (env ''ORDER_INTAKE_TO''),
      cf_DailyReportHour = daily, cf_OrderIntakeHour = intake,
      cf_HealthchecksCashURL = env ''HEALTHCHECKS_CASH_URL'', cf_HealthchecksIntakeURL = env ''HEALTHCHECKS_INTAKE_URL'',
      cf_DeadLetterDir = or_default (env ''DEAD_LETTER_DIR'') (report_root env @ ''/missed-reports''),
      cf_SentReportArchiveDir = or_default (env ''SENT_REPORT_ARCHIVE_DIR'') (report_root env @ ''/sent-reports''),
      cf_ReportStateDir = or_default (env ''REPORT_STATE_DIR'') (report_root env @ ''/state''),
      cf_NtfyTopic = env ''NTFY_TOPIC''\<rparr>"

text \<open>
  \<open>GRAPH_CLIENT_SECRET\<close> goes through \<open>checkPlaceholder\<close> only after the slice was tested, which has no effect.
\<close>

definition Load :: "env \<Rightarrow> config res" where
  "Load env =
     (let fl = load_flags env in
      if ef_missing fl \<noteq> []
        then Inl (Errorf (''missing required environment variables: '' @ fmt_slice (ef_missing fl)))
      else if ef_placeholder fl \<noteq> []
        then Inl (Errorf (''environment variables contain PLACEHOLDER values (real values not populated): '' @
               fmt_slice (ef_placeholder fl)))
      else
        and_then (parseDuration env ''STOCK_SYNC_INTERVAL'' ''15m'') (\<lambda>stock.
        and_then (parseDuration env ''BATCH_INTERVAL'' ''5m'') (\<lambda>batch.
        and_then (parseDuration env ''FULFILMENT_SYNC_INTERVAL'' ''30m'') (\<lambda>fulfil.
        and_then (optional_interval env ''RECONCILIATION_INTERVAL'') (\<lambda>recon.
        and_then (optional_interval env ''PAYMENTS_SYNC_INTERVAL'') (\<lambda>pay.
        and_then (report_hour env ''DAILY_REPORT_HOUR'' 1) (\<lambda>daily.
        and_then (report_hour env ''ORDER_INTAKE_HOUR'' 6) (\<lambda>intake.
        and_then (parseLogLevel (env ''LOG_LEVEL'')) (\<lambda>level.
          Inr (config_of env stock batch fulfil recon pay daily intake level))))))))))"

end
