(* ===== verification/ConfigProps.thy ===== *)
theory ConfigProps
  imports Config
begin

text \<open>Properties of the configuration: when \<open>Load\<close> accepts an environment, and what it then guarantees.\<close>

definition required_vars :: "string list" where
  "required_vars =
     [''SHOPIFY_WEBHOOK_SECRET'', ''SHOPIFY_STORE_URL'', ''SYSPRO_ENET_URL'', ''SYSPRO_OPERATOR'',
      ''SYSPRO_COMPANY_ID'', ''DATABASE_URL'']"

definition checked_vars :: "string list" where
  "checked_vars =
     [''SHOPIFY_WEBHOOK_SECRET'', ''SHOPIFY_STORE_URL'', ''SYSPRO_ENET_URL'', ''SYSPRO_OPERATOR'', ''SYSPRO_PASSWORD'',
      ''SYSPRO_COMPANY_ID'', ''SYSPRO_COMPANY_PASSWORD'', ''DATABASE_URL'', ''SQLSERVER_DSN'']"

definition interval_vars :: "string list" where
  "interval_vars =
     [''STOCK_SYNC_INTERVAL'', ''BATCH_INTERVAL'', ''FULFILMENT_SYNC_INTERVAL'', ''RECONCILIATION_INTERVAL'',
      ''PAYMENTS_SYNC_INTERVAL'']"

lemma empty_no_placeholder [simp]: "\<not> is_placeholder []"
  by (simp add: is_placeholder_def HasPrefix_def)

lemma flag_steps:
  "ef_missing (get_env env k fl) = ef_missing fl @ (if env k = [] then [k] else [])"
  "ef_placeholder (get_env env k fl) = ef_placeholder fl @ (if is_placeholder (env k) then [k] else [])"
  "ef_missing (checkPlaceholder env k fl) = ef_missing fl"
  "ef_placeholder (checkPlaceholder env k fl) = ef_placeholder fl @ (if is_placeholder (env k) then [k] else [])"
  by (auto simp: get_env_def checkPlaceholder_def)

lemma filter_step: "filter P (x # xs) = (if P x then [x] else []) @ filter P xs"
  by simp

lemma load_flags_lists:
  "ef_missing (load_flags env) = filter (\<lambda>k. env k = []) required_vars"
  "ef_placeholder (load_flags env) = filter (\<lambda>k. is_placeholder (env k)) checked_vars"
  by (simp_all add: load_flags_def Let_def flag_steps required_vars_def checked_vars_def filter_step del: filter.simps(2))

lemma is_ok_and_then [simp]: "is_ok (and_then r k) \<longleftrightarrow> (\<exists>x. r = Inr x \<and> is_ok (k x))"
  by (cases r) auto

lemma and_then_Inr: "and_then r k = Inr y \<longleftrightarrow> (\<exists>x. r = Inr x \<and> k x = Inr y)"
  by (cases r) auto

lemma parse_interval_iff: "parse_interval key v = Inr d \<longleftrightarrow> ParseDuration v = Some d"
  by (auto simp: parse_interval_def split: option.splits)

lemma ParseDuration_Nil: "ParseDuration [] = None"
  by (simp add: ParseDuration_def)

lemma default_intervals:
  "ParseDuration ''15m'' = Some (15 * 60 * 10 ^ 9)" "ParseDuration ''5m'' = Some (5 * 60 * 10 ^ 9)"
  "ParseDuration ''30m'' = Some (30 * 60 * 10 ^ 9)"
  by code_simp+

lemma parseDuration_ok:
  "ParseDuration v \<noteq> None \<Longrightarrow>
     (\<exists>d. parseDuration env key v = Inr d) \<longleftrightarrow> env key = [] \<or> ParseDuration (env key) \<noteq> None"
  by (auto simp: parseDuration_def or_default_def parse_interval_iff)

lemma optional_interval_ok:
  "(\<exists>d. optional_interval env key = Inr d) \<longleftrightarrow> env key = [] \<or> ParseDuration (env key) \<noteq> None"
  by (auto simp: optional_interval_def parse_interval_iff)

lemma report_hour_ok:
  "(\<exists>n. report_hour env key d = Inr n) \<longleftrightarrow>
     env key = [] \<or> (\<exists>n. ParseInt (env key) = Some n \<and> 0 \<le> n \<and> n \<le> 23)"
  by (auto simp: report_hour_def split: option.splits)

lemma parseLogLevel_ok:
  "(\<exists>l. parseLogLevel s = Inr l) \<longleftrightarrow> s \<in> {[], ''info'', ''debug'', ''warn'', ''error''}"
  by (auto simp: parseLogLevel_def)

lemma interval_bounds:
  "parseDuration env key v = Inr d \<Longrightarrow> in_int64 d" "optional_interval env key = Inr d \<Longrightarrow> in_int64 d"
  by (auto simp: parseDuration_def optional_interval_def parse_interval_iff in_int64_def
      dest!: ParseDuration_bounds split: if_splits)

lemma report_hour_range: "report_hour env key d = Inr n \<Longrightarrow> 0 \<le> d \<Longrightarrow> d \<le> 23 \<Longrightarrow> 0 \<le> n \<and> n \<le> 23"
  by (auto simp: report_hour_def split: if_splits option.splits)

lemma comma_list_parts: "s \<in> set (comma_list raw) \<Longrightarrow> s \<noteq> [] \<and> TrimSpace s = s"
  by (auto simp: comma_list_def TrimSpace_idem split: if_splits)

text \<open>C38: the environments \<open>Load\<close> accepts: the six required variables are set, none of the nine checked values
  is a deployment placeholder, every interval that is set is a Go duration, the hours are 0 to 23 and the
  log level is known. A missing variable is reported by name, all of them at once and in order.\<close>

theorem Load_accepts:
  "(is_ok (Load env) \<longleftrightarrow>
     (\<forall>k\<in>set required_vars. env k \<noteq> []) \<and> (\<forall>k\<in>set checked_vars. \<not> is_placeholder (env k)) \<and>
     (\<forall>k\<in>set interval_vars. env k = [] \<or> ParseDuration (env k) \<noteq> None) \<and>
     (\<forall>k\<in>{''DAILY_REPORT_HOUR'', ''ORDER_INTAKE_HOUR''}.
        env k = [] \<or> (\<exists>n. ParseInt (env k) = Some n \<and> 0 \<le> n \<and> n \<le> 23)) \<and>
     env ''LOG_LEVEL'' \<in> {[], ''info'', ''debug'', ''warn'', ''error''}) \<and>
   ((\<exists>k\<in>set required_vars. env k = []) \<longrightarrow>
     Load env = Inl (Errorf (''missing required environment variables: '' @
       fmt_slice (filter (\<lambda>k. env k = []) required_vars))))"
proof -
  have a: "is_ok (Load env) \<longleftrightarrow>
      filter (\<lambda>k. env k = []) required_vars = [] \<and> filter (\<lambda>k. is_placeholder (env k)) checked_vars = [] \<and>
      (\<exists>d. parseDuration env ''STOCK_SYNC_INTERVAL'' ''15m'' = Inr d) \<and>
      (\<exists>d. parseDuration env ''BATCH_INTERVAL'' ''5m'' = Inr d) \<and>
      (\<exists>d. parseDuration env ''FULFILMENT_SYNC_INTERVAL'' ''30m'' = Inr d) \<and>
      (\<exists>d. optional_interval env ''RECONCILIATION_INTERVAL'' = Inr d) \<and>
      (\<exists>d. optional_interval env ''PAYMENTS_SYNC_INTERVAL'' = Inr d) \<and>
      (\<exists>n. report_hour env ''DAILY_REPORT_HOUR'' 1 = Inr n) \<and> (\<exists>n. report_hour env ''ORDER_INTAKE_HOUR'' 6 = Inr n) \<and>
      (\<exists>l. parseLogLevel (env ''LOG_LEVEL'') = Inr l)"
    by (simp add: Load_def Let_def load_flags_lists)
  have d: "ParseDuration ''15m'' \<noteq> None" "ParseDuration ''5m'' \<noteq> None" "ParseDuration ''30m'' \<noteq> None"
    by (simp_all add: default_intervals)
  have f: "filter P xs = [] \<longleftrightarrow> (\<forall>k\<in>set xs. \<not> P k)" for P and xs :: "string list"
    by (simp add: filter_empty_conv)
  have i: "(\<forall>k\<in>set interval_vars. Q k) \<longleftrightarrow> Q ''STOCK_SYNC_INTERVAL'' \<and> Q ''BATCH_INTERVAL'' \<and>
      Q ''FULFILMENT_SYNC_INTERVAL'' \<and> Q ''RECONCILIATION_INTERVAL'' \<and> Q ''PAYMENTS_SYNC_INTERVAL''" for Q
    by (simp add: interval_vars_def)
  have h: "(\<forall>k\<in>{''DAILY_REPORT_HOUR'', ''ORDER_INTAKE_HOUR''}. Q k) \<longleftrightarrow>
      Q ''DAILY_REPORT_HOUR'' \<and> Q ''ORDER_INTAKE_HOUR''" for Q by blast
  have m: "Load env = Inl (Errorf (''missing required environment variables: '' @
      fmt_slice (filter (\<lambda>k. env k = []) required_vars)))"
    if "filter (\<lambda>k. env k = []) required_vars \<noteq> []"
    using that by (simp add: Load_def Let_def load_flags_lists)
  show ?thesis
    using m unfolding a parseDuration_ok [OF d(1)] parseDuration_ok [OF d(2)] parseDuration_ok [OF d(3)]
      optional_interval_ok report_hour_ok parseLogLevel_ok i h f by blast
qed

text \<open>C39: a configuration that was loaded is well formed: the required values are there, the intervals fit a
  \<open>time.Duration\<close>, the report hours are hours, the lists hold trimmed non-empty entries, and the values
  with a default are set.\<close>

theorem Load_well_formed:
  assumes "Load env = Inr c"
  shows "cf_ShopifyWebhookSecret c \<noteq> [] \<and> cf_DatabaseURL c \<noteq> [] \<and> cf_SysproEnetURL c \<noteq> [] \<and>
    cf_SysproOperator c \<noteq> [] \<and> cf_SysproCompanyID c \<noteq> [] \<and> cf_ShopifyStoreURL c \<noteq> [] \<and>
    in_int64 (cf_StockSyncInterval c) \<and> in_int64 (cf_BatchInterval c) \<and> in_int64 (cf_FulfilmentSyncInterval c) \<and>
    in_int64 (cf_ReconciliationInterval c) \<and> in_int64 (cf_PaymentsSyncInterval c) \<and>
    0 \<le> cf_DailyReportHour c \<and> cf_DailyReportHour c \<le> 23 \<and> 0 \<le> cf_OrderIntakeHour c \<and> cf_OrderIntakeHour c \<le> 23 \<and>
    (\<forall>s\<in>set (cf_SysproSKUs c) \<union> set (cf_CreditControlTo c) \<union> set (cf_OrderIntakeTo c). s \<noteq> [] \<and> TrimSpace s = s) \<and>
    cf_Port c \<noteq> [] \<and> cf_SysproAllocationAction c \<noteq> [] \<and> cf_SysproTaxCodeMap c \<noteq> [] \<and>
    cf_DeadLetterDir c \<noteq> [] \<and> cf_SentReportArchiveDir c \<noteq> [] \<and> cf_ReportStateDir c \<noteq> []"
proof -
  from assms have req: "\<forall>k\<in>set required_vars. env k \<noteq> []"
    by (auto simp: Load_def Let_def load_flags_lists filter_empty_conv split: if_splits)
  from assms obtain v where v0: "c = config_of env (cf_StockSyncInterval c) (cf_BatchInterval c)
      (cf_FulfilmentSyncInterval c) (cf_ReconciliationInterval c) (cf_PaymentsSyncInterval c)
      (cf_DailyReportHour c) (cf_OrderIntakeHour c) v" and v: "parseDuration env ''STOCK_SYNC_INTERVAL'' ''15m'' = Inr (cf_StockSyncInterval c)"
      "parseDuration env ''BATCH_INTERVAL'' ''5m'' = Inr (cf_BatchInterval c)"
      "parseDuration env ''FULFILMENT_SYNC_INTERVAL'' ''30m'' = Inr (cf_FulfilmentSyncInterval c)"
      "optional_interval env ''RECONCILIATION_INTERVAL'' = Inr (cf_ReconciliationInterval c)"
      "optional_interval env ''PAYMENTS_SYNC_INTERVAL'' = Inr (cf_PaymentsSyncInterval c)"
      "report_hour env ''DAILY_REPORT_HOUR'' 1 = Inr (cf_DailyReportHour c)"
      "report_hour env ''ORDER_INTAKE_HOUR'' 6 = Inr (cf_OrderIntakeHour c)"
      "parseLogLevel (env ''LOG_LEVEL'') = Inr v"
    by (auto simp: Load_def Let_def and_then_Inr config_of_def split: if_splits)
  have s: "cf_ShopifyWebhookSecret c = env ''SHOPIFY_WEBHOOK_SECRET''" "cf_DatabaseURL c = env ''DATABASE_URL''"
      "cf_SysproEnetURL c = env ''SYSPRO_ENET_URL''" "cf_SysproOperator c = env ''SYSPRO_OPERATOR''"
      "cf_SysproCompanyID c = env ''SYSPRO_COMPANY_ID''" "cf_ShopifyStoreURL c = env ''SHOPIFY_STORE_URL''"
      "cf_SysproSKUs c = comma_list (env ''SYSPRO_SKUS'')" "cf_CreditControlTo c = comma_list (env ''CREDIT_CONTROL_TO'')"
      "cf_OrderIntakeTo c = comma_list (env ''ORDER_INTAKE_TO'')" "cf_Port c \<noteq> []" "cf_SysproAllocationAction c \<noteq> []"
      "cf_SysproTaxCodeMap c \<noteq> []" "cf_DeadLetterDir c \<noteq> []" "cf_SentReportArchiveDir c \<noteq> []" "cf_ReportStateDir c \<noteq> []"
    by (subst v0, simp add: config_of_def or_default_def report_root_def)+
  show ?thesis
    using req v(1-7) interval_bounds(1) [OF v(1)] interval_bounds(1) [OF v(2)] interval_bounds(1) [OF v(3)]
      interval_bounds(2) [OF v(4)] interval_bounds(2) [OF v(5)] report_hour_range [OF v(6)] report_hour_range [OF v(7)]
      comma_list_parts s
    by (simp add: required_vars_def) blast
qed

section \<open>An environment\<close>

text \<open>The smallest environment that is accepted, with an interval and an hour set.\<close>

definition demo_env :: env where
  "demo_env k =
     (if k \<in> set required_vars then ''x'' else if k = ''BATCH_INTERVAL'' then ''1m30s''
      else if k = ''DAILY_REPORT_HOUR'' then ''02'' else [])"

lemma demo_interval: "ParseDuration ''1m30s'' = Some 90000000000"
  by code_simp

lemma demo_hour: "ParseInt ''02'' = Some 2"
  by code_simp

theorem Load_accepts_witness: "is_ok (Load demo_env)"
  using Load_accepts [of demo_env] demo_interval
  by (simp add: demo_env_def required_vars_def checked_vars_def interval_vars_def is_placeholder_def HasPrefix_def demo_hour)

lemma demo_loads: "is_ok (Load demo_env) \<and> (case Load demo_env of Inl _ \<Rightarrow> False | Inr c \<Rightarrow> cf_BatchInterval c = 90000000000)"
  by code_simp

theorem Load_well_formed_witness: "\<exists>c. Load demo_env = Inr c \<and> 0 \<le> cf_DailyReportHour c \<and> cf_DailyReportHour c \<le> 23"
  using Load_well_formed [of demo_env] demo_loads by (auto split: sum.splits)

end
