(* ===== verification/GoScan.thy ===== *)
theory GoScan
  imports Json
begin

text \<open>
  \<open>fmt.Sscanf\<close> with the single verb \<open>%d\<close> or \<open>%f\<close>. \<open>None\<close> is a non-nil error.
\<close>

section \<open>White space\<close>

text \<open>White space is skipped; a line end is an error.\<close>

function scan_space :: "string \<Rightarrow> string option" where
  "scan_space s =
     (if HasPrefix s [byte 10] \<or> HasPrefix s [byte 13, byte 10] then None
      else case find (\<lambda>p. p \<noteq> [] \<and> HasPrefix s p) space_runes of
             None \<Rightarrow> Some s
           | Some p \<Rightarrow> scan_space (drop (length p) s))"
  by pat_completeness auto

termination
proof (relation "measure length", goal_cases)
  case (2 s p)
  then have "p \<noteq> []" "HasPrefix s p" by (auto dest: find_in_set)
  then show ?case by (cases s) (auto simp: HasPrefix_def)
qed simp

declare scan_space.simps [simp del]

section \<open>Integers\<close>

text \<open>\<open>fmt.Sscanf(s, "%d", &x)\<close>: a sign and digits are read; what follows them is ignored.\<close>

definition Sscanf_d :: "string \<Rightarrow> int option" where
  "Sscanf_d s =
     (case scan_space s of
        None \<Rightarrow> None
      | Some t \<Rightarrow>
          let u = snd (strip_sign t); ds = takeWhile is_digit u
          in if ds = [] then None else ParseInt (take (length t - length u) t @ ds))"

section \<open>Floating-point numbers\<close>

text \<open>\<open>accept\<close>: one character of a set is moved from the input to the token.\<close>

definition accept :: "string \<Rightarrow> string \<times> string \<Rightarrow> bool \<times> (string \<times> string)" where
  "accept cs st =
     (case snd st of
        [] \<Rightarrow> (False, st)
      | c # r \<Rightarrow> if c \<in> set cs then (True, (fst st @ [c], r)) else (False, st))"

definition accept_run :: "string \<Rightarrow> string \<times> string \<Rightarrow> string \<times> string" where
  "accept_run cs st = (fst st @ takeWhile (\<lambda>c. c \<in> set cs) (snd st), dropWhile (\<lambda>c. c \<in> set cs) (snd st))"

text \<open>A chain of \<open>accept\<close>s joined by \<open>&&\<close>: what was accepted stays in the token when a later one fails.\<close>

fun accept_all :: "string list \<Rightarrow> string \<times> string \<Rightarrow> bool \<times> (string \<times> string)" where
  "accept_all [] st = (True, st)"
| "accept_all (cs # css) st =
     (case accept cs st of (True, st1) \<Rightarrow> accept_all css st1 | (False, st1) \<Rightarrow> (False, st1))"

definition dec_digits :: string where "dec_digits = ''0123456789_''"
definition hex_digits :: string where "hex_digits = ''0123456789aAbBcCdDeEfF_''"

definition float_token :: "string \<Rightarrow> string" where
  "float_token s =
     (case accept_all [''nN'', ''aA'', ''nN''] ([], s) of
        (True, st) \<Rightarrow> fst st
      | (False, st0) \<Rightarrow>
          (case accept_all [''iI'', ''nN'', ''fF''] (snd (accept ''+-'' st0)) of
             (True, st) \<Rightarrow> fst st
           | (False, st1) \<Rightarrow>
               (case accept_all [''0'', ''xX''] st1 of (hex, st2) \<Rightarrow>
                 let ds = (if hex then hex_digits else dec_digits);
                     ex = (if hex then ''pP'' else ''eEpP'');
                     st3 = accept_run ds st2;
                     st4 = (case accept ''.'' st3 of (True, x) \<Rightarrow> accept_run ds x | (False, x) \<Rightarrow> x);
                     st5 = (case accept ex st4 of
                              (True, x) \<Rightarrow> accept_run dec_digits (snd (accept ''+-'' x))
                            | (False, x) \<Rightarrow> x)
                 in fst st5)))"

text \<open>A decimal mantissa with a binary exponent is multiplied out by \<open>math.Ldexp\<close>.\<close>

fun Ldexp :: "float64 \<Rightarrow> int \<Rightarrow> float64" where
  "Ldexp (Fin q) e = round64 (q * pow2 e)"
| "Ldexp x e = x"

definition convert_float :: "string \<Rightarrow> float64 option" where
  "convert_float t =
     (if CHR ''p'' \<in> set t \<and> CHR ''x'' \<notin> set t \<and> CHR ''X'' \<notin> set t
      then Option.bind (ParseFloat (takeWhile (\<lambda>c. c \<noteq> CHR ''p'') t)) (\<lambda>f.
             map_option (Ldexp f) (ParseInt (tl (dropWhile (\<lambda>c. c \<noteq> CHR ''p'') t))))
      else ParseFloat t)"

definition Sscanf_f :: "string \<Rightarrow> float64 option" where
  "Sscanf_f s =
     (case scan_space s of
        None \<Rightarrow> None
      | Some t \<Rightarrow> if t = [] then None else convert_float (float_token t))"

end
