(* ===== verification/Server.thy ===== *)
theory Server
  imports GoScan Config Webhook CancelGate Batch Fulfilment Inventory Reconcile PaySync DailyReport
begin

text \<open>
  \<open>cmd/server/main.go\<close>: which components the service starts for a configuration, its HTTP routes and admin
  endpoints, and the service as a whole as a step relation over the world. The migrations, the start and the
  shutdown are in \<open>Migrate\<close> and \<open>Lifecycle\<close>, the wrappers that log requests and recover panics in \<open>Middleware\<close>.
\<close>

section \<open>What is started\<close>

definition enet_of :: "config \<Rightarrow> enet_client" where
  "enet_of c =
     NewEnetClient (cf_SysproEnetURL c) (cf_SysproOperator c) (cf_SysproPassword c) (cf_SysproCompanyID c)
       (cf_SysproCompanyPassword c) (cf_SysproWarehouse c) (cf_SysproAllocationAction c)
       (ParseTaxCodeMap (cf_SysproTaxCodeMap c))"

definition base_override :: "config \<Rightarrow> string option" where
  "base_override c = (if cf_ShopifyBaseURL c = [] then None else Some (cf_ShopifyBaseURL c))"

text \<open>\<open>sql_up\<close>: the SQL Server connection could be opened and pinged.\<close>

datatype sku_lister = SqlLister | ShopifyLister | StaticList

definition stock_lister :: "config \<Rightarrow> bool \<Rightarrow> sku_lister" where
  "stock_lister c sql_up =
     (if cf_SQLServerDSN c \<noteq> [] \<and> sql_up then SqlLister
      else if cf_SysproSKUs c = [] then ShopifyLister else StaticList)"

record stock_sync =
  sy_lister :: sku_lister
  sy_client :: inv_client
  sy_syncer :: inv_syncer

definition stock_start :: "config \<Rightarrow> bool \<Rightarrow> stock_sync option" where
  "stock_start c sql_up =
     (if cf_ShopifyAccessToken c = [] then None
      else if cf_SysproWarehouse c = [] then None
      else Some \<lparr>sy_lister = stock_lister c sql_up,
                 sy_client = NewShopifyClient (cf_ShopifyStoreURL c) (cf_ShopifyAccessToken c) (cf_ShopifyLocationID c)
                   (cf_SysproSKUs c) (base_override c),
                 sy_syncer = \<lparr>is_warehouse = cf_SysproWarehouse c, is_skus = cf_SysproSKUs c, is_cachedStock = [],
                   is_consecutiveFailures = 0\<rparr>\<rparr>)"

definition sweeper_start :: "config \<Rightarrow> sweeper option" where
  "sweeper_start c =
     (if 0 < cf_ReconciliationInterval c then NewSweeper (cf_ShopifyStoreURL c) (cf_ShopifyAccessToken c) else None)"

definition graph_mailer :: "config \<Rightarrow> mailer_config" where
  "graph_mailer c =
     \<lparr>mc_TenantID = cf_GraphTenantID c, mc_ClientID = cf_GraphClientID c, mc_ClientSecret = cf_GraphClientSecret c,
      mc_SenderMailbox = cf_GraphSenderMailbox c, mc_GraphBaseURL = [], mc_TokenBaseURL = []\<rparr>"

definition mailer_start :: "config \<Rightarrow> mailer_config option" where
  "mailer_start c =
     (if cf_GraphTenantID c \<noteq> [] \<and> cf_GraphClientID c \<noteq> [] \<and> cf_GraphClientSecret c \<noteq> [] \<and>
         cf_GraphSenderMailbox c \<noteq> []
      then Some (graph_mailer c) else None)"

definition reporter_of :: "config \<Rightarrow> string list \<Rightarrow> int \<Rightarrow> string \<Rightarrow> reporter" where
  "reporter_of c recipients hour health =
     \<lparr>rp_recipients = recipients, rp_storeName = cf_ShopifyStoreURL c, rp_hour = hour, rp_healthcheckURL = health,
      rp_deadLetterDir = cf_DeadLetterDir c, rp_archiveDir = cf_SentReportArchiveDir c,
      rp_stateDir = cf_ReportStateDir c, rp_ntfyTopic = cf_NtfyTopic c, rp_coverNote = []\<rparr>"

fun ok_value :: "'a res \<Rightarrow> 'a option" where
  "ok_value (Inl _) = None"
| "ok_value (Inr x) = Some x"

definition cash_start :: "config \<Rightarrow> (transactions_fetcher \<times> reporter) option" where
  "cash_start c =
     (if mailer_start c = None \<or> cf_CreditControlTo c = [] \<or> cf_ShopifyAccessToken c = [] then None
      else map_option (\<lambda>r. (NewTransactionsFetcher (cf_ShopifyStoreURL c) (cf_ShopifyAccessToken c), r))
             (ok_value (NewDailyReporter (reporter_of c (cf_CreditControlTo c) (cf_DailyReportHour c)
                (cf_HealthchecksCashURL c)))))"

definition intake_start :: "config \<Rightarrow> reporter option" where
  "intake_start c =
     (if mailer_start c = None \<or> cf_OrderIntakeTo c = [] then None
      else ok_value (NewIntakeReporter (reporter_of c (cf_OrderIntakeTo c) (cf_OrderIntakeHour c)
             (cf_HealthchecksIntakeURL c))))"

definition payments_start :: "config \<Rightarrow> pay_syncer option" where
  "payments_start c =
     (if cf_PaymentsSyncInterval c = 0 then None
      else if cf_ArspayCashBook c = [] then None
      else if cf_ArspayPaymentType c = [] then None
      else Some (NewPaySyncer ''WEBS01'' (cf_ArspayCashBook c) (cf_ArspayPaymentType c)))"

definition fulfil_start :: "config \<Rightarrow> gql_client option" where
  "fulfil_start c =
     (if cf_ShopifyAccessToken c = [] then None
      else Some (NewFulfilmentClient (cf_ShopifyStoreURL c) (cf_ShopifyAccessToken c) (base_override c)))"

text \<open>
  The intervals handed to \<open>time.NewTicker\<close>, which panics on one that is not positive; a panic in a
  goroutine ends the process.
\<close>

definition ticker_intervals :: "config \<Rightarrow> bool \<Rightarrow> int list" where
  "ticker_intervals c sql_up =
     [cf_BatchInterval c] @
     (if stock_start c sql_up = None then [] else [cf_StockSyncInterval c]) @
     (if sweeper_start c = None then [] else [cf_ReconciliationInterval c]) @
     (if payments_start c = None then [] else [cf_PaymentsSyncInterval c]) @
     (if fulfil_start c = None then [] else [cf_FulfilmentSyncInterval c])"

definition start_panics :: "config \<Rightarrow> bool \<Rightarrow> bool" where
  "start_panics c sql_up \<longleftrightarrow> (\<exists>d\<in>set (ticker_intervals c sql_up). d \<le> 0)"

text \<open>The sweep over orders left in processing, ten minutes old or more, before anything is started.\<close>

definition boot_reset :: "world \<Rightarrow> world" where
  "boot_reset w = snd (ResetStaleProcessing 600 w)"

section \<open>Requests and answers\<close>

text \<open>A request: the segments of its (clean) path, decoded, its query, and headers and body as before.\<close>

record http_in =
  hi_method :: string
  hi_path :: "string list"
  hi_query :: "(string \<times> string) list"
  hi_request :: request

record answer =
  an_status :: int
  an_headers :: "(string \<times> string) list"
  an_body :: string

definition json_type :: "(string \<times> string) list" where
  "json_type = [(''Content-Type'', ''application/json'')]"

definition json_answer :: "int \<Rightarrow> string \<Rightarrow> string \<Rightarrow> answer" where
  "json_answer st k v =
     \<lparr>an_status = st, an_headers = json_type, an_body = json_print (JObj [(k, JStr v)]) @ [byte 10]\<rparr>"

definition of_response :: "response \<Rightarrow> answer" where
  "of_response r = \<lparr>an_status = rs_status r, an_headers = json_type, an_body = response_body r\<rparr>"

text \<open>\<open>GET /health\<close>; the content type of the unhealthy answer is left to the server.\<close>

definition handle_health :: "world \<Rightarrow> answer \<times> world" where
  "handle_health w =
     (case db_call (\<lambda>_ d. ((), d)) w of
        (Inl _, w1) \<Rightarrow> ((json_answer 503 ''status'' ''unhealthy'')\<lparr>an_headers := []\<rparr>, w1)
      | (Inr _, w1) \<Rightarrow> (json_answer 200 ''status'' ''ok'', w1))"

definition handle_ready :: answer where
  "handle_ready = json_answer 200 ''status'' ''ready''"

section \<open>The admin endpoints\<close>

definition admin_ok :: "config \<Rightarrow> request \<Rightarrow> bool" where
  "admin_ok c r \<longleftrightarrow> cf_AdminToken c = [] \<or> header ''X-Admin-Token'' r = cf_AdminToken c"

definition requireAdmin :: "config \<Rightarrow> (world \<Rightarrow> answer \<times> world) \<Rightarrow> request \<Rightarrow> world \<Rightarrow> answer \<times> world" where
  "requireAdmin c next r w =
     (if cf_AdminToken c \<noteq> [] \<and> header ''X-Admin-Token'' r \<noteq> cf_AdminToken c
      then (json_answer 401 ''error'' ''unauthorized'', w) else next w)"

definition handle_retry :: "string \<Rightarrow> world \<Rightarrow> answer \<times> world" where
  "handle_retry idStr w =
     (case Sscanf_d idStr of
        None \<Rightarrow> (json_answer 400 ''error'' ''invalid order ID'', w)
      | Some orderID \<Rightarrow>
          if orderID \<le> 0 then (json_answer 400 ''error'' ''invalid order ID'', w)
          else (case RetryOrder orderID w of
                  (Inl e, w1) \<Rightarrow> (json_answer 422 ''error'' (err_msg e), w1)
                | (Inr _, w1) \<Rightarrow> (json_answer 200 ''status'' ''queued'', w1)))"

definition valid_statuses :: "order_status list" where
  "valid_statuses =
     [OrderStatusPending, OrderStatusProcessing, OrderStatusSubmitted, OrderStatusFulfilled, OrderStatusFailed,
      OrderStatusDeadLetter, OrderStatusCancelled]"

definition omit_empty :: "string \<Rightarrow> string \<Rightarrow> (string \<times> json) list" where
  "omit_empty k v = (if v = [] then [] else [(k, JStr v)])"

definition order_response :: "order \<Rightarrow> json" where
  "order_response o1 =
     JObj ([(''id'', JNum (Itoa (ord_ID o1))), (''shopify_order_id'', JNum (Itoa (ShopifyOrderID o1))),
            (''order_number'', JStr (OrderNumber o1)), (''status'', JStr (status_str (Status o1))),
            (''customer_account'', JStr (CustomerAccount o1))] @
           omit_empty ''syspro_order_number'' (SysproOrderNumber o1) @
           [(''attempts'', JNum (Itoa (Attempts o1)))] @ omit_empty ''last_error'' (LastError o1) @
           [(''order_date'', JStr (fmt_rfc3339 (OrderDate o1))), (''created_at'', JStr (fmt_rfc3339 (CreatedAt o1))),
            (''updated_at'', JStr (fmt_rfc3339 (UpdatedAt o1)))])"

definition handle_orders :: "(string \<times> string) list \<Rightarrow> world \<Rightarrow> answer \<times> world" where
  "handle_orders qs w =
     (let statusFilter = (case map_of qs ''status'' of None \<Rightarrow> [] | Some v \<Rightarrow> v) in
      if statusFilter = [] then (json_answer 400 ''error'' ''status query parameter required'', w)
      else case find (\<lambda>st. status_str st = statusFilter) valid_statuses of
             None \<Rightarrow> (json_answer 400 ''error'' ''invalid status value'', w)
           | Some st \<Rightarrow>
               (case ListOrdersByStatus st w of
                  (Inl _, w1) \<Rightarrow> (json_answer 500 ''error'' ''internal error'', w1)
                | (Inr rs, w1) \<Rightarrow>
                    (\<lparr>an_status = 200, an_headers = json_type,
                      an_body = json_print (JArr (map order_response rs)) @ [byte 10]\<rparr>, w1)))"

section \<open>The routes\<close>

datatype route =
    RHealth | RReady | ROrderCreate | ROrderCancelled | RRetry string | ROrders | RMethodNotAllowed | RNotFound

text \<open>A \<open>GET\<close> pattern of \<open>http.ServeMux\<close> also matches \<open>HEAD\<close>.\<close>

definition get_only :: "string \<Rightarrow> route \<Rightarrow> route" where
  "get_only m r = (if m = ''GET'' \<or> m = ''HEAD'' then r else RMethodNotAllowed)"

definition post_only :: "string \<Rightarrow> route \<Rightarrow> route" where
  "post_only m r = (if m = ''POST'' then r else RMethodNotAllowed)"

definition route_of :: "string \<Rightarrow> string list \<Rightarrow> route" where
  "route_of m path =
     (if path = [''health''] then get_only m RHealth
      else if path = [''ready''] then get_only m RReady
      else if path = [''orders''] then get_only m ROrders
      else if path = [''webhooks'', ''orders'', ''create''] then post_only m ROrderCreate
      else if path = [''webhooks'', ''orders'', ''cancelled''] then post_only m ROrderCancelled
      else case path of
             [a, i, b] \<Rightarrow> if a = ''orders'' \<and> b = ''retry'' then post_only m (RRetry i) else RNotFound
           | _ \<Rightarrow> RNotFound)"

definition securityHeaders :: "answer \<Rightarrow> answer" where
  "securityHeaders a =
     a\<lparr>an_headers := [(''X-Content-Type-Options'', ''nosniff''), (''X-Frame-Options'', ''DENY''),
                     (''Cache-Control'', ''no-store'')] @ an_headers a\<rparr>"

text \<open>The answers of the mux itself, without the library's own text.\<close>

definition plain_answer :: "int \<Rightarrow> answer" where
  "plain_answer st = \<lparr>an_status = st, an_headers = [], an_body = []\<rparr>"

definition dispatch :: "config \<Rightarrow> pgconv \<Rightarrow> http_in \<Rightarrow> bool \<Rightarrow> world \<Rightarrow> (answer \<times> bool) \<times> world" where
  "dispatch c pg rq trig w =
     (case route_of (hi_method rq) (hi_path rq) of
        RHealth \<Rightarrow> map_prod (\<lambda>a. (a, trig)) (\<lambda>x. x) (handle_health w)
      | RReady \<Rightarrow> ((handle_ready, trig), w)
      | ROrderCreate \<Rightarrow>
          (case handleOrderCreate (db_order_store pg) (cf_ShopifyWebhookSecret c) now (hi_request rq) (Some trig) w of
             ((r, t), w1) \<Rightarrow> ((of_response r, t = Some True), w1))
      | ROrderCancelled \<Rightarrow>
          (case cancel_handle (service_cancel_deps pg (enet_of c)) (cf_ShopifyWebhookSecret c) (hi_request rq) w of
             (r, w1) \<Rightarrow> ((of_response r, trig), w1))
      | RRetry i \<Rightarrow> map_prod (\<lambda>a. (a, trig)) (\<lambda>x. x) (requireAdmin c (handle_retry i) (hi_request rq) w)
      | ROrders \<Rightarrow> map_prod (\<lambda>a. (a, trig)) (\<lambda>x. x) (requireAdmin c (handle_orders (hi_query rq)) (hi_request rq) w)
      | RMethodNotAllowed \<Rightarrow> ((plain_answer 405, trig), w)
      | RNotFound \<Rightarrow> ((plain_answer 404, trig), w))"

text \<open>The answer with the security headers, whether a stock sync is triggered, and the world after.\<close>

definition serve :: "config \<Rightarrow> pgconv \<Rightarrow> http_in \<Rightarrow> bool \<Rightarrow> world \<Rightarrow> (answer \<times> bool) \<times> world" where
  "serve c pg rq trig w = map_prod (map_prod securityHeaders (\<lambda>t. t)) (\<lambda>x. x) (dispatch c pg rq trig w)"

section \<open>The running service\<close>

text \<open>
  The stock syncer's collaborators for the lister chosen; \<open>sql\<close> is what the SQL Server view answers.
\<close>

definition stock_deps ::
  "enet_client \<Rightarrow> sku_lister \<Rightarrow> (world \<Rightarrow> (string list \<times> go_error option) res) \<Rightarrow> (inv_client \<times> world) inv_deps" where
  "stock_deps ec l sql =
     (case l of
        SqlLister \<Rightarrow> (service_inv_deps ec False)\<lparr>id_ListAllSKUs := Some (\<lambda>cw. (sqlserver_ListAllSKUs (sql (snd cw)), cw))\<rparr>
      | ShopifyLister \<Rightarrow> service_inv_deps ec True
      | StaticList \<Rightarrow> service_inv_deps ec False)"

text \<open>
  One step of the running service: a request served, one pass of a component that was started, a restart
  (what it does to the tables before anything else runs), or the world outside (time passes, the scripts of failures are whatever they are) with the tables as they were. A pass
  is atomic here; what the single statements of concurrent passes do to an order is a matter of the store.
\<close>

inductive service_step :: "config \<Rightarrow> pgconv \<Rightarrow> bool \<Rightarrow> world \<Rightarrow> world \<Rightarrow> bool" for c pg sql_up where
  request: "serve c pg rq trig w = ((a, trig'), w') \<Longrightarrow> service_step c pg sql_up w w'"
| batch: "w' = run_batch (enet_of c) w \<Longrightarrow> service_step c pg sql_up w w'"
| fulfilment: "fulfil_start c = Some gc \<Longrightarrow> w' = run_fulfilment (enet_of c) gc w \<Longrightarrow> service_step c pg sql_up w w'"
| sweep: "sweeper_start c = Some s \<Longrightarrow> run_sweep pg s w = (r, w') \<Longrightarrow> service_step c pg sql_up w w'"
| payments: "payments_start c = Some s \<Longrightarrow> w' = run_payments (enet_of c) s w \<Longrightarrow> service_step c pg sql_up w w'"
| stock: "stock_start c sql_up = Some s \<Longrightarrow> snd (il_world l) = w \<Longrightarrow>
    w' = snd (il_world (inv_step oor (stock_deps (enet_of c) (sy_lister s) sql) ev l)) \<Longrightarrow> service_step c pg sql_up w w'"
| cash_report: "cash_start c = Some (f, r) \<Longrightarrow> mailer_start c = Some m \<Longrightarrow> of_world s = w \<Longrightarrow>
    w' = of_world (snd (check_report (service_cash_send f m r) r ''cash'' (d, s))) \<Longrightarrow> service_step c pg sql_up w w'"
| intake_report: "intake_start c = Some r \<Longrightarrow> mailer_start c = Some m \<Longrightarrow> of_world s = w \<Longrightarrow>
    w' = of_world (snd (check_report (service_intake_send m r) r ''intake'' (d, s))) \<Longrightarrow> service_step c pg sql_up w w'"
| restart: "w' = boot_reset w \<Longrightarrow> service_step c pg sql_up w w'"
| outside: "w_db w' = w_db w \<Longrightarrow> service_step c pg sql_up w w'"

end
