(* ===== verification/ServiceSteps.thy ===== *)
theory ServiceSteps
  imports Server BatchProps FulfilProps PayProps InvProps ReconcileProps DailyReportProps
begin

text \<open>
  What one step of the running service does to the tables: every step is a sequence of statements of the
  store, and most components cannot touch an order at all.
\<close>

section \<open>The batch and the fulfilments\<close>

lemma call_db:
  "MarkOrderProcessing i w = (r1, w') \<Longrightarrow> db_steps pg (w_db w) (w_db w')"
  "UpdateOrderStatus i s a e w = (r2, w') \<Longrightarrow> db_steps pg (w_db w) (w_db w')"
  "UpdateOrderSubmitted i n a w = (r2, w') \<Longrightarrow> db_steps pg (w_db w) (w_db w')"
  "UpdateOrderFulfilled i fid w = (r2, w') \<Longrightarrow> db_steps pg (w_db w) (w_db w')"
  "SubmitOrder ses ord ls w = (r3, w') \<Longrightarrow> w_db w' = w_db w"
  using method_steps session_snd by (metis snd_conv)+

lemma submitOrder_db:
  assumes "submitOrder db_batch_store (enet_syspro c) ses ow w = (b, w')"
  shows "db_steps pg (w_db w) (w_db w')"
proof -
  let ?i = "ord_ID (ow_Order ow)"
  obtain m w1 where m: "MarkOrderProcessing ?i w = (m, w1)" by (rule prod.exhaust)
  obtain r w2 where s: "SubmitOrder ses (ow_Order ow) (ow_Lines ow) w1 = (r, w2)" by (rule prod.exhaust)
  have 2: "db_steps pg (w_db w) (w_db w2)" using call_db(1) [OF m] call_db(5) [OF s] by simp
  consider "w' = w1" | (status) st a e where "w' = snd (UpdateOrderStatus ?i st a e w2)"
    | (sub) n a where "w' = snd (UpdateOrderSubmitted ?i n a w2)"
    using assms m s
    by (auto simp: submitOrder_def db_batch_store_def enet_syspro_def Let_def split: sum.splits bool.splits if_splits)
  then show ?thesis
  proof cases
    case 1
    with call_db(1) [OF m] show ?thesis by simp
  next
    case status
    with 2 method_steps(5) [where w = w2] show ?thesis by (metis rtranclp_trans)
  next
    case sub
    with 2 method_steps(3) [where w = w2] show ?thesis by (metis rtranclp_trans)
  qed
qed

lemma submit_loop_db:
  "db_steps pg (w_db w) (w_db (submit_loop db_batch_store (enet_syspro c) ctx_err ses ows w))"
proof (induction ows arbitrary: w)
  case (Cons ow ows)
  obtain b w1 where c: "ctx_err w = (b, w1)" by (rule prod.exhaust)
  obtain x w2 where s: "submitOrder db_batch_store (enet_syspro c) ses ow w1 = (x, w2)" by (rule prod.exhaust)
  have "w_db w1 = w_db w" using ctx_err_frame [of w] by (simp add: c)
  with submitOrder_db [OF s, of pg] Cons.IH [of w2] show ?case
    by (cases b; cases x) (auto simp: c s)
qed simp

lemma run_batch_steps: "db_steps pg (w_db w) (w_db (run_batch c w))"
proof -
  obtain r w1 where f: "FetchPendingOrders 100 w = (r, w1)" by (rule prod.exhaust)
  obtain s w2 where l: "OpenSession c w1 = (s, w2)" by (rule prod.exhaust)
  have w: "w_db w1 = w_db w" "w_db w2 = w_db w"
    using FetchPendingOrders_db [of 100 w] session_snd(1) [of c w1] by (simp_all add: f l)
  have sel: "bs_FetchPendingOrders db_batch_store = FetchPendingOrders" "sc_OpenSession (enet_syspro c) = OpenSession c"
      "sc_Close (enet_syspro c) = CloseSession"
    by (simp_all add: db_batch_store_def enet_syspro_def)
  note def = run_batch_def ProcessBatch_def sel f l
  show ?thesis
  proof (cases "\<exists>ows ses. r = Inr ows \<and> ows \<noteq> [] \<and> s = Inr ses")
    case True
    then obtain ow ows ses where "r = Inr (ow # ows)" "s = Inr ses" by (auto simp: neq_Nil_conv)
    then have "run_batch c w = snd (CloseSession ses (submit_loop db_batch_store (enet_syspro c) ctx_err ses (ow # ows) w2))"
      by (simp add: def del: submit_loop.simps)
    with w submit_loop_db [of pg w2 c ses "ow # ows"] show ?thesis by (simp add: session_snd del: submit_loop.simps)
  next
    case False
    then have "run_batch c w = w1 \<or> run_batch c w = w2"
      by (cases r; cases s) (auto simp: def del: submit_loop.simps split: list.splits)
    with w show ?thesis by auto
  qed
qed

lemma fulfil_order_db:
  assumes "fulfil_order (service_fulfil_deps ec gc) dispatched ord w = (b, w')"
  shows "db_steps pg (w_db w) (w_db w')"
proof -
  have g: "w_db (snd (GetFulfillmentOrderID gc sid w)) = w_db w" "w_db (snd (CreateFulfillment gc i w)) = w_db w" for sid i w
    by (simp_all add: gql_call_snd graphql_frame)
  obtain x w1 where f: "GetFulfillmentOrderID gc (ShopifyOrderID ord) w = (x, w1)" by (rule prod.exhaust)
  have w1: "w_db w1 = w_db w" using g(1) [of "ShopifyOrderID ord" w] by (simp add: f)
  have e: "w_db w2 = w_db w1" if "CreateFulfillment gc i w1 = (y, w2)" for i y w2
    using g(2) [of i w1] by (simp add: that)
  show ?thesis
    using assms f w1 e
    by (auto simp: fulfil_order_def service_fulfil_deps_def split: option.splits if_splits sum.splits prod.splits
        dest!: call_db(4) [where pg = pg])
qed

lemma fulfil_loop_db: "db_steps pg (w_db w) (w_db (snd (fulfil_loop (service_fulfil_deps ec gc) dispatched ords w)))"
proof (induction ords arbitrary: w)
  case (Cons ord ords)
  obtain b w1 where o1: "fulfil_order (service_fulfil_deps ec gc) dispatched ord w = (b, w1)" by (rule prod.exhaust)
  from fulfil_order_db [OF o1, of pg] Cons.IH [of w1] show ?case
    by (auto simp: o1 split: prod.splits)
qed simp

lemma run_fulfilment_steps: "db_steps pg (w_db w) (w_db (run_fulfilment ec gc w))"
proof -
  obtain r w1 where f: "FetchSubmittedOrders w = (r, w1)" by (rule prod.exhaust)
  have w1: "w_db w1 = w_db w" using reader_db(5) [of w] by (simp add: f)
  have q: "w_db (snd (QueryDispatchedOrders ec ns w1)) = w_db w" for ns
    using reads_only_db [OF QueryDispatchedOrders_reads] w1 by simp
  show ?thesis
  proof (cases r)
    case (Inl e)
    then show ?thesis by (simp add: run_fulfilment_def processOrders_def service_fulfil_deps_def f w1)
  next
    case (Inr ords)
    let ?ns = "filter (\<lambda>n. n \<noteq> []) (map SysproOrderNumber ords)"
    obtain d w2 where d: "QueryDispatchedOrders ec ?ns w1 = (d, w2)" by (rule prod.exhaust)
    have w2: "w_db w2 = w_db w" using q [of ?ns] by (simp add: d)
    have "run_fulfilment ec gc w \<in> {w1, w2} \<or>
        (\<exists>disp. run_fulfilment ec gc w = snd (fulfil_loop (service_fulfil_deps ec gc) disp ords w2))"
      by (cases d) (auto simp: run_fulfilment_def processOrders_def service_fulfil_deps_def f Inr d Let_def)
    then show ?thesis using w1 w2 fulfil_loop_db [of pg w2 ec gc] by auto
  qed
qed

section \<open>Components that cannot touch an order\<close>

text \<open>Statements, none of which changes the orders.\<close>

definition beside_orders :: "pgconv \<Rightarrow> world \<Rightarrow> world \<Rightarrow> bool" where
  "beside_orders pg w w' \<longleftrightarrow> db_steps pg (w_db w) (w_db w') \<and> orders (w_db w') = orders (w_db w)"

lemma beside_same: "w_db w' = w_db w \<Longrightarrow> beside_orders pg w w'"
  by (simp add: beside_orders_def)

lemma beside_trans: "beside_orders pg a b \<Longrightarrow> beside_orders pg b c \<Longrightarrow> beside_orders pg a c"
  by (auto simp: beside_orders_def)

lemma beside_call:
  assumes "\<And>t. db_step pg (w_db w) (snd (f t (w_db w)))" "\<And>t. orders (snd (f t (w_db w))) = orders (w_db w)"
  shows "beside_orders pg w (snd (db_call f w))"
proof -
  have "orders (w_db (snd (db_call f w))) = orders (w_db w)"
    by (rule db_call_cases [of f w]) (use assms(2) in auto)
  with db_call_steps [of pg w f, OF assms(1)] show ?thesis by (simp add: beside_orders_def)
qed

lemma method_beside:
  "beside_orders pg w (snd (CreateCancellation pg c w))" "beside_orders pg w (snd (MarkPaymentPosted i ref w))"
  "beside_orders pg w (snd (MarkPaymentFailed i e w))"
  unfolding method_snd
  by (rule beside_call; simp add: db_step.intros orders_only)+

lemma pay_one_beside: "beside_orders pg w (pay_one (service_pay_deps c) s p w)"
proof -
  obtain r w1 where r: "PostCashReceipt c (receipt_of s p) w = (r, w1)" by (rule prod.exhaust)
  have "beside_orders pg w w1" using PostCashReceipt_frame [OF r] by (auto intro: beside_same)
  with method_beside(2,3) [of pg w1] show ?thesis
    by (cases r) (auto simp: pay_one_def service_pay_deps_def r intro: beside_trans)
qed

lemma run_payments_beside: "beside_orders pg w (run_payments c s w)"
proof -
  have loop: "beside_orders pg w (pay_loop (service_pay_deps c) ctx_err s ps w)" for ps w
  proof (induction ps arbitrary: w)
    case (Cons p ps)
    obtain b w1 where b: "ctx_err w = (b, w1)" by (rule prod.exhaust)
    have "beside_orders pg w w1" using ctx_err_frame [of w] by (auto simp: b intro: beside_same)
    with pay_one_beside [of pg w1 c s p] Cons.IH show ?case
      by (cases b) (auto simp: b intro: beside_trans)
  qed (simp add: beside_same)
  obtain r w1 where r: "FetchUnpostedPayments (ps_batchSize s) w = (r, w1)" by (rule prod.exhaust)
  have "beside_orders pg w w1" using reader_db(7) [of "ps_batchSize s" w] by (auto simp: r intro: beside_same)
  with loop [of w1] show ?thesis
    by (cases r) (auto simp: run_payments_def pay_cycle_def service_pay_deps_def r intro: beside_trans)
qed

section \<open>The stock syncer and the reports\<close>

lemma inv_step_db:
  "w_db (snd (il_world (inv_step oor (stock_deps ec lister sql) ev l))) = w_db (snd (il_world l))"
proof -
  let ?d = "stock_deps ec lister sql"
  have q: "w_db (snd w') = w_db (snd w)" if "id_QueryStock ?d skus wh w = (r, w')" for skus wh w r w'
    using that reads_only_db [OF QueryStock_reads [of "snd w" ec skus wh]]
    by (auto simp: stock_deps_def service_inv_deps_def lift_world_def split: sku_lister.splits prod.splits)
  have f: "w_db (snd w') = w_db (snd w)" if "id_FetchReservedQuantities ?d w = (r, w')" for w r w'
    using that reader_db(6) [of "snd w"]
    by (auto simp: stock_deps_def service_inv_deps_def lift_world_def split: sku_lister.splits prod.splits)
  have p: "w_db (snd (snd (id_SetInventoryLevels ?d qs w))) = w_db (snd w)" for qs w
    by (cases w) (auto simp: stock_deps_def service_inv_deps_def split: sku_lister.splits prod.splits
        dest: SetInventoryLevels_effect)
  have a: "w_db (snd w') = w_db (snd w)" if "id_ListAllSKUs ?d = Some g" "g w = (r, w')" for g w r w'
    using that list_skus_quiet [of "snd w" "ic_gql (fst w)" "[]" "[]"]
    by (cases w) (auto simp: stock_deps_def service_inv_deps_def shopify_ListAllSKUs_def no_push_def
        split: sku_lister.splits prod.splits)
  have k: "w_db (snd w') = w_db (snd w)" if "resolveSKUs ?d s w = (r, w')" for s w r w'
    using that by (auto simp: resolveSKUs_def split: option.splits sum.splits prod.splits if_splits dest: a)
  have c: "w_db (snd w') = w_db (snd w)" if "computeEffective oor ?d st w = (r, w')" for st w r w'
    using that by (auto simp: computeEffective_def Let_def split: prod.splits dest: f)
  have full: "w_db (snd w') = w_db (snd w)" if "fullSync oor ?d s w = (s', w')" for s w s' w'
  proof -
    obtain r1 w1 where 1: "resolveSKUs ?d s w = (r1, w1)" by (rule prod.exhaust)
    obtain r2 w2 where 2: "id_QueryStock ?d r1 (is_warehouse s) w1 = (r2, w2)" by (rule prod.exhaust)
    have "w' \<in> {w1, w2} \<or> (\<exists>st qs w3. computeEffective oor ?d st w2 = (qs, w3) \<and> w' = snd (id_SetInventoryLevels ?d qs w3))"
      using that by (auto simp: fullSync_def 1 2 split: if_splits sum.splits prod.splits)
    with k [OF 1] q [OF 2] c p show ?thesis by fastforce
  qed
  have trig: "w_db (snd w') = w_db (snd w)" if "triggeredSync oor ?d s w = (s', w')" for s w s' w'
  proof (cases "is_cachedStock s = []")
    case False
    obtain qs w1 where 1: "computeEffective oor ?d (is_cachedStock s) w = (qs, w1)" by (rule prod.exhaust)
    from that False have "w' = snd (id_SetInventoryLevels ?d qs w1)" by (simp add: triggeredSync_def 1)
    with c [OF 1] p show ?thesis by simp
  qed (use that in \<open>simp add: triggeredSync_def\<close>)
  show ?thesis
    by (cases ev) (auto split: prod.splits dest: full trig)
qed

lemma orders_loop_db: "w_db (snd (orders_loop f rq seen w)) = w_db w"
proof (induction f rq seen w rule: orders_loop.induct)
  case (1 f rq seen w)
  obtain oc w' where h: "http_do rq w = (oc, w')" by (rule prod.exhaust)
  have w': "w_db w' = w_db w" using http_do_frame(1) [of rq w] by (simp add: h)
  show ?case
  proof (cases "\<exists>os nxt. orders_page oc = Inr (os, nxt) \<and> nxt \<noteq> []")
    case True
    then obtain os nxt where n: "orders_page oc = Inr (os, nxt)" "nxt \<noteq> []" by blast
    from "1.IH" [OF h [symmetric] n(1) refl n(2)] w' show ?thesis
      by (subst orders_loop.simps) (simp add: h n)
  next
    case False
    with w' show ?thesis
      by (subst orders_loop.simps) (auto simp: h split: sum.splits prod.splits)
  qed
qed

lemma fetchGraphQL_db: "w_db (snd (fetchGraphQL f i num email w)) = w_db w"
  using http_do_frame(1) [of "transactions_req f i" w]
  by (auto simp: fetchGraphQL_def split: prod.splits http_outcome.splits)

lemma window_loop_db: "w_db (snd (window_loop f since until ss w)) = w_db w"
proof (induction ss arbitrary: w)
  case (Cons s ss)
  obtain r w1 where h: "FetchForOrder f (os_ID s) (os_Name s) (os_Email s) w = (r, w1)" by (rule prod.exhaust)
  have "w_db w1 = w_db w" using fetchGraphQL_db [of f "os_ID s" "os_Name s" "os_Email s" w] h by (simp add: FetchForOrder_def)
  with Cons.IH [of w] Cons.IH [of w1] show ?case by (cases r) (auto simp: h split: prod.splits)
qed simp

lemma FetchOrdersInWindow_db: "w_db (snd (FetchOrdersInWindow f since until w)) = w_db w"
proof -
  obtain r w1 where h: "listOrdersInWindow f since until w = (r, w1)" by (rule prod.exhaust)
  have "w_db w1 = w_db w" using orders_loop_db h by (metis listOrdersInWindow_def snd_conv)
  moreover have "w_db (snd (FetchOrdersInWindow f since until w)) = w_db w1"
    using window_loop_db [of f since until "case r of Inl _ \<Rightarrow> [] | Inr os \<Rightarrow> os" w1]
    by (cases r) (auto simp: FetchOrdersInWindow_def h split: prod.splits)
  ultimately show ?thesis by simp
qed

text \<open>Nothing a reporter does in the office changes a table.\<close>

lemma fs_world:
  "of_world (snd (MkdirAll dir s)) = of_world s" "of_world (snd (StatOk p s)) = of_world s"
  "of_world (snd (WriteFile p content s)) = of_world s"
  by (auto simp: MkdirAll_def StatOk_def WriteFile_def fs_next_def split: list.splits fs_event.splits prod.splits)

lemma writeDeadLetter_world: "of_world (snd (writeDeadLetter dir kind date csv s)) = of_world s"
proof -
  obtain d where d: "d = (if dir = [] then DefaultDeadLetterDir else dir)" by simp
  obtain slot where slot: "slot = PathJoin d (fmt_date date @ ''-'' @ kind @ ''.csv'')" by simp
  obtain m s1 where m: "MkdirAll d s = (m, s1)" by (rule prod.exhaust)
  obtain b s2 where b: "StatOk slot s1 = (b, s2)" by (rule prod.exhaust)
  have 1: "of_world s1 = of_world s" "of_world s2 = of_world s1"
    using fs_world(1) [of d s] fs_world(2) [of slot s1] unfolding m b by simp_all
  show ?thesis
  proof (cases m)
    case (Inl e)
    then show ?thesis unfolding writeDeadLetter_def d [symmetric] Let_def m by (simp add: 1)
  next
    case (Inr u)
    have "snd (case WriteFile p csv s2 of (Inl e, s3) \<Rightarrow> (Inl (f e), s3) | (Inr x, s3) \<Rightarrow> (Inr p, s3)) =
        snd (WriteFile p csv s2)" for p and f :: "go_error \<Rightarrow> go_error"
      by (simp split: sum.splits prod.splits)
    then show ?thesis
      unfolding writeDeadLetter_def d [symmetric] Let_def m slot [symmetric] Inr by (simp add: b 1 fs_world)
  qed
qed

lemma write_archive_world: "of_world (snd (write_archive dir name csv s)) = of_world s"
proof -
  obtain m s1 where m: "MkdirAll dir s = (m, s1)" by (rule prod.exhaust)
  have "of_world s1 = of_world s" using fs_world(1) [of dir s] unfolding m by simp
  moreover have "snd (write_archive dir name csv s) \<in> {s, s1, snd (WriteFile (PathJoin dir name) csv s1)}"
    using m by (cases m) (auto simp: write_archive_def split: sum.splits prod.splits)
  ultimately show ?thesis by (auto simp: fs_world)
qed

lemma writeLastSent_world: "of_world (snd (writeLastSent dir kind date s)) = of_world s"
proof -
  obtain m s1 where m: "MkdirAll dir s = (m, s1)" by (rule prod.exhaust)
  have "of_world s1 = of_world s" using fs_world(1) [of dir s] unfolding m by simp
  moreover have "\<exists>p c. snd (writeLastSent dir kind date s) \<in> {s, s1, snd (WriteFile p c s1)}"
    using m by (cases m) (auto simp: writeLastSent_def split: sum.splits prod.splits)
  ultimately show ?thesis by (auto simp: fs_world)
qed

lemma ping_db:
  "w_db (of_world (pingNtfyDeadLetter topic kind date path e s)) = w_db (of_world s)"
  "w_db (of_world (pingHealthcheck url s)) = w_db (of_world s)"
  using http_do_frame(1)
  by (auto simp: pingNtfyDeadLetter_def pingHealthcheck_def in_world_def split: prod.splits) (metis snd_conv)+

lemma Send_db: "w_db (of_world (snd (Send c to subject body att s))) = w_db (of_world s)"
proof -
  let ?p = "buildGraphPayload to subject body att"
  obtain r1 s1 where p1: "postSendMail c ?p False s = (r1, s1)" by (rule prod.exhaust)
  obtain r2 s2 where p2: "postSendMail c ?p True s1 = (r2, s2)" by (rule prod.exhaust)
  show ?thesis
    using postSendMail_exchange [OF p1] postSendMail_exchange [OF p2]
    by (cases r1) (auto simp: Send_def Let_def p1 p2 exchanged_def)
qed

lemma deliver_db:
  assumes "\<And>s. of_world (snd (archive s)) = of_world s"
  shows "w_db (of_world (snd (deliver (Send c) r kind date subject body filename csv archive s))) = w_db (of_world s)"
proof -
  let ?att = "Some \<lparr>att_Filename = filename, att_ContentType = ''text/csv; charset=utf-8'', att_Body = csv\<rparr>"
  obtain m s1 where m: "Send c (rp_recipients r) subject body ?att s = (m, s1)" by (rule prod.exhaust)
  obtain p s2 where p: "writeDeadLetter (rp_deadLetterDir r) kind date csv s1 = (p, s2)" by (rule prod.exhaust)
  obtain a s3 where a: "archive s1 = (a, s3)" by (rule prod.exhaust)
  have "w_db (of_world s1) = w_db (of_world s)" "of_world s2 = of_world s1" "of_world s3 = of_world s1"
    using Send_db [of c "rp_recipients r" subject body ?att s] writeDeadLetter_world [of "rp_deadLetterDir r" kind date csv s1]
      assms [of s1] unfolding m p a by simp_all
  then show ?thesis by (cases m) (auto simp: deliver_def m p a ping_db)
qed

lemma in_world_db:
  assumes "\<And>w. w_db (snd (g w)) = w_db w" "in_world g s = (r, s')"
  shows "w_db (of_world s') = w_db (of_world s)"
  using assms(1) [of "of_world s"] assms(2) by (auto simp: in_world_def split: prod.splits)

lemma cash_send_db: "w_db (of_world (snd (service_cash_send f c r date s))) = w_db (of_world s)"
proof -
  let ?a = "day_start date" and ?b = "AddDays (day_start date) 1"
  obtain x s1 where x: "in_world (FetchOrdersInWindow f ?a ?b) s = (x, s1)" by (rule prod.exhaust)
  have "w_db (of_world s1) = w_db (of_world s)" by (rule in_world_db [OF FetchOrdersInWindow_db x])
  then show ?thesis
    by (cases x) (simp_all add: service_cash_send_def SendForDate_def Let_def x deliver_db archiveSentCSV_def write_archive_world)
qed

lemma intake_send_db: "w_db (of_world (snd (service_intake_send c r date s))) = w_db (of_world s)"
proof -
  let ?a = "day_start date" and ?b = "AddDays (day_start date) 1"
  obtain x s1 where x: "in_world (FetchOrdersByDateRange ?a ?b) s = (x, s1)" by (rule prod.exhaust)
  have "w_db (of_world s1) = w_db (of_world s)" by (rule in_world_db [OF reader_db(9) x])
  then show ?thesis
    by (cases x) (simp_all add: service_intake_send_def IntakeSendForDate_def Let_def x deliver_db archiveSentCSV_def
        write_archive_world)
qed

lemma check_report_db:
  assumes "\<And>date s. w_db (of_world (snd (send date s))) = w_db (of_world s)"
  shows "w_db (of_world (snd (check_report send r kind (d, s)))) = w_db (of_world s)"
proof -
  let ?t = "utc_midnight (UTC (office_now s))"
  obtain x s1 where x: "send (AddDays ?t (- 1)) s = (x, s1)" by (rule prod.exhaust)
  have "w_db (of_world s1) = w_db (of_world s)" using assms [of "AddDays ?t (- 1)" s] by (simp add: x)
  then show ?thesis by (cases x) (auto simp: check_report_def Let_def x writeLastSent_world)
qed

section \<open>The sweep and the requests\<close>

lemma cancel_handler_beside:
  assumes "cancel_handle (service_cancel_deps pg c) secret r w = (res, w')"
  shows "beside_orders pg w w'"
proof -
  let ?cd = "service_cancel_deps pg c"
  have e: "beside_orders pg w w1" if "cd_CancellationExists ?cd i w = (x, w1)" for i x w w1
    using that reader_db(2) [of i w] by (auto simp: service_cancel_deps_def intro: beside_same)
  have l: "beside_orders pg w w1" if "cd_GetOrderByShopifyID ?cd i w = (x, w1)" for i x w w1
    using that reader_db(3) [of i w] by (auto simp: service_cancel_deps_def intro: beside_same)
  have k: "beside_orders pg w w1" if "classify_order ?cd ord w = (x, w1)" for ord x w w1
    using that reads_only_db [OF QueryDispatchedOrders_reads]
    by (auto simp: classify_order_def service_cancel_deps_def beside_same split: option.splits if_splits sum.splits prod.splits
        dest!: arg_cong [where f = snd])
  have m: "beside_orders pg w w1" if "cd_CreateCancellation ?cd x w = (y, w1)" for x y w w1
    using that method_beside(1) [of pg w x] by (simp add: service_cancel_deps_def)
  show ?thesis
    using assms
    by (auto simp: cancel_handle_def Let_def beside_same split: option.splits if_splits sum.splits prod.splits bool.splits
        dest!: e l k m intro: beside_trans)
qed

end
