(* ===== verification/ServiceProps.thy ===== *)
theory ServiceProps
  imports ServiceSteps StoreProps ConfigProps
begin

text \<open>
  The service as a whole: how any step of it may change an order, what holds of every order in every
  reachable state, and which requests may change the tables at all.
\<close>

section \<open>The life of an order\<close>

text \<open>
  The moves of one entry of the queue: it is staged; a run of the batch claims it, submits it, rejects it or
  puts it back (dead-lettered at the third attempt); a submitted order with a SYSPRO number is fulfilled;
  an operator retries a failed one; a restart returns a stuck one.
\<close>

inductive order_move :: "queue_row option \<Rightarrow> queue_row option \<Rightarrow> bool" where
  move_stay: "order_move q q"
| move_staged: "order_move None (Some (OrderStatusPending, 0, [], []))"
| move_claimed: "order_move (Some (OrderStatusPending, a, n, e)) (Some (OrderStatusProcessing, a, n, e))"
| move_submitted: "order_move (Some (OrderStatusPending, a, n, e)) (Some (OrderStatusSubmitted, a + 1, num, []))"
| move_rejected: "order_move (Some (OrderStatusPending, a, n, e)) (Some (OrderStatusFailed, a, n, err))"
| move_put_back: "a + 1 < maxAttempts \<Longrightarrow>
    order_move (Some (OrderStatusPending, a, n, e)) (Some (OrderStatusPending, a + 1, n, err))"
| move_dead: "maxAttempts \<le> a + 1 \<Longrightarrow>
    order_move (Some (OrderStatusPending, a, n, e)) (Some (OrderStatusDeadLetter, a + 1, n, err))"
| move_fulfilled: "n \<noteq> [] \<Longrightarrow>
    order_move (Some (OrderStatusSubmitted, a, n, e)) (Some (OrderStatusFulfilled, a, n, e))"
| move_retried: "retryable s \<Longrightarrow> order_move (Some (s, a, n, e)) (Some (OrderStatusPending, 0, n, []))"
| move_reset: "order_move (Some (OrderStatusProcessing, a, n, e)) (Some (OrderStatusPending, a + 1, n, e))"

inductive_cases order_move_cases [elim!]: "order_move q (Some r)"
inductive_cases order_move_from: "order_move (Some r) q"

definition order_moves :: "world \<Rightarrow> world \<Rightarrow> bool" where
  "order_moves w w' \<longleftrightarrow> (\<forall>j. order_move (queue_of (w_db w) j) (queue_of (w_db w') j))"

lemma moves_same: "orders (w_db w') = orders (w_db w) \<Longrightarrow> order_moves w w'"
  by (simp add: order_moves_def queue_of_def row_of_def move_stay)

subsection \<open>Staging\<close>

definition staged_only :: "world \<Rightarrow> world \<Rightarrow> bool" where
  "staged_only w w' \<longleftrightarrow> (\<forall>j. queue_of (w_db w') j = queue_of (w_db w) j \<or>
     queue_of (w_db w) j = None \<and> queue_of (w_db w') j = Some (OrderStatusPending, 0, [], []))"

lemma staged_same: "orders (w_db w') = orders (w_db w) \<Longrightarrow> staged_only w w'"
  by (simp add: staged_only_def queue_of_def row_of_def)

lemma staged_trans: "staged_only a b \<Longrightarrow> staged_only b c \<Longrightarrow> staged_only a c"
  unfolding staged_only_def by metis

lemma staged_moves: "staged_only w w' \<Longrightarrow> order_moves w w'"
  unfolding staged_only_def order_moves_def by (metis move_stay move_staged)

lemma CreateOrder_staged:
  assumes "Status ord = OrderStatusPending"
  shows "staged_only w (snd (CreateOrder pg ev ord ls w))"
proof (rule CreateOrder_cases [of ev ord w pg ls])
  fix t
  assume "fresh_for ev ord (w_db w)"
    "w_db (snd (CreateOrder pg ev ord ls w)) = created_db pg t ev ord ls (w_db w)"
  then have "orders (w_db (snd (CreateOrder pg ev ord ls w))) =
      orders (w_db w) @ [order_row pg t (seq_order (w_db w) + 1) ord]" by (simp add: created_db_rows)
  moreover have "find P (xs @ ys) = (case find P xs of None \<Rightarrow> find P ys | Some x \<Rightarrow> Some x)" for P and xs ys :: "order list"
    by (induction xs) auto
  ultimately show ?thesis
    using assms by (auto simp: staged_only_def queue_of_def row_of_def queue_row_def order_row_def split: option.splits)
qed (simp add: staged_same rollback_def)

lemma staged_orders_pending:
  "Status (fst (mapOrder nw p raw)) = OrderStatusPending" "Status (fst (toDomain nw s)) = OrderStatusPending"
  by (auto simp: mapOrder_def toDomain_def set_address_def Let_def split: option.splits)

lemma order_handler_staged:
  assumes "handleOrderCreate (db_order_store pg) secret clk r trig w = (res, w')"
  shows "staged_only w w'"
proof -
  let ?w1 = "snd (WebhookExists (header ''X-Shopify-Webhook-Id'' r) w)"
  have e: "staged_only w ?w1" by (rule staged_same) (simp add: reader_db)
  have c: "staged_only w (snd (CreateOrder pg ev (fst (mapOrder nw p raw)) ls ?w1))" for ev nw p raw ls
    by (rule staged_trans [OF e CreateOrder_staged]) (rule staged_orders_pending)
  have "w' = w \<or> w' = ?w1 \<or> (\<exists>ev nw p raw ls. w' = snd (CreateOrder pg ev (fst (mapOrder nw p raw)) ls ?w1))"
    using assms
    by (auto simp: handleOrderCreate_def db_order_store_def Let_def
        split: option.splits if_splits sum.splits prod.splits bool.splits) (metis fst_conv snd_conv)+
  then show ?thesis using e c staged_same [of w w] by auto
qed

lemma sweep_staged:
  assumes "run_sweep pg s w = (r, w')"
  shows "staged_only w w'"
proof -
  have one: "staged_only w (snd (stageOrder (service_sweep_deps pg s) now x w))" for x w
    using CreateOrder_staged [OF staged_orders_pending(2)]
    by (auto simp: stageOrder_def service_sweep_deps_def Let_def split: prod.splits) (metis fst_conv)
  have loop: "staged_only w (sweep_loop (service_sweep_deps pg s) now ex os w)" for ex os w
    by (induction os arbitrary: w) (auto intro: staged_same staged_trans [OF one])
  obtain l w1 where l: "listOrders s (UTC (AddTime (now w) (- sw_lookback s))) w = (l, w1)" by (rule prod.exhaust)
  have w1: "staged_only w w1" using listOrders_frame [OF l] by (auto intro: staged_same)
  show ?thesis
  proof (cases l)
    case (Inl e)
    with assms l w1 show ?thesis by (auto simp: run_sweep_def Sweep_def service_sweep_deps_def)
  next
    case (Inr os)
    obtain x w2 where x: "ShopifyOrdersExist (map so_ID os) w1 = (x, w2)" by (rule prod.exhaust)
    have "staged_only w w2"
      using staged_trans [OF w1 staged_same] ShopifyOrdersExist_spec [OF x] by auto
    then show ?thesis
      using assms l Inr x w1 staged_trans [OF _ loop [of w2 _ os]]
      by (cases x; cases "os = []") (auto simp: run_sweep_def Sweep_def service_sweep_deps_def)
  qed
qed

subsection \<open>The batch, the fulfilments, retries and restarts\<close>

lemma outcome_move:
  "outcome ord stop q \<Longrightarrow> Status ord = OrderStatusPending \<Longrightarrow> order_move (Some (queue_row ord)) (Some q)"
  by (induction rule: outcome.induct) (simp_all add: queue_row_def order_move.intros)

lemma batch_moves:
  assumes "db_inv (w_db w)"
  shows "order_moves w (run_batch c w)"
proof -
  let ?w' = "run_batch c w"
  from bp.ProcessBatch_effect [OF assms, of c, folded run_batch_def] consider
    (run) ses ows w1 where "FetchPendingOrders 100 w = (Inr ows, w1)"
      "batch_effect (\<lambda>w. queue_of (w_db w)) sortois (sortoi_msg ses) ows w ?w'"
    | (quiet) "queue_of (w_db ?w') = queue_of (w_db w)"
    by (auto simp: db_batch_store_def)
  then show ?thesis
  proof cases
    case run
    note rows = fetched_rows [OF assms run(1)]
    from run(2) obtain picked rest where e: "ows = picked @ rest"
      "\<forall>ow\<in>set picked. \<exists>stop q. queue_of (w_db ?w') (ord_ID (ow_Order ow)) = Some q \<and> outcome (ow_Order ow) stop q"
      "\<forall>ow\<in>set rest. queue_of (w_db ?w') (ord_ID (ow_Order ow)) \<in>
         {queue_of (w_db w) (ord_ID (ow_Order ow)), map_option q_mark (queue_of (w_db w) (ord_ID (ow_Order ow)))}"
      "\<forall>j. j \<notin> (ord_ID \<circ> ow_Order) ` set ows \<longrightarrow> queue_of (w_db ?w') j = queue_of (w_db w) j"
      unfolding batch_effect_def by blast
    have picked: "order_move (queue_of (w_db w) (ord_ID (ow_Order ow))) (queue_of (w_db ?w') (ord_ID (ow_Order ow)))"
      if "ow \<in> set picked" for ow
      using that e(1,2) rows outcome_move by fastforce
    have rest: "order_move (queue_of (w_db w) (ord_ID (ow_Order ow))) (queue_of (w_db ?w') (ord_ID (ow_Order ow)))"
      if "ow \<in> set rest" for ow
    proof -
      from that e(1) rows have "queue_of (w_db w) (ord_ID (ow_Order ow)) = Some (queue_row (ow_Order ow))"
        "Status (ow_Order ow) = OrderStatusPending" by auto
      with e(3) that show ?thesis by (fastforce simp: queue_row_def intro: order_move.intros)
    qed
    show ?thesis
      unfolding order_moves_def
    proof
      fix j
      show "order_move (queue_of (w_db w) j) (queue_of (w_db ?w') j)"
        using e(1,4) picked rest by (cases "j \<in> (ord_ID \<circ> ow_Order) ` set ows") (auto intro: move_stay)
    qed
  qed (simp add: order_moves_def move_stay)
qed

lemma fulfil_moves:
  assumes "db_inv (w_db w)"
  shows "order_moves w (run_fulfilment ec gc w)"
proof -
  let ?w' = "run_fulfilment ec gc w"
  from fs.processOrders_effect [OF assms, of ec gc, folded run_fulfilment_def] consider
    (none) "queue_of (w_db ?w') = queue_of (w_db w)"
  | (eff) ords w1 dispatched where "FetchSubmittedOrders w = (Inr ords, w1)"
      "fulfil_effect (\<lambda>w. queue_of (w_db w)) fulfilments (\<lambda>i. gql_req gc fulfillment_mutation (Some (fulfillment_vars i)))
         dispatched ords w ?w'"
    by (auto simp: service_fulfil_deps_def)
  then show ?thesis
  proof cases
    case eff
    note rows = FetchSubmitted_rows [OF assms eff(1)]
    from eff(2) obtain reqs :: "(order \<times> fulfilment_input) list" where e: "subseq (map fst reqs) ords"
        "\<forall>j. queue_of (w_db ?w') j = queue_of (w_db w) j \<or>
           j \<in> ord_ID ` fst ` set reqs \<and> queue_of (w_db ?w') j = map_option q_fulfilled (queue_of (w_db w) j)"
      unfolding fulfil_effect_def by (elim exE conjE) (rule that)
    have sub: "ord \<in> set ords" if "ord \<in> set (map fst reqs)" for ord
      using that e(1) by (metis subseq_conv_nths notin_set_nthsI)
    have "order_move (queue_of (w_db w) j) (queue_of (w_db ?w') j)" for j
    proof (cases "queue_of (w_db ?w') j = queue_of (w_db w) j")
      case False
      with e(2) obtain ord where "ord \<in> set (map fst reqs)" "j = ord_ID ord"
        "queue_of (w_db ?w') j = map_option q_fulfilled (queue_of (w_db w) j)" by force
      with rows sub [of ord] show ?thesis by (auto simp: queue_row_def intro: move_fulfilled)
    qed (simp add: move_stay)
    then show ?thesis by (simp add: order_moves_def)
  qed (simp add: order_moves_def move_stay)
qed

lemma call_moves:
  assumes "\<And>t j. order_move (queue_of (w_db w) j) (queue_of (snd (f t (w_db w))) j)"
  shows "order_moves w (snd (db_call f w))"
  by (rule db_call_cases [of f w]) (use assms in \<open>auto simp: order_moves_def move_stay simp del: split_paired_All\<close>)

lemma retry_moves: "order_moves w (snd (RetryOrder i w))"
  unfolding method_snd
proof (rule call_moves)
  fix t :: gtime and j
  have "order_move q (map_option q_retry q)" for q
    by (cases q) (auto simp: move_stay move_retried)
  then show "order_move (queue_of (w_db w) j) (queue_of (snd (sql_retry i t (w_db w))) j)"
    by (cases "j = i") (simp_all add: retry_refines move_stay)
qed

lemma boot_moves: "order_moves w (boot_reset w)"
  unfolding boot_reset_def method_snd
proof (rule call_moves)
  fix t :: gtime and j
  let ?P = "\<lambda>r. Status r = OrderStatusProcessing \<and> t_ns (UpdatedAt r) < t_ns t - 600 * Second"
  let ?f = "\<lambda>r. r\<lparr>Status := OrderStatusPending, Attempts := Attempts r + 1, UpdatedAt := pg_time t\<rparr>"
  have "keeps_order ?f" by (simp add: keeps_order_def)
  then have "queue_of (snd (sql_reset_stale 600 t (w_db w))) j =
      map_option (\<lambda>r. queue_row (if ?P r then ?f r else r)) (row_of (w_db w) j)"
    by (simp add: sql_reset_stale_def queue_of_def row_of_upd option.map_comp comp_def)
  then show "order_move (queue_of (w_db w) j) (queue_of (snd (sql_reset_stale 600 t (w_db w))) j)"
    by (cases "row_of (w_db w) j") (auto simp: queue_of_def queue_row_def intro: order_move.intros)
qed

section \<open>Every request\<close>

text \<open>Nothing but reading happened.\<close>

definition read_only :: "world \<Rightarrow> world \<Rightarrow> bool" where
  "read_only w w' \<longleftrightarrow> w_db w' = w_db w \<and> w_sent w' = w_sent w"

lemma handle_health_db: "read_only w (snd (handle_health w))"
proof -
  obtain r w1 where h: "db_call (\<lambda>_ d. ((), d)) w = (r, w1)" by (rule prod.exhaust)
  have "w_db w1 = w_db w" "w_sent w1 = w_sent w"
    using db_call_read [of "\<lambda>_ d. ((), d)" w] db_call_frame [of "\<lambda>_ d. ((), d)" w] by (simp_all add: h)
  then show ?thesis by (cases r) (simp_all add: read_only_def handle_health_def h)
qed

lemma ListOrders_sent: "w_sent (snd (ListOrdersByStatus st w)) = w_sent w"
proof -
  obtain r w1 where "db_call (\<lambda>_ d. (sort_key (\<lambda>r. - created_key r) (filter (\<lambda>r. Status r = st) (orders d)), d)) w = (r, w1)"
    by (rule prod.exhaust)
  then show ?thesis
    using db_call_frame [of "\<lambda>_ d. (sort_key (\<lambda>r. - created_key r) (filter (\<lambda>r. Status r = st) (orders d)), d)" w]
    by (auto simp: ListOrdersByStatus_def split: sum.splits)
qed

lemma handle_orders_db: "read_only w (snd (handle_orders qs w))"
proof -
  have "w_db w1 = w_db w \<and> w_sent w1 = w_sent w" if "ListOrdersByStatus st w = (r, w1)" for st r w1
    using reader_db(10) [of st w] ListOrders_sent [of st w] by (simp add: that)
  then show ?thesis by (auto simp: read_only_def handle_orders_def Let_def split: option.splits sum.splits prod.splits)
qed

lemma handle_retry_world: "snd (handle_retry i w) = w \<or> (\<exists>j. snd (handle_retry i w) = snd (RetryOrder j w))"
  by (auto simp: handle_retry_def split: option.splits sum.splits prod.splits) (metis snd_conv)+

lemma map_prod_iff: "map_prod f g p = (x, y) \<longleftrightarrow> f (fst p) = x \<and> g (snd p) = y"
  by (cases p) auto

text \<open>A request leaves the tables as they were, or is one of the three that may change them.\<close>

lemma dispatch_cases:
  assumes "dispatch c pg rq trig w = ((a, trig'), w')"
  obtains (quiet) "read_only w w'" "trig' = trig"
  | (created) res where "route_of (hi_method rq) (hi_path rq) = ROrderCreate"
      "handleOrderCreate (db_order_store pg) (cf_ShopifyWebhookSecret c) now (hi_request rq) (Some trig) w = (res, w')"
      "trig' = (snd res = Some True)" "a = of_response (fst res)"
  | (cancelled) res where "route_of (hi_method rq) (hi_path rq) = ROrderCancelled"
      "cancel_handle (service_cancel_deps pg (enet_of c)) (cf_ShopifyWebhookSecret c) (hi_request rq) w = (res, w')"
      "trig' = trig" "a = of_response res"
  | (retried) i j where "route_of (hi_method rq) (hi_path rq) = RRetry i" "admin_ok c (hi_request rq)"
      "w' = snd (RetryOrder j w)" "trig' = trig"
proof (cases "route_of (hi_method rq) (hi_path rq)")
  case RHealth
  with assms handle_health_db [of w] show ?thesis by (auto simp: dispatch_def map_prod_iff intro: quiet)
next
  case ROrderCreate
  with assms show ?thesis by (auto simp: dispatch_def split: prod.splits intro: created)
next
  case ROrderCancelled
  with assms show ?thesis by (auto simp: dispatch_def split: prod.splits intro: cancelled)
next
  case (RRetry i)
  with assms handle_retry_world [of i w] show ?thesis
    by (auto simp: dispatch_def requireAdmin_def admin_ok_def map_prod_iff read_only_def split: if_splits intro: quiet retried)
next
  case ROrders
  with assms handle_orders_db [of w "hi_query rq"] show ?thesis
    by (auto simp: dispatch_def requireAdmin_def map_prod_iff read_only_def split: if_splits intro: quiet)
qed (use assms in \<open>auto simp: dispatch_def read_only_def intro: quiet\<close>)

lemma serve_dispatch:
  "serve c pg rq trig w = ((a, trig'), w') \<Longrightarrow> \<exists>a0. dispatch c pg rq trig w = ((a0, trig'), w') \<and> a = securityHeaders a0"
  by (cases "dispatch c pg rq trig w") (auto simp: serve_def)

lemma request_effect:
  assumes "serve c pg rq trig w = ((a, trig'), w')"
  shows "order_moves w w' \<and> db_steps pg (w_db w) (w_db w')"
proof -
  obtain a0 where d: "dispatch c pg rq trig w = ((a0, trig'), w')" using serve_dispatch [OF assms] by blast
  show ?thesis
  proof (cases rule: dispatch_cases [OF d])
    case 1
    then show ?thesis by (simp add: read_only_def moves_same)
  next
    case (2 res)
    from order_handler_staged [OF 2(2)] order_handler_steps [OF 2(2)] show ?thesis by (simp add: staged_moves)
  next
    case (3 res)
    from cancel_handler_beside [OF 3(2)] show ?thesis by (simp add: beside_orders_def moves_same)
  next
    case (4 i j)
    then show ?thesis using retry_moves [of w j] method_steps(4) [of pg w j] by simp
  qed
qed

lemma cancel_unauthentic: "\<not> authentic secret r \<Longrightarrow> snd (cancel_handle cd secret r w) = w"
  by (cases "req_body r") (auto simp: cancel_handle_def authentic_def Let_def)

lemma post_routes:
  "route_of m p = ROrderCreate \<Longrightarrow> m = ''POST''" "route_of m p = ROrderCancelled \<Longrightarrow> m = ''POST''"
  "route_of m p = RRetry i \<Longrightarrow> m = ''POST''"
  by (auto simp: route_of_def get_only_def post_only_def Let_def split: if_splits list.splits)

section \<open>Every step\<close>

lemma step_effect:
  assumes "service_step c pg sql_up w w'" "db_inv (w_db w)"
  shows "order_moves w w' \<and> db_steps pg (w_db w) (w_db w')"
  using assms(1)
proof cases
  case (request rq trig a trig')
  then show ?thesis by (rule request_effect)
next
  case batch
  then show ?thesis using batch_moves [OF assms(2)] run_batch_steps by simp
next
  case (fulfilment gc)
  then show ?thesis using fulfil_moves [OF assms(2)] run_fulfilment_steps by simp
next
  case (sweep s r)
  then show ?thesis using sweep_staged run_sweep_steps staged_moves by blast
next
  case (payments s)
  then show ?thesis using run_payments_beside [of pg w "enet_of c" s] by (simp add: beside_orders_def moves_same)
next
  case (stock s l oor sql ev)
  then show ?thesis by (simp add: inv_step_db moves_same)
next
  case (cash_report f r m s d)
  then show ?thesis by (simp add: check_report_db cash_send_db moves_same)
next
  case (intake_report r m s d)
  then show ?thesis by (simp add: check_report_db intake_send_db moves_same)
next
  case restart
  then show ?thesis using boot_moves [of w] method_steps(1) [of pg w 600] by (simp add: boot_reset_def)
next
  case outside
  then show ?thesis by (simp add: moves_same)
qed

section \<open>Every run\<close>

lemma steps_inv:
  "(service_step c pg up)\<^sup>*\<^sup>* w w' \<Longrightarrow> db_inv (w_db w) \<Longrightarrow> db_inv (w_db w') \<and> db_steps pg (w_db w) (w_db w')"
proof (induction rule: rtranclp_induct)
  case (step y z)
  then show ?case using step_effect [OF step.hyps(2)] by (meson db_steps_inv rtranclp_trans)
qed simp

text \<open>What every move keeps of an entry holds of it in every later state.\<close>

lemma steps_keep:
  assumes "(service_step c pg up)\<^sup>*\<^sup>* w w'" "db_inv (w_db w)" "P (queue_of (w_db w) j)"
    "\<And>q q'. order_move q q' \<Longrightarrow> P q \<Longrightarrow> P q'"
  shows "P (queue_of (w_db w') j)"
  using assms(1)
proof (induction rule: rtranclp_induct)
  case (step y z)
  have "order_moves y z" using step_effect [OF step.hyps(2)] steps_inv [OF step.hyps(1) assms(2)] by blast
  then have "order_move (queue_of (w_db y) j) (queue_of (w_db z) j)" by (simp add: order_moves_def)
  then show ?case using step.IH by (rule assms(4))
qed (rule assms(3))

lemma batch_avoids:
  assumes "db_inv (w_db w)" "\<not> v_pending (queue_of (w_db w) j)"
  shows "\<exists>ses (picked :: order_with_lines list). sortois (run_batch c w) = sortois w @ map (\<lambda>ow. sortoi_msg ses (ow_Order ow) (ow_Lines ow)) picked \<and>
    j \<notin> (ord_ID \<circ> ow_Order) ` set picked"
proof -
  from bp.ProcessBatch_effect [OF assms(1), of c, folded run_batch_def] consider
    ses ows w1 where "FetchPendingOrders 100 w = (Inr ows, w1)"
      "batch_effect (\<lambda>w. queue_of (w_db w)) sortois (sortoi_msg ses) ows w (run_batch c w)"
    | "sortois (run_batch c w) = sortois w"
    by (auto simp: db_batch_store_def)
  then show ?thesis
  proof cases
    case (1 ses ows w1)
    from 1(2) obtain picked rest where e: "ows = picked @ rest"
      "sortois (run_batch c w) = sortois w @ map (\<lambda>ow. sortoi_msg ses (ow_Order ow) (ow_Lines ow)) picked"
      unfolding batch_effect_def by blast
    have "j \<notin> (ord_ID \<circ> ow_Order) ` set picked"
      using fetched_rows [OF assms(1) 1(1)] assms(2) e(1) by (auto simp: queue_row_def)
    with e(2) show ?thesis by blast
  next
    case 2
    then show ?thesis by (intro exI [of _ undefined] exI [of _ "[]"]) simp
  qed
qed


section \<open>Properties\<close>

text \<open>C9: every step of the running service (a request, a pass of any component that was started, a restart)
  moves every order by a transition of its life cycle or leaves it alone, and keeps the invariant of the
  tables; no order disappears or changes its Shopify id or its time of creation.\<close>

theorem service_step_moves:
  assumes "service_step c pg sql_up w w'" "db_inv (w_db w)"
  shows "db_inv (w_db w') \<and> (\<forall>j. order_move (queue_of (w_db w) j) (queue_of (w_db w') j)) \<and>
    order_keys (w_db w) \<subseteq> order_keys (w_db w')"
proof -
  have s: "order_moves w w'" "db_steps pg (w_db w) (w_db w')" using step_effect [OF assms] by auto
  from s(1) db_steps_inv [OF s(2) assms(2)] db_steps_keys [OF s(2)] show ?thesis by (simp add: order_moves_def)
qed

text \<open>A restart of the world with one staged order.\<close>

theorem service_step_moves_witness:
  "db_inv (w_db (boot_reset demo_world)) \<and> order_move (Some (OrderStatusPending, 0, [], [])) (queue_of (w_db (boot_reset demo_world)) 1)"
  using service_step_moves [OF restart [OF refl, where c = undefined and pg = plain_pg and sql_up = True] demo_inv] demo_queue
  by metis


text \<open>C10: what holds of every order in every state the service reaches from empty tables: attempts are
  never negative, only a submitted or fulfilled order has a SYSPRO number, a fulfilled one has one, such an
  order records at least one attempt and no error, a dead-lettered one records the maximum of attempts,
  and no order is ever cancelled by the service.\<close>

theorem reachable_orders:
  assumes "(service_step c pg sql_up)\<^sup>*\<^sup>* w w'" "w_db w = empty_db" "queue_of (w_db w') j = Some (s, a, n, e)"
  shows "0 \<le> a \<and> (n \<noteq> [] \<longrightarrow> s = OrderStatusSubmitted \<or> s = OrderStatusFulfilled) \<and>
    (s = OrderStatusFulfilled \<longrightarrow> n \<noteq> []) \<and>
    (s = OrderStatusSubmitted \<or> s = OrderStatusFulfilled \<longrightarrow> 1 \<le> a \<and> e = []) \<and>
    (s = OrderStatusDeadLetter \<longrightarrow> maxAttempts \<le> a) \<and> s \<noteq> OrderStatusCancelled"
proof -
  let ?P = "\<lambda>q. case q of None \<Rightarrow> True | Some (s, a, n, e) \<Rightarrow>
    0 \<le> a \<and> (n \<noteq> [] \<longrightarrow> s = OrderStatusSubmitted \<or> s = OrderStatusFulfilled) \<and>
    (s = OrderStatusFulfilled \<longrightarrow> n \<noteq> []) \<and>
    (s = OrderStatusSubmitted \<or> s = OrderStatusFulfilled \<longrightarrow> 1 \<le> a \<and> e = []) \<and>
    (s = OrderStatusDeadLetter \<longrightarrow> maxAttempts \<le> a) \<and> s \<noteq> OrderStatusCancelled"
  have "?P (queue_of (w_db w') j)"
  proof (rule steps_keep [where P = ?P, OF assms(1)])
    show "db_inv (w_db w)" by (simp add: assms(2) db_inv_empty)
    show "?P (queue_of (w_db w) j)" by (simp add: assms(2) queue_of_def row_of_def empty_db_def)
  next
    fix q q'
    assume "order_move q q'" "?P q"
    then show "?P q'" by (induction rule: order_move.induct) (auto simp: retryable_def)
  qed
  then show ?thesis by (simp add: assms(3))
qed

text \<open>C8: only three kinds of request change the tables, send anything or trigger a stock sync: a signed
  \<open>orders/create\<close> delivery, a signed \<open>orders/cancelled\<close> delivery, and an authorised retry.\<close>

theorem only_authorised_changes:
  assumes "serve c pg rq trig w = ((a, trig'), w')" "w_db w' \<noteq> w_db w \<or> w_sent w' \<noteq> w_sent w \<or> trig' \<noteq> trig"
  shows "hi_method rq = ''POST'' \<and>
    ((route_of (hi_method rq) (hi_path rq) = ROrderCreate \<or> route_of (hi_method rq) (hi_path rq) = ROrderCancelled) \<and>
       authentic (cf_ShopifyWebhookSecret c) (hi_request rq)
     \<or> (\<exists>i. route_of (hi_method rq) (hi_path rq) = RRetry i \<and> admin_ok c (hi_request rq)))"
proof -
  obtain a0 where d: "dispatch c pg rq trig w = ((a0, trig'), w')" using serve_dispatch [OF assms(1)] by blast
  show ?thesis
  proof (cases rule: dispatch_cases [OF d])
    case 1
    with assms(2) show ?thesis by (simp add: read_only_def)
  next
    case (2 res)
    have "w' = w \<and> trig' = trig" if "\<not> authentic (cf_ShopifyWebhookSecret c) (hi_request rq)"
      using oi.handle_unauthentic [OF that, of pg now "Some trig" w] 2(2,3) by simp
    with assms(2) have "authentic (cf_ShopifyWebhookSecret c) (hi_request rq)" by blast
    with 2(1) show ?thesis by (simp add: post_routes)
  next
    case (3 res)
    have "w' = w" if "\<not> authentic (cf_ShopifyWebhookSecret c) (hi_request rq)"
      using cancel_unauthentic [OF that, of "service_cancel_deps pg (enet_of c)" w] 3(2) by simp
    with assms(2) 3(3) have "authentic (cf_ShopifyWebhookSecret c) (hi_request rq)" by blast
    with 3(1) show ?thesis by (simp add: post_routes)
  next
    case (4 i j)
    then show ?thesis by (auto simp: post_routes)
  qed
qed


definition demo_config :: config where
  "demo_config = (config_of demo_env 900000000000 300000000000 1800000000000 0 0 1 6 0)
     \<lparr>cf_ShopifyWebhookSecret := ''secret''\<rparr>"

definition demo_post :: http_in where
  "demo_post = \<lparr>hi_method = ''POST'', hi_path = [''webhooks'', ''orders'', ''create''], hi_query = [],
     hi_request = demo_request\<rparr>"

lemma demo_serve: "\<exists>a w'. serve demo_config plain_pg demo_post False empty_world = ((a, True), w')"
proof -
  obtain w' where "handleOrderCreate (db_order_store plain_pg) ''secret'' now demo_request (Some False) empty_world =
      ((respond 200 ''status'' ''ok'', Some True), w')" using demo_delivery by blast
  then show ?thesis
    by (simp add: serve_def dispatch_def demo_post_def route_of_def post_only_def demo_config_def)
qed

theorem only_authorised_changes_witness: "authentic ''secret'' demo_request"
proof -
  obtain a w' where s: "serve demo_config plain_pg demo_post False empty_world = ((a, True), w')" using demo_serve by blast
  have "hi_request demo_post = demo_request" "cf_ShopifyWebhookSecret demo_config = ''secret''"
    "hi_method demo_post = ''POST''" "route_of ''POST'' (hi_path demo_post) = ROrderCreate"
    by (simp_all add: demo_post_def demo_config_def route_of_def post_only_def)
  then show ?thesis using only_authorised_changes [OF s] by auto
qed

text \<open>A world with one submitted order, from the one with a pending order.\<close>

definition submitted_world :: world where
  "submitted_world = demo_world\<lparr>w_db := snd (sql_submitted_update 1 ''SO1'' 1 zero_time (w_db demo_world))\<rparr>"

lemma submitted_inv: "db_inv (w_db submitted_world)"
  by (simp add: submitted_world_def sql_updates_inv demo_inv)

lemma submitted_queue: "queue_of (w_db submitted_world) 1 = Some (OrderStatusSubmitted, 1, ''SO1'', [])"
  by (simp add: submitted_world_def submitted_refines demo_queue)

lemma one_restart: "(service_step c pg up)\<^sup>*\<^sup>* w (boot_reset w)"
  by (rule r_into_rtranclp) (rule restart [OF refl])


theorem reachable_orders_witness:
  "\<exists>w' j s a n e. (service_step demo_config plain_pg True)\<^sup>*\<^sup>* empty_world w' \<and>
     queue_of (w_db w') j = Some (s, a, n, e) \<and> 0 \<le> a \<and> s \<noteq> OrderStatusCancelled"
proof -
  obtain w' where d: "handleOrderCreate (db_order_store plain_pg) ''secret'' now demo_request (Some False) empty_world =
      ((respond 200 ''status'' ''ok'', Some True), w')" using demo_delivery by blast
  have trig: "Some True \<noteq> Some False" by simp
  from oi.handle_cases [OF d] trig obtain p where "p \<in> staged_ids w'" by auto
  then obtain r where r: "r \<in> set (orders (w_db w'))" by (auto simp: staged_ids_def)
  then obtain s a n e where q: "queue_of (w_db w') (ord_ID r) = Some (s, a, n, e)"
    by (cases "row_of (w_db w') (ord_ID r)") (auto simp: queue_of_def queue_row_def row_of_None)
  have e: "w_db empty_world = empty_db" by (simp add: empty_world_def)
  obtain b where "serve demo_config plain_pg demo_post False empty_world = ((b, True), w')"
    using d by (auto simp: serve_def dispatch_def demo_post_def route_of_def post_only_def demo_config_def)
  then have steps: "(service_step demo_config plain_pg True)\<^sup>*\<^sup>* empty_world w'"
    by (blast intro: r_into_rtranclp request)
  from reachable_orders [OF steps e q] steps q show ?thesis by blast
qed

section \<open>Statements between statements\<close>

text \<open>
  A statement of any other component while a run of the batch is under way: what the handlers, the sweeper,
  an operator, the payments syncer and the fulfilment syncer (which updates only orders that were
  submitted) can do to the tables.
\<close>

inductive foreign_step :: "pgconv \<Rightarrow> db \<Rightarrow> db \<Rightarrow> bool" for pg where
  foreign_rollback: "seqs_le d t \<Longrightarrow> foreign_step pg d (rollback d t)"
| foreign_create: "fresh_for ev ord d \<Longrightarrow> foreign_step pg d (created_db pg t ev ord ls d)"
| foreign_retry: "foreign_step pg d (snd (sql_retry i t d))"
| foreign_fulfilled: "queue_of d i = Some (s, q) \<Longrightarrow> s = OrderStatusSubmitted \<or> s = OrderStatusFulfilled \<Longrightarrow>
    foreign_step pg d (snd (sql_fulfilled_update i fid t d))"
| foreign_cancellation: "foreign_step pg d (snd (sql_insert_cancellation pg c t d))"
| foreign_payment: "foreign_step pg d (snd (sql_insert_payment pg p t d))"
| foreign_posted: "foreign_step pg d (snd (sql_payment_posted i ref t d))"
| foreign_failed: "foreign_step pg d (snd (sql_payment_failed i err t d))"
| foreign_requeue: "foreign_step pg d (snd (sql_requeue_payment i t d))"

lemma foreign_db_step: "foreign_step pg d d' \<Longrightarrow> db_step pg d d'"
  by (induction rule: foreign_step.induct) (rule db_step.intros, assumption?)+

definition lines_of :: "db \<Rightarrow> int \<Rightarrow> order_line list" where
  "lines_of d j = filter (\<lambda>l. line_OrderID l = j) (order_lines d)"

lemma other_tables:
  "queue_of (rollback d d2) j = queue_of d j" "lines_of (rollback d d2) j = lines_of d j"
  "queue_of (snd (sql_insert_cancellation pg c t' d)) j = queue_of d j" "lines_of (snd (sql_insert_cancellation pg c t' d)) j = lines_of d j"
  "queue_of (snd (sql_insert_payment pg p t' d)) j = queue_of d j" "lines_of (snd (sql_insert_payment pg p t' d)) j = lines_of d j"
  "queue_of (snd (sql_payment_posted i ref t' d)) j = queue_of d j" "lines_of (snd (sql_payment_posted i ref t' d)) j = lines_of d j"
  "queue_of (snd (sql_payment_failed i err t' d)) j = queue_of d j" "lines_of (snd (sql_payment_failed i err t' d)) j = lines_of d j"
  "queue_of (snd (sql_requeue_payment i t' d)) j = queue_of d j" "lines_of (snd (sql_requeue_payment i t' d)) j = lines_of d j"
  by (simp_all add: queue_of_def row_of_def lines_of_def orders_only, simp_all add: lines_only sql_payment_posted_def
      sql_payment_failed_def sql_requeue_payment_def)

lemma lines_of_updates:
  "lines_of (snd (sql_retry i t d)) j = lines_of d j" "lines_of (snd (sql_fulfilled_update i fid t d)) j = lines_of d j"
  by (simp_all add: lines_of_def sql_retry_def sql_fulfilled_update_def lines_only)

lemma created_view:
  assumes "db_inv d" "fresh_for ev ord d" "queue_of d j = Some q"
  shows "queue_of (created_db pg t ev ord ls d) j = Some q \<and> lines_of (created_db pg t ev ord ls d) j = lines_of d j"
proof -
  have j: "j \<le> seq_order d"
    using assms(1,3) by (auto simp: queue_of_def row_of_def db_inv_defs ids_below_def dest: find_in_set)
  have "filter (\<lambda>l. line_OrderID l = j) (stored_lines pg (seq_order d + 1) (seq_line d) ls) = []"
    using j by (auto simp: filter_empty_conv dest: stored_lines_ids)
  moreover have "find P xs = Some r \<Longrightarrow> find P (xs @ ys) = Some r" for P and xs ys :: "order list" and r
    by (induction xs) auto
  ultimately show ?thesis
    using assms by (auto simp: queue_of_def row_of_def lines_of_def created_db_rows)
qed

lemma foreign_step_keeps:
  assumes "foreign_step pg d d'" "db_inv d" "queue_of d j = Some (OrderStatusProcessing, q)"
  shows "queue_of d' j = Some (OrderStatusProcessing, q) \<and> lines_of d' j = lines_of d j"
  using assms
proof (induction rule: foreign_step.induct)
  case (foreign_retry d i t)
  then show ?case
    by (cases q; cases "j = i") (simp_all add: retry_refines retryable_def lines_of_updates)
next
  case (foreign_fulfilled d i s q' fid t)
  then have "j \<noteq> i" by auto
  with foreign_fulfilled show ?case
    by (simp add: fulfilled_refines lines_of_updates)
next
  case (foreign_create ev ord d t ls)
  then show ?case using created_view by blast
qed (simp_all add: other_tables)

text \<open>C11: a claimed order belongs to the run that claimed it: whatever statements of the other components take
  effect in between, its entry and its lines stay as they are, a second claim of it fails, and the final
  update finds it and makes it submitted.\<close>

theorem claimed_order_is_exclusive:
  assumes "(foreign_step pg)\<^sup>*\<^sup>* d d'" "db_inv d" "queue_of d j = Some (OrderStatusProcessing, a, n, e)"
  shows "queue_of d' j = Some (OrderStatusProcessing, a, n, e) \<and>
    filter (\<lambda>l. line_OrderID l = j) (order_lines d') = filter (\<lambda>l. line_OrderID l = j) (order_lines d) \<and>
    fst (sql_mark_processing j t d') = 0 \<and>
    queue_of (snd (sql_submitted_update j num att t d')) j = Some (OrderStatusSubmitted, att, num, [])"
proof -
  have "db_inv d' \<and> queue_of d' j = Some (OrderStatusProcessing, a, n, e) \<and> lines_of d' j = lines_of d j"
    using assms(1)
  proof (induction rule: rtranclp_induct)
    case (step y z)
    then show ?case
      using foreign_step_keeps [OF step.hyps(2)] db_step_inv [OF foreign_db_step [OF step.hyps(2)]] by simp
  qed (simp add: assms(2,3))
  then show ?thesis by (simp add: mark_count submitted_refines lines_of_def)
qed

text \<open>An operator's retry between the claim and the final update.\<close>

theorem claimed_order_is_exclusive_witness:
  "queue_of (snd (sql_retry 1 zero_time (snd (sql_mark_processing 1 zero_time (w_db demo_world))))) 1 =
     Some (OrderStatusProcessing, 0, [], [])"
proof -
  let ?d = "snd (sql_mark_processing 1 zero_time (w_db demo_world))"
  have "db_inv ?d" "queue_of ?d 1 = Some (OrderStatusProcessing, 0, [], [])"
    by (simp_all add: sql_updates_inv demo_inv mark_refines demo_queue)
  moreover have "(foreign_step plain_pg)\<^sup>*\<^sup>* ?d (snd (sql_retry 1 zero_time ?d))"
    by (rule r_into_rtranclp) (rule foreign_retry)
  ultimately show ?thesis using claimed_order_is_exclusive by blast
qed

end
