(* ===== verification/Resubmit.thy ===== *)
theory Resubmit
  imports GoScan Config Enet Store
begin

text \<open>
  \<open>cmd/resubmit-order\<close>: an operator's tool that posts one stored order to SYSPRO again, for orders that were
  marked submitted without a SYSPRO number. What it prints and its overall timeout are not modelled; leaving
  through \<open>os.Exit\<close> (a missing variable) is an error like the others.
\<close>

record resubmit_opts =
  ro_orderID :: int
  ro_validateOnly :: bool
  ro_yes :: bool
  ro_answer :: string \<comment> \<open>the line the operator types at the prompt\<close>

definition require_env :: "env \<Rightarrow> string \<Rightarrow> string res" where
  "require_env env key =
     (if env key = [] then Inl (Errorf (''missing required env var '' @ key)) else Inr (env key))"

section \<open>Its own parsing and requests\<close>

definition resubmit_pair :: "string \<Rightarrow> (float64 \<times> string) list \<Rightarrow> (float64 \<times> string) list" where
  "resubmit_pair pr m =
     (case Split (CHR '':'') (TrimSpace pr) of
        [a, b] \<Rightarrow> (case Sscanf_f a of None \<Rightarrow> m | Some r \<Rightarrow> fmap_put r (TrimSpace b) m)
      | _ \<Rightarrow> m)"

definition resubmit_tax_map :: "string \<Rightarrow> tax_map" where
  "resubmit_tax_map s =
     (if s = [] then None else Some (foldl (\<lambda>m pr. resubmit_pair pr m) [] (Split (CHR '','') s)))"

text \<open>\<open>doGet\<close>; unlike the client's \<open>get\<close> it reads the whole body.\<close>

definition tool_get :: "string \<Rightarrow> string \<Rightarrow> (string \<times> string) list \<Rightarrow> world \<Rightarrow> string res \<times> world" where
  "tool_get base path params w =
     (case http_do \<lparr>rq_method = ''GET'', rq_url = base @ path, rq_query = params, rq_headers = [], rq_body = []\<rparr> w of
        (TransportErr m, w') \<Rightarrow> (Inl (Errorf m), w')
      | (ReadErr m, w') \<Rightarrow> (Inl (Errorf m), w')
      | (Resp st _ body, w') \<Rightarrow>
          (if st < 200 \<or> 300 \<le> st then Inl (Errorf (''HTTP '' @ Itoa st @ '': '' @ TrimSpace body)) else Inr body, w'))"

definition tool_logon :: "env \<Rightarrow> string \<Rightarrow> world \<Rightarrow> string res \<times> world" where
  "tool_logon env base w =
     (case require_env env ''SYSPRO_OPERATOR'' of
        Inl e \<Rightarrow> (Inl e, w)
      | Inr op \<Rightarrow>
     (case require_env env ''SYSPRO_COMPANY_ID'' of
        Inl e \<Rightarrow> (Inl e, w)
      | Inr company \<Rightarrow>
     (case tool_get base ''/Logon''
             [(''Operator'', op), (''OperatorPassword'', env ''SYSPRO_PASSWORD''), (''CompanyId'', company),
              (''CompanyPassword'', env ''SYSPRO_COMPANY_PASSWORD'')] w of
        (Inl e, w1) \<Rightarrow> (Inl e, w1)
      | (Inr body, w1) \<Rightarrow>
          let guid = json_or_raw body
          in (if HasPrefix guid ''ERROR'' then Inl (Errorf (''logon rejected: '' @ guid))
              else if guid = [] then Inl (Errorf ''logon returned empty GUID'')
              else Inr guid, w1))))"

definition tool_logoff :: "string \<Rightarrow> string \<Rightarrow> world \<Rightarrow> world" where
  "tool_logoff base guid w = snd (tool_get base ''/Logoff'' [(''UserId'', guid)] w)"

definition tool_transact :: "string \<Rightarrow> string \<Rightarrow> string \<Rightarrow> string \<Rightarrow> world \<Rightarrow> string res \<times> world" where
  "tool_transact base guid ps ds w =
     (case tool_get base ''/Transaction/Post'' (transaction_params guid ''SORTOI'' ps ds) w of
        (Inl e, w1) \<Rightarrow> (Inl e, w1)
      | (Inr body, w1) \<Rightarrow> (Inr (TrimSpace (json_or_raw body)), w1))"

section \<open>The order\<close>

definition load_order :: "int \<Rightarrow> world \<Rightarrow> order_with_lines res \<times> world" where
  "load_order i w =
     (case db_call (\<lambda>_ d. (find (\<lambda>r. ord_ID r = i) (orders d), d)) w of
        (Inl e, w1) \<Rightarrow> (Inl (wrap_err (''SELECT orders.id='' @ Itoa i) e), w1)
      | (Inr None, w1) \<Rightarrow> (Inl (wrap_err (''SELECT orders.id='' @ Itoa i) (Errorf ''no rows in result set'')), w1)
      | (Inr (Some r), w1) \<Rightarrow>
          (case db_call (\<lambda>_ d. (sort_key line_ID (filter (\<lambda>l. line_OrderID l = ord_ID r) (order_lines d)), d)) w1 of
             (Inl e, w2) \<Rightarrow> (Inl (wrap_err ''SELECT order_lines'' e), w2)
           | (Inr ls, w2) \<Rightarrow> (Inr \<lparr>ow_Order = scan_order (w_local w) r, ow_Lines = ls\<rparr>, w2)))"

definition sql_resubmitted :: "int \<Rightarrow> string \<Rightarrow> gtime \<Rightarrow> db \<Rightarrow> nat \<times> db" where
  "sql_resubmitted i num t d =
     upd_orders (\<lambda>r. ord_ID r = i \<and> Status r = OrderStatusSubmitted \<and> SysproOrderNumber r = [])
       (\<lambda>r. r\<lparr>SysproOrderNumber := num, Status := OrderStatusSubmitted, Attempts := Attempts r + 1,
              LastError := [], UpdatedAt := pg_time t\<rparr>) d"

section \<open>The run\<close>

definition replace_first :: "string \<Rightarrow> string \<Rightarrow> string \<Rightarrow> string" where
  "replace_first old new s =
     (case Index s old of None \<Rightarrow> s | Some i \<Rightarrow> take i s @ new @ drop (i + length old) s)"

definition confirmed :: "resubmit_opts \<Rightarrow> bool" where
  "confirmed op \<longleftrightarrow> ro_yes op \<or> TrimSpace (ToLower (ro_answer op)) = ''y''"

text \<open>From the answer of SYSPRO on; the session is closed afterwards whatever happens.\<close>

definition record_answer :: "resubmit_opts \<Rightarrow> int \<Rightarrow> string \<Rightarrow> world \<Rightarrow> unit res \<times> world" where
  "record_answer op i raw w =
     (case xml_unmarshal ''SalesOrders'' (strip_decl raw) of
        None \<Rightarrow> (Inl (wrap_err ''parse response XML'' xml_error), w)
      | Some cs \<Rightarrow>
          let num = xpath [''Order'', ''SalesOrder''] cs in
          if ro_validateOnly op then (Inr (), w)
          else if num = []
            then (Inl (Errorf (''SYSPRO response had no <SalesOrder>NNNNNN</SalesOrder> '' @
                    [CHR 0xE2, CHR 0x80, CHR 0x94] @ '' refusing to touch the DB'')), w)
          else if \<not> confirmed op then (Inr (), w)
          else (case db_call (sql_resubmitted i num) w of
                  (Inl e, w1) \<Rightarrow> (Inl (wrap_err ''UPDATE orders'' e), w1)
                | (Inr n, w1) \<Rightarrow>
                    (if n \<noteq> 1 then Inl (Errorf (''expected 1 row updated, got '' @ Itoa (int n) @ '' '' @
                             [CHR 0xE2, CHR 0x80, CHR 0x94] @ '' someone else may have touched the row''))
                     else Inr (), w1)))"

definition resubmit_documents :: "env \<Rightarrow> resubmit_opts \<Rightarrow> string \<Rightarrow> order_with_lines \<Rightarrow> string \<times> string" where
  "resubmit_documents env op warehouse ow =
     (let (ps, ds) = buildSORTOI (ow_Order ow) (ow_Lines ow) warehouse
            (or_default (env ''SYSPRO_ALLOCATION_ACTION'') ''A'') (resubmit_tax_map (env ''SYSPRO_TAX_CODE_MAP''))
      in (if ro_validateOnly op
          then replace_first ''<ValidateOnly>N</ValidateOnly>'' ''<ValidateOnly>Y</ValidateOnly>'' ps else ps, ds))"

definition post_again :: "env \<Rightarrow> resubmit_opts \<Rightarrow> string \<Rightarrow> string \<Rightarrow> order_with_lines \<Rightarrow> world \<Rightarrow> unit res \<times> world" where
  "post_again env op warehouse url ow w =
     (let base = TrimRight (CHR ''/'') url; (ps, ds) = resubmit_documents env op warehouse ow
      in case tool_logon env base w of
           (Inl e, w1) \<Rightarrow> (Inl (wrap_err ''logon'' e), w1)
         | (Inr guid, w1) \<Rightarrow>
             (case tool_transact base guid ps ds w1 of
                (Inl e, w2) \<Rightarrow> (Inl (wrap_err ''transaction'' e), tool_logoff base guid w2)
              | (Inr raw, w2) \<Rightarrow>
                  (case record_answer op (ord_ID (ow_Order ow)) raw w2 of
                     (r, w3) \<Rightarrow> (r, tool_logoff base guid w3))))"

definition resubmit :: "env \<Rightarrow> resubmit_opts \<Rightarrow> world \<Rightarrow> unit res \<times> world" where
  "resubmit env op w =
     (if ro_orderID op = 0 then (Inl (Errorf ''--order-id is required''), w)
      else case require_env env ''DATABASE_URL'' of
        Inl e \<Rightarrow> (Inl e, w)
      | Inr _ \<Rightarrow>
     (case load_order (ro_orderID op) w of
        (Inl e, w1) \<Rightarrow> (Inl e, w1)
      | (Inr ow, w1) \<Rightarrow>
          if Status (ow_Order ow) \<noteq> OrderStatusSubmitted \<or> SysproOrderNumber (ow_Order ow) \<noteq> []
          then (Inl (Errorf (''refusing to resubmit: orders.id='' @ Itoa (ord_ID (ow_Order ow)) @ '' is status='' @
                  go_quote (status_str (Status (ow_Order ow))) @ '' syspro_order_number='' @
                  go_quote (SysproOrderNumber (ow_Order ow)) @
                  '', expected status=submitted with empty syspro_order_number'')), w1)
          else case require_env env ''SYSPRO_WAREHOUSE'' of
                 Inl e \<Rightarrow> (Inl e, w1)
               | Inr warehouse \<Rightarrow>
                   (case require_env env ''SYSPRO_ENET_URL'' of
                      Inl e \<Rightarrow> (Inl e, w1)
                    | Inr url \<Rightarrow> post_again env op warehouse url ow w1)))"

end
