(* ===== verification/ResubmitProps.thy ===== *)
theory ResubmitProps
  imports Resubmit BatchProps
begin

text \<open>
  What the resubmission tool can do: it posts at most once, only an order that was marked submitted without a
  number, and records nothing but the number SYSPRO answered with, after confirmation.
\<close>

section \<open>Its requests\<close>

lemma tool_get_spec:
  assumes "tool_get base path ps w = (r, w')"
  shows "w_db w' = w_db w" "w_http w' = tl (w_http w)"
    "w_sent w' = w_sent w @ [\<lparr>rq_method = ''GET'', rq_url = base @ path, rq_query = ps, rq_headers = [], rq_body = []\<rparr>]"
    "r = Inr body \<Longrightarrow> \<exists>st l dt hs. w_http w = (Resp st l body, dt) # hs"
proof -
  let ?rq = "\<lparr>rq_method = ''GET'', rq_url = base @ path, rq_query = ps, rq_headers = [], rq_body = []\<rparr>"
  obtain oc w1 where h: "http_do ?rq w = (oc, w1)" by (rule prod.exhaust)
  note f = http_do_frame [of ?rq w, unfolded h] http_do_script [of ?rq w, unfolded h]
  have w1: "w' = w1" using assms by (cases oc) (auto simp: tool_get_def h)
  show "w_db w' = w_db w" "w_http w' = tl (w_http w)" "w_sent w' = w_sent w @ [?rq]" using f by (simp_all add: w1)
  assume "r = Inr body"
  then have "\<exists>st l. oc = Resp st l body" using assms by (cases oc) (auto simp: tool_get_def h split: if_splits)
  then show "\<exists>st l dt hs. w_http w = (Resp st l body, dt) # hs"
    using h by (auto simp: http_do_def Let_def split: list.splits)
qed

text \<open>Requests that are no postings.\<close>

definition apart :: "world \<Rightarrow> world \<Rightarrow> bool" where
  "apart w w' \<longleftrightarrow> w_db w' = w_db w \<and> sortois w' = sortois w"

lemma apart_trans: "apart a b \<Longrightarrow> apart b c \<Longrightarrow> apart a c"
  by (simp add: apart_def)

lemma tool_get_apart:
  assumes "tool_get base path ps w = (r, w')" "(''BusinessObject'', ''SORTOI'') \<notin> set ps"
  shows "apart w w'"
  using tool_get_spec(1,3) [OF assms(1)] assms(2) by (simp add: apart_def sortois_def is_sortoi_def)

lemma tool_logon_spec:
  assumes "tool_logon env base w = (r, w')"
  shows "apart w w' \<and> (is_ok r \<longrightarrow> w_http w' = tl (w_http w))"
proof (cases "env ''SYSPRO_OPERATOR'' = [] \<or> env ''SYSPRO_COMPANY_ID'' = []")
  case True
  then show ?thesis using assms by (auto simp: tool_logon_def require_env_def apart_def split: if_splits)
next
  case False
  let ?ps = "[(''Operator'', env ''SYSPRO_OPERATOR''), (''OperatorPassword'', env ''SYSPRO_PASSWORD''),
    (''CompanyId'', env ''SYSPRO_COMPANY_ID''), (''CompanyPassword'', env ''SYSPRO_COMPANY_PASSWORD'')]"
  obtain x w1 where g: "tool_get base ''/Logon'' ?ps w = (x, w1)" by (rule prod.exhaust)
  have "w' = w1" using assms False by (cases x) (auto simp: tool_logon_def require_env_def g Let_def)
  with tool_get_apart [OF g] tool_get_spec(2) [OF g] show ?thesis by simp
qed

lemma tool_logoff_apart: "apart w (tool_logoff base guid w)"
proof -
  obtain r w1 where g: "tool_get base ''/Logoff'' [(''UserId'', guid)] w = (r, w1)" by (rule prod.exhaust)
  from tool_get_apart [OF g] show ?thesis by (simp add: tool_logoff_def g)
qed

lemma tool_transact_spec:
  assumes "tool_transact base guid ps ds w = (r, w')"
  shows "w_db w' = w_db w" "sortois w' = sortois w @ [\<lparr>rq_method = ''GET'', rq_url = base @ ''/Transaction/Post'',
      rq_query = transaction_params guid ''SORTOI'' ps ds, rq_headers = [], rq_body = []\<rparr>]"
    "r = Inr raw \<Longrightarrow> \<exists>st l body dt hs. w_http w = (Resp st l body, dt) # hs \<and> raw = TrimSpace (json_or_raw body)"
proof -
  obtain x w1 where g: "tool_get base ''/Transaction/Post'' (transaction_params guid ''SORTOI'' ps ds) w = (x, w1)"
    by (rule prod.exhaust)
  have w1: "w' = w1" using assms by (cases x) (auto simp: tool_transact_def g)
  show "w_db w' = w_db w" using tool_get_spec(1) [OF g] w1 by simp
  show "sortois w' = sortois w @ [\<lparr>rq_method = ''GET'', rq_url = base @ ''/Transaction/Post'',
      rq_query = transaction_params guid ''SORTOI'' ps ds, rq_headers = [], rq_body = []\<rparr>]"
    using tool_get_spec(3) [OF g] w1 by (simp add: sortois_def is_sortoi_def transaction_params_def)
  assume "r = Inr raw"
  then obtain body where "x = Inr body" "raw = TrimSpace (json_or_raw body)"
    using assms by (cases x) (auto simp: tool_transact_def g)
  then show "\<exists>st l body dt hs. w_http w = (Resp st l body, dt) # hs \<and> raw = TrimSpace (json_or_raw body)"
    using tool_get_spec(4) [OF g] by blast
qed

section \<open>Its reads and its one update\<close>

lemma load_order_spec:
  assumes "load_order i w = (r, w')"
  shows "apart w w'" "w_http w' = w_http w"
    "r = Inr ow \<Longrightarrow> \<exists>x. row_of (w_db w) i = Some x \<and> ow_Order ow = scan_order (w_local w) x"
proof -
  let ?find = "\<lambda>(_ :: gtime) d. (find (\<lambda>r. ord_ID r = i) (orders d), d)"
  obtain x w1 where g: "db_call ?find w = (x, w1)" by (rule prod.exhaust)
  have w1: "w_db w1 = w_db w" "w_sent w1 = w_sent w" "w_http w1 = w_http w"
    using db_call_read [of ?find w] db_call_frame [of ?find w] by (simp_all add: g)
  have x: "x = Inr q \<Longrightarrow> q = row_of (w_db w) i" for q
    by (cases rule: db_call_cases [of ?find w]) (auto simp: g row_of_def)
  let ?lines = "\<lambda>(q :: order) (_ :: gtime) d. (sort_key line_ID (filter (\<lambda>l. line_OrderID l = ord_ID q) (order_lines d)), d)"
  have l: "w_db (snd (db_call (?lines q) w1)) = w_db w" "w_sent (snd (db_call (?lines q) w1)) = w_sent w"
    "w_http (snd (db_call (?lines q) w1)) = w_http w" for q
    using db_call_read [of "?lines q" w1] db_call_frame [of "?lines q" w1] w1 by simp_all
  have "w' = w1 \<or> (\<exists>q. w' = snd (db_call (?lines q) w1))"
  proof (cases "\<exists>q. x = Inr (Some q)")
    case True
    then obtain q where q: "x = Inr (Some q)" by blast
    obtain y w2 where y: "db_call (?lines q) w1 = (y, w2)" by (rule prod.exhaust)
    have "w' = w2" using assms by (cases y) (auto simp: load_order_def g q y)
    then show ?thesis using y by (intro disjI2 exI [of _ q]) simp
  next
    case False
    then have "x = Inr None \<or> (\<exists>e. x = Inl e)" by (cases x) (metis, metis option.exhaust)
    then show ?thesis using assms by (auto simp: load_order_def g)
  qed
  then show "apart w w'" "w_http w' = w_http w" using w1 l by (auto simp: apart_def sortois_def)
  assume "r = Inr ow"
  then obtain q where "x = Inr (Some q)" "ow_Order ow = scan_order (w_local w) q"
    using assms by (auto simp: load_order_def g split: sum.splits option.splits prod.splits)
  moreover from this have "row_of (w_db w) i = Some q" using x by metis
  ultimately show "\<exists>x. row_of (w_db w) i = Some x \<and> ow_Order ow = scan_order (w_local w) x" by blast
qed

fun q_resubmitted :: "string \<Rightarrow> queue_row \<Rightarrow> queue_row" where
  "q_resubmitted num (s, a, n, e) =
     (if s = OrderStatusSubmitted \<and> n = [] then (OrderStatusSubmitted, a + 1, num, []) else (s, a, n, e))"

lemma resubmitted_refines:
  "queue_of (snd (sql_resubmitted i num t d)) = v_update i (q_resubmitted num) (queue_of d)"
  unfolding sql_resubmitted_def
  by (rule queue_of_upd) (auto simp: keeps_order_def queue_row_def)

text \<open>What recording an answer can do.\<close>

definition recorded :: "resubmit_opts \<Rightarrow> int \<Rightarrow> string \<Rightarrow> db \<Rightarrow> db \<Rightarrow> bool" where
  "recorded op i raw d d' \<longleftrightarrow> d' = d \<or>
     (\<not> ro_validateOnly op \<and> confirmed op \<and> (\<exists>cs t. xml_unmarshal ''SalesOrders'' (strip_decl raw) = Some cs \<and>
        xpath [''Order'', ''SalesOrder''] cs \<noteq> [] \<and> d' = snd (sql_resubmitted i (xpath [''Order'', ''SalesOrder''] cs) t d)))"

lemma record_answer_spec:
  assumes "record_answer op i raw w = (r, w')"
  shows "recorded op i raw (w_db w) (w_db w') \<and> sortois w' = sortois w"
proof (cases "xml_unmarshal ''SalesOrders'' (strip_decl raw)")
  case None
  with assms show ?thesis by (auto simp: record_answer_def recorded_def)
next
  case (Some cs)
  let ?num = "xpath [''Order'', ''SalesOrder''] cs"
  show ?thesis
  proof (cases "\<not> ro_validateOnly op \<and> confirmed op \<and> ?num \<noteq> []")
    case False
    with assms Some show ?thesis by (auto simp: record_answer_def recorded_def Let_def split: if_splits)
  next
    case True
    let ?u = "db_call (sql_resubmitted i ?num) w"
    have w': "w' = snd ?u" using assms Some True by (auto simp: record_answer_def Let_def split: prod.splits sum.splits)
    have "w_db w' = w_db w \<or> (\<exists>t. w_db w' = snd (sql_resubmitted i ?num t (w_db w)))"
      unfolding w' by (rule db_call_cases [of "sql_resubmitted i ?num" w]) auto
    then show ?thesis using Some True by (auto simp: recorded_def w' sortois_def db_call_frame)
  qed
qed


section \<open>The run\<close>

lemma post_again_spec:
  assumes "post_again env op wh url ow w = (r, w')"
  shows "\<exists>posts. sortois w' = sortois w @ posts \<and> length posts \<le> 1 \<and>
      (\<forall>rq\<in>set posts. \<exists>guid. rq_query rq = transaction_params guid ''SORTOI''
         (fst (resubmit_documents env op wh ow)) (snd (resubmit_documents env op wh ow)))"
    "w_db w' = w_db w \<or> (\<exists>st l body dt. 1 < length (w_http w) \<and> w_http w ! 1 = (Resp st l body, dt) \<and>
       recorded op (ord_ID (ow_Order ow)) (TrimSpace (json_or_raw body)) (w_db w) (w_db w'))"
proof -
  let ?base = "TrimRight (CHR ''/'') url"
  obtain ps ds where pd: "resubmit_documents env op wh ow = (ps, ds)" by (rule prod.exhaust)
  obtain x w1 where lg: "tool_logon env ?base w = (x, w1)" by (rule prod.exhaust)
  note ls = tool_logon_spec [OF lg]
  let ?S = "(\<exists>posts. sortois w' = sortois w @ posts \<and> length posts \<le> 1 \<and>
      (\<forall>rq\<in>set posts. \<exists>guid. rq_query rq = transaction_params guid ''SORTOI'' ps ds)) \<and>
    (w_db w' = w_db w \<or> (\<exists>st l body dt. 1 < length (w_http w) \<and> w_http w ! 1 = (Resp st l body, dt) \<and>
       recorded op (ord_ID (ow_Order ow)) (TrimSpace (json_or_raw body)) (w_db w) (w_db w')))"
  have ?S
  proof (cases x)
    case (Inl e)
    then have "w' = w1" using assms by (simp add: post_again_def pd lg)
    with ls show ?thesis by (simp add: apart_def)
  next
    case (Inr guid)
    obtain y w2 where tr: "tool_transact ?base guid ps ds w1 = (y, w2)" by (rule prod.exhaust)
    note ts = tool_transact_spec [OF tr]
    show ?thesis
    proof (cases y)
      case (Inl e)
      then have "w' = tool_logoff ?base guid w2" using assms by (simp add: post_again_def pd lg Inr tr)
      with tool_logoff_apart [of w2 ?base guid] ts(1,2) ls show ?thesis by (auto simp: apart_def)
    next
      case raw: (Inr raw)
      obtain z w3 where rc: "record_answer op (ord_ID (ow_Order ow)) raw w2 = (z, w3)" by (rule prod.exhaust)
      have w': "w' = tool_logoff ?base guid w3" using assms by (simp add: post_again_def pd lg Inr tr raw rc)
      note rs = record_answer_spec [OF rc] and lo = tool_logoff_apart [of w3 ?base guid]
      from ts(3) [OF raw] obtain st l body dt hs where h: "w_http w1 = (Resp st l body, dt) # hs"
        "raw = TrimSpace (json_or_raw body)" by blast
      have "1 < length (w_http w) \<and> w_http w ! 1 = (Resp st l body, dt)"
        using ls h(1) Inr by (cases "w_http w") auto
      moreover have "recorded op (ord_ID (ow_Order ow)) raw (w_db w) (w_db w')"
        using rs lo ts(1) ls by (simp add: apart_def w')
      ultimately show ?thesis using rs lo ts(2) ls h(2) by (auto simp: apart_def w')
    qed
  qed
  then show "\<exists>posts. sortois w' = sortois w @ posts \<and> length posts \<le> 1 \<and>
      (\<forall>rq\<in>set posts. \<exists>guid. rq_query rq = transaction_params guid ''SORTOI''
         (fst (resubmit_documents env op wh ow)) (snd (resubmit_documents env op wh ow)))"
    "w_db w' = w_db w \<or> (\<exists>st l body dt. 1 < length (w_http w) \<and> w_http w ! 1 = (Resp st l body, dt) \<and>
       recorded op (ord_ID (ow_Order ow)) (TrimSpace (json_or_raw body)) (w_db w) (w_db w'))"
    by (simp_all add: pd)
qed

lemma row_of_id: "row_of d i = Some x \<Longrightarrow> ord_ID x = i"
  by (auto simp: row_of_def dest: find_in_set)

lemma resubmit_cases:
  assumes "resubmit env op w = (r, w')"
  obtains (refused) "apart w w'"
  | (posted) ow x w1 wh url where "apart w w1" "w_http w1 = w_http w" "row_of (w_db w) (ro_orderID op) = Some x"
      "ow_Order ow = scan_order (w_local w) x" "Status x = OrderStatusSubmitted" "SysproOrderNumber x = []"
      "post_again env op wh url ow w1 = (r, w')"
proof (cases "ro_orderID op = 0 \<or> env ''DATABASE_URL'' = []")
  case True
  then show ?thesis using assms by (auto simp: resubmit_def require_env_def apart_def split: if_splits intro: refused)
next
  case False
  obtain x w1 where l: "load_order (ro_orderID op) w = (x, w1)" by (rule prod.exhaust)
  note ls = load_order_spec [OF l]
  show ?thesis
  proof (cases x)
    case (Inl e)
    then have "w' = w1" using assms False by (simp add: resubmit_def require_env_def l)
    with ls(1) show ?thesis by (auto intro: refused)
  next
    case (Inr ow)
    from ls(3) [OF Inr] obtain q where q: "row_of (w_db w) (ro_orderID op) = Some q" "ow_Order ow = scan_order (w_local w) q"
      by blast
    show ?thesis
    proof (cases "Status q \<noteq> OrderStatusSubmitted \<or> SysproOrderNumber q \<noteq> [] \<or> env ''SYSPRO_WAREHOUSE'' = [] \<or>
        env ''SYSPRO_ENET_URL'' = []")
      case True
      then have "w' = w1" using assms False q(2)
        by (auto simp: resubmit_def require_env_def l Inr scan_order_def at_zone_def split: if_splits)
      with ls(1) show ?thesis by (auto intro: refused)
    next
      case ok: False
      then have "post_again env op (env ''SYSPRO_WAREHOUSE'') (env ''SYSPRO_ENET_URL'') ow w1 = (r, w')"
        using assms False q(2) by (simp add: resubmit_def require_env_def l Inr scan_order_def)
      with ok ls(1,2) q show ?thesis by (intro posted) auto
    qed
  qed
qed

text \<open>C22: the resubmission tool posts at most one SORTOI, and only for an order that was submitted without a SYSPRO
  number; it changes at most that order's entry, never under \<open>--validate-only\<close> and only when confirmed, to
  the non-empty number in SYSPRO's answer to that posting, with one more attempt.\<close>

theorem resubmit_order_safe:
  assumes "resubmit env op w = (r, w')"
  shows "(\<exists>posts. sortois w' = sortois w @ posts \<and> length posts \<le> 1 \<and>
      (posts \<noteq> [] \<longrightarrow> (\<exists>a e. queue_of (w_db w) (ro_orderID op) = Some (OrderStatusSubmitted, a, [], e))))
    \<and> (w_db w' \<noteq> w_db w \<longrightarrow> \<not> ro_validateOnly op \<and> confirmed op \<and>
        (\<exists>a e st l body dt cs. queue_of (w_db w) (ro_orderID op) = Some (OrderStatusSubmitted, a, [], e) \<and>
          w_http w ! 1 = (Resp st l body, dt) \<and>
          xml_unmarshal ''SalesOrders'' (strip_decl (TrimSpace (json_or_raw body))) = Some cs \<and>
          xpath [''Order'', ''SalesOrder''] cs \<noteq> [] \<and>
          queue_of (w_db w') = (queue_of (w_db w))(ro_orderID op \<mapsto>
            (OrderStatusSubmitted, a + 1, xpath [''Order'', ''SalesOrder''] cs, []))))"
proof (cases rule: resubmit_cases [OF assms])
  case 1
  then show ?thesis by (simp add: apart_def)
next
  case (2 ow x w1 wh url)
  note p = post_again_spec [OF 2(7)]
  have q: "queue_of (w_db w) (ro_orderID op) = Some (OrderStatusSubmitted, Attempts x, [], LastError x)"
    using 2(3,5,6) by (simp add: queue_of_def queue_row_def)
  have id: "ord_ID (ow_Order ow) = ro_orderID op" using row_of_id [OF 2(3)] 2(4) by (simp add: scan_order_def)
  have same: "w_db w1 = w_db w" "sortois w1 = sortois w" using 2(1) by (simp_all add: apart_def)
  show ?thesis
  proof (intro conjI impI)
    show "\<exists>posts. sortois w' = sortois w @ posts \<and> length posts \<le> 1 \<and>
      (posts \<noteq> [] \<longrightarrow> (\<exists>a e. queue_of (w_db w) (ro_orderID op) = Some (OrderStatusSubmitted, a, [], e)))"
      using p(1) q by (auto simp: same)
    assume "w_db w' \<noteq> w_db w"
    with p(2) obtain st l body dt cs t where b: "w_http w ! 1 = (Resp st l body, dt)" "\<not> ro_validateOnly op" "confirmed op"
        "xml_unmarshal ''SalesOrders'' (strip_decl (TrimSpace (json_or_raw body))) = Some cs"
        "xpath [''Order'', ''SalesOrder''] cs \<noteq> []"
        "w_db w' = snd (sql_resubmitted (ro_orderID op) (xpath [''Order'', ''SalesOrder''] cs) t (w_db w))"
      unfolding same 2(2) id recorded_def by blast
    have "queue_of (w_db w') = (queue_of (w_db w))(ro_orderID op \<mapsto>
        (OrderStatusSubmitted, Attempts x + 1, xpath [''Order'', ''SalesOrder''] cs, []))"
      by (simp add: b(6) resubmitted_refines v_update_def q)
    with b q show "\<exists>a e st l body dt cs. queue_of (w_db w) (ro_orderID op) = Some (OrderStatusSubmitted, a, [], e) \<and>
          w_http w ! 1 = (Resp st l body, dt) \<and>
          xml_unmarshal ''SalesOrders'' (strip_decl (TrimSpace (json_or_raw body))) = Some cs \<and>
          xpath [''Order'', ''SalesOrder''] cs \<noteq> [] \<and>
          queue_of (w_db w') = (queue_of (w_db w))(ro_orderID op \<mapsto>
            (OrderStatusSubmitted, a + 1, xpath [''Order'', ''SalesOrder''] cs, []))"
      "\<not> ro_validateOnly op" "confirmed op" by blast+
  qed
qed


section \<open>A resubmission\<close>

definition phantom_answer :: string where
  "phantom_answer = ''<SalesOrders><Order><SalesOrder>000123</SalesOrder></Order></SalesOrders>''"

definition phantom_world :: world where
  "phantom_world = demo_world\<lparr>w_db := snd (sql_submitted_update 1 [] 1 zero_time (w_db demo_world)),
     w_http := [(Resp 200 [] ''G1'', 0), (Resp 200 [] phantom_answer, 0), (Resp 200 [] [], 0)]\<rparr>"

definition tool_env :: env where
  "tool_env k = (if k \<in> {''DATABASE_URL'', ''SYSPRO_WAREHOUSE'', ''SYSPRO_ENET_URL'', ''SYSPRO_OPERATOR'', ''SYSPRO_COMPANY_ID''}
     then ''x'' else [])"

definition tool_opts :: resubmit_opts where
  "tool_opts = \<lparr>ro_orderID = 1, ro_validateOnly = False, ro_yes = True, ro_answer = []\<rparr>"

lemma phantom_parsed:
  "map_option (xpath [''Order'', ''SalesOrder''])
     (xml_unmarshal ''SalesOrders'' (strip_decl (TrimSpace (json_or_raw phantom_answer)))) = Some ''000123''"
  by code_simp

lemma phantom_logon: "json_or_raw ''G1'' = ''G1''"
  by code_simp

lemma phantom_inv: "db_inv (w_db phantom_world)"
  by (simp add: phantom_world_def sql_updates_inv demo_inv)

lemma phantom_queue: "queue_of (w_db phantom_world) 1 = Some (OrderStatusSubmitted, 1, [], [])"
  by (simp add: phantom_world_def submitted_refines demo_queue)

lemma phantom_script: "w_dbs phantom_world = []"
    "w_http phantom_world = [(Resp 200 [] ''G1'', 0), (Resp 200 [] phantom_answer, 0), (Resp 200 [] [], 0)]"
  by (simp_all add: phantom_world_def demo_world_def empty_world_def)

lemma phantom_load:
  "\<exists>ow. load_order 1 phantom_world = (Inr ow, phantom_world) \<and> ord_ID (ow_Order ow) = 1 \<and>
     Status (ow_Order ow) = OrderStatusSubmitted \<and> SysproOrderNumber (ow_Order ow) = []"
proof -
  from phantom_queue obtain x where x: "row_of (w_db phantom_world) 1 = Some x" "Status x = OrderStatusSubmitted"
    "SysproOrderNumber x = []" by (auto simp: queue_of_def queue_row_def)
  then show ?thesis
    using row_of_id [OF x(1)]
    by (simp add: load_order_def db_call_def phantom_script row_of_def scan_order_def)
qed

lemma phantom_record:
  assumes "w_dbs w = []" "w_db w = w_db phantom_world"
  shows "\<exists>t. record_answer tool_opts 1 (TrimSpace (json_or_raw phantom_answer)) w =
    (Inr (), w\<lparr>w_db := snd (sql_resubmitted 1 ''000123'' t (w_db w))\<rparr>)"
proof -
  obtain cs where cs: "xml_unmarshal ''SalesOrders'' (strip_decl (TrimSpace (json_or_raw phantom_answer))) = Some cs"
    "xpath [''Order'', ''SalesOrder''] cs = ''000123''" using phantom_parsed by auto
  have "fst (sql_resubmitted 1 ''000123'' t (w_db w)) = 1" for t
    using phantom_inv phantom_queue
    by (auto simp: assms(2) sql_resubmitted_def upd_orders_count queue_of_def queue_row_def)
  then show ?thesis
    by (auto simp: record_answer_def cs tool_opts_def confirmed_def db_call_def assms(1) split: prod.splits)
      (metis fst_conv snd_conv)+
qed

lemma phantom_run:
  "\<exists>w' t. resubmit tool_env tool_opts phantom_world = (Inr (), w') \<and>
     w_db w' = snd (sql_resubmitted 1 ''000123'' t (w_db phantom_world))"
proof -
  obtain ow where ow: "load_order 1 phantom_world = (Inr ow, phantom_world)" "ord_ID (ow_Order ow) = 1"
    "Status (ow_Order ow) = OrderStatusSubmitted" "SysproOrderNumber (ow_Order ow) = []" using phantom_load by blast
  obtain ps ds where d: "resubmit_documents tool_env tool_opts ''x'' ow = (ps, ds)" by (rule prod.exhaust)
  have env: "tool_env ''DATABASE_URL'' = ''x''" "tool_env ''SYSPRO_WAREHOUSE'' = ''x''" "tool_env ''SYSPRO_ENET_URL'' = ''x''"
    "tool_env ''SYSPRO_OPERATOR'' = ''x''" "tool_env ''SYSPRO_COMPANY_ID'' = ''x''"
    by (simp_all add: tool_env_def)
  obtain w1 where w1: "tool_logon tool_env (TrimRight (CHR ''/'') ''x'') phantom_world = (Inr ''G1'', w1)"
      "w_dbs w1 = []" "w_db w1 = w_db phantom_world" "w_http w1 = tl (w_http phantom_world)"
    by (simp add: tool_logon_def require_env_def env tool_get_def http_do_def phantom_script phantom_logon HasPrefix_def)
  obtain w2 where w2: "tool_transact (TrimRight (CHR ''/'') ''x'') ''G1'' ps ds w1 = (Inr (TrimSpace (json_or_raw phantom_answer)), w2)"
      "w_dbs w2 = []" "w_db w2 = w_db phantom_world"
    by (simp add: tool_transact_def tool_get_def http_do_def w1 phantom_script)
  obtain t where t: "record_answer tool_opts 1 (TrimSpace (json_or_raw phantom_answer)) w2 =
      (Inr (), w2\<lparr>w_db := snd (sql_resubmitted 1 ''000123'' t (w_db w2))\<rparr>)"
    using phantom_record [OF w2(2,3)] by blast
  let ?w3 = "w2\<lparr>w_db := snd (sql_resubmitted 1 ''000123'' t (w_db w2))\<rparr>"
  have id: "ro_orderID tool_opts = 1" by (simp add: tool_opts_def)
  have "post_again tool_env tool_opts ''x'' ''x'' ow phantom_world = (Inr (), tool_logoff (TrimRight (CHR ''/'') ''x'') ''G1'' ?w3)"
    by (simp add: post_again_def d w1(1) w2(1) ow(2) t)
  then have "resubmit tool_env tool_opts phantom_world = (Inr (), tool_logoff (TrimRight (CHR ''/'') ''x'') ''G1'' ?w3)"
    by (simp add: resubmit_def id require_env_def env ow)
  then show ?thesis
    using tool_logoff_apart [of ?w3 "TrimRight (CHR ''/'') ''x''" "''G1''"]
    by (intro exI [of _ "tool_logoff (TrimRight (CHR ''/'') ''x'') ''G1'' ?w3"] exI [of _ t]) (simp add: apart_def w2(3))
qed

theorem resubmit_order_safe_witness:
  "\<exists>w'. resubmit tool_env tool_opts phantom_world = (Inr (), w') \<and>
     queue_of (w_db w') 1 = Some (OrderStatusSubmitted, 2, ''000123'', [])"
proof -
  obtain w' t where r: "resubmit tool_env tool_opts phantom_world = (Inr (), w')"
    "w_db w' = snd (sql_resubmitted 1 ''000123'' t (w_db phantom_world))" using phantom_run by blast
  have "queue_of (w_db w') 1 = Some (OrderStatusSubmitted, 2, ''000123'', [])"
    by (simp add: r(2) resubmitted_refines phantom_queue)
  then have "w_db w' \<noteq> w_db phantom_world" using phantom_queue by auto
  with resubmit_order_safe [OF r(1)] have "confirmed tool_opts" by blast
  with r(1) \<open>queue_of (w_db w') 1 = _\<close> show ?thesis by blast
qed

end
