(* ===== verification/SkuParity.thy ===== *)
theory SkuParity
  imports Config DeadLetter Transactions "HOL-Library.List_Lexorder" "HOL-Library.Char_ord"
begin

text \<open>
  \<open>cmd/sku-parity\<close>: an operator's audit of the SKUs in Shopify against a list of SYSPRO stock codes. A Go map
  used as a set is the list of its keys, in the order of insertion; what is printed is its three sorted
  lists. The texts of file errors are not represented.
\<close>

record parity_flags =
  pf_skus :: string
  pf_file :: string

record parity_result =
  pr_matches :: "string list"
  pr_shopifyOnly :: "string list"
  pr_sysproOnly :: "string list"

section \<open>The SYSPRO list\<close>

definition sep_char :: "char \<Rightarrow> char" where
  "sep_char c = (if c \<in> {byte 10, byte 13, byte 9, CHR '' ''} then CHR '','' else c)"

definition split_skus :: "string \<Rightarrow> string list" where
  "split_skus raw = filter (\<lambda>t. t \<noteq> []) (map TrimSpace (Split (CHR '','') (map sep_char raw)))"

definition loadSysproSKUs :: "parity_flags \<Rightarrow> office \<Rightarrow> string list res \<times> office" where
  "loadSysproSKUs fl s =
     (if pf_skus fl \<noteq> [] \<and> pf_file fl \<noteq> []
      then (Inl (Errorf ''pass only one of --syspro-skus or --syspro-skus-file, not both''), s)
      else if pf_file fl \<noteq> [] then
        (case ReadFile (pf_file fl) s of
           (None, s1) \<Rightarrow> (Inl (wrap_err ''reading SYSPRO SKU file'' (Errorf ''cannot read file'')), s1)
         | (Some b, s1) \<Rightarrow> (Inr (split_skus b), s1))
      else (Inr (split_skus (pf_skus fl)), s))"

section \<open>The Shopify list\<close>

fun next_segment :: "string list \<Rightarrow> string" where
  "next_segment [] = []"
| "next_segment (part # ps) =
     (let seg = TrimSpace part in
      if \<not> Contains seg rel_next then next_segment ps
      else case (Index seg ''<'', Index seg ''>'') of
             (Some i, Some j) \<Rightarrow> if j \<le> i + 1 then next_segment ps else take (j - (i + 1)) (drop (i + 1) seg)
           | _ \<Rightarrow> next_segment ps)"

definition parseNextLink :: "string \<Rightarrow> string" where
  "parseNextLink h = (if h = [] then [] else next_segment (Split (CHR '','') h))"

definition dec_products :: "(string \<times> json) list \<Rightarrow> string list option" where
  "dec_products o1 =
     map_option concat (farray ''products'' (jstruct (\<lambda>p.
       Option.bind (fint ''id'' p) (\<lambda>_. farray ''variants'' (jstruct (fstring ''sku'')) [] p))) [] o1)"

text \<open>One page: the SKUs of its variants and the link to the next page.\<close>

definition parity_page :: "http_outcome \<Rightarrow> (string list \<times> string) res" where
  "parity_page oc =
     (case oc of
        TransportErr m \<Rightarrow> Inl (Errorf m)
      | ReadErr m \<Rightarrow> Inl (Errorf m)
      | Resp st link body \<Rightarrow>
          let b = take (20 * 1024 * 1024) body in
          if st < 200 \<or> 300 \<le> st then Inl (Errorf (''shopify HTTP '' @ Itoa st @ '': '' @ TrimSpace b))
          else (case unmarshal (jstruct dec_products) b of
                  None \<Rightarrow> Inl (wrap_err ''parsing response'' json_error)
                | Some es \<Rightarrow> Inr (es, parseNextLink link)))"

definition add_sku :: "string list \<Rightarrow> string \<Rightarrow> string list" where
  "add_sku seen s = (let t = TrimSpace s in if t = [] \<or> t \<in> set seen then seen else seen @ [t])"

definition page_req :: "string \<Rightarrow> string \<Rightarrow> (string \<times> string) list \<Rightarrow> http_req" where
  "page_req token url q =
     \<lparr>rq_method = ''GET'', rq_url = url, rq_query = q,
      rq_headers = [(''X-Shopify-Access-Token'', token), (''Accept'', ''application/json'')], rq_body = []\<rparr>"

lemma parity_page_dry: "parity_page (fst (http_do rq w)) = Inr x \<Longrightarrow> w_http w \<noteq> []"
  using http_do_dry [of w rq] by (auto simp: parity_page_def)

text \<open>The loop, from the request of a page on.\<close>

function pages_loop :: "string \<Rightarrow> http_req \<Rightarrow> string list \<Rightarrow> world \<Rightarrow> string list res \<times> world" where
  "pages_loop token rq seen w =
     (case http_do rq w of (oc, w1) \<Rightarrow>
        (case parity_page oc of
           Inl e \<Rightarrow> (Inl e, w1)
         | Inr (es, next) \<Rightarrow>
             let seen1 = foldl add_sku seen es in
             if next = [] then (Inr seen1, w1) else pages_loop token (page_req token next []) seen1 w1))"
  by pat_completeness auto

termination
proof (relation "measure (\<lambda>(token, rq, seen, w). length (w_http w))", goal_cases)
  case (2 token rq seen w oc w1 q es nxt seen1)
  then have h: "http_do rq w = (oc, w1)" "parity_page oc = Inr (es, nxt)" by simp_all
  have "w_http w \<noteq> []" by (rule parity_page_dry [of rq w "(es, nxt)"]) (simp add: h)
  moreover have "w_http w1 = tl (w_http w)" using http_do_script [of rq w] by (simp add: h)
  ultimately show ?case by (cases "w_http w") auto
qed simp

declare pages_loop.simps [simp del]

definition fetchShopifySKUs :: "string \<Rightarrow> string \<Rightarrow> world \<Rightarrow> string list res \<times> world" where
  "fetchShopifySKUs storeURL token =
     pages_loop token (page_req token (''https://'' @ storeURL @ ''/admin/api/2025-04/products.json'')
       [(''fields'', ''id,variants''), (''limit'', ''250'')]) []"

section \<open>The audit\<close>

definition compare_skus :: "string list \<Rightarrow> string list \<Rightarrow> parity_result" where
  "compare_skus shopify syspro =
     \<lparr>pr_matches = sort (filter (\<lambda>s. s \<in> set syspro) (remdups shopify)),
      pr_shopifyOnly = sort (filter (\<lambda>s. s \<notin> set syspro) (remdups shopify)),
      pr_sysproOnly = sort (filter (\<lambda>s. s \<notin> set shopify) (remdups syspro))\<rparr>"

definition sku_parity :: "env \<Rightarrow> parity_flags \<Rightarrow> office \<Rightarrow> parity_result res \<times> office" where
  "sku_parity env fl s =
     (let storeURL = TrimSpace (env ''SHOPIFY_STORE_URL''); token = TrimSpace (env ''SHOPIFY_ACCESS_TOKEN'') in
      if storeURL = [] \<or> token = []
      then (Inl (Errorf ''SHOPIFY_STORE_URL and SHOPIFY_ACCESS_TOKEN must be set''), s)
      else case loadSysproSKUs fl s of
        (Inl e, s1) \<Rightarrow> (Inl e, s1)
      | (Inr syspro, s1) \<Rightarrow>
          if syspro = [] then (Inl (Errorf ''no SYSPRO SKUs provided (use --syspro-skus or --syspro-skus-file)''), s1)
          else (case in_world (fetchShopifySKUs storeURL token) s1 of
                  (Inl e, s2) \<Rightarrow> (Inl (wrap_err ''fetching shopify products'' e), s2)
                | (Inr shopify, s2) \<Rightarrow> (Inr (compare_skus shopify syspro), s2)))"

definition parity_exit :: "parity_result res \<Rightarrow> int" where
  "parity_exit r = (case r of Inl _ \<Rightarrow> 2 | Inr p \<Rightarrow> if pr_shopifyOnly p \<noteq> [] then 1 else 0)"

end
