(* ===== verification/SkuParityProps.thy ===== *)
theory SkuParityProps
  imports SkuParity
begin

text \<open>The audit looks at every page, and its three lists are exactly the comparison of the two sets.\<close>

lemma set_add_sku: "set (foldl add_sku seen es) = set seen \<union> (TrimSpace ` set es - {[]})"
  by (induction es arbitrary: seen) (auto simp: add_sku_def Let_def)

definition page_skus :: "(http_outcome \<times> nat) list \<Rightarrow> string set" where
  "page_skus hs = (\<Union>h\<in>set hs. case parity_page (fst h) of Inl _ \<Rightarrow> {} | Inr (es, _) \<Rightarrow> TrimSpace ` set es - {[]})"

text \<open>A run of answers that links each page to the next and ends without a link.\<close>

fun linked :: "(http_outcome \<times> nat) list \<Rightarrow> bool" where
  "linked [] = False"
| "linked (h # hs) =
     (case parity_page (fst h) of Inl _ \<Rightarrow> False | Inr (_, next) \<Rightarrow> if next = [] then hs = [] else linked hs)"

lemma pages_loop_reads:
  assumes "pages_loop token rq seen w = (Inr out, w')"
  shows "\<exists>n. linked (take n (w_http w)) \<and> set out = set seen \<union> page_skus (take n (w_http w)) \<and>
    w_http w' = drop n (w_http w) \<and> w_db w' = w_db w"
  using assms
proof (induction token rq seen w arbitrary: rule: pages_loop.induct)
  case (1 token rq seen w)
  obtain oc w1 where h: "http_do rq w = (oc, w1)" by (rule prod.exhaust)
  obtain es nxt where p: "parity_page oc = Inr (es, nxt)"
    using "1.prems" by (cases "parity_page oc") (auto simp: pages_loop.simps [of token rq seen w] h)
  have "w_http w \<noteq> []" by (rule parity_page_dry [of rq w "(es, nxt)"]) (simp add: h p)
  then obtain dt hs where w: "w_http w = (oc, dt) # hs" "w_http w1 = hs"
    using h by (cases "w_http w") (auto simp: http_do_def Let_def)
  have db: "w_db w1 = w_db w" using http_do_frame(1) [of rq w] by (simp add: h)
  show ?case
  proof (cases "nxt = []")
    case True
    then have "out = foldl add_sku seen es" "w' = w1"
      using "1.prems" by (auto simp: pages_loop.simps [of token rq seen w] h p)
    then show ?thesis
      by (intro exI [of _ 1]) (simp add: w p True set_add_sku page_skus_def db)
  next
    case False
    then have l: "pages_loop token (page_req token nxt []) (foldl add_sku seen es) w1 = (Inr out, w')"
      using "1.prems" by (simp add: pages_loop.simps [of token rq seen w] h p)
    from "1.IH" [OF h [symmetric] p refl refl False l] obtain n where
      "linked (take n (w_http w1))" "set out = set (foldl add_sku seen es) \<union> page_skus (take n (w_http w1))"
      "w_http w' = drop n (w_http w1)" "w_db w' = w_db w1" by blast
    then show ?thesis
      by (intro exI [of _ "Suc n"]) (auto simp: w p False set_add_sku page_skus_def db)
  qed
qed

text \<open>C37: the audit of SKUs is exact. When it finishes, it has read the pages of products as Shopify links them, to
  the last one; its lists of matches, of SKUs only in Shopify and of SKUs only in SYSPRO are sorted, without
  repetition, and hold exactly the trimmed non-empty SKUs of these pages that are, or are not, among the stock
  codes given; and it exits with 0 exactly when every Shopify SKU has a stock code.\<close>

theorem sku_parity_exact:
  assumes "sku_parity env fl s = (Inr r, s')"
  shows "\<exists>n syspro s1. linked (take n (w_http (of_world s1))) \<and> loadSysproSKUs fl s = (Inr syspro, s1) \<and>
    set (pr_matches r) = page_skus (take n (w_http (of_world s1))) \<inter> set syspro \<and>
    set (pr_shopifyOnly r) = page_skus (take n (w_http (of_world s1))) - set syspro \<and>
    set (pr_sysproOnly r) = set syspro - page_skus (take n (w_http (of_world s1))) \<and>
    (\<forall>l\<in>{pr_matches r, pr_shopifyOnly r, pr_sysproOnly r}. sorted l \<and> distinct l) \<and>
    (parity_exit (Inr r) = 0 \<longleftrightarrow> page_skus (take n (w_http (of_world s1))) \<subseteq> set syspro)"
proof -
  let ?url = "TrimSpace (env ''SHOPIFY_STORE_URL'')" and ?token = "TrimSpace (env ''SHOPIFY_ACCESS_TOKEN'')"
  have env: "?url \<noteq> []" "?token \<noteq> []" using assms by (auto simp: sku_parity_def Let_def split: if_splits)
  obtain x s1 where l: "loadSysproSKUs fl s = (x, s1)" by (rule prod.exhaust)
  then obtain syspro where x: "x = Inr syspro" "syspro \<noteq> []"
    using assms env by (cases x) (auto simp: sku_parity_def Let_def split: if_splits)
  obtain y s2 where f: "in_world (fetchShopifySKUs ?url ?token) s1 = (y, s2)" by (rule prod.exhaust)
  then obtain shopify where y: "y = Inr shopify" "r = compare_skus shopify syspro"
    using assms env x l by (cases y) (auto simp: sku_parity_def Let_def)
  obtain w1 where "fetchShopifySKUs ?url ?token (of_world s1) = (Inr shopify, w1)"
    using f y(1) by (auto simp: in_world_def split: prod.splits)
  then obtain n where n: "linked (take n (w_http (of_world s1)))" "set shopify = page_skus (take n (w_http (of_world s1)))"
    unfolding fetchShopifySKUs_def by (auto dest: pages_loop_reads)
  have only: "set (pr_shopifyOnly r) = set shopify - set syspro" by (auto simp: y(2) compare_skus_def)
  have "parity_exit (Inr r) = 0 \<longleftrightarrow> set (pr_shopifyOnly r) = {}" by (simp add: parity_exit_def)
  then have "parity_exit (Inr r) = 0 \<longleftrightarrow> set shopify \<subseteq> set syspro" unfolding only by blast
  then show ?thesis
    using n(1) l x(1) only
    by (intro exI [of _ n] exI [of _ syspro] exI [of _ s1])
      (auto simp: y(2) compare_skus_def n(2) [symmetric])
qed

section \<open>An audit\<close>

definition parity_env :: env where
  "parity_env k = (if k \<in> {''SHOPIFY_STORE_URL'', ''SHOPIFY_ACCESS_TOKEN''} then ''x'' else [])"

definition parity_body :: string where
  \<open>parity_body = ''{"products":[{"id":1,"variants":[{"sku":"B2"},{"sku":" A1 "}]}]}''\<close>


definition parity_office :: office where
  "parity_office = \<lparr>of_world = \<lparr>w_db = empty_db, w_clock = 0, w_local = 0, w_dbs = [],
     w_http = [(Resp 200 [] parity_body, 0)], w_sent = [], w_ctx = [], w_sessionMu = False\<rparr>,
     of_token = [], of_tokenExp = zero_time, of_files = Map.empty, of_fs = []\<rparr>"

lemma parity_body_skus: "unmarshal (jstruct dec_products) parity_body = Some [''B2'', '' A1 '']"
  by code_simp

lemma parity_body_page: "parity_page (Resp 200 [] parity_body) = Inr ([''B2'', '' A1 ''], [])"
proof -
  have "take (20 * 1024 * 1024) parity_body = parity_body" by (simp add: parity_body_def)
  then show ?thesis by (simp add: parity_page_def parity_body_skus parseNextLink_def)
qed

lemma parity_lists: "foldl add_sku [] [''B2'', '' A1 ''] = [''B2'', ''A1'']" "split_skus ''A1,C3'' = [''A1'', ''C3'']"
  by code_simp+

lemma parity_trim: "TrimSpace ''x'' = ''x''"
  by code_simp

lemma parity_run:
  "\<exists>s'. sku_parity parity_env \<lparr>pf_skus = ''A1,C3'', pf_file = []\<rparr> parity_office =
     (Inr \<lparr>pr_matches = [''A1''], pr_shopifyOnly = [''B2''], pr_sysproOnly = [''C3'']\<rparr>, s')"
proof -
  obtain w1 where "fetchShopifySKUs ''x'' ''x'' (of_world parity_office) = (Inr [''B2'', ''A1''], w1)"
    by (simp add: fetchShopifySKUs_def pages_loop.simps http_do_def parity_office_def parity_body_page parity_lists
        del: foldl.simps)
  then show ?thesis
    by (simp add: sku_parity_def parity_env_def parity_trim loadSysproSKUs_def parity_lists in_world_def compare_skus_def)
qed

theorem sku_parity_exact_witness:
  "parity_exit (Inr \<lparr>pr_matches = [''A1''], pr_shopifyOnly = [''B2''], pr_sysproOnly = [''C3'']\<rparr>) \<noteq> 0 \<and>
   (\<exists>n. linked (take n (w_http (of_world parity_office))))"
proof -
  obtain s' where r: "sku_parity parity_env \<lparr>pf_skus = ''A1,C3'', pf_file = []\<rparr> parity_office =
     (Inr \<lparr>pr_matches = [''A1''], pr_shopifyOnly = [''B2''], pr_sysproOnly = [''C3'']\<rparr>, s')" using parity_run by blast
  have l: "loadSysproSKUs \<lparr>pf_skus = ''A1,C3'', pf_file = []\<rparr> parity_office = (Inr [''A1'', ''C3''], parity_office)"
    by (simp add: loadSysproSKUs_def parity_lists)
  from sku_parity_exact [OF r] l show ?thesis by (auto simp: parity_exit_def)
qed

end
