(* ===== verification/SendReport.thy ===== *)
theory SendReport
  imports Server ServiceSteps
begin

text \<open>
  \<open>cmd/send-report\<close>: an operator's tool that sends one of the daily reports, or a backfill of cash receipts,
  through the code of the reporters. The connection to the database, the timeout and the output are not
  modelled, and neither are the texts of the library's date and file errors.
\<close>

record send_flags =
  sf_type :: string
  sf_date :: string
  sf_from :: string
  sf_to :: string
  sf_coverNote :: string
  sf_coverNoteFile :: string

datatype report_period = OneDay gtime | DayRange gtime gtime

definition parse_flag_date :: "string \<Rightarrow> string \<Rightarrow> gtime res" where
  "parse_flag_date flag v =
     (case ParseDate v of
        None \<Rightarrow> Inl (wrap_err (''invalid --'' @ flag @ '' '' @ go_quote v) (Errorf ''parsing time''))
      | Some t \<Rightarrow> Inr t)"

text \<open>The flags' checks and the period; the end of a range is exclusive.\<close>

definition report_period :: "send_flags \<Rightarrow> gtime \<Rightarrow> report_period res" where
  "report_period fl today =
     (let range = (sf_from fl \<noteq> []) in
      if sf_type fl \<noteq> ''cash'' \<and> sf_type fl \<noteq> ''intake''
        then Inl (Errorf (''--type must be '' @ [CHR 0x27] @ ''cash'' @ [CHR 0x27] @ '' or '' @ [CHR 0x27] @ ''intake'' @ [CHR 0x27]))
      else if range \<noteq> (sf_to fl \<noteq> []) then Inl (Errorf ''--from and --to must be set together'')
      else if range \<and> sf_date fl \<noteq> [] then Inl (Errorf ''--date is mutually exclusive with --from/--to'')
      else if range \<and> sf_type fl \<noteq> ''cash'' then Inl (Errorf ''--from/--to range mode only supports --type=cash today'')
      else if range then
        and_then (parse_flag_date ''from'' (sf_from fl)) (\<lambda>start.
        and_then (parse_flag_date ''to'' (sf_to fl)) (\<lambda>e.
          if \<not> Before start (AddDays e 1) then Inl (Errorf ''--from must be on or before --to'')
          else Inr (DayRange start (AddDays e 1))))
      else if sf_date fl = [] then Inr (OneDay (AddDays (UTC today) (- 1)))
      else and_then (parse_flag_date ''date'' (sf_date fl)) (\<lambda>d. Inr (OneDay d)))"

text \<open>The reporter of an operator's run has neither a health check nor a state directory.\<close>

definition tool_reporter :: "config \<Rightarrow> string list \<Rightarrow> int \<Rightarrow> reporter" where
  "tool_reporter c to hour = (reporter_of c to hour [])\<lparr>rp_stateDir := []\<rparr>"

definition cover_note :: "send_flags \<Rightarrow> office \<Rightarrow> string res \<times> office" where
  "cover_note fl s =
     (if sf_coverNoteFile fl = [] then (Inr (sf_coverNote fl), s)
      else case ReadFile (sf_coverNoteFile fl) s of
             (None, s1) \<Rightarrow> (Inl (wrap_err ''reading --cover-note-file'' (Errorf ''cannot read file'')), s1)
           | (Some b, s1) \<Rightarrow> (Inr b, s1))"

fun err_prefix :: "string \<Rightarrow> 'a res \<times> office \<Rightarrow> 'a res \<times> office" where
  "err_prefix what (Inl e, s) = (Inl (wrap_err what e), s)"
| "err_prefix what (Inr x, s) = (Inr x, s)"

definition send_cash :: "config \<Rightarrow> mailer_config \<Rightarrow> send_flags \<Rightarrow> report_period \<Rightarrow> office \<Rightarrow> unit res \<times> office" where
  "send_cash c m fl p s =
     (if cf_CreditControlTo c = [] then (Inl (Errorf ''CREDIT_CONTROL_TO not set''), s)
      else if cf_ShopifyAccessToken c = []
        then (Inl (Errorf ''SHOPIFY_ACCESS_TOKEN not set (cash report needs Shopify Admin API access)''), s)
      else let f = NewTransactionsFetcher (cf_ShopifyStoreURL c) (cf_ShopifyAccessToken c) in
           case NewDailyReporter (tool_reporter c (cf_CreditControlTo c) (cf_DailyReportHour c)) of
             Inl e \<Rightarrow> (Inl (wrap_err ''cash reporter init'' e), s)
           | Inr r0 \<Rightarrow>
               (case cover_note fl s of
                  (Inl e, s1) \<Rightarrow> (Inl e, s1)
                | (Inr note, s1) \<Rightarrow>
                    (let r = (if note = [] then r0 else SetCoverNote note r0) in
                     case p of
                       DayRange a b \<Rightarrow> err_prefix ''cash range report send''
                         (SendForRange (\<lambda>a b. in_world (FetchOrdersInWindow f a b)) (Send m) r a b s1)
                     | OneDay d \<Rightarrow> err_prefix ''cash report send'' (service_cash_send f m r d s1))))"

definition send_intake :: "config \<Rightarrow> mailer_config \<Rightarrow> gtime \<Rightarrow> office \<Rightarrow> unit res \<times> office" where
  "send_intake c m d s =
     (if cf_OrderIntakeTo c = [] then (Inl (Errorf ''ORDER_INTAKE_TO not set''), s)
      else case NewIntakeReporter (tool_reporter c (cf_OrderIntakeTo c) (cf_OrderIntakeHour c)) of
             Inl e \<Rightarrow> (Inl (wrap_err ''intake reporter init'' e), s)
           | Inr r \<Rightarrow> err_prefix ''intake report send'' (service_intake_send m r d s))"

definition send_report :: "env \<Rightarrow> send_flags \<Rightarrow> office \<Rightarrow> unit res \<times> office" where
  "send_report env fl s =
     (case report_period fl (office_now s) of
        Inl e \<Rightarrow> (Inl e, s)
      | Inr p \<Rightarrow>
     (case Load env of
        Inl e \<Rightarrow> (Inl (wrap_err ''loading config'' e), s)
      | Inr c \<Rightarrow>
     (case mailer_start c of
        None \<Rightarrow>
          (Inl (Errorf ''GRAPH_* env vars incomplete (need TENANT_ID, CLIENT_ID, CLIENT_SECRET, SENDER_MAILBOX)''), s)
      | Some m \<Rightarrow>
          if sf_type fl = ''cash'' then send_cash c m fl p s
          else (case p of OneDay d \<Rightarrow> send_intake c m d s | DayRange a b \<Rightarrow> (Inr (), s)))))"

section \<open>What an operator's run touches\<close>

lemma range_send_db:
  "w_db (of_world (snd (SendForRange (\<lambda>a b. in_world (FetchOrdersInWindow f a b)) (Send m) r a b s))) = w_db (of_world s)"
proof (cases "Before a b")
  case True
  obtain x s1 where x: "in_world (FetchOrdersInWindow f a b) s = (x, s1)" by (rule prod.exhaust)
  have s1: "w_db (of_world s1) = w_db (of_world s)"
    using in_world_db [of "FetchOrdersInWindow f a b" s] FetchOrdersInWindow_db by (simp add: x)
  show ?thesis
  proof (cases x)
    case (Inr ts)
    then show ?thesis
      using True s1 deliver_db
      by (simp add: SendForRange_def x Let_def archiveSentCSVRange_def write_archive_world)
  qed (simp add: SendForRange_def x True s1)
qed (simp add: SendForRange_def)


lemma cover_note_world: "of_world (snd (cover_note fl s)) = of_world s"
  by (auto simp: cover_note_def ReadFile_def fs_next_def split: list.split prod.split option.split)

lemma err_prefix_snd: "snd (err_prefix what x) = snd x"
  by (cases x; cases "fst x") auto

lemma send_cash_db: "w_db (of_world (snd (send_cash c m fl p s))) = w_db (of_world s)"
proof -
  obtain n s1 where n: "cover_note fl s = (n, s1)" by (rule prod.exhaust)
  have s1: "of_world s1 = of_world s" using cover_note_world [of fl s] by (simp add: n)
  show ?thesis
    by (auto simp: send_cash_def Let_def n s1 err_prefix_snd range_send_db cash_send_db split: sum.splits report_period.splits)
qed

lemma send_intake_db: "w_db (of_world (snd (send_intake c m d s))) = w_db (of_world s)"
  by (auto simp: send_intake_def err_prefix_snd intake_send_db split: sum.splits)

text \<open>An operator's report, of whatever kind and however it ends, leaves the tables as they are.\<close>

theorem send_report_tables: "w_db (of_world (snd (send_report env fl s))) = w_db (of_world s)"
  by (auto simp: send_report_def send_cash_db send_intake_db split: sum.splits option.splits report_period.splits)

lemma ParseDate_days: "ParseDate v = Some t \<Longrightarrow> \<exists>d. t = \<lparr>t_ns = d * (86400 * Second), t_off = 0\<rparr>"
  by (auto simp: ParseDate_def split: option.splits list.splits prod.splits)

text \<open>A backfill is accepted exactly for two dates in order, and its window ends a day after the second.\<close>

theorem backfill_window:
  "report_period fl today = Inr (DayRange a b) \<longleftrightarrow>
     sf_type fl = ''cash'' \<and> sf_date fl = [] \<and> sf_from fl \<noteq> [] \<and> sf_to fl \<noteq> [] \<and> ParseDate (sf_from fl) = Some a \<and>
     (\<exists>e. ParseDate (sf_to fl) = Some e \<and> b = AddDays e 1 \<and> t_ns a \<le> t_ns e)"
proof -
  have days: "Before a (AddDays e 1) \<longleftrightarrow> t_ns a \<le> t_ns e" if d: "ParseDate (sf_from fl) = Some a" "ParseDate (sf_to fl) = Some e" for a e
  proof -
    from ParseDate_days [OF d(1)] obtain x where "t_ns a = x * (86400 * Second)" by fastforce
    moreover from ParseDate_days [OF d(2)] obtain y where "t_ns e = y * (86400 * Second)" by fastforce
    ultimately show ?thesis by (auto simp: Before_def AddDays_def Second_def)
  qed
  have p: "parse_flag_date f v = (case ParseDate v of None \<Rightarrow> parse_flag_date f v | Some t \<Rightarrow> Inr t)" for f v
    by (simp add: parse_flag_date_def split: option.split)
  show ?thesis
  proof (cases "sf_type fl = ''cash'' \<and> sf_date fl = [] \<and> sf_from fl \<noteq> [] \<and> sf_to fl \<noteq> []")
    case True
    then show ?thesis
      by (cases "ParseDate (sf_from fl)"; cases "ParseDate (sf_to fl)")
        (auto simp: report_period_def Let_def parse_flag_date_def days)
  next
    case False
    then show ?thesis
      by (cases "ParseDate (sf_date fl)") (auto simp: report_period_def Let_def parse_flag_date_def)
  qed
qed

end
