(* ===== verification/Middleware.thy ===== *)
theory Middleware
  imports Server "HOL-Library.AList"
begin

text \<open>
  The middleware of \<open>cmd/server/main.go\<close> on the level of \<open>http.ResponseWriter\<close>: the three wrappers around the mux, and
  what a client and the log see of a handler that may write in any order and may panic.
\<close>

section \<open>Response writers\<close>

text \<open>
  The server's writer: the header map, what was sent with the first final status, and the body. Informational
  statuses are not final. What \<open>net/http\<close> withholds from an answer to \<open>HEAD\<close> is not represented.
\<close>

record response_writer =
  rw_header :: "(string \<times> string) list"
  rw_sent :: "(int \<times> (string \<times> string) list) option"
  rw_body :: string

definition fresh_writer :: response_writer where
  "fresh_writer = \<lparr>rw_header = [], rw_sent = None, rw_body = []\<rparr>"

definition rw_Set :: "string \<Rightarrow> string \<Rightarrow> response_writer \<Rightarrow> response_writer" where
  "rw_Set k v w = w\<lparr>rw_header := AList.update k v (rw_header w)\<rparr>"

definition informational :: "int \<Rightarrow> bool" where
  "informational code \<longleftrightarrow> 100 \<le> code \<and> code < 200 \<and> code \<noteq> 101"

definition rw_WriteHeader :: "int \<Rightarrow> response_writer \<Rightarrow> response_writer" where
  "rw_WriteHeader code w =
     (if rw_sent w \<noteq> None \<or> informational code then w else w\<lparr>rw_sent := Some (code, rw_header w)\<rparr>)"

definition rw_Write :: "string \<Rightarrow> response_writer \<Rightarrow> response_writer" where
  "rw_Write b w = (let w1 = rw_WriteHeader 200 w in w1\<lparr>rw_body := rw_body w1 @ b\<rparr>)"

text \<open>What the client gets once the handler is through: status, headers and body.\<close>

definition delivered_answer :: "response_writer \<Rightarrow> answer" where
  "delivered_answer w =
     (case rw_sent (rw_WriteHeader 200 w) of
        Some (st, hs) \<Rightarrow> \<lparr>an_status = st, an_headers = hs, an_body = rw_body w\<rparr>
      | None \<Rightarrow> \<lparr>an_status = 200, an_headers = [], an_body = rw_body w\<rparr>)"

section \<open>statusWriter\<close>

record status_writer =
  sw_writer :: response_writer
  sw_status :: int
  sw_wroteHeader :: bool

definition sw_WriteHeader :: "int \<Rightarrow> status_writer \<Rightarrow> status_writer" where
  "sw_WriteHeader code s =
     (let s1 = (if \<not> sw_wroteHeader s then s\<lparr>sw_status := code, sw_wroteHeader := True\<rparr> else s)
      in s1\<lparr>sw_writer := rw_WriteHeader code (sw_writer s1)\<rparr>)"

definition sw_Write :: "string \<Rightarrow> status_writer \<Rightarrow> status_writer" where
  "sw_Write b s =
     (let s1 = (if \<not> sw_wroteHeader s then s\<lparr>sw_wroteHeader := True\<rparr> else s)
      in s1\<lparr>sw_writer := rw_Write b (sw_writer s1)\<rparr>)"

section \<open>Handlers and wrappers\<close>

datatype writer_op = SetHeader string string | WriteHeader int | WriteBody string

text \<open>A run of a handler: what it does with the writer it is given, and whether it then panics.\<close>

record handler_run =
  hr_ops :: "writer_op list"
  hr_panics :: bool

fun sw_op :: "writer_op \<Rightarrow> status_writer \<Rightarrow> status_writer" where
  "sw_op (SetHeader k v) s = s\<lparr>sw_writer := rw_Set k v (sw_writer s)\<rparr>"
| "sw_op (WriteHeader code) s = sw_WriteHeader code s"
| "sw_op (WriteBody b) s = sw_Write b s"

text \<open>The writer after it, the statuses logged, and whether a panic passes through.\<close>

type_synonym wrapped = "response_writer \<Rightarrow> response_writer \<times> int list \<times> bool"

definition requestLogging :: "handler_run \<Rightarrow> wrapped" where
  "requestLogging h w =
     (let s = fold sw_op (hr_ops h) \<lparr>sw_writer = w, sw_status = 200, sw_wroteHeader = False\<rparr>
      in (sw_writer s, if hr_panics h then [] else [sw_status s], hr_panics h))"

definition security_wrapper :: "wrapped \<Rightarrow> wrapped" where
  "security_wrapper next w =
     next (rw_Set ''Cache-Control'' ''no-store''
            (rw_Set ''X-Frame-Options'' ''DENY'' (rw_Set ''X-Content-Type-Options'' ''nosniff'' w)))"

definition panic_body :: string where
  "panic_body = json_print (JObj [(''error'', JStr ''internal error'')]) @ [byte 10]"

definition panicRecovery :: "wrapped \<Rightarrow> wrapped" where
  "panicRecovery next w =
     (case next w of
        (w1, logs, panics) \<Rightarrow>
          if panics
          then (rw_Write panic_body (rw_WriteHeader 500 (rw_Set ''Content-Type'' ''application/json'' w1)), logs, False)
          else (w1, logs, False))"

text \<open>The handler the server is given: the client's answer and what is logged.\<close>

definition wrapped_handler :: "handler_run \<Rightarrow> answer \<times> int list" where
  "wrapped_handler h =
     (case panicRecovery (security_wrapper (requestLogging h)) fresh_writer of
        (w, logs, _) \<Rightarrow> (delivered_answer w, logs))"

text \<open>A handler of the model as a run: headers, status, body.\<close>

definition run_of_answer :: "answer \<Rightarrow> handler_run" where
  "run_of_answer a =
     \<lparr>hr_ops = map (\<lambda>(k, v). SetHeader k v) (an_headers a) @ [WriteHeader (an_status a), WriteBody (an_body a)],
      hr_panics = False\<rparr>"

section \<open>What the log and the client see\<close>

definition security_keys :: "string list" where
  "security_keys = [''X-Content-Type-Options'', ''X-Frame-Options'', ''Cache-Control'']"

definition final_op :: "writer_op \<Rightarrow> bool" where
  "final_op p = (case p of WriteHeader code \<Rightarrow> 200 \<le> code | _ \<Rightarrow> True)"

fun writes :: "writer_op \<Rightarrow> string" where
  "writes (WriteBody b) = b"
| "writes _ = []"

fun sends :: "writer_op \<Rightarrow> bool" where
  "sends (SetHeader _ _) = False"
| "sends _ = True"

text \<open>The wrapper knows the status the server's writer sent, and the headers sent hold the security headers.\<close>

definition writer_inv :: "status_writer \<Rightarrow> bool" where
  "writer_inv s \<longleftrightarrow>
     set security_keys \<subseteq> fst ` set (rw_header (sw_writer s)) \<and>
     (if sw_wroteHeader s
      then (\<exists>hs. rw_sent (sw_writer s) = Some (sw_status s, hs) \<and> set security_keys \<subseteq> fst ` set hs)
      else rw_sent (sw_writer s) = None \<and> sw_status s = 200)"

lemma writer_inv_op: "final_op p \<Longrightarrow> writer_inv s \<Longrightarrow> writer_inv (sw_op p s)"
  by (cases p)
    (auto simp: writer_inv_def final_op_def sw_WriteHeader_def sw_Write_def rw_WriteHeader_def rw_Write_def rw_Set_def
      informational_def Let_def dom_update split: if_splits)

lemma writer_inv_fold: "list_all final_op ops \<Longrightarrow> writer_inv s \<Longrightarrow> writer_inv (fold sw_op ops s)"
  by (induction ops arbitrary: s) (simp_all add: writer_inv_op)

lemma fold_body:
  "rw_body (sw_writer (fold sw_op ops s)) = rw_body (sw_writer s) @ concat (map writes ops)"
proof (induction ops arbitrary: s)
  case (Cons p ops)
  have "rw_body (sw_writer (sw_op p s)) = rw_body (sw_writer s) @ writes p"
    by (cases p) (auto simp: sw_WriteHeader_def sw_Write_def rw_WriteHeader_def rw_Write_def rw_Set_def Let_def)
  then show ?case by (simp add: Cons.IH)
qed simp

lemma fold_sent: "sw_wroteHeader (fold sw_op ops s) \<longleftrightarrow> sw_wroteHeader s \<or> list_ex sends ops"
proof (induction ops arbitrary: s)
  case (Cons p ops)
  have "sw_wroteHeader (sw_op p s) \<longleftrightarrow> sw_wroteHeader s \<or> sends p"
    by (cases p) (auto simp: sw_WriteHeader_def sw_Write_def Let_def)
  then show ?case by (simp add: Cons.IH disj_assoc)
qed simp

definition secured :: status_writer where
  "secured = \<lparr>sw_writer = rw_Set ''Cache-Control'' ''no-store''
     (rw_Set ''X-Frame-Options'' ''DENY'' (rw_Set ''X-Content-Type-Options'' ''nosniff'' fresh_writer)),
     sw_status = 200, sw_wroteHeader = False\<rparr>"

lemma secured_inv: "writer_inv secured"
  by (simp add: writer_inv_def secured_def rw_Set_def fresh_writer_def security_keys_def)

lemma wrapped_handler_eq:
  "wrapped_handler h =
     (let w = sw_writer (fold sw_op (hr_ops h) secured) in
      (delivered_answer
         (if hr_panics h
          then rw_Write panic_body (rw_WriteHeader 500 (rw_Set ''Content-Type'' ''application/json'' w)) else w),
       if hr_panics h then [] else [sw_status (fold sw_op (hr_ops h) secured)]))"
  by (simp add: wrapped_handler_def panicRecovery_def security_wrapper_def requestLogging_def secured_def Let_def)

text \<open>C18: the middleware. Whatever a handler writes, in whatever order and with final statuses, the answer carries the
  three security headers and the handler's body. Without a panic exactly the status the client gets is logged. A panic is
  answered with 500 and the JSON error if nothing was sent yet; otherwise the status already sent stands and the error is
  appended; in both cases nothing is logged.\<close>

theorem middleware_answers:
  assumes "list_all final_op (hr_ops h)" "wrapped_handler h = (a, logs)"
  shows "set security_keys \<subseteq> fst ` set (an_headers a) \<and>
    an_body a = concat (map writes (hr_ops h)) @ (if hr_panics h then panic_body else []) \<and>
    logs = (if hr_panics h then [] else [an_status a]) \<and>
    (hr_panics h \<longrightarrow>
       (if list_ex sends (hr_ops h) then [an_status a] = snd (wrapped_handler (h\<lparr>hr_panics := False\<rparr>))
        else an_status a = 500 \<and> map_of (an_headers a) ''Content-Type'' = Some ''application/json''))"
proof (intro conjI impI)
  let ?s = "fold sw_op (hr_ops h) secured"
  have inv: "writer_inv ?s" using assms(1) secured_inv by (rule writer_inv_fold)
  have sent: "sw_wroteHeader ?s \<longleftrightarrow> list_ex sends (hr_ops h)" by (simp add: fold_sent secured_def)
  have body: "rw_body (sw_writer ?s) = concat (map writes (hr_ops h))"
    by (simp add: fold_body secured_def rw_Set_def fresh_writer_def)
  note eq = assms(2) [unfolded wrapped_handler_eq Let_def, symmetric]
  note unf = delivered_answer_def rw_Write_def rw_WriteHeader_def rw_Set_def informational_def writer_inv_def Let_def
  show "set security_keys \<subseteq> fst ` set (an_headers a)"
    using inv eq by (auto simp: unf dom_update split: if_splits)
  show "an_body a = concat (map writes (hr_ops h)) @ (if hr_panics h then panic_body else [])"
    using eq inv by (auto simp: unf body split: if_splits)
  show "logs = (if hr_panics h then [] else [an_status a])"
    using eq inv by (auto simp: unf split: if_splits)
  assume p: "hr_panics h"
  show "if list_ex sends (hr_ops h) then [an_status a] = snd (wrapped_handler (h\<lparr>hr_panics := False\<rparr>))
      else an_status a = 500 \<and> map_of (an_headers a) ''Content-Type'' = Some ''application/json''"
    using eq inv p sent by (auto simp: unf wrapped_handler_eq update_conv' split: if_splits)
qed

definition late_panic :: handler_run where
  "late_panic = \<lparr>hr_ops = [WriteHeader 200, WriteBody ''[]''], hr_panics = True\<rparr>"

theorem middleware_answers_witness:
  "an_body (fst (wrapped_handler late_panic)) = ''[]'' @ panic_body \<and> snd (wrapped_handler late_panic) = [] \<and>
   [an_status (fst (wrapped_handler late_panic))] = [200]"
proof -
  have f: "list_all final_op (hr_ops late_panic)" by code_simp
  have e: "wrapped_handler late_panic = (fst (wrapped_handler late_panic), snd (wrapped_handler late_panic))" by simp
  have p: "hr_panics late_panic \<and> list_ex sends (hr_ops late_panic)" by code_simp
  have s: "snd (wrapped_handler (late_panic\<lparr>hr_panics := False\<rparr>)) = [200]" by code_simp
  show ?thesis
    using middleware_answers [OF f e] p s by (simp add: late_panic_def)
qed

lemma update_fresh: "k \<notin> fst ` set hs \<Longrightarrow> AList.update k v hs = hs @ [(k, v)]"
  by (induction hs) auto

lemma set_headers:
  assumes "distinct (map fst hs)" "set (map fst hs) \<inter> fst ` set (rw_header (sw_writer s)) = {}"
  shows "fold sw_op (map (\<lambda>(k, v). SetHeader k v) hs) s =
    s\<lparr>sw_writer := (sw_writer s)\<lparr>rw_header := rw_header (sw_writer s) @ hs\<rparr>\<rparr>"
  using assms
proof (induction hs arbitrary: s)
  case (Cons p hs)
  obtain k v where p: "p = (k, v)" by (rule prod.exhaust)
  have f: "AList.update k v (rw_header (sw_writer s)) = rw_header (sw_writer s) @ [(k, v)]"
    using Cons.prems(2) by (intro update_fresh) (simp add: p)
  show ?case using Cons.prems Cons.IH [of "sw_op (SetHeader k v) s"] by (simp add: p rw_Set_def f)
qed simp

lemma send_answer:
  assumes "\<not> informational st" "rw_sent w = None" "rw_body w = []"
  shows "sw_op (WriteBody b) (sw_op (WriteHeader st) \<lparr>sw_writer = w, sw_status = x, sw_wroteHeader = False\<rparr>) =
    \<lparr>sw_writer = w\<lparr>rw_sent := Some (st, rw_header w), rw_body := b\<rparr>, sw_status = st, sw_wroteHeader = True\<rparr>"
  using assms by (simp add: sw_WriteHeader_def sw_Write_def rw_WriteHeader_def rw_Write_def)

text \<open>The answers of the model, through the wrappers, are the ones \<open>serve\<close> gives.\<close>

lemma serve_through_wrappers:
  assumes "distinct (map fst (an_headers a))" "set (map fst (an_headers a)) \<inter> set security_keys = {}"
    "\<not> informational (an_status a)"
  shows "wrapped_handler (run_of_answer a) = (securityHeaders a, [an_status a])"
proof -
  let ?w = "\<lparr>rw_header = rw_header (sw_writer secured) @ an_headers a, rw_sent = None, rw_body = []\<rparr>"
  let ?done = "?w\<lparr>rw_sent := Some (an_status a, rw_header ?w), rw_body := an_body a\<rparr>"
  have "fold sw_op (map (\<lambda>(k, v). SetHeader k v) (an_headers a)) secured =
      \<lparr>sw_writer = ?w, sw_status = 200, sw_wroteHeader = False\<rparr>"
    using set_headers [OF assms(1), of secured] assms(2)
    by (simp add: secured_def rw_Set_def fresh_writer_def security_keys_def)
  with send_answer [OF assms(3), of ?w "an_body a" 200]
  have "fold sw_op (hr_ops (run_of_answer a)) secured =
      \<lparr>sw_writer = ?done, sw_status = an_status a, sw_wroteHeader = True\<rparr>"
    by (simp add: run_of_answer_def del: sw_op.simps)
  moreover have "delivered_answer ?done = securityHeaders a"
    by (simp add: delivered_answer_def rw_WriteHeader_def secured_def rw_Set_def fresh_writer_def securityHeaders_def)
  ultimately show ?thesis by (simp add: wrapped_handler_eq run_of_answer_def Let_def)
qed

end
