(* ===== verification/Migrate.thy ===== *)
theory Migrate
  imports World
begin

text \<open>
  \<open>internal/store/migrate.go\<close>: bringing the schema up to date at start. What the statements of a file do to
  the tables is a parameter \<open>run\<close>; which pooled connection serves a call, and how each call ends, are scripts.
\<close>

section \<open>The schema and the calls\<close>

text \<open>\<open>schema_migrations\<close> is a list of versions, once it exists.\<close>

record 's schema =
  sc_tables :: 's
  sc_versions :: "int list option"

text \<open>\<open>mg_lock\<close>: the connection whose session holds advisory lock 1.\<close>

record 's migrator =
  mg_schema :: "'s schema"
  mg_dbs :: "db_event list"
  mg_conns :: "nat list"
  mg_lock :: "nat option"

text \<open>
  How a call ends, given what its statement makes of \<open>x\<close>: as the statement does, with an error before it, or with
  an error after it.
\<close>

definition ended :: "db_event list \<Rightarrow> 'a res \<times> 'x \<Rightarrow> 'x \<Rightarrow> 'a res \<times> 'x" where
  "ended evs rx x =
     (case evs of [] \<Rightarrow> rx
      | ev # _ \<Rightarrow> (case ev of DbOk \<Rightarrow> rx | DbFail s \<Rightarrow> (Inl (Errorf s), x) | DbLost s \<Rightarrow> (Inl (Errorf s), snd rx)))"

definition pool_call :: "('s schema \<Rightarrow> 'a res \<times> 's schema) \<Rightarrow> 's migrator \<Rightarrow> 'a res \<times> 's migrator" where
  "pool_call f m =
     (case ended (mg_dbs m) (f (mg_schema m)) (mg_schema m) of
        (r, d) \<Rightarrow> (r, m\<lparr>mg_schema := d, mg_dbs := tl (mg_dbs m)\<rparr>))"

text \<open>A statement of a transaction works on the transaction's own copy \<open>t\<close>.\<close>

definition in_tx :: "('s schema \<Rightarrow> 'a res \<times> 's schema) \<Rightarrow> 's schema \<Rightarrow> 's migrator \<Rightarrow> ('a res \<times> 's schema) \<times> 's migrator" where
  "in_tx f t m = (ended (mg_dbs m) (f t) t, m\<lparr>mg_dbs := tl (mg_dbs m)\<rparr>)"

section \<open>The statements\<close>

definition sql_create_versions :: "'s schema \<Rightarrow> unit res \<times> 's schema" where
  "sql_create_versions d = (Inr (), d\<lparr>sc_versions := Some (case sc_versions d of None \<Rightarrow> [] | Some vs \<Rightarrow> vs)\<rparr>)"

definition sql_current :: "'s schema \<Rightarrow> int res \<times> 's schema" where
  "sql_current d =
     (case sc_versions d of
        None \<Rightarrow> (Inl (Errorf ''relation schema_migrations does not exist''), d)
      | Some vs \<Rightarrow> (Inr (if vs = [] then 0 else Max (set vs)), d))"

definition sql_record :: "int \<Rightarrow> 's schema \<Rightarrow> unit res \<times> 's schema" where
  "sql_record v d =
     (case sc_versions d of
        None \<Rightarrow> (Inl (Errorf ''relation schema_migrations does not exist''), d)
      | Some vs \<Rightarrow>
          if v < - (2 ^ 31) \<or> 2 ^ 31 \<le> v then (Inl (Errorf ''integer out of range''), d)
          else if v \<in> set vs then (Inl (Errorf ''duplicate key value''), d)
          else (Inr (), d\<lparr>sc_versions := Some (vs @ [v])\<rparr>))"

definition sql_file :: "(string \<Rightarrow> 's \<Rightarrow> 's res) \<Rightarrow> string \<Rightarrow> 's schema \<Rightarrow> unit res \<times> 's schema" where
  "sql_file run sql d =
     (case run sql (sc_tables d) of Inl e \<Rightarrow> (Inl e, d) | Inr s \<Rightarrow> (Inr (), d\<lparr>sc_tables := s\<rparr>))"

section \<open>The lock\<close>

text \<open>
  \<open>pg_advisory_lock\<close> waits for other instances and takes the lock for the session of the connection that serves
  the call; \<open>pg_advisory_unlock\<close> from another session has no effect. A connection lost during the call takes its
  session and the lock with it.
\<close>

definition pool_conn :: "'s migrator \<Rightarrow> nat \<times> 's migrator" where
  "pool_conn m = (case mg_conns m of [] \<Rightarrow> (0, m) | c # cs \<Rightarrow> (c, m\<lparr>mg_conns := cs\<rparr>))"

definition advisory_lock :: "'s migrator \<Rightarrow> unit res \<times> 's migrator" where
  "advisory_lock m =
     (case pool_conn m of
        (c, m1) \<Rightarrow>
          (case pool_call (\<lambda>d. (Inr (), d)) m1 of
             (Inl e, m2) \<Rightarrow> (Inl e, m2)
           | (Inr _, m2) \<Rightarrow> (Inr (), m2\<lparr>mg_lock := Some c\<rparr>)))"

definition advisory_unlock :: "'s migrator \<Rightarrow> 's migrator" where
  "advisory_unlock m =
     (case pool_conn m of
        (c, m1) \<Rightarrow>
          (case pool_call (\<lambda>d. (Inr (), d)) m1 of
             (Inl _, m2) \<Rightarrow> m2
           | (Inr _, m2) \<Rightarrow> (if mg_lock m2 = Some c then m2\<lparr>mg_lock := None\<rparr> else m2)))"

section \<open>Migrate\<close>

definition parseVersion :: "string \<Rightarrow> int option" where
  "parseVersion filename = (case Split2 (CHR ''_'') filename of p # _ # _ \<Rightarrow> ParseInt p | _ \<Rightarrow> None)"

record migration =
  mi_version :: int
  mi_name :: string
  mi_sql :: string

text \<open>The embedded directory: names with contents, in the order of the names.\<close>

fun find_pending :: "int \<Rightarrow> (string \<times> string) list \<Rightarrow> migration list res" where
  "find_pending current [] = Inr []"
| "find_pending current ((name, sql) # es) =
     (if \<not> HasSuffix name ''.up.sql'' then find_pending current es
      else (case parseVersion name of
              None \<Rightarrow> Inl (Errorf (''parsing migration filename '' @ name))
            | Some v \<Rightarrow>
                map_res (\<lambda>ms. if current < v then \<lparr>mi_version = v, mi_name = name, mi_sql = sql\<rparr> # ms else ms)
                  (find_pending current es)))"

text \<open>One file in its transaction; what the rollback returns is ignored.\<close>

definition apply_migration :: "(string \<Rightarrow> 's \<Rightarrow> 's res) \<Rightarrow> migration \<Rightarrow> 's migrator \<Rightarrow> unit res \<times> 's migrator" where
  "apply_migration run p m =
     (case pool_call (\<lambda>d. (Inr (), d)) m of
        (Inl e, m1) \<Rightarrow> (Inl (wrap_err ''beginning transaction for migration'' e), m1)
      | (Inr _, m1) \<Rightarrow>
          (case in_tx (sql_file run (mi_sql p)) (mg_schema m1) m1 of
             ((Inl e, _), m2) \<Rightarrow> (Inl (wrap_err (''applying migration '' @ mi_name p) e), m2)
           | ((Inr _, t1), m2) \<Rightarrow>
               (case in_tx (sql_record (mi_version p)) t1 m2 of
                  ((Inl e, _), m3) \<Rightarrow> (Inl (wrap_err ''recording migration'' e), m3)
                | ((Inr _, t2), m3) \<Rightarrow>
                    (case pool_call (\<lambda>_. (Inr (), t2)) m3 of
                       (Inl e, m4) \<Rightarrow> (Inl (wrap_err ''committing migration'' e), m4)
                     | (Inr _, m4) \<Rightarrow> (Inr (), m4)))))"

fun apply_loop :: "(string \<Rightarrow> 's \<Rightarrow> 's res) \<Rightarrow> migration list \<Rightarrow> 's migrator \<Rightarrow> unit res \<times> 's migrator" where
  "apply_loop run [] m = (Inr (), m)"
| "apply_loop run (p # ps) m =
     (case apply_migration run p m of
        (Inl e, m1) \<Rightarrow> (Inl e, m1)
      | (Inr _, m1) \<Rightarrow> apply_loop run ps m1)"

text \<open>What happens while the lock is held, before the deferred unlock.\<close>

definition migrate_locked ::
  "(string \<Rightarrow> 's \<Rightarrow> 's res) \<Rightarrow> (string \<times> string) list \<Rightarrow> 's migrator \<Rightarrow> unit res \<times> 's migrator" where
  "migrate_locked run files m =
     (case pool_call sql_current m of
        (Inl e, m1) \<Rightarrow> (Inl (wrap_err ''reading current migration version'' e), m1)
      | (Inr current, m1) \<Rightarrow>
          (case find_pending current files of
             Inl e \<Rightarrow> (Inl e, m1)
           | Inr pending \<Rightarrow> apply_loop run (sort_key mi_version pending) m1))"

definition Migrate :: "(string \<Rightarrow> 's \<Rightarrow> 's res) \<Rightarrow> (string \<times> string) list \<Rightarrow> 's migrator \<Rightarrow> unit res \<times> 's migrator" where
  "Migrate run files m =
     (case pool_call sql_create_versions m of
        (Inl e, m1) \<Rightarrow> (Inl (wrap_err ''creating schema_migrations table'' e), m1)
      | (Inr _, m1) \<Rightarrow>
          (case advisory_lock m1 of
             (Inl e, m2) \<Rightarrow> (Inl (wrap_err ''acquiring migration lock'' e), m2)
           | (Inr _, m2) \<Rightarrow> map_prod (\<lambda>r. r) advisory_unlock (migrate_locked run files m2)))"

text \<open>The files of \<open>migrations/*.up.sql\<close>.\<close>

definition migration_names :: "string list" where
  "migration_names =
     [''001_initial_schema.up.sql'', ''002_syspro_order_number.up.sql'', ''003_fulfilment.up.sql'',
      ''004_fulfilled_status.up.sql'', ''005_shipping_amount.up.sql'', ''006_payment_postings.up.sql'',
      ''007_order_cancellations.up.sql'']"

end
