(* ===== verification/Lifecycle.thy ===== *)
theory Lifecycle
  imports Server Migrate
begin

text \<open>
  \<open>run\<close> of \<open>cmd/server/main.go\<close> from end to end: what is done before anything is started, what is started, and what
  happens between a signal and the end of the process; with \<open>New\<close> of \<open>internal/store/store.go\<close>.
\<close>

section \<open>Start\<close>

text \<open>What connecting comes to: a URL that does not parse, a pool that cannot be made, a ping that fails, or a pool.\<close>

datatype connect_outcome = ParseFails string | PoolFails string | PingFails string | Connected

fun store_New :: "connect_outcome \<Rightarrow> unit res" where
  "store_New (ParseFails s) = Inl (wrap_err ''parsing database URL'' (Errorf s))"
| "store_New (PoolFails s) = Inl (wrap_err ''creating connection pool'' (Errorf s))"
| "store_New (PingFails s) = Inl (wrap_err ''pinging database'' (Errorf s))"
| "store_New Connected = Inr ()"

datatype component = CStock | CBatch | CSweeper | CCashReport | CIntakeReport | CPayments | CFulfilment

instantiation component :: enum
begin

definition enum_component :: "component list" where
  "enum_component = [CStock, CBatch, CSweeper, CCashReport, CIntakeReport, CPayments, CFulfilment]"

definition enum_all_component :: "(component \<Rightarrow> bool) \<Rightarrow> bool" where
  "enum_all_component P \<longleftrightarrow> list_all P enum_class.enum"

definition enum_ex_component :: "(component \<Rightarrow> bool) \<Rightarrow> bool" where
  "enum_ex_component P \<longleftrightarrow> list_ex P enum_class.enum"

instance
proof
  show all: "(UNIV :: component set) = set enum_class.enum"
  proof
    show "(UNIV :: component set) \<subseteq> set enum_class.enum"
    proof
      fix x :: component
      show "x \<in> set enum_class.enum" by (cases x) (simp_all add: enum_component_def)
    qed
  qed simp
  show "distinct (enum_class.enum :: component list)" by (simp add: enum_component_def)
  show "enum_class.enum_all P \<longleftrightarrow> Ball (UNIV :: component set) P" for P
    by (simp add: enum_all_component_def list_all_iff all)
  show "enum_class.enum_ex P \<longleftrightarrow> Bex (UNIV :: component set) P" for P
    by (simp add: enum_ex_component_def list_ex_iff all)
qed

end

text \<open>The goroutines, in the order in which they are started.\<close>

definition started :: "config \<Rightarrow> bool \<Rightarrow> component list" where
  "started c sql_up =
     (if stock_start c sql_up = None then [] else [CStock]) @ [CBatch] @
     (if sweeper_start c = None then [] else [CSweeper]) @
     (if cash_start c = None then [] else [CCashReport]) @
     (if intake_start c = None then [] else [CIntakeReport]) @
     (if payments_start c = None then [] else [CPayments]) @
     (if fulfil_start c = None then [] else [CFulfilment])"

definition start_service ::
  "(string \<Rightarrow> 's \<Rightarrow> 's res) \<Rightarrow> (string \<times> string) list \<Rightarrow> env \<Rightarrow> connect_outcome \<Rightarrow> bool \<Rightarrow> 's migrator \<Rightarrow> world \<Rightarrow>
     (config \<times> component list) res \<times> 's migrator \<times> world" where
  "start_service sql files env conn sql_up m w =
     (case Load env of
        Inl e \<Rightarrow> (Inl (wrap_err ''loading config'' e), m, w)
      | Inr c \<Rightarrow>
          (case store_New conn of
             Inl e \<Rightarrow> (Inl (wrap_err ''connecting to database'' e), m, w)
           | Inr _ \<Rightarrow>
               (case Migrate sql files m of
                  (Inl e, m1) \<Rightarrow> (Inl (wrap_err ''running migrations'' e), m1, w)
                | (Inr _, m1) \<Rightarrow> (Inr (c, started c sql_up), m1, boot_reset w))))"

section \<open>Shutdown\<close>

text \<open>
  After a signal a timer is set for some of the components, and \<open>srv.Shutdown\<close> waits for the open requests, which need
  \<open>busy\<close> nanoseconds, for at most 15 seconds. When it returns every component is cancelled, at once or by the
  deferred calls of the error return, and the process ends.
\<close>

fun drain_timer :: "component \<Rightarrow> int option" where
  "drain_timer CBatch = Some (10 * Second)"
| "drain_timer CStock = Some (10 * Second)"
| "drain_timer CFulfilment = Some (10 * Second)"
| "drain_timer CPayments = Some (10 * Second)"
| "drain_timer CCashReport = Some (5 * Second)"
| "drain_timer CSweeper = None"
| "drain_timer CIntakeReport = None"

definition server_Shutdown :: "int \<Rightarrow> unit res \<times> int" where
  "server_Shutdown busy =
     (if busy \<le> 15 * Second then (Inr (), busy) else (Inl (Errorf ''context deadline exceeded''), 15 * Second))"

text \<open>When, after the signal, the context of a component is cancelled, and what \<open>run\<close> returns when.\<close>

definition cancelled_after :: "int \<Rightarrow> component \<Rightarrow> int" where
  "cancelled_after busy x =
     (case (server_Shutdown busy, drain_timer x) of
        ((_, d), None) \<Rightarrow> d
      | ((_, d), Some g) \<Rightarrow> min g d)"

definition shutdown_service :: "int \<Rightarrow> unit res \<times> int" where
  "shutdown_service busy =
     (case server_Shutdown busy of
        (Inl e, d) \<Rightarrow> (Inl (wrap_err ''server shutdown'' e), d)
      | (Inr _, d) \<Rightarrow> (Inr (), d))"

section \<open>A submission cut short\<close>

text \<open>\<open>submitOrder\<close> up to the answer of SYSPRO, when the process ends there.\<close>

definition killed_submission :: "enet_session \<Rightarrow> order_with_lines \<Rightarrow> world \<Rightarrow> world" where
  "killed_submission ses ow w =
     snd (SubmitOrder ses (ow_Order ow) (ow_Lines ow) (snd (MarkOrderProcessing (ord_ID (ow_Order ow)) w)))"

end
