(* ===== verification/MigrateProps.thy ===== *)
theory MigrateProps
  imports Migrate
begin

text \<open>
  Migrations over the life of a database: whatever fails at whichever start, every file is executed exactly once,
  in the order of the versions, and the lock that guards this is given back only by the session that took it.
\<close>

section \<open>The files\<close>

definition valid_version :: "int option \<Rightarrow> bool" where
  "valid_version ov = (case ov of None \<Rightarrow> False | Some v \<Rightarrow> 0 < v \<and> v < 2 ^ 31)"

lemma valid_version_Some: "valid_version ov \<Longrightarrow> ov \<noteq> None"
  by (cases ov) (simp_all add: valid_version_def)

definition numbered :: "(string \<times> string) list \<Rightarrow> bool" where
  "numbered files \<longleftrightarrow>
     list_all (\<lambda>(n, _). HasSuffix n ''.up.sql'' \<and> valid_version (parseVersion n)) files \<and>
     distinct (map (\<lambda>(n, _). parseVersion n) files)"

definition migration_of :: "string \<times> string \<Rightarrow> migration" where
  "migration_of e = \<lparr>mi_version = the (parseVersion (fst e)), mi_name = fst e, mi_sql = snd e\<rparr>"

text \<open>All the migrations there are, in the order of their versions.\<close>

definition todo :: "(string \<times> string) list \<Rightarrow> migration list" where
  "todo files = sort_key mi_version (map migration_of files)"

lemma shipped_files_numbered: "numbered (map (\<lambda>n. (n, c n)) migration_names)"
  by (simp add: numbered_def comp_def) code_simp

lemma find_pending_numbered:
  assumes "list_all (\<lambda>(n, _). HasSuffix n ''.up.sql'' \<and> valid_version (parseVersion n)) files"
  shows "find_pending c files = Inr (filter (\<lambda>p. c < mi_version p) (map migration_of files))"
  using assms by (induction files) (auto simp: migration_of_def valid_version_def split: option.splits)

lemma todo_range: "numbered files \<Longrightarrow> p \<in> set (todo files) \<Longrightarrow> 0 < mi_version p \<and> mi_version p < 2 ^ 31"
  by (auto simp: todo_def numbered_def list_all_iff migration_of_def valid_version_def split: option.splits)

lemma todo_increasing:
  assumes "numbered files"
  shows "sorted_wrt (\<lambda>p q. mi_version p < mi_version q) (todo files)"
proof -
  have "valid_version ov" if "ov \<in> set (map (\<lambda>(n, _). parseVersion n) files)" for ov
    using that assms by (auto simp: numbered_def list_all_iff)
  then have "ov \<noteq> None" if "ov \<in> set (map (\<lambda>(n, _). parseVersion n) files)" for ov
    using that valid_version_Some by blast
  then have "inj_on the (set (map (\<lambda>(n, _). parseVersion n) files))"
    by (intro inj_onI) (metis option.expand)
  with assms have "distinct (map the (map (\<lambda>(n, _). parseVersion n) files))"
    by (simp add: numbered_def distinct_map del: map_map)
  then have "distinct (map mi_version (map migration_of files))"
    by (simp add: migration_of_def comp_def case_prod_beta)
  moreover have "mset (map mi_version (todo files)) = mset (map mi_version (map migration_of files))"
    by (simp add: todo_def multiset.map_comp)
  ultimately have "distinct (map mi_version (todo files))" by (metis mset_eq_imp_distinct_iff)
  moreover have "sorted (map mi_version (todo files))" by (simp add: todo_def)
  ultimately have "sorted_wrt (<) (map mi_version (todo files))" by (simp add: strict_sorted_iff)
  then show ?thesis by (simp add: sorted_wrt_map)
qed

text \<open>What is left after the first \<open>k\<close> is what is above the highest version recorded.\<close>

definition current_of :: "int list \<Rightarrow> int" where
  "current_of vs = (if vs = [] then 0 else Max (set vs))"

lemma pending_after:
  assumes "numbered files"
  shows "filter (\<lambda>p. current_of (map mi_version (take k (todo files))) < mi_version p) (todo files) = drop k (todo files)"
proof -
  let ?t = "take k (todo files)" and ?d = "drop k (todo files)" and ?c = "current_of (map mi_version (take k (todo files)))"
  have "sorted_wrt (\<lambda>p q. mi_version p < mi_version q) (?t @ ?d)" using todo_increasing [OF assms] by simp
  then have lt: "mi_version p < mi_version q" if "p \<in> set ?t" "q \<in> set ?d" for p q
    using that unfolding sorted_wrt_append by blast
  have "\<not> ?c < mi_version p" if "p \<in> set ?t" for p
    using that by (auto simp: current_of_def not_less)
  moreover have "?c < mi_version q" if "q \<in> set ?d" for q
    using that lt todo_range [OF assms, of q] by (auto simp: current_of_def dest: in_set_dropD)
  ultimately have "filter (\<lambda>p. ?c < mi_version p) ?t = []" "filter (\<lambda>p. ?c < mi_version p) ?d = ?d"
    by (simp_all add: filter_empty_conv filter_id_conv)
  then show ?thesis by (metis append_Nil append_take_drop_id filter_append)
qed

section \<open>How far a schema is\<close>

text \<open>The tables after the files of \<open>ps\<close>, in that order, if all of them succeed.\<close>

fun run_all :: "(string \<Rightarrow> 's \<Rightarrow> 's res) \<Rightarrow> migration list \<Rightarrow> 's \<Rightarrow> 's option" where
  "run_all run [] s = Some s"
| "run_all run (p # ps) s = (case run (mi_sql p) s of Inl _ \<Rightarrow> None | Inr s' \<Rightarrow> run_all run ps s')"

lemma run_all_snoc: "run_all run ps s = Some s1 \<Longrightarrow> run (mi_sql p) s1 = Inr s2 \<Longrightarrow> run_all run (ps @ [p]) s = Some s2"
  by (induction ps arbitrary: s) (auto split: sum.splits)

definition at_step ::
  "(string \<Rightarrow> 's \<Rightarrow> 's res) \<Rightarrow> (string \<times> string) list \<Rightarrow> 's \<Rightarrow> nat \<Rightarrow> 's schema \<Rightarrow> bool" where
  "at_step run files s0 k d \<longleftrightarrow>
     k \<le> length (todo files) \<and> run_all run (take k (todo files)) s0 = Some (sc_tables d) \<and>
     sc_versions d = Some (map mi_version (take k (todo files)))"

lemma ended_cases:
  "ended evs rx x = rx \<or> (\<exists>e. ended evs rx x = (Inl e, x)) \<or> (\<exists>e. ended evs rx x = (Inl e, snd rx))"
  by (auto simp: ended_def split: list.splits db_event.splits)

lemma ended_ok: "ended evs rx x = (Inr r, y) \<Longrightarrow> rx = (Inr r, y)"
  by (auto simp: ended_def split: list.splits db_event.splits)

lemma pool_call_ok: "pool_call f m = (Inr r, m') \<Longrightarrow> f (mg_schema m) = (Inr r, mg_schema m')"
  by (auto simp: pool_call_def dest!: ended_ok split: prod.splits)

lemma pool_call_schema: "mg_schema (snd (pool_call f m)) \<in> {mg_schema m, snd (f (mg_schema m))}"
  using ended_cases [of "mg_dbs m" "f (mg_schema m)" "mg_schema m"]
  by (auto simp: pool_call_def split: prod.splits)

lemma apply_migration_cases:
  assumes "apply_migration run p m = (r, m')" "sc_versions (mg_schema m) = Some vs"
  shows "r \<noteq> Inr () \<and> mg_schema m' = mg_schema m \<or>
    (\<exists>s. run (mi_sql p) (sc_tables (mg_schema m)) = Inr s \<and>
       mg_schema m' = (mg_schema m)\<lparr>sc_tables := s, sc_versions := Some (vs @ [mi_version p])\<rparr>)"
proof -
  obtain b m1 where b: "pool_call (\<lambda>d. (Inr (), d)) m = (b :: unit res, m1)" by (rule prod.exhaust)
  have s1: "mg_schema m1 = mg_schema m" using pool_call_schema [of "\<lambda>d. (Inr () :: unit res, d)" m] by (simp add: b)
  obtain x t1 m2 where "in_tx (sql_file run (mi_sql p)) (mg_schema m1) m1 = ((x, t1), m2)" by (metis prod.exhaust)
  then have x: "in_tx (sql_file run (mi_sql p)) (mg_schema m) m1 = ((x, t1), m2)" by (simp add: s1)
  obtain y t2 m3 where y: "in_tx (sql_record (mi_version p)) t1 m2 = ((y, t2), m3)" by (metis prod.exhaust)
  have s3: "mg_schema m2 = mg_schema m1" "mg_schema m3 = mg_schema m1" using x y by (auto simp: in_tx_def)
  obtain z m4 where z: "pool_call (\<lambda>_. (Inr (), t2)) m3 = (z :: unit res, m4)" by (rule prod.exhaust)
  have s4: "mg_schema m4 \<in> {mg_schema m, t2}"
    using pool_call_schema [of "\<lambda>_. (Inr () :: unit res, t2)" m3] by (simp add: z s1 s3)
  show ?thesis
  proof (cases "\<exists>u. b = Inr u \<and> x = Inr u \<and> y = Inr u")
    case False
    then show ?thesis using assms(1) s1 s3
      by (cases b; cases x; cases y) (auto simp: apply_migration_def b s1 x y)
  next
    case True
    then have ok: "b = Inr ()" "x = Inr ()" "y = Inr ()" by auto
    have f: "sql_file run (mi_sql p) (mg_schema m) = (Inr (), t1)" "sql_record (mi_version p) t1 = (Inr (), t2)"
      using x y ok by (auto simp: in_tx_def dest!: ended_ok)
    then obtain s where "run (mi_sql p) (sc_tables (mg_schema m)) = Inr s"
      "t2 = (mg_schema m)\<lparr>sc_tables := s, sc_versions := Some (vs @ [mi_version p])\<rparr>"
      using assms(2) by (auto simp: sql_file_def sql_record_def split: sum.splits if_splits)
    moreover have "mg_schema m' = mg_schema m4" "r = Inr () \<Longrightarrow> z = Inr ()"
      using assms(1) by (cases z; auto simp: apply_migration_def b s1 x y z ok)+
    moreover have "z = Inr () \<Longrightarrow> mg_schema m4 = t2" using pool_call_ok z by fastforce
    ultimately show ?thesis using s4 by auto
  qed
qed

lemma apply_loop_steps:
  assumes "apply_loop run (drop k (todo files)) m = (r, m')" "at_step run files s0 k (mg_schema m)"
  shows "\<exists>j. at_step run files s0 j (mg_schema m') \<and> k \<le> j \<and> (r = Inr () \<longrightarrow> j = length (todo files))"
  using assms
proof (induction "length (todo files) - k" arbitrary: k m)
  case 0
  then show ?case by (auto simp: at_step_def)
next
  case (Suc n)
  then have k: "k < length (todo files)" by simp
  let ?p = "todo files ! k"
  have d: "drop k (todo files) = ?p # drop (Suc k) (todo files)" using k by (simp add: Cons_nth_drop_Suc)
  obtain x m1 where x: "apply_migration run ?p m = (x, m1)" by (rule prod.exhaust)
  have v: "sc_versions (mg_schema m) = Some (map mi_version (take k (todo files)))"
    using Suc.prems(2) by (simp add: at_step_def)
  from apply_migration_cases [OF x v] consider
      "x \<noteq> Inr ()" "mg_schema m1 = mg_schema m" | "at_step run files s0 (Suc k) (mg_schema m1)"
    using Suc.prems(2) k by (auto simp: at_step_def take_Suc_conv_app_nth run_all_snoc)
  then show ?case
  proof cases
    case 1
    then show ?thesis using Suc.prems by (cases x) (auto simp: d x)
  next
    case 2
    show ?thesis
    proof (cases x)
      case (Inl e)
      then show ?thesis using Suc.prems(1) 2 by (intro exI [of _ "Suc k"]) (auto simp: d x)
    next
      case (Inr u)
      with Suc.prems(1) have "apply_loop run (drop (Suc k) (todo files)) m1 = (r, m')" by (simp add: d x)
      from Suc.hyps(1) [OF _ this 2] Suc.hyps(2) show ?thesis by force
    qed
  qed
qed

section \<open>Starts\<close>

text \<open>One start of the service with its failures: nobody holds the lock, and \<open>d\<close> is what earlier starts left.\<close>

definition boot ::
  "(string \<Rightarrow> 's \<Rightarrow> 's res) \<Rightarrow> (string \<times> string) list \<Rightarrow> db_event list \<times> nat list \<Rightarrow> 's schema \<Rightarrow> unit res \<times> 's schema" where
  "boot run files b d =
     map_prod (\<lambda>r. r) mg_schema
       (Migrate run files \<lparr>mg_schema = d, mg_dbs = fst b, mg_conns = snd b, mg_lock = None\<rparr>)"

fun boots ::
  "(string \<Rightarrow> 's \<Rightarrow> 's res) \<Rightarrow> (string \<times> string) list \<Rightarrow> (db_event list \<times> nat list) list \<Rightarrow> 's schema \<Rightarrow>
     unit res list \<times> 's schema" where
  "boots run files [] d = ([], d)"
| "boots run files (b # bs) d =
     (case boot run files b d of (r, d1) \<Rightarrow> (case boots run files bs d1 of (rs, d2) \<Rightarrow> (r # rs, d2)))"

text \<open>Before the first start the table of versions is missing.\<close>

definition reached ::
  "(string \<Rightarrow> 's \<Rightarrow> 's res) \<Rightarrow> (string \<times> string) list \<Rightarrow> 's \<Rightarrow> nat \<Rightarrow> 's schema \<Rightarrow> bool" where
  "reached run files s0 k d \<longleftrightarrow> at_step run files s0 k d \<or> k = 0 \<and> d = \<lparr>sc_tables = s0, sc_versions = None\<rparr>"

lemma migrate_locked_steps:
  assumes "numbered files" "migrate_locked run files m = (r, m')" "at_step run files s0 k (mg_schema m)"
  shows "\<exists>j. at_step run files s0 j (mg_schema m') \<and> k \<le> j \<and> (r = Inr () \<longrightarrow> j = length (todo files))"
proof -
  obtain x m1 where x: "pool_call sql_current m = (x, m1)" by (rule prod.exhaust)
  have v: "sc_versions (mg_schema m) = Some (map mi_version (take k (todo files)))"
    using assms(3) by (simp add: at_step_def)
  have s: "mg_schema m1 = mg_schema m"
    using pool_call_schema [of sql_current m] v by (auto simp: x sql_current_def)
  show ?thesis
  proof (cases x)
    case (Inl e)
    then show ?thesis using assms s by (auto simp: migrate_locked_def x)
  next
    case (Inr c)
    then have c: "c = current_of (map mi_version (take k (todo files)))"
      using pool_call_ok [of sql_current m c m1] x v by (auto simp: sql_current_def current_of_def)
    have "find_pending c files = Inr (filter (\<lambda>p. c < mi_version p) (map migration_of files))"
      using assms(1) by (simp add: numbered_def find_pending_numbered)
    moreover have "sort_key mi_version (filter (\<lambda>p. c < mi_version p) (map migration_of files)) = drop k (todo files)"
      using pending_after [OF assms(1), of k] by (simp add: c todo_def filter_sort)
    ultimately have "apply_loop run (drop k (todo files)) m1 = (r, m')"
      using assms(2) Inr by (simp add: migrate_locked_def x)
    from apply_loop_steps [OF this] show ?thesis using assms(3) s by simp
  qed
qed

lemma lock_schema:
  "mg_schema (snd (advisory_lock m)) = mg_schema m"
  "mg_schema (advisory_unlock m) = mg_schema m"
proof -
  have p: "mg_schema (snd (pool_conn m)) = mg_schema m" by (simp add: pool_conn_def split: list.splits)
  have q: "mg_schema (snd (pool_call (\<lambda>d. (Inr () :: unit res, d)) n)) = mg_schema n" for n :: "'s migrator"
    using pool_call_schema [of "\<lambda>d. (Inr () :: unit res, d)" n] by simp
  show "mg_schema (snd (advisory_lock m)) = mg_schema m"
    using p q [of "snd (pool_conn m)"] by (auto simp: advisory_lock_def split: prod.splits sum.splits)
  show "mg_schema (advisory_unlock m) = mg_schema m"
    using p q [of "snd (pool_conn m)"] by (auto simp: advisory_unlock_def split: prod.splits sum.splits)
qed

lemma boot_steps:
  assumes "numbered files" "boot run files b d = (r, d')" "reached run files s0 k d"
  shows "\<exists>j. reached run files s0 j d' \<and> k \<le> j \<and>
    (r = Inr () \<longrightarrow> j = length (todo files) \<and> at_step run files s0 j d')"
proof -
  let ?m = "\<lparr>mg_schema = d, mg_dbs = fst b, mg_conns = snd b, mg_lock = None\<rparr>"
  obtain x m1 where x: "pool_call sql_create_versions ?m = (x, m1)" by (rule prod.exhaust)
  have c: "at_step run files s0 k (snd (sql_create_versions d))"
    using assms(3) by (auto simp: reached_def at_step_def sql_create_versions_def)
  have s1: "reached run files s0 k (mg_schema m1)"
    using pool_call_schema [of sql_create_versions ?m] c assms(3) by (auto simp: x reached_def)
  have a1: "x = Inr () \<Longrightarrow> at_step run files s0 k (mg_schema m1)"
    using pool_call_ok [of sql_create_versions ?m "()" m1] x c by simp
  obtain y m2 where y: "advisory_lock m1 = (y, m2)" by (rule prod.exhaust)
  have s2: "mg_schema m2 = mg_schema m1" using lock_schema(1) [of m1] by (simp add: y)
  obtain z m3 where z: "migrate_locked run files m2 = (z, m3)" by (rule prod.exhaust)
  show ?thesis
  proof (cases "x = Inr () \<and> y = Inr ()")
    case True
    then have "r = z" "d' = mg_schema m3" using assms(2) by (auto simp: boot_def Migrate_def x y z lock_schema)
    then show ?thesis using migrate_locked_steps [OF assms(1) z, of s0 k] a1 True s2 by (auto simp: reached_def)
  next
    case False
    then have "r \<noteq> Inr () \<and> d' = mg_schema m1"
      using assms(2) s2 by (cases x; cases y) (auto simp: boot_def Migrate_def x y)
    then show ?thesis using s1 by blast
  qed
qed

text \<open>C17: whatever fails during any number of starts, lost commits included, the tables are what the first \<open>k\<close>
  files make of the empty database, each executed exactly once and in the order of the versions; the recorded
  versions are theirs, and once a start has succeeded these are all of them.\<close>

theorem migrations_exactly_once:
  assumes "numbered files" "boots run files bs \<lparr>sc_tables = s0, sc_versions = None\<rparr> = (rs, d)"
  shows "\<exists>k\<le>length (todo files).
    run_all run (take k (todo files)) s0 = Some (sc_tables d) \<and>
    (case sc_versions d of None \<Rightarrow> k = 0 | Some vs \<Rightarrow> vs = map mi_version (take k (todo files))) \<and>
    (Inr () \<in> set rs \<longrightarrow> k = length (todo files))"
proof -
  have "\<exists>j. reached run files s0 j d2 \<and> k \<le> j \<and> (Inr () \<in> set qs \<longrightarrow> j = length (todo files))"
    if "boots run files bs d1 = (qs, d2)" "reached run files s0 k d1" for bs d1 qs d2 k
    using that
  proof (induction bs arbitrary: d1 qs k)
    case Nil
    then show ?case by auto
  next
    case (Cons b bs)
    obtain r d' where b: "boot run files b d1 = (r, d')" by (rule prod.exhaust)
    obtain ps d3 where p: "boots run files bs d' = (ps, d3)" by (rule prod.exhaust)
    from Cons.prems(1) have q: "qs = r # ps" "d3 = d2" by (simp_all add: b p)
    obtain i where i: "reached run files s0 i d'" "k \<le> i" "r = Inr () \<longrightarrow> i = length (todo files)"
      using boot_steps [OF assms(1) b Cons.prems(2)] by blast
    obtain j where j: "reached run files s0 j d2" "i \<le> j" "Inr () \<in> set ps \<longrightarrow> j = length (todo files)"
      using Cons.IH [of d' ps i] p i(1) q by blast
    have "j \<le> length (todo files)" using j(1) by (auto simp: reached_def at_step_def)
    then show ?case using i j by (intro exI [of _ j]) (auto simp: q)
  qed
  from this [OF assms(2), of 0] obtain j where
    "reached run files s0 j d" "Inr () \<in> set rs \<longrightarrow> j = length (todo files)" by (auto simp: reached_def)
  then show ?thesis by (intro exI [of _ j]) (auto simp: reached_def at_step_def)
qed

definition demo_run :: "string \<Rightarrow> string list \<Rightarrow> string list res" where
  "demo_run sql s = Inr (s @ [sql])"

definition demo_files :: "(string \<times> string) list" where
  "demo_files = map (\<lambda>n. (n, n)) (take 3 migration_names)"

text \<open>The commit of the second file is lost; the next start goes on with the third.\<close>

definition demo_boots :: "(db_event list \<times> nat list) list" where
  "demo_boots = [(replicate 10 DbOk @ [DbLost ''reset''], []), ([], [])]"

theorem migrations_exactly_once_witness:
  "snd (boots demo_run demo_files demo_boots \<lparr>sc_tables = [], sc_versions = None\<rparr>) =
     \<lparr>sc_tables = map snd demo_files, sc_versions = Some [1, 2, 3]\<rparr> \<and>
   map is_ok (fst (boots demo_run demo_files demo_boots \<lparr>sc_tables = [], sc_versions = None\<rparr>)) = [False, True]"
proof -
  have n: "numbered demo_files" by code_simp
  have r: "map is_ok (fst (boots demo_run demo_files demo_boots \<lparr>sc_tables = [], sc_versions = None\<rparr>)) = [False, True]"
    by code_simp
  obtain rs d where b: "boots demo_run demo_files demo_boots \<lparr>sc_tables = [], sc_versions = None\<rparr> = (rs, d)"
    by (rule prod.exhaust)
  have "Inr () \<in> set rs" using r b by (auto simp: map_eq_Cons_conv elim!: is_ok.elims)
  with migrations_exactly_once [OF n b] have k: "run_all demo_run (todo demo_files) [] = Some (sc_tables d)"
    "case sc_versions d of None \<Rightarrow> length (todo demo_files) = 0 | Some vs \<Rightarrow> vs = map mi_version (todo demo_files)"
    by (auto split: option.splits)
  have t: "length (todo demo_files) = 3" "map mi_version (todo demo_files) = [1, 2, 3]"
    "run_all demo_run (todo demo_files) [] = Some (map snd demo_files)" by code_simp+
  show ?thesis using k t r by (cases d) (auto simp: b split: option.splits)
qed

section \<open>The lock\<close>

definition lock_kept :: "'s migrator \<Rightarrow> 's migrator \<Rightarrow> bool" where
  "lock_kept m m' \<longleftrightarrow> mg_conns m' = mg_conns m \<and> mg_lock m' = mg_lock m \<and> (mg_dbs m = [] \<longrightarrow> mg_dbs m' = [])"

lemma lock_kept_trans: "lock_kept a b \<Longrightarrow> lock_kept b c \<Longrightarrow> lock_kept a c"
  by (simp add: lock_kept_def)

lemma lock_kept_calls: "lock_kept m (snd (pool_call f m))" "lock_kept m (snd (in_tx g t m))"
  by (simp_all add: lock_kept_def pool_call_def in_tx_def split: prod.splits)

lemma lock_kept_loop: "lock_kept m (snd (apply_loop run ps m))"
proof (induction ps arbitrary: m)
  case Nil
  then show ?case by (simp add: lock_kept_def)
next
  case (Cons p ps)
  have "lock_kept m (snd (apply_migration run p m))"
    by (auto simp: apply_migration_def split: prod.splits sum.splits)
      (metis lock_kept_calls lock_kept_trans snd_conv)+
  then show ?case using Cons.IH by (auto split: prod.splits sum.splits) (metis lock_kept_trans snd_conv)
qed

lemma lock_kept_locked: "lock_kept m (snd (migrate_locked run files m))"
  using lock_kept_calls(1) [of m sql_current] lock_kept_loop lock_kept_trans
  by (fastforce simp: migrate_locked_def split: prod.splits sum.splits)

text \<open>Served by one connection the lock is given back.\<close>

lemma migration_lock_returned:
  assumes "mg_dbs m = []" "mg_conns m = [c, c]"
  shows "mg_lock (snd (Migrate run files m)) = None"
proof -
  let ?m = "m\<lparr>mg_schema := snd (sql_create_versions (mg_schema m)), mg_dbs := [], mg_conns := [c], mg_lock := Some c\<rparr>"
  obtain r m3 where z: "migrate_locked run files ?m = (r, m3)" by (rule prod.exhaust)
  then have "mg_conns m3 = [c]" "mg_lock m3 = Some c" "mg_dbs m3 = []"
    using lock_kept_locked [of ?m run files] by (simp_all add: lock_kept_def)
  then have "mg_lock (advisory_unlock m3) = None"
    by (simp add: advisory_unlock_def pool_conn_def pool_call_def ended_def)
  then show ?thesis using assms z
    by (cases m) (simp add: Migrate_def pool_call_def ended_def advisory_lock_def pool_conn_def sql_create_versions_def)
qed

text \<open>Served by two it stays with the first session after a successful migration, and the next instance waits for it.\<close>

lemma migration_lock_left:
  "map_prod is_ok mg_lock
     (Migrate demo_run demo_files
        \<lparr>mg_schema = \<lparr>sc_tables = [], sc_versions = None\<rparr>, mg_dbs = [], mg_conns = [1, 2], mg_lock = None\<rparr>) =
   (True, Some 1)"
  by code_simp

end
