(* ===== verification/EndToEnd.thy ===== *)
theory EndToEnd
  imports BatchProps WebhookProps StoreProps
begin

text \<open>
  From the webhook to SYSPRO: with a database that answers and a SYSPRO that accepts, a signed delivery of a
  paid order is in SYSPRO after one run of the batch.
\<close>

section \<open>What SYSPRO has to answer\<close>

definition body_of :: "http_outcome \<Rightarrow> string option" where
  "body_of oc = (case oc of Resp st l b \<Rightarrow> if 200 \<le> st \<and> st < 300 then Some (take (10 * 1024 * 1024) b) else None | _ \<Rightarrow> None)"

definition logon_accepted :: "string \<Rightarrow> http_outcome \<Rightarrow> bool" where
  "logon_accepted guid oc \<longleftrightarrow> guid \<noteq> [] \<and> \<not> HasPrefix guid ''ERROR'' \<and> map_option json_or_raw (body_of oc) = Some guid"

definition order_accepted :: "string \<Rightarrow> http_outcome \<Rightarrow> bool" where
  "order_accepted num oc \<longleftrightarrow> (\<exists>raw. map_option json_or_raw (body_of oc) = Some raw \<and> raw \<noteq> [] \<and>
     parseSORTOIResponse raw = Inr \<lparr>res_SysproOrderNumber = num, Success = True, ErrorMessage = []\<rparr>)"

lemma enet_get_ok:
  assumes "w_http w = (oc, dt) # hs" "body_of oc = Some b"
  shows "\<exists>w'. enet_get c path ps w = (Inr b, w') \<and> w_http w' = hs \<and> w_ctx w' = w_ctx w"
  using assms by (cases oc) (auto simp: body_of_def enet_get_def http_do_def Let_def split: if_splits)

lemma OpenSession_ok:
  assumes "w_http w = (oc, dt) # hs" "logon_accepted guid oc"
  shows "\<exists>w'. OpenSession c w = (Inr \<lparr>es_client = c, es_guid = guid\<rparr>, w') \<and> w_http w' = hs \<and> w_ctx w' = w_ctx w \<and>
    w_dbs w' = w_dbs w"
proof -
  from assms(2) obtain b where b: "body_of oc = Some b" "json_or_raw b = guid" "guid \<noteq> []" "\<not> HasPrefix guid ''ERROR''"
    by (auto simp: logon_accepted_def)
  have "w_http (lock w) = (oc, dt) # hs" "w_ctx (lock w) = w_ctx w" using assms(1) by (simp_all add: lock_def)
  with enet_get_ok [of "lock w" oc dt hs b c "''/Logon''" "logon_params c"] b(1)
  obtain w' where w': "enet_get c ''/Logon'' (logon_params c) (lock w) = (Inr b, w')" "w_http w' = hs" "w_ctx w' = w_ctx w"
    by auto
  moreover have "w_dbs w' = w_dbs w" using enet_get_frame(2) [of c "''/Logon''" "logon_params c" "lock w"] by (simp add: w')
  ultimately show ?thesis by (simp add: OpenSession_def logon_def b)
qed

lemma SubmitOrder_ok:
  assumes "w_http w = (oc, dt) # hs" "order_accepted num oc"
  shows "\<exists>w'. SubmitOrder s ord ls w = (Inr \<lparr>res_SysproOrderNumber = num, Success = True, ErrorMessage = []\<rparr>, w') \<and>
    w_dbs w' = w_dbs w"
proof -
  from assms(2) obtain b where b: "body_of oc = Some b" "json_or_raw b \<noteq> []"
    "parseSORTOIResponse (json_or_raw b) = Inr \<lparr>res_SysproOrderNumber = num, Success = True, ErrorMessage = []\<rparr>"
    by (auto simp: order_accepted_def)
  let ?c = "es_client s"
  obtain ps ds where p: "buildSORTOI ord ls (ec_warehouse ?c) (ec_allocationAction ?c) (ec_taxCodeMap ?c) = (ps, ds)"
    by (rule prod.exhaust)
  let ?q = "transaction_params (es_guid s) ''SORTOI'' ps ds"
  from enet_get_ok [OF assms(1) b(1)] obtain w' where w': "enet_get ?c ''/Transaction/Post'' ?q w = (Inr b, w')" by blast
  moreover have "w_dbs w' = w_dbs w" using enet_get_frame(2) [of ?c "''/Transaction/Post''" ?q w] by (simp add: w')
  ultimately show ?thesis by (simp add: SubmitOrder_def submit_sortoi_def p transaction_def b)
qed

section \<open>A run over one order\<close>

lemma MarkOrderProcessing_ok:
  assumes "w_dbs w = []" "db_inv (w_db w)" "v_pending (queue_of (w_db w) i)"
  shows "\<exists>w'. MarkOrderProcessing i w = (Inr True, w') \<and> w_dbs w' = [] \<and> w_http w' = w_http w \<and> w_sent w' = w_sent w \<and>
    w_db w' = snd (sql_mark_processing i (UTC (now w)) (w_db w))"
  using mark_count [OF assms(2), of i "UTC (now w)"] assms(1,3)
  by (auto simp: MarkOrderProcessing_def call_simps)

lemma submitOrder_ok:
  assumes "w_dbs w = []" "db_inv (w_db w)" "queue_of (w_db w) (ord_ID (ow_Order ow)) = Some (OrderStatusPending, a, n, e)"
    "w_http w = (oc, dt) # hs" "order_accepted num oc"
  shows "\<exists>w'. submitOrder db_batch_store (enet_syspro c) ses ow w = (False, w') \<and>
    sortois w' = sortois w @ [sortoi_msg ses (ow_Order ow) (ow_Lines ow)] \<and>
    queue_of (w_db w') (ord_ID (ow_Order ow)) = Some (OrderStatusSubmitted, Attempts (ow_Order ow) + 1, num, [])"
proof -
  let ?i = "ord_ID (ow_Order ow)"
  from MarkOrderProcessing_ok [OF assms(1,2), of ?i] assms(3) obtain w1 where
    m: "MarkOrderProcessing ?i w = (Inr True, w1)" "w_dbs w1 = []" "w_http w1 = w_http w" "w_sent w1 = w_sent w"
    and d1: "w_db w1 = snd (sql_mark_processing ?i (UTC (now w)) (w_db w))" by auto
  from m(3) assms(4) have h1: "w_http w1 = (oc, dt) # hs" by simp
  from SubmitOrder_ok [OF h1 assms(5)] obtain w2 where
    s: "SubmitOrder ses (ow_Order ow) (ow_Lines ow) w1 =
        (Inr \<lparr>res_SysproOrderNumber = num, Success = True, ErrorMessage = []\<rparr>, w2)" "w_dbs w2 = w_dbs w1" by blast
  note sf = SubmitOrder_frame [OF s(1)]
  have e: "w_dbs w2 = []" "w_db w2 = w_db w1" using s(2) m(2) sf by simp_all
  obtain r w3 where u: "UpdateOrderSubmitted ?i num (Attempts (ow_Order ow) + 1) w2 = (r, w3)" by (rule prod.exhaust)
  have w3: "w_db w3 = snd (sql_submitted_update ?i num (Attempts (ow_Order ow) + 1) (UTC (now w2)) (w_db w2))" "w_sent w3 = w_sent w2"
    using u e(1) by (auto simp: UpdateOrderSubmitted_def call_simps split: if_splits)
  have "submitOrder db_batch_store (enet_syspro c) ses ow w = (False, w3)"
    by (simp add: submitOrder_def db_batch_store_def enet_syspro_def m(1) s(1) u)
  moreover have "sortois w3 = sortois w @ [sortoi_msg ses (ow_Order ow) (ow_Lines ow)]"
    using sf m(4) w3(2) by (simp add: sortois_def)
  moreover have "queue_of (w_db w3) ?i = Some (OrderStatusSubmitted, Attempts (ow_Order ow) + 1, num, [])"
    by (simp add: w3(1) e(2) d1 submitted_refines mark_refines assms(3))
  ultimately show ?thesis by blast
qed

lemma one_order_batch:
  assumes "w_dbs w = []" "w_ctx w = []" "db_inv (w_db w)" "FetchPendingOrders 100 w = (Inr [ow], w)"
    "queue_of (w_db w) (ord_ID (ow_Order ow)) = Some (OrderStatusPending, a, n, e)"
    "w_http w = (oc1, dt1) # (oc2, dt2) # hs" "logon_accepted guid oc1" "order_accepted num oc2"
  shows "sortois (run_batch c w) = sortois w @ [sortoi_msg \<lparr>es_client = c, es_guid = guid\<rparr> (ow_Order ow) (ow_Lines ow)] \<and>
    queue_of (w_db (run_batch c w)) (ord_ID (ow_Order ow)) = Some (OrderStatusSubmitted, Attempts (ow_Order ow) + 1, num, [])"
proof -
  let ?ses = "\<lparr>es_client = c, es_guid = guid\<rparr>"
  from OpenSession_ok [OF assms(6,7), of c] obtain w1 where o: "OpenSession c w = (Inr ?ses, w1)"
    "w_http w1 = (oc2, dt2) # hs" "w_ctx w1 = []" "w_dbs w1 = []" using assms(1,2) by auto
  note of = OpenSession_frame [OF o(1)]
  have x: "ctx_err w1 = (False, w1)" by (simp add: ctx_err_def o(3))
  from submitOrder_ok [OF o(4) _ _ o(2) assms(8), of ow a n e c ?ses] of assms(3,5) obtain w2 where
    s: "submitOrder db_batch_store (enet_syspro c) ?ses ow w1 = (False, w2)"
      "sortois w2 = sortois w1 @ [sortoi_msg ?ses (ow_Order ow) (ow_Lines ow)]"
      "queue_of (w_db w2) (ord_ID (ow_Order ow)) = Some (OrderStatusSubmitted, Attempts (ow_Order ow) + 1, num, [])" by auto
  obtain r w3 where cl: "CloseSession ?ses w2 = (r, w3)" by (rule prod.exhaust)
  have "run_batch c w = w3"
    by (simp add: run_batch_def ProcessBatch_def db_batch_store_def enet_syspro_def assms(4) o(1) x cl
        s(1) [unfolded db_batch_store_def enet_syspro_def])
  with CloseSession_frame [OF cl] s(2,3) of show ?thesis by simp
qed

section \<open>A delivery\<close>

definition delivered :: "pgconv \<Rightarrow> string \<Rightarrow> shopify_order \<Rightarrow> string \<Rightarrow> world \<Rightarrow> db" where
  "delivered pg wid p body w =
     created_db pg (UTC (now w)) \<lparr>ev_ID = 0, WebhookID = wid, Topic = ''orders/create'', ReceivedAt = zero_time\<rparr>
       (fst (mapOrder (now w) p body)) (snd (mapOrder (now w) p body)) (w_db w)"

lemma delivery_ok:
  assumes "w_dbs w = []" "authentic secret r" "req_body r = Some b" "payload_of r = Some p" "acceptable p"
    "webhook_id r \<noteq> []" "webhook_id r \<notin> known_ids w" "p_ID p \<notin> staged_ids w"
  shows "handleOrderCreate (db_order_store pg) secret now r trig w =
    ((respond 200 ''status'' ''ok'', map_option (\<lambda>_. True) trig),
     w\<lparr>w_db := delivered pg (webhook_id r) p (take maxBodySize b) w\<rparr>)"
proof -
  have hm: "VerifyHMAC (take maxBodySize b) secret (header ''X-Shopify-Hmac-Sha256'' r)"
    and um: "unmarshal (jstruct dec_order) (take maxBodySize b) = Some p"
    using assms(2,3,4) by (auto simp: authentic_def payload_of_def)
  have wid: "header ''X-Shopify-Webhook-Id'' r = webhook_id r" by (simp add: webhook_id_def)
  have ex: "WebhookExists (webhook_id r) w = (Inr False, w)"
    using assms(1,7) by (auto simp: WebhookExists_def call_simps known_ids_def image_iff)
  let ?ev = "\<lparr>ev_ID = 0, WebhookID = webhook_id r, Topic = ''orders/create'', ReceivedAt = zero_time\<rparr>"
  obtain ord ls where m: "mapOrder (now w) p (take maxBodySize b) = (ord, ls)" by (rule prod.exhaust)
  have "ShopifyOrderID ord = p_ID p" using mapOrder_id [of "now w" p "take maxBodySize b"] by (simp add: m)
  then have "fresh_for ?ev ord (w_db w)" using assms(7,8) by (auto simp: fresh_for_def known_ids_def staged_ids_def)
  from CreateOrder_ok [OF assms(1) this, of pg ls] show ?thesis
    using assms(5,6)
    by (simp add: handleOrderCreate_def assms(3) hm wid Let_def db_order_store_def ex um acceptable_def m delivered_def)
qed


section \<open>From the webhook to SYSPRO\<close>

lemma delivered_pending:
  assumes "fresh_for ev ord d" "\<forall>r\<in>set (orders d). Status r \<noteq> OrderStatusPending" "Status ord = OrderStatusPending"
  shows "sql_pending 100 (created_db pg t ev ord ls d) = [order_row pg t (seq_order d + 1) ord]"
proof -
  have "filter (\<lambda>r. Status r = OrderStatusPending) (orders d) = []" using assms(2) by (simp add: filter_empty_conv)
  then show ?thesis using assms(1,3) by (simp add: sql_pending_def created_db_rows order_row_def)
qed

text \<open>C6: a signed delivery of an acceptable order that is not known yet is acknowledged, and the next run of the
  batch, with SYSPRO accepting the logon and the order, posts exactly one SORTOI, with the order's Shopify id and the
  SKUs and quantities of the payload, and leaves the order submitted under SYSPRO's number; provided the database
  answers and nothing else is waiting.\<close>

theorem paid_order_reaches_syspro:
  assumes "w_dbs w = []" "w_ctx w = []" "db_inv (w_db w)" "\<forall>r\<in>set (orders (w_db w)). Status r \<noteq> OrderStatusPending"
    and "w_http w = (oc1, dt1) # (oc2, dt2) # hs" "logon_accepted guid oc1" "order_accepted num oc2"
    and "authentic secret r" "payload_of r = Some p" "acceptable p"
    and "webhook_id r \<noteq> []" "webhook_id r \<notin> known_ids w" "p_ID p \<notin> staged_ids w"
  shows "\<exists>w1 ord ls. handleOrderCreate (db_order_store pg) secret now r trig w =
      ((respond 200 ''status'' ''ok'', map_option (\<lambda>_. True) trig), w1) \<and>
    sortois (run_batch c w1) = sortois w @ [sortoi_msg \<lparr>es_client = c, es_guid = guid\<rparr> ord ls] \<and>
    ShopifyOrderID ord = p_ID p \<and> map SKU ls = map li_SKU (p_LineItems p) \<and>
    map Quantity ls = map li_Quantity (p_LineItems p) \<and>
    queue_of (w_db (run_batch c w1)) (ord_ID ord) = Some (OrderStatusSubmitted, 1, num, [])"
proof -
  from assms(8) obtain b where b: "req_body r = Some b" by (auto simp: authentic_def)
  obtain ord ls where m: "mapOrder (now w) p (take maxBodySize b) = (ord, ls)" by (rule prod.exhaust)
  let ?ev = "\<lparr>ev_ID = 0, WebhookID = webhook_id r, Topic = ''orders/create'', ReceivedAt = zero_time\<rparr>"
  let ?d = "created_db pg (UTC (now w)) ?ev ord ls (w_db w)" and ?n = "seq_order (w_db w) + 1"
  let ?row = "order_row pg (UTC (now w)) ?n ord" and ?ls = "stored_lines pg ?n (seq_line (w_db w)) ls"
  let ?w1 = "w\<lparr>w_db := ?d\<rparr>" and ?ow = "\<lparr>ow_Order = scan_order (w_local w) ?row, ow_Lines = ?ls\<rparr>"
  have h: "handleOrderCreate (db_order_store pg) secret now r trig w =
      ((respond 200 ''status'' ''ok'', map_option (\<lambda>_. True) trig), ?w1)"
    using delivery_ok [OF assms(1,8) b assms(9-13), of pg trig] by (simp add: delivered_def m)
  have id: "ShopifyOrderID ord = p_ID p" "Status ord = OrderStatusPending"
    using mapOrder_id [of "now w" p "take maxBodySize b"] m by (auto simp: mapOrder_def set_address_def split: option.splits)
  then have fr: "fresh_for ?ev ord (w_db w)" using assms(12,13) by (auto simp: fresh_for_def known_ids_def staged_ids_def)
  have pend: "sql_pending 100 ?d = [?row]" by (rule delivered_pending [OF fr assms(4) id(2)])
  have f: "FetchPendingOrders 100 ?w1 = (Inr [?ow], ?w1)"
    using FetchPendingOrders_ok [of ?w1 100] created_lines [OF assms(3) fr] by (simp add: assms(1) pend order_row_def)
  have inv: "db_inv (w_db ?w1)" using created_db_inv [OF assms(3) fr] by simp
  have q: "queue_of (w_db ?w1) ?n = Some (OrderStatusPending, 0, [], [])"
    using row_of_Some [OF inv, of ?n ?row] fr id(2)
    by (simp add: queue_of_def queue_row_def created_db_rows order_row_def)
  have i: "ord_ID (ow_Order ?ow) = ?n" "Attempts (ow_Order ?ow) = 0" "ShopifyOrderID (ow_Order ?ow) = p_ID p"
    by (simp_all add: scan_order_def order_row_def id)
  have e: "w_dbs ?w1 = []" "w_ctx ?w1 = []" "w_http ?w1 = (oc1, dt1) # (oc2, dt2) # hs" "sortois ?w1 = sortois w"
    using assms(1,2,5) by (simp_all add: sortois_def)
  from one_order_batch [OF e(1,2) inv f _ e(3) assms(6,7), of 0 "[]" "[]" c] q i e(4)
  have r: "sortois (run_batch c ?w1) = sortois w @ [sortoi_msg \<lparr>es_client = c, es_guid = guid\<rparr> (ow_Order ?ow) ?ls] \<and>
    queue_of (w_db (run_batch c ?w1)) (ord_ID (ow_Order ?ow)) = Some (OrderStatusSubmitted, 1, num, [])" by simp
  have "ls = map map_line (p_LineItems p)" using m by (auto simp: mapOrder_def)
  then have "map SKU ?ls = map li_SKU (p_LineItems p)" "map Quantity ?ls = map li_Quantity (p_LineItems p)"
    by (simp_all add: stored_lines_cols map_line_def comp_def)
  with h r i(3) show ?thesis by blast
qed

definition accepting_world :: world where
  "accepting_world = empty_world\<lparr>w_http := [(Resp 200 [] ''G1'', 0),
     (Resp 200 [] ''<SalesOrders><Order><SalesOrder>000123</SalesOrder></Order></SalesOrders>'', 0)]\<rparr>"

lemma demo_answers:
  "json_or_raw ''G1'' = ''G1''"
  "json_or_raw ''<SalesOrders><Order><SalesOrder>000123</SalesOrder></Order></SalesOrders>'' =
     ''<SalesOrders><Order><SalesOrder>000123</SalesOrder></Order></SalesOrders>''"
  "parseSORTOIResponse ''<SalesOrders><Order><SalesOrder>000123</SalesOrder></Order></SalesOrders>'' =
     Inr \<lparr>res_SysproOrderNumber = ''000123'', Success = True, ErrorMessage = []\<rparr>"
  by code_simp+

lemma demo_accepted:
  "logon_accepted ''G1'' (Resp 200 [] ''G1'')"
  "order_accepted ''000123'' (Resp 200 [] ''<SalesOrders><Order><SalesOrder>000123</SalesOrder></Order></SalesOrders>'')"
  by (simp_all add: logon_accepted_def order_accepted_def body_of_def demo_answers HasPrefix_def)

theorem paid_order_reaches_syspro_witness:
  "\<exists>w1 i. queue_of (w_db (run_batch demo_enet w1)) i = Some (OrderStatusSubmitted, 1, ''000123'', []) \<and>
     fst (handleOrderCreate (db_order_store plain_pg) ''secret'' now demo_request None accepting_world) =
       (respond 200 ''status'' ''ok'', None)"
proof -
  have w: "w_dbs accepting_world = []" "w_ctx accepting_world = []" "w_db accepting_world = empty_db"
    "w_http accepting_world = (Resp 200 [] ''G1'', 0) #
      (Resp 200 [] ''<SalesOrders><Order><SalesOrder>000123</SalesOrder></Order></SalesOrders>'', 0) # []"
    by (simp_all add: accepting_world_def empty_world_def)
  have p: "payload_of demo_request = Some demo_payload"
    by (simp add: payload_of_def demo_request_def demo_short demo_unmarshal)
  have e: "db_inv (w_db accepting_world)" "\<forall>r\<in>set (orders (w_db accepting_world)). Status r \<noteq> OrderStatusPending"
    "webhook_id demo_request \<noteq> []" "webhook_id demo_request \<notin> known_ids accepting_world"
    "p_ID demo_payload \<notin> staged_ids accepting_world"
    using db_inv_empty by (simp_all add: w(3) demo_webhook_id known_ids_def staged_ids_def empty_db_def)
  from paid_order_reaches_syspro [OF w(1,2) e(1,2) w(4) demo_accepted demo_authentic p demo_acceptable e(3-5),
      of plain_pg None demo_enet]
  show ?thesis by fastforce
qed

end
