(* ===== verification/LifecycleProps.thy ===== *)
theory LifecycleProps
  imports Lifecycle MigrateProps EndToEnd
begin

text \<open>
  What has happened when the service is up, how long a component has after a signal, and what becomes of a
  submission that is cut short.
\<close>

section \<open>Start\<close>

text \<open>Nothing is started before the configuration was accepted and every migration applied.\<close>

lemma started_after_migrations:
  assumes "numbered files" "reached sql files s0 k (mg_schema m)" "mg_lock m = None"
    "start_service sql files env conn sql_up m w = (Inr (c, cs), m', w')"
  shows "Load env = Inr c \<and> conn = Connected \<and> at_step sql files s0 (length (todo files)) (mg_schema m') \<and>
    w' = boot_reset w \<and> CBatch \<in> set cs \<and> distinct cs"
proof -
  obtain c1 m1 where s: "Load env = Inr c1" "store_New conn = Inr ()" "Migrate sql files m = (Inr (), m1)"
    "c = c1" "cs = started c1 sql_up" "m' = m1" "w' = boot_reset w"
    using assms(4) by (auto simp: start_service_def split: sum.splits prod.splits)
  have "boot sql files (mg_dbs m, mg_conns m) (mg_schema m) = (Inr (), mg_schema m1)"
    using s(3) assms(3) by (cases m) (simp add: boot_def)
  from boot_steps [OF assms(1) this assms(2)] have "at_step sql files s0 (length (todo files)) (mg_schema m1)" by auto
  moreover have "conn = Connected" using s(2) by (cases conn) auto
  ultimately show ?thesis using s by (auto simp: started_def)
qed

lemma failed_start_changes_nothing:
  "start_service sql files env conn sql_up m w = (Inl e, m', w') \<Longrightarrow> w' = w"
  by (auto simp: start_service_def split: sum.splits prod.splits)

section \<open>Shutdown\<close>

lemma cancelled_with_the_server:
  "cancelled_after busy x \<le> snd (shutdown_service busy)"
  "0 \<le> busy \<Longrightarrow> cancelled_after busy x \<le> busy"
  by (cases "drain_timer x"; auto simp: cancelled_after_def shutdown_service_def server_Shutdown_def)+

text \<open>With no request open there is no grace period at all.\<close>

lemma no_grace_when_idle: "(\<forall>x. cancelled_after 0 x = 0) \<and> shutdown_service 0 = (Inr (), 0)"
  by code_simp

text \<open>The timers matter only while requests keep the server busy; two components have none.\<close>

lemma components_without_timer: "{x. drain_timer x = None} = {CSweeper, CIntakeReport}"
  by code_simp

lemma busy_server_cancels:
  "(\<forall>x. cancelled_after (12 * Second) x =
      (if x \<in> {CSweeper, CIntakeReport} then 12 else if x = CCashReport then 5 else 10) * Second)"
  by code_simp

section \<open>A submission cut short\<close>

lemma update_none: "filter P xs = [] \<Longrightarrow> update_rows P f xs = xs"
  by (induction xs) (auto simp: update_rows_def split: if_splits)

lemma update_rows_Cons: "update_rows P f (x # xs) = (if P x then f x else x) # update_rows P f xs"
  by (simp add: update_rows_def)

lemma mark_reset_pending:
  assumes "filter (\<lambda>r. Status r = OrderStatusPending) os = [r]" "\<forall>x\<in>set os. Status x \<noteq> OrderStatusProcessing"
    and "Status (f r) = OrderStatusProcessing" "Q (f r)"
  shows "update_rows (\<lambda>x. Status x = OrderStatusProcessing \<and> Q x) g
      (update_rows (\<lambda>x. ord_ID x = ord_ID r \<and> Status x = OrderStatusPending) f os) =
    update_rows (\<lambda>x. Status x = OrderStatusPending) (\<lambda>x. g (f x)) os"
  using assms
proof (induction os)
  case (Cons x os)
  show ?case
  proof (cases "Status x = OrderStatusPending")
    case True
    with Cons.prems have "x = r" and e: "filter (\<lambda>r. Status r = OrderStatusPending) os = []" by auto
    have "update_rows (\<lambda>x. ord_ID x = ord_ID r \<and> Status x = OrderStatusPending) f os = os"
      using e by (intro update_none) (auto simp: filter_empty_conv)
    moreover have "update_rows (\<lambda>x. Status x = OrderStatusProcessing \<and> Q x) g os = os"
      using Cons.prems(2) by (intro update_none) (auto simp: filter_empty_conv)
    ultimately show ?thesis using True \<open>x = r\<close> Cons.prems(3,4) e by (simp add: update_rows_Cons update_none)
  next
    case False
    with Cons show ?thesis by (simp add: update_rows_Cons)
  qed
qed simp

lemma filter_updated:
  "(\<And>x. Status (f x) = OrderStatusPending) \<Longrightarrow>
   filter (\<lambda>r. Status r = OrderStatusPending) (update_rows (\<lambda>x. Status x = OrderStatusPending) f os) =
   map f (filter (\<lambda>r. Status r = OrderStatusPending) os)"
  by (induction os) (simp_all add: update_rows_def)

lemma sortoi_msg_bookkeeping:
  "sortoi_msg s (ord\<lparr>Status := x, Attempts := a, UpdatedAt := t\<rparr>) ls = sortoi_msg s ord ls"
  by (simp add: sortoi_msg_def buildSORTOI_def sortoi_doc_def cong: if_cong)

lemma pending_in_orders: "x \<in> set (sql_pending n d) \<Longrightarrow> x \<in> set (orders d)"
  by (auto simp: sql_pending_def dest!: in_set_takeD)

lemma stale_reset_once:
  assumes "filter (\<lambda>r. Status r = OrderStatusPending) (orders d) = [r]"
    "\<forall>x\<in>set (orders d). Status x \<noteq> OrderStatusProcessing" "t_ns t1 + 600 * Second < t_ns t2"
  shows "sql_pending 100 (snd (sql_reset_stale 600 t2 (snd (sql_mark_processing (ord_ID r) t1 d)))) =
    [r\<lparr>Status := OrderStatusPending, Attempts := Attempts r + 1, UpdatedAt := pg_time t2\<rparr>]"
proof -
  let ?f = "\<lambda>r. r\<lparr>Status := OrderStatusProcessing, UpdatedAt := pg_time t1\<rparr>"
  let ?g = "\<lambda>r. r\<lparr>Status := OrderStatusPending, Attempts := Attempts r + 1, UpdatedAt := pg_time t2\<rparr>"
  have "t_ns (pg_time t1) \<le> t_ns t1" by (simp add: pg_time_def)
  then have "update_rows (\<lambda>x. Status x = OrderStatusProcessing \<and> t_ns (UpdatedAt x) < t_ns t2 - 600 * Second) ?g
      (update_rows (\<lambda>x. ord_ID x = ord_ID r \<and> Status x = OrderStatusPending) ?f (orders d)) =
    update_rows (\<lambda>x. Status x = OrderStatusPending) (\<lambda>x. ?g (?f x)) (orders d)"
    using assms(3) by (intro mark_reset_pending [OF assms(1,2)]) auto
  then show ?thesis
    using filter_updated [of "\<lambda>x. ?g (?f x)" "orders d"] assms(1)
    by (simp add: sql_pending_def sql_reset_stale_def sql_mark_processing_def upd_orders_def)
qed

text \<open>
  The process ends after SYSPRO accepted the order and before that is recorded, which a signal without open requests
  allows. Started again ten minutes later, the service resets the order and posts the same document again.
\<close>

theorem interrupted_submission_repeats:
  assumes "w_dbs w = []" "db_inv (w_db w)" "filter (\<lambda>r. Status r = OrderStatusPending) (orders (w_db w)) = [r]"
    "\<forall>x\<in>set (orders (w_db w)). Status x \<noteq> OrderStatusProcessing"
    and "FetchPendingOrders 100 w = (Inr [ow], w)" "w2 = killed_submission ses ow w"
    and "w_db w3 = w_db w2" "w_local w3 = w_local w" "w_dbs w3 = []" "w_ctx w3 = []"
    and "t_ns (UTC (now w)) + 600 * Second < t_ns (UTC (now w3))"
    and "w_http w3 = (oc1, dt1) # (oc2, dt2) # hs" "logon_accepted guid oc1" "order_accepted num oc2"
  shows "sortois w2 = sortois w @ [sortoi_msg ses (ow_Order ow) (ow_Lines ow)] \<and>
    sortois (run_batch c (boot_reset w3)) = sortois w3 @ [sortoi_msg \<lparr>es_client = c, es_guid = guid\<rparr> (ow_Order ow) (ow_Lines ow)]"
proof -
  let ?i = "ord_ID (ow_Order ow)" and ?t1 = "UTC (now w)" and ?t2 = "UTC (now w3)"
  have p: "sql_pending 100 (w_db w) = [r]" by (simp add: sql_pending_def assms(3))
  then have ow: "ow = \<lparr>ow_Order = scan_order (w_local w) r, ow_Lines =
      sort_key line_ID (filter (\<lambda>l. line_OrderID l = ord_ID r) (order_lines (w_db w)))\<rparr>"
    using FetchPendingOrders_ok [OF assms(1), of 100] assms(5) by simp
  then have i: "?i = ord_ID r" by (simp add: scan_order_def)
  have r: "r \<in> set (orders (w_db w))" "Status r = OrderStatusPending"
    using arg_cong [OF assms(3), of set] by auto
  have q: "queue_of (w_db w) (ord_ID r) = Some (OrderStatusPending, Attempts r, SysproOrderNumber r, LastError r)"
    using row_of_Some [OF assms(2), of "ord_ID r" r] r by (simp add: queue_of_def queue_row_def)
  from MarkOrderProcessing_ok [OF assms(1,2), of "ord_ID r"] q obtain w1 where
    m: "MarkOrderProcessing (ord_ID r) w = (Inr True, w1)" "w_sent w1 = w_sent w"
      "w_db w1 = snd (sql_mark_processing (ord_ID r) ?t1 (w_db w))" by auto
  obtain x w1' where sub: "SubmitOrder ses (ow_Order ow) (ow_Lines ow) w1 = (x, w1')" by (rule prod.exhaust)
  then have w2: "w2 = w1'" by (simp add: assms(6) killed_submission_def i m(1))
  note sf = SubmitOrder_frame [OF sub]
  have d2: "w_db w2 = snd (sql_mark_processing (ord_ID r) ?t1 (w_db w))" using sf w2 m(3) by simp
  let ?w4 = "boot_reset w3" and ?r' = "r\<lparr>Status := OrderStatusPending, Attempts := Attempts r + 1, UpdatedAt := pg_time ?t2\<rparr>"
  have w4: "?w4 = w3\<lparr>w_db := snd (sql_reset_stale 600 ?t2 (w_db w2))\<rparr>"
    using assms(7,9) by (simp add: boot_reset_def ResetStaleProcessing_def call_simps split: sum.splits)
  let ?ow = "\<lparr>ow_Order = scan_order (w_local w) ?r', ow_Lines = ow_Lines ow\<rparr>"
  have pend: "sql_pending 100 (w_db ?w4) = [?r']"
    using stale_reset_once [OF assms(3,4,11)] by (simp add: w4 d2)
  have ls: "order_lines (w_db ?w4) = order_lines (w_db w)"
    by (simp add: w4 d2 sql_reset_stale_def sql_mark_processing_def upd_orders_def)
  have f: "FetchPendingOrders 100 ?w4 = (Inr [?ow], ?w4)"
    using FetchPendingOrders_ok [of ?w4 100] pend ls assms(8,9) by (simp add: w4 ow)
  have inv: "db_inv (w_db ?w4)" by (simp add: w4 d2 assms(2) sql_updates_inv)
  have "?r' \<in> set (orders (w_db ?w4))" using pending_in_orders [of ?r' 100 "w_db ?w4"] by (simp add: pend)
  then have q4: "queue_of (w_db ?w4) (ord_ID (ow_Order ?ow)) =
      Some (OrderStatusPending, Attempts r + 1, SysproOrderNumber r, LastError r)"
    using row_of_Some [OF inv, of "ord_ID r" ?r'] by (simp add: queue_of_def queue_row_def scan_order_def)
  have e: "w_dbs ?w4 = []" "w_ctx ?w4 = []" "w_http ?w4 = (oc1, dt1) # (oc2, dt2) # hs" "sortois ?w4 = sortois w3"
    using assms(9,10,12) by (simp_all add: w4 sortois_def)
  from one_order_batch [OF e(1,2) inv f q4 e(3) assms(13,14), of c]
  have "sortois (run_batch c ?w4) = sortois w3 @ [sortoi_msg \<lparr>es_client = c, es_guid = guid\<rparr> (scan_order (w_local w) ?r') (ow_Lines ow)]"
    by (simp add: e(4))
  moreover have "scan_order (w_local w) ?r' = (ow_Order ow)\<lparr>Status := OrderStatusPending, Attempts := Attempts r + 1,
      UpdatedAt := at_zone (w_local w) (pg_time ?t2)\<rparr>" by (simp add: ow scan_order_def)
  moreover have "sortois w2 = sortois w @ [sortoi_msg ses (ow_Order ow) (ow_Lines ow)]"
    using sf m(2) by (simp add: w2 sortois_def)
  ultimately show ?thesis by (simp only: sortoi_msg_bookkeeping)
qed

end
