(* ===== verification/XmlProps.thy ===== *)
theory XmlProps
  imports Sortoi
begin

text \<open>
  What the XML writer prints is read back as the tree it was given: texts cannot become markup, whatever bytes they
  hold. Control characters without an XML representation come back as U+FFFD, adjacent texts as one.
\<close>

section \<open>Texts\<close>

definition clean_char :: "char \<Rightarrow> string" where
  "clean_char c =
     (let n = of_char c :: int in if n < 32 \<and> n \<noteq> 9 \<and> n \<noteq> 10 \<and> n \<noteq> 13 then utf8 0xFFFD else [c])"

definition clean_text :: "string \<Rightarrow> string" where
  "clean_text s = concat (map clean_char s)"

text \<open>What an escape of one character reads back as, and the characters it does without.\<close>

lemma utf8_replacement: "utf8 0xFFFD = [CHR 0xEF, CHR 0xBF, CHR 0xBD]"
  by code_simp

lemma char_code_eq: "(of_char c :: int) = of_char d \<longleftrightarrow> c = d"
  by simp

lemma xml_esc_cases:
  obtains (entity) e t where "xml_esc c = ''&'' @ e @ '';''" "CHR '';'' \<notin> set e" "entity e = Some t" "clean_char c = t"
      "set e \<inter> set ''<>&'' = {}"
  | (plain) "xml_esc c = clean_char c" "set (clean_char c) \<inter> set ''<>&'' = {}"
proof -
  consider (quot) "c = CHR 0x22" | (apos) "c = CHR 0x27" | (amp) "c = CHR ''&''" | (lt) "c = CHR ''<''" | (gt) "c = CHR ''>''"
    | (tab) "c = CHR 0x09" | (nl) "c = CHR 0x0A" | (cr) "c = CHR 0x0D"
    | (other) "c \<notin> {CHR 0x22, CHR 0x27, CHR ''&'', CHR ''<'', CHR ''>'', CHR 0x09, CHR 0x0A, CHR 0x0D}"
    by blast
  then show thesis
  proof cases
    case quot
    show thesis by (rule entity [of "''#34''" "[c]"]) (simp_all add: quot, code_simp+)
  next
    case apos
    show thesis by (rule entity [of "''#39''" "[c]"]) (simp_all add: apos, code_simp+)
  next
    case amp
    show thesis by (rule entity [of "''amp''" "[c]"]) (simp_all add: amp, code_simp+)
  next
    case lt
    show thesis by (rule entity [of "''lt''" "[c]"]) (simp_all add: lt, code_simp+)
  next
    case gt
    show thesis by (rule entity [of "''gt''" "[c]"]) (simp_all add: gt, code_simp+)
  next
    case tab
    show thesis by (rule entity [of "''#x9''" "[c]"]) (simp_all add: tab, code_simp+)
  next
    case nl
    show thesis by (rule entity [of "''#xA''" "[c]"]) (simp_all add: nl, code_simp+)
  next
    case cr
    show thesis by (rule entity [of "''#xD''" "[c]"]) (simp_all add: cr, code_simp+)
  next
    case other
    have n: "(of_char c :: int) \<noteq> 9" "(of_char c :: int) \<noteq> 10" "(of_char c :: int) \<noteq> 13"
      using other char_code_eq [of c "CHR 0x09"] char_code_eq [of c "CHR 0x0A"] char_code_eq [of c "CHR 0x0D"] by auto
    show thesis
      by (rule plain) (use other n in \<open>auto simp: xml_esc_def clean_char_def Let_def utf8_replacement\<close>)
  qed
qed

lemma EscapeText_Nil [simp]: "EscapeText [] = []"
  by (simp add: EscapeText_def)

lemma EscapeText_append: "EscapeText (s @ t) = EscapeText s @ EscapeText t"
  by (simp add: EscapeText_def)

lemma EscapeText_Cons: "EscapeText (c # s) = xml_esc c @ EscapeText s"
  by (simp add: EscapeText_def)

lemma xml_esc_set: "CHR ''<'' \<notin> set (xml_esc c)" "CHR ''>'' \<notin> set (xml_esc c)"
  by (rule xml_esc_cases [of c]; auto)+

lemma EscapeText_set: "CHR ''<'' \<notin> set (EscapeText s)" "CHR ''>'' \<notin> set (EscapeText s)"
  by (induction s) (simp_all add: EscapeText_Cons xml_esc_set)

lemma unescape_plain: "CHR ''&'' \<notin> set s \<Longrightarrow> unescape (s @ r) None = map_option ((@) s) (unescape r None)"
  by (cases "unescape r None"; induction s) auto

lemma unescape_entity:
  "CHR '';'' \<notin> set e \<Longrightarrow> unescape (e @ CHR '';'' # r) (Some a) =
     (case entity (rev a @ e) of None \<Rightarrow> None | Some t \<Rightarrow> map_option ((@) t) (unescape r None))"
  by (induction e arbitrary: a) auto

lemma unescape_EscapeText: "unescape (EscapeText s) None = Some (clean_text s)"
proof (induction s)
  case Nil
  then show ?case by (simp add: clean_text_def)
next
  case (Cons c s)
  show ?case
  proof (cases rule: xml_esc_cases [of c])
    case (entity e t)
    then have "unescape (EscapeText (c # s)) None = map_option ((@) t) (unescape (EscapeText s) None)"
      by (simp add: EscapeText_Cons unescape_entity)
    with Cons entity show ?thesis by (simp add: clean_text_def)
  next
    case plain
    then have "CHR ''&'' \<notin> set (xml_esc c)" by auto
    from unescape_plain [OF this, of "EscapeText s"] Cons plain(1) show ?thesis
      by (simp add: EscapeText_Cons clean_text_def)
  qed
qed

lemma clean_text_Nil: "clean_text s = [] \<longleftrightarrow> s = []"
  by (cases s) (auto simp: clean_text_def clean_char_def Let_def utf8_replacement)

lemma clean_text_printable: "list_all (\<lambda>c. 32 \<le> (of_char c :: int)) s \<Longrightarrow> clean_text s = s"
  by (induction s) (auto simp: clean_text_def clean_char_def Let_def)

lemma Contains_set: "Contains s sub \<Longrightarrow> set sub \<subseteq> set s"
proof (induction s)
  case Nil
  then show ?case by (simp add: Contains_def split: if_splits)
next
  case (Cons c s)
  show ?case
  proof (cases "HasPrefix (c # s) sub")
    case True
    then have "sub = take (length sub) (c # s)" by (simp add: HasPrefix_def)
    then show ?thesis by (metis set_take_subset)
  next
    case False
    with Cons have "set sub \<subseteq> set s" by (simp add: Contains_def split: if_splits)
    then show ?thesis by auto
  qed
qed

lemma escaped_not_cdata_end: "\<not> Contains (EscapeText s) '']]>''"
  using Contains_set [of "EscapeText s" "'']]>''"] EscapeText_set(2) [of s] by auto

section \<open>Tags\<close>

definition alnum :: "char \<Rightarrow> bool" where
  "alnum c \<longleftrightarrow> (let n = of_char c :: int in 48 \<le> n \<and> n \<le> 57 \<or> 97 \<le> n \<and> n \<le> 122 \<or> 65 \<le> n \<and> n \<le> 90)"

definition tag_ok :: "string \<Rightarrow> bool" where
  "tag_ok n \<longleftrightarrow> n \<noteq> [] \<and> \<not> is_digit (hd n) \<and> list_all alnum n"

lemma alnum_name: "alnum c \<Longrightarrow> name_char c"
  by (auto simp: alnum_def name_char_def is_digit_def digit_val_def Let_def)

lemma alnum_apart: "alnum c \<Longrightarrow> c \<notin> set ''<>!?/:.-&'' \<and> c \<noteq> CHR 0x22 \<and> c \<noteq> CHR 0x27"
  by (auto simp: alnum_def Let_def)

lemma tag_ok_name: "tag_ok n \<Longrightarrow> is_name n"
  using alnum_name alnum_apart by (cases n) (auto simp: tag_ok_def is_name_def list_all_iff)

lemma tag_chars: "tag_ok n \<Longrightarrow> c \<in> set n \<Longrightarrow> name_char c \<and> c \<notin> set ''<>!?/:.-&'' \<and> c \<noteq> CHR 0x22 \<and> c \<noteq> CHR 0x27"
  using alnum_name alnum_apart by (auto simp: tag_ok_def list_all_iff)

lemma tag_takeWhile: "tag_ok n \<Longrightarrow> takeWhile name_char n = n"
  by (simp add: takeWhile_eq_all_conv tag_chars)

lemma quotes_closed_none:
  "CHR 0x22 \<notin> set s \<Longrightarrow> CHR 0x27 \<notin> set s \<Longrightarrow> quotes_closed None s"
  by (induction s) auto

lemma HasPrefix_hd: "HasPrefix s (c # p) \<Longrightarrow> s \<noteq> [] \<and> hd s = c"
  by (cases s) (auto simp: HasPrefix_def)

lemma tag_prefixes:
  assumes "tag_ok n"
  shows "\<not> HasPrefix n (CHR ''!'' # p)" "\<not> HasPrefix n (CHR ''?'' # p)" "\<not> HasPrefix n (CHR ''/'' # p)" "\<not> HasSuffix n ''/''"
proof -
  have "hd n \<in> set n" "last n \<in> set n" using assms by (auto simp: tag_ok_def)
  with tag_chars [OF assms] have "hd n \<notin> {CHR ''!'', CHR ''?'', CHR ''/''}" "hd (rev n) \<noteq> CHR ''/''"
    by (auto simp: hd_rev)
  then show "\<not> HasPrefix n (CHR ''!'' # p)" "\<not> HasPrefix n (CHR ''?'' # p)" "\<not> HasPrefix n (CHR ''/'' # p)"
    "\<not> HasSuffix n ''/''" by (auto simp: HasSuffix_def dest: HasPrefix_hd)
qed

lemma tag_quotes: "tag_ok n \<Longrightarrow> CHR 0x22 \<notin> set n \<and> CHR 0x27 \<notin> set n \<and> CHR ''>'' \<notin> set n"
  using tag_chars [of n] by auto

lemma HasPrefix_Cons: "HasPrefix (c # s) (d # p) \<longleftrightarrow> c = d \<and> HasPrefix s p" "HasPrefix s []"
  by (auto simp: HasPrefix_def)

lemma open_mark:
  assumes "tag_ok n"
  shows "mark_closed n" "parse_mark n = MOpen n False"
  using tag_prefixes [OF assms] tag_quotes [OF assms] tag_ok_name [OF assms]
  by (simp_all add: mark_closed_def parse_mark_def quotes_closed_none tag_takeWhile [OF assms] Let_def)

lemma close_mark:
  assumes "tag_ok n"
  shows "mark_closed (CHR ''/'' # n)" "parse_mark (CHR ''/'' # n) = MClose n"
  using tag_quotes [OF assms] tag_ok_name [OF assms]
  by (simp_all add: mark_closed_def parse_mark_def quotes_closed_none HasPrefix_Cons tag_takeWhile [OF assms] Let_def)

lemma local_name_tag: "tag_ok n \<Longrightarrow> local_name n = n"
  using tag_chars [of n] by (auto simp: local_name_def)

section \<open>Lexing\<close>

lemma xlex_text: "CHR ''<'' \<notin> set s \<Longrightarrow> xlex (s @ r) (XT a) = xlex r (XT (rev s @ a))"
  by (induction s arbitrary: a) auto

lemma xlex_mark: "CHR ''>'' \<notin> set m \<Longrightarrow> xlex (m @ r) (XM a) = xlex r (XM (rev m @ a))"
  by (induction m arbitrary: a) auto

lemma xlex_tag:
  assumes "CHR ''>'' \<notin> set m" "mark_closed m"
  shows "xlex (CHR ''<'' # m @ CHR ''>'' # r) (XT a) = TText (rev a) # TMark m # xlex r (XT [])"
  using assms xlex_mark [OF assms(1), of "CHR ''>'' # r" "[]"] by simp

section \<open>Reading back\<close>

text \<open>The parser on the rest of the input, with the text \<open>v\<close> read and not yet added.\<close>

definition reading :: "string \<Rightarrow> (string \<times> xml list) list \<Rightarrow> string \<Rightarrow> xml option" where
  "reading v st s = xrun (xlex s (XT (rev (EscapeText v)))) st"

definition text_node :: "string \<Rightarrow> xml list" where
  "text_node v = (if v = [] then [] else [XText (clean_text v)])"

definition flush :: "string \<Rightarrow> (string \<times> xml list) list \<Rightarrow> (string \<times> xml list) list" where
  "flush v st = (case st of [] \<Rightarrow> [] | (n, cs) # r \<Rightarrow> (n, rev (text_node v) @ cs) # r)"

fun norm_xml :: "xml \<Rightarrow> xml" and norm_kids :: "string \<Rightarrow> xml list \<Rightarrow> xml list" where
  "norm_xml (XText v) = XText (clean_text v)"
| "norm_xml (XElem n cs) = XElem n (norm_kids [] cs)"
| "norm_kids v [] = text_node v"
| "norm_kids v (XText u # xs) = norm_kids (v @ u) xs"
| "norm_kids v (XElem n cs # xs) = text_node v @ norm_xml (XElem n cs) # norm_kids [] xs"

fun tags_ok :: "xml \<Rightarrow> bool" where
  "tags_ok (XText v) = True"
| "tags_ok (XElem n cs) \<longleftrightarrow> tag_ok n \<and> list_all tags_ok cs"

lemma reading_text: "reading v st (EscapeText u @ r) = reading (v @ u) st r"
  by (simp add: reading_def EscapeText_append xlex_text EscapeText_set)

lemma flush_add: "(if clean_text v = [] then st else add_child (XText (clean_text v)) st) = flush v st"
  by (cases st) (auto simp: flush_def text_node_def add_child_def clean_text_Nil split: prod.splits)

lemma reading_mark:
  assumes "CHR ''>'' \<notin> set m" "mark_closed m"
  shows "reading v st (CHR ''<'' # m @ CHR ''>'' # r) = xrun (TMark m # xlex r (XT [])) (flush v st)"
  using assms by (simp add: reading_def xlex_tag escaped_not_cdata_end unescape_EscapeText flush_add del: xlex.simps)

lemma reading_open:
  assumes "tag_ok n"
  shows "reading v st (CHR ''<'' # n @ CHR ''>'' # r) = reading [] ((n, []) # flush v st) r"
proof -
  have "CHR ''>'' \<notin> set n" using tag_quotes [OF assms] by simp
  from reading_mark [OF this open_mark(1) [OF assms], of v st r] show ?thesis
    by (simp add: open_mark(2) [OF assms] reading_def)
qed

lemma reading_close:
  assumes "tag_ok n"
  shows "reading v ((n, cs) # st) (CHR ''<'' # CHR ''/'' # n @ CHR ''>'' # r) =
    (if st = [] then Some (XElem n (rev cs @ text_node v)) else reading [] (add_child (XElem n (rev cs @ text_node v)) st) r)"
proof -
  have "CHR ''>'' \<notin> set (CHR ''/'' # n)" using tag_chars [OF assms] by auto
  from reading_mark [OF this close_mark(1) [OF assms], of v "(n, cs) # st" r] show ?thesis
    by (simp add: reading_def close_mark(2) [OF assms] local_name_tag [OF assms] flush_def rev_append text_node_def)
qed

lemma add_child_Cons: "add_child x ((n, cs) # r) = (n, x # cs) # r"
  by (simp add: add_child_def)

lemma reading_print:
  "tags_ok x \<Longrightarrow> (\<And>v. x \<noteq> XText v) \<Longrightarrow> st \<noteq> [] \<Longrightarrow>
     reading v st (xml_print x @ r) = reading [] (add_child (norm_xml x) (flush v st)) r"
  "list_all tags_ok xs \<Longrightarrow> tag_ok n \<Longrightarrow>
     reading v ((n, cs) # st) (concat (map xml_print xs) @ CHR ''<'' # CHR ''/'' # n @ CHR ''>'' # r) =
       (if st = [] then Some (XElem n (rev cs @ norm_kids v xs))
        else reading [] (add_child (XElem n (rev cs @ norm_kids v xs)) st) r)"
proof (induction x and v xs arbitrary: v st r and n cs st r rule: norm_xml_norm_kids.induct)
  case (1 u)
  then show ?case by blast
next
  case (2 n cs)
  then have "flush v st \<noteq> []" by (auto simp: flush_def split: list.splits)
  with 2 show ?case by (simp add: reading_open)
next
  case (4 v u xs)
  then show ?case by (simp add: reading_text)
next
  case (5 v m ks xs)
  then have t: "tags_ok (XElem m ks)" by simp
  have "reading v ((n, cs) # st) (xml_print (XElem m ks) @ concat (map xml_print xs) @ CHR ''<'' # CHR ''/'' # n @ CHR ''>'' # r) =
    reading [] (add_child (norm_xml (XElem m ks)) (flush v ((n, cs) # st)))
      (concat (map xml_print xs) @ CHR ''<'' # CHR ''/'' # n @ CHR ''>'' # r)"
    by (rule 5) (use t in simp_all)
  also have "add_child (norm_xml (XElem m ks)) (flush v ((n, cs) # st)) =
    (n, norm_xml (XElem m ks) # rev (text_node v) @ cs) # st" by (simp add: flush_def add_child_Cons)
  finally show ?case using 5 by simp
qed (simp_all add: reading_close)

lemma xml_print_parse:
  assumes "tags_ok (XElem n cs)"
  shows "xml_parse (xml_print (XElem n cs)) = Some (norm_xml (XElem n cs))"
proof -
  have n: "tag_ok n" "list_all tags_ok cs" using assms by simp_all
  have "xml_parse (xml_print (XElem n cs)) = reading [] [] (CHR ''<'' # n @ CHR ''>'' #
      (concat (map xml_print cs) @ CHR ''<'' # CHR ''/'' # n @ CHR ''>'' # []))"
    by (simp add: xml_parse_def reading_def)
  also have "\<dots> = reading [] [(n, [])] (concat (map xml_print cs) @ CHR ''<'' # CHR ''/'' # n @ CHR ''>'' # [])"
    unfolding reading_open [OF n(1)] by (simp add: flush_def)
  also have "\<dots> = Some (norm_xml (XElem n cs))"
    using reading_print(2) [OF n(2,1), of "[]" "[]" "[]" "[]"] by simp
  finally show ?thesis .
qed

end
