(* ===== verification/SortoiProps.thy ===== *)
theory SortoiProps
  imports XmlProps
begin

text \<open>
  The SORTOI document as its receiver reads it: exactly the header, the lines and the freight the builder was given.
  Nothing a customer typed, a name, an address or a SKU, can add an element or change another field.
\<close>

section \<open>Reading elements\<close>

fun is_elem :: "xml \<Rightarrow> bool" where
  "is_elem (XElem _ _) = True"
| "is_elem (XText _) = False"

lemma norm_kids_elems: "list_all is_elem xs \<Longrightarrow> norm_kids [] xs = map norm_xml xs"
proof (induction xs)
  case (Cons x xs)
  then show ?case by (cases x) (simp_all add: text_node_def)
qed (simp add: text_node_def)

lemma norm_xfield: "norm_xml (xfield n v) = XElem n (text_node v)"
  by (simp add: xfield_def)

lemma norm_xomit: "map norm_xml (xomit n v) = (if v = [] then [] else [XElem n (text_node v)])"
  by (simp add: xomit_def norm_xfield)

lemma elem_fields: "is_elem (xfield n v)" "list_all is_elem (xomit n v)"
  by (simp_all add: xfield_def xomit_def)

lemma tags_fields: "tags_ok (xfield n v) = tag_ok n" "tag_ok n \<Longrightarrow> list_all tags_ok (xomit n v)"
  by (simp_all add: xfield_def xomit_def)

lemma elems_named_append: "elems_named n (xs @ ys) = elems_named n xs @ elems_named n ys"
  by (induction n xs rule: elems_named.induct) simp_all

lemma elems_named_omitted:
  "elems_named n (map norm_xml (xomit m v)) = (if m = n \<and> v \<noteq> [] then [text_node v] else [])"
  by (simp add: norm_xomit)

lemma chardata_text_node: "chardata (text_node v) = clean_text v"
  by (simp add: text_node_def clean_text_def)

lemma xpath_one: "xpath [n] cs = (case rev (elems_named n cs) of [] \<Rightarrow> [] | e # _ \<Rightarrow> chardata e)"
proof -
  have "concat (map (at_path []) es) = es" for es :: "xml list list" by (induction es) simp_all
  then show ?thesis by (simp add: xpath_def)
qed

lemma at_path_append: "at_path [n] (xs @ ys) = at_path [n] xs @ at_path [n] ys"
  by (simp add: elems_named_append)

lemmas field_simps_xml = norm_xfield elems_named_append elems_named_omitted xpath_one chardata_text_node

lemma clean_text_empty [simp]: "clean_text [] = []"
  by (simp add: clean_text_def)

section \<open>What the document says\<close>

definition line_names :: "string list" where
  "line_names = [''CustomerPoLine'', ''LineActionType'', ''StockCode'', ''Warehouse'', ''OrderQty'', ''OrderUom'',
     ''Price'', ''PriceUom'', ''StockTaxCode'']"

definition line_values :: "sortoi_stock_line \<Rightarrow> string list" where
  "line_values l = [sl_CustomerPoLine l, sl_LineActionType l, sl_StockCode l, sl_Warehouse l, Itoa (sl_OrderQty l),
     sl_OrderUom l, sl_Price l, sl_PriceUom l, sl_TaxCode l]"

definition header_names :: "string list" where
  "header_names = [''CustomerPoNumber'', ''OrderActionType'', ''Customer'', ''OrderDate'', ''RequestedShipDate'', ''Email'',
     ''ShippingInstrs'', ''ShippingInstrsCod'', ''ShipAddress1'', ''ShipAddress2'', ''ShipAddress3'', ''ShipAddress4'',
     ''ShipAddress5'', ''ShipPostalCode'']"

definition header_values :: "sortoi_header \<Rightarrow> string list" where
  "header_values h = [sh_CustomerPoNumber h, sh_OrderActionType h, sh_Customer h, sh_OrderDate h, sh_RequestedShipDate h,
     sh_Email h, sh_ShippingInstrs h, sh_ShippingInstrsCod h, sh_ShipAddress1 h, sh_ShipAddress2 h, sh_ShipAddress3 h,
     sh_ShipAddress4 h, sh_ShipAddress5 h, sh_ShipPostalCode h]"

text \<open>The fields of an element, by name, as a reader decodes them.\<close>

definition read_fields :: "string list \<Rightarrow> xml list \<Rightarrow> string list" where
  "read_fields ns cs = map (\<lambda>n. xpath [n] cs) ns"

text \<open>The children of the elements the builder makes.\<close>

definition kids :: "xml \<Rightarrow> xml list" where
  "kids x = (case x of XElem _ cs \<Rightarrow> cs | XText _ \<Rightarrow> [])"

lemma read_line: "read_fields line_names (kids (norm_xml (line_xml l))) = map clean_text (line_values l)"
  by (simp add: read_fields_def kids_def line_xml_def norm_kids_elems elem_fields field_simps_xml line_names_def line_values_def)

lemma read_header: "read_fields header_names (kids (norm_xml (header_xml h))) = map clean_text (header_values h)"
  by (simp add: read_fields_def kids_def header_xml_def norm_kids_elems elem_fields field_simps_xml header_names_def
      header_values_def)

lemma named_elements:
  "norm_xml (line_xml l) = XElem ''StockLine'' (kids (norm_xml (line_xml l)))"
  "norm_xml (header_xml h) = XElem ''OrderHeader'' (kids (norm_xml (header_xml h)))"
  "norm_xml (freight_xml f) = XElem ''FreightLine'' (kids (norm_xml (freight_xml f)))"
  by (simp_all add: line_xml_def header_xml_def freight_xml_def kids_def)

lemma document_elems:
  "is_elem (line_xml l)" "is_elem (header_xml h)" "is_elem (freight_xml f)"
  by (simp_all add: line_xml_def header_xml_def freight_xml_def)

lemma tag_names:
  "list_all tag_ok (line_names @ header_names @ [''StockLine'', ''OrderHeader'', ''FreightLine'', ''FreightValue'',
     ''FreightCost'', ''SalesOrders'', ''Orders'', ''OrderDetails''])"
  by code_simp

lemma document_tags:
  "tags_ok (line_xml l)" "tags_ok (header_xml h)" "tags_ok (freight_xml f)" "tags_ok (document_xml d)"
proof -
  note t = tag_names [unfolded line_names_def header_names_def, simplified]
  show l: "tags_ok (line_xml l)" for l using t by (simp add: line_xml_def tags_fields)
  show h: "tags_ok (header_xml h)" for h using t by (simp add: header_xml_def tags_fields)
  show f: "tags_ok (freight_xml f)" for f using t by (simp add: freight_xml_def tags_fields)
  show "tags_ok (document_xml d)"
    using t by (cases "sd_FreightLine d") (auto simp: document_xml_def l h f list_all_iff)
qed

lemma elems_of_parts:
  "elems_named n (norm_xml (line_xml l) # xs) =
     (if n = ''StockLine'' then kids (norm_xml (line_xml l)) # elems_named n xs else elems_named n xs)"
  "elems_named n (norm_xml (header_xml h) # xs) =
     (if n = ''OrderHeader'' then kids (norm_xml (header_xml h)) # elems_named n xs else elems_named n xs)"
  "elems_named n (norm_xml (freight_xml f) # xs) =
     (if n = ''FreightLine'' then kids (norm_xml (freight_xml f)) # elems_named n xs else elems_named n xs)"
  by (subst named_elements, simp)+

lemma elems_of_lines:
  "elems_named n (map (\<lambda>l. norm_xml (line_xml l)) ls) = (if n = ''StockLine'' then map (\<lambda>l. kids (norm_xml (line_xml l))) ls else [])"
  by (induction ls) (auto simp: elems_of_parts)

lemma concat_singles: "concat (map (at_path []) es) = es" "concat (map (at_path [] \<circ> g) xs) = map g xs"
  by (induction es, simp_all) (induction xs, simp_all)

lemma document_parts:
  fixes d :: sortoi_document
  defines "cs \<equiv> kids (norm_xml (document_xml d))"
  shows "at_path [''Orders'', ''OrderHeader''] cs = [kids (norm_xml (header_xml (sd_Header d)))]"
    and "at_path [''Orders'', ''OrderDetails'', ''StockLine''] cs = map (\<lambda>l. kids (norm_xml (line_xml l))) (sd_Lines d)"
    and "at_path [''Orders'', ''OrderDetails'', ''FreightLine''] cs =
      (case sd_FreightLine d of None \<Rightarrow> [] | Some f \<Rightarrow> [kids (norm_xml (freight_xml f))])"
proof -
  have k: "cs = [XElem ''Orders'' [norm_xml (header_xml (sd_Header d)),
      XElem ''OrderDetails'' (map (\<lambda>l. norm_xml (line_xml l)) (sd_Lines d) @
        (case sd_FreightLine d of None \<Rightarrow> [] | Some f \<Rightarrow> [norm_xml (freight_xml f)]))]]"
    by (simp add: cs_def document_xml_def kids_def norm_kids_elems document_elems list_all_iff comp_def text_node_def
        split: option.splits)
  note s = elems_of_parts elems_of_lines elems_named_append concat_singles
  show "at_path [''Orders'', ''OrderHeader''] cs = [kids (norm_xml (header_xml (sd_Header d)))]" by (simp add: k s)
  show "at_path [''Orders'', ''OrderDetails'', ''StockLine''] cs = map (\<lambda>l. kids (norm_xml (line_xml l))) (sd_Lines d)"
    by (cases "sd_FreightLine d") (simp_all add: k s)
  show "at_path [''Orders'', ''OrderDetails'', ''FreightLine''] cs =
      (case sd_FreightLine d of None \<Rightarrow> [] | Some f \<Rightarrow> [kids (norm_xml (freight_xml f))])"
    by (cases "sd_FreightLine d") (simp_all add: k s)
qed

lemma sortoi_parsed:
  "xml_unmarshal ''SalesOrders'' (snd (buildSORTOI ord ls wh alloc tm)) =
     Some (kids (norm_xml (document_xml (sortoi_doc ord ls wh tm))))"
proof -
  let ?d = "sortoi_doc ord ls wh tm"
  obtain cs where d: "document_xml ?d = XElem ''SalesOrders'' cs" by (simp add: document_xml_def)
  with document_tags(4) [of ?d] have "xml_parse (xml_print (document_xml ?d)) = Some (norm_xml (document_xml ?d))"
    by (simp only: xml_print_parse)
  then show ?thesis by (simp add: buildSORTOI_def xml_unmarshal_def d kids_def)
qed

section \<open>Printable values\<close>

lemma digit_printable: "32 \<le> (of_char (digit_char (n mod 10)) :: int)"
proof -
  have "0 \<le> n mod 10" "n mod 10 < 10" by simp_all
  then have "n mod 10 \<in> {0, 1, 2, 3, 4, 5, 6, 7, 8, 9}" by simp presburger
  then show ?thesis by (auto simp: digit_char_def)
qed

lemma nat_str_printable: "0 \<le> n \<Longrightarrow> list_all (\<lambda>c. 32 \<le> (of_char c :: int)) (nat_str n)"
proof (induction n rule: nat_str.induct)
  case (1 n)
  have "n < 10 \<Longrightarrow> 32 \<le> (of_char (digit_char n) :: int)" using digit_printable [of n] 1(2) by simp
  with 1 digit_printable [of n] show ?case by (subst nat_str.simps) (simp add: not_less)
qed

lemma Itoa_clean: "clean_text (Itoa i) = Itoa i"
  using nat_str_printable [of "\<bar>i\<bar>"] by (intro clean_text_printable) (auto simp: Itoa_def)


end
