(* ===== verification/JsonProps.thy ===== *)
theory JsonProps
  imports XmlProps Json
begin

text \<open>
  What the JSON writer prints is read back as the tree it was given: strings of any bytes, in keys and values, and numbers
  whose literals are valid.
\<close>

section \<open>Strings\<close>

text \<open>The characters that belong to no other token.\<close>

definition atom_text :: "string \<Rightarrow> bool" where
  "atom_text s \<longleftrightarrow> s \<noteq> [] \<and> list_all (\<lambda>c. \<not> json_space c \<and> \<not> json_punct c \<and> c \<noteq> CHR 0x22) s"

fun nums_ok :: "json \<Rightarrow> bool" where
  "nums_ok (JNum s) \<longleftrightarrow> atom_text s \<and> atom_val s = Some (JNum s)"
| "nums_ok (JArr vs) \<longleftrightarrow> list_all nums_ok vs"
| "nums_ok (JObj kvs) \<longleftrightarrow> list_all (\<lambda>(_, v). nums_ok v) kvs"
| "nums_ok _ = True"

lemma byte_literals:
  "byte 8 = CHR 0x08" "byte 9 = CHR 0x09" "byte 10 = CHR 0x0A" "byte 12 = CHR 0x0C" "byte 13 = CHR 0x0D"
  by code_simp+

text \<open>The lexer on an escape: one piece, whose text is the character.\<close>

definition lexes_to :: "string \<Rightarrow> jpiece list \<Rightarrow> bool" where
  "lexes_to e ps \<longleftrightarrow> (\<forall>a r. jlex (e @ r) (LStr a) = jlex r (LStr (rev ps @ a)))"

text \<open>Pieces without surrogates have a text of their own each.\<close>

definition piece_text :: "jpiece \<Rightarrow> string" where
  "piece_text p = (case p of PB c \<Rightarrow> [c] | PU u \<Rightarrow> utf8 u)"

definition simple_piece :: "jpiece \<Rightarrow> bool" where
  "simple_piece p = (case p of PB _ \<Rightarrow> True | PU u \<Rightarrow> u < 0xD800)"

lemma pieces_simple: "list_all simple_piece ps \<Longrightarrow> pieces ps = concat (map piece_text ps)"
  by (induction ps rule: pieces.induct) (auto simp: simple_piece_def piece_text_def)

lemma lexes_to_append: "lexes_to e ps \<Longrightarrow> lexes_to f qs \<Longrightarrow> lexes_to (e @ f) (ps @ qs)"
  by (simp add: lexes_to_def)

lemma lexes_to_Nil: "lexes_to [] []"
  by (simp add: lexes_to_def)

lemma hex_digit_val:
  assumes "0 \<le> n" "n < 16"
  shows "hex_val (hex_digit n) = Some n"
proof -
  from assms have "n \<in> {0,1,2,3,4,5,6,7,8,9,10,11,12,13,14,15}" by simp presburger
  then show ?thesis by (auto simp: hex_digit_def hex_val_def digit_val_def)
qed

lemma lexes_u_esc:
  assumes "0 \<le> n" "n < 65536"
  shows "lexes_to (u_esc n) [PU n]"
proof -
  have h: "hex_val (hex_digit (n div 4096)) = Some (n div 4096)" "hex_val (hex_digit (n div 256 mod 16)) = Some (n div 256 mod 16)"
    "hex_val (hex_digit (n div 16 mod 16)) = Some (n div 16 mod 16)" "hex_val (hex_digit (n mod 16)) = Some (n mod 16)"
    using assms by (auto intro!: hex_digit_val)
  have d: "n div 256 = n div 16 div 16" "n div 4096 = n div 16 div 16 div 16" by (simp_all add: div_mult2_eq [symmetric])
  have "16 * (n div 16) + n mod 16 = n" "16 * (n div 16 div 16) + n div 16 mod 16 = n div 16"
    "16 * (n div 16 div 16 div 16) + n div 16 div 16 mod 16 = n div 16 div 16" by (simp_all add: mult_div_mod_eq)
  then have "base_val 16 hex_val [hex_digit (n div 4096), hex_digit (n div 256 mod 16), hex_digit (n div 16 mod 16),
      hex_digit (n mod 16)] = n"
    by (simp add: base_val_def h [unfolded d] d)
  then show ?thesis by (simp add: lexes_to_def u_esc_def h)
qed

lemma lexes_esc_char: "\<exists>ps. lexes_to (esc_char c) ps \<and> list_all simple_piece ps \<and> concat (map piece_text ps) = [c]"
proof -
  let ?n = "of_char c :: int"
  have n: "0 \<le> ?n" by (metis of_nat_of_char of_nat_0_le_iff)
  consider (simple) d where "esc_char c = [CHR 0x5C, d]" "d \<noteq> CHR ''u''" "simple_esc d = Some c"
    | (u) "esc_char c = u_esc ?n" "?n < 128" | (plain) "esc_char c = [c]" "c \<noteq> CHR 0x22" "c \<noteq> CHR 0x5C" "\<not> ?n < 32"
  proof (cases "c \<in> {CHR 0x22, CHR 0x5C, CHR 0x08, CHR 0x0C, CHR 0x0A, CHR 0x0D, CHR 0x09}")
    case True
    then show thesis by (intro simple [of "case esc_char c of [_, d] \<Rightarrow> d | _ \<Rightarrow> c"]) (elim insertE emptyE; simp; code_simp)+
  next
    case False
    then have "?n \<notin> {8, 9, 10, 12, 13}"
      using char_code_eq [of c "CHR 0x08"] char_code_eq [of c "CHR 0x09"] char_code_eq [of c "CHR 0x0A"]
        char_code_eq [of c "CHR 0x0C"] char_code_eq [of c "CHR 0x0D"] by auto
    show thesis
    proof (cases "?n < 32 \<or> c = CHR ''<'' \<or> c = CHR ''>'' \<or> c = CHR ''&''")
      case t: True
      then have "?n < 128" by auto
      moreover have "esc_char c = u_esc ?n" using False \<open>?n \<notin> _\<close> t by (auto simp: esc_char_def)
      ultimately show thesis by (rule u [rotated])
    next
      case f: False
      then have "esc_char c = [c]" using False \<open>?n \<notin> _\<close> by (auto simp: esc_char_def)
      then show thesis using False f by (intro plain) auto
    qed
  qed
  then show ?thesis
  proof cases
    case simple
    then show ?thesis by (intro exI [of _ "[PB c]"]) (auto simp: lexes_to_def simple_piece_def piece_text_def)
  next
    case u
    then have "utf8 ?n = [c]" by (simp add: utf8_def byte_def)
    with u lexes_u_esc [OF n] show ?thesis
      by (intro exI [of _ "[PU ?n]"]) (auto simp: simple_piece_def piece_text_def)
  next
    case plain
    then show ?thesis by (intro exI [of _ "[PB c]"]) (auto simp: lexes_to_def simple_piece_def piece_text_def)
  qed
qed

lemma lexes_quote_body: "\<exists>ps. lexes_to (json_quote_body s) ps \<and> list_all simple_piece ps \<and> concat (map piece_text ps) = s"
proof (induction s rule: json_quote_body.induct)
  case 1
  show ?case by (intro exI [of _ "[]"]) (simp add: lexes_to_Nil)
next
  case (2 c s)
  have sep: "\<exists>ps. lexes_to (u_esc n @ json_quote_body (drop 2 s)) ps \<and> list_all simple_piece ps \<and>
      concat (map piece_text ps) = c # s"
    if "HasPrefix (c # s) (utf8 n)" "length (utf8 n) = 3" "n < 0xD800" "0 \<le> n"
      "\<exists>ps. lexes_to (json_quote_body (drop 2 s)) ps \<and> list_all simple_piece ps \<and> concat (map piece_text ps) = drop 2 s" for n
  proof -
    from that(5) obtain ps where ps: "lexes_to (json_quote_body (drop 2 s)) ps" "list_all simple_piece ps"
      "concat (map piece_text ps) = drop 2 s" by blast
    have "utf8 n @ drop 2 s = c # s" using that(1,2)
      by (metis HasPrefix_def append_take_drop_id drop_Suc_Cons eval_nat_numeral(3))
    with ps that lexes_to_append [OF lexes_u_esc [of n] ps(1)] show ?thesis
      by (intro exI [of _ "PU n # ps"]) (auto simp: simple_piece_def piece_text_def)
  qed
  have u: "utf8 0x2028 = [byte 0xE2, byte 0x80, byte 0xA8]" "utf8 0x2029 = [byte 0xE2, byte 0x80, byte 0xA9]" by code_simp+
  consider (ls) "HasPrefix (c # s) (utf8 0x2028)" | (ps) "\<not> HasPrefix (c # s) (utf8 0x2028)" "HasPrefix (c # s) (utf8 0x2029)"
    | (char) "\<not> HasPrefix (c # s) (utf8 0x2028)" "\<not> HasPrefix (c # s) (utf8 0x2029)" by blast
  then show ?case
  proof cases
    case ls
    with sep [where n = "0x2028"] 2(1) u show ?thesis by simp
  next
    case ps
    with sep [where n = "0x2029"] 2(2) u show ?thesis by simp
  next
    case char
    with 2(3) u obtain qs where "lexes_to (json_quote_body s) qs" "list_all simple_piece qs" "concat (map piece_text qs) = s"
      by auto
    moreover obtain ps where "lexes_to (esc_char c) ps" "list_all simple_piece ps" "concat (map piece_text ps) = [c]"
      using lexes_esc_char by blast
    ultimately show ?thesis using char u lexes_to_append by (intro exI [of _ "ps @ qs"]) auto
  qed
qed

lemma jlex_quote: "jlex (json_quote s @ r) LTop = map_option ((#) (TStr s)) (jlex r LTop)"
proof -
  obtain ps where "lexes_to (json_quote_body s) ps" "list_all simple_piece ps" "concat (map piece_text ps) = s"
    using lexes_quote_body by blast
  then show ?thesis by (simp add: json_quote_def lexes_to_def pieces_simple json_space_def json_punct_def byte_literals)
qed

section \<open>Tokens\<close>

fun commas :: "jtoken list list \<Rightarrow> jtoken list" where
  "commas [] = []"
| "commas [x] = x"
| "commas (x # y # ys) = x @ TPunct (CHR '','') # commas (y # ys)"

fun toks :: "json \<Rightarrow> jtoken list" where
  "toks JNull = [TAtom ''null'']"
| "toks (JBool b) = [TAtom (if b then ''true'' else ''false'')]"
| "toks (JNum s) = [TAtom s]"
| "toks (JStr s) = [TStr s]"
| "toks (JArr vs) = TPunct (CHR ''['') # commas (map toks vs) @ [TPunct (CHR '']'')]"
| "toks (JObj kvs) =
     TPunct (CHR ''{'') # commas (map (\<lambda>(k, v). TStr k # TPunct (CHR '':'') # toks v) kvs) @ [TPunct (CHR ''}'')]"

definition delimited :: "string \<Rightarrow> bool" where
  "delimited r \<longleftrightarrow> r = [] \<or> json_punct (hd r) \<or> json_space (hd r)"

text \<open>A text lexes to tokens before any rest that starts with punctuation or a space.\<close>

definition lexes :: "string \<Rightarrow> jtoken list \<Rightarrow> bool" where
  "lexes s ts \<longleftrightarrow> (\<forall>r. delimited r \<longrightarrow> jlex (s @ r) LTop = map_option ((@) ts) (jlex r LTop))"

lemma cons_append: "(@) [x] = (#) x"
  by (rule ext) simp

lemma append_fun: "(@) (x # xs) = (\<lambda>ys. x # xs @ ys)" "(@) [] = id"
  by (rule ext, simp)+

lemma map_option_append: "map_option ((@) xs) (map_option ((@) ys) o1) = map_option ((@) (xs @ ys)) o1"
  by (cases o1) simp_all

lemma lexes_append:
  assumes "lexes s ts" "lexes t us" "\<And>r. delimited r \<Longrightarrow> delimited (t @ r)"
  shows "lexes (s @ t) (ts @ us)"
  using assms by (simp add: lexes_def map_option_append)

lemma jlex_atom:
  assumes "list_all (\<lambda>c. \<not> json_space c \<and> \<not> json_punct c \<and> c \<noteq> CHR 0x22) s" "delimited r"
  shows "jlex (s @ r) (LAtom a) = map_option ((#) (TAtom (rev a @ s))) (jlex r LTop)"
  using assms
proof (induction s arbitrary: a)
  case Nil
  have "json_punct c \<Longrightarrow> \<not> json_space c" for c
    by (auto simp: json_punct_def json_space_def byte_literals)
  with Nil show ?case by (cases r) (auto simp: delimited_def option.map_comp comp_def)
qed simp

lemma lexes_atom: "atom_text s \<Longrightarrow> lexes s [TAtom s]"
  using jlex_atom by (cases s) (auto simp: atom_text_def lexes_def cons_append)

lemma lexes_quote: "lexes (json_quote s) [TStr s]"
  unfolding lexes_def cons_append by (simp add: jlex_quote)

lemma punct_not_space: "json_punct c \<Longrightarrow> \<not> json_space c"
  by (auto simp: json_punct_def json_space_def byte_literals)

lemma lexes_punct: "json_punct c \<Longrightarrow> lexes s ts \<Longrightarrow> lexes (c # s) (TPunct c # ts)"
  unfolding lexes_def append_fun by (simp add: punct_not_space option.map_comp comp_def)

lemma lexes_end: "json_punct c \<Longrightarrow> lexes [c] [TPunct c]"
  by (rule lexes_punct) (simp_all add: lexes_def append_fun option.map_id0)

lemma lexes_join:
  "list_all2 lexes ss tss \<Longrightarrow> lexes (Join '','' ss @ [c]) (commas tss @ [TPunct c])" if "json_punct c"
proof (induction rule: list_all2_induct)
  case Nil
  show ?case using lexes_end [OF that] by simp
next
  case (Cons s ss t ts)
  show ?case
  proof (cases ss)
    case Nil
    then have "ts = []" using Cons by simp
    moreover have "lexes (s @ [c]) (t @ [TPunct c])"
      using Cons.hyps(1) lexes_end [OF that] that by (intro lexes_append) (auto simp: delimited_def)
    ultimately show ?thesis using Nil by simp
  next
    case c: (Cons s' ss')
    then obtain t' ts' where t: "ts = t' # ts'" using Cons by (auto simp: list_all2_Cons1)
    have comma: "json_punct (CHR '','')" by (simp add: json_punct_def)
    have "lexes (CHR '','' # Join '','' ss @ [c]) (TPunct (CHR '','') # commas ts @ [TPunct c])"
      by (rule lexes_punct [OF comma Cons.IH])
    then have "lexes (s @ CHR '','' # Join '','' ss @ [c]) (t @ TPunct (CHR '','') # commas ts @ [TPunct c])"
      using Cons.hyps(1) comma by (intro lexes_append) (auto simp: delimited_def)
    then show ?thesis by (simp add: c t)
  qed
qed

lemma punct_chars: "json_punct (CHR ''['')" "json_punct (CHR '']'')" "json_punct (CHR ''{'')" "json_punct (CHR ''}'')"
  "json_punct (CHR '':'')"
  by (simp_all add: json_punct_def)

lemma lexes_member: "lexes t ts \<Longrightarrow> lexes (json_quote k @ '':'' @ t) (TStr k # TPunct (CHR '':'') # ts)"
  using lexes_append [OF lexes_quote lexes_punct [OF punct_chars(5)], of t ts k] punct_chars(5)
  by (simp add: delimited_def)

lemma atom_words: "atom_text ''null''" "atom_text ''true''" "atom_text ''false''"
  by code_simp+

lemma lexes_print: "nums_ok j \<Longrightarrow> lexes (json_print j) (toks j)"
proof (induction j rule: json_print.induct)
  case 1
  then show ?case using lexes_atom [OF atom_words(1)] by simp
next
  case (2 b)
  then show ?case using lexes_atom [OF atom_words(2)] lexes_atom [OF atom_words(3)] by simp
next
  case (3 s)
  then show ?case using lexes_atom by simp
next
  case (4 s)
  then show ?case by (simp add: lexes_quote)
next
  case (5 vs)
  have "list_all2 lexes (map json_print vs) (map toks vs)"
    using 5 by (auto simp: list_all2_conv_all_nth list_all_length)
  from lexes_punct [OF punct_chars(1) lexes_join [OF punct_chars(2) this]] show ?case by simp
next
  case (6 kvs)
  have "lexes (json_print (snd kv)) (toks (snd kv))" if "kv \<in> set kvs" for kv
    using that 6(1) [of kv "fst kv" "snd kv"] 6(2) by (auto simp: list_all_iff)
  then have "list_all2 lexes (map (\<lambda>(k, v). json_quote k @ '':'' @ json_print v) kvs)
      (map (\<lambda>(k, v). TStr k # TPunct (CHR '':'') # toks v) kvs)"
    using lexes_member by (auto simp: list_all2_conv_all_nth split: prod.splits)
      (metis nth_mem snd_conv append_Cons append_Nil)
  from lexes_punct [OF punct_chars(3) lexes_join [OF punct_chars(4) this]] show ?case by simp
qed

section \<open>The parser on the tokens\<close>

lemma toks_start: "\<exists>t ts. toks j = t # ts \<and> t \<noteq> TPunct (CHR '']'')"
  by (cases j) auto

lemma jrun_first: "jrun (toks j @ ts) WantOrEnd st = jrun (toks j @ ts) Want st"
proof -
  obtain t us where "toks j = t # us" "t \<noteq> TPunct (CHR '']'')" using toks_start by blast
  then show ?thesis by (simp add: jstep_def)
qed

lemma jrun_items:
  assumes "\<And>v ts st. v \<in> set vs \<Longrightarrow> jrun (toks v @ ts) Want st = jrun ts (Got v) st" "vs \<noteq> []"
  shows "jrun (commas (map toks vs) @ TPunct (CHR '']'') # ts) Want (FArr acc # st) =
    jrun ts (Got (JArr (rev acc @ vs))) st"
  using assms
proof (induction vs arbitrary: acc)
  case (Cons v vs)
  show ?case
  proof (cases vs)
    case Nil
    then show ?thesis using Cons.prems(1) by (simp add: jstep_def close_val_def)
  next
    case c: (Cons v' vs')
    have IH: "jrun (commas (map toks vs) @ TPunct (CHR '']'') # ts) Want (FArr (v # acc) # st) =
        jrun ts (Got (JArr (rev (v # acc) @ vs))) st"
      by (rule Cons.IH) (use Cons.prems c in auto)
    have "jrun (toks v @ TPunct (CHR '','') # commas (map toks vs) @ TPunct (CHR '']'') # ts) Want (FArr acc # st) =
        jrun (commas (map toks vs) @ TPunct (CHR '']'') # ts) Want (FArr (v # acc) # st)"
      using Cons.prems(1) [of v] by (simp add: jstep_def close_val_def)
    with IH show ?thesis by (simp add: c)
  qed
qed simp

definition member_toks :: "string \<times> json \<Rightarrow> jtoken list" where
  "member_toks = (\<lambda>(k, v). TStr k # TPunct (CHR '':'') # toks v)"

lemma jrun_members:
  assumes "\<And>kv ts st. kv \<in> set kvs \<Longrightarrow> jrun (toks (snd kv) @ ts) Want st = jrun ts (Got (snd kv)) st" "kvs \<noteq> []"
  shows "jrun (commas (map member_toks kvs) @ TPunct (CHR ''}'') # ts) WantKey (FObj acc k0 # st) =
    jrun ts (Got (JObj (rev acc @ kvs))) st"
  using assms
proof (induction kvs arbitrary: acc k0)
  case (Cons kv kvs)
  obtain k v where kv: "kv = (k, v)" by (cases kv)
  have m: "jrun (member_toks kv @ us) WantKey (FObj acc k0 # st) = jrun us (Got v) (FObj acc k # st)" for us
    using Cons.prems(1) [of kv] by (simp add: kv member_toks_def jstep_def want_key_def)
  show ?case
  proof (cases kvs)
    case Nil
    then show ?thesis by (simp add: m) (simp add: jstep_def close_val_def kv)
  next
    case c: (Cons kv' kvs')
    have IH: "jrun (commas (map member_toks kvs) @ TPunct (CHR ''}'') # ts) WantKey (FObj (kv # acc) [] # st) =
        jrun ts (Got (JObj (rev (kv # acc) @ kvs))) st"
      by (rule Cons.IH) (use Cons.prems c in auto)
    have "jrun (member_toks kv @ TPunct (CHR '','') # commas (map member_toks kvs) @ TPunct (CHR ''}'') # ts) WantKey (FObj acc k0 # st) =
        jrun (commas (map member_toks kvs) @ TPunct (CHR ''}'') # ts) WantKey (FObj (kv # acc) [] # st)"
      unfolding m by (simp add: jstep_def close_val_def kv)
    with IH show ?thesis by (simp add: c)
  qed
qed simp

lemma jrun_first_key:
  assumes "kvs \<noteq> []"
  shows "jrun (commas (map member_toks kvs) @ ts) WantKeyOrEnd st = jrun (commas (map member_toks kvs) @ ts) WantKey st"
proof -
  obtain kv rest where "kvs = kv # rest" using assms by (cases kvs) auto
  then show ?thesis by (cases kv; cases rest) (simp_all add: member_toks_def jstep_def)
qed

lemma jrun_toks: "nums_ok j \<Longrightarrow> jrun (toks j @ ts) Want st = jrun ts (Got j) st"
proof (induction j arbitrary: ts st rule: json_print.induct)
  case 1
  then show ?case by (simp add: jstep_def start_val_def atom_val_def)
next
  case (2 b)
  then show ?case by (simp add: jstep_def start_val_def atom_val_def)
next
  case (3 s)
  then show ?case by (simp add: jstep_def start_val_def)
next
  case (4 s)
  then show ?case by (simp add: jstep_def start_val_def)
next
  case (5 vs)
  show ?case
  proof (cases vs)
    case Nil
    then show ?thesis by (simp add: jstep_def start_val_def)
  next
    case (Cons v vs')
    have "jrun (commas (map toks vs) @ TPunct (CHR '']'') # ts) Want (FArr [] # st) = jrun ts (Got (JArr (rev [] @ vs))) st"
      by (rule jrun_items) (use 5 Cons in \<open>auto simp: list_all_iff\<close>)
    moreover obtain us where us: "commas (map toks vs) = toks v @ us"
      using Cons by (cases vs') auto
    have "jrun (commas (map toks vs) @ TPunct (CHR '']'') # ts) WantOrEnd (FArr [] # st) =
        jrun (commas (map toks vs) @ TPunct (CHR '']'') # ts) Want (FArr [] # st)"
      unfolding us append_assoc by (rule jrun_first)
    ultimately show ?thesis by (simp add: jstep_def start_val_def)
  qed
next
  case (6 kvs)
  show ?case
  proof (cases "kvs = []")
    case True
    then show ?thesis by (simp add: jstep_def start_val_def)
  next
    case False
    have "jrun (commas (map member_toks kvs) @ TPunct (CHR ''}'') # ts) WantKey (FObj [] [] # st) =
        jrun ts (Got (JObj (rev [] @ kvs))) st"
      by (rule jrun_members) (use 6 False in \<open>auto simp: list_all_iff\<close>)
    with jrun_first_key [OF False] show ?thesis by (simp add: jstep_def start_val_def member_toks_def [symmetric])
  qed
qed

lemma json_print_parse: "nums_ok j \<Longrightarrow> json_parse (json_print j) = Some j"
  and json_line_parse: "nums_ok j \<Longrightarrow> json_parse (json_print j @ [byte 10]) = Some j"
proof -
  assume j: "nums_ok j"
  have "jlex (json_print j @ r) LTop = map_option ((@) (toks j)) (jlex r LTop)" if "delimited r" for r
    using lexes_print [OF j] that by (simp add: lexes_def)
  from this [of "[]"] this [of "[byte 10]"]
  have "jlex (json_print j) LTop = Some (toks j)" "jlex (json_print j @ [byte 10]) LTop = Some (toks j)"
    by (simp_all add: delimited_def json_space_def)
  then show "json_parse (json_print j) = Some j" "json_parse (json_print j @ [byte 10]) = Some j"
    using jrun_toks [OF j, of "[]" "[]"] by (simp_all add: json_parse_def)
qed

section \<open>Integers\<close>

lemma nat_str_head: "0 < n \<Longrightarrow> hd (nat_str n) \<noteq> CHR ''0''"
proof (induction n rule: nat_str.induct)
  case (1 n)
  show ?case
  proof (cases "n < 10")
    case True
    with 1(2) have "n \<in> {1,2,3,4,5,6,7,8,9}" by simp presburger
    then show ?thesis by (subst nat_str.simps) (auto simp: digit_char_def)
  next
    case False
    then have "hd (nat_str (n div 10)) \<noteq> CHR ''0''" using 1 by simp
    then show ?thesis using False by (subst nat_str.simps) simp
  qed
qed

lemma digit_no_token: "is_digit c \<Longrightarrow> \<not> json_space c \<and> \<not> json_punct c \<and> c \<noteq> CHR 0x22 \<and> c \<noteq> CHR ''-'' \<and> c \<noteq> CHR ''n'' \<and> c \<noteq> CHR ''t'' \<and> c \<noteq> CHR ''f''"
  by (auto simp: is_digit_def digit_val_def json_space_def json_punct_def byte_def split: if_splits)

lemma nat_str_number: "0 \<le> n \<Longrightarrow> json_number (nat_str n) \<and> json_number (CHR ''-'' # nat_str n)"
proof -
  assume n: "0 \<le> n"
  have d: "list_all is_digit (nat_str n)" by (rule nat_str_digits [OF n])
  obtain c s where c: "nat_str n = c # s" by (cases "nat_str n") auto
  have z: "c = CHR ''0'' \<longrightarrow> nat_str n = ''0''"
  proof (cases "n = 0")
    case True
    then have "nat_str n = ''0''" by (subst nat_str.simps) (simp add: digit_char_def)
    then show ?thesis by simp
  next
    case False
    then show ?thesis using nat_str_head [of n] n c by simp
  qed
  have D: "is_digit c" using d c by simp
  with digit_no_token have "c \<noteq> CHR ''-''" by blast
  moreover have T: "takeWhile is_digit s = s" "dropWhile is_digit s = []"
    using d c by (simp_all add: list_all_iff takeWhile_eq_all_conv dropWhile_eq_Nil_conv)
  moreover have "is_digit (CHR ''0'')" by code_simp
  ultimately show ?thesis using z c D by (auto simp: json_number_def Let_def T)
qed

lemma Itoa_atom [simp]: "atom_text (Itoa i)" "atom_val (Itoa i) = Some (JNum (Itoa i))"
proof -
  define n where "n = \<bar>i\<bar>"
  have I: "Itoa i = (if i < 0 then CHR ''-'' # nat_str n else nat_str n)" by (simp add: Itoa_def n_def)
  have n: "0 \<le> n" by (simp add: n_def)
  have d: "list_all is_digit (nat_str n)" by (rule nat_str_digits [OF n])
  then have t: "list_all (\<lambda>c. \<not> json_space c \<and> \<not> json_punct c \<and> c \<noteq> CHR 0x22) (nat_str n)"
    using digit_no_token by (fastforce simp: list_all_iff)
  obtain c s where c: "nat_str n = c # s" by (cases "nat_str n") auto
  have "\<not> json_space (CHR ''-'') \<and> \<not> json_punct (CHR ''-'')" by code_simp
  with t c show "atom_text (Itoa i)" by (simp add: atom_text_def I)
  have "is_digit c" using d c by simp
  with digit_no_token [of c] nat_str_number [OF n] show "atom_val (Itoa i) = Some (JNum (Itoa i))"
    by (auto simp: atom_val_def I c)
qed

section \<open>Decoding member by member\<close>

lemma jfield_Nil: "jfield name dec nul zero [] = Some zero"
  by (simp add: jfield_def)

lemma jfield_skip: "fold_key k \<noteq> fold_key name \<Longrightarrow> jfield name dec nul zero ((k, v) # kvs) = jfield name dec nul zero kvs"
  by (simp add: jfield_def)

lemma jfield_hit:
  "fold_key k = fold_key name \<Longrightarrow> v \<noteq> JNull \<Longrightarrow> dec v = Some x \<Longrightarrow> jfield name dec nul zero ((k, v) # kvs) = jfield name dec nul x kvs"
  by (simp add: jfield_def)

lemmas jfield_steps = jfield_Nil jfield_skip jfield_hit

lemma jint64_Itoa: "in_int64 i \<Longrightarrow> jint64 (JNum (Itoa i)) = Some i"
  by (simp add: ParseInt_Itoa)

end
