(* ===== verification/AnswerProps.thy ===== *)
theory AnswerProps
  imports JsonProps Server
begin

text \<open>
  The admin listing of orders: a client that parses its answer finds the orders of the status asked for, in the order of
  the store, with every field as stored. Text columns of PostgreSQL hold valid UTF-8, which the JSON writer keeps.
\<close>

lemma order_response_nums: "nums_ok (order_response r)"
  by (simp add: order_response_def omit_empty_def)

lemma listing_nums: "nums_ok (JArr (map order_response rs))"
  by (simp add: list_all_iff order_response_nums)

text \<open>What a client that decodes one entry of the listing reads; an omitted field is the empty string.\<close>

record listed_order =
  lo_id :: int
  lo_shopify :: int
  lo_number :: string
  lo_status :: string
  lo_account :: string
  lo_syspro :: string
  lo_attempts :: int
  lo_error :: string

definition dec_listed :: "(string \<times> json) list \<Rightarrow> listed_order option" where
  "dec_listed o1 =
     Option.bind (fint ''id'' o1) (\<lambda>i.
     Option.bind (fint ''shopify_order_id'' o1) (\<lambda>s.
     Option.bind (fstring ''order_number'' o1) (\<lambda>n.
     Option.bind (fstring ''status'' o1) (\<lambda>st.
     Option.bind (fstring ''customer_account'' o1) (\<lambda>ca.
     Option.bind (fstring ''syspro_order_number'' o1) (\<lambda>sy.
     Option.bind (fint ''attempts'' o1) (\<lambda>a.
     Option.bind (fstring ''last_error'' o1) (\<lambda>e.
       Some \<lparr>lo_id = i, lo_shopify = s, lo_number = n, lo_status = st, lo_account = ca, lo_syspro = sy,
             lo_attempts = a, lo_error = e\<rparr>))))))))"

definition listed :: "order \<Rightarrow> listed_order" where
  "listed r =
     \<lparr>lo_id = ord_ID r, lo_shopify = ShopifyOrderID r, lo_number = OrderNumber r, lo_status = status_str (Status r),
      lo_account = CustomerAccount r, lo_syspro = SysproOrderNumber r, lo_attempts = Attempts r, lo_error = LastError r\<rparr>"

definition int64_row :: "order \<Rightarrow> bool" where
  "int64_row r \<longleftrightarrow> in_int64 (ord_ID r) \<and> in_int64 (ShopifyOrderID r) \<and> in_int64 (Attempts r)"

lemma listing_keys:
  "fold_key ''id'' = ''id''"
  "fold_key ''shopify_order_id'' = ''shopify_order_id''"
  "fold_key ''order_number'' = ''order_number''"
  "fold_key ''status'' = ''status''"
  "fold_key ''customer_account'' = ''customer_account''"
  "fold_key ''syspro_order_number'' = ''syspro_order_number''"
  "fold_key ''attempts'' = ''attempts''"
  "fold_key ''last_error'' = ''last_error''"
  "fold_key ''order_date'' = ''order_date''"
  "fold_key ''created_at'' = ''created_at''"
  "fold_key ''updated_at'' = ''updated_at''"
  by code_simp+

lemma listed_response: "int64_row r \<Longrightarrow> jstruct dec_listed (order_response r) = Some (listed r)"
  by (simp del: jint64.simps add: order_response_def jstruct_def dec_listed_def listed_def int64_row_def jint64_Itoa fint_def
    fstring_def omit_empty_def listing_keys jfield_steps)

lemma those_map_all: "(\<And>x. x \<in> set xs \<Longrightarrow> f (g x) = Some (h x)) \<Longrightarrow> those_map f (map g xs) = Some (map h xs)"
  by (induction xs) simp_all

lemma order_response_not_null: "order_response r \<noteq> JNull"
  by (simp add: order_response_def)

text \<open>A listing that is answered with 200 holds the orders of the status asked for, in the store's order: a client
  that parses the body as JSON and decodes its entries gets each order's identifiers, number, status, customer account,
  SYSPRO number, attempts and last error as they are stored, whatever bytes the texts hold.\<close>

theorem orders_listing_reads_back:
  assumes "handle_orders qs w = (a, w')" "an_status a = 200" "\<forall>r \<in> set (orders (w_db w)). int64_row r"
  shows "\<exists>st. map_of qs ''status'' = Some (status_str st) \<and>
    unmarshal (jarray (jstruct dec_listed) z) (an_body a) =
      Some (map listed (sort_key (\<lambda>r. - created_key r) (filter (\<lambda>r. Status r = st) (orders (w_db w)))))"
proof -
  let ?q = "case map_of qs ''status'' of None \<Rightarrow> [] | Some v \<Rightarrow> v"
  have "?q \<noteq> []" using assms(1,2) by (auto simp: handle_orders_def json_answer_def)
  then have q: "map_of qs ''status'' = Some ?q" by (cases "map_of qs ''status''") auto
  obtain st where st: "find (\<lambda>st. status_str st = ?q) valid_statuses = Some st"
    using assms(1,2) \<open>?q \<noteq> []\<close> by (cases "find (\<lambda>st. status_str st = ?q) valid_statuses") (auto simp: handle_orders_def json_answer_def)
  then have s: "status_str st = ?q" by (auto simp: find_Some_iff)
  obtain x w1 where l: "ListOrdersByStatus st w = (x, w1)" by (rule prod.exhaust)
  have "is_ok x" using assms(1,2) \<open>?q \<noteq> []\<close> st l by (cases x) (auto simp: handle_orders_def json_answer_def Let_def)
  then obtain rs where rs: "x = Inr rs" by (cases x) auto
  then have body: "an_body a = json_print (JArr (map order_response rs)) @ [byte 10]"
    using assms(1) \<open>?q \<noteq> []\<close> st l by (auto simp: handle_orders_def Let_def)
  let ?sel = "sort_key (\<lambda>r. - created_key r) (filter (\<lambda>r. Status r = st) (orders (w_db w)))"
  obtain y w2 where d: "db_call (\<lambda>_ d. (sort_key (\<lambda>r. - created_key r) (filter (\<lambda>r. Status r = st) (orders d)), d)) w = (y, w2)"
    by (rule prod.exhaust)
  have sel: "rs = map (scan_order (w_local w)) ?sel"
    using l rs db_read_value [OF d] by (cases y) (auto simp: ListOrdersByStatus_def d)
  have "\<forall>r \<in> set rs. int64_row r" using assms(3) by (auto simp: sel scan_order_def int64_row_def)
  then have "those_map (\<lambda>v. if v = JNull then Some z else jstruct dec_listed v) (map order_response rs) = Some (map listed rs)"
    by (intro those_map_all) (simp add: listed_response order_response_not_null)
  then have "unmarshal (jarray (jstruct dec_listed) z) (an_body a) = Some (map listed rs)"
    by (simp only: unmarshal_def body json_line_parse [OF listing_nums] Option.bind.simps jarray_def json.simps)
  moreover have "map listed rs = map listed ?sel" by (simp add: sel listed_def scan_order_def)
  ultimately have "unmarshal (jarray (jstruct dec_listed) z) (an_body a) = Some (map listed ?sel)" by simp
  moreover have "map_of qs ''status'' = Some (status_str st)" using q unfolding s .
  ultimately show ?thesis by blast
qed

definition listing_world :: world where
  "listing_world = \<lparr>w_db = empty_db\<lparr>orders := [zero_order\<lparr>ord_ID := 1, ShopifyOrderID := 7, OrderNumber := ''#BBQ1'',
       Status := OrderStatusPending\<rparr>]\<rparr>, w_clock = 0, w_local = 0, w_dbs = [], w_http = [], w_sent = [], w_ctx = [],
     w_sessionMu = False\<rparr>"

theorem orders_listing_reads_back_witness:
  "unmarshal (jarray (jstruct dec_listed) (listed zero_order)) (an_body (fst (handle_orders [(''status'', ''pending'')] listing_world))) =
    Some [\<lparr>lo_id = 1, lo_shopify = 7, lo_number = ''#BBQ1'', lo_status = ''pending'', lo_account = [], lo_syspro = [],
           lo_attempts = 0, lo_error = []\<rparr>]"
proof -
  obtain a w' where h: "handle_orders [(''status'', ''pending'')] listing_world = (a, w')" by (rule prod.exhaust)
  have "an_status a = 200"
    using h by (auto simp: handle_orders_def valid_statuses_def ListOrdersByStatus_def db_call_def listing_world_def Let_def)
  moreover have "\<forall>r \<in> set (orders (w_db listing_world)). int64_row r"
    by (simp add: listing_world_def int64_row_def zero_order_def in_int64_def)
  ultimately have "\<exists>st. map_of [(''status'', ''pending'')] ''status'' = Some (status_str st) \<and>
      unmarshal (jarray (jstruct dec_listed) (listed zero_order)) (an_body a) =
      Some (map listed (sort_key (\<lambda>r. - created_key r) (filter (\<lambda>r. Status r = st) (orders (w_db listing_world)))))"
    by (rule orders_listing_reads_back [OF h])
  then obtain st where "status_str st = ''pending''" "unmarshal (jarray (jstruct dec_listed) (listed zero_order)) (an_body a) =
      Some (map listed (sort_key (\<lambda>r. - created_key r) (filter (\<lambda>r. Status r = st) (orders (w_db listing_world)))))"
    by auto
  moreover have "st = OrderStatusPending" using \<open>status_str st = ''pending''\<close> by (cases st) auto
  moreover have "map listed (sort_key (\<lambda>r. - created_key r) (filter (\<lambda>r. Status r = OrderStatusPending) (orders (w_db listing_world)))) =
      [\<lparr>lo_id = 1, lo_shopify = 7, lo_number = ''#BBQ1'', lo_status = ''pending'', lo_account = [], lo_syspro = [],
        lo_attempts = 0, lo_error = []\<rparr>]"
    by (simp add: listing_world_def listed_def zero_order_def)
  ultimately show ?thesis by (simp only: h fst_conv)
qed

end
