(* ===== verification/Probes.thy ===== *)
theory Probes
  imports Resubmit "HOL-Library.Signed_Division"
begin

text \<open>
  The probes an operator runs by hand against SYSPRO e.net: \<open>cmd/enettest\<close> (logon and logoff), \<open>cmd/sorqrytest\<close>
  (one order's dispatch status), \<open>cmd/invbrwtest\<close> (business objects that might list stock), \<open>cmd/sortoitest\<close> (one
  test order), \<open>cmd/arspaytest\<close> (one test receipt) and \<open>cmd/benchmark\<close> (latencies). Each has its own copy of the
  HTTP helper, which is \<open>tool_get\<close>, and of the logon. A run returns what it reports beside the world; the wording
  of what it prints is not modelled. \<open>args\<close> is \<open>os.Args[1:]\<close>. Leaving through \<open>os.Exit\<close> is an error like the others.
\<close>

section \<open>What the probes share\<close>

text \<open>The unwrapping of a response body: a JSON string, or else the body as it is.\<close>

definition json_or_body :: "string \<Rightarrow> string" where
  "json_or_body b =
     (case json_parse b of
        Some (JStr s) \<Rightarrow> s
      | Some JNull \<Rightarrow> []
      | _ \<Rightarrow> b)"

text \<open>The logon of \<open>sorqrytest\<close>, \<open>sortoitest\<close>, \<open>invbrwtest\<close> and \<open>benchmark\<close>: any non-empty answer is a session.\<close>

definition plain_logon :: "string \<Rightarrow> (string \<times> string) list \<Rightarrow> world \<Rightarrow> string res \<times> world" where
  "plain_logon base params w =
     (case tool_get base ''/Logon'' params w of
        (Inl e, w1) \<Rightarrow> (Inl e, w1)
      | (Inr body, w1) \<Rightarrow>
          (if json_or_raw body = [] then Inl (Errorf (''logon returned empty GUID (body: '' @ body @ '')''))
           else Inr (json_or_raw body), w1))"

text \<open>The logon of \<open>enettest\<close> and \<open>arspaytest\<close>, which refuses an answer that starts with \<open>ERROR\<close>.\<close>

definition strict_logon :: "string \<Rightarrow> string \<Rightarrow> (string \<times> string) list \<Rightarrow> world \<Rightarrow> string res \<times> world" where
  "strict_logon refusal base params w =
     (case plain_logon base params w of
        (Inl e, w1) \<Rightarrow> (Inl e, w1)
      | (Inr guid, w1) \<Rightarrow>
          (if HasPrefix guid ''ERROR'' then Inl (Errorf (refusal @ '': '' @ guid)) else Inr guid, w1))"

record probe_conf =
  pc_base :: string
  pc_operator :: string
  pc_password :: string
  pc_companyID :: string
  pc_companyPassword :: string

definition probe_conf :: "env \<Rightarrow> probe_conf res" where
  "probe_conf env =
     (case require_env env ''SYSPRO_ENET_URL'' of Inl e \<Rightarrow> Inl e | Inr url \<Rightarrow>
     (case require_env env ''SYSPRO_OPERATOR'' of Inl e \<Rightarrow> Inl e | Inr op \<Rightarrow>
     (case require_env env ''SYSPRO_COMPANY_ID'' of Inl e \<Rightarrow> Inl e | Inr company \<Rightarrow>
        Inr \<lparr>pc_base = TrimRight (CHR ''/'') url, pc_operator = op, pc_password = env ''SYSPRO_PASSWORD'',
             pc_companyID = company, pc_companyPassword = env ''SYSPRO_COMPANY_PASSWORD''\<rparr>)))"

text \<open>\<open>invbrwtest\<close> and \<open>benchmark\<close> leave the company's password out.\<close>

definition short_logon_params :: "probe_conf \<Rightarrow> (string \<times> string) list" where
  "short_logon_params c =
     [(''Operator'', pc_operator c), (''OperatorPassword'', pc_password c), (''CompanyId'', pc_companyID c)]"

definition probe_logon_params :: "probe_conf \<Rightarrow> (string \<times> string) list" where
  "probe_logon_params c = short_logon_params c @ [(''CompanyPassword'', pc_companyPassword c)]"

text \<open>Log on, run the body, and log off whatever it returned (an error of the logoff is only printed).\<close>

definition probe_run ::
  "string \<Rightarrow> (world \<Rightarrow> string res \<times> world) \<Rightarrow> (string \<Rightarrow> world \<Rightarrow> 'a res \<times> world) \<Rightarrow> world \<Rightarrow> 'a res \<times> world" where
  "probe_run base lg body w =
     (case lg w of
        (Inl e, w1) \<Rightarrow> (Inl (wrap_err ''logon failed'' e), w1)
      | (Inr guid, w1) \<Rightarrow> (case body guid w1 of (r, w2) \<Rightarrow> (r, tool_logoff base guid w2)))"

definition query_params :: "string \<Rightarrow> string \<Rightarrow> string \<Rightarrow> (string \<times> string) list" where
  "query_params guid bo xml = [(''UserId'', guid), (''BusinessObject'', bo), (''XmlIn'', xml)]"

section \<open>enettest\<close>

definition enettest :: "env \<Rightarrow> world \<Rightarrow> unit res \<times> world" where
  "enettest env w =
     (case probe_conf env of
        Inl e \<Rightarrow> (Inl e, w)
      | Inr c \<Rightarrow>
          (case strict_logon ''logon rejected by SYSPRO'' (pc_base c) (probe_logon_params c) w of
             (Inl e, w1) \<Rightarrow> (Inl (wrap_err ''logon failed'' e), w1)
           | (Inr guid, w1) \<Rightarrow>
               (case tool_get (pc_base c) ''/Logoff'' [(''UserId'', guid)] w1 of
                  (Inl e, w2) \<Rightarrow> (Inl (wrap_err ''logoff failed'' e), w2)
                | (Inr _, w2) \<Rightarrow> (Inr (), w2))))"

section \<open>sorqrytest\<close>

definition sorqry_probe_xml :: "string \<Rightarrow> string \<Rightarrow> string" where
  "sorqry_probe_xml num flag =
     ''<Query><Key><SalesOrder>'' @ num @ ''</SalesOrder></Key><Option><IncludeStockedLines>'' @ flag @
     ''</IncludeStockedLines><IncludeNonStockedLines>'' @ flag @ ''</IncludeNonStockedLines><IncludeFreightLines>'' @ flag @
     ''</IncludeFreightLines><IncludeMiscLines>N</IncludeMiscLines><IncludeCommentLines>N</IncludeCommentLines></Option></Query>''"

definition invqry_probe_xml :: "string \<Rightarrow> string \<Rightarrow> string" where
  "invqry_probe_xml sku wh =
     ''<Query><Key><StockCode>'' @ sku @ ''</StockCode></Key><Option><WarehouseFilterType>S</WarehouseFilterType>'' @
     ''<WarehouseFilterValue>'' @ wh @ ''</WarehouseFilterValue></Option></Query>''"

text \<open>The report: the raw SORQRY response and, where a SKU is configured, how INVQRY ended.\<close>

definition sorqry_body :: "env \<Rightarrow> string \<Rightarrow> string \<Rightarrow> string \<Rightarrow> world \<Rightarrow> (string \<times> string res option) res \<times> world" where
  "sorqry_body env base num guid w =
     (let flag = (if env ''INCLUDE_LINES'' = ''Y'' then ''Y'' else ''N'')
      in case tool_get base ''/Query/Query'' (query_params guid ''SORQRY'' (sorqry_probe_xml num flag)) w of
           (Inl e, w1) \<Rightarrow> (Inl (wrap_err ''SORQRY query failed'' e), w1)
         | (Inr resp, w1) \<Rightarrow>
             (if env ''SYSPRO_SKUS'' = [] then (Inr (resp, None), w1)
              else let wh = (if env ''SYSPRO_WAREHOUSE'' = [] then ''WH01'' else env ''SYSPRO_WAREHOUSE'');
                       sku = TrimSpace (hd (Split (CHR '','') (env ''SYSPRO_SKUS'')))
                   in case tool_get base ''/Query/Query'' (query_params guid ''INVQRY'' (invqry_probe_xml sku wh)) w1 of
                        (r, w2) \<Rightarrow> (Inr (resp, Some r), w2)))"

text \<open>The answer of the logon is checked after the logon; a refused one is not logged off.\<close>

definition sorqrytest :: "env \<Rightarrow> string list \<Rightarrow> world \<Rightarrow> (string \<times> string res option) res \<times> world" where
  "sorqrytest env args w =
     (case probe_conf env of
        Inl e \<Rightarrow> (Inl e, w)
      | Inr c \<Rightarrow>
          (case args of
             [] \<Rightarrow> (Inl (Errorf ''Usage: go run ./cmd/sorqrytest ORDER_NUMBER''), w)
           | num # _ \<Rightarrow>
               (case plain_logon (pc_base c) (probe_logon_params c) w of
                  (Inl e, w1) \<Rightarrow> (Inl (wrap_err ''logon failed'' e), w1)
                | (Inr guid, w1) \<Rightarrow>
                    if HasPrefix guid ''ERROR'' then (Inl (Errorf (''logon returned error: '' @ guid)), w1)
                    else (case sorqry_body env (pc_base c) num guid w1 of
                            (r, w2) \<Rightarrow> (r, tool_logoff (pc_base c) guid w2)))))"

section \<open>invbrwtest\<close>

definition wh_filter :: "string \<Rightarrow> string" where
  "wh_filter wh =
     (if wh = [] then []
      else ''<Option><WarehouseFilterType>S</WarehouseFilterType><WarehouseFilterValue>'' @ wh @
           ''</WarehouseFilterValue></Option>'')"

text \<open>The candidates: business object and input, in the order they are tried.\<close>

definition inv_probes :: "string \<Rightarrow> (string \<times> string) list" where
  "inv_probes wh =
     (let tail = ''<WarehouseFilterType>S</WarehouseFilterType><WarehouseFilterValue>'' @ wh @
                 ''</WarehouseFilterValue></Option></Query>''
      in [(''INVQRY'', ''<Query><Key/><Option><StockCodeFilterType>A</StockCodeFilterType>'' @ tail),
          (''INVQRY'', ''<Query><Key/><Option><StockCodeFilterType>R</StockCodeFilterType>'' @
             ''<StockCodeFromFilterValue></StockCodeFromFilterValue>'' @
             ''<StockCodeToFilterValue>ZZZZZZZZZZZ</StockCodeToFilterValue>'' @ tail),
          (''INVQRY'', ''<Query><Option>'' @ tail),
          (''INVQRY'', ''<Query/>''),
          (''INVQRX'', ''<Query><Key><StockCode/></Key>'' @ wh_filter wh @ ''</Query>''),
          (''INVQWH'', ''<Query><Key><Warehouse>'' @ wh @ ''</Warehouse></Key></Query>''),
          (''INVBRW'', ''<Query><Key><Warehouse>'' @ wh @ ''</Warehouse></Key></Query>''),
          (''INVBRW'', ''<Query><Key/></Query>''),
          (''INVLST'', ''<Query><Key/></Query>''),
          (''INVQRY'', ''<Query><Key><StockCode/></Key>'' @ wh_filter wh @ ''</Query>''),
          (''COMBGQ'', ''<Query><Key><Table>InvMaster</Table></Key><Option><FilterColumn>Warehouse</FilterColumn>'' @
             ''<FilterValue>'' @ wh @ ''</FilterValue></Option></Query>''),
          (''INVQWS'', ''<Query><Key><Warehouse>'' @ wh @ ''</Warehouse></Key></Query>'')])"

text \<open>A probe that fails is reported and the next one is tried; one that answers leaves a file.\<close>

definition probe_file :: "nat \<Rightarrow> string \<Rightarrow> string" where
  "probe_file i name = ''/tmp/invbrwtest-probe-'' @ Itoa (int i + 1) @ ''-'' @ name @ ''.xml''"

fun inv_loop :: "string \<Rightarrow> string \<Rightarrow> nat \<Rightarrow> (string \<times> string) list \<Rightarrow> world \<Rightarrow> (string \<times> string) list \<times> world" where
  "inv_loop base guid i [] w = ([], w)"
| "inv_loop base guid i ((name, xml) # ps) w =
     (case tool_get base ''/Query/Query'' (query_params guid name xml) w of
        (Inl _, w1) \<Rightarrow> inv_loop base guid (Suc i) ps w1
      | (Inr resp, w1) \<Rightarrow>
          (case inv_loop base guid (Suc i) ps w1 of
             (fs, w2) \<Rightarrow> ((probe_file i name, json_or_body resp) # fs, w2)))"

definition invbrwtest :: "env \<Rightarrow> string list \<Rightarrow> world \<Rightarrow> (string \<times> string) list res \<times> world" where
  "invbrwtest env args w =
     (case probe_conf env of
        Inl e \<Rightarrow> (Inl e, w)
      | Inr c \<Rightarrow>
          let wh = (case args of a # _ \<Rightarrow> a | [] \<Rightarrow> env ''SYSPRO_WAREHOUSE'')
          in probe_run (pc_base c) (plain_logon (pc_base c) (short_logon_params c))
               (\<lambda>guid w. case inv_loop (pc_base c) guid 0 (inv_probes wh) w of (fs, w') \<Rightarrow> (Inr fs, w')) w)"

section \<open>sortoitest\<close>

definition sortoi_probe_params :: "string \<Rightarrow> bool \<Rightarrow> string" where
  "sortoi_probe_params alloc post =
     ''<SalesOrders><Parameters><Process>Import</Process><StatusInProcess>N</StatusInProcess><ValidateOnly>N</ValidateOnly>'' @
     ''<IgnoreWarnings>W</IgnoreWarnings><AllocationAction>'' @ alloc @
     ''</AllocationAction><AcceptEarlierShipDate>Y</AcceptEarlierShipDate><ShipFromDefaultBin>Y</ShipFromDefaultBin>'' @
     ''<AlwaysUsePriceEntered>Y</AlwaysUsePriceEntered><AllowZeroPrice>Y</AllowZeroPrice>'' @
     ''<AllowDuplicateOrderNumbers>Y</AllowDuplicateOrderNumbers><OrderStatus>1</OrderStatus>'' @
     (if post then ''<PostSalesOrders>Y</PostSalesOrders>'' else []) @ ''</Parameters></SalesOrders>''"

definition sortoi_probe_data :: "gtime \<Rightarrow> string \<Rightarrow> string" where
  "sortoi_probe_data t wh =
     ''<SalesOrders><Orders><OrderHeader><CustomerPoNumber>#TEST-'' @ Itoa (Unix t) @
     ''</CustomerPoNumber><OrderActionType>A</OrderActionType><Customer>WEBS01</Customer><OrderDate>'' @ fmt_date t @
     ''</OrderDate><Email>test@example.com</Email><ShippingInstrs>Standard UK Delivery</ShippingInstrs>'' @
     ''<ShippingInstrsCod>STANDARD</ShippingInstrsCod><ShipAddress1>Bancroft Road</ShipAddress1>'' @
     ''<ShipAddress2>Unit 7</ShipAddress2><ShipAddress3>Burnley</ShipAddress3><ShipAddress4>Lancashire</ShipAddress4>'' @
     ''<ShipAddress5>United Kingdom</ShipAddress5><ShipPostalCode>BB10 2TP</ShipPostalCode></OrderHeader><OrderDetails>'' @
     ''<StockLine><CustomerPoLine>0001</CustomerPoLine><LineActionType>A</LineActionType><StockCode>BRIQ0152</StockCode>'' @
     ''<Warehouse>'' @ wh @ ''</Warehouse><OrderQty>1</OrderQty><OrderUom>EA</OrderUom><Price>8.00</Price>'' @
     ''<PriceUom>EA</PriceUom></StockLine></OrderDetails></Orders></SalesOrders>''"

text \<open>
  The quick analysis of the answer: the text between the first opening tag of a field and the first closing tag after
  it, cut out with a slice expression, which panics on bad bounds (\<open>None\<close>).
\<close>

datatype quick = NotFound | Malformed | QValue string

definition slice_of :: "nat \<Rightarrow> nat \<Rightarrow> string \<Rightarrow> string option" where
  "slice_of a b s = (if a \<le> b \<and> b \<le> length s then Some (take (b - a) (drop a s)) else None)"

definition quick_field :: "string \<Rightarrow> string \<Rightarrow> quick option" where
  "quick_field xml field =
     (case Index xml (''<'' @ field @ ''>'') of
        None \<Rightarrow> Some NotFound
      | Some start \<Rightarrow>
          (case Index (drop start xml) (''</'' @ field @ ''>'') of
             None \<Rightarrow> Some Malformed
           | Some e \<Rightarrow>
               (case slice_of (start + length field + 2) (start + e) xml of
                  None \<Rightarrow> None
                | Some v \<Rightarrow> Some (QValue (if v = [] then ''(empty)'' else v)))))"

definition quick_fields :: "string list" where
  "quick_fields = [''SalesOrder'', ''ValidationStatus'', ''ItemsProcessed'', ''ItemsInvalid'', ''CustomerPoNumber'']"

definition sortoi_body :: "env \<Rightarrow> string list \<Rightarrow> string \<Rightarrow> string \<Rightarrow> world
    \<Rightarrow> (string \<times> (string \<times> quick option) list) res \<times> world" where
  "sortoi_body env args base guid w =
     (let wh = or_default (env ''SYSPRO_WAREHOUSE'') ''WEBS'';
          ps = sortoi_probe_params (or_default (env ''ALLOC_ACTION'') ''S'') (''--post'' \<in> set args);
          ds = sortoi_probe_data (now w) wh
      in case tool_get base ''/Transaction/Post'' (transaction_params guid ''SORTOI'' ps ds) w of
           (Inl e, w1) \<Rightarrow> (Inl (wrap_err ''SORTOI transaction failed'' e), w1)
         | (Inr resp, w1) \<Rightarrow>
             (Inr (json_or_body resp, map (\<lambda>f. (f, quick_field (json_or_body resp) f)) quick_fields), w1))"

definition sortoitest :: "env \<Rightarrow> string list \<Rightarrow> world \<Rightarrow> (string \<times> (string \<times> quick option) list) res \<times> world" where
  "sortoitest env args w =
     (case probe_conf env of
        Inl e \<Rightarrow> (Inl e, w)
      | Inr c \<Rightarrow>
          probe_run (pc_base c) (plain_logon (pc_base c) (probe_logon_params c))
            (sortoi_body env args (pc_base c)) w)"

section \<open>arspaytest\<close>

record arspay_opts =
  ao_mode :: string
  ao_customer :: string
  ao_reference :: string
  ao_amount :: float64
  ao_fee :: float64
  ao_cashBook :: string
  ao_paymentType :: string

text \<open>The flags' defaults.\<close>

definition arspay_defaults :: "env \<Rightarrow> gtime \<Rightarrow> arspay_opts" where
  "arspay_defaults env t =
     \<lparr>ao_mode = ''validate'', ao_customer = ''WEBS01'', ao_reference = ''#TEST-'' @ Itoa (Unix t),
      ao_amount = flit (1 / 100), ao_fee = flit 0, ao_cashBook = env ''ARSPAY_CASH_BOOK'',
      ao_paymentType = env ''ARSPAY_PAYMENT_TYPE''\<rparr>"

definition arspay_receipt :: "arspay_opts \<Rightarrow> gtime \<Rightarrow> cash_receipt" where
  "arspay_receipt op t =
     \<lparr>cr_CustomerCode = ao_customer op, cr_Bank = ao_cashBook op, cr_PaymentType = ao_paymentType op,
      cr_InvoiceNumber = ao_reference op, cr_Amount = ao_amount op, cr_BankCharges = ao_fee op,
      cr_Currency = ''GBP'', cr_PaymentMethod = ''test'', cr_PostedAt = UTC t\<rparr>"

definition arspay_body :: "string \<Rightarrow> string \<Rightarrow> string \<Rightarrow> string \<Rightarrow> world \<Rightarrow> string res \<times> world" where
  "arspay_body base ps ds guid w =
     (case tool_get base ''/Transaction/Post'' (transaction_params guid ''ARSTPY'' ps ds) w of
        (Inl e, w1) \<Rightarrow> (Inl (wrap_err ''ARSTPY transaction failed'' e), w1)
      | (Inr resp, w1) \<Rightarrow> (ParseARSTPYResponse (json_or_body resp), w1))"

definition arspaytest :: "env \<Rightarrow> arspay_opts \<Rightarrow> world \<Rightarrow> string res \<times> world" where
  "arspaytest env op w =
     (if ao_cashBook op = [] then (Inl (Errorf ''--cashbook required (or set ARSPAY_CASH_BOOK)''), w)
      else if ao_paymentType op = [] then (Inl (Errorf ''--paymenttype required (or set ARSPAY_PAYMENT_TYPE)''), w)
      else case probe_conf env of
        Inl e \<Rightarrow> (Inl e, w)
      | Inr c \<Rightarrow>
          if ao_mode op = ''post'' \<and> pc_companyID c \<noteq> ''RILT''
          then (Inl (Errorf (''refusing to --post against company '' @ go_quote (pc_companyID c) @
                  '' (only RILT allowed)'')), w)
          else case BuildARSTPYData (arspay_receipt op (now w)) of
                 Inl e \<Rightarrow> (Inl (wrap_err ''building ARSTPY data'' e), w)
               | Inr ds \<Rightarrow>
                   probe_run (pc_base c) (strict_logon ''SYSPRO logon error'' (pc_base c) (probe_logon_params c))
                     (arspay_body (pc_base c) (BuildARSTPYParams (ao_mode op = ''validate'')) ds) w)"

section \<open>benchmark\<close>

record bench_result =
  br_duration :: int
  br_failed :: bool

record bench_stats =
  bs_op :: string
  bs_count :: int
  bs_errs :: int
  bs_min :: int
  bs_max :: int
  bs_avg :: int
  bs_p95 :: int

text \<open>\<open>int(math.Ceil(x))\<close>; a count times 0.95 is always finite.\<close>

fun ceil_int :: "float64 \<Rightarrow> int" where
  "ceil_int (Fin q) = \<lceil>q\<rceil>"
| "ceil_int _ = 0"

text \<open>One turn of the loop over the results: the statistics so far and the tot, which is an \<open>int64\<close>.\<close>

definition stats_step :: "bench_stats \<times> int \<Rightarrow> bench_result \<Rightarrow> bench_stats \<times> int" where
  "stats_step st r =
     (case st of (s, tot) \<Rightarrow>
        (s\<lparr>bs_errs := (if br_failed r then bs_errs s + 1 else bs_errs s),
           bs_min := (if br_duration r < bs_min s then br_duration r else bs_min s),
           bs_max := (if bs_max s < br_duration r then br_duration r else bs_max s)\<rparr>,
         wrap64 (tot + br_duration r)))"

definition p95_index :: "nat \<Rightarrow> nat" where
  "p95_index n =
     (let i = ceil_int (fmul (of_int64 (int n)) (flit (95 / 100))) - 1;
          j = (if i < 0 then 0 else i)
      in nat (if int n \<le> j then int n - 1 else j))"

definition computeStats :: "string \<Rightarrow> bench_result list \<Rightarrow> bench_stats" where
  "computeStats op rs =
     (let s0 = \<lparr>bs_op = op, bs_count = int (length rs), bs_errs = 0, bs_min = 0, bs_max = 0, bs_avg = 0, bs_p95 = 0\<rparr>
      in if rs = [] then s0
         else case foldl stats_step (s0\<lparr>bs_min := 2 ^ 63 - 1\<rparr>, 0) rs of
                (s, tot) \<Rightarrow> s\<lparr>bs_avg := tot sdiv int (length rs),
                                 bs_p95 := sort (map br_duration rs) ! p95_index (length rs)\<rparr>)"

definition bench_invqry :: string where
  "bench_invqry = ''<Query><Key><StockCode>CBBQ0001</StockCode></Key></Query>''"

definition bench_sorqry :: string where
  "bench_sorqry =
     ''<Query><Key><SalesOrderNumber>000001</SalesOrderNumber></Key><Option><IncludeStockedLines>N</IncludeStockedLines>'' @
     ''<IncludeNonStockedLines>N</IncludeNonStockedLines><IncludeFreightLines>N</IncludeFreightLines>'' @
     ''<IncludeMiscLines>N</IncludeMiscLines><IncludeCommentLines>N</IncludeCommentLines></Option></Query>''"

definition bench_sortoi_params :: string where
  "bench_sortoi_params =
     ''<SalesOrders><Parameters><IgnoreWarnings>Y</IgnoreWarnings><AlwaysUsePriceEntered>Y</AlwaysUsePriceEntered>'' @
     ''<AllowZeroPrice>Y</AllowZeroPrice></Parameters></SalesOrders>''"

definition fmt_stamp :: "gtime \<Rightarrow> string" where
  "fmt_stamp t = (let s = local_secs t mod 86400 in fmt_compact t @ ''-'' @
     pad_nat 2 (s div 3600) @ pad_nat 2 (s mod 3600 div 60) @ pad_nat 2 (s mod 60))"

definition bench_sortoi :: "gtime \<Rightarrow> string" where
  "bench_sortoi t =
     ''<SalesOrders><Orders><OrderHeader><CustomerPoNumber>#BENCH-'' @ fmt_stamp t @
     ''</CustomerPoNumber><Customer>WEBS01</Customer><OrderDate>'' @ fmt_date t @
     ''</OrderDate></OrderHeader><OrderDetails><StockLine><CustomerPoLine>0001</CustomerPoLine>'' @
     ''<StockCode>CBBQ0001</StockCode><OrderQty>1</OrderQty><OrderUom>EA</OrderUom><Price>9.99</Price>'' @
     ''<PriceUom>EA</PriceUom></StockLine></OrderDetails></Orders></SalesOrders>''"

text \<open>\<open>n\<close> timed calls; \<open>ps\<close> builds the parameters of one from the time.\<close>

fun bench_loop :: "nat \<Rightarrow> string \<Rightarrow> string \<Rightarrow> (gtime \<Rightarrow> (string \<times> string) list) \<Rightarrow> world \<Rightarrow> bench_result list \<times> world" where
  "bench_loop 0 base path ps w = ([], w)"
| "bench_loop (Suc n) base path ps w =
     (case tool_get base path (ps (now w)) w of
        (r, w1) \<Rightarrow> (case bench_loop n base path ps w1 of
          (rs, w2) \<Rightarrow> (\<lparr>br_duration = w_clock w1 - w_clock w, br_failed = \<not> is_ok r\<rparr> # rs, w2)))"

definition bench_body :: "nat \<Rightarrow> string \<Rightarrow> string \<Rightarrow> world \<Rightarrow> bench_stats list res \<times> world" where
  "bench_body n base guid w =
     (case bench_loop n base ''/Query/Query'' (\<lambda>_. query_params guid ''INVQRY'' bench_invqry) w of
        (r1, w1) \<Rightarrow>
     (case bench_loop n base ''/Query/Query'' (\<lambda>_. query_params guid ''SORQRY'' bench_sorqry) w1 of
        (r2, w2) \<Rightarrow>
     (case bench_loop n base ''/Transaction/Post''
             (\<lambda>t. transaction_params guid ''SORTOI'' bench_sortoi_params (bench_sortoi t)) w2 of
        (r3, w3) \<Rightarrow>
          (Inr [computeStats ''INVQRY'' r1, computeStats ''SORQRY'' r2, computeStats ''SORTOI'' r3], w3))))"

definition benchmark :: "env \<Rightarrow> int \<Rightarrow> world \<Rightarrow> bench_stats list res \<times> world" where
  "benchmark env iterations w =
     (if iterations < 1 then (Inl (Errorf ''iterations must be >= 1''), w)
      else case probe_conf env of
        Inl e \<Rightarrow> (Inl e, w)
      | Inr c \<Rightarrow>
          probe_run (pc_base c) (plain_logon (pc_base c) (short_logon_params c))
            (bench_body (nat iterations) (pc_base c)) w)"

text \<open>The unit of the table: seconds from one second on, milliseconds below.\<close>

fun fmt_fixed :: "nat \<Rightarrow> float64 \<Rightarrow> string" where
  "fmt_fixed k (Fin q) =
     (let c = round_even (\<bar>q\<bar> * 10 ^ k)
      in (if q < 0 then ''-'' else []) @ nat_str (c div 10 ^ k) @
         (if k = 0 then [] else ''.'' @ pad_nat k (c mod 10 ^ k)))"
| "fmt_fixed k (Inf s) = (if s then ''-Inf'' else ''+Inf'')"
| "fmt_fixed k NaN = ''NaN''"

definition fmtMs :: "int \<Rightarrow> string" where
  "fmtMs d =
     (let ms = fdiv (of_int64 d) (Fin 1000000)
      in if fle (Fin 1000) ms then fmt_fixed 1 (fdiv ms (Fin 1000)) @ ''s'' else fmt_fixed 0 ms @ ''ms'')"

end
