(* ===== verification/ProbesProps.thy ===== *)
theory ProbesProps
  imports Probes ResubmitProps
begin

text \<open>
  What the probes send and report: each run is one session (logon, its calls under the session's identifier, logoff)
  and writes nothing to the database; only \<open>sortoitest\<close>, \<open>arspaytest\<close> and \<open>benchmark\<close> post; a test receipt is
  committed exactly outside the validate mode, the company being checked in the mode \<open>post\<close> alone; the statistics of
  the benchmark are those of the measured durations.
\<close>

section \<open>Sessions\<close>

definition probe_req :: "string \<Rightarrow> string \<Rightarrow> (string \<times> string) list \<Rightarrow> http_req" where
  "probe_req base path ps = \<lparr>rq_method = ''GET'', rq_url = base @ path, rq_query = ps, rq_headers = [], rq_body = []\<rparr>"

definition query_path :: string where "query_path = ''/Query/Query''"
definition post_path :: string where "post_path = ''/Transaction/Post''"

text \<open>Calls to \<open>paths\<close>, in order, each under the session's identifier; the tables stay.\<close>

definition calls_sent :: "string \<Rightarrow> string \<Rightarrow> string list \<Rightarrow> world \<Rightarrow> world \<Rightarrow> bool" where
  "calls_sent base guid paths w w' \<longleftrightarrow> w_db w' = w_db w \<and>
     (\<exists>calls. w_sent w' = w_sent w @ map (\<lambda>(p, ps). probe_req base p ((''UserId'', guid) # ps)) calls \<and>
              map fst calls = paths)"

text \<open>Nothing sent, a logon that failed, or a whole session with calls to \<open>paths\<close>.\<close>

definition session :: "string \<Rightarrow> string list \<Rightarrow> world \<Rightarrow> world \<Rightarrow> bool" where
  "session base paths w w' \<longleftrightarrow> w_db w' = w_db w \<and>
     (w_sent w' = w_sent w \<or>
      (\<exists>lp. w_sent w' = w_sent w @ [probe_req base ''/Logon'' lp]) \<or>
      (\<exists>lp guid calls. guid \<noteq> [] \<and> map fst calls = paths \<and>
         w_sent w' = w_sent w @ probe_req base ''/Logon'' lp #
           map (\<lambda>(p, ps). probe_req base p ((''UserId'', guid) # ps)) calls @
           [probe_req base ''/Logoff'' [(''UserId'', guid)]]))"

lemma tool_get_world:
  "w_db (snd (tool_get base path ps w)) = w_db w"
  "w_sent (snd (tool_get base path ps w)) = w_sent w @ [probe_req base path ps]"
  using tool_get_spec(1,3) [of base path ps w "fst (tool_get base path ps w)" "snd (tool_get base path ps w)"]
  by (simp_all add: probe_req_def)

lemma tool_logoff_world:
  "w_db (tool_logoff base guid w) = w_db w"
  "w_sent (tool_logoff base guid w) = w_sent w @ [probe_req base ''/Logoff'' [(''UserId'', guid)]]"
  by (simp_all add: tool_logoff_def tool_get_world)

lemma sends_none: "calls_sent base guid [] w w"
  by (simp add: calls_sent_def)

lemma sends_one:
  assumes "tool_get base path ((''UserId'', guid) # ps) w = (r, w')"
  shows "calls_sent base guid [path] w w'"
proof -
  have "w_sent w' = w_sent w @ map (\<lambda>(p, qs). probe_req base p ((''UserId'', guid) # qs)) [(path, ps)]"
    using tool_get_world(2) [of base path "(''UserId'', guid) # ps" w] by (simp add: assms)
  moreover have "w_db w' = w_db w"
    using tool_get_world(1) [of base path "(''UserId'', guid) # ps" w] by (simp add: assms)
  ultimately show ?thesis unfolding calls_sent_def by (intro conjI exI [of _ "[(path, ps)]"]) simp_all
qed

lemma sends_append:
  assumes "calls_sent base guid ps w w1" "calls_sent base guid qs w1 w2"
  shows "calls_sent base guid (ps @ qs) w w2"
proof -
  obtain a where a: "w_sent w1 = w_sent w @ map (\<lambda>(p, ps). probe_req base p ((''UserId'', guid) # ps)) a" "map fst a = ps"
    using assms(1) by (auto simp: calls_sent_def)
  obtain b where b: "w_sent w2 = w_sent w1 @ map (\<lambda>(p, ps). probe_req base p ((''UserId'', guid) # ps)) b" "map fst b = qs"
    using assms(2) by (auto simp: calls_sent_def)
  have "w_sent w2 = w_sent w @ map (\<lambda>(p, ps). probe_req base p ((''UserId'', guid) # ps)) (a @ b) \<and> map fst (a @ b) = ps @ qs"
    using a b by simp
  moreover have "w_db w2 = w_db w" using assms by (simp add: calls_sent_def)
  ultimately show ?thesis unfolding calls_sent_def by (intro conjI exI [of _ "a @ b"]) simp_all
qed

lemma sends_Cons: "calls_sent base guid [p] w w1 \<Longrightarrow> calls_sent base guid ps w1 w2 \<Longrightarrow> calls_sent base guid (p # ps) w w2"
  using sends_append [of base guid "[p]" w w1 ps w2] by simp

lemma session_empty: "session base paths w w"
  by (simp add: session_def)

lemma session_logon:
  "w_db w' = w_db w \<Longrightarrow> w_sent w' = w_sent w @ [probe_req base ''/Logon'' lp] \<Longrightarrow> session base paths w w'"
  by (auto simp: session_def)

lemma session_whole:
  assumes "w_db w1 = w_db w" "w_sent w1 = w_sent w @ [probe_req base ''/Logon'' lp]" "guid \<noteq> []"
    "calls_sent base guid paths w1 w2"
    "w_db w3 = w_db w2" "w_sent w3 = w_sent w2 @ [probe_req base ''/Logoff'' [(''UserId'', guid)]]"
  shows "session base paths w w3"
proof -
  obtain calls where c: "w_sent w2 = w_sent w1 @ map (\<lambda>(p, ps). probe_req base p ((''UserId'', guid) # ps)) calls"
    "map fst calls = paths" "w_db w2 = w_db w1"
    using assms(4) by (auto simp: calls_sent_def)
  have "w_sent w3 = w_sent w @ probe_req base ''/Logon'' lp #
      map (\<lambda>(p, ps). probe_req base p ((''UserId'', guid) # ps)) calls @ [probe_req base ''/Logoff'' [(''UserId'', guid)]]"
    using assms(2,6) c by simp
  moreover have "w_db w3 = w_db w" using assms(1,5) c by simp
  ultimately show ?thesis unfolding session_def using assms(3) c(2) by (intro conjI disjI2 exI [of _ lp] exI [of _ guid] exI [of _ calls]) simp_all
qed

lemma plain_logon_world:
  assumes "plain_logon base lp w = (r, w')"
  shows "w_db w' = w_db w" "w_sent w' = w_sent w @ [probe_req base ''/Logon'' lp]" "r = Inr guid \<Longrightarrow> guid \<noteq> []"
proof -
  obtain x w1 where g: "tool_get base ''/Logon'' lp w = (x, w1)" by (rule prod.exhaust)
  have "w' = w1" using assms by (cases x) (auto simp: plain_logon_def g)
  with tool_get_world [of base "''/Logon''" lp w] show "w_db w' = w_db w" "w_sent w' = w_sent w @ [probe_req base ''/Logon'' lp]"
    by (simp_all add: g)
  show "r = Inr guid \<Longrightarrow> guid \<noteq> []" using assms by (cases x) (auto simp: plain_logon_def g split: if_splits)
qed

lemma strict_logon_world:
  assumes "strict_logon m base lp w = (r, w')"
  shows "w_db w' = w_db w" "w_sent w' = w_sent w @ [probe_req base ''/Logon'' lp]" "r = Inr guid \<Longrightarrow> guid \<noteq> []"
proof -
  obtain x w1 where g: "plain_logon base lp w = (x, w1)" by (rule prod.exhaust)
  have "w' = w1" using assms by (cases x) (auto simp: strict_logon_def g)
  with plain_logon_world(1,2) [OF g] show "w_db w' = w_db w" "w_sent w' = w_sent w @ [probe_req base ''/Logon'' lp]"
    by simp_all
  assume "r = Inr guid"
  then have "x = Inr guid" using assms by (cases x) (auto simp: strict_logon_def g split: if_splits)
  then show "guid \<noteq> []" by (rule plain_logon_world(3) [OF g])
qed

lemma probe_run_session:
  assumes lg: "\<And>r w'. lg w = (r, w') \<Longrightarrow> w_db w' = w_db w \<and> w_sent w' = w_sent w @ [probe_req base ''/Logon'' lp] \<and>
      (\<forall>guid. r = Inr guid \<longrightarrow> guid \<noteq> [])"
    and body: "\<And>guid w. calls_sent base guid paths w (snd (body guid w))"
  shows "session base paths w (snd (probe_run base lg body w))"
proof -
  obtain r w1 where l: "lg w = (r, w1)" by (rule prod.exhaust)
  note L = lg [OF l]
  show ?thesis
  proof (cases r)
    case (Inl e)
    then show ?thesis using L by (auto simp: probe_run_def l intro: session_logon)
  next
    case (Inr guid)
    obtain x w2 where b: "body guid w1 = (x, w2)" by (rule prod.exhaust)
    have s: "calls_sent base guid paths w1 w2" using body [of guid w1] by (simp add: b)
    have "session base paths w (tool_logoff base guid w2)"
      by (rule session_whole [OF _ _ _ s]) (use L Inr in \<open>auto simp: tool_logoff_world\<close>)
    then show ?thesis by (simp add: probe_run_def l Inr b)
  qed
qed

lemma plain_session:
  assumes "\<And>guid w. calls_sent base guid paths w (snd (body guid w))"
  shows "session base paths w (snd (probe_run base (plain_logon base lp) body w))"
  by (rule probe_run_session [of _ _ _ lp, OF _ assms]) (use plain_logon_world in blast)

lemma strict_session:
  assumes "\<And>guid w. calls_sent base guid paths w (snd (body guid w))"
  shows "session base paths w (snd (probe_run base (strict_logon m base lp) body w))"
  by (rule probe_run_session [of _ _ _ lp, OF _ assms]) (use strict_logon_world in blast)

section \<open>The bodies\<close>

lemma query_sends: "tool_get base query_path (query_params guid bo xml) w = (r, w') \<Longrightarrow> calls_sent base guid [query_path] w w'"
  unfolding query_params_def by (rule sends_one)

lemma transact_sends: "tool_get base post_path (transaction_params guid bo ps ds) w = (r, w') \<Longrightarrow> calls_sent base guid [post_path] w w'"
  unfolding transaction_params_def by (rule sends_one)

lemma inv_loop_sends: "calls_sent base guid (replicate (length ps) query_path) w (snd (inv_loop base guid i ps w))"
proof (induction base guid i ps w rule: inv_loop.induct)
  case (1 base guid i w)
  show ?case by (simp add: sends_none)
next
  case (2 base guid i name xml ps w)
  obtain r w1 where g: "tool_get base ''/Query/Query'' (query_params guid name xml) w = (r, w1)" by (rule prod.exhaust)
  have s: "calls_sent base guid [query_path] w w1" by (rule query_sends) (use g in \<open>simp add: query_path_def\<close>)
  have "calls_sent base guid (replicate (length ps) query_path) w1 (snd (inv_loop base guid (Suc i) ps w1))"
    using 2 g by (cases r) auto
  from sends_Cons [OF s this] show ?case
    by (cases r; cases "inv_loop base guid (Suc i) ps w1") (simp_all add: g)
qed

lemma inv_probes_length: "length (inv_probes wh) = 12"
  by (simp add: inv_probes_def Let_def)

lemma bench_loop_sends:
  assumes "\<And>t. hd (ps t) = (''UserId'', guid)" "\<And>t. ps t \<noteq> []"
  shows "calls_sent base guid (replicate n path) w (snd (bench_loop n base path ps w))"
proof (induction n arbitrary: w)
  case 0
  show ?case by (simp add: sends_none)
next
  case (Suc n)
  obtain r w1 where g: "tool_get base path (ps (now w)) w = (r, w1)" by (rule prod.exhaust)
  have "ps (now w) = (''UserId'', guid) # tl (ps (now w))" using assms [of "now w"] by (metis list.collapse)
  then have "calls_sent base guid [path] w w1" using g sends_one [of base path guid "tl (ps (now w))" w r w1] by simp
  from sends_Cons [OF this Suc.IH] show ?case
    by (cases "bench_loop n base path ps w1") (simp add: g)
qed

lemma bench_body_sends:
  "calls_sent base guid (replicate (2 * n) query_path @ replicate n post_path) w (snd (bench_body n base guid w))"
proof -
  let ?q = "\<lambda>bo xml. \<lambda>_. query_params guid bo xml"
  let ?t = "\<lambda>t. transaction_params guid ''SORTOI'' bench_sortoi_params (bench_sortoi t)"
  obtain r1 w1 where 1: "bench_loop n base query_path (?q ''INVQRY'' bench_invqry) w = (r1, w1)" by (rule prod.exhaust)
  obtain r2 w2 where 2: "bench_loop n base query_path (?q ''SORQRY'' bench_sorqry) w1 = (r2, w2)" by (rule prod.exhaust)
  obtain r3 w3 where 3: "bench_loop n base post_path ?t w2 = (r3, w3)" by (rule prod.exhaust)
  have b1: "w1 = snd (bench_loop n base query_path (?q ''INVQRY'' bench_invqry) w)"
    and b2: "w2 = snd (bench_loop n base query_path (?q ''SORQRY'' bench_sorqry) w1)"
    and b3: "w3 = snd (bench_loop n base post_path ?t w2)"
    by (simp_all add: 1 2 3)
  have "calls_sent base guid (replicate n query_path) w w1"
    unfolding b1 by (rule bench_loop_sends) (simp_all add: query_params_def)
  moreover have "calls_sent base guid (replicate n query_path) w1 w2"
    unfolding b2 by (rule bench_loop_sends) (simp_all add: query_params_def)
  moreover have "calls_sent base guid (replicate n post_path) w2 w3"
    unfolding b3 by (rule bench_loop_sends) (simp_all add: transaction_params_def)
  ultimately have "calls_sent base guid ((replicate n query_path @ replicate n query_path) @ replicate n post_path) w w3"
    by (blast intro: sends_append)
  moreover have "snd (bench_body n base guid w) = w3"
    using 1 2 3 by (simp add: bench_body_def query_path_def post_path_def)
  ultimately show ?thesis by (simp add: mult_2 replicate_add)
qed

lemma sorqry_body_sends:
  "calls_sent base guid [query_path] w (snd (sorqry_body env base num guid w)) \<or>
   calls_sent base guid [query_path, query_path] w (snd (sorqry_body env base num guid w))"
proof -
  define flag where "flag = (if env ''INCLUDE_LINES'' = ''Y'' then ''Y'' else ''N'')"
  obtain r w1 where g: "tool_get base query_path (query_params guid ''SORQRY'' (sorqry_probe_xml num flag)) w = (r, w1)"
    by (rule prod.exhaust)
  note s = query_sends [OF g]
  show ?thesis
  proof (cases "is_ok r \<and> env ''SYSPRO_SKUS'' \<noteq> []")
    case False
    then have "snd (sorqry_body env base num guid w) = w1"
      using g by (cases r) (simp_all add: sorqry_body_def flag_def query_path_def)
    with s show ?thesis by simp
  next
    case True
    define wh where "wh = (if env ''SYSPRO_WAREHOUSE'' = [] then ''WH01'' else env ''SYSPRO_WAREHOUSE'')"
    define sku where "sku = TrimSpace (hd (Split (CHR '','') (env ''SYSPRO_SKUS'')))"
    obtain x w2 where h: "tool_get base query_path (query_params guid ''INVQRY'' (invqry_probe_xml sku wh)) w1 = (x, w2)"
      by (rule prod.exhaust)
    have "snd (sorqry_body env base num guid w) = w2"
      using True g h by (cases r) (simp_all add: sorqry_body_def flag_def query_path_def wh_def sku_def Let_def)
    with sends_Cons [OF s query_sends [OF h]] show ?thesis by simp
  qed
qed

lemma sortoi_body_sends: "calls_sent base guid [post_path] w (snd (sortoi_body env args base guid w))"
proof -
  define ps where "ps = sortoi_probe_params (or_default (env ''ALLOC_ACTION'') ''S'') (''--post'' \<in> set args)"
  define ds where "ds = sortoi_probe_data (now w) (or_default (env ''SYSPRO_WAREHOUSE'') ''WEBS'')"
  obtain r w1 where g: "tool_get base post_path (transaction_params guid ''SORTOI'' ps ds) w = (r, w1)" by (rule prod.exhaust)
  have "snd (sortoi_body env args base guid w) = w1"
    using g by (cases r) (simp_all add: sortoi_body_def post_path_def ps_def ds_def Let_def)
  with transact_sends [OF g] show ?thesis by simp
qed

lemma arspay_body_sends: "calls_sent base guid [post_path] w (snd (arspay_body base ps ds guid w))"
proof -
  obtain r w1 where g: "tool_get base post_path (transaction_params guid ''ARSTPY'' ps ds) w = (r, w1)" by (rule prod.exhaust)
  have "snd (arspay_body base ps ds guid w) = w1" using g by (cases r) (simp_all add: arspay_body_def post_path_def)
  with transact_sends [OF g] show ?thesis by simp
qed

section \<open>The runs\<close>

definition enet_base :: "env \<Rightarrow> string" where
  "enet_base env = TrimRight (CHR ''/'') (env ''SYSPRO_ENET_URL'')"

lemma probe_conf_base: "probe_conf env = Inr c \<Longrightarrow> pc_base c = enet_base env"
  by (auto simp: probe_conf_def require_env_def enet_base_def split: if_splits)

lemma enettest_session: "session (enet_base env) [] w (snd (enettest env w))"
proof (cases "probe_conf env")
  case (Inl e)
  then show ?thesis by (simp add: enettest_def session_empty)
next
  case (Inr c)
  let ?b = "enet_base env"
  note b = probe_conf_base [OF Inr]
  obtain r w1 where l: "strict_logon ''logon rejected by SYSPRO'' ?b (probe_logon_params c) w = (r, w1)"
    by (rule prod.exhaust)
  note L = strict_logon_world [OF l]
  show ?thesis
  proof (cases r)
    case [simp]: (Inl e)
    show ?thesis using L(1,2) by (auto simp: enettest_def Inr b l intro: session_logon)
  next
    case [simp]: (Inr guid)
    obtain x w2 where g: "tool_get ?b ''/Logoff'' [(''UserId'', guid)] w1 = (x, w2)" by (rule prod.exhaust)
    have "session ?b [] w w2"
      using session_whole [OF L(1,2) L(3) [OF Inr] sends_none, of w2]
        tool_get_world [of ?b "''/Logoff''" "[(''UserId'', guid)]" w1] by (simp add: g)
    moreover have "snd (enettest env w) = w2" using \<open>probe_conf env = Inr c\<close> l g by (cases x) (simp_all add: enettest_def b)
    ultimately show ?thesis by simp
  qed
qed

lemma sorqrytest_session:
  "session (enet_base env) [query_path] w (snd (sorqrytest env args w)) \<or> session (enet_base env) [query_path, query_path] w (snd (sorqrytest env args w))"
proof (cases "(\<exists>e. probe_conf env = Inl e) \<or> args = []")
  case True
  then show ?thesis by (cases "probe_conf env") (auto simp: sorqrytest_def session_empty)
next
  case False
  then obtain c num rest where c: "probe_conf env = Inr c" and args: "args = num # rest"
    by (cases "probe_conf env"; cases args) auto
  let ?b = "enet_base env"
  note b = probe_conf_base [OF c]
  obtain r w1 where l: "plain_logon ?b (probe_logon_params c) w = (r, w1)" by (rule prod.exhaust)
  note L = plain_logon_world [OF l]
  show ?thesis
  proof (cases "\<exists>guid. r = Inr guid \<and> \<not> HasPrefix guid ''ERROR''")
    case False
    then have "snd (sorqrytest env args w) = w1" using l by (cases r) (simp_all add: sorqrytest_def c args b)
    with session_logon [OF L(1,2)] show ?thesis by simp
  next
    case True
    then obtain guid where r: "r = Inr guid" "\<not> HasPrefix guid ''ERROR''" by blast
    obtain x w2 where s: "sorqry_body env ?b num guid w1 = (x, w2)" by (rule prod.exhaust)
    have e: "snd (sorqrytest env args w) = tool_logoff ?b guid w2" using l r s by (simp add: sorqrytest_def c args b)
    have "calls_sent ?b guid [query_path] w1 w2 \<or> calls_sent ?b guid [query_path, query_path] w1 w2" using sorqry_body_sends [of ?b guid w1 env num] by (simp add: s)
    then show ?thesis unfolding e
      by (auto intro!: session_whole [OF L(1,2) L(3) [OF r(1)]] simp: tool_logoff_world)
  qed
qed


section \<open>Reading a field between its tags\<close>

lemma Index_Some:
  "Index s p = Some i \<Longrightarrow> HasPrefix (drop i s) p \<and> (\<forall>j < i. \<not> HasPrefix (drop j s) p)"
proof (induction s arbitrary: i)
  case Nil
  then show ?case by (auto simp: HasPrefix_def split: if_splits)
next
  case (Cons c s)
  show ?case
  proof (cases "HasPrefix (c # s) p")
    case True
    then show ?thesis using Cons.prems by simp
  next
    case False
    then obtain k where k: "Index s p = Some k" "i = Suc k" using Cons.prems by auto
    have "\<not> HasPrefix (drop j (c # s)) p" if "j < i" for j
      using that Cons.IH [OF k(1)] k(2) False by (cases j) auto
    with Cons.IH [OF k(1)] k(2) show ?thesis by simp
  qed
qed

lemma Index_first:
  "HasPrefix (drop i s) p \<Longrightarrow> i \<le> length s \<Longrightarrow> \<forall>j < i. \<not> HasPrefix (drop j s) p \<Longrightarrow> Index s p = Some i"
proof (induction s arbitrary: i)
  case Nil
  then show ?case by (simp add: HasPrefix_def)
next
  case (Cons c s)
  show ?case
  proof (cases i)
    case 0
    then show ?thesis using Cons.prems(1) by simp
  next
    case (Suc k)
    have "\<not> HasPrefix (c # s) p" using Cons.prems(3) Suc by force
    moreover have "\<forall>j < k. \<not> HasPrefix (drop j s) p" using Cons.prems(3) Suc by force
    ultimately show ?thesis using Cons.IH [of k] Cons.prems(1,2) Suc by simp
  qed
qed

lemma Index_le: "HasPrefix (drop j s) p \<Longrightarrow> j \<le> length s \<Longrightarrow> \<exists>k \<le> j. Index s p = Some k"
proof (induction s arbitrary: j)
  case Nil
  then show ?case by (simp add: HasPrefix_def)
next
  case (Cons c s)
  show ?case
  proof (cases "HasPrefix (c # s) p")
    case False
    then obtain i where i: "j = Suc i" using Cons.prems(1) by (cases j) auto
    with Cons.IH [of i] Cons.prems obtain k where "k \<le> i" "Index s p = Some k" by auto
    then show ?thesis using False i by auto
  qed simp
qed

lemma HasPrefix_split: "HasPrefix s p \<longleftrightarrow> (\<exists>r. s = p @ r)"
  by (metis HasPrefix_def append_eq_conv_conj append_take_drop_id)

definition tag_name :: "string \<Rightarrow> bool" where
  "tag_name f \<longleftrightarrow> CHR ''<'' \<notin> set f \<and> CHR ''/'' \<notin> set f"

text \<open>A closing tag found in a text that starts with the opening tag lies behind it.\<close>

lemma close_behind_open:
  assumes "HasPrefix s (''<'' @ f @ ''>'')" "Index s (''</'' @ f @ ''>'') = Some e" "tag_name f"
  shows "length f + 2 \<le> e" "e \<le> length s"
proof -
  obtain r where r: "s = ''<'' @ f @ ''>'' @ r" using assms(1) by (auto simp: HasPrefix_split)
  obtain q where q: "drop e s = ''</'' @ f @ ''>'' @ q"
    using Index_Some [OF assms(2)] by (auto simp: HasPrefix_split)
  then have "e < length s" by (metis Cons_eq_appendI drop_eq_Nil not_less list.distinct(1))
  then show "e \<le> length s" by simp
  have e0: "s ! e = CHR ''<''" "Suc e < length s" "s ! Suc e = CHR ''/''"
  proof -
    show "s ! e = CHR ''<''" using q \<open>e < length s\<close> by (metis Cons_eq_appendI Cons_nth_drop_Suc list.inject)
    have d: "drop (Suc e) s = ''/'' @ f @ ''>'' @ q" using q by (metis Cons_eq_appendI drop_Suc list.sel(3) tl_drop append_Nil)
    then show "Suc e < length s" by (metis Cons_eq_appendI drop_eq_Nil not_less list.distinct(1))
    then show "s ! Suc e = CHR ''/''" using d by (metis Cons_eq_appendI Cons_nth_drop_Suc list.inject)
  qed
  show "length f + 2 \<le> e"
  proof (rule ccontr)
    assume "\<not> length f + 2 \<le> e"
    then consider "e = 0" | k where "e = Suc k" "k < length f" | "e = Suc (length f)"
      by (cases e) (force simp: not_le less_Suc_eq)+
    then show False
    proof cases
      case 1
      then show ?thesis using e0(3) r assms(3) by (cases f) (auto simp: tag_name_def)
    next
      case 2
      then have "s ! e = f ! k" by (simp add: r nth_append)
      with e0(1) 2(2) assms(3) show ?thesis by (metis nth_mem tag_name_def)
    next
      case 3
      then show ?thesis using e0(1) by (simp add: r nth_append)
    qed
  qed
qed

lemma quick_field_safe: "tag_name f \<Longrightarrow> quick_field xml f \<noteq> None"
proof
  assume f: "tag_name f" and N: "quick_field xml f = None"
  then obtain i e where i: "Index xml (''<'' @ f @ ''>'') = Some i"
    and e: "Index (drop i xml) (''</'' @ f @ ''>'') = Some e"
    and s: "slice_of (i + length f + 2) (i + e) xml = None"
    by (auto simp: quick_field_def split: option.splits)
  have "HasPrefix (drop i xml) (''<'' @ f @ ''>'')" using Index_Some [OF i] by simp
  from close_behind_open [OF this e f] have "length f + 2 \<le> e" "e \<le> length (drop i xml)" .
  moreover have "i \<le> length xml"
    using \<open>HasPrefix (drop i xml) (''<'' @ f @ ''>'')\<close> by (auto simp: HasPrefix_split dest: arg_cong [of _ _ length])
  ultimately show False using s by (auto simp: slice_of_def split: if_splits)
qed

lemma Index_append:
  assumes "Index s p = Some i"
  shows "Index (s @ r) p = Some i"
proof (rule Index_first)
  note S = Index_Some [OF assms]
  then obtain q where q: "drop i s = p @ q" by (auto simp: HasPrefix_split)
  have l: "i + length p \<le> length s \<or> p = []"
    using arg_cong [OF q, of length] by (cases p) auto
  have il: "i \<le> length s"
  proof (cases "p = []")
    case True
    then show ?thesis using assms by (cases s) (auto simp: HasPrefix_def)
  qed (use l in auto)
  then show "i \<le> length (s @ r)" by simp
  show "HasPrefix (drop i (s @ r)) p" using q il by (auto simp: HasPrefix_split)
  show "\<forall>j < i. \<not> HasPrefix (drop j (s @ r)) p"
  proof (intro allI impI)
    fix j
    assume j: "j < i"
    show "\<not> HasPrefix (drop j (s @ r)) p"
    proof (cases "p = []")
      case True
      then show ?thesis using S j by (simp add: HasPrefix_def)
    next
      case False
      then have "length p \<le> length s - j" "j \<le> length s" using l j by simp_all
      then have "HasPrefix (drop j (s @ r)) p \<longleftrightarrow> HasPrefix (drop j s) p" by (simp add: HasPrefix_def)
      then show ?thesis using S j by simp
    qed
  qed
qed

lemma quick_field_value:
  assumes "v \<noteq> []" "Index (pre @ ''<'' @ f @ ''>'') (''<'' @ f @ ''>'') = Some (length pre)" "tag_name f"
    "Index (v @ ''</'' @ f @ ''>'') (''</'' @ f @ ''>'') = Some (length v)"
  shows "quick_field (pre @ ''<'' @ f @ ''>'' @ v @ ''</'' @ f @ ''>'' @ post) f = Some (QValue v)"
proof -
  let ?o = "''<'' @ f @ ''>''" and ?c = "''</'' @ f @ ''>''"
  let ?x = "pre @ ?o @ v @ ?c @ post"
  have o: "Index ?x ?o = Some (length pre)" using Index_append [OF assms(2), of "v @ ?c @ post"] by simp
  have "Index (?o @ v @ ?c @ post) ?c = Some (length ?o + length v)"
  proof (rule Index_first)
    note S = Index_Some [OF Index_append [OF assms(4), of post]]
    show "HasPrefix (drop (length ?o + length v) (?o @ v @ ?c @ post)) ?c" by (auto simp: HasPrefix_split)
    show "length ?o + length v \<le> length (?o @ v @ ?c @ post)" by simp
    show "\<forall>j < length ?o + length v. \<not> HasPrefix (drop j (?o @ v @ ?c @ post)) ?c"
    proof (intro allI impI notI)
      fix j
      assume j: "j < length ?o + length v" and h: "HasPrefix (drop j (?o @ v @ ?c @ post)) ?c"
      have m: "\<exists>k \<le> j. Index (?o @ v @ ?c @ post) ?c = Some k"
        by (rule Index_le [OF h]) (use j in simp)
      then obtain k where k: "k \<le> j" "Index (?o @ v @ ?c @ post) ?c = Some k" by blast
      have "length ?o \<le> k" using close_behind_open(1) [OF _ k(2) assms(3)] by (simp add: HasPrefix_split)
      then have "HasPrefix (drop (k - length ?o) (v @ ?c @ post)) ?c"
        using Index_Some [OF k(2)] drop_append [of k ?o "v @ ?c @ post"] \<open>length ?o \<le> k\<close>
        by (simp only: drop_all append_Nil)
      moreover have "k - length ?o < length v" using k(1) j \<open>length ?o \<le> k\<close> by linarith
      ultimately show False using S by auto
    qed
  qed
  then show ?thesis using o assms(1) by (simp add: quick_field_def slice_of_def)
qed

text \<open>The quick analysis of \<open>sortoitest\<close> cuts each field out of SYSPRO's raw answer with a slice expression. No
  answer whatever makes one of the five slices go out of bounds and panic; and where the answer holds a value \<open>v\<close>
  between the tags of a field, the first opening tag of that name being the one before \<open>v\<close> and \<open>v\<close> holding no closing
  tag, the field's value is \<open>v\<close>.\<close>

theorem quick_analysis_cuts:
  assumes "v \<noteq> []" "f \<in> set quick_fields"
    "Index (pre @ ''<'' @ f @ ''>'') (''<'' @ f @ ''>'') = Some (length pre)"
    "Index (v @ ''</'' @ f @ ''>'') (''</'' @ f @ ''>'') = Some (length v)"
  shows "None \<notin> quick_field xml ` set quick_fields \<and>
    quick_field (pre @ ''<'' @ f @ ''>'' @ v @ ''</'' @ f @ ''>'' @ post) f = Some (QValue v)"
proof
  have t: "tag_name g" if "g \<in> set quick_fields" for g using that by (auto simp: quick_fields_def tag_name_def)
  then show "None \<notin> quick_field xml ` set quick_fields" using quick_field_safe [of _ xml] by force
  show "quick_field (pre @ ''<'' @ f @ ''>'' @ v @ ''</'' @ f @ ''>'' @ post) f = Some (QValue v)"
    by (rule quick_field_value [OF assms(1,3) t [OF assms(2)] assms(4)])
qed

theorem quick_analysis_cuts_witness:
  "quick_field ''<a><SalesOrder>SO1</SalesOrder></a>'' ''SalesOrder'' = Some (QValue ''SO1'')"
  using quick_analysis_cuts [of "''SO1''" "''SalesOrder''" "''<a>''" "[]" "''</a>''"]
  by (simp add: quick_fields_def HasPrefix_def)

section \<open>Test receipts\<close>

definition commits :: "http_req \<Rightarrow> bool" where
  "commits rq \<longleftrightarrow> list_ex (\<lambda>(k, v). k = ''XmlParameters'' \<and> Contains v ''<ValidateOnly>N</ValidateOnly>'') (rq_query rq)"

definition new_requests :: "world \<Rightarrow> world \<Rightarrow> http_req list" where
  "new_requests w w' = drop (length (w_sent w)) (w_sent w')"

lemma params_commit:
  "Contains (BuildARSTPYParams v) ''<ValidateOnly>N</ValidateOnly>'' \<longleftrightarrow> \<not> v"
proof -
  have "Contains (BuildARSTPYParams False) ''<ValidateOnly>N</ValidateOnly>''" by code_simp
  moreover have "\<not> Contains (BuildARSTPYParams True) ''<ValidateOnly>N</ValidateOnly>''" by code_simp
  ultimately show ?thesis by (cases v) (simp_all only: simp_thms)
qed

lemma commits_simps:
  "\<not> commits (probe_req base ''/Logon'' (probe_logon_params c))"
  "\<not> commits (probe_req base ''/Logoff'' [(''UserId'', guid)])"
  "commits (probe_req base p (transaction_params guid bo (BuildARSTPYParams v) ds)) \<longleftrightarrow> \<not> v"
  by (simp_all add: commits_def probe_req_def probe_logon_params_def short_logon_params_def transaction_params_def params_commit)

text \<open>C23: a run of \<open>arspaytest\<close> that has its configuration, a valid receipt and a session calls_sent SYSPRO a receipt to commit
  (\<open>ValidateOnly\<close> is \<open>N\<close>) exactly when the mode is not \<open>validate\<close> and, the mode being \<open>post\<close>, the company is
  \<open>RILT\<close>. The guard therefore does not cover a mode that is neither word: with \<open>--mode=Post\<close> a receipt is committed
  in any company, the live one included.\<close>

theorem arspay_commits_iff:
  assumes "probe_conf env = Inr c" "ao_cashBook op \<noteq> []" "ao_paymentType op \<noteq> []"
    "BuildARSTPYData (arspay_receipt op (now w)) = Inr ds"
    "fst (strict_logon ''SYSPRO logon error'' (pc_base c) (probe_logon_params c) w) = Inr guid"
  shows "list_ex commits (new_requests w (snd (arspaytest env op w))) \<longleftrightarrow>
    ao_mode op \<noteq> ''validate'' \<and> \<not> (ao_mode op = ''post'' \<and> pc_companyID c \<noteq> ''RILT'')"
proof (cases "ao_mode op = ''post'' \<and> pc_companyID c \<noteq> ''RILT''")
  case True
  then show ?thesis using assms(1-3) by (simp add: arspaytest_def new_requests_def)
next
  case False
  let ?b = "pc_base c" and ?v = "ao_mode op = ''validate''"
  let ?ps = "transaction_params guid ''ARSTPY'' (BuildARSTPYParams ?v) ds"
  obtain w1 where l: "strict_logon ''SYSPRO logon error'' ?b (probe_logon_params c) w = (Inr guid, w1)"
    using assms(5) by (metis prod.collapse)
  obtain r w2 where g: "tool_get ?b ''/Transaction/Post'' ?ps w1 = (r, w2)" by (rule prod.exhaust)
  have e: "snd (arspaytest env op w) = tool_logoff ?b guid w2"
    using assms False l g by (cases r) (auto simp: arspaytest_def probe_run_def arspay_body_def)
  have "w_sent (snd (arspaytest env op w)) = w_sent w @ [probe_req ?b ''/Logon'' (probe_logon_params c),
      probe_req ?b ''/Transaction/Post'' ?ps, probe_req ?b ''/Logoff'' [(''UserId'', guid)]]"
    using strict_logon_world(2) [OF l] tool_get_world(2) [of ?b "''/Transaction/Post''" ?ps w1] g
    by (simp add: e tool_logoff_world)
  with False show ?thesis by (simp add: new_requests_def commits_simps)
qed

definition live_env :: env where
  "live_env k =
     (if k = ''SYSPRO_ENET_URL'' then ''http://enet/'' else if k = ''SYSPRO_OPERATOR'' then ''OP''
      else if k = ''SYSPRO_COMPANY_ID'' then ''RIL'' else if k = ''ARSPAY_CASH_BOOK'' then ''CB''
      else if k = ''ARSPAY_PAYMENT_TYPE'' then ''01'' else [])"

definition live_world :: world where
  "live_world = \<lparr>w_db = empty_db, w_clock = 1700000000000000000, w_local = 0, w_dbs = [],
     w_http = [(Resp 200 [] ''G1'', 0)], w_sent = [], w_ctx = [], w_sessionMu = False\<rparr>"

definition live_opts :: arspay_opts where
  "live_opts = (arspay_defaults live_env (now live_world))\<lparr>ao_mode := ''Post''\<rparr>"

text \<open>The default receipt, with the mode misspelt, is committed in the live company.\<close>

theorem arspay_commits_iff_witness:
  "list_ex commits (new_requests live_world (snd (arspaytest live_env live_opts live_world)))"
proof -
  obtain c where c: "probe_conf live_env = Inr c"
    by (simp add: probe_conf_def require_env_def live_env_def)
  have "is_ok (BuildARSTPYData (arspay_receipt live_opts (now live_world)))" by code_simp
  then obtain ds where ds: "BuildARSTPYData (arspay_receipt live_opts (now live_world)) = Inr ds"
    by (cases "BuildARSTPYData (arspay_receipt live_opts (now live_world))") auto
  have "json_or_raw ''G1'' = ''G1''" by (rule phantom_logon)
  then have l: "fst (strict_logon ''SYSPRO logon error'' (pc_base c) (probe_logon_params c) live_world) = Inr ''G1''"
    by (simp add: strict_logon_def plain_logon_def tool_get_def http_do_def live_world_def HasPrefix_def)
  have o: "ao_cashBook live_opts \<noteq> []" "ao_paymentType live_opts \<noteq> []" "ao_mode live_opts = ''Post''"
    by (simp_all add: live_opts_def arspay_defaults_def live_env_def)
  show ?thesis using arspay_commits_iff [OF c o(1,2) ds l] o(3) by simp
qed

end
