(* ===== verification/BenchProps.thy ===== *)
theory BenchProps
  imports Probes "HOL-Library.Multiset"
begin

text \<open>
  The statistics of the benchmark: whatever was measured, the row of an operation holds the least, the greatest and the
  mean duration and a 95th percentile, although the percentile's index is computed in floating point.
\<close>

section \<open>The index of the percentile\<close>

lemma bit_len_nonneg: "0 \<le> bit_len n"
  by (induction n rule: bit_len.induct) (subst bit_len.simps, auto)

lemma bit_len_bound: "n < 2 ^ k \<Longrightarrow> bit_len n \<le> int k"
proof (induction k arbitrary: n)
  case 0
  then show ?case by (subst bit_len.simps) auto
next
  case (Suc k)
  have "n div 2 < 2 ^ k" using Suc.prems by auto
  from Suc.IH [OF this] show ?case by (subst bit_len.simps) auto
qed

lemma flog2_bound: "q < 2 ^ k \<Longrightarrow> flog2 q \<le> int k"
proof -
  assume q: "q < 2 ^ k"
  have "of_int \<lfloor>q\<rfloor> < (2 ^ k :: rat)" using floor_correct [of q] q by linarith
  then have "\<lfloor>q\<rfloor> < 2 ^ k" by (metis of_int_less_iff of_int_numeral of_int_power)
  from bit_len_bound [OF this] show ?thesis
    using bit_len_nonneg [of "\<lceil>1 / q\<rceil> - 1"] by (simp add: flog2_def)
qed

text \<open>Below \<open>2^41\<close> a rounding moves a value by at most \<open>2^(-12)\<close> and stays finite.\<close>

lemma round64_small:
  assumes "0 \<le> q" "q < 2 ^ 41"
  obtains r where "round64 q = Fin r" "\<bar>r - q\<bar> \<le> 1 / 4096"
proof (cases "q = 0")
  case True
  then show ?thesis using that [of 0] by simp
next
  case False
  with assms have q: "0 < q" by simp
  have e: "max (flog2 q - 52) (- 1074) \<le> - 11" using flog2_bound [OF assms(2)] by simp
  have "pow2 (max (flog2 q - 52) (- 1074)) \<le> 1 / 2048"
  proof -
    define m where "m = nat (- max (flog2 q - 52) (- 1074))"
    have m: "11 \<le> m" using e by (simp add: m_def)
    have "pow2 (max (flog2 q - 52) (- 1074)) = 1 / 2 ^ m" using e by (simp add: pow2_def m_def)
    also have "\<dots> \<le> 1 / 2 ^ 11" using power_increasing [OF m, of "2 :: rat"] by (simp add: field_simps)
    finally show ?thesis by simp
  qed
  with round_mag_error [OF q] have d: "\<bar>round_mag q - q\<bar> \<le> 1 / 4096" by simp
  have "q < 2199023255552" using assms(2) by simp
  with d have "round_mag q < 4398046511104" using abs_ge_self [of "round_mag q - q"] by linarith
  then have "round_mag q < 2 ^ 42" by simp
  from flog2_bound [OF this] q have "round64 q = Fin (round_mag q)" by (simp add: round64_def Let_def)
  then show ?thesis using d by (rule that)
qed

text \<open>An integer below \<open>2^41\<close> is itself.\<close>

lemma of_int64_exact:
  assumes "0 \<le> i" "i < 2 ^ 41"
  shows "of_int64 i = Fin (of_int i)"
proof (cases "i = 0")
  case True
  then show ?thesis by (simp add: of_int64_def)
next
  case False
  let ?q = "rat_of_int i"
  have q: "0 < ?q" "?q < 2 ^ 41"
  proof -
    show "0 < ?q" using assms False by simp
    have "?q < of_int (2 ^ 41)" using assms(2) by (subst of_int_less_iff)
    then show "?q < 2 ^ 41" by simp
  qed
  define m where "m = nat (- max (flog2 ?q - 52) (- 1074))"
  have p: "pow2 (max (flog2 ?q - 52) (- 1074)) = 1 / 2 ^ m"
    using flog2_bound [OF q(2)] by (simp add: pow2_def m_def)
  have "round_even (?q / (1 / 2 ^ m)) = i * 2 ^ m"
    using round_even_of_int [of "i * 2 ^ m"] by simp
  then have "round_mag ?q = ?q" using q(1) unfolding round_mag_def Let_def p by simp
  moreover have "\<not> 1024 \<le> flog2 ?q" using flog2_bound [OF q(2)] by simp
  ultimately show ?thesis using q(1) by (simp add: of_int64_def round64_def Let_def)
qed

lemma flit_95: "flit (19 / 20) = Fin (4278419646001971 / 4503599627370496)"
  by code_simp

lemma p95_index_bounds:
  assumes "0 < n" "n \<le> 2 ^ 40"
  shows "95 * n \<le> 100 * (p95_index n + 1)" "100 * p95_index n \<le> 95 * n" "p95_index n < n"
proof -
  have N: "0 < int n" "int n \<le> 2 ^ 40"
  proof -
    show "0 < int n" using assms by simp
    have "int n \<le> int (2 ^ 40)" using assms(2) by (subst zle_int)
    then show "int n \<le> 2 ^ 40" by simp
  qed
  define c where "c = (4278419646001971 / 4503599627370496 :: rat)"
  have c: "0 \<le> 95 / 100 - c" "95 / 100 - c < 1 / 10 ^ 16" "c < 1" by (simp_all add: c_def)
  have nq: "(0 :: rat) < of_nat n" "of_nat n \<le> (2 ^ 40 :: rat)"
  proof -
    show "(0 :: rat) < of_nat n" using assms by simp
    have "rat_of_nat n \<le> of_nat (2 ^ 40)" using assms(2) by (subst of_nat_le_iff)
    then show "of_nat n \<le> (2 ^ 40 :: rat)" by simp
  qed
  have low: "95 / 100 * rat_of_nat n - of_nat n * c < 2 ^ 40 / 10 ^ 16" "of_nat n * c \<le> 95 / 100 * rat_of_nat n"
  proof -
    have "rat_of_nat n * (95 / 100 - c) \<le> 2 ^ 40 * (95 / 100 - c)" using nq c by (intro mult_right_mono) auto
    also have "\<dots> < 2 ^ 40 * (1 / 10 ^ 16)" using c by (intro mult_strict_left_mono) auto
    finally show "95 / 100 * rat_of_nat n - of_nat n * c < 2 ^ 40 / 10 ^ 16" by (simp add: algebra_simps)
    have "rat_of_nat n * c \<le> rat_of_nat n * (95 / 100)" using nq c by (intro mult_left_mono) auto
    then show "of_nat n * c \<le> 95 / 100 * rat_of_nat n" by simp
  qed
  have "0 \<le> rat_of_nat n * c" "rat_of_nat n * c < 2 ^ 41" using nq low(2) by (simp_all add: c_def)
  from round64_small [OF this] obtain r where r: "round64 (of_nat n * c) = Fin r" "\<bar>r - of_nat n * c\<bar> \<le> 1 / 4096" by blast
  have f: "fmul (of_int64 (int n)) (flit (95 / 100)) = Fin r"
    using N r(1) by (simp add: of_int64_exact flit_95 c_def)
  define m where "m = \<lceil>r\<rceil>"
  have m: "r \<le> of_int m" "of_int m < r + 1" using ceiling_correct [of r] by (simp_all add: m_def)
  define x where "x = rat_of_nat n * c"
  have x: "95 / 100 * rat_of_nat n - x < 1 / 1000" "x \<le> 95 / 100 * rat_of_nat n" "x - r \<le> 1 / 4096" "r - x \<le> 1 / 4096"
    using low abs_le_D1 [OF r(2)] abs_le_D2 [OF r(2)] by (simp_all add: x_def)
  have "95 * rat_of_nat n < 100 * rat_of_int m + 1" using x(1,3) m(1) by linarith
  then have "rat_of_int (95 * int n) < rat_of_int (100 * m + 1)" by simp
  then have up: "95 * int n \<le> 100 * m" unfolding of_int_less_iff by linarith
  have "100 * rat_of_int m < 95 * rat_of_nat n + 101" using x(2,4) m(2) by linarith
  then have "rat_of_int (100 * m) < rat_of_int (95 * int n + 101)" by simp
  then have dn: "100 * m \<le> 95 * int n + 100" unfolding of_int_less_iff by linarith
  have idx: "p95_index n = nat (m - 1)"
  proof -
    have "1 \<le> m" using up N by linarith
    moreover have "m - 1 < int n" using dn N by linarith
    ultimately show ?thesis unfolding p95_index_def f by (simp add: m_def Let_def)
  qed
  have i: "int (p95_index n) = m - 1" using up N by (simp add: idx)
  have "int (95 * n) \<le> int (100 * (p95_index n + 1))" "int (100 * p95_index n) \<le> int (95 * n)" "int (p95_index n) < int n"
    using up dn N(1) i by simp_all
  then show "95 * n \<le> 100 * (p95_index n + 1)" "100 * p95_index n \<le> 95 * n" "p95_index n < n"
    by (simp_all only: of_nat_le_iff of_nat_less_iff)
qed

section \<open>The loop over the results\<close>

lemma wrap64_nonneg: "0 \<le> i \<Longrightarrow> i < 2 ^ 63 \<Longrightarrow> wrap64 i = i"
  by (simp add: wrap64_def)

lemma foldl_min: "foldl min a ds = Min (insert a (set ds))" for a :: int
proof (induction ds arbitrary: a)
  case (Cons d ds)
  have "Min (insert (min a d) (set ds)) = Min (insert a (insert d (set ds)))"
    by (cases "set ds = {}") (simp_all add: min.assoc)
  then show ?case by (simp add: Cons.IH)
qed simp

lemma foldl_max: "foldl max a ds = Max (insert a (set ds))" for a :: int
proof (induction ds arbitrary: a)
  case (Cons d ds)
  have "Max (insert (max a d) (set ds)) = Max (insert a (insert d (set ds)))"
    by (cases "set ds = {}") (simp_all add: max.assoc)
  then show ?case by (simp add: Cons.IH)
qed simp

lemma stats_loop:
  assumes "\<forall>r \<in> set rs. 0 \<le> br_duration r" "0 \<le> t" "t + sum_list (map br_duration rs) < 2 ^ 63"
  shows "foldl stats_step (s, t) rs =
     (s\<lparr>bs_errs := bs_errs s + int (length (filter br_failed rs)),
        bs_min := foldl min (bs_min s) (map br_duration rs), bs_max := foldl max (bs_max s) (map br_duration rs)\<rparr>,
      t + sum_list (map br_duration rs))"
  using assms
proof (induction rs arbitrary: s t)
  case Nil
  then show ?case by simp
next
  case (Cons r rs)
  have nn: "0 \<le> sum_list (map br_duration rs)" using Cons.prems(1) by (intro sum_list_nonneg) auto
  have t: "wrap64 (t + br_duration r) = t + br_duration r"
    by (rule wrap64_nonneg) (use Cons.prems nn in auto)
  show ?case
    using Cons.prems Cons.IH [of "t + br_duration r"]
    by (auto simp: stats_step_def t min_def max_def)
qed

lemma mean_bounds:
  assumes "ds \<noteq> []" "\<forall>d \<in> set ds. a \<le> d \<and> d \<le> b"
  shows "a \<le> sum_list ds div int (length ds)" "sum_list ds div int (length ds) \<le> b"
proof -
  have "a * int (length ds) \<le> sum_list ds \<and> sum_list ds \<le> b * int (length ds)"
    using assms(2) by (induction ds) (auto simp: algebra_simps)
  moreover have "0 < int (length ds)" using assms(1) by simp
  ultimately show "a \<le> sum_list ds div int (length ds)" "sum_list ds div int (length ds) \<le> b"
    by (metis div_mult_self_is_m mult.commute zdiv_mono1 nonzero_mult_div_cancel_right less_irrefl,
        metis div_mult_self_is_m mult.commute zdiv_mono1 nonzero_mult_div_cancel_right less_irrefl)
qed

lemma sdiv_nonneg: "0 \<le> k \<Longrightarrow> 0 < l \<Longrightarrow> k sdiv l = k div l" for k l :: int
  by (cases "k = 0") (simp_all add: signed_divide_int_def)

text \<open>An element of the sorted list: how many are at most it, and how many below it.\<close>

lemma sorted_rank:
  fixes ds :: "int list"
  assumes "i < length ds"
  shows "i < length (filter (\<lambda>d. d \<le> sort ds ! i) ds)" "length (filter (\<lambda>d. d < sort ds ! i) ds) \<le> i"
proof -
  let ?s = "sort ds" and ?x = "sort ds ! i"
  have m: "length (filter P ds) = length (filter P ?s)" for P
    by (metis mset_filter mset_sort size_mset)
  have mono: "?s ! a \<le> ?s ! b" if "a \<le> b" "b < length ds" for a b
    by (rule sorted_nth_mono) (use that in simp_all)
  have sp: "?s = take (Suc i) ?s @ drop (Suc i) ?s" "?s = take i ?s @ drop i ?s" by simp_all
  have "\<forall>d \<in> set (take (Suc i) ?s). d \<le> ?x"
  proof
    fix d
    assume "d \<in> set (take (Suc i) ?s)"
    then obtain a where "a < Suc i" "d = ?s ! a" by (auto simp: in_set_conv_nth)
    then show "d \<le> ?x" using mono [of a i] assms by simp
  qed
  then have "filter (\<lambda>d. d \<le> ?x) (take (Suc i) ?s) = take (Suc i) ?s" by (rule filter_True)
  then have "Suc i \<le> length (filter (\<lambda>d. d \<le> ?x) ?s)"
    using assms by (subst sp(1)) (simp del: append_take_drop_id)
  then show "i < length (filter (\<lambda>d. d \<le> ?x) ds)" by (simp add: m)
  have "\<forall>d \<in> set (drop i ?s). \<not> d < ?x"
  proof
    fix d
    assume "d \<in> set (drop i ?s)"
    then obtain a where "a < length ds - i" "d = ?s ! (i + a)" by (auto simp: in_set_conv_nth)
    then have "i + a < length ds" by (simp add: less_diff_conv add.commute)
    then show "\<not> d < ?x" using mono [of i "i + a"] \<open>d = ?s ! (i + a)\<close> by (simp add: not_less)
  qed
  then have "filter (\<lambda>d. d < ?x) (drop i ?s) = []" by (rule filter_False)
  then have "length (filter (\<lambda>d. d < ?x) ?s) = length (filter (\<lambda>d. d < ?x) (take i ?s))"
    by (subst sp(2)) (simp del: append_take_drop_id)
  also have "\<dots> \<le> i" using length_filter_le [of _ "take i ?s"] by (rule order_trans) simp
  finally show "length (filter (\<lambda>d. d < ?x) ds) \<le> i" by (simp add: m)
qed

text \<open>C40: the row of an operation with at least one and at most \<open>2^40\<close> results, whose durations are not negative and add
  up to an \<open>int64\<close>: the counts are those of the results and of the failed ones, the least and the greatest duration are
  the list's, the mean (rounded down) lies between them, and the figure called P95 is one of the durations, with at least
  95 of 100 results at most it and at most 95 of 100 below it.\<close>

theorem computeStats_figures:
  assumes "rs \<noteq> []" "length rs \<le> 2 ^ 40" "\<forall>r \<in> set rs. 0 \<le> br_duration r" "sum_list (map br_duration rs) < 2 ^ 63"
  shows "let s = computeStats op rs; ds = map br_duration rs in
     bs_op s = op \<and> bs_count s = int (length rs) \<and> bs_errs s = int (length (filter br_failed rs)) \<and>
     bs_min s = Min (set ds) \<and> bs_max s = Max (set ds) \<and>
     bs_avg s = sum_list ds div int (length ds) \<and> bs_min s \<le> bs_avg s \<and> bs_avg s \<le> bs_max s \<and>
     bs_p95 s \<in> set ds \<and>
     95 * length ds \<le> 100 * length (filter (\<lambda>d. d \<le> bs_p95 s) ds) \<and>
     100 * length (filter (\<lambda>d. d < bs_p95 s) ds) \<le> 95 * length ds"
proof -
  let ?ds = "map br_duration rs"
  define n i where "n = length rs" and "i = p95_index n"
  have n: "0 < n" "n \<le> 2 ^ 40" "length ?ds = n" using assms by (simp_all add: n_def)
  note I = p95_index_bounds [OF n(1,2), folded i_def]
  have ne: "set ?ds \<noteq> {}" "?ds \<noteq> []" using assms(1) by simp_all
  have range: "d < 2 ^ 63" "0 \<le> d" if "d \<in> set ?ds" for d
  proof -
    show "0 \<le> d" using that assms(3) by auto
    have "d \<le> sum_list ?ds" by (rule member_le_sum_list) (use that assms(3) in auto)
    then show "d < 2 ^ 63" using assms(4) by simp
  qed
  have mn: "foldl min 9223372036854775807 ?ds = Min (set ?ds)"
  proof -
    have "Min (set ?ds) \<in> set ?ds" using ne by (intro Min_in) auto
    with range(1) have "Min (set ?ds) \<le> 9223372036854775807" by fastforce
    then show ?thesis unfolding foldl_min using ne by (simp del: set_map add: min_absorb2)
  qed
  have mx: "foldl max 0 ?ds = Max (set ?ds)"
  proof -
    have "Max (set ?ds) \<in> set ?ds" using ne by (intro Max_in) auto
    with range(2) have "0 \<le> Max (set ?ds)" by blast
    then show ?thesis unfolding foldl_max using ne by (simp del: set_map add: max_absorb2)
  qed
  have s0: "0 \<le> sum_list ?ds" using assms(3) by (intro sum_list_nonneg) auto
  have e: "computeStats op rs = \<lparr>bs_op = op, bs_count = int n, bs_errs = int (length (filter br_failed rs)),
      bs_min = Min (set ?ds), bs_max = Max (set ?ds), bs_avg = sum_list ?ds div int n, bs_p95 = sort ?ds ! i\<rparr>"
    using assms(1,4) stats_loop [OF assms(3), of 0] s0
    by (simp add: computeStats_def mn mx n_def i_def sdiv_nonneg del: set_map foldl_map)
  have "\<forall>d \<in> set ?ds. Min (set ?ds) \<le> d \<and> d \<le> Max (set ?ds)" by simp
  note B = mean_bounds [OF ne(2) this, unfolded n(3)]
  have "sort ?ds ! i \<in> set ?ds" using nth_mem [of i "sort ?ds"] I(3) n(3) by simp
  moreover have il: "i < length ?ds" using I(3) n(3) by simp
  moreover have "95 * n \<le> 100 * length (filter (\<lambda>d. d \<le> sort ?ds ! i) ?ds)"
    using mult_le_mono2 [OF Suc_leI [OF sorted_rank(1) [OF il]], of 100] I(1) by simp
  moreover have "100 * length (filter (\<lambda>d. d < sort ?ds ! i) ?ds) \<le> 95 * n"
    using mult_le_mono2 [OF sorted_rank(2) [OF il], of 100] I(2) by (rule order_trans)
  ultimately show ?thesis
    using B n(3) by (simp add: Let_def e n_def del: set_map filter_map)
qed

text \<open>The theorem at twenty measurements, one of them slow.\<close>

theorem computeStats_figures_witness:
  "bs_p95 (computeStats ''INVQRY'' (map (\<lambda>i. \<lparr>br_duration = int i, br_failed = False\<rparr>) [1..<20] @ [\<lparr>br_duration = 900, br_failed = True\<rparr>])) \<le> 900"
proof -
  let ?rs = "map (\<lambda>i. \<lparr>br_duration = int i, br_failed = False\<rparr>) [1..<20] @ [\<lparr>br_duration = 900, br_failed = True\<rparr>]"
  have "bs_p95 (computeStats ''INVQRY'' ?rs) \<in> set (map br_duration ?rs)"
    using computeStats_figures [of ?rs "''INVQRY''"] by (simp add: Let_def upt_conv_Cons)
  then show ?thesis by auto
qed

end
