(* ===== verification/Pipeline.thy ===== *)
theory Pipeline
  imports Server
begin

text \<open>
  \<open>cmd/pipeline-test\<close>: the end-to-end test an operator runs against a started service, with a mock of SYSPRO
  (\<open>mock_syspro.go\<close>), a mock of Shopify (\<open>mock_shopify.go\<close>), the order webhooks it sends (\<open>scenarios.go\<close>) and the run
  itself (\<open>main.go\<close>). What it prints (\<open>printer.go\<close>) is not modelled. The service under test is a parameter: how it
  answers a webhook, and what it has done by the end of a sleep.
\<close>

section \<open>mock_syspro.go\<close>

record mock_syspro =
  ms_orderSeq :: int
  ms_submittedOrders :: "(string \<times> string) list"

definition newMockSyspro :: mock_syspro where
  "newMockSyspro = \<lparr>ms_orderSeq = 0, ms_submittedOrders = []\<rparr>"

definition xml_decl :: string where
  "xml_decl = ''<?xml version='' @ [CHR 0x22] @ ''1.0'' @ [CHR 0x22] @ '' encoding='' @ [CHR 0x22] @ ''Windows-1252'' @
     [CHR 0x22] @ ''?>'' @ nl"

definition extractXMLValue :: "string \<Rightarrow> string \<Rightarrow> string" where
  "extractXMLValue xml tag =
     (case Index xml (''<'' @ tag @ ''>'') of
        None \<Rightarrow> []
      | Some i \<Rightarrow>
          let rest = drop (i + length tag + 2) xml
          in case Index rest (''</'' @ tag @ ''>'') of
               None \<Rightarrow> []
             | Some e \<Rightarrow> TrimSpace (take e rest))"

definition mock_number :: "int \<Rightarrow> string" where
  "mock_number seq = ''SO-MOCK-'' @ pad_nat 3 seq"

definition mock_sortoi_answer :: "string \<Rightarrow> string" where
  "mock_sortoi_answer num =
     xml_decl @ ''<SalesOrders>'' @ nl @ ''  <Orders><OrderHeader>'' @ nl @ ''    <SalesOrder>'' @ num @
     ''</SalesOrder>'' @ nl @ ''    <CustomerPoNumber></CustomerPoNumber>'' @ nl @ ''  </OrderHeader></Orders>'' @ nl @
     ''  <ValidationStatus><Status>Successful</Status></ValidationStatus>'' @ nl @
     ''  <StatusOfItems><ItemsProcessed>1</ItemsProcessed><ItemsInvalid>0</ItemsInvalid></StatusOfItems>'' @ nl @
     ''</SalesOrders>''"

definition mock_transaction :: "mock_syspro \<Rightarrow> string \<times> mock_syspro" where
  "mock_transaction m =
     (let seq = wrap64 (ms_orderSeq m + 1); num = mock_number seq
      in (mock_sortoi_answer num,
          m\<lparr>ms_orderSeq := seq, ms_submittedOrders := map_put num ''submitted'' (ms_submittedOrders m)\<rparr>))"

definition sorqry_complete :: "string \<Rightarrow> string" where
  "sorqry_complete num =
     xml_decl @ ''<SorDetail>'' @ nl @ ''  <SalesOrder>'' @ num @ ''</SalesOrder>'' @ nl @
     ''  <OrderStatus>9</OrderStatus>'' @ nl @ ''  <OrderStatusDesc>Complete</OrderStatusDesc>'' @ nl @
     ''  <ShippingInstrs>MockCarrier</ShippingInstrs>'' @ nl @ ''  <ShippingInstrsCod>MCR</ShippingInstrsCod>'' @ nl @
     ''  <LastInvoice>MOCK-INV-001</LastInvoice>'' @ nl @ ''</SorDetail>''"

definition sorqry_open :: "string \<Rightarrow> string" where
  "sorqry_open num =
     xml_decl @ ''<SorDetail>'' @ nl @ ''  <SalesOrder>'' @ num @ ''</SalesOrder>'' @ nl @
     ''  <OrderStatus>1</OrderStatus>'' @ nl @ ''  <OrderStatusDesc>Open</OrderStatusDesc>'' @ nl @
     ''  <ShippingInstrs></ShippingInstrs>'' @ nl @ ''</SorDetail>''"

definition mock_invqry_answer :: "string \<Rightarrow> string" where
  "mock_invqry_answer sku =
     xml_decl @ ''<InvQuery>'' @ nl @ ''  <QueryOptions>'' @ nl @ ''    <StockCode>'' @ sku @ ''</StockCode>'' @ nl @
     ''    <Description>Mock stock item</Description>'' @ nl @ ''  </QueryOptions>'' @ nl @ ''  <WarehouseItem>'' @ nl @
     ''    <Warehouse>WH01</Warehouse>'' @ nl @ ''    <QtyOnHand>150.000</QtyOnHand>'' @ nl @
     ''    <AvailableQty>100.000</AvailableQty>'' @ nl @ ''  </WarehouseItem>'' @ nl @ ''</InvQuery>''"

definition url_param :: "string \<Rightarrow> (string \<times> string) list \<Rightarrow> string" where
  "url_param k qs = (case map_of qs k of None \<Rightarrow> [] | Some v \<Rightarrow> v)"

definition mock_query :: "(string \<times> string) list \<Rightarrow> mock_syspro \<Rightarrow> string" where
  "mock_query qs m =
     (let xmlIn = url_param ''XmlIn'' qs in
      if url_param ''BusinessObject'' qs = ''SORQRY''
      then let num = extractXMLValue xmlIn ''SalesOrder''
           in if map_of (ms_submittedOrders m) num = None then sorqry_open num else sorqry_complete num
      else let sku = extractXMLValue xmlIn ''StockCode''
           in mock_invqry_answer (if sku = [] then ''UNKNOWN'' else sku))"

text \<open>The routes, by the path below the port; any other is answered by the mux.\<close>

definition mock_syspro_serve :: "string \<Rightarrow> (string \<times> string) list \<Rightarrow> mock_syspro \<Rightarrow> http_outcome \<times> mock_syspro" where
  "mock_syspro_serve path qs m =
     (if path = ''/SYSPROWCFService/Rest/Logon'' then (Resp 200 [] ''mock-session-001'', m)
      else if path = ''/SYSPROWCFService/Rest/Transaction/Post''
        then (case mock_transaction m of (b, m') \<Rightarrow> (Resp 200 [] b, m'))
      else if path = ''/SYSPROWCFService/Rest/Query/Query'' then (Resp 200 [] (mock_query qs m), m)
      else if path = ''/SYSPROWCFService/Rest/Logoff'' then (Resp 200 [] ''true'', m)
      else (Resp 404 [] (''404 page not found'' @ nl), m))"

section \<open>mock_shopify.go\<close>

record mock_shopify =
  mk_inventoryCalls :: int
  mk_fulfilmentCalls :: int

definition newMockShopify :: mock_shopify where
  "newMockShopify = \<lparr>mk_inventoryCalls = 0, mk_fulfilmentCalls = 0\<rparr>"

text \<open>JSON text: in the literals below a backquote stands for the double quote.\<close>

definition dq :: "string \<Rightarrow> string" where
  "dq s = map (\<lambda>c. if c = CHR 0x60 then CHR 0x22 else c) s"

definition mock_locations :: string where
  "mock_locations = dq (''{`data`:{`locations`:{`edges`:[{`node`:{`id`:`gid://shopify/Location/mock-loc-1`,'' @
     ''`name`:`Mock Warehouse`,`isActive`:true}}]}}}'')"

definition mock_items :: string where
  "mock_items = dq (''{`data`:{`inventoryItems`:{`edges`:[{`node`:{`id`:`gid://shopify/InventoryItem/mock-inv-1`,'' @
     ''`sku`:`CBBQ0001`}},{`node`:{`id`:`gid://shopify/InventoryItem/mock-inv-2`,`sku`:`MBBQ0159`}}]}}}'')"

definition mock_set :: string where
  "mock_set = dq (''{`data`:{`inventorySetQuantities`:{`inventoryAdjustmentGroup`:{`reason`:`correction`,'' @
     ''`changes`:[{`name`:`available`,`delta`:0,`quantityAfterChange`:100}]},`userErrors`:[]}}}'')"

definition mock_fo :: string where
  "mock_fo = dq (''{`data`:{`order`:{`fulfillmentOrders`:{`edges`:[{`node`:{`id`:'' @
     ''`gid://shopify/FulfillmentOrder/mock-fo-1`,`status`:`OPEN`}}]}}}}'')"

definition mock_created :: string where
  "mock_created = dq (''{`data`:{`fulfillmentCreate`:{`fulfillment`:{`id`:`gid://shopify/Fulfillment/mock-ful-1`,'' @
     ''`status`:`SUCCESS`},`userErrors`:[]}}}'')"

definition http_error :: "int \<Rightarrow> string \<Rightarrow> http_outcome" where
  "http_error st m = Resp st [] (m @ nl)"

text \<open>\<open>handleGraphQL\<close>: the query of the body decides; \<open>variables\<close> is any JSON value.\<close>

definition handleGraphQL :: "http_req \<Rightarrow> mock_shopify \<Rightarrow> http_outcome \<times> mock_shopify" where
  "handleGraphQL rq m =
     (if url_param ''X-Shopify-Access-Token'' (rq_headers rq) = []
      then (http_error 401 (dq ''{`errors`:`unauthorized`}''), m)
      else case unmarshal (jstruct (fstring ''query'')) (rq_body rq) of
             None \<Rightarrow> (http_error 400 (dq ''{`errors`:`invalid json`}''), m)
           | Some q \<Rightarrow>
               if Contains q ''locations('' then (Resp 200 [] mock_locations, m)
               else if Contains q ''inventoryItems('' then (Resp 200 [] mock_items, m)
               else if Contains q ''inventorySetQuantities''
                 then (Resp 200 [] mock_set, m\<lparr>mk_inventoryCalls := wrap64 (mk_inventoryCalls m + 1)\<rparr>)
               else if Contains q ''fulfillmentOrders('' then (Resp 200 [] mock_fo, m)
               else if Contains q ''fulfillmentCreate''
                 then (Resp 200 [] mock_created, m\<lparr>mk_fulfilmentCalls := wrap64 (mk_fulfilmentCalls m + 1)\<rparr>)
               else (http_error 400 (dq ''{`errors`:`unknown query`}''), m))"

section \<open>scenarios.go\<close>

record pipe_item =
  pi_SKU :: string
  pi_Qty :: int
  pi_Price :: string
  pi_Title :: string
  pi_Tax :: string

record scenario =
  sc_name :: string
  sc_webhookID :: string
  sc_expectHTTP :: int
  sc_expectDBStatus :: string
  sc_payload :: string
  sc_hmacSignature :: string
  sc_isDuplicate :: bool
  sc_dupOriginal :: string

text \<open>\<open>json.Marshal\<close> prints the members of a map by key.\<close>

definition item_json :: "pipe_item \<Rightarrow> json" where
  "item_json li =
     JObj [(''price'', JStr (pi_Price li)), (''quantity'', JNum (Itoa (pi_Qty li))), (''sku'', JStr (pi_SKU li)),
           (''tax_lines'', JArr [JObj [(''price'', JStr (pi_Tax li)), (''rate'', JNum ''0.2''), (''title'', JStr ''VAT'')]]),
           (''title'', JStr (pi_Title li))]"

definition order_json :: "gtime \<Rightarrow> int \<Rightarrow> string \<Rightarrow> pipe_item list \<Rightarrow> json" where
  "order_json t i name lis =
     JObj [(''created_at'', JStr (fmt_rfc3339 t)), (''gateway'', JStr ''shopify_payments''), (''id'', JNum (Itoa i)),
           (''line_items'', JArr (map item_json lis)), (''name'', JStr name),
           (''payment_gateway_names'', JArr [JStr ''shopify_payments'']),
           (''shipping_address'', JObj
              [(''address1'', JStr ''1 Test Street''), (''city'', JStr ''Burnley''), (''country'', JStr ''United Kingdom''),
               (''first_name'', JStr ''Pipeline''), (''last_name'', JStr ''Test''), (''province'', JStr ''Lancashire''),
               (''zip'', JStr ''BB1 1AA'')]),
           (''total_price'', JStr ''29.99'')]"

definition buildOrderPayload :: "gtime \<Rightarrow> int \<Rightarrow> string \<Rightarrow> pipe_item list \<Rightarrow> string" where
  "buildOrderPayload t i name lis = json_print (order_json t i name lis)"

definition signPayload :: "string \<Rightarrow> string \<Rightarrow> string" where
  "signPayload body secret = base64 (hmac_sha256 (bytes_of secret) (bytes_of body))"

definition bbq :: pipe_item where
  "bbq = \<lparr>pi_SKU = ''CBBQ0001'', pi_Qty = 1, pi_Price = ''24.99'', pi_Title = ''Bar-Be-Quick Instant BBQ'', pi_Tax = ''5.00''\<rparr>"

definition firelighters :: pipe_item where
  "firelighters = \<lparr>pi_SKU = ''MBBQ0159'', pi_Qty = 2, pi_Price = ''12.99'', pi_Title = ''BBQ Firelighters'', pi_Tax = ''5.20''\<rparr>"

definition no_sku :: pipe_item where
  "no_sku = \<lparr>pi_SKU = [], pi_Qty = 1, pi_Price = ''10.00'', pi_Title = ''Missing SKU Item'', pi_Tax = ''2.00''\<rparr>"

definition buildScenarios :: "string \<Rightarrow> gtime \<Rightarrow> scenario list" where
  "buildScenarios secret t =
     (let ts = t_ns t;
          p1 = buildOrderPayload t (ts + 1) ''#PIPE-001'' [bbq];
          p2 = buildOrderPayload t (ts + 2) ''#PIPE-002'' [bbq, firelighters];
          p5 = buildOrderPayload t (ts + 5) ''#PIPE-005'' [no_sku];
          wid = (\<lambda>n. ''pipe-'' @ n @ ''-'' @ Itoa ts)
      in [\<lparr>sc_name = ''#PIPE-001'', sc_webhookID = wid ''001'', sc_expectHTTP = 200, sc_expectDBStatus = ''submitted'',
           sc_payload = p1, sc_hmacSignature = signPayload p1 secret, sc_isDuplicate = False, sc_dupOriginal = []\<rparr>,
          \<lparr>sc_name = ''#PIPE-002'', sc_webhookID = wid ''002'', sc_expectHTTP = 200, sc_expectDBStatus = ''submitted'',
           sc_payload = p2, sc_hmacSignature = signPayload p2 secret, sc_isDuplicate = False, sc_dupOriginal = []\<rparr>,
          \<lparr>sc_name = ''#PIPE-003'', sc_webhookID = wid ''001'', sc_expectHTTP = 200, sc_expectDBStatus = [],
           sc_payload = p1, sc_hmacSignature = signPayload p1 secret, sc_isDuplicate = True, sc_dupOriginal = ''#PIPE-001''\<rparr>,
          \<lparr>sc_name = ''#PIPE-004'', sc_webhookID = wid ''004'', sc_expectHTTP = 401, sc_expectDBStatus = [],
           sc_payload = p1, sc_hmacSignature = ''aW52YWxpZA=='', sc_isDuplicate = False, sc_dupOriginal = []\<rparr>,
          \<lparr>sc_name = ''#PIPE-005'', sc_webhookID = wid ''005'', sc_expectHTTP = 422, sc_expectDBStatus = [],
           sc_payload = p5, sc_hmacSignature = signPayload p5 secret, sc_isDuplicate = False, sc_dupOriginal = []\<rparr>])"

section \<open>main.go\<close>

record pipe =
  pp_world :: world
  pp_syspro :: mock_syspro
  pp_shopify :: mock_shopify

text \<open>
  The service under test: the status it answers a request with (\<open>None\<close>: the request failed), and what it has done to the
  tables and the mocks when a sleep is over.
\<close>

record sut =
  su_post :: "http_in \<Rightarrow> pipe \<Rightarrow> int option \<times> pipe"
  su_tick :: "pipe \<Rightarrow> pipe"

definition clock_of :: "pipe \<Rightarrow> int" where
  "clock_of s = w_clock (pp_world s)"

definition sleep :: "sut \<Rightarrow> int \<Rightarrow> pipe \<Rightarrow> pipe" where
  "sleep u d s = (su_tick u s)\<lparr>pp_world := (pp_world (su_tick u s))\<lparr>w_clock := clock_of s + d\<rparr>\<rparr>"

definition pool_query :: "(db \<Rightarrow> 'a) \<Rightarrow> pipe \<Rightarrow> 'a res \<times> pipe" where
  "pool_query f s = (case db_call (\<lambda>_ d. (f d, d)) (pp_world s) of (r, w) \<Rightarrow> (r, s\<lparr>pp_world := w\<rparr>))"

lemma pool_query_clock: "clock_of s \<le> clock_of (snd (pool_query f s))"
  using db_call_clock [of "pp_world s" "\<lambda>_ d. (f d, d)"]
  by (auto simp: pool_query_def clock_of_def split: prod.splits)

lemma sleep_clock: "clock_of (sleep u d s) = clock_of s + d"
  by (simp add: sleep_def clock_of_def)

text \<open>Every turn of a polling loop comes closer to its deadline.\<close>

lemma sleep_later:
  assumes "(r, s1) = pool_query f s" "0 < d"
  shows "clock_of s < clock_of (sleep u d s1)"
proof -
  have "snd (pool_query f s) = s1" using arg_cong [OF assms(1), of snd] by simp
  with pool_query_clock [of s f] assms(2) show ?thesis by (simp add: sleep_clock)
qed

text \<open>A \<open>SELECT COUNT(*)\<close> whose error is ignored leaves the variable zero.\<close>

definition pool_count :: "(order \<Rightarrow> bool) \<Rightarrow> pipe \<Rightarrow> nat \<times> pipe" where
  "pool_count P s =
     (case pool_query (\<lambda>d. length (filter P (orders d))) s of
        (Inl _, s1) \<Rightarrow> (0, s1)
      | (Inr n, s1) \<Rightarrow> (n, s1))"

definition row_by_number :: "string \<Rightarrow> db \<Rightarrow> order option" where
  "row_by_number name d = find (\<lambda>r. OrderNumber r = name) (orders d)"

definition ms :: "int \<Rightarrow> int" where "ms n = n * 1000000"

text \<open>An order result: name, status, SYSPRO order number.\<close>

type_synonym order_result = "string \<times> string \<times> string"

text \<open>The polling loop of \<open>runScenario\<close>; a failed query of the last error changes only the message.\<close>

function await_status :: "sut \<Rightarrow> scenario \<Rightarrow> int \<Rightarrow> pipe \<Rightarrow> (bool \<times> order_result option) \<times> pipe" where
  "await_status u sc deadline s =
     (if deadline \<le> clock_of s then ((False, None), s)
      else case pool_query (row_by_number (sc_name sc)) s of
        (Inr (Some r), s1) \<Rightarrow>
          (let st = status_str (Status r) in
           if st = sc_expectDBStatus sc
           then (if sc_expectDBStatus sc = ''submitted'' \<and> SysproOrderNumber r = [] then ((False, None), s1)
                 else ((True, Some (sc_name sc, st, SysproOrderNumber r)), s1))
           else if st = ''failed'' \<or> st = ''dead_letter''
           then ((False, None), snd (pool_query (\<lambda>d. map_option LastError (row_by_number (sc_name sc) d)) s1))
           else await_status u sc deadline (sleep u (ms 250) s1))
      | (_, s1) \<Rightarrow> await_status u sc deadline (sleep u (ms 250) s1))"
  by pat_completeness auto
termination
  by (relation "measure (\<lambda>(u, sc, deadline, s). nat (deadline - clock_of s))") (auto intro: sleep_later simp: ms_def)

declare await_status.simps [simp del]

text \<open>\<open>runScenario\<close>: one webhook, then what the database shows of it.\<close>

definition scenario_request :: "scenario \<Rightarrow> http_in" where
  "scenario_request sc =
     \<lparr>hi_method = ''POST'', hi_path = [''webhooks'', ''orders'', ''create''], hi_query = [],
      hi_request = \<lparr>req_headers = [(''Content-Type'', ''application/json''), (''X-Shopify-Webhook-Id'', sc_webhookID sc),
                       (''X-Shopify-Hmac-Sha256'', sc_hmacSignature sc)],
                    req_body = Some (sc_payload sc)\<rparr>\<rparr>"

definition runScenario :: "sut \<Rightarrow> int \<Rightarrow> scenario \<Rightarrow> pipe \<Rightarrow> (bool \<times> order_result option) \<times> pipe" where
  "runScenario u timeout sc s =
     (case su_post u (scenario_request sc) s of
        (None, s1) \<Rightarrow> ((False, None), s1)
      | (Some st, s1) \<Rightarrow>
          if st \<noteq> sc_expectHTTP sc then ((False, None), s1)
          else if sc_expectDBStatus sc = []
          then (if sc_isDuplicate sc
                then case pool_count (\<lambda>r. OrderNumber r = sc_dupOriginal sc) s1 of (n, s2) \<Rightarrow> ((n = 1, None), s2)
                else case pool_count (\<lambda>r. OrderNumber r = sc_name sc) s1 of (n, s2) \<Rightarrow> ((n = 0, None), s2))
          else await_status u sc (clock_of s1 + timeout) s1)"

fun run_scenarios :: "sut \<Rightarrow> int \<Rightarrow> scenario list \<Rightarrow> pipe \<Rightarrow> bool list \<times> pipe" where
  "run_scenarios u timeout [] s = ([], s)"
| "run_scenarios u timeout (sc # scs) s =
     (case runScenario u timeout sc s of
        ((ok, _), s1) \<Rightarrow> (case run_scenarios u timeout scs s1 of (oks, s2) \<Rightarrow> (ok # oks, s2)))"

text \<open>Scenario 6: the stock syncer pushes. Scenario 7: an order of the run is fulfilled.\<close>

function await_stock :: "sut \<Rightarrow> int \<Rightarrow> pipe \<Rightarrow> bool \<times> pipe" where
  "await_stock u deadline s =
     (if deadline \<le> clock_of s then (False, s)
      else if 0 < mk_inventoryCalls (pp_shopify s) then (True, s)
      else await_stock u deadline (sleep u (ms 500) s))"
  by pat_completeness auto
termination
  by (relation "measure (\<lambda>(u, deadline, s). nat (deadline - clock_of s))") (auto simp: sleep_clock ms_def)

declare await_stock.simps [simp del]

definition pipe_number :: "string \<Rightarrow> bool" where
  "pipe_number n \<longleftrightarrow> HasPrefix n ''#PIPE-''"

function await_fulfilled :: "sut \<Rightarrow> int \<Rightarrow> pipe \<Rightarrow> bool \<times> pipe" where
  "await_fulfilled u deadline s =
     (if deadline \<le> clock_of s then (False, s)
      else case pool_query (\<lambda>d. length (filter (\<lambda>r. pipe_number (OrderNumber r) \<and> Status r = OrderStatusFulfilled) (orders d))) s of
        (Inl _, s1) \<Rightarrow> await_fulfilled u deadline (sleep u (ms 500) s1)
      | (Inr n, s1) \<Rightarrow> if 0 < n then (True, s1) else await_fulfilled u deadline (sleep u (ms 500) s1))"
  by pat_completeness auto
termination
  by (relation "measure (\<lambda>(u, deadline, s). nat (deadline - clock_of s))") (auto intro: sleep_later simp: ms_def)

declare await_fulfilled.simps [simp del]

text \<open>
  The cleanup. Deleting an order deletes its lines and unlinks its cancellations (\<open>ON DELETE CASCADE\<close>, \<open>SET NULL\<close>);
  the errors are ignored.
\<close>

definition sql_delete_lines :: "db \<Rightarrow> unit \<times> db" where
  "sql_delete_lines d =
     (let ids = map ord_ID (filter (\<lambda>r. pipe_number (OrderNumber r)) (orders d))
      in ((), d\<lparr>order_lines := filter (\<lambda>l. line_OrderID l \<notin> set ids) (order_lines d)\<rparr>))"

definition sql_delete_orders :: "db \<Rightarrow> unit \<times> db" where
  "sql_delete_orders d =
     (let ids = map ord_ID (filter (\<lambda>r. pipe_number (OrderNumber r)) (orders d));
          gone = (\<lambda>i. i \<in> set ids)
      in ((), d\<lparr>orders := filter (\<lambda>r. \<not> pipe_number (OrderNumber r)) (orders d),
               order_lines := filter (\<lambda>l. \<not> gone (line_OrderID l)) (order_lines d),
               order_cancellations := map (\<lambda>c. case can_OrderID c of
                   Some i \<Rightarrow> if gone i then c\<lparr>can_OrderID := None\<rparr> else c | None \<Rightarrow> c) (order_cancellations d)\<rparr>))"

definition sql_delete_events :: "db \<Rightarrow> unit \<times> db" where
  "sql_delete_events d =
     ((), d\<lparr>webhook_events := filter (\<lambda>e. \<not> HasPrefix (WebhookID e) ''pipe-'') (webhook_events d)\<rparr>)"

definition cleanup :: "world \<Rightarrow> world" where
  "cleanup w =
     snd (db_call (\<lambda>_. sql_delete_events) (snd (db_call (\<lambda>_. sql_delete_orders) (snd (db_call (\<lambda>_. sql_delete_lines) w)))))"

text \<open>\<open>po_mocks_up\<close>: the ports of the mocks answered within two seconds.\<close>

record pipe_opts =
  po_timeout :: int
  po_cleanup :: bool
  po_mocks_up :: bool

text \<open>The verdicts of the seven scenarios, or the message of the \<open>fatal\<close> that ended the run before them.\<close>

definition pipeline_verdicts :: "sut \<Rightarrow> int \<Rightarrow> string \<Rightarrow> pipe \<Rightarrow> bool list \<times> pipe" where
  "pipeline_verdicts u timeout secret s =
     (case run_scenarios u timeout (buildScenarios secret (now (pp_world s))) s of
        (oks, s1) \<Rightarrow> (case await_stock u (clock_of s1 + timeout) s1 of
        (ok6, s2) \<Rightarrow> (case await_fulfilled u (clock_of s2 + timeout) s2 of
        (ok7, s3) \<Rightarrow> (oks @ [ok6, ok7], s3))))"

definition pipeline_test :: "env \<Rightarrow> pipe_opts \<Rightarrow> sut \<Rightarrow> pipe \<Rightarrow> bool list res \<times> pipe" where
  "pipeline_test env op u s =
     (if env ''SHOPIFY_WEBHOOK_SECRET'' = [] then (Inl (Errorf ''SHOPIFY_WEBHOOK_SECRET must be set''), s)
      else if env ''DATABASE_URL'' = [] then (Inl (Errorf ''DATABASE_URL must be set''), s)
      else case pool_query (\<lambda>_. ()) s of
        (Inl e, s1) \<Rightarrow> (Inl (wrap_err ''DB ping failed'' e), s1)
      | (Inr _, s1) \<Rightarrow>
          if \<not> po_mocks_up op then (Inl (Errorf ''a mock did not start''), s1)
          else (case pool_query (\<lambda>d. length (orders d)) s1 of (_, s2) \<Rightarrow>
            (case pipeline_verdicts u (po_timeout op) (env ''SHOPIFY_WEBHOOK_SECRET'') s2 of (oks, s3) \<Rightarrow>
              (Inr oks, if po_cleanup op then s3\<lparr>pp_world := cleanup (pp_world s3)\<rparr> else s3))))"

definition exit_code :: "bool list res \<Rightarrow> int" where
  "exit_code r = (case r of Inl _ \<Rightarrow> 1 | Inr oks \<Rightarrow> if False \<in> set oks then 1 else 0)"

text \<open>The service of this repository under test: its answer to a request, the mocks being reached by its other steps.\<close>

definition service_post :: "config \<Rightarrow> pgconv \<Rightarrow> http_in \<Rightarrow> pipe \<Rightarrow> int option \<times> pipe" where
  "service_post c pg rq s =
     (case serve c pg rq False (pp_world s) of
        ((a, _), w) \<Rightarrow> (Some (an_status a), s\<lparr>pp_world := w\<rparr>))"

end
