(* ===== verification/PipelineProps.thy ===== *)
theory PipelineProps
  imports Pipeline AnswerProps ServiceProps
begin

text \<open>
  What the end-to-end test can show: its order webhooks say nothing of a payment, so the service under test answers them
  and stores nothing, and the run fails whatever else happens; its mocks answer the service's own requests as the service
  expects, but for the place of the order number; its cleanup touches only what the run created.
\<close>

section \<open>The payloads\<close>

lemma rate_ok: "atom_text ''0.2''" "atom_val ''0.2'' = Some (JNum ''0.2'')"
  by code_simp+

lemma payload_nums: "nums_ok (order_json t i name lis)"
  by (simp add: order_json_def item_json_def list_all_iff rate_ok)

lemma payload_keys:
  "fold_key ''created_at'' = ''created_at''" "fold_key ''gateway'' = ''gateway''" "fold_key ''id'' = ''id''"
  "fold_key ''line_items'' = ''line_items''" "fold_key ''name'' = ''name''"
  "fold_key ''payment_gateway_names'' = ''payment_gateway_names''" "fold_key ''shipping_address'' = ''shipping_address''"
  "fold_key ''total_price'' = ''total_price''" "fold_key ''email'' = ''email''"
  "fold_key ''financial_status'' = ''financial_status''" "fold_key ''shipping_lines'' = ''shipping_lines''"
  "fold_key ''cancelled_at'' = ''cancelled_at''" "fold_key ''cancel_reason'' = ''cancel_reason''"
  "fold_key ''price'' = ''price''" "fold_key ''quantity'' = ''quantity''" "fold_key ''sku'' = ''sku''"
  "fold_key ''tax_lines'' = ''tax_lines''" "fold_key ''title'' = ''title''" "fold_key ''rate'' = ''rate''"
  "fold_key ''total_discount'' = ''total_discount''"
  "fold_key ''address1'' = ''address1''" "fold_key ''address2'' = ''address2''" "fold_key ''city'' = ''city''"
  "fold_key ''country'' = ''country''" "fold_key ''first_name'' = ''first_name''" "fold_key ''last_name'' = ''last_name''"
  "fold_key ''province'' = ''province''" "fold_key ''zip'' = ''zip''" "fold_key ''phone'' = ''phone''"
  by code_simp+

definition fifth :: float64 where "fifth = flit (1 / 5)"

lemma rate_float: "jfloat (JNum ''0.2'') = Some fifth"
  by code_simp

definition decoded_item :: "pipe_item \<Rightarrow> shopify_line_item" where
  "decoded_item li =
     \<lparr>li_SKU = pi_SKU li, li_Quantity = pi_Qty li, li_Price = pi_Price li, li_TotalDiscount = [],
      li_TaxLines = [\<lparr>tax_Price = pi_Tax li, tax_Rate = fifth, tax_Title = ''VAT''\<rparr>]\<rparr>"

lemmas field_defs = fint_def fstring_def ffloat_def farray_def fptr_def

lemma decode_tax:
  "jstruct dec_tax (JObj [(''price'', JStr p), (''rate'', JNum ''0.2''), (''title'', JStr t)]) =
     Some \<lparr>tax_Price = p, tax_Rate = fifth, tax_Title = t\<rparr>"
  by (simp del: jfloat.simps add: jstruct_def dec_tax_def field_defs payload_keys jfield_steps rate_float)

lemma decode_item: "in_int64 (pi_Qty li) \<Longrightarrow> jstruct dec_line_item (item_json li) = Some (decoded_item li)"
  by (simp del: jint64.simps add: item_json_def decoded_item_def jstruct_def [of dec_line_item] dec_line_item_def field_defs
    payload_keys jfield_steps jint64_Itoa jarray_def decode_tax)

lemma decode_payload:
  assumes "in_int64 i" "\<forall>li \<in> set lis. in_int64 (pi_Qty li)"
  shows "\<exists>p. unmarshal (jstruct dec_order) (buildOrderPayload t i name lis) = Some p \<and> p_ID p = i \<and> p_Name p = name \<and>
    p_FinancialStatus p = [] \<and> p_LineItems p = map decoded_item lis"
proof -
  have n: "item_json li \<noteq> JNull" for li by (simp add: item_json_def)
  have "jarray (jstruct dec_line_item) zero_line_item (JArr (map item_json lis)) = Some (map decoded_item lis)"
    using assms(2) by (simp add: jarray_def n those_map_all decode_item)
  moreover have "\<exists>a. jstruct dec_address (JObj [(''address1'', JStr ''1 Test Street''), (''city'', JStr ''Burnley''),
      (''country'', JStr ''United Kingdom''), (''first_name'', JStr ''Pipeline''), (''last_name'', JStr ''Test''),
      (''province'', JStr ''Lancashire''), (''zip'', JStr ''BB1 1AA'')]) = Some a"
    by (simp add: jstruct_def dec_address_def field_defs payload_keys jfield_steps)
  moreover have "unmarshal (jstruct dec_order) (buildOrderPayload t i name lis) = jstruct dec_order (order_json t i name lis)"
    by (simp only: unmarshal_def buildOrderPayload_def json_print_parse [OF payload_nums] Option.bind.simps)
  ultimately show ?thesis using assms(1)
    by (auto simp del: jint64.simps simp: order_json_def jstruct_def [of dec_order] dec_order_def field_defs payload_keys jfield_steps jint64_Itoa jarray_def [of jstring])
qed

section \<open>What the service makes of them\<close>

lemma unpaid_handled:
  assumes "handleOrderCreate (db_order_store pg) secret clk r trig w = ((rs, trig'), w')" "req_body r = Some full"
    "unmarshal (jstruct dec_order) (take maxBodySize full) = Some p" "p_FinancialStatus p = []"
  shows "w_db w' = w_db w \<and> (p_ID p = 0 \<or> p_LineItems p = [] \<or> rs_status rs \<noteq> 422)"
proof -
  have unpaid: "\<not> isPaidStatus []" by code_simp
  obtain b w1 where e: "WebhookExists (header ''X-Shopify-Webhook-Id'' r) w = (b, w1)" by (rule prod.exhaust)
  have "w_db w1 = w_db w" using reader_db(1) [of "header ''X-Shopify-Webhook-Id'' r" w] by (simp add: e)
  then show ?thesis using assms unpaid e
    by (auto simp: handleOrderCreate_def db_order_store_def Let_def respond_def split: if_splits sum.splits bool.splits)
qed

definition no_pipe :: "pipe \<Rightarrow> bool" where
  "no_pipe s \<longleftrightarrow> (\<forall>r \<in> set (orders (w_db (pp_world s))). \<not> pipe_number (OrderNumber r))"

definition payload_of_test :: "scenario \<Rightarrow> bool" where
  "payload_of_test sc \<longleftrightarrow> length (sc_payload sc) \<le> maxBodySize \<and>
     (\<exists>t i name lis. sc_payload sc = buildOrderPayload t i name lis \<and> in_int64 i \<and> i \<noteq> 0 \<and> lis \<noteq> [] \<and>
        (\<forall>li \<in> set lis. in_int64 (pi_Qty li)))"

lemma post_unpaid:
  assumes "payload_of_test sc" "service_post c pg (scenario_request sc) s = (st, s1)"
  shows "w_db (pp_world s1) = w_db (pp_world s) \<and> st \<noteq> Some 422"
proof -
  obtain t i name lis where pl: "sc_payload sc = buildOrderPayload t i name lis" "in_int64 i" "i \<noteq> 0" "lis \<noteq> []"
      "\<forall>li \<in> set lis. in_int64 (pi_Qty li)" and len: "length (sc_payload sc) \<le> maxBodySize"
    using assms(1) by (auto simp: payload_of_test_def)
  obtain p where p: "unmarshal (jstruct dec_order) (sc_payload sc) = Some p" "p_ID p = i" "p_FinancialStatus p = []"
      "p_LineItems p = map decoded_item lis"
    using decode_payload [OF pl(2,5), of t name] by (auto simp: pl(1))
  let ?rq = "hi_request (scenario_request sc)"
  obtain rs tr w' where h: "handleOrderCreate (db_order_store pg) (cf_ShopifyWebhookSecret c) now ?rq (Some False) (pp_world s)
      = ((rs, tr), w')" by (metis prod.exhaust)
  have "req_body ?rq = Some (sc_payload sc)" by (simp add: scenario_request_def)
  moreover have "take maxBodySize (sc_payload sc) = sc_payload sc" using len by simp
  ultimately have u: "w_db w' = w_db (pp_world s)" "rs_status rs \<noteq> 422"
    using unpaid_handled [OF h, of "sc_payload sc" p] p pl(3,4) by auto
  have "route_of (hi_method (scenario_request sc)) (hi_path (scenario_request sc)) = ROrderCreate"
    by (simp add: scenario_request_def route_of_def post_only_def)
  then have "serve c pg (scenario_request sc) False (pp_world s) = ((securityHeaders (of_response rs), tr = Some True), w')"
    using h by (simp add: serve_def dispatch_def)
  moreover have "an_status (securityHeaders (of_response rs)) = rs_status rs"
    by (simp add: of_response_def securityHeaders_def)
  ultimately have "service_post c pg (scenario_request sc) s = (Some (rs_status rs), s\<lparr>pp_world := w'\<rparr>)"
    by (simp add: service_post_def)
  with assms(2) have "st = Some (rs_status rs)" "s1 = s\<lparr>pp_world := w'\<rparr>" by (metis Pair_inject)+
  then show ?thesis using u by simp
qed

lemma pool_query_read:
  assumes "pool_query f s = (r, s1)"
  shows "w_db (pp_world s1) = w_db (pp_world s)" "r = Inr x \<Longrightarrow> x = f (w_db (pp_world s))"
proof -
  obtain y w1 where d: "db_call (\<lambda>_ d. (f d, d)) (pp_world s) = (y, w1)" by (rule prod.exhaust)
  with assms have e: "r = y" "s1 = s\<lparr>pp_world := w1\<rparr>" by (simp_all add: pool_query_def)
  note R = db_read_value [OF d]
  show "w_db (pp_world s1) = w_db (pp_world s)" using R by (simp add: e)
  show "r = Inr x \<Longrightarrow> x = f (w_db (pp_world s))" using R by (simp add: e)
qed

lemma no_pipe_query: "pool_query f s = (r, s1) \<Longrightarrow> no_pipe s1 = no_pipe s"
  by (simp add: no_pipe_def pool_query_read(1))

text \<open>A service that stages no order under the test's numbers while the test sleeps.\<close>

definition stages_none :: "sut \<Rightarrow> bool" where
  "stages_none u \<longleftrightarrow> (\<forall>s. no_pipe s \<longrightarrow> no_pipe (su_tick u s))"

lemma no_pipe_sleep: "stages_none u \<Longrightarrow> no_pipe s \<Longrightarrow> no_pipe (sleep u d s)"
  by (simp add: stages_none_def no_pipe_def sleep_def)

lemma no_row: "no_pipe s \<Longrightarrow> pipe_number n \<Longrightarrow> row_by_number n (w_db (pp_world s)) = None"
  by (auto simp: no_pipe_def row_by_number_def find_None_iff)

lemma await_status_none:
  assumes "stages_none u" "pipe_number (sc_name sc)" "no_pipe s"
  shows "fst (await_status u sc deadline s) = (False, None) \<and> no_pipe (snd (await_status u sc deadline s))"
  using assms
proof (induction u sc deadline s rule: await_status.induct)
  case (1 u sc deadline s)
  obtain r s1 where q: "pool_query (row_by_number (sc_name sc)) s = (r, s1)" by (rule prod.exhaust)
  have n1: "no_pipe s1" using no_pipe_query [OF q] "1.prems"(3) by simp
  have none: "r = Inr x \<Longrightarrow> x = None" for x
    using pool_query_read(2) [OF q] no_row [OF "1.prems"(3,2)] by simp
  have IH: "\<not> deadline \<le> clock_of s \<Longrightarrow> fst (await_status u sc deadline (sleep u (ms 250) s1)) = (False, None) \<and>
      no_pipe (snd (await_status u sc deadline (sleep u (ms 250) s1)))"
    using "1.IH" q none no_pipe_sleep [OF "1.prems"(1) n1, of "ms 250"] "1.prems"(1,2) by (cases r) auto
  show ?case using IH none q "1.prems"(3) by (subst (1 2) await_status.simps) (auto split: sum.splits option.splits)
qed

lemma count_none:
  assumes "no_pipe s" "\<And>r. P r \<Longrightarrow> pipe_number (OrderNumber r)"
  shows "fst (pool_count P s) = 0 \<and> no_pipe (snd (pool_count P s))"
proof -
  obtain r s1 where q: "pool_query (\<lambda>d. length (filter P (orders d))) s = (r, s1)" by (rule prod.exhaust)
  have "filter P (orders (w_db (pp_world s))) = []"
    using assms by (auto simp: no_pipe_def filter_empty_conv)
  then have "r = Inr x \<Longrightarrow> x = 0" for x
    using pool_query_read(2) [OF q] by simp
  moreover have "no_pipe s1" using no_pipe_query [OF q] assms(1) by simp
  ultimately show ?thesis by (cases r) (simp_all add: pool_count_def q)
qed

lemma await_fulfilled_none:
  assumes "stages_none u" "no_pipe s"
  shows "fst (await_fulfilled u deadline s) = False"
  using assms
proof (induction u deadline s rule: await_fulfilled.induct)
  case (1 u deadline s)
  let ?f = "\<lambda>d. length (filter (\<lambda>r. pipe_number (OrderNumber r) \<and> Status r = OrderStatusFulfilled) (orders d))"
  obtain r s1 where q: "pool_query ?f s = (r, s1)" by (rule prod.exhaust)
  have n1: "no_pipe s1" using no_pipe_query [OF q] "1.prems"(2) by simp
  have "?f (w_db (pp_world s)) = 0" using "1.prems"(2) by (auto simp: no_pipe_def filter_empty_conv)
  then have zero: "r = Inr x \<Longrightarrow> x = 0" for x using pool_query_read(2) [OF q] by simp
  have IH: "\<not> deadline \<le> clock_of s \<Longrightarrow> fst (await_fulfilled u deadline (sleep u (ms 500) s1)) = False"
    using "1.IH" q zero no_pipe_sleep [OF "1.prems"(1) n1, of "ms 500"] "1.prems"(1) by (cases r) auto
  show ?case using IH zero q by (subst await_fulfilled.simps) (auto split: sum.splits)
qed

lemma await_stock_none: "stages_none u \<Longrightarrow> no_pipe s \<Longrightarrow> no_pipe (snd (await_stock u deadline s))"
proof (induction u deadline s rule: await_stock.induct)
  case (1 u deadline s)
  then show ?case using no_pipe_sleep by (subst await_stock.simps) auto
qed

section \<open>The run\<close>

text \<open>One scenario: nothing is staged, and a scenario that waits for an order, counts one, or expects 422, fails.\<close>

lemma run_unpaid:
  assumes "su_post u = service_post c pg" "stages_none u" "payload_of_test sc" "no_pipe s" "pipe_number (sc_name sc)"
    "sc_isDuplicate sc \<longrightarrow> pipe_number (sc_dupOriginal sc)"
  shows "no_pipe (snd (runScenario u timeout sc s))"
    "sc_expectDBStatus sc \<noteq> [] \<or> sc_isDuplicate sc \<or> sc_expectHTTP sc = 422 \<Longrightarrow> \<not> fst (fst (runScenario u timeout sc s))"
proof -
  obtain st s1 where p: "service_post c pg (scenario_request sc) s = (st, s1)" by (rule prod.exhaust)
  have post: "w_db (pp_world s1) = w_db (pp_world s)" "st \<noteq> Some 422" using post_unpaid [OF assms(3) p] by auto
  have n1: "no_pipe s1" using assms(4) post(1) by (simp add: no_pipe_def)
  note A = await_status_none [OF assms(2,5) n1, of "clock_of s1 + timeout"]
  have c1: "fst (pool_count (\<lambda>r. OrderNumber r = sc_name sc) s1) = 0 \<and> no_pipe (snd (pool_count (\<lambda>r. OrderNumber r = sc_name sc) s1))"
    by (rule count_none [OF n1]) (use assms(5) in simp)
  have c2: "sc_isDuplicate sc \<Longrightarrow> fst (pool_count (\<lambda>r. OrderNumber r = sc_dupOriginal sc) s1) = 0 \<and>
      no_pipe (snd (pool_count (\<lambda>r. OrderNumber r = sc_dupOriginal sc) s1))"
    by (rule count_none [OF n1]) (use assms(6) in simp)
  show "no_pipe (snd (runScenario u timeout sc s))"
    using A c1 c2 n1 by (auto simp: runScenario_def assms(1) p split: option.splits prod.splits)
  show "\<not> fst (fst (runScenario u timeout sc s))"
    if "sc_expectDBStatus sc \<noteq> [] \<or> sc_isDuplicate sc \<or> sc_expectHTTP sc = 422"
    using A c1 c2 post(2) that by (auto simp: runScenario_def assms(1) p split: option.splits prod.splits)
qed

lemma run_cons:
  "run_scenarios u timeout (sc # scs) s =
     (fst (fst (runScenario u timeout sc s)) # fst (run_scenarios u timeout scs (snd (runScenario u timeout sc s))),
      snd (run_scenarios u timeout scs (snd (runScenario u timeout sc s))))"
  by (simp split: prod.splits)

text \<open>The scenarios of one run: their payloads are within the limit of a webhook body, and their ids are \<open>int64\<close>.\<close>

definition deliverable :: "string \<Rightarrow> gtime \<Rightarrow> bool" where
  "deliverable secret t \<longleftrightarrow> 0 < t_ns t \<and> t_ns t + 5 < 2 ^ 63 \<and>
     list_all (\<lambda>sc. length (sc_payload sc) \<le> maxBodySize) (buildScenarios secret t)"

lemma scenario_payloads:
  assumes "deliverable secret t" "sc \<in> set (buildScenarios secret t)"
  shows "payload_of_test sc" "pipe_number (sc_name sc)" "sc_isDuplicate sc \<longrightarrow> pipe_number (sc_dupOriginal sc)"
proof -
  have len: "length (sc_payload sc) \<le> maxBodySize" using assms by (auto simp: deliverable_def list_all_iff)
  have one: "payload_of_test sc" if "sc_payload sc = buildOrderPayload t (t_ns t + k) name lis" "k \<in> {1, 2, 5}" "lis \<noteq> []"
    "set lis \<subseteq> {bbq, firelighters, no_sku}" for k name lis
  proof -
    have "in_int64 (t_ns t + k)" "t_ns t + k \<noteq> 0"
      using assms(1) that(2) by (auto simp: deliverable_def in_int64_def)
    moreover have "\<forall>li \<in> set lis. in_int64 (pi_Qty li)"
      using that(4) by (auto simp: bbq_def firelighters_def no_sku_def in_int64_def)
    ultimately show ?thesis using len that(1,3) unfolding payload_of_test_def by blast
  qed
  have "sc_payload sc \<in> {buildOrderPayload t (t_ns t + 1) ''#PIPE-001'' [bbq],
      buildOrderPayload t (t_ns t + 2) ''#PIPE-002'' [bbq, firelighters], buildOrderPayload t (t_ns t + 5) ''#PIPE-005'' [no_sku]}"
    using assms(2) by (auto simp: buildScenarios_def Let_def)
  then show "payload_of_test sc"
    using one [of 1 "''#PIPE-001''" "[bbq]"] one [of 2 "''#PIPE-002''" "[bbq, firelighters]"] one [of 5 "''#PIPE-005''" "[no_sku]"]
    by auto
  show "pipe_number (sc_name sc)" "sc_isDuplicate sc \<longrightarrow> pipe_number (sc_dupOriginal sc)"
    using assms(2) by (auto simp: buildScenarios_def Let_def pipe_number_def HasPrefix_def)
qed

text \<open>C24: the end-to-end test against this service. Its payloads carry no \<open>financial_status\<close>, so every order of the test is
  answered as unpaid and none is stored: for every configuration of the service, every clock and script of database
  failures, and whatever the service does besides while the test sleeps (short of staging orders under the test's
  numbers from elsewhere), scenarios 1, 2, 3, 5 and 7 fail, and the run ends with exit code 1.\<close>

theorem pipeline_test_always_fails:
  assumes "su_post u = service_post c pg" "stages_none u" "no_pipe s" "deliverable secret (now (pp_world s))"
  shows "\<exists>v4 v6. fst (pipeline_verdicts u timeout secret s) = [False, False, False, v4, False, v6, False] \<and>
    exit_code (Inr (fst (pipeline_verdicts u timeout secret s))) = 1"
proof -
  let ?scs = "buildScenarios secret (now (pp_world s))"
  obtain a b d e f where scs: "?scs = [a, b, d, e, f]"
    and kinds: "sc_expectDBStatus a \<noteq> []" "sc_expectDBStatus b \<noteq> []" "sc_isDuplicate d" "sc_expectHTTP f = 422"
    by (simp add: buildScenarios_def Let_def)
  note R = run_unpaid [OF assms(1,2) scenario_payloads(1) [OF assms(4)] _ scenario_payloads(2,3) [OF assms(4)], of _ _ timeout]
  define s1 where "s1 = snd (runScenario u timeout a s)"
  define s2 where "s2 = snd (runScenario u timeout b s1)"
  define s3 where "s3 = snd (runScenario u timeout d s2)"
  define s4 where "s4 = snd (runScenario u timeout e s3)"
  define s5 where "s5 = snd (runScenario u timeout f s4)"
  have n: "no_pipe s1" "no_pipe s2" "no_pipe s3" "no_pipe s4" "no_pipe s5"
  proof -
    show 1: "no_pipe s1" using R(1) [of a s] assms(3) by (simp add: scs s1_def)
    show 2: "no_pipe s2" using R(1) [of b s1] 1 by (simp add: scs s2_def)
    show 3: "no_pipe s3" using R(1) [of d s2] 2 by (simp add: scs s3_def)
    show 4: "no_pipe s4" using R(1) [of e s3] 3 by (simp add: scs s4_def)
    show "no_pipe s5" using R(1) [of f s4] 4 by (simp add: scs s5_def)
  qed
  have v: "\<not> fst (fst (runScenario u timeout a s))" "\<not> fst (fst (runScenario u timeout b s1))"
    "\<not> fst (fst (runScenario u timeout d s2))" "\<not> fst (fst (runScenario u timeout f s4))"
    using R(2) [of a s] R(2) [of b s1] R(2) [of d s2] R(2) [of f s4] kinds n assms(3) by (simp_all add: scs)
  have run: "run_scenarios u timeout ?scs s = ([False, False, False, fst (fst (runScenario u timeout e s3)), False], s5)"
    using v by (simp add: scs run_cons s1_def s2_def s3_def s4_def s5_def del: run_scenarios.simps(2))
  obtain ok6 s6 where a6: "await_stock u (clock_of s5 + timeout) s5 = (ok6, s6)" by (rule prod.exhaust)
  have "no_pipe s6" using await_stock_none [OF assms(2) n(5), of "clock_of s5 + timeout"] by (simp add: a6)
  then have f: "fst (await_fulfilled u (clock_of s6 + timeout) s6) = False" by (rule await_fulfilled_none [OF assms(2)])
  obtain ok7 s7 where a7: "await_fulfilled u (clock_of s6 + timeout) s6 = (ok7, s7)" by (rule prod.exhaust)
  from f a7 have "fst (pipeline_verdicts u timeout secret s) =
      [False, False, False, fst (fst (runScenario u timeout e s3)), False, ok6, False]"
    by (simp add: pipeline_verdicts_def run a6)
  then show ?thesis by (simp add: exit_code_def)
qed

definition idle_service :: sut where
  "idle_service = \<lparr>su_post = service_post demo_config plain_pg, su_tick = (\<lambda>s. s)\<rparr>"

definition fresh_pipe :: pipe where
  "fresh_pipe = \<lparr>pp_world = empty_world\<lparr>w_clock := 1700000000000000000\<rparr>, pp_syspro = newMockSyspro, pp_shopify = newMockShopify\<rparr>"

lemma fresh_now: "now (pp_world fresh_pipe) = \<lparr>t_ns = 1700000000000000000, t_off = w_local empty_world\<rparr>"
  by (simp add: now_def fresh_pipe_def)

theorem pipeline_test_always_fails_witness:
  "exit_code (Inr (fst (pipeline_verdicts idle_service 60000000000 ''secret'' fresh_pipe))) = 1"
proof -
  have "stages_none idle_service" by (simp add: stages_none_def idle_service_def)
  moreover have "no_pipe fresh_pipe" by (simp add: no_pipe_def fresh_pipe_def empty_world_def demo_world_def empty_db_def)
  moreover have "deliverable ''secret'' (now (pp_world fresh_pipe))"
  proof -
    let ?t = "\<lparr>t_ns = 1700000000000000000, t_off = 0\<rparr>"
    have l: "length (buildOrderPayload ?t 1700000000000000001 ''#PIPE-001'' [bbq]) < 2000"
      "length (buildOrderPayload ?t 1700000000000000002 ''#PIPE-002'' [bbq, firelighters]) < 2000"
      "length (buildOrderPayload ?t 1700000000000000005 ''#PIPE-005'' [no_sku]) < 2000"
      by code_simp+
    have "w_local empty_world = 0" by (simp add: empty_world_def demo_world_def)
    with l show ?thesis by (simp add: deliverable_def fresh_now buildScenarios_def Let_def maxBodySize_def)
  qed
  ultimately show ?thesis
    using pipeline_test_always_fails [of idle_service demo_config plain_pg fresh_pipe "''secret''" 60000000000]
    by (auto simp: idle_service_def)
qed

end
