(* ===== verification/MockProps.thy ===== *)
theory MockProps
  imports PipelineProps ProbesProps
begin

text \<open>
  The mocks of the end-to-end test against the service's own clients, and the cleanup after the test.
\<close>

section \<open>The mock of Shopify\<close>

text \<open>The mock reads the query out of the body the service's GraphQL clients send.\<close>

lemma mock_reads_query:
  assumes "nums_ok v"
  shows "unmarshal (jstruct (fstring ''query'')) (rq_body (gql_req c q (Some v))) = Some q"
proof -
  have "fold_key ''query'' = ''query''" "fold_key ''variables'' = ''variables''" by code_simp+
  moreover have "json_parse (rq_body (gql_req c q (Some v))) = Some (JObj [(''query'', JStr q), (''variables'', v)])"
    using assms by (simp add: gql_req_def gql_body_def json_print_parse del: json_print.simps)
  ultimately show ?thesis by (simp add: unmarshal_def jstruct_def fstring_def jfield_steps)
qed

lemma mock_query_words:
  "\<not> Contains fulfillment_orders_query ''locations(''" "\<not> Contains fulfillment_orders_query ''inventoryItems(''"
  "\<not> Contains fulfillment_orders_query ''inventorySetQuantities''" "Contains fulfillment_orders_query ''fulfillmentOrders(''"
  "\<not> Contains fulfillment_mutation ''locations(''" "\<not> Contains fulfillment_mutation ''inventoryItems(''"
  "\<not> Contains fulfillment_mutation ''inventorySetQuantities''" "\<not> Contains fulfillment_mutation ''fulfillmentOrders(''"
  "Contains fulfillment_mutation ''fulfillmentCreate''"
  "\<not> Contains set_mutation ''locations(''" "\<not> Contains set_mutation ''inventoryItems(''"
  "Contains set_mutation ''inventorySetQuantities''"
  by code_simp+

lemma token_sent: "url_param ''X-Shopify-Access-Token'' (rq_headers (gql_req c q v)) = gq_accessToken c"
  by (simp add: url_param_def gql_req_def)

lemma mock_fo_parsed: "unmarshal (jstruct dec_gql) mock_fo = Some (Some (JObj [(''order'', JObj [(''fulfillmentOrders'',
    JObj [(''edges'', JArr [JObj [(''node'', JObj [(''id'', JStr ''gid://shopify/FulfillmentOrder/mock-fo-1''), (''status'', JStr ''OPEN'')])]])])])]), [])"
  by code_simp

lemma mock_created_parsed: "unmarshal (jstruct dec_gql) mock_created = Some (Some (JObj [(''fulfillmentCreate'',
    JObj [(''fulfillment'', JObj [(''id'', JStr ''gid://shopify/Fulfillment/mock-ful-1''), (''status'', JStr ''SUCCESS'')]),
      (''userErrors'', JArr [])])]), [])"
  by code_simp

text \<open>The fulfilment client against the mock: it finds the open fulfilment order and creates the fulfilment, which is counted.\<close>

lemma mock_fulfilment_order:
  assumes "gq_accessToken c \<noteq> []"
    "w_http w = (fst (handleGraphQL (gql_req c fulfillment_orders_query (Some (JObj [(''id'', JStr (''gid://shopify/Order/'' @ Itoa sid))]))) m), dt) # hs"
  shows "fst (GetFulfillmentOrderID c sid w) = Inr ''gid://shopify/FulfillmentOrder/mock-fo-1''"
proof -
  let ?v = "JObj [(''id'', JStr (''gid://shopify/Order/'' @ Itoa sid))]"
  have "fst (handleGraphQL (gql_req c fulfillment_orders_query (Some ?v)) m) = Resp 200 [] mock_fo"
    using assms(1) mock_reads_query [of ?v c fulfillment_orders_query]
    by (simp add: handleGraphQL_def token_sent mock_query_words)
  then have "fst (graphql c fulfillment_orders_query (Some ?v) w) = Inr (fst (the (unmarshal (jstruct dec_gql) mock_fo)))"
    using assms(2) by (simp add: graphql_def http_do_def mock_fo_parsed)
  moreover have "decode_data dec_fo (fst (the (unmarshal (jstruct dec_gql) mock_fo))) =
      Some [(''gid://shopify/FulfillmentOrder/mock-fo-1'', ''OPEN'')]"
    unfolding mock_fo_parsed by code_simp
  ultimately show ?thesis
    by (cases "graphql c fulfillment_orders_query (Some ?v) w") (simp add: GetFulfillmentOrderID_def)
qed

lemma mock_fulfilment_created:
  assumes "gq_accessToken c \<noteq> []"
    "handleGraphQL (gql_req c fulfillment_mutation (Some (fulfillment_vars i))) m = (oc, m')" "w_http w = (oc, dt) # hs"
  shows "fst (CreateFulfillment c i w) = Inr ''gid://shopify/Fulfillment/mock-ful-1''"
    "mk_fulfilmentCalls m' = wrap64 (mk_fulfilmentCalls m + 1)"
proof -
  let ?v = "fulfillment_vars i"
  have "nums_ok ?v" by (simp add: fulfillment_vars_def)
  then have h: "handleGraphQL (gql_req c fulfillment_mutation (Some ?v)) m =
      (Resp 200 [] mock_created, m\<lparr>mk_fulfilmentCalls := wrap64 (mk_fulfilmentCalls m + 1)\<rparr>)"
    using assms(1) mock_reads_query [of ?v c fulfillment_mutation]
    by (simp add: handleGraphQL_def token_sent mock_query_words)
  then show "mk_fulfilmentCalls m' = wrap64 (mk_fulfilmentCalls m + 1)" using assms(2) by auto
  have "oc = Resp 200 [] mock_created" using assms(2) unfolding h by simp
  then have "fst (graphql c fulfillment_mutation (Some ?v) w) = Inr (fst (the (unmarshal (jstruct dec_gql) mock_created)))"
    using assms(3) by (simp add: graphql_def http_do_def mock_created_parsed)
  moreover have "decode_data dec_created (fst (the (unmarshal (jstruct dec_gql) mock_created))) =
      Some (Some ''gid://shopify/Fulfillment/mock-ful-1'', [])"
    unfolding mock_created_parsed by code_simp
  ultimately show "fst (CreateFulfillment c i w) = Inr ''gid://shopify/Fulfillment/mock-ful-1''"
    by (cases "graphql c fulfillment_mutation (Some ?v) w") (simp add: CreateFulfillment_def)
qed

section \<open>The mock of SYSPRO\<close>

text \<open>Order numbers of three digits or more: no two of a run are the same.\<close>

lemma mock_number_inj: "mock_number a = mock_number b \<Longrightarrow> 0 \<le> a \<Longrightarrow> 0 \<le> b \<Longrightarrow> a = b"
proof -
  assume "mock_number a = mock_number b" and n: "0 \<le> a" "0 \<le> b"
  then have "digits_val (pad_nat 3 a) = digits_val (pad_nat 3 b)" by (simp add: mock_number_def)
  then show ?thesis using n by (simp add: pad_nat_def Let_def digits_val_zeros digits_val_nat_str)
qed

fun mock_orders :: "nat \<Rightarrow> mock_syspro \<Rightarrow> mock_syspro" where
  "mock_orders 0 m = m"
| "mock_orders (Suc n) m = snd (mock_transaction (mock_orders n m))"

text \<open>After \<open>n\<close> transactions exactly the first \<open>n\<close> numbers are known.\<close>

lemma mock_orders_known:
  assumes "int n < 2 ^ 63"
  shows "ms_orderSeq (mock_orders n newMockSyspro) = int n \<and>
    map_of (ms_submittedOrders (mock_orders n newMockSyspro)) num =
      (if \<exists>k \<in> {1..n}. num = mock_number (int k) then Some ''submitted'' else None)"
  using assms
proof (induction n)
  case 0
  then show ?case by (simp add: newMockSyspro_def)
next
  case (Suc n)
  then have IH: "ms_orderSeq (mock_orders n newMockSyspro) = int n"
    "map_of (ms_submittedOrders (mock_orders n newMockSyspro)) num =
      (if \<exists>k \<in> {1..n}. num = mock_number (int k) then Some ''submitted'' else None)" by simp_all
  have w: "wrap64 (1 + int n) = 1 + int n" using Suc.prems by (simp add: wrap64_def)
  have mp: "map_of (map_put k v ml) x = (if x = k then Some v else map_of ml x)" for k v x and ml :: "(string \<times> string) list"
    by (induction ml) (auto simp: map_put_def)
  then show ?case
    using IH(2) by (auto simp: mock_transaction_def Let_def IH(1) w mp atLeastAtMostSuc_conv add.commute)
qed

text \<open>
  The client reads the order number of a SORTOI answer below \<open>Order\<close>; the mock puts it below \<open>Orders/OrderHeader\<close>, so
  the service takes the order as accepted and stores no number.
\<close>

lemma mock_number_lost:
  "parseSORTOIResponse (fst (mock_transaction newMockSyspro)) =
     Inr \<lparr>res_SysproOrderNumber = [], Success = True, ErrorMessage = []\<rparr>"
  by code_simp

text \<open>The cleanup: what other parts of the database it keeps.\<close>

section \<open>The cleanup\<close>
definition other_orders :: "db \<Rightarrow> order list" where
  "other_orders d = filter (\<lambda>r. \<not> pipe_number (OrderNumber r)) (orders d)"

definition lines_of_others :: "db \<Rightarrow> order_line list" where
  "lines_of_others d = filter (\<lambda>l. line_OrderID l \<in> ord_ID ` set (other_orders d)) (order_lines d)"

definition other_events :: "db \<Rightarrow> webhook_event list" where
  "other_events d = filter (\<lambda>e. \<not> HasPrefix (WebhookID e) ''pipe-'') (webhook_events d)"

definition unlinked :: "order_cancellation \<Rightarrow> order_cancellation" where
  "unlinked c = c\<lparr>can_OrderID := None\<rparr>"

definition others_kept :: "db \<Rightarrow> db \<Rightarrow> bool" where
  "others_kept d d' \<longleftrightarrow> other_orders d' = other_orders d \<and> lines_of_others d' = lines_of_others d \<and>
     other_events d' = other_events d \<and> payment_postings d' = payment_postings d \<and>
     map unlinked (order_cancellations d') = map unlinked (order_cancellations d)"

lemma ids_below_filter: "ids_below f n xs \<Longrightarrow> ids_below f n (filter P xs)"
  by (auto simp: ids_below_def sorted_wrt_map sorted_wrt_filter)

lemma pipe_ids_apart:
  assumes "orders_inv d" "r \<in> set (orders d)" "r' \<in> set (orders d)" "pipe_number (OrderNumber r)" "\<not> pipe_number (OrderNumber r')"
  shows "ord_ID r \<noteq> ord_ID r'"
proof
  assume "ord_ID r = ord_ID r'"
  moreover have "inj_on ord_ID (set (orders d))"
    using ids_below_distinct assms(1) by (auto simp: orders_inv_def distinct_map)
  ultimately have "r = r'" using assms(2,3) by (auto dest: inj_onD)
  with assms(4,5) show False by simp
qed

lemma delete_lines_kept: "db_inv d \<Longrightarrow> db_inv (snd (sql_delete_lines d)) \<and> others_kept d (snd (sql_delete_lines d))"
  using pipe_ids_apart [of d]
  by (auto simp: sql_delete_lines_def Let_def db_inv_defs ids_below_filter others_kept_def other_orders_def lines_of_others_def
    other_events_def conj_commute intro!: filter_cong)

lemma delete_events_kept: "db_inv d \<Longrightarrow> db_inv (snd (sql_delete_events d)) \<and> others_kept d (snd (sql_delete_events d))"
  by (auto simp: sql_delete_events_def db_inv_defs ids_below_filter others_kept_def other_orders_def lines_of_others_def
    other_events_def distinct_map inj_on_def)

lemma delete_orders_kept: "db_inv d \<Longrightarrow> db_inv (snd (sql_delete_orders d)) \<and> others_kept d (snd (sql_delete_orders d))"
proof -
  assume inv: "db_inv d"
  define gone where "gone = ord_ID ` set (filter (\<lambda>r. pipe_number (OrderNumber r)) (orders d))"
  define cut where "cut = (\<lambda>c :: order_cancellation. case can_OrderID c of Some i \<Rightarrow> if i \<in> gone then c\<lparr>can_OrderID := None\<rparr> else c | None \<Rightarrow> c)"
  let ?d = "snd (sql_delete_orders d)"
  have e: "orders ?d = other_orders d" "order_lines ?d = filter (\<lambda>l. line_OrderID l \<notin> gone) (order_lines d)"
    "order_cancellations ?d = map cut (order_cancellations d)"
    by (auto simp: sql_delete_orders_def Let_def other_orders_def gone_def cut_def split: option.splits)
  have f: "webhook_events ?d = webhook_events d" "payment_postings ?d = payment_postings d" "seq_order ?d = seq_order d"
    "seq_line ?d = seq_line d" "seq_event ?d = seq_event d" "seq_cancel ?d = seq_cancel d" "seq_payment ?d = seq_payment d"
    by (simp_all add: sql_delete_orders_def Let_def)
  have apart: "i \<in> ord_ID ` set (orders d) \<Longrightarrow> i \<notin> gone \<longleftrightarrow> i \<in> ord_ID ` set (other_orders d)" for i
    using pipe_ids_apart [of d] inv by (auto simp: gone_def other_orders_def db_inv_def)
  have cut: "can_ID (cut c) = can_ID c" "can_WebhookID (cut c) = can_WebhookID c" "unlinked (cut c) = unlinked c"
    "can_OrderID (cut c) = Some i \<Longrightarrow> can_OrderID c = Some i \<and> i \<notin> gone" for c i
    by (auto simp: cut_def unlinked_def split: option.splits if_splits)
  have "orders_inv ?d" using inv
    by (auto simp: db_inv_def orders_inv_def e f other_orders_def ids_below_filter distinct_map inj_on_def)
  moreover have "lines_inv ?d" using inv apart by (auto simp: db_inv_def lines_inv_def e f ids_below_filter)
  moreover have "cancels_inv ?d"
  proof -
    have "map can_ID (map cut cs) = map can_ID cs" "map can_WebhookID (map cut cs) = map can_WebhookID cs" for cs
      by (simp_all add: cut)
    note same = ids_below_cong [OF this(1)] this(2)
    have "i \<in> ord_ID ` set (other_orders d)" if "c \<in> set (order_cancellations d)" "can_OrderID (cut c) = Some i" for c i
      using that(1) cut(4) [OF that(2)] inv apart by (auto simp: db_inv_def cancels_inv_def)
    then show ?thesis using inv unfolding cancels_inv_def e f same db_inv_def by auto
  qed
  moreover have "events_inv ?d" "payments_inv ?d" "seqs_inv ?d"
    using inv by (simp_all add: db_inv_def events_inv_def payments_inv_def seqs_inv_def f)
  moreover have "lines_of_others ?d = lines_of_others d"
    using apart inv by (auto simp: lines_of_others_def e other_orders_def db_inv_def lines_inv_def intro!: filter_cong)
  ultimately show "db_inv ?d \<and> others_kept d ?d"
    by (simp add: db_inv_def others_kept_def e f cut other_events_def other_orders_def comp_def)
qed

lemma others_kept_trans: "others_kept a b \<Longrightarrow> others_kept b c \<Longrightarrow> others_kept a c"
  by (simp add: others_kept_def)

lemma kept_call:
  assumes "\<And>d. db_inv d \<Longrightarrow> db_inv (snd (f d)) \<and> others_kept d (snd (f d))" "db_inv (w_db w)"
  shows "db_inv (w_db (snd (db_call (\<lambda>_. f) w))) \<and> others_kept (w_db w) (w_db (snd (db_call (\<lambda>_. f) w)))"
  by (cases rule: db_call_cases [of "\<lambda>_. f" w]) (use assms in \<open>auto simp: others_kept_def\<close>)

text \<open>The cleanup after the test, whichever of its three statements fail or lose their reply: the tables keep their
  invariant, and every order with another number, its lines, every other webhook id and every payment stay as they
  were; the recorded cancellations stay too, at most unlinked from a deleted order. When no statement fails, no order
  and no webhook id of the test is left.\<close>

theorem pipeline_cleanup:
  assumes "db_inv (w_db w)"
  shows "db_inv (w_db (cleanup w)) \<and> others_kept (w_db w) (w_db (cleanup w)) \<and>
    (w_dbs w \<noteq> [] \<or> orders (w_db (cleanup w)) = other_orders (w_db w) \<and>
       webhook_events (w_db (cleanup w)) = other_events (w_db w) \<and>
       order_lines (w_db (cleanup w)) = lines_of_others (w_db w))"
proof -
  define w1 where "w1 = snd (db_call (\<lambda>_. sql_delete_lines) w)"
  define w2 where "w2 = snd (db_call (\<lambda>_. sql_delete_orders) w1)"
  have c: "cleanup w = snd (db_call (\<lambda>_. sql_delete_events) w2)" by (simp add: cleanup_def w1_def w2_def)
  have k1: "db_inv (w_db w1) \<and> others_kept (w_db w) (w_db w1)"
    unfolding w1_def by (rule kept_call [OF delete_lines_kept assms])
  then have k2: "db_inv (w_db w2) \<and> others_kept (w_db w1) (w_db w2)"
    unfolding w2_def by (intro kept_call [OF delete_orders_kept]) simp_all
  then have k3: "db_inv (w_db (cleanup w)) \<and> others_kept (w_db w2) (w_db (cleanup w))"
    unfolding c by (intro kept_call [OF delete_events_kept]) simp_all
  have kept: "others_kept (w_db w) (w_db (cleanup w))" using k1 k2 k3 others_kept_trans by blast
  moreover have "orders (w_db (cleanup w)) = other_orders (w_db w) \<and> webhook_events (w_db (cleanup w)) = other_events (w_db w) \<and>
      order_lines (w_db (cleanup w)) = lines_of_others (w_db w)" if "w_dbs w = []"
  proof -
    have "w1 = w\<lparr>w_db := snd (sql_delete_lines (w_db w))\<rparr>" using that by (simp add: w1_def db_call_ok)
    moreover from this have "w2 = w1\<lparr>w_db := snd (sql_delete_orders (w_db w1))\<rparr>" using that by (simp add: w2_def db_call_ok)
    ultimately have d: "w_db (cleanup w) = snd (sql_delete_events (snd (sql_delete_orders (snd (sql_delete_lines (w_db w))))))"
      using that by (simp add: c db_call_ok)
    have o: "orders (w_db (cleanup w)) = other_orders (w_db w)" "webhook_events (w_db (cleanup w)) = other_events (w_db w)"
      unfolding d by (simp_all add: sql_delete_events_def sql_delete_orders_def sql_delete_lines_def other_orders_def other_events_def Let_def)
    have "\<forall>l \<in> set (order_lines (w_db (cleanup w))). line_OrderID l \<in> ord_ID ` set (other_orders (w_db w))"
      using k3 o(1) by (auto simp: db_inv_def lines_inv_def)
    then have "order_lines (w_db (cleanup w)) = lines_of_others (w_db (cleanup w))"
      using kept by (simp add: lines_of_others_def others_kept_def)
    with o kept show ?thesis by (simp add: others_kept_def)
  qed
  ultimately show ?thesis using k3 by blast
qed

theorem pipeline_cleanup_witness: "db_inv (w_db (cleanup demo_world))"
  using pipeline_cleanup [OF demo_inv] by simp

end
