(* ===== verification/Spec2Isabelle.thy ===== *)
theory Spec2Isabelle
  imports InvProps PayProps ReconcileProps TransactionProps ReportProps MailerProps DailyReportProps ConfigProps ServiceProps ResubmitProps SkuParityProps SendReport Middleware LifecycleProps SortoiProps
    AnswerProps ProbesProps BenchProps PipelineProps MockProps
begin

text \<open>
  A verification of the service that carries paid Shopify orders into SYSPRO (Go, \<open>src/\<close>).

  \<^bold>\<open>The program.\<close> Shopify delivers \<open>orders/create\<close> and \<open>orders/cancelled\<close> webhooks
  (\<open>internal/webhook\<close>); a paid order is staged in PostgreSQL (\<open>internal/store\<close>); a batch processor
  (\<open>internal/batch\<close>) posts staged orders as SORTOI documents to SYSPRO's e.net REST interface
  (\<open>internal/syspro\<close>); a fulfilment syncer (\<open>internal/fulfilment\<close>) reports orders SYSPRO completed back to
  Shopify; a stock syncer (\<open>internal/inventory\<close>) pushes stock less what staged orders hold; a sweeper
  (\<open>internal/reconcile\<close>) stages orders whose webhook was lost; a payments syncer and two daily reports
  (\<open>internal/payments\<close>) post cash receipts and mail documents; a cancellation gate
  (\<open>internal/cancellation\<close>) classifies cancelled orders. \<open>config\<close> reads the environment and
  \<open>cmd/server/main.go\<close> wires it all together and serves the routes. The components share only the tables,
  the SYSPRO client with its session mutex, and the trigger channel of the stock syncer.

  \<^bold>\<open>State.\<close> \<open>world\<close> (\<open>World\<close>) is everything outside a component: the five tables as lists of rows with
  their sequences (\<open>db\<close>), the clock, a script of database failures (\<open>w_dbs\<close>: each call succeeds, fails
  before or after taking effect), a script of HTTP answers (\<open>w_http\<close>), the log of requests sent
  (\<open>w_sent\<close>), a script of cancelled contexts, and the session mutex. Every theorem about a component is
  for all scripts unless it says that the database works. \<open>office\<close> (\<open>Mailer\<close>, \<open>DeadLetter\<close>) adds the Graph token and a
  file system as a map of paths with a script of failures. Errors are values of \<open>go_error + 'a\<close>.

  \<^bold>\<open>Theories and the code they model.\<close>
  \<^item> Library of Go: \<open>Prelude\<close>, \<open>GoStrings\<close> (package \<open>strings\<close>, \<open>strconv\<close>), \<open>GoFloat\<close> (float64 as
    the rationals it denotes with rounding to nearest, integers wrapping at 64 bits), \<open>GoTime\<close> with
    \<open>GoTimeProps\<close> (civil dates, formats), \<open>GoDuration\<close> (\<open>time.ParseDuration\<close>), \<open>Json\<close>, \<open>Xml\<close>.
  \<^item> \<open>Model\<close>, \<open>World\<close>, \<open>Store\<close>: \<open>internal/model\<close> and \<open>internal/store\<close>, one definition per SQL
    statement (\<open>sql_...\<close>) and one per method. \<open>StoreInv\<close>: the invariant of the tables and that each
    statement keeps it, \<open>StoreView\<close>: the queue the orders table implements and its refinement,
    \<open>StoreProps\<close>: creation is atomic and idempotent, claiming is a compare-and-set, round trip, reservations.
  \<^item> \<open>Sortoi\<close>, \<open>Enet\<close>: \<open>internal/syspro\<close>. \<open>Batch\<close>, \<open>BatchProps\<close>: \<open>internal/batch\<close>, over
    interfaces of the store (locale \<open>order_queue\<close>) and of SYSPRO (\<open>syspro_sessions\<close>), interpreted on the models of
    the store and of the client: at most one post per order, and the outcomes of a run.
  \<^item> \<open>Hmac\<close>, \<open>Webhook\<close>, \<open>WebhookProps\<close>, \<open>CancelGate\<close>, \<open>CancelProps\<close>: the two webhooks, with SHA-256 and
    HMAC: what an acknowledgement means, what is staged, that cancellation only classifies.
  \<^item> \<open>ShopifyGql\<close>, \<open>Fulfilment\<close>, \<open>FulfilProps\<close>, \<open>Inventory\<close>, \<open>InvProps\<close>, \<open>Reconcile\<close>,
    \<open>ReconcileProps\<close>, \<open>PaySync\<close>, \<open>PayProps\<close>: the syncers and the sweeper.
  \<^item> \<open>Transactions\<close>, \<open>TransactionProps\<close>, \<open>Csv\<close>, \<open>Report\<close>, \<open>ReportProps\<close>, \<open>Mailer\<close>, \<open>MailerProps\<close>,
    \<open>DeadLetter\<close>, \<open>DailyReport\<close>, \<open>DailyReportProps\<close>: the rest of \<open>internal/payments\<close>.
  \<^item> \<open>Config\<close>, \<open>ConfigProps\<close>: \<open>config\<close>. \<open>Server\<close>, \<open>ServiceSteps\<close>, \<open>ServiceProps\<close>: \<open>cmd/server/main.go\<close>,
    the service as a step relation \<open>service_step\<close>, and what holds of every run of it. \<open>EndToEnd\<close>: one paid
    order from its delivery to its SYSPRO number, through the webhook, the store, the batch processor and the client.
  \<^item> \<open>Migrate\<close>, \<open>MigrateProps\<close>: \<open>internal/store/migrate.go\<close>, over any number of failing starts. \<open>Middleware\<close>: the wrappers
    of \<open>main.go\<close> over a response writer, panics included. \<open>Lifecycle\<close>, \<open>LifecycleProps\<close>: its \<open>run\<close> from the
    configuration to the goroutines, the shutdown, and a submission cut short.
  \<^item> \<open>GoScan\<close> (\<open>fmt.Sscanf\<close>), \<open>Resubmit\<close>, \<open>ResubmitProps\<close>, \<open>SkuParity\<close>, \<open>SkuParityProps\<close>, \<open>SendReport\<close>: the
    operator tools \<open>cmd/resubmit-order\<close>, \<open>cmd/sku-parity\<close>, \<open>cmd/send-report\<close>.
  \<^item> \<open>Probes\<close>, \<open>ProbesProps\<close>, \<open>BenchProps\<close>: the probes of SYSPRO under \<open>cmd/\<close> (\<open>enettest\<close>, \<open>sorqrytest\<close>, \<open>invbrwtest\<close>,
    \<open>sortoitest\<close>, \<open>arspaytest\<close>) and \<open>cmd/benchmark\<close>: what each sends, when a test receipt is committed, and the statistics.
  \<^item> \<open>Pipeline\<close>, \<open>PipelineProps\<close>, \<open>MockProps\<close>: the end-to-end test \<open>cmd/pipeline-test\<close> with its two mocks, run against the
    model of the service; the service under test is the record \<open>sut\<close> of how it answers and what it has done after a sleep.
  \<^item> \<open>XmlProps\<close>, \<open>SortoiProps\<close>, \<open>JsonProps\<close>, \<open>AnswerProps\<close>: what is printed as XML or JSON reads back as the tree it was
    printed from, and so for the posted SORTOI document and the admin listing.

  \<^bold>\<open>Interfaces.\<close> Every component that relies on another does so through a locale: \<open>order_queue\<close> and
  \<open>syspro_sessions\<close>, joined in \<open>batch_processor\<close>; \<open>order_intake\<close> (the webhook's store) and \<open>sweep_services\<close> that extends
  it; \<open>cancel_log\<close>, \<open>fulfil_services\<close>, \<open>stock_services\<close>, \<open>payment_book\<close>, \<open>report_office\<close>. Its laws are proved for the models that
  provide it by an interpretation in the theory that needs it, and the properties rest on those facts.

  \<^bold>\<open>Parameters.\<close> \<open>pgconv\<close>: how PostgreSQL stores a NUMERIC and a JSONB value; no law is assumed.
  What the statements of a migration file do to the tables is the argument \<open>run\<close> of \<open>Migrate\<close>.
  The conversion of an out-of-range float64 to an integer, which Go leaves open, is the argument \<open>oor\<close>. What the
  SQL Server view answers is an argument of its lister. No other code outside \<open>src/\<close> is
  represented, and nothing is assumed of it.

  \<^bold>\<open>Bounds and loops.\<close> No fuel is used. The paginated listings stop at a page without a next link; they are
  \<open>function\<close>s whose measure is the number of answers left in the script, and an exhausted script answers with a
  transport error. The polling loops of the end-to-end test are
  \<open>function\<close>s whose measure is the time left to the deadline. The schedulers' and syncers' \<open>for\<close>-\<open>select\<close> loops are
  recursions over the list of their events.

  \<^bold>\<open>Concurrency.\<close> \<open>service_step\<close> interleaves whole passes. Between the statements of a batch run the
  statements of the other components may take effect; \<open>claimed_order_is_exclusive\<close> is about that
  interleaving, and \<open>store_invariant\<close> and \<open>orders_persist\<close> are about every sequence of statements.

  \<^bold>\<open>Not modelled.\<close> Goroutines and tickers as such (the passes they start are), contexts except the check in
  the batch and payments loops, timeouts, the text of log lines, the parameters of the connection pool, the validity of
  URLs, the repair of invalid UTF-8 when encoding, the texts of library errors, and what the tools under \<open>cmd/\<close> print
  (the coloured lines of \<open>cmd/pipeline-test/printer.go\<close> and the tables of the benchmark among them). The servers of the
  mocks are their handlers; that their ports can be bound is a field of the options.
\<close>

end
